(* ===== verification/Prelude.thy ===== *)
theory Prelude
  imports
    Complex_Main
    "HOL-Library.Char_ord"
    "HOL-Library.List_Lexorder"
    "HOL-Library.Product_Lexorder"
begin

text \<open>
  Shared ground of the development: the exceptions the modelled Python code raises, the
  sequencing of computations that may raise, relational tables as lists of rows with the
  SQL statements the stores issue (select, update, insert under constraints), and the
  string helpers of Python's \<^verbatim>\<open>str\<close>.

  Strings are lists of 8-bit characters (code points below 256).  The text of exception
  messages is not modelled; the class of the exception is.
\<close>

named_theorems result_simps \<open>inversion of computations that may raise\<close>
named_theorems table_simps \<open>tables as lists of rows\<close>

section \<open>Exceptions and sequencing\<close>

datatype py_error =
    RunNotFoundError
  | RunConflictError
  | RunLeaseError
  | InvalidRunTransitionError
  | EffectConflictError
  | ExecutionScopeError
  | InvalidGoalTransitionError
  | GoalNotFoundError
  | GoalRevisionConflictError
  | GoalLeaseConflictError
  | GoalActionConflictError
  | ApprovalNotFoundError
  | ApprovalConflictError
  | BudgetExceededError
  | InvalidOperation
  | IntegrityError
  | KeyError
  | OverflowError
  | RuntimeError
  | TypeError
  | ValueError

type_synonym 'a result = "py_error + 'a"

text \<open>\<open>and_then m f\<close> runs \<open>f\<close> on the value of \<open>m\<close>; an exception of \<open>m\<close> propagates.\<close>

definition and_then :: "'a result \<Rightarrow> ('a \<Rightarrow> 'b result) \<Rightarrow> 'b result" where
  "and_then m f = (case m of Inl e \<Rightarrow> Inl e | Inr x \<Rightarrow> f x)"

definition require :: "bool \<Rightarrow> py_error \<Rightarrow> unit result" where
  "require c e = (if c then Inr () else Inl e)"

definition row_or :: "py_error \<Rightarrow> 'a option \<Rightarrow> 'a result" where
  "row_or e r = (case r of None \<Rightarrow> Inl e | Some x \<Rightarrow> Inr x)"

lemma and_then_Inl [simp]: "and_then (Inl e) f = Inl e"
  by (simp add: and_then_def)

lemma and_then_Inr [simp]: "and_then (Inr x) f = f x"
  by (simp add: and_then_def)

lemma require_True [simp]: "require True e = Inr ()"
  by (simp add: require_def)

lemma require_False [simp]: "require False e = Inl e"
  by (simp add: require_def)

lemma and_then_eq_Inr [result_simps]:
  "and_then m f = Inr y \<longleftrightarrow> (\<exists>x. m = Inr x \<and> f x = Inr y)"
  by (cases m) auto

lemma and_then_eq_Inl [result_simps]:
  "and_then m f = Inl e \<longleftrightarrow> m = Inl e \<or> (\<exists>x. m = Inr x \<and> f x = Inl e)"
  by (cases m) auto

lemma require_eq_Inr [result_simps]: "require c e = Inr u \<longleftrightarrow> c"
  by (simp add: require_def)

lemma require_eq_Inl [result_simps]: "require c e = Inl e' \<longleftrightarrow> \<not> c \<and> e' = e"
  by (auto simp: require_def)

lemma row_or_eq_Inr [result_simps]: "row_or e r = Inr x \<longleftrightarrow> r = Some x"
  by (auto simp: row_or_def split: option.splits)

lemma row_or_eq_Inl [result_simps]: "row_or e r = Inl e' \<longleftrightarrow> r = None \<and> e' = e"
  by (auto simp: row_or_def split: option.splits)

text \<open>Mapping a fallible function over a list, stopping at the first exception.\<close>

fun map_result :: "('a \<Rightarrow> 'b result) \<Rightarrow> 'a list \<Rightarrow> 'b list result" where
  "map_result f [] = Inr []"
| "map_result f (x # xs) =
     and_then (f x) (\<lambda>y. and_then (map_result f xs) (\<lambda>ys. Inr (y # ys)))"

lemma map_result_length: "map_result f xs = Inr ys \<Longrightarrow> length ys = length xs"
  by (induction xs arbitrary: ys) (auto simp: result_simps)

lemma map_result_map:
  assumes "map_result f xs = Inr ys" and "\<And>x y. x \<in> set xs \<Longrightarrow> f x = Inr y \<Longrightarrow> g y = h x"
  shows "map g ys = map h xs"
  using assms by (induction xs arbitrary: ys) (auto simp: result_simps)

lemma map_result_Inr:
  "(\<And>x. x \<in> set xs \<Longrightarrow> f x = Inr (g x)) \<Longrightarrow> map_result f xs = Inr (map g xs)"
  by (induction xs) simp_all

text \<open>An optional argument is checked when it is given.\<close>

definition opt_result :: "('a \<Rightarrow> 'b result) \<Rightarrow> 'a option \<Rightarrow> 'b option result" where
  "opt_result f v = (case v of None \<Rightarrow> Inr None | Some x \<Rightarrow> and_then (f x) (\<lambda>y. Inr (Some y)))"

lemma opt_result_simps [simp]:
  "opt_result f None = Inr None"
  "opt_result f (Some x) = and_then (f x) (\<lambda>y. Inr (Some y))"
  by (simp_all add: opt_result_def)

section \<open>Tables\<close>

text \<open>
  A table is the list of its rows in insertion order.  \<open>UPDATE t SET f WHERE P\<close> is
  \<open>upd_where P f t\<close>; \<open>SELECT ... WHERE P\<close> of one row is \<open>find P t\<close>;
  \<open>SELECT ... WHERE P ORDER BY k LIMIT 1\<close> is \<open>first_by k P t\<close>.
\<close>

definition upd_where :: "('r \<Rightarrow> bool) \<Rightarrow> ('r \<Rightarrow> 'r) \<Rightarrow> 'r list \<Rightarrow> 'r list" where
  "upd_where P f = map (\<lambda>r. if P r then f r else r)"

definition rowcount :: "('r \<Rightarrow> bool) \<Rightarrow> 'r list \<Rightarrow> nat" where
  "rowcount P xs = length (filter P xs)"

definition first_by :: "('r \<Rightarrow> 'k::linorder) \<Rightarrow> ('r \<Rightarrow> bool) \<Rightarrow> 'r list \<Rightarrow> 'r option" where
  "first_by k P xs = (case sort_key k (filter P xs) of [] \<Rightarrow> None | r # _ \<Rightarrow> Some r)"

text \<open>\<open>INSERT\<close>: the constraints of the table hold for the new row, or IntegrityError.\<close>

definition insert_row :: "bool \<Rightarrow> 'r \<Rightarrow> 'r list \<Rightarrow> 'r list result" where
  "insert_row ok r xs = (if ok then Inr (xs @ [r]) else Inl IntegrityError)"

text \<open>\<open>SELECT COALESCE(MAX(seq), 0) + 1\<close> over the given sequence numbers.\<close>

definition next_seq :: "int list \<Rightarrow> int" where
  "next_seq xs = fold max xs 0 + 1"

lemma set_upd_where [table_simps]: "set (upd_where P f xs) = (\<lambda>r. if P r then f r else r) ` set xs"
  by (simp add: upd_where_def)

lemma ball_upd_where [table_simps]:
  "(\<forall>r\<in>set (upd_where P f xs). Q r) \<longleftrightarrow> (\<forall>r\<in>set xs. Q (if P r then f r else r))"
  by (auto simp: upd_where_def)

lemma upd_where_Nil [simp]: "upd_where P f [] = []"
  by (simp add: upd_where_def)

lemma upd_where_append [simp]: "upd_where P f (xs @ ys) = upd_where P f xs @ upd_where P f ys"
  by (simp add: upd_where_def)

lemma length_upd_where [simp]: "length (upd_where P f xs) = length xs"
  by (simp add: upd_where_def)

lemma upd_where_unmatched: "(\<And>r. r \<in> set xs \<Longrightarrow> \<not> P r) \<Longrightarrow> upd_where P f xs = xs"
  by (simp add: upd_where_def map_idI)

lemma map_upd_where: "(\<And>r. P r \<Longrightarrow> k (f r) = k r) \<Longrightarrow> map k (upd_where P f xs) = map k xs"
  by (simp add: upd_where_def)

lemma find_upd_where:
  assumes "\<And>r. P r \<Longrightarrow> Q (f r) = Q r"
  shows "find Q (upd_where P f xs) = map_option (\<lambda>r. if P r then f r else r) (find Q xs)"
  using assms by (induction xs) (auto simp: upd_where_def)

lemma filter_upd_where:
  assumes "\<And>r. P r \<Longrightarrow> Q (f r) = Q r"
  shows "filter Q (upd_where P f xs) = upd_where P f (filter Q xs)"
  using assms by (induction xs) (auto simp: upd_where_def)

lemma find_append [simp]:
  "find P (xs @ ys) = (case find P xs of None \<Rightarrow> find P ys | Some x \<Rightarrow> Some x)"
  by (induction xs) auto

lemma find_SomeD: "find P xs = Some x \<Longrightarrow> P x \<and> x \<in> set xs"
  by (metis find_Some_iff nth_mem)

lemma find_NoneD: "find P xs = None \<Longrightarrow> x \<in> set xs \<Longrightarrow> \<not> P x"
  by (simp add: find_None_iff)

lemma rowcount_pos: "0 < rowcount P xs \<longleftrightarrow> (\<exists>x\<in>set xs. P x)"
  by (auto simp: rowcount_def filter_empty_conv)

lemma first_by_SomeD: "first_by k P xs = Some r \<Longrightarrow> r \<in> set xs \<and> P r"
proof -
  assume "first_by k P xs = Some r"
  then obtain rs where s: "sort_key k (filter P xs) = r # rs"
    by (auto simp: first_by_def split: list.splits)
  have "r \<in> set (sort_key k (filter P xs))" unfolding s by simp
  then show ?thesis by simp
qed

lemma first_by_None: "first_by k P xs = None \<longleftrightarrow> (\<forall>r\<in>set xs. \<not> P r)"
proof -
  have "first_by k P xs = None \<longleftrightarrow> sort_key k (filter P xs) = []"
    by (auto simp: first_by_def split: list.splits)
  also have "\<dots> \<longleftrightarrow> filter P xs = []"
    by (metis length_0_conv length_sort)
  finally show ?thesis by (simp add: filter_empty_conv)
qed

lemma first_by_least:
  assumes "first_by k P xs = Some r" and "x \<in> set xs" and "P x"
  shows "k r \<le> k x"
proof -
  from assms(1) obtain rs where s: "sort_key k (filter P xs) = r # rs"
    by (auto simp: first_by_def split: list.splits)
  have "sorted (map k (r # rs))" using sorted_sort_key [of k "filter P xs"] s by simp
  moreover have "x \<in> set (sort_key k (filter P xs))" using assms(2,3) by simp
  ultimately show ?thesis using s by auto
qed

lemma insert_row_eq_Inr [result_simps]: "insert_row ok r xs = Inr ys \<longleftrightarrow> ok \<and> ys = xs @ [r]"
  by (auto simp: insert_row_def)

lemma insert_row_eq_Inl [result_simps]: "insert_row ok r xs = Inl e \<longleftrightarrow> \<not> ok \<and> e = IntegrityError"
  by (auto simp: insert_row_def)

lemma fold_max_init: "(m::int) \<le> fold max xs m"
proof (induction xs arbitrary: m)
  case (Cons x xs)
  from Cons [of "max x m"] show ?case by simp
qed simp

lemma fold_max_ge: "x \<in> set xs \<Longrightarrow> x \<le> fold max xs (m::int)"
proof (induction xs arbitrary: m)
  case (Cons y ys)
  show ?case
  proof (cases "x = y")
    case True
    then show ?thesis using fold_max_init [of "max y m" ys] by simp
  next
    case False
    with Cons show ?thesis by simp
  qed
qed simp

lemma next_seq_fresh: "x \<in> set xs \<Longrightarrow> x < next_seq xs"
  using fold_max_ge [of x xs 0] by (simp add: next_seq_def)

lemma next_seq_pos: "1 \<le> next_seq xs"
  using fold_max_init [of 0 xs] by (simp add: next_seq_def)

text \<open>The next number after a gapless log \<open>1, ..., n\<close> is \<open>n + 1\<close>.\<close>

lemma fold_max_upto: "fold max (map int [1..<Suc n]) 0 = int n"
  by (induction n) auto

lemma next_seq_upto: "next_seq (map int [1..<Suc n]) = int (Suc n)"
  unfolding next_seq_def fold_max_upto by simp

section \<open>Python strings\<close>

definition space_code :: "nat \<Rightarrow> bool" where
  "space_code n = (if n \<le> 32 then 28 \<le> n \<or> 9 \<le> n \<and> n \<le> 13 else n = 133 \<or> n = 160)"

definition py_isspace :: "char \<Rightarrow> bool" where
  "py_isspace c = space_code (of_char c)"

definition strip :: "string \<Rightarrow> string" where
  "strip s = rev (dropWhile py_isspace (rev (dropWhile py_isspace s)))"

lemma dropWhile_idem: "dropWhile P (dropWhile P xs) = dropWhile P xs"
  by (induction xs) auto

lemma dropWhile_eq_self: "xs \<noteq> [] \<Longrightarrow> \<not> P (hd xs) \<Longrightarrow> dropWhile P xs = xs"
  by (cases xs) auto

lemma rev_dropWhile_rev_prefix: "\<exists>ys. xs = rev (dropWhile P (rev xs)) @ ys"
  by (metis rev_append rev_rev_ident takeWhile_dropWhile_id)

lemma strip_hd: "strip s \<noteq> [] \<Longrightarrow> \<not> py_isspace (hd (strip s))"
proof -
  assume ne: "strip s \<noteq> []"
  let ?t = "dropWhile py_isspace s"
  obtain ys where ys: "?t = strip s @ ys"
    using rev_dropWhile_rev_prefix [of ?t py_isspace] by (auto simp: strip_def)
  with ne have "hd (strip s) = hd ?t" and "?t \<noteq> []" by (auto simp: hd_append2)
  then show ?thesis using hd_dropWhile [of py_isspace s] by metis
qed

lemma strip_Nil [simp]: "strip [] = []"
  by (simp add: strip_def)

lemma strip_idem [simp]: "strip (strip s) = strip s"
proof (cases "strip s = []")
  case True
  then show ?thesis by simp
next
  case False
  have r: "strip s = rev (dropWhile py_isspace (rev (dropWhile py_isspace s)))"
    by (simp add: strip_def)
  have "dropWhile py_isspace (strip s) = strip s"
    using False strip_hd dropWhile_eq_self by metis
  then have "strip (strip s) = rev (dropWhile py_isspace (rev (strip s)))"
    by (simp add: strip_def)
  also have "\<dots> = strip s"
    unfolding r by (simp only: rev_rev_ident dropWhile_idem)
  finally show ?thesis .
qed

text \<open>Whether \<open>p\<close> occurs in \<open>s\<close>: Python's \<^verbatim>\<open>p in s\<close>.\<close>

fun starts_with :: "string \<Rightarrow> string \<Rightarrow> bool" where
  "starts_with [] s = True"
| "starts_with (c # p) [] = False"
| "starts_with (c # p) (d # s) = (c = d \<and> starts_with p s)"

fun occurs_in :: "string \<Rightarrow> string \<Rightarrow> bool" where
  "occurs_in p [] = (p = [])"
| "occurs_in p (c # s) = (starts_with p (c # s) \<or> occurs_in p s)"

definition ends_with :: "string \<Rightarrow> string \<Rightarrow> bool" where
  "ends_with p s = starts_with (rev p) (rev s)"

lemma starts_with_append: "starts_with p s \<longleftrightarrow> (\<exists>t. s = p @ t)"
  by (induction p s rule: starts_with.induct) auto

lemma occurs_in_iff: "occurs_in p s \<longleftrightarrow> (\<exists>a b. s = a @ p @ b)"
proof (induction s)
  case Nil
  then show ?case by auto
next
  case (Cons c s)
  have "occurs_in p (c # s) \<longleftrightarrow> (\<exists>b. c # s = p @ b) \<or> (\<exists>a b. s = a @ p @ b)"
    using Cons by (simp add: starts_with_append)
  also have "\<dots> \<longleftrightarrow> (\<exists>a b. c # s = a @ p @ b)"
    by (metis append_Cons append_Nil neq_Nil_conv list.inject)
  finally show ?case .
qed

text \<open>Decimal digits of a natural number, most significant first.\<close>

fun digits_of :: "nat \<Rightarrow> string" where
  "digits_of n = (if n < 10 then [char_of (48 + n)] else digits_of (n div 10) @ [char_of (48 + n mod 10)])"

declare digits_of.simps [simp del]

definition int_text :: "int \<Rightarrow> string" where
  "int_text i = (if i < 0 then ''-'' @ digits_of (nat (- i)) else digits_of (nat i))"

text \<open>Left-pad with zeros to a width, as \<^verbatim>\<open>{:0wd}\<close> does.\<close>

definition zero_pad :: "nat \<Rightarrow> string \<Rightarrow> string" where
  "zero_pad w s = replicate (w - length s) (CHR ''0'') @ s"

section \<open>Sorted tables\<close>

lemma insort_key_map:
  "(\<And>x. k (f x) = k x) \<Longrightarrow> insort_key k (f x) (map f xs) = map f (insort_key k x xs)"
  by (induction xs) auto

lemma sort_key_map: "(\<And>x. k (f x) = k x) \<Longrightarrow> sort_key k (map f xs) = map f (sort_key k xs)"
  by (induction xs) (simp_all add: insort_key_map)

lemma insort_key_last: "k y < k x \<Longrightarrow> insort_key k y (zs @ [x]) = insort_key k y zs @ [x]"
  by (induction zs) auto

lemma sort_key_last: "\<forall>y\<in>set xs. k y < k x \<Longrightarrow> sort_key k (xs @ [x]) = sort_key k xs @ [x]"
  by (induction xs) (simp_all add: insort_key_last)

lemma map_of_insort: "map_of (insort_key fst (k, v) xs) = (map_of xs)(k \<mapsto> v)"
  by (induction xs) auto

lemma map_of_sort_key [simp]: "map_of (sort_key fst xs) = map_of xs"
  by (induction xs) (auto simp: map_of_insort)

lemma map_result_comp: "map_result f (map g xs) = map_result (\<lambda>x. f (g x)) xs"
  by (induction xs) simp_all

lemma map_result_snoc: "map_result f xs = Inr ys \<Longrightarrow> f x = Inr y \<Longrightarrow> map_result f (xs @ [x]) = Inr (ys @ [y])"
  by (induction xs arbitrary: ys) (auto simp: result_simps)

end
