(* ===== verification/Json.thy ===== *)
theory Json
  imports Prelude
begin

text \<open>
  Plain data of the durable store: the JSON-shaped Python values of payloads, budgets and
  metadata; Python's equality on them; the freezing of mappings (\<^verbatim>\<open>results.py\<close>); the
  redaction of secrets (\<^verbatim>\<open>redaction.py\<close>); and the stable JSON text that is hashed.

  Two leaves stand for texts the code builds and parses itself: \<open>PTime\<close> is the ISO text of
  an instant in UTC (in microseconds since the epoch) and \<open>PDec\<close> the text of a
  \<^verbatim>\<open>Decimal\<close>.  A \<open>PTuple\<close> is what freezing makes of a list; the two are not equal in
  Python.  Floats inside payloads are not modelled.
\<close>

section \<open>Values\<close>

datatype decimal = Dec (dec_coeff: int) (dec_scale: nat)

definition dec_value :: "decimal \<Rightarrow> rat" where
  "dec_value d = of_int (dec_coeff d) / 10 ^ dec_scale d"

datatype pyval =
    PNone
  | PBool bool
  | PInt int
  | PStr string
  | PTime int
  | PDec decimal
  | PList "pyval list"
  | PTuple "pyval list"
  | PDict "(string \<times> pyval) list"

type_synonym pydict = "(string \<times> pyval) list"

abbreviation opt_str :: "string option \<Rightarrow> pyval" where
  "opt_str v \<equiv> (case v of None \<Rightarrow> PNone | Some s \<Rightarrow> PStr s)"

text \<open>\<^verbatim>\<open>d[k] = v\<close> keeps the position of a present key and appends a new one.\<close>

fun assoc_set :: "'k \<Rightarrow> 'v \<Rightarrow> ('k \<times> 'v) list \<Rightarrow> ('k \<times> 'v) list" where
  "assoc_set k v [] = [(k, v)]"
| "assoc_set k v ((k', v') # d) = (if k' = k then (k, v) # d else (k', v') # assoc_set k v d)"

fun dict_set :: "string \<Rightarrow> pyval \<Rightarrow> pydict \<Rightarrow> pydict" where
  "dict_set k v [] = [(k, v)]"
| "dict_set k v ((k', v') # d) = (if k' = k then (k, v) # d else (k', v') # dict_set k v d)"

lemma map_of_dict_set [simp]: "map_of (dict_set k v d) = (map_of d)(k \<mapsto> v)"
  by (induction k v d rule: dict_set.induct) auto

text \<open>Induction over values, with the elements of lists and the values of dicts.\<close>

lemma pyval_induct [case_names PNone PBool PInt PStr PTime PDec PList PTuple PDict]:
  assumes "P PNone" and "\<And>b. P (PBool b)" and "\<And>i. P (PInt i)" and "\<And>s. P (PStr s)"
    and "\<And>t. P (PTime t)" and "\<And>d. P (PDec d)"
    and "\<And>xs. (\<And>x. x \<in> set xs \<Longrightarrow> P x) \<Longrightarrow> P (PList xs)"
    and "\<And>xs. (\<And>x. x \<in> set xs \<Longrightarrow> P x) \<Longrightarrow> P (PTuple xs)"
    and "\<And>kvs. (\<And>k v. (k, v) \<in> set kvs \<Longrightarrow> P v) \<Longrightarrow> P (PDict kvs)"
  shows "P v"
  by (induction v) (auto intro: assms simp: snds.simps)

section \<open>Freezing\<close>

text \<open>\<^verbatim>\<open>freeze_value\<close>: mappings become read-only mappings, sequences become tuples.\<close>

fun freeze_value :: "pyval \<Rightarrow> pyval" where
  "freeze_value (PDict kvs) = PDict (map (\<lambda>(k, v). (k, freeze_value v)) kvs)"
| "freeze_value (PList xs) = PTuple (map freeze_value xs)"
| "freeze_value (PTuple xs) = PTuple (map freeze_value xs)"
| "freeze_value v = v"

definition freeze_mapping :: "pydict \<Rightarrow> pydict" where
  "freeze_mapping d = map (\<lambda>(k, v). (k, freeze_value v)) d"

text \<open>\<^verbatim>\<open>plain_data\<close>: the inverse view, with lists for sequences.\<close>

fun plain_data :: "pyval \<Rightarrow> pyval" where
  "plain_data (PDict kvs) = PDict (map (\<lambda>(k, v). (k, plain_data v)) kvs)"
| "plain_data (PList xs) = PList (map plain_data xs)"
| "plain_data (PTuple xs) = PList (map plain_data xs)"
| "plain_data v = v"

section \<open>Redaction of secrets\<close>

definition redacted_text :: string where
  "redacted_text = ''[redacted]''"

definition secret_key_markers :: "string list" where
  "secret_key_markers =
     [''access_key'', ''accesskey'', ''api_key'', ''apikey'', ''authorization'', ''cookie'',
      ''credential'', ''passwd'', ''password'', ''private_key'', ''privatekey'', ''pwd'',
      ''secret'', ''ssh_key'', ''sshkey'']"

definition is_lower_digit :: "char \<Rightarrow> bool" where
  "is_lower_digit c = ((CHR ''a'' \<le> c \<and> c \<le> CHR ''z'') \<or> (CHR ''0'' \<le> c \<and> c \<le> CHR ''9''))"

definition is_upper :: "char \<Rightarrow> bool" where
  "is_upper c = (CHR ''A'' \<le> c \<and> c \<le> CHR ''Z'')"

text \<open>An underscore between a lower-case letter or digit and an upper-case letter.\<close>

fun snake_from :: "char \<Rightarrow> string \<Rightarrow> string" where
  "snake_from c [] = [c]"
| "snake_from c (d # s) =
     (if is_lower_digit c \<and> is_upper d then c # CHR ''_'' # snake_from d s else c # snake_from d s)"

fun snake_case :: "string \<Rightarrow> string" where
  "snake_case [] = []"
| "snake_case (c # s) = snake_from c s"

text \<open>
  \<^verbatim>\<open>casefold\<close> on code points below 256: ASCII capitals fold to small letters, \<^verbatim>\<open>U+00DF\<close>
  to \<^verbatim>\<open>ss\<close>; the other letters fold to letters outside \<^verbatim>\<open>[a-z0-9]\<close>, which the next step
  replaces whatever they are.
\<close>

definition casefold_char :: "char \<Rightarrow> string" where
  "casefold_char c =
     (if is_upper c then [char_of (of_char c + (32::nat))]
      else if of_char c = (223::nat) then ''ss'' else [c])"

text \<open>Every maximal run of other characters becomes one underscore.\<close>

fun squash_others :: "bool \<Rightarrow> string \<Rightarrow> string" where
  "squash_others pending [] = []"
| "squash_others pending (c # s) =
     (if is_lower_digit c then c # squash_others False s
      else if pending then squash_others True s
      else CHR ''_'' # squash_others True s)"

definition strip_underscores :: "string \<Rightarrow> string" where
  "strip_underscores s =
     rev (dropWhile (\<lambda>c. c = CHR ''_'') (rev (dropWhile (\<lambda>c. c = CHR ''_'') s)))"

definition normalized_key :: "string \<Rightarrow> string" where
  "normalized_key key =
     strip_underscores (squash_others False (concat (map casefold_char (snake_case key))))"

definition secret_name :: "string \<Rightarrow> bool" where
  "secret_name normalized =
     ((\<exists>m\<in>set secret_key_markers. occurs_in m normalized)
      \<or> normalized = ''token'' \<or> ends_with ''_token'' normalized)"

definition is_secret_key :: "string \<Rightarrow> bool" where
  "is_secret_key key = secret_name (normalized_key key)"

text \<open>
  \<^verbatim>\<open>redact_data\<close>, for the function \<open>rt\<close> that redacts free text (\<^verbatim>\<open>redact_text\<close>, a
  composition of regular-expression substitutions).
\<close>

fun redact_data :: "(string \<Rightarrow> string) \<Rightarrow> pyval \<Rightarrow> pyval" where
  "redact_data rt (PDict kvs) =
     PDict (map (\<lambda>(k, v). (k, if is_secret_key k then PStr redacted_text else redact_data rt v)) kvs)"
| "redact_data rt (PList xs) = PList (map (redact_data rt) xs)"
| "redact_data rt (PTuple xs) = PList (map (redact_data rt) xs)"
| "redact_data rt (PStr s) = PStr (rt s)"
| "redact_data rt v = v"

definition redact_dict :: "(string \<Rightarrow> string) \<Rightarrow> pydict \<Rightarrow> pydict" where
  "redact_dict rt d =
     map (\<lambda>(k, v). (k, if is_secret_key k then PStr redacted_text else redact_data rt v)) d"

lemma redact_data_PDict: "redact_data rt (PDict d) = PDict (redact_dict rt d)"
  by (simp add: redact_dict_def)

text \<open>Every value stored under a secret key, at any depth, is the redaction marker.\<close>

fun secrets_redacted :: "pyval \<Rightarrow> bool" where
  "secrets_redacted (PDict kvs) =
     list_all (\<lambda>(k, v). if is_secret_key k then v = PStr redacted_text else secrets_redacted v) kvs"
| "secrets_redacted (PList xs) = list_all secrets_redacted xs"
| "secrets_redacted (PTuple xs) = list_all secrets_redacted xs"
| "secrets_redacted v = True"

lemma redact_data_secrets: "secrets_redacted (redact_data rt v)"
  by (induction v rule: pyval_induct) (auto simp: list_all_iff)

lemma redact_data_idem:
  assumes "\<And>s. rt (rt s) = rt s"
  shows "redact_data rt (redact_data rt v) = redact_data rt v"
  by (induction v rule: pyval_induct) (auto simp: assms)

section \<open>The stored form and Python's equality\<close>

text \<open>\<^verbatim>\<open>json.loads(json.dumps(v, sort_keys=True))\<close>: sorted keys, lists for sequences.\<close>

fun sort_keys :: "pyval \<Rightarrow> pyval" where
  "sort_keys (PDict kvs) = PDict (sort_key fst (map (\<lambda>(k, v). (k, sort_keys v)) kvs))"
| "sort_keys (PList xs) = PList (map sort_keys xs)"
| "sort_keys (PTuple xs) = PList (map sort_keys xs)"
| "sort_keys v = v"

definition json_store :: "(string \<Rightarrow> string) \<Rightarrow> pydict \<Rightarrow> pydict" where
  "json_store rt d = sort_key fst (map (\<lambda>(k, v). (k, sort_keys v)) (redact_dict rt d))"

text \<open>
  Python's \<^verbatim>\<open>==\<close> on plain data: dicts are compared without regard to the order of their
  keys, \<^verbatim>\<open>True\<close> equals \<^verbatim>\<open>1\<close>, and a list never equals a tuple.
\<close>

fun eq_form :: "pyval \<Rightarrow> pyval" where
  "eq_form (PDict kvs) = PDict (sort_key fst (map (\<lambda>(k, v). (k, eq_form v)) kvs))"
| "eq_form (PList xs) = PList (map eq_form xs)"
| "eq_form (PTuple xs) = PTuple (map eq_form xs)"
| "eq_form (PBool b) = PInt (if b then 1 else 0)"
| "eq_form v = v"

definition py_eq :: "pyval \<Rightarrow> pyval \<Rightarrow> bool" where
  "py_eq a b = (eq_form a = eq_form b)"

lemma py_eq_refl [simp]: "py_eq v v"
  by (simp add: py_eq_def)

lemma py_eq_sym: "py_eq a b \<Longrightarrow> py_eq b a"
  by (simp add: py_eq_def)

lemma py_eq_trans: "py_eq a b \<Longrightarrow> py_eq b c \<Longrightarrow> py_eq a c"
  by (simp add: py_eq_def)

section \<open>Stable JSON text\<close>

definition hex_digit :: "nat \<Rightarrow> char" where
  "hex_digit n = (if n < 10 then char_of (48 + n) else char_of (87 + n))"

definition json_escape :: "char \<Rightarrow> nat \<Rightarrow> string" where
  "json_escape c n =
     (if 34 < n \<and> n \<noteq> 92 then [c]
      else if n = 34 then [CHR 0x5C, c]
      else if n = 92 then [c, c]
      else if n = 8 then [CHR 0x5C, CHR ''b'']
      else if n = 12 then [CHR 0x5C, CHR ''f'']
      else if n = 10 then [CHR 0x5C, CHR ''n'']
      else if n = 13 then [CHR 0x5C, CHR ''r'']
      else if n = 9 then [CHR 0x5C, CHR ''t'']
      else if n < 32 then [CHR 0x5C, CHR ''u'', CHR ''0'', CHR ''0'', hex_digit (n div 16), hex_digit (n mod 16)]
      else [c])"

definition json_char :: "char \<Rightarrow> string" where
  "json_char c = json_escape c (of_char c)"

abbreviation dquote :: char where
  "dquote \<equiv> CHR 0x22"

definition json_string :: "string \<Rightarrow> string" where
  "json_string s = dquote # concat (map json_char s) @ [dquote]"

text \<open>The civil date of a day count, and \<^verbatim>\<open>datetime.isoformat()\<close> of a UTC instant.\<close>

definition civil_from_days :: "int \<Rightarrow> int \<times> int \<times> int" where
  "civil_from_days days =
     (let z = days + 719468; era = z div 146097; doe = z mod 146097;
          yoe = (doe - doe div 1460 + doe div 36524 - doe div 146096) div 365;
          doy = doe - (365 * yoe + yoe div 4 - yoe div 100);
          mp = (5 * doy + 2) div 153;
          d = doy - (153 * mp + 2) div 5 + 1;
          m = (if mp < 10 then mp + 3 else mp - 9);
          y = yoe + era * 400 + (if m \<le> 2 then 1 else 0)
      in (y, m, d))"

definition pad_int :: "nat \<Rightarrow> int \<Rightarrow> string" where
  "pad_int w i = zero_pad w (int_text i)"

definition iso_utc :: "int \<Rightarrow> string" where
  "iso_utc t =
     (let us = t mod 1000000; secs = t div 1000000; days = secs div 86400; sod = secs mod 86400
      in case civil_from_days days of (y, m, d) \<Rightarrow>
        pad_int 4 y @ ''-'' @ pad_int 2 m @ ''-'' @ pad_int 2 d @ ''T'' @
        pad_int 2 (sod div 3600) @ '':'' @ pad_int 2 (sod div 60 mod 60) @ '':'' @
        pad_int 2 (sod mod 60) @ (if us = 0 then [] else ''.'' @ pad_int 6 us) @ ''+00:00'')"

text \<open>\<^verbatim>\<open>str\<close> of a Decimal whose text needs no exponent.\<close>

definition decimal_text :: "decimal \<Rightarrow> string" where
  "decimal_text d =
     (let c = dec_coeff d; k = dec_scale d; ds = zero_pad (Suc k) (digits_of (nat \<bar>c\<bar>));
          n = length ds - k
      in (if c < 0 then ''-'' else []) @ take n ds @ (if k = 0 then [] else ''.'' @ drop n ds))"

fun intersperse_comma :: "string list \<Rightarrow> string" where
  "intersperse_comma [] = []"
| "intersperse_comma [x] = x"
| "intersperse_comma (x # y # xs) = x @ '','' @ intersperse_comma (y # xs)"

text \<open>\<^verbatim>\<open>json.dumps(v, sort_keys=True, separators=(",", ":"), ensure_ascii=False)\<close>.\<close>

fun json_dumps :: "pyval \<Rightarrow> string" where
  "json_dumps PNone = ''null''"
| "json_dumps (PBool b) = (if b then ''true'' else ''false'')"
| "json_dumps (PInt i) = int_text i"
| "json_dumps (PStr s) = json_string s"
| "json_dumps (PTime t) = json_string (iso_utc t)"
| "json_dumps (PDec d) = json_string (decimal_text d)"
| "json_dumps (PList xs) = ''['' @ intersperse_comma (map json_dumps xs) @ '']''"
| "json_dumps (PTuple xs) = ''['' @ intersperse_comma (map json_dumps xs) @ '']''"
| "json_dumps (PDict kvs) =
     ''{'' @ intersperse_comma (map (\<lambda>(k, t). json_string k @ '':'' @ t)
        (sort_key fst (map (\<lambda>(k, v). (k, json_dumps v)) kvs))) @ ''}''"

section \<open>The world outside the store\<close>

text \<open>
  What the modelled code takes from its surroundings: the redaction of free text, the
  identifiers \<^verbatim>\<open>uuid4().hex\<close> in the order they are drawn, and \<^verbatim>\<open>sha256(...).hexdigest()\<close>.
\<close>

record world =
  redact_text :: "string \<Rightarrow> string"
  uuid4 :: "nat \<Rightarrow> string"
  sha256 :: "string \<Rightarrow> string"

text \<open>Identifiers carry no blanks.\<close>

definition clean_world :: "world \<Rightarrow> bool" where
  "clean_world w \<longleftrightarrow> (\<forall>n. strip (uuid4 w n) = uuid4 w n)"

text \<open>\<^verbatim>\<open>_safe_payload\<close> and \<^verbatim>\<open>_safe_mapping\<close> (redacted; redacted and frozen).\<close>

definition safe_payload :: "world \<Rightarrow> pydict \<Rightarrow> pydict" where
  "safe_payload w d = redact_dict (redact_text w) d"

definition safe_mapping :: "world \<Rightarrow> pydict \<Rightarrow> pydict" where
  "safe_mapping w d = freeze_mapping (redact_dict (redact_text w) d)"

definition stored_json :: "world \<Rightarrow> pydict \<Rightarrow> pydict" where
  "stored_json w d = json_store (redact_text w) d"

end
