(* ===== verification/Scope.thy ===== *)
theory Scope
  imports Json
begin

text \<open>
  \<^verbatim>\<open>hosting/scope.py\<close>: the authority boundary of one execution, its validation, its
  serialisation, its canonical text and storage key, and the checks that compare a
  requested scope with a persisted one.
\<close>

section \<open>The scope and its validation\<close>

record exec_scope =
  sc_tenant :: string
  sc_workspace :: string
  sc_actor :: "string option"
  sc_agent :: string
  sc_version :: string
  sc_run :: string
  sc_conversation :: "string option"
  sc_trigger :: "string option"
  sc_channel :: "string option"
  sc_parent :: "string option"
  sc_grants :: "string set"

definition clean_ok :: "string \<Rightarrow> bool" where
  "clean_ok t = (t \<noteq> [] \<and> length t \<le> 256 \<and> CHR 0x00 \<notin> set t)"

definition value_ok :: "string \<Rightarrow> bool" where
  "value_ok s = clean_ok (strip s)"

definition required_clean :: "string \<Rightarrow> string result" where
  "required_clean t = (if clean_ok t then Inr t else Inl ExecutionScopeError)"

definition required_value :: "string \<Rightarrow> string result" where
  "required_value s = required_clean (strip s)"

definition optional_value :: "string option \<Rightarrow> string option result" where
  "optional_value v = opt_result required_value v"

text \<open>\<^verbatim>\<open>__post_init__\<close>: every construction of a scope goes through it.\<close>

definition make_scope :: "exec_scope \<Rightarrow> exec_scope result" where
  "make_scope s =
     and_then (required_value (sc_tenant s)) (\<lambda>tenant.
     and_then (required_value (sc_workspace s)) (\<lambda>workspace.
     and_then (required_value (sc_agent s)) (\<lambda>agent.
     and_then (required_value (sc_version s)) (\<lambda>version.
     and_then (required_value (sc_run s)) (\<lambda>run.
     and_then (optional_value (sc_actor s)) (\<lambda>actor.
     and_then (optional_value (sc_conversation s)) (\<lambda>conversation.
     and_then (optional_value (sc_trigger s)) (\<lambda>trigger.
     and_then (optional_value (sc_channel s)) (\<lambda>channel.
     and_then (optional_value (sc_parent s)) (\<lambda>parent.
     and_then (require (\<forall>g\<in>sc_grants s. value_ok g) ExecutionScopeError) (\<lambda>_.
       Inr \<lparr>sc_tenant = tenant, sc_workspace = workspace, sc_actor = actor, sc_agent = agent,
            sc_version = version, sc_run = run, sc_conversation = conversation,
            sc_trigger = trigger, sc_channel = channel, sc_parent = parent,
            sc_grants = strip ` sc_grants s\<rparr>)))))))))))"

text \<open>The shape of a scope that has been constructed.\<close>

definition clean_text :: "string \<Rightarrow> bool" where
  "clean_text s \<longleftrightarrow> value_ok s \<and> strip s = s"

definition scope_ok :: "exec_scope \<Rightarrow> bool" where
  "scope_ok s \<longleftrightarrow>
     clean_text (sc_tenant s) \<and> clean_text (sc_workspace s) \<and> clean_text (sc_agent s) \<and>
     clean_text (sc_version s) \<and> clean_text (sc_run s) \<and>
     pred_option clean_text (sc_actor s) \<and> pred_option clean_text (sc_conversation s) \<and>
     pred_option clean_text (sc_trigger s) \<and> pred_option clean_text (sc_channel s) \<and>
     pred_option clean_text (sc_parent s) \<and> (\<forall>g\<in>sc_grants s. clean_text g)"

lemma value_ok_strip [simp]: "value_ok (strip s) = value_ok s"
  by (simp add: value_ok_def)

lemma required_value_eq_Inr [result_simps]:
  "required_value s = Inr t \<longleftrightarrow> value_ok s \<and> t = strip s"
  by (auto simp: required_value_def required_clean_def value_ok_def)

lemma required_value_clean [simp]: "clean_text s \<Longrightarrow> required_value s = Inr s"
  by (auto simp: required_value_def required_clean_def value_ok_def clean_text_def)

lemma optional_value_clean [simp]: "pred_option clean_text v \<Longrightarrow> optional_value v = Inr v"
  by (cases v) (simp_all add: optional_value_def)

lemma optional_value_Inr: "optional_value v = Inr u \<Longrightarrow> pred_option clean_text u"
  by (cases v) (auto simp: optional_value_def result_simps clean_text_def)

lemma clean_text_strip: "value_ok s \<Longrightarrow> clean_text (strip s)"
  by (simp add: clean_text_def)

lemma make_scope_ok: "make_scope s = Inr t \<Longrightarrow> scope_ok t"
  by (auto simp: make_scope_def result_simps scope_ok_def clean_text_strip optional_value_Inr)

lemma make_scope_id: "scope_ok s \<Longrightarrow> make_scope s = Inr s"
proof -
  assume ok: "scope_ok s"
  then have g: "strip ` sc_grants s = sc_grants s"
    by (force simp: scope_ok_def clean_text_def image_iff)
  from ok have "\<forall>g\<in>sc_grants s. value_ok g" by (simp add: scope_ok_def clean_text_def)
  with ok g show ?thesis by (simp add: make_scope_def scope_ok_def)
qed

section \<open>Serialisation\<close>

definition scope_to_dict :: "exec_scope \<Rightarrow> pydict" where
  "scope_to_dict s =
     [(''tenant_id'', PStr (sc_tenant s)),
      (''workspace_id'', PStr (sc_workspace s)),
      (''actor_id'', opt_str (sc_actor s)),
      (''agent_id'', PStr (sc_agent s)),
      (''agent_version'', PStr (sc_version s)),
      (''run_id'', PStr (sc_run s)),
      (''conversation_id'', opt_str (sc_conversation s)),
      (''trigger_id'', opt_str (sc_trigger s)),
      (''channel_id'', opt_str (sc_channel s)),
      (''parent_run_id'', opt_str (sc_parent s)),
      (''grants'', PList (map PStr (sorted_list_of_set (sc_grants s))))]"

definition known_scope_fields :: "string list" where
  "known_scope_fields =
     [''tenant_id'', ''workspace_id'', ''actor_id'', ''agent_id'', ''agent_version'', ''run_id'',
      ''conversation_id'', ''trigger_id'', ''channel_id'', ''parent_run_id'', ''grants'']"

text \<open>A required field holds a string; an optional one a string or None.\<close>

definition str_field :: "pydict \<Rightarrow> string \<Rightarrow> string result" where
  "str_field d k =
     (case map_of d k of Some (PStr s) \<Rightarrow> Inr s | _ \<Rightarrow> Inl ExecutionScopeError)"

definition opt_field :: "pydict \<Rightarrow> string \<Rightarrow> string option result" where
  "opt_field d k =
     (case map_of d k of None \<Rightarrow> Inr None | Some PNone \<Rightarrow> Inr None | Some (PStr s) \<Rightarrow> Inr (Some s)
      | Some _ \<Rightarrow> Inl ExecutionScopeError)"

definition is_unhashable :: "pyval \<Rightarrow> bool" where
  "is_unhashable v = (case v of PList _ \<Rightarrow> True | PDict _ \<Rightarrow> True | _ \<Rightarrow> False)"

definition grant_of :: "pyval \<Rightarrow> string result" where
  "grant_of v = (case v of PStr s \<Rightarrow> Inr s | _ \<Rightarrow> Inl ExecutionScopeError)"

definition scope_from_dict :: "pydict \<Rightarrow> exec_scope result" where
  "scope_from_dict d =
     and_then (require (\<forall>k\<in>set (map fst d). k \<in> set known_scope_fields) ExecutionScopeError) (\<lambda>_.
     and_then (case map_of d ''grants'' of None \<Rightarrow> Inr [] | Some (PList xs) \<Rightarrow> Inr xs
               | Some (PTuple xs) \<Rightarrow> Inr xs | Some _ \<Rightarrow> Inl ExecutionScopeError) (\<lambda>grants.
     and_then (require (\<forall>k\<in>{''tenant_id'', ''workspace_id'', ''agent_id'', ''agent_version'', ''run_id''}.
                 map_of d k \<noteq> None) ExecutionScopeError) (\<lambda>_.
     and_then (require (\<forall>g\<in>set grants. \<not> is_unhashable g) TypeError) (\<lambda>_.
     and_then (str_field d ''tenant_id'') (\<lambda>tenant.
     and_then (str_field d ''workspace_id'') (\<lambda>workspace.
     and_then (str_field d ''agent_id'') (\<lambda>agent.
     and_then (str_field d ''agent_version'') (\<lambda>version.
     and_then (str_field d ''run_id'') (\<lambda>run.
     and_then (opt_field d ''actor_id'') (\<lambda>actor.
     and_then (opt_field d ''conversation_id'') (\<lambda>conversation.
     and_then (opt_field d ''trigger_id'') (\<lambda>trigger.
     and_then (opt_field d ''channel_id'') (\<lambda>channel.
     and_then (opt_field d ''parent_run_id'') (\<lambda>parent.
     and_then (map_result grant_of grants) (\<lambda>gs.
       make_scope
         \<lparr>sc_tenant = tenant, sc_workspace = workspace, sc_actor = actor, sc_agent = agent,
          sc_version = version, sc_run = run, sc_conversation = conversation,
          sc_trigger = trigger, sc_channel = channel, sc_parent = parent,
          sc_grants = set gs\<rparr>)))))))))))))))"

lemma opt_field_opt_str: "map_of d k = Some (opt_str v) \<Longrightarrow> opt_field d k = Inr v"
  by (cases v) (simp_all add: opt_field_def)

lemma map_of_scope_to_dict [simp]:
  "map_of (scope_to_dict s) ''tenant_id'' = Some (PStr (sc_tenant s))"
  "map_of (scope_to_dict s) ''workspace_id'' = Some (PStr (sc_workspace s))"
  "map_of (scope_to_dict s) ''agent_id'' = Some (PStr (sc_agent s))"
  "map_of (scope_to_dict s) ''agent_version'' = Some (PStr (sc_version s))"
  "map_of (scope_to_dict s) ''run_id'' = Some (PStr (sc_run s))"
  "map_of (scope_to_dict s) ''actor_id'' = Some (opt_str (sc_actor s))"
  "map_of (scope_to_dict s) ''conversation_id'' = Some (opt_str (sc_conversation s))"
  "map_of (scope_to_dict s) ''trigger_id'' = Some (opt_str (sc_trigger s))"
  "map_of (scope_to_dict s) ''channel_id'' = Some (opt_str (sc_channel s))"
  "map_of (scope_to_dict s) ''parent_run_id'' = Some (opt_str (sc_parent s))"
  "map_of (scope_to_dict s) ''grants'' = Some (PList (map PStr (sorted_list_of_set (sc_grants s))))"
  by (simp_all add: scope_to_dict_def)

lemma map_result_grant_of [simp]: "map_result grant_of (map PStr xs) = Inr xs"
  by (induction xs) (simp_all add: grant_of_def)

lemma scope_from_to_dict:
  assumes "scope_ok s" and "finite (sc_grants s)"
  shows "scope_from_dict (scope_to_dict s) = Inr s"
proof -
  have known: "\<forall>k\<in>set (map fst (scope_to_dict s)). k \<in> set known_scope_fields"
    by (simp add: scope_to_dict_def known_scope_fields_def)
  have hash: "\<forall>g\<in>set (map PStr (sorted_list_of_set (sc_grants s))). \<not> is_unhashable g"
    by (auto simp: is_unhashable_def)
  have "scope_from_dict (scope_to_dict s) = make_scope s"
    unfolding scope_from_dict_def
    using known hash assms(2) by (cases s) (simp add: str_field_def opt_field_opt_str)
  with assms(1) show ?thesis by (simp add: make_scope_id)
qed

text \<open>The canonical text and the storage key.\<close>

definition canonical_json :: "exec_scope \<Rightarrow> string" where
  "canonical_json s = json_dumps (PDict (scope_to_dict s))"

definition scope_key :: "world \<Rightarrow> exec_scope \<Rightarrow> string" where
  "scope_key w s = sha256 w (canonical_json s)"

section \<open>Narrowing\<close>

definition scope_local :: "world \<Rightarrow> nat \<Rightarrow> string \<Rightarrow> string \<Rightarrow> string option \<Rightarrow> string option \<Rightarrow> string \<Rightarrow> exec_scope result" where
  "scope_local w n agent version run conversation profile =
     make_scope
       \<lparr>sc_tenant = ''local'', sc_workspace = profile, sc_actor = Some profile, sc_agent = agent,
        sc_version = version,
        sc_run = (case run of Some r \<Rightarrow> if r = [] then ''run_'' @ uuid4 w n else r
                  | None \<Rightarrow> ''run_'' @ uuid4 w n),
        sc_conversation = conversation, sc_trigger = None, sc_channel = None, sc_parent = None,
        sc_grants = {''local''}\<rparr>"

definition with_conversation :: "exec_scope \<Rightarrow> string \<Rightarrow> exec_scope result" where
  "with_conversation s conversation =
     and_then (required_value conversation) (\<lambda>clean.
     and_then (require (sc_conversation s = None \<or> sc_conversation s = Some clean) ExecutionScopeError) (\<lambda>_.
       make_scope (s\<lparr>sc_conversation := Some clean\<rparr>)))"

text \<open>\<^verbatim>\<open>a or b\<close> on an optional string: None and the empty string are false.\<close>

definition or_else :: "string option \<Rightarrow> 'a \<Rightarrow> (string \<Rightarrow> 'a) \<Rightarrow> 'a" where
  "or_else v d f = (case v of None \<Rightarrow> d | Some s \<Rightarrow> if s = [] then d else f s)"

definition scope_child ::
  "exec_scope \<Rightarrow> string \<Rightarrow> string option \<Rightarrow> string option \<Rightarrow> string option \<Rightarrow> string option
   \<Rightarrow> string option \<Rightarrow> string set option \<Rightarrow> exec_scope result" where
  "scope_child s run agent version conversation trigger channel grants =
     (let child_grants = (case grants of None \<Rightarrow> sc_grants s | Some g \<Rightarrow> g)
      in and_then (require (child_grants \<subseteq> sc_grants s) ExecutionScopeError) (\<lambda>_.
           make_scope
             \<lparr>sc_tenant = sc_tenant s, sc_workspace = sc_workspace s, sc_actor = sc_actor s,
              sc_agent = or_else agent (sc_agent s) id,
              sc_version = or_else version (sc_version s) id,
              sc_run = run, sc_conversation = conversation, sc_trigger = trigger,
              sc_channel = or_else channel (sc_channel s) Some,
              sc_parent = Some (sc_run s), sc_grants = child_grants\<rparr>))"

section \<open>Comparing a requested with a persisted scope\<close>

definition assert_same_authority :: "exec_scope \<Rightarrow> exec_scope \<Rightarrow> unit result" where
  "assert_same_authority self other =
     and_then (require (sc_tenant self = sc_tenant other \<and> sc_workspace self = sc_workspace other
                 \<and> sc_agent self = sc_agent other \<and> sc_version self = sc_version other)
                 ExecutionScopeError) (\<lambda>_.
       require (sc_grants other \<subseteq> sc_grants self) ExecutionScopeError)"

definition assert_resumable :: "exec_scope \<Rightarrow> exec_scope \<Rightarrow> unit result" where
  "assert_resumable self persisted =
     and_then (assert_same_authority self persisted) (\<lambda>_.
       require (sc_actor self = sc_actor persisted \<and> sc_run self = sc_run persisted
                \<and> sc_conversation self = sc_conversation persisted) ExecutionScopeError)"

lemma assert_same_authority_Inr [result_simps]:
  "assert_same_authority a b = Inr u \<longleftrightarrow>
     sc_tenant a = sc_tenant b \<and> sc_workspace a = sc_workspace b \<and> sc_agent a = sc_agent b
     \<and> sc_version a = sc_version b \<and> sc_grants b \<subseteq> sc_grants a"
  by (auto simp: assert_same_authority_def result_simps)

lemma assert_resumable_Inr [result_simps]:
  "assert_resumable a b = Inr u \<longleftrightarrow>
     assert_same_authority a b = Inr () \<and> sc_actor a = sc_actor b \<and> sc_run a = sc_run b
     \<and> sc_conversation a = sc_conversation b"
  by (auto simp: assert_resumable_def and_then_eq_Inr require_eq_Inr)

text \<open>The scopes derived from a root by \<^verbatim>\<open>child\<close> and \<^verbatim>\<open>with_conversation\<close>.\<close>

inductive derived_scope :: "exec_scope \<Rightarrow> exec_scope \<Rightarrow> bool" for origin where
  derived_self: "derived_scope origin origin"
| derived_child: "derived_scope origin s \<Longrightarrow>
     scope_child s run agent version conversation trigger channel grants = Inr t \<Longrightarrow>
     derived_scope origin t"
| derived_conversation: "derived_scope origin s \<Longrightarrow>
     with_conversation s conversation = Inr t \<Longrightarrow> derived_scope origin t"

lemma optional_value_strip: "optional_value v = Inr u \<Longrightarrow> u = map_option strip v"
  by (cases v) (auto simp: optional_value_def result_simps)

lemma make_scope_fields:
  assumes "make_scope s = Inr t"
  shows "sc_tenant t = strip (sc_tenant s)" "sc_workspace t = strip (sc_workspace s)"
    "sc_actor t = map_option strip (sc_actor s)" "sc_parent t = map_option strip (sc_parent s)"
    "sc_agent t = strip (sc_agent s)" "sc_version t = strip (sc_version s)"
    "sc_run t = strip (sc_run s)"
    "sc_grants t = strip ` sc_grants s"
  using assms
  by (auto simp: make_scope_def result_simps dest!: optional_value_strip)

lemma scope_child_narrows:
  assumes "scope_ok s"
    and "scope_child s run agent version conversation trigger channel grants = Inr t"
  shows "sc_tenant t = sc_tenant s" and "sc_workspace t = sc_workspace s"
    and "sc_actor t = sc_actor s" and "sc_parent t = Some (sc_run s)"
    and "sc_grants t \<subseteq> sc_grants s" and "scope_ok t"
proof -
  from assms(2) obtain g u where sub: "g \<subseteq> sc_grants s" and mk: "make_scope u = Inr t"
    and u: "sc_tenant u = sc_tenant s" "sc_workspace u = sc_workspace s" "sc_actor u = sc_actor s"
      "sc_parent u = Some (sc_run s)" "sc_grants u = g"
    by (cases grants) (fastforce simp: scope_child_def Let_def and_then_eq_Inr require_eq_Inr)+
  have ok: "strip (sc_tenant s) = sc_tenant s" "strip (sc_workspace s) = sc_workspace s"
    "strip (sc_run s) = sc_run s" "map_option strip (sc_actor s) = sc_actor s"
    and gr: "\<And>x. x \<in> sc_grants s \<Longrightarrow> strip x = x"
    using assms(1) by (auto simp: scope_ok_def clean_text_def) (cases "sc_actor s"; simp add: clean_text_def)
  have "strip ` g = g" using sub gr by force
  then show "sc_tenant t = sc_tenant s" "sc_workspace t = sc_workspace s"
    "sc_actor t = sc_actor s" "sc_parent t = Some (sc_run s)" "sc_grants t \<subseteq> sc_grants s"
    "scope_ok t"
    using make_scope_fields [OF mk] u ok sub make_scope_ok [OF mk] by simp_all
qed

lemma with_conversation_fields:
  assumes "scope_ok s" and "with_conversation s conversation = Inr t"
  shows "t = s\<lparr>sc_conversation := Some (strip conversation)\<rparr>"
    and "sc_conversation s = None \<or> sc_conversation s = Some (strip conversation)"
    and "scope_ok t"
proof -
  from assms(2) have v: "value_ok conversation"
    and c: "sc_conversation s = None \<or> sc_conversation s = Some (strip conversation)"
    and mk: "make_scope (s\<lparr>sc_conversation := Some (strip conversation)\<rparr>) = Inr t"
    by (auto simp: with_conversation_def result_simps)
  have "scope_ok (s\<lparr>sc_conversation := Some (strip conversation)\<rparr>)"
    using assms(1) v by (simp add: scope_ok_def clean_text_strip)
  with mk show "t = s\<lparr>sc_conversation := Some (strip conversation)\<rparr>" "scope_ok t"
    by (auto simp: make_scope_id)
  show "sc_conversation s = None \<or> sc_conversation s = Some (strip conversation)" by (fact c)
qed

lemma derived_scope_narrows:
  assumes "derived_scope origin s" and "scope_ok origin"
  shows "sc_tenant s = sc_tenant origin \<and> sc_workspace s = sc_workspace origin
    \<and> sc_actor s = sc_actor origin \<and> sc_grants s \<subseteq> sc_grants origin \<and> scope_ok s"
  using assms
proof (induction rule: derived_scope.induct)
  case derived_self
  then show ?case by simp
next
  case (derived_child s run agent version conversation trigger channel grants t)
  then show ?case using scope_child_narrows [OF _ derived_child.hyps(2)] by auto
next
  case (derived_conversation s conversation t)
  then show ?case using with_conversation_fields [OF _ derived_conversation.hyps(2)] by auto
qed

section \<open>The canonical text determines the scope\<close>

text \<open>
  The escapes of \<^verbatim>\<open>json_char\<close> form a prefix code whose words differ from the closing quote,
  so a quoted string is readable from the front of a text; the fields follow in a fixed order.
\<close>

definition unhex :: "char \<Rightarrow> nat" where
  "unhex c = (let n = of_char c in if n < 58 then n - 48 else n - 87)"

definition unescape :: "string \<Rightarrow> (char \<times> string) option" where
  "unescape s =
     (case s of [] \<Rightarrow> None
      | c # r \<Rightarrow>
          if of_char c \<noteq> (92::nat) then Some (c, r)
          else (case r of [] \<Rightarrow> None
                | d # r' \<Rightarrow>
                    if d = CHR ''b'' then Some (char_of (8::nat), r')
                    else if d = CHR ''f'' then Some (char_of (12::nat), r')
                    else if d = CHR ''n'' then Some (char_of (10::nat), r')
                    else if d = CHR ''r'' then Some (char_of (13::nat), r')
                    else if d = CHR ''t'' then Some (char_of (9::nat), r')
                    else if d = CHR ''u'' then
                      Some (char_of (16 * unhex (r' ! 2) + unhex (r' ! 3)), drop 4 r')
                    else Some (d, r')))"

lemma unhex_hex_digit [simp]: "n < 16 \<Longrightarrow> unhex (hex_digit n) = n"
  by (auto simp: unhex_def hex_digit_def Let_def)

lemma of_char_eqD: "of_char c = (n::nat) \<Longrightarrow> c = char_of n"
  by auto

lemma unescape_json_char: "unescape (json_char c @ r) = Some (c, r)"
proof -
  have "of_char c < (32::nat) \<Longrightarrow> of_char c div 16 < (16::nat)" by simp
  then show ?thesis
    by (auto simp: json_char_def json_escape_def unescape_def dest: of_char_eqD)
qed

lemma json_char_inj: "json_char c @ r = json_char d @ r' \<Longrightarrow> c = d \<and> r = r'"
  by (metis unescape_json_char option.inject prod.inject)

lemma json_char_not_quote: "json_char c @ r \<noteq> dquote # r'"
  by (auto simp: json_char_def json_escape_def)

lemma json_body_inj:
  "concat (map json_char s) @ dquote # r = concat (map json_char t) @ dquote # r' \<Longrightarrow> s = t \<and> r = r'"
proof (induction s arbitrary: t)
  case Nil
  show ?case
  proof (cases t)
    case Nil
    then show ?thesis using Nil.prems by simp
  next
    case (Cons d t')
    then show ?thesis
      using Nil json_char_not_quote [of d "concat (map json_char t') @ dquote # r'" r] by simp
  qed
next
  case (Cons c s)
  show ?case
  proof (cases t)
    case Nil
    then show ?thesis
      using Cons.prems json_char_not_quote [of c "concat (map json_char s) @ dquote # r" r'] by simp
  next
    case t: (Cons d t')
    from Cons.prems t
    have "json_char c @ (concat (map json_char s) @ dquote # r)
      = json_char d @ (concat (map json_char t') @ dquote # r')" by simp
    then have "c = d" and "concat (map json_char s) @ dquote # r = concat (map json_char t') @ dquote # r'"
      using json_char_inj by blast+
    with Cons.IH t show ?thesis by simp
  qed
qed

lemma json_string_append [simp]: "json_string s @ r = json_string t @ r' \<longleftrightarrow> s = t \<and> r = r'"
proof
  assume "json_string s @ r = json_string t @ r'"
  then have "concat (map json_char s) @ dquote # r = concat (map json_char t) @ dquote # r'"
    by (simp add: json_string_def)
  then show "s = t \<and> r = r'" by (rule json_body_inj)
qed simp

lemma json_string_neq [simp]:
  "c \<noteq> dquote \<Longrightarrow> json_string s @ r \<noteq> c # r'" "c \<noteq> dquote \<Longrightarrow> c # r' \<noteq> json_string s @ r"
  by (auto simp: json_string_def)

lemma json_opt_append [simp]:
  "json_dumps (opt_str v) @ r = json_dumps (opt_str u) @ r' \<longleftrightarrow> v = u \<and> r = r'"
  by (cases v; cases u) auto

lemma intersperse_comma_Cons:
  "intersperse_comma (x # xs) = x @ concat (map (\<lambda>y. '','' @ y) xs)"
  by (induction xs arbitrary: x) simp_all

lemma json_string_eq [simp]: "json_string s = json_string t \<longleftrightarrow> s = t"
  using json_string_append [of s "[]" t "[]"] by simp

lemma json_tail_append [simp]:
  "concat (map (\<lambda>y. CHR '','' # json_string y) xs) @ CHR '']'' # r
     = concat (map (\<lambda>y. CHR '','' # json_string y) ys) @ CHR '']'' # r' \<longleftrightarrow> xs = ys \<and> r = r'"
proof (induction xs arbitrary: ys)
  case Nil
  show ?case by (cases ys) auto
next
  case (Cons x xs)
  show ?case by (cases ys) (auto simp: Cons)
qed

lemma json_list_append [simp]:
  "json_dumps (PList (map PStr xs)) @ r = json_dumps (PList (map PStr ys)) @ r' \<longleftrightarrow> xs = ys \<and> r = r'"
  by (cases xs; cases ys) (auto simp: intersperse_comma_Cons comp_def)

lemma canonical_json_text:
  "canonical_json s =
     ''{'' @ json_string ''actor_id'' @ '':'' @ json_dumps (opt_str (sc_actor s)) @ '',''
     @ json_string ''agent_id'' @ '':'' @ json_string (sc_agent s) @ '',''
     @ json_string ''agent_version'' @ '':'' @ json_string (sc_version s) @ '',''
     @ json_string ''channel_id'' @ '':'' @ json_dumps (opt_str (sc_channel s)) @ '',''
     @ json_string ''conversation_id'' @ '':'' @ json_dumps (opt_str (sc_conversation s)) @ '',''
     @ json_string ''grants'' @ '':'' @ json_dumps (PList (map PStr (sorted_list_of_set (sc_grants s)))) @ '',''
     @ json_string ''parent_run_id'' @ '':'' @ json_dumps (opt_str (sc_parent s)) @ '',''
     @ json_string ''run_id'' @ '':'' @ json_string (sc_run s) @ '',''
     @ json_string ''tenant_id'' @ '':'' @ json_string (sc_tenant s) @ '',''
     @ json_string ''trigger_id'' @ '':'' @ json_dumps (opt_str (sc_trigger s)) @ '',''
     @ json_string ''workspace_id'' @ '':'' @ json_string (sc_workspace s) @ ''}''"
  by (simp add: canonical_json_def scope_to_dict_def sort_key_def del: json_dumps.simps(1,7) split del: option.split)

lemma canonical_json_inj:
  assumes "finite (sc_grants s)" and "finite (sc_grants t)"
  shows "canonical_json s = canonical_json t \<longleftrightarrow> s = t"
proof
  assume "canonical_json s = canonical_json t"
  then have f: "sc_actor s = sc_actor t" "sc_agent s = sc_agent t" "sc_version s = sc_version t"
    "sc_channel s = sc_channel t" "sc_conversation s = sc_conversation t"
    "sorted_list_of_set (sc_grants s) = sorted_list_of_set (sc_grants t)"
    "sc_parent s = sc_parent t" "sc_run s = sc_run t" "sc_tenant s = sc_tenant t"
    "sc_trigger s = sc_trigger t" "sc_workspace s = sc_workspace t"
    unfolding canonical_json_text by (simp_all del: json_dumps.simps)
  then have "sc_grants s = sc_grants t" using assms by (metis set_sorted_list_of_set)
  with f show "s = t" by (cases s; cases t) simp
qed simp

end
