(* ===== verification/Budget.thy ===== *)
theory Budget
  imports Json
begin

text \<open>
  Exact costs and run budgets (\<^verbatim>\<open>usage/models.py\<close>), the fan-out policy of a parent run and
  the check that a child's allocation stays inside the parent's envelope
  (\<^verbatim>\<open>runs/parent_child.py\<close>).  Decimals are exact: the 28-digit rounding of Python's default
  decimal context is not modelled.
\<close>

section \<open>Exact costs\<close>

record exact_cost =
  xc_amount :: "decimal option"
  xc_currency :: string
  xc_known :: bool
  xc_estimated :: bool
  xc_reported :: bool

definition upper_char :: "char \<Rightarrow> string" where
  "upper_char c =
     (let n = of_char c :: nat in
      if 97 \<le> n \<and> n \<le> 122 then [char_of (n - 32)]
      else if 224 \<le> n \<and> n \<le> 254 \<and> n \<noteq> 247 then [char_of (n - 32)]
      else if n = 223 then ''SS'' else [c])"

definition upper :: "string \<Rightarrow> string" where
  "upper s = concat (map upper_char s)"

definition make_cost :: "exact_cost \<Rightarrow> exact_cost result" where
  "make_cost c =
     and_then (require (case xc_amount c of None \<Rightarrow> True | Some a \<Rightarrow> 0 \<le> dec_value a) ValueError) (\<lambda>_.
     (let currency = upper (strip (xc_currency c)) in
     and_then (require (currency \<noteq> []) ValueError) (\<lambda>_.
     and_then (require (\<not> (xc_known c \<and> xc_amount c = None)) ValueError) (\<lambda>_.
       Inr (c\<lparr>xc_currency := currency\<rparr>)))))"

definition cost_to_dict :: "exact_cost \<Rightarrow> pydict" where
  "cost_to_dict c =
     [(''amount'', case xc_amount c of None \<Rightarrow> PNone | Some a \<Rightarrow> PDec a),
      (''currency'', PStr (xc_currency c)),
      (''pricing_known'', PBool (xc_known c)),
      (''estimated'', PBool (xc_estimated c)),
      (''reported'', PBool (xc_reported c))]"

section \<open>Run budgets\<close>

datatype budget_scope = ScProfile | ScConversation | ScTurn | ScGoal | ScJob | ScChildTask

datatype unknown_cost_policy = FailOpen | FailClosed

fun budget_scope_value :: "budget_scope \<Rightarrow> string" where
  "budget_scope_value ScProfile = ''profile''"
| "budget_scope_value ScConversation = ''conversation''"
| "budget_scope_value ScTurn = ''turn''"
| "budget_scope_value ScGoal = ''goal''"
| "budget_scope_value ScJob = ''job''"
| "budget_scope_value ScChildTask = ''child_task''"

fun unknown_cost_value :: "unknown_cost_policy \<Rightarrow> string" where
  "unknown_cost_value FailOpen = ''fail_open''"
| "unknown_cost_value FailClosed = ''fail_closed''"

text \<open>\<^verbatim>\<open>E(text)\<close> for a string enum: the member with that value, or ValueError.\<close>

definition budget_scope_of :: "string \<Rightarrow> budget_scope result" where
  "budget_scope_of s =
     row_or ValueError (find (\<lambda>m. budget_scope_value m = s)
       [ScProfile, ScConversation, ScTurn, ScGoal, ScJob, ScChildTask])"

definition unknown_cost_of :: "string \<Rightarrow> unknown_cost_policy result" where
  "unknown_cost_of s =
     row_or ValueError (find (\<lambda>m. unknown_cost_value m = s) [FailOpen, FailClosed])"

lemma budget_scope_of_value [simp]: "budget_scope_of (budget_scope_value m) = Inr m"
  by (cases m) (simp_all add: budget_scope_of_def row_or_def)

lemma unknown_cost_of_value [simp]: "unknown_cost_of (unknown_cost_value m) = Inr m"
  by (cases m) (simp_all add: unknown_cost_of_def row_or_def)

record run_budget =
  b_scope :: budget_scope
  b_model_calls :: "int option"
  b_tool_calls :: "int option"
  b_tokens :: "int option"
  b_cost :: "exact_cost option"
  b_deadline :: "int option"
  b_unknown :: unknown_cost_policy

definition positive_or_none :: "int option \<Rightarrow> bool" where
  "positive_or_none v = (case v of None \<Rightarrow> True | Some n \<Rightarrow> 1 \<le> n)"

definition make_budget :: "run_budget \<Rightarrow> run_budget result" where
  "make_budget b =
     and_then (require (positive_or_none (b_model_calls b)) ValueError) (\<lambda>_.
     and_then (require (positive_or_none (b_tool_calls b)) ValueError) (\<lambda>_.
     and_then (require (positive_or_none (b_tokens b)) ValueError) (\<lambda>_.
     and_then (case b_cost b of None \<Rightarrow> Inr ()
               | Some c \<Rightarrow> and_then (require (xc_amount c \<noteq> None) ValueError) (\<lambda>_.
                            require (xc_known c) ValueError)) (\<lambda>_.
       Inr b))))"

definition budget_limited :: "run_budget \<Rightarrow> bool" where
  "budget_limited b =
     (b_model_calls b \<noteq> None \<or> b_tool_calls b \<noteq> None \<or> b_tokens b \<noteq> None
      \<or> b_cost b \<noteq> None \<or> b_deadline b \<noteq> None)"

abbreviation opt_int :: "int option \<Rightarrow> pyval" where
  "opt_int v \<equiv> (case v of None \<Rightarrow> PNone | Some n \<Rightarrow> PInt n)"

definition budget_to_dict :: "run_budget \<Rightarrow> pydict" where
  "budget_to_dict b =
     [(''scope'', PStr (budget_scope_value (b_scope b))),
      (''max_model_calls'', opt_int (b_model_calls b)),
      (''max_tool_calls'', opt_int (b_tool_calls b)),
      (''max_tokens'', opt_int (b_tokens b)),
      (''max_cost'', case b_cost b of None \<Rightarrow> PNone | Some c \<Rightarrow> PDict (cost_to_dict c)),
      (''deadline'', case b_deadline b of None \<Rightarrow> PNone | Some t \<Rightarrow> PTime t),
      (''unknown_cost_policy'', PStr (unknown_cost_value (b_unknown b)))]"

text \<open>\<^verbatim>\<open>_require_keys\<close>: no unknown and no missing key.\<close>

definition require_keys :: "pydict \<Rightarrow> string list \<Rightarrow> unit result" where
  "require_keys d known =
     and_then (require (\<forall>k\<in>set (map fst d). k \<in> set known) ValueError) (\<lambda>_.
       require (\<forall>k\<in>set known. k \<in> set (map fst d)) ValueError)"

definition get_field :: "pydict \<Rightarrow> string \<Rightarrow> pyval" where
  "get_field d k = (case map_of d k of None \<Rightarrow> PNone | Some v \<Rightarrow> v)"

text \<open>\<^verbatim>\<open>str(value or "")\<close> of a text or a missing text; other values are rejected.\<close>

definition text_or_empty :: "pyval \<Rightarrow> string result" where
  "text_or_empty v = (case v of PStr s \<Rightarrow> Inr s | PNone \<Rightarrow> Inr [] | _ \<Rightarrow> Inl ValueError)"

definition as_integer :: "pyval \<Rightarrow> int result" where
  "as_integer v = (case v of PInt n \<Rightarrow> Inr n | _ \<Rightarrow> Inl ValueError)"

definition as_optional_integer :: "pyval \<Rightarrow> int option result" where
  "as_optional_integer v = (if v = PNone then Inr None else and_then (as_integer v) (\<lambda>n. Inr (Some n)))"

definition as_boolean :: "pyval \<Rightarrow> bool result" where
  "as_boolean v = (case v of PBool b \<Rightarrow> Inr b | _ \<Rightarrow> Inl ValueError)"

definition as_decimal :: "pyval \<Rightarrow> decimal option result" where
  "as_decimal v =
     (case v of PNone \<Rightarrow> Inr None | PDec d \<Rightarrow> Inr (Some d) | PInt n \<Rightarrow> Inr (Some (Dec n 0))
      | _ \<Rightarrow> Inl ValueError)"

definition as_instant :: "pyval \<Rightarrow> int option result" where
  "as_instant v = (case v of PNone \<Rightarrow> Inr None | PTime t \<Rightarrow> Inr (Some t) | _ \<Rightarrow> Inl ValueError)"

definition cost_from_value :: "pyval \<Rightarrow> exact_cost option result" where
  "cost_from_value v =
     (case v of PNone \<Rightarrow> Inr None
      | PDict d \<Rightarrow>
          and_then (require_keys d [''amount'', ''currency'', ''pricing_known'', ''estimated'', ''reported'']) (\<lambda>_.
          and_then (as_decimal (get_field d ''amount'')) (\<lambda>amount.
          and_then (text_or_empty (get_field d ''currency'')) (\<lambda>currency.
          and_then (as_boolean (get_field d ''pricing_known'')) (\<lambda>known.
          and_then (as_boolean (get_field d ''estimated'')) (\<lambda>estimated.
          and_then (as_boolean (get_field d ''reported'')) (\<lambda>reported.
          and_then (make_cost \<lparr>xc_amount = amount, xc_currency = currency, xc_known = known,
                               xc_estimated = estimated, xc_reported = reported\<rparr>) (\<lambda>c.
            Inr (Some c))))))))
      | _ \<Rightarrow> Inl ValueError)"

definition run_budget_from_dict :: "pydict \<Rightarrow> run_budget result" where
  "run_budget_from_dict d =
     and_then (require_keys d [''scope'', ''max_model_calls'', ''max_tool_calls'', ''max_tokens'',
                 ''max_cost'', ''deadline'', ''unknown_cost_policy'']) (\<lambda>_.
     and_then (cost_from_value (get_field d ''max_cost'')) (\<lambda>cost.
     and_then (as_instant (get_field d ''deadline'')) (\<lambda>deadline.
     and_then (and_then (text_or_empty (get_field d ''scope'')) budget_scope_of) (\<lambda>scope.
     and_then (as_optional_integer (get_field d ''max_model_calls'')) (\<lambda>model_calls.
     and_then (as_optional_integer (get_field d ''max_tool_calls'')) (\<lambda>tool_calls.
     and_then (as_optional_integer (get_field d ''max_tokens'')) (\<lambda>tokens.
     and_then (and_then (text_or_empty (get_field d ''unknown_cost_policy'')) unknown_cost_of) (\<lambda>unknown.
       make_budget \<lparr>b_scope = scope, b_model_calls = model_calls, b_tool_calls = tool_calls,
                    b_tokens = tokens, b_cost = cost, b_deadline = deadline,
                    b_unknown = unknown\<rparr>))))))))"

text \<open>A budget that has been constructed.\<close>

definition cost_ok :: "exact_cost \<Rightarrow> bool" where
  "cost_ok c \<longleftrightarrow> make_cost c = Inr c"

definition budget_ok :: "run_budget \<Rightarrow> bool" where
  "budget_ok b \<longleftrightarrow> make_budget b = Inr b \<and> pred_option cost_ok (b_cost b)"

lemma map_of_cost_to_dict [simp]:
  "get_field (cost_to_dict c) ''amount'' = (case xc_amount c of None \<Rightarrow> PNone | Some a \<Rightarrow> PDec a)"
  "get_field (cost_to_dict c) ''currency'' = PStr (xc_currency c)"
  "get_field (cost_to_dict c) ''pricing_known'' = PBool (xc_known c)"
  "get_field (cost_to_dict c) ''estimated'' = PBool (xc_estimated c)"
  "get_field (cost_to_dict c) ''reported'' = PBool (xc_reported c)"
  by (simp_all add: get_field_def cost_to_dict_def)

lemma as_values [simp]:
  "as_decimal (case a of None \<Rightarrow> PNone | Some d \<Rightarrow> PDec d) = Inr a"
  "as_optional_integer (opt_int i) = Inr i"
  "as_instant (case t of None \<Rightarrow> PNone | Some u \<Rightarrow> PTime u) = Inr t"
  "text_or_empty (PStr s) = Inr s"
  "as_boolean (PBool b) = Inr b"
  by (simp_all add: as_decimal_def as_optional_integer_def as_integer_def as_instant_def
    text_or_empty_def as_boolean_def split: option.split)

lemma cost_from_to_dict: "cost_ok c \<Longrightarrow> cost_from_value (PDict (cost_to_dict c)) = Inr (Some c)"
proof -
  assume ok: "cost_ok c"
  have keys: "require_keys (cost_to_dict c)
      [''amount'', ''currency'', ''pricing_known'', ''estimated'', ''reported''] = Inr ()"
    by (simp add: require_keys_def cost_to_dict_def)
  have "make_cost \<lparr>xc_amount = xc_amount c, xc_currency = xc_currency c, xc_known = xc_known c,
    xc_estimated = xc_estimated c, xc_reported = xc_reported c\<rparr> = Inr c"
    using ok by (cases c) (simp add: cost_ok_def)
  then show ?thesis by (simp add: cost_from_value_def keys)
qed

lemma map_of_budget_to_dict [simp]:
  "get_field (budget_to_dict b) ''scope'' = PStr (budget_scope_value (b_scope b))"
  "get_field (budget_to_dict b) ''max_model_calls'' = opt_int (b_model_calls b)"
  "get_field (budget_to_dict b) ''max_tool_calls'' = opt_int (b_tool_calls b)"
  "get_field (budget_to_dict b) ''max_tokens'' = opt_int (b_tokens b)"
  "get_field (budget_to_dict b) ''max_cost'' =
     (case b_cost b of None \<Rightarrow> PNone | Some c \<Rightarrow> PDict (cost_to_dict c))"
  "get_field (budget_to_dict b) ''deadline'' = (case b_deadline b of None \<Rightarrow> PNone | Some t \<Rightarrow> PTime t)"
  "get_field (budget_to_dict b) ''unknown_cost_policy'' = PStr (unknown_cost_value (b_unknown b))"
  by (simp_all add: get_field_def budget_to_dict_def)

lemma run_budget_from_to_dict:
  assumes "budget_ok b"
  shows "run_budget_from_dict (budget_to_dict b) = Inr b"
proof -
  have keys: "require_keys (budget_to_dict b) [''scope'', ''max_model_calls'', ''max_tool_calls'',
      ''max_tokens'', ''max_cost'', ''deadline'', ''unknown_cost_policy''] = Inr ()"
    by (simp add: require_keys_def budget_to_dict_def)
  have cost: "cost_from_value (case b_cost b of None \<Rightarrow> PNone | Some c \<Rightarrow> PDict (cost_to_dict c)) = Inr (b_cost b)"
  proof (cases "b_cost b")
    case None
    then show ?thesis by (simp add: cost_from_value_def)
  next
    case (Some c)
    then show ?thesis using assms by (simp add: budget_ok_def cost_from_to_dict)
  qed
  have "make_budget \<lparr>b_scope = b_scope b, b_model_calls = b_model_calls b,
      b_tool_calls = b_tool_calls b, b_tokens = b_tokens b, b_cost = b_cost b,
      b_deadline = b_deadline b, b_unknown = b_unknown b\<rparr> = Inr b"
    using assms by (cases b) (simp add: budget_ok_def)
  then show ?thesis by (simp add: run_budget_from_dict_def keys cost)
qed

section \<open>The policy of a parent run\<close>

record parent_policy =
  pp_required :: int
  pp_max :: int
  pp_budget :: run_budget

definition make_policy :: "parent_policy \<Rightarrow> parent_policy result" where
  "make_policy p =
     and_then (require (1 \<le> pp_required p) ValueError) (\<lambda>_.
     and_then (require (1 \<le> pp_max p) ValueError) (\<lambda>_.
     and_then (require (pp_required p \<le> pp_max p) ValueError) (\<lambda>_.
     and_then (require (b_scope (pp_budget p) = ScChildTask) ValueError) (\<lambda>_.
     and_then (require (budget_limited (pp_budget p)) ValueError) (\<lambda>_.
       Inr p)))))"

text \<open>A policy together with the budget it is given.\<close>

definition build_policy :: "parent_policy \<Rightarrow> parent_policy result" where
  "build_policy p = and_then (make_budget (pp_budget p)) (\<lambda>_. make_policy p)"

definition policy_to_dict :: "parent_policy \<Rightarrow> pydict" where
  "policy_to_dict p =
     [(''required_children'', PInt (pp_required p)),
      (''max_children'', PInt (pp_max p)),
      (''budget'', PDict (budget_to_dict (pp_budget p)))]"

definition policy_from_dict :: "pydict \<Rightarrow> parent_policy result" where
  "policy_from_dict d =
     and_then (require_keys d [''required_children'', ''max_children'', ''budget'']) (\<lambda>_.
     (case get_field d ''budget'' of
        PDict budget \<Rightarrow>
          and_then (as_integer (get_field d ''required_children'')) (\<lambda>required.
          and_then (as_integer (get_field d ''max_children'')) (\<lambda>max_children.
          and_then (run_budget_from_dict budget) (\<lambda>b.
            make_policy \<lparr>pp_required = required, pp_max = max_children, pp_budget = b\<rparr>)))
      | _ \<Rightarrow> Inl ValueError))"

definition policy_ok :: "parent_policy \<Rightarrow> bool" where
  "policy_ok p \<longleftrightarrow> make_policy p = Inr p \<and> budget_ok (pp_budget p)"

lemma policy_from_to_dict:
  assumes "policy_ok p"
  shows "policy_from_dict (policy_to_dict p) = Inr p"
proof -
  have keys: "require_keys (policy_to_dict p) [''required_children'', ''max_children'', ''budget''] = Inr ()"
    by (simp add: require_keys_def policy_to_dict_def)
  have fields: "get_field (policy_to_dict p) ''budget'' = PDict (budget_to_dict (pp_budget p))"
    "get_field (policy_to_dict p) ''required_children'' = PInt (pp_required p)"
    "get_field (policy_to_dict p) ''max_children'' = PInt (pp_max p)"
    by (simp_all add: get_field_def policy_to_dict_def)
  have "make_policy \<lparr>pp_required = pp_required p, pp_max = pp_max p, pp_budget = pp_budget p\<rparr> = Inr p"
    using assms by (cases p) (simp add: policy_ok_def)
  then show ?thesis
    using assms by (simp add: policy_from_dict_def keys fields as_integer_def policy_ok_def
      run_budget_from_to_dict)
qed

section \<open>Allocation of a child budget\<close>

definition limit_or_zero :: "int option \<Rightarrow> int" where
  "limit_or_zero v = (case v of None \<Rightarrow> 0 | Some n \<Rightarrow> n)"

definition allocated :: "(run_budget \<Rightarrow> int option) \<Rightarrow> run_budget list \<Rightarrow> int" where
  "allocated field existing = sum_list (map (\<lambda>b. limit_or_zero (field b)) existing)"

definition cost_amount :: "run_budget \<Rightarrow> rat" where
  "cost_amount b =
     (case b_cost b of None \<Rightarrow> 0
      | Some c \<Rightarrow> (case xc_amount c of None \<Rightarrow> 0 | Some a \<Rightarrow> dec_value a))"

definition allocated_cost :: "run_budget list \<Rightarrow> rat" where
  "allocated_cost existing = sum_list (map cost_amount existing)"

text \<open>The body of the loop over the three integer limits.\<close>

definition check_limit ::
  "(run_budget \<Rightarrow> int option) \<Rightarrow> run_budget \<Rightarrow> run_budget \<Rightarrow> run_budget list \<Rightarrow> unit result" where
  "check_limit field parent child existing =
     (case field parent of
        None \<Rightarrow> Inr ()
      | Some parent_limit \<Rightarrow>
          (case field child of
             None \<Rightarrow> Inl ValueError
           | Some child_limit \<Rightarrow>
               require (allocated field existing + child_limit \<le> parent_limit) ValueError))"

definition check_cost :: "run_budget \<Rightarrow> run_budget \<Rightarrow> run_budget list \<Rightarrow> unit result" where
  "check_cost parent child existing =
     (case b_cost parent of
        None \<Rightarrow> Inr ()
      | Some pc \<Rightarrow>
          (case b_cost child of
             None \<Rightarrow> Inl ValueError
           | Some cc \<Rightarrow>
               and_then (require (xc_currency cc = xc_currency pc) ValueError) (\<lambda>_.
                 require (allocated_cost existing + cost_amount child \<le> cost_amount parent) ValueError)))"

definition deadline_passed :: "run_budget \<Rightarrow> int \<Rightarrow> bool" where
  "deadline_passed b now = (case b_deadline b of None \<Rightarrow> False | Some t \<Rightarrow> t \<le> now)"

definition validate_child_budget_allocation ::
  "run_budget \<Rightarrow> run_budget \<Rightarrow> run_budget list \<Rightarrow> int \<Rightarrow> unit result" where
  "validate_child_budget_allocation parent child existing now =
     and_then (require (b_scope parent = ScChildTask) ValueError) (\<lambda>_.
     and_then (require (b_scope child = ScChildTask) ValueError) (\<lambda>_.
     and_then (require (\<not> deadline_passed parent now) ValueError) (\<lambda>_.
     and_then (require (\<not> deadline_passed child now) ValueError) (\<lambda>_.
     and_then (check_limit b_model_calls parent child existing) (\<lambda>_.
     and_then (check_limit b_tool_calls parent child existing) (\<lambda>_.
     and_then (check_limit b_tokens parent child existing) (\<lambda>_.
     and_then (check_cost parent child existing) (\<lambda>_.
     and_then (require (\<not> (case b_deadline parent of None \<Rightarrow> False
                 | Some pd \<Rightarrow> (case b_deadline child of None \<Rightarrow> True | Some cd \<Rightarrow> pd < cd))) ValueError) (\<lambda>_.
       require (\<not> (b_unknown parent = FailClosed \<and> b_unknown child \<noteq> FailClosed)) ValueError)))))))))"

text \<open>The children a parent envelope has admitted, in order of admission.\<close>

inductive admitted :: "run_budget \<Rightarrow> run_budget list \<Rightarrow> bool" for parent where
  admitted_none: "admitted parent []"
| admitted_next: "admitted parent bs \<Longrightarrow>
     validate_child_budget_allocation parent child bs now = Inr () \<Longrightarrow> admitted parent (bs @ [child])"

text \<open>What an envelope promises of the children inside it.\<close>

definition within_envelope :: "run_budget \<Rightarrow> run_budget list \<Rightarrow> bool" where
  "within_envelope parent bs \<longleftrightarrow>
     (\<forall>n. b_model_calls parent = Some n \<longrightarrow> allocated b_model_calls bs \<le> n) \<and>
     (\<forall>n. b_tool_calls parent = Some n \<longrightarrow> allocated b_tool_calls bs \<le> n) \<and>
     (\<forall>n. b_tokens parent = Some n \<longrightarrow> allocated b_tokens bs \<le> n) \<and>
     (b_cost parent \<noteq> None \<longrightarrow> allocated_cost bs \<le> cost_amount parent) \<and>
     (\<forall>b\<in>set bs. b_scope b = ScChildTask \<and>
        (\<forall>t. b_deadline parent = Some t \<longrightarrow> (\<exists>u. b_deadline b = Some u \<and> u \<le> t)) \<and>
        (b_unknown parent = FailClosed \<longrightarrow> b_unknown b = FailClosed))"

lemma allocated_simps [simp]:
  "allocated f [] = 0" "allocated f (bs @ [b]) = allocated f bs + limit_or_zero (f b)"
  by (simp_all add: allocated_def)

lemma allocated_cost_simps [simp]:
  "allocated_cost [] = 0" "allocated_cost (bs @ [b]) = allocated_cost bs + cost_amount b"
  by (simp_all add: allocated_cost_def)

lemma check_limit_Inr:
  "check_limit f parent child bs = Inr () \<Longrightarrow> f parent = Some n \<Longrightarrow>
     allocated f bs + limit_or_zero (f child) \<le> n"
  by (auto simp: check_limit_def result_simps limit_or_zero_def split: option.splits)

lemma check_cost_Inr:
  "check_cost parent child bs = Inr () \<Longrightarrow> b_cost parent \<noteq> None \<Longrightarrow>
     allocated_cost bs + cost_amount child \<le> cost_amount parent"
  by (auto simp: check_cost_def result_simps split: option.splits)

lemma validate_Inr:
  assumes "validate_child_budget_allocation parent child bs now = Inr ()"
  shows "b_scope child = ScChildTask" and "\<not> deadline_passed child now"
    and "check_limit b_model_calls parent child bs = Inr ()"
    and "check_limit b_tool_calls parent child bs = Inr ()"
    and "check_limit b_tokens parent child bs = Inr ()"
    and "check_cost parent child bs = Inr ()"
    and "\<And>t. b_deadline parent = Some t \<Longrightarrow> \<exists>u. b_deadline child = Some u \<and> u \<le> t"
    and "b_unknown parent = FailClosed \<Longrightarrow> b_unknown child = FailClosed"
  using assms by (auto simp: validate_child_budget_allocation_def result_simps split: option.splits)

lemma within_envelope_empty: "budget_ok parent \<Longrightarrow> within_envelope parent []"
  by (auto simp: within_envelope_def budget_ok_def make_budget_def result_simps positive_or_none_def
    cost_ok_def make_cost_def Let_def cost_amount_def split: option.splits)

lemma within_envelope_snoc:
  assumes "within_envelope parent bs" and v: "validate_child_budget_allocation parent child bs now = Inr ()"
  shows "within_envelope parent (bs @ [child])"
  unfolding within_envelope_def
proof (intro conjI allI impI ballI)
  fix b assume "b \<in> set (bs @ [child])"
  then have "b = child \<or> b \<in> set bs" by auto
  then show "b_scope b = ScChildTask"
    using assms(1) validate_Inr(1) [OF v] by (auto simp: within_envelope_def)
  from \<open>b = child \<or> b \<in> set bs\<close> show "b_unknown parent = FailClosed \<Longrightarrow> b_unknown b = FailClosed"
    using assms(1) validate_Inr(8) [OF v] by (auto simp: within_envelope_def)
  fix t assume "b_deadline parent = Some t"
  with \<open>b = child \<or> b \<in> set bs\<close> show "\<exists>u. b_deadline b = Some u \<and> u \<le> t"
    using assms(1) validate_Inr(7) [OF v] by (auto simp: within_envelope_def)
qed (use check_limit_Inr validate_Inr [OF v] check_cost_Inr in auto)

lemma admitted_within_envelope:
  assumes "admitted parent bs" and "budget_ok parent"
  shows "within_envelope parent bs"
  using assms
  by (induction rule: admitted.induct) (auto intro: within_envelope_empty within_envelope_snoc)

end
