(* ===== verification/RunModels.thy ===== *)
theory RunModels
  imports Scope Budget
begin

text \<open>
  The typed contracts of durable execution (\<^verbatim>\<open>runs/models.py\<close>): statuses with their stored
  values, the retry policy, submissions, and the records the store returns.  Times are
  microseconds since the epoch; the store keeps them as ISO text, whose order is the order
  of the instants.  A \<^verbatim>\<open>float\<close> of the retry policy is an exact rational.
\<close>

section \<open>Statuses\<close>

datatype run_status =
    RunQueued | RunRunning | RunWaitingForChildren | RunWaitingForApproval | RunWaitingForRetry
  | RunCompleted | RunFailed | RunCancelled | RunUnknown | RunDeadLetter

datatype step_status =
    StepQueued | StepRunning | StepWaitingForApproval | StepWaitingForRetry
  | StepCompleted | StepFailed | StepCancelled | StepUnknown | StepDeadLetter

datatype attempt_status =
    AttemptRunning | AttemptPaused | AttemptCompleted | AttemptFailed | AttemptCancelled
  | AttemptUnknown

datatype effect_status =
    EffectIntended | EffectExecuting | EffectCompleted | EffectFailed | EffectCancelled
  | EffectUnknown

datatype reconciliation_decision = Confirmed | Retry | DecidedFailed | DecidedCancelled

fun run_status_value :: "run_status \<Rightarrow> string" where
  "run_status_value RunQueued = ''queued''"
| "run_status_value RunRunning = ''running''"
| "run_status_value RunWaitingForChildren = ''waiting_for_children''"
| "run_status_value RunWaitingForApproval = ''waiting_for_approval''"
| "run_status_value RunWaitingForRetry = ''waiting_for_retry''"
| "run_status_value RunCompleted = ''completed''"
| "run_status_value RunFailed = ''failed''"
| "run_status_value RunCancelled = ''cancelled''"
| "run_status_value RunUnknown = ''unknown''"
| "run_status_value RunDeadLetter = ''dead_letter''"

fun effect_status_value :: "effect_status \<Rightarrow> string" where
  "effect_status_value EffectIntended = ''intended''"
| "effect_status_value EffectExecuting = ''executing''"
| "effect_status_value EffectCompleted = ''completed''"
| "effect_status_value EffectFailed = ''failed''"
| "effect_status_value EffectCancelled = ''cancelled''"
| "effect_status_value EffectUnknown = ''unknown''"

fun decision_value :: "reconciliation_decision \<Rightarrow> string" where
  "decision_value Confirmed = ''confirmed''"
| "decision_value Retry = ''retry''"
| "decision_value DecidedFailed = ''failed''"
| "decision_value DecidedCancelled = ''cancelled''"

definition terminal_run :: "run_status \<Rightarrow> bool" where
  "terminal_run s = (s \<in> {RunCompleted, RunFailed, RunCancelled, RunDeadLetter})"

definition terminal_step :: "step_status \<Rightarrow> bool" where
  "terminal_step s = (s \<in> {StepCompleted, StepFailed, StepCancelled, StepDeadLetter})"

text \<open>\<^verbatim>\<open>_required\<close> and \<^verbatim>\<open>_optional\<close> of the contracts: stripped, not empty, at most
  1000 characters, without NUL; otherwise ValueError.\<close>

definition bounded_text :: "string \<Rightarrow> string result" where
  "bounded_text clean =
     (if clean = [] then Inl ValueError
      else if 1000 < length clean \<or> CHR 0x00 \<in> set clean then Inl ValueError
      else Inr clean)"

definition required :: "string \<Rightarrow> string result" where
  "required s = bounded_text (strip s)"

definition optional :: "string option \<Rightarrow> string option result" where
  "optional v = opt_result required v"

lemma required_eq_Inr [result_simps]:
  "required s = Inr t \<longleftrightarrow>
     t = strip s \<and> strip s \<noteq> [] \<and> length (strip s) \<le> 1000 \<and> CHR 0x00 \<notin> set (strip s)"
  by (auto simp: required_def bounded_text_def)

lemma required_idem: "required s = Inr t \<Longrightarrow> required t = Inr t"
  by (auto simp: required_eq_Inr)

lemma optional_eq_Inr [result_simps]:
  "optional v = Inr u \<longleftrightarrow>
     (case v of None \<Rightarrow> u = None | Some s \<Rightarrow> (\<exists>t. required s = Inr t \<and> u = Some t))"
  by (auto simp: optional_def opt_result_def and_then_eq_Inr split: option.splits)

section \<open>Retry policy\<close>

record retry_policy =
  rp_max_attempts :: int
  rp_initial_delay :: rat
  rp_max_delay :: rat
  rp_multiplier :: rat

definition make_retry_policy :: "retry_policy \<Rightarrow> retry_policy result" where
  "make_retry_policy p =
     and_then (require (1 \<le> rp_max_attempts p) ValueError) (\<lambda>_.
     and_then (require (0 \<le> rp_initial_delay p) ValueError) (\<lambda>_.
     and_then (require (0 \<le> rp_max_delay p) ValueError) (\<lambda>_.
     and_then (require (0 \<le> rp_multiplier p) ValueError) (\<lambda>_.
     and_then (require (rp_initial_delay p \<le> rp_max_delay p) ValueError) (\<lambda>_.
     and_then (require (1 \<le> rp_multiplier p) ValueError) (\<lambda>_.
       Inr p))))))"

text \<open>\<^verbatim>\<open>timedelta(seconds=x)\<close>: microseconds, a half rounded to the even neighbour.\<close>

definition round_half_even :: "rat \<Rightarrow> int" where
  "round_half_even x =
     (let f = floor x; d = x - of_int f in
      if d < 1 / 2 then f else if 1 / 2 < d then f + 1 else if even f then f else f + 1)"

definition seconds_to_us :: "rat \<Rightarrow> int" where
  "seconds_to_us x = round_half_even (x * 1000000)"

definition delay_for_attempt :: "retry_policy \<Rightarrow> int \<Rightarrow> int result" where
  "delay_for_attempt p attempt =
     (if attempt < 1 then Inl ValueError
      else Inr (seconds_to_us (min (rp_max_delay p) (rp_initial_delay p * rp_multiplier p ^ nat (attempt - 1)))))"

section \<open>Submissions\<close>

record step_definition =
  d_id :: string
  d_name :: string
  d_retry :: retry_policy
  d_meta :: pydict

definition make_step_definition :: "world \<Rightarrow> step_definition \<Rightarrow> step_definition result" where
  "make_step_definition w d =
     and_then (required (d_id d)) (\<lambda>i.
     and_then (required (d_name d)) (\<lambda>n.
       Inr (d\<lparr>d_id := i, d_name := n, d_meta := safe_mapping w (d_meta d)\<rparr>)))"

record run_submission =
  su_key :: string
  su_input :: string
  su_def :: string
  su_steps :: "step_definition list"
  su_budget :: pydict
  su_meta :: pydict
  su_source :: "string option"
  su_correlation :: "string option"

definition make_run_submission :: "world \<Rightarrow> run_submission \<Rightarrow> run_submission result" where
  "make_run_submission w s =
     and_then (required (su_key s)) (\<lambda>key.
     and_then (required (su_input s)) (\<lambda>inp.
     and_then (required (su_def s)) (\<lambda>de.
     and_then (require (su_steps s \<noteq> []) ValueError) (\<lambda>_.
     and_then (require (distinct (map d_id (su_steps s))) ValueError) (\<lambda>_.
     and_then (optional (su_source s)) (\<lambda>source.
     and_then (optional (su_correlation s)) (\<lambda>corr.
       Inr (s\<lparr>su_key := key, su_input := inp, su_def := de,
              su_budget := safe_mapping w (su_budget s), su_meta := safe_mapping w (su_meta s),
              su_source := source, su_correlation := corr\<rparr>))))))))"

text \<open>A submission as the caller's constructors leave it: every step definition and its retry
  policy checked, then the submission itself.\<close>

definition build_step_definition :: "world \<Rightarrow> step_definition \<Rightarrow> step_definition result" where
  "build_step_definition w d =
     and_then (make_retry_policy (d_retry d)) (\<lambda>p. make_step_definition w (d\<lparr>d_retry := p\<rparr>))"

definition build_submission :: "world \<Rightarrow> run_submission \<Rightarrow> run_submission result" where
  "build_submission w s =
     and_then (map_result (build_step_definition w) (su_steps s)) (\<lambda>steps.
       make_run_submission w (s\<lparr>su_steps := steps\<rparr>))"

section \<open>Records\<close>

text \<open>Steps, attempts, checkpoints, effects and events: the row of the table and the record
  read from it have the same fields.  The \<^verbatim>\<open>dispatch_token\<close> of an effect is a column only.\<close>

record step_record =
  s_id :: string
  s_run :: string
  s_name :: string
  s_status :: step_status
  s_rev :: int
  s_attempts :: int
  s_retry :: retry_policy
  s_retry_at :: "int option"
  s_checkpoint :: "string option"
  s_error :: "string option"
  s_meta :: pydict
  s_created :: int
  s_updated :: int
  s_started :: "int option"
  s_completed :: "int option"

record attempt_record =
  a_id :: string
  a_run :: string
  a_step :: string
  a_number :: int
  a_status :: attempt_status
  a_worker :: string
  a_token :: string
  a_started :: int
  a_completed :: "int option"
  a_error :: "string option"

record checkpoint_record =
  k_id :: string
  k_run :: string
  k_step :: string
  k_attempt :: string
  k_seq :: int
  k_kind :: string
  k_payload :: pydict
  k_created :: int

record effect_record =
  e_id :: string
  e_run :: string
  e_step :: string
  e_attempt :: string
  e_key :: string
  e_tool :: string
  e_tool_version :: string
  e_schema :: string
  e_args :: string
  e_status :: effect_status
  e_digest :: "string option"
  e_result_ref :: "string option"
  e_decision :: "reconciliation_decision option"
  e_by :: "string option"
  e_reason :: "string option"
  e_dispatch :: "string option"
  e_created :: int
  e_updated :: int

record run_event =
  v_id :: string
  v_run :: string
  v_seq :: int
  v_name :: string
  v_actor :: string
  v_payload :: pydict
  v_step :: "string option"
  v_causation :: "string option"
  v_correlation :: "string option"
  v_idem :: "string option"
  v_created :: int

record run_claim =
  c_run :: string
  c_scope_key :: string
  c_worker :: string
  c_token :: string
  c_lease :: int
  c_rev :: int

record run_record =
  rr_id :: string
  rr_scope :: exec_scope
  rr_idem :: string
  rr_input :: string
  rr_def :: string
  rr_status :: run_status
  rr_rev :: int
  rr_steps :: "step_record list"
  rr_cancel :: bool
  rr_waiting :: "string option"
  rr_retry_at :: "int option"
  rr_budget :: pydict
  rr_meta :: pydict
  rr_result :: "pydict option"
  rr_error :: "string option"
  rr_created :: int
  rr_updated :: int
  rr_completed :: "int option"

record reconciliation_record =
  rec_effect :: effect_record
  rec_run :: run_record
  rec_decision :: reconciliation_decision

subsection \<open>The checks of the constructors\<close>

definition make_step_record :: "world \<Rightarrow> step_record \<Rightarrow> step_record result" where
  "make_step_record w s =
     and_then (required (s_id s)) (\<lambda>i.
     and_then (required (s_run s)) (\<lambda>rid.
     and_then (required (s_name s)) (\<lambda>n.
     and_then (require (0 \<le> s_rev s) ValueError) (\<lambda>_.
     and_then (require (0 \<le> s_attempts s) ValueError) (\<lambda>_.
     and_then (optional (s_checkpoint s)) (\<lambda>k.
     and_then (optional (s_error s)) (\<lambda>e.
       Inr (s\<lparr>s_id := i, s_run := rid, s_name := n, s_checkpoint := k, s_error := e,
              s_meta := safe_mapping w (s_meta s)\<rparr>))))))))"

definition make_attempt_record :: "attempt_record \<Rightarrow> attempt_record result" where
  "make_attempt_record a =
     and_then (required (a_id a)) (\<lambda>i.
     and_then (required (a_run a)) (\<lambda>rid.
     and_then (required (a_step a)) (\<lambda>sid.
     and_then (required (a_worker a)) (\<lambda>wk.
     and_then (required (a_token a)) (\<lambda>tok.
     and_then (require (1 \<le> a_number a) ValueError) (\<lambda>_.
     and_then (optional (a_error a)) (\<lambda>e.
       Inr (a\<lparr>a_id := i, a_run := rid, a_step := sid, a_worker := wk, a_token := tok,
              a_error := e\<rparr>))))))))"

definition make_checkpoint :: "world \<Rightarrow> checkpoint_record \<Rightarrow> checkpoint_record result" where
  "make_checkpoint w k =
     and_then (required (k_id k)) (\<lambda>i.
     and_then (required (k_run k)) (\<lambda>rid.
     and_then (required (k_step k)) (\<lambda>sid.
     and_then (required (k_attempt k)) (\<lambda>aid.
     and_then (required (k_kind k)) (\<lambda>kind.
     and_then (require (1 \<le> k_seq k) ValueError) (\<lambda>_.
       Inr (k\<lparr>k_id := i, k_run := rid, k_step := sid, k_attempt := aid, k_kind := kind,
              k_payload := safe_mapping w (k_payload k)\<rparr>)))))))"

definition make_effect_record :: "effect_record \<Rightarrow> effect_record result" where
  "make_effect_record e =
     and_then (required (e_id e)) (\<lambda>i.
     and_then (required (e_run e)) (\<lambda>rid.
     and_then (required (e_step e)) (\<lambda>sid.
     and_then (required (e_attempt e)) (\<lambda>aid.
     and_then (required (e_key e)) (\<lambda>key.
     and_then (required (e_tool e)) (\<lambda>tool.
     and_then (required (e_tool_version e)) (\<lambda>tv.
     and_then (required (e_schema e)) (\<lambda>sch.
     and_then (required (e_args e)) (\<lambda>args.
     and_then (optional (e_digest e)) (\<lambda>dg.
     and_then (optional (e_result_ref e)) (\<lambda>ref.
     and_then (optional (e_by e)) (\<lambda>by'.
     and_then (optional (e_reason e)) (\<lambda>rs.
       Inr (e\<lparr>e_id := i, e_run := rid, e_step := sid, e_attempt := aid, e_key := key,
              e_tool := tool, e_tool_version := tv, e_schema := sch, e_args := args,
              e_digest := dg, e_result_ref := ref, e_by := by', e_reason := rs\<rparr>))))))))))))))"

definition make_run_event :: "world \<Rightarrow> run_event \<Rightarrow> run_event result" where
  "make_run_event w v =
     and_then (required (v_id v)) (\<lambda>i.
     and_then (required (v_run v)) (\<lambda>rid.
     and_then (required (v_name v)) (\<lambda>n.
     and_then (required (v_actor v)) (\<lambda>ac.
     and_then (require (1 \<le> v_seq v) ValueError) (\<lambda>_.
     and_then (optional (v_step v)) (\<lambda>sid.
     and_then (optional (v_causation v)) (\<lambda>ca.
     and_then (optional (v_correlation v)) (\<lambda>co.
     and_then (optional (v_idem v)) (\<lambda>idem.
       Inr (v\<lparr>v_id := i, v_run := rid, v_name := n, v_actor := ac,
              v_payload := safe_mapping w (v_payload v), v_step := sid, v_causation := ca,
              v_correlation := co, v_idem := idem\<rparr>))))))))))"

definition make_run_claim :: "run_claim \<Rightarrow> run_claim result" where
  "make_run_claim c =
     and_then (required (c_run c)) (\<lambda>rid.
     and_then (required (c_scope_key c)) (\<lambda>key.
     and_then (required (c_worker c)) (\<lambda>wk.
     and_then (required (c_token c)) (\<lambda>tok.
     and_then (require (0 \<le> c_rev c) ValueError) (\<lambda>_.
       Inr (c\<lparr>c_run := rid, c_scope_key := key, c_worker := wk, c_token := tok\<rparr>))))))"

definition make_run_record :: "world \<Rightarrow> run_record \<Rightarrow> run_record result" where
  "make_run_record w r =
     and_then (required (rr_id r)) (\<lambda>i.
     and_then (require (i = sc_run (rr_scope r)) ValueError) (\<lambda>_.
     and_then (required (rr_idem r)) (\<lambda>key.
     and_then (required (rr_input r)) (\<lambda>inp.
     and_then (required (rr_def r)) (\<lambda>de.
     and_then (require (0 \<le> rr_rev r) ValueError) (\<lambda>_.
     and_then (require (rr_steps r \<noteq> [] \<and> list_all (\<lambda>s. s_run s = i) (rr_steps r)) ValueError) (\<lambda>_.
     and_then (optional (rr_waiting r)) (\<lambda>wt.
     and_then (optional (rr_error r)) (\<lambda>e.
       Inr (r\<lparr>rr_id := i, rr_idem := key, rr_input := inp, rr_def := de, rr_waiting := wt,
              rr_budget := safe_mapping w (rr_budget r), rr_meta := safe_mapping w (rr_meta r),
              rr_result := map_option (safe_mapping w) (rr_result r), rr_error := e\<rparr>))))))))))"

end
