(* ===== verification/StoreOps.thy ===== *)
theory StoreOps
  imports Prelude
begin

text \<open>
  Store operations: a computation on the database that may raise.  \<^verbatim>\<open>with self._connect()\<close>
  commits when the block ends and rolls back when it raises (\<^verbatim>\<open>storage/sqlite.py\<close>), so an
  operation returns the new database together with its value, or only the exception.
\<close>

named_theorems keeps_intros \<open>rules that carry a relation through an operation\<close>

type_synonym ('s, 'a) op = "'s \<Rightarrow> ('a \<times> 's) result"

definition bind :: "('s, 'a) op \<Rightarrow> ('a \<Rightarrow> ('s, 'b) op) \<Rightarrow> ('s, 'b) op" where
  "bind m f = (\<lambda>s. case m s of Inl e \<Rightarrow> Inl e | Inr (x, s') \<Rightarrow> f x s')"

definition ret :: "'a \<Rightarrow> ('s, 'a) op" where
  "ret x = (\<lambda>s. Inr (x, s))"

definition raise :: "py_error \<Rightarrow> ('s, 'a) op" where
  "raise e = (\<lambda>s. Inl e)"

definition lift :: "'a result \<Rightarrow> ('s, 'a) op" where
  "lift r = (\<lambda>s. case r of Inl e \<Rightarrow> Inl e | Inr x \<Rightarrow> Inr (x, s))"

definition guard :: "bool \<Rightarrow> py_error \<Rightarrow> ('s, unit) op" where
  "guard c e = (\<lambda>s. if c then Inr ((), s) else Inl e)"

definition gets :: "('s \<Rightarrow> 'a) \<Rightarrow> ('s, 'a) op" where
  "gets f = (\<lambda>s. Inr (f s, s))"

definition select_row :: "py_error \<Rightarrow> ('s \<Rightarrow> 'r option) \<Rightarrow> ('s, 'r) op" where
  "select_row e f = (\<lambda>s. case f s of None \<Rightarrow> Inl e | Some r \<Rightarrow> Inr (r, s))"

definition gets_result :: "('s \<Rightarrow> 'a result) \<Rightarrow> ('s, 'a) op" where
  "gets_result f = (\<lambda>s. case f s of Inl e \<Rightarrow> Inl e | Inr x \<Rightarrow> Inr (x, s))"

definition modify :: "('s \<Rightarrow> 's) \<Rightarrow> ('s, unit) op" where
  "modify f = (\<lambda>s. Inr ((), f s))"

definition modify_result :: "('s \<Rightarrow> 's result) \<Rightarrow> ('s, unit) op" where
  "modify_result f = (\<lambda>s. case f s of Inl e \<Rightarrow> Inl e | Inr s' \<Rightarrow> Inr ((), s'))"

definition if_so :: "bool \<Rightarrow> ('s, unit) op \<Rightarrow> ('s, unit) op" where
  "if_so c m = (if c then m else ret ())"

fun map_op :: "('a \<Rightarrow> ('s, 'b) op) \<Rightarrow> 'a list \<Rightarrow> ('s, 'b list) op" where
  "map_op f [] = ret []"
| "map_op f (x # xs) = bind (f x) (\<lambda>y. bind (map_op f xs) (\<lambda>ys. ret (y # ys)))"

text \<open>A call of which only the effect matters.\<close>

definition done_after :: "('s, 'a) op \<Rightarrow> ('s, unit) op" where
  "done_after m = bind m (\<lambda>_. ret ())"

text \<open>The database after a call: the new one on success, the old one after a rollback.\<close>

definition commit :: "('s, 'a) op \<Rightarrow> 's \<Rightarrow> 's" where
  "commit m s = (case m s of Inl e \<Rightarrow> s | Inr (x, s') \<Rightarrow> s')"

lemma bind_eq_Inr [result_simps]:
  "bind m f s = Inr (y, s') \<longleftrightarrow> (\<exists>x s1. m s = Inr (x, s1) \<and> f x s1 = Inr (y, s'))"
  by (auto simp: bind_def split: sum.splits)

lemma bind_eq_Inl:
  "bind m f s = Inl e \<longleftrightarrow> m s = Inl e \<or> (\<exists>x s1. m s = Inr (x, s1) \<and> f x s1 = Inl e)"
  by (auto simp: bind_def split: sum.splits)

lemma ret_eq_Inr [result_simps]: "ret x s = Inr (y, s') \<longleftrightarrow> y = x \<and> s' = s"
  by (auto simp: ret_def)

lemma raise_eq_Inr [result_simps]: "raise e s = Inr r \<longleftrightarrow> False"
  by (simp add: raise_def)

lemma lift_eq_Inr [result_simps]: "lift r s = Inr (x, s') \<longleftrightarrow> r = Inr x \<and> s' = s"
  by (auto simp: lift_def split: sum.splits)

lemma guard_eq_Inr [result_simps]: "guard c e s = Inr (u, s') \<longleftrightarrow> c \<and> s' = s"
  by (auto simp: guard_def)

lemma gets_eq_Inr [result_simps]: "gets f s = Inr (x, s') \<longleftrightarrow> x = f s \<and> s' = s"
  by (auto simp: gets_def)

lemma select_row_eq_Inr [result_simps]:
  "select_row e f s = Inr (x, s') \<longleftrightarrow> f s = Some x \<and> s' = s"
  by (auto simp: select_row_def split: option.splits)

lemma gets_result_eq_Inr [result_simps]: "gets_result f s = Inr (x, s') \<longleftrightarrow> f s = Inr x \<and> s' = s"
  by (auto simp: gets_result_def split: sum.splits)

lemma modify_eq_Inr [result_simps]: "modify f s = Inr (u, s') \<longleftrightarrow> s' = f s"
  by (auto simp: modify_def)

lemma modify_result_eq_Inr [result_simps]: "modify_result f s = Inr (u, s') \<longleftrightarrow> f s = Inr s'"
  by (auto simp: modify_result_def split: sum.splits)

lemma if_so_eq_Inr [result_simps]:
  "if_so c m s = Inr (u, s') \<longleftrightarrow> (if c then m s = Inr (u, s') else s' = s)"
  by (auto simp: if_so_def ret_def)

lemma done_after_eq: "done_after m s = Inr (u, s') \<longleftrightarrow> (\<exists>x. m s = Inr (x, s'))"
  by (auto simp: done_after_def result_simps)

lemma bind_assoc: "bind (bind m f) g = bind m (\<lambda>x. bind (f x) g)"
  by (auto simp: bind_def fun_eq_iff split: sum.splits)

lemma commit_Inl: "m s = Inl e \<Longrightarrow> commit m s = s"
  by (simp add: commit_def)

lemma commit_Inr: "m s = Inr (x, s') \<Longrightarrow> commit m s = s'"
  by (simp add: commit_def)

section \<open>Postconditions\<close>

text \<open>\<open>post m Q s\<close>: if \<open>m\<close> succeeds on \<open>s\<close>, its value and the new database satisfy \<open>Q\<close>.  The rules
  are directed by the syntax of \<open>m\<close>; \<open>intro post_intros\<close> runs an operation symbolically.\<close>

named_theorems post_intros \<open>symbolic execution of operations\<close>

definition post :: "('s, 'a) op \<Rightarrow> ('a \<Rightarrow> 's \<Rightarrow> bool) \<Rightarrow> 's \<Rightarrow> bool" where
  "post m Q s \<longleftrightarrow> (\<forall>x s'. m s = Inr (x, s') \<longrightarrow> Q x s')"

lemma postI: "(\<And>x s'. m s = Inr (x, s') \<Longrightarrow> Q x s') \<Longrightarrow> post m Q s"
  by (simp add: post_def)

lemma postD: "post m Q s \<Longrightarrow> m s = Inr (x, s') \<Longrightarrow> Q x s'"
  by (simp add: post_def)

lemma post_weaken: "post m Q s \<Longrightarrow> (\<And>x s'. Q x s' \<Longrightarrow> Q' x s') \<Longrightarrow> post m Q' s"
  by (simp add: post_def)

lemma post_bind [post_intros]: "post m (\<lambda>x s1. post (f x) Q s1) s \<Longrightarrow> post (bind m f) Q s"
  by (auto simp: post_def result_simps)

lemma post_ret [post_intros]: "Q x s \<Longrightarrow> post (ret x) Q s"
  by (auto simp: post_def result_simps)

lemma post_raise [post_intros]: "post (raise e) Q s"
  by (auto simp: post_def result_simps)

lemma post_lift [post_intros]: "(\<And>x. r = Inr x \<Longrightarrow> Q x s) \<Longrightarrow> post (lift r) Q s"
  by (auto simp: post_def result_simps)

lemma post_guard [post_intros]: "(c \<Longrightarrow> Q () s) \<Longrightarrow> post (guard c e) Q s"
  by (auto simp: post_def result_simps)

lemma post_gets [post_intros]: "Q (f s) s \<Longrightarrow> post (gets f) Q s"
  by (auto simp: post_def result_simps)

lemma post_gets_result [post_intros]: "(\<And>x. f s = Inr x \<Longrightarrow> Q x s) \<Longrightarrow> post (gets_result f) Q s"
  by (auto simp: post_def result_simps)

lemma post_select_row [post_intros]: "(\<And>x. f s = Some x \<Longrightarrow> Q x s) \<Longrightarrow> post (select_row e f) Q s"
  by (auto simp: post_def result_simps)

lemma post_modify [post_intros]: "Q () (f s) \<Longrightarrow> post (modify f) Q s"
  by (auto simp: post_def result_simps)

lemma post_modify_result [post_intros]: "(\<And>s'. f s = Inr s' \<Longrightarrow> Q () s') \<Longrightarrow> post (modify_result f) Q s"
  by (auto simp: post_def result_simps)

lemma post_if_so [post_intros]: "(c \<Longrightarrow> post m Q s) \<Longrightarrow> (\<not> c \<Longrightarrow> Q () s) \<Longrightarrow> post (if_so c m) Q s"
  by (auto simp: post_def result_simps split: if_splits)

lemma post_if [post_intros]:
  "(c \<Longrightarrow> post m Q s) \<Longrightarrow> (\<not> c \<Longrightarrow> post n Q s) \<Longrightarrow> post (if c then m else n) Q s"
  by simp

lemma post_case_option [post_intros]:
  "(v = None \<Longrightarrow> post m Q s) \<Longrightarrow> (\<And>x. v = Some x \<Longrightarrow> post (f x) Q s) \<Longrightarrow>
   post (case v of None \<Rightarrow> m | Some x \<Rightarrow> f x) Q s"
  by (simp split: option.splits)

lemma post_case_prod [post_intros]:
  "(\<And>x y. p = (x, y) \<Longrightarrow> post (f x y) Q s) \<Longrightarrow> post (case p of (x, y) \<Rightarrow> f x y) Q s"
  by (simp split: prod.splits)

lemma post_let [post_intros]: "(\<And>x. x = v \<Longrightarrow> post (f x) Q s) \<Longrightarrow> post (let x = v in f x) Q s"
  by simp

text \<open>A loop keeps what each of its rounds keeps.\<close>

lemma post_map_op:
  assumes "I s" and "\<And>x s. x \<in> set xs \<Longrightarrow> I s \<Longrightarrow> post (f x) (\<lambda>_ s'. I s') s"
  shows "post (map_op f xs) (\<lambda>_ s'. I s') s"
  using assms
proof (induction xs arbitrary: s)
  case Nil
  then show ?case by (simp add: post_ret)
next
  case (Cons x xs)
  have first: "post (f x) (\<lambda>_ s'. I s') s" using Cons.prems by simp
  have rest: "post (map_op f xs) (\<lambda>_ s'. I s') s'" if "I s'" for s'
    using Cons.IH [OF that] Cons.prems(2) by simp
  show ?case
    unfolding map_op.simps
    by (rule post_bind, rule post_weaken [OF first], rule post_bind, rule post_weaken [OF rest],
        assumption, rule post_ret, assumption)
qed

section \<open>What an operation keeps\<close>

text \<open>\<open>keeps R m\<close>: whenever \<open>m\<close> succeeds, the database before and the database after are
  related by \<open>R\<close>.  \<open>keeps_from P R m\<close> asks for it from databases with \<open>P\<close> only.\<close>

definition keeps :: "('s \<Rightarrow> 's \<Rightarrow> bool) \<Rightarrow> ('s, 'a) op \<Rightarrow> bool" where
  "keeps R m \<longleftrightarrow> (\<forall>s x s'. m s = Inr (x, s') \<longrightarrow> R s s')"

lemma keepsI: "(\<And>s x s'. m s = Inr (x, s') \<Longrightarrow> R s s') \<Longrightarrow> keeps R m"
  by (simp add: keeps_def)

lemma keepsD: "keeps R m \<Longrightarrow> m s = Inr (x, s') \<Longrightarrow> R s s'"
  by (simp add: keeps_def)

lemma post_keeps: "keeps R m \<Longrightarrow> (\<And>x t. R s t \<Longrightarrow> Q x t) \<Longrightarrow> post m Q s"
  by (rule postI) (auto dest: keepsD)

lemma keeps_post: "(\<And>s. post m (\<lambda>_ t. R s t) s) \<Longrightarrow> keeps R m"
  by (auto simp: post_def keeps_def)

text \<open>An operation that does not write.\<close>

definition reads_only :: "('s, 'a) op \<Rightarrow> bool" where
  "reads_only m = keeps (\<lambda>s s'. s' = s) m"

lemma reads_onlyD: "reads_only m \<Longrightarrow> m s = Inr (x, s') \<Longrightarrow> s' = s"
  by (auto simp: reads_only_def dest: keepsD)

text \<open>A relation between databases that every database has with itself and that composes:
  what holds of each write holds of a transaction, and of a history of transactions.\<close>

locale evolution =
  fixes R :: "'s \<Rightarrow> 's \<Rightarrow> bool"
  assumes same: "R s s"
    and later: "R s t \<Longrightarrow> R t u \<Longrightarrow> R s u"
begin

lemma keeps_reads: "reads_only m \<Longrightarrow> keeps R m"
  by (rule keepsI) (auto dest: reads_onlyD intro: same)

lemma keeps_bind [keeps_intros]:
  assumes "keeps R m" and "\<And>x. keeps R (f x)"
  shows "keeps R (bind m f)"
  by (rule keepsI) (auto simp: result_simps intro: later dest: keepsD [OF assms(1)] keepsD [OF assms(2)])

lemma keeps_ret [keeps_intros]: "keeps R (ret x)"
  by (rule keepsI) (auto simp: result_simps intro: same)

lemma keeps_raise [keeps_intros]: "keeps R (raise e)"
  by (rule keepsI) (auto simp: result_simps)

lemma keeps_lift [keeps_intros]: "keeps R (lift r)"
  by (rule keepsI) (auto simp: result_simps intro: same)

lemma keeps_guard [keeps_intros]: "keeps R (guard c e)"
  by (rule keepsI) (auto simp: result_simps intro: same)

lemma keeps_gets [keeps_intros]: "keeps R (gets f)"
  by (rule keepsI) (auto simp: result_simps intro: same)

lemma keeps_select_row [keeps_intros]: "keeps R (select_row e f)"
  by (rule keepsI) (auto simp: result_simps intro: same)

lemma keeps_gets_result [keeps_intros]: "keeps R (gets_result f)"
  by (rule keepsI) (auto simp: result_simps intro: same)

lemma keeps_if_so [keeps_intros]: "keeps R m \<Longrightarrow> keeps R (if_so c m)"
  by (auto simp: if_so_def intro: keeps_ret)

lemma keeps_done_after: "keeps R m \<Longrightarrow> keeps R (done_after m)"
  unfolding done_after_def by (intro keeps_bind keeps_ret)

lemma keeps_map_op [keeps_intros]: "(\<And>x. keeps R (f x)) \<Longrightarrow> keeps R (map_op f xs)"
  by (induction xs) (auto intro: keeps_ret keeps_bind)

lemma keeps_modify [keeps_intros]: "(\<And>s. R s (f s)) \<Longrightarrow> keeps R (modify f)"
  by (rule keepsI) (auto simp: result_simps)

lemma keeps_modify_result [keeps_intros]:
  "(\<And>s s'. f s = Inr s' \<Longrightarrow> R s s') \<Longrightarrow> keeps R (modify_result f)"
  by (rule keepsI) (auto simp: result_simps)

lemma keeps_bind_from:
  assumes "\<And>s x s1. m s = Inr (x, s1) \<Longrightarrow> R s s1"
    and "\<And>s x s1 y s'. m s = Inr (x, s1) \<Longrightarrow> f x s1 = Inr (y, s') \<Longrightarrow> R s1 s'"
  shows "keeps R (bind m f)"
  by (rule keepsI) (auto simp: result_simps intro: later dest: assms)

lemma commit_keeps: "keeps R m \<Longrightarrow> R s (commit m s)"
  by (auto simp: commit_def same dest: keepsD split: sum.splits)

lemma history_keeps:
  assumes "\<And>c s. R s (step c s)"
  shows "R s (fold step cs s)"
  by (induction cs arbitrary: s) (auto intro: same later assms)

end

lemma keeps_if [keeps_intros]: "keeps R m \<Longrightarrow> keeps R n \<Longrightarrow> keeps R (if c then m else n)"
  by simp

lemma keeps_case_option [keeps_intros]:
  "keeps R m \<Longrightarrow> (\<And>x. keeps R (f x)) \<Longrightarrow> keeps R (case v of None \<Rightarrow> m | Some x \<Rightarrow> f x)"
  by (simp split: option.splits)

lemma keeps_case_prod [keeps_intros]:
  "(\<And>x y. keeps R (f x y)) \<Longrightarrow> keeps R (case p of (x, y) \<Rightarrow> f x y)"
  by (simp split: prod.splits)

lemma keeps_let [keeps_intros]: "(\<And>x. x = v \<Longrightarrow> keeps R (f x)) \<Longrightarrow> keeps R (let x = v in f x)"
  by simp

text \<open>Preservation of an invariant is such a relation.\<close>

definition preserves :: "('s \<Rightarrow> bool) \<Rightarrow> 's \<Rightarrow> 's \<Rightarrow> bool" where
  "preserves I s s' = (I s \<longrightarrow> I s')"

interpretation invariant: evolution "preserves I" for I
  by unfold_locales (auto simp: preserves_def)

lemma preservesI: "(I s \<Longrightarrow> I s') \<Longrightarrow> preserves I s s'"
  by (simp add: preserves_def)

lemma preservesD: "preserves I s s' \<Longrightarrow> I s \<Longrightarrow> I s'"
  by (simp add: preserves_def)

text \<open>The same database: reads compose.\<close>

interpretation unchanged: evolution "\<lambda>s s'. s' = s"
  by unfold_locales auto

lemma reads_only_intros:
  "reads_only (ret x)" "reads_only (raise e)" "reads_only (lift r)" "reads_only (guard c e)"
  "reads_only (gets f)" "reads_only (gets_result g)" "reads_only (select_row e f')"
  by (auto simp: reads_only_def intro!: unchanged.keeps_ret unchanged.keeps_raise unchanged.keeps_lift
      unchanged.keeps_guard unchanged.keeps_gets unchanged.keeps_gets_result unchanged.keeps_select_row)

lemma reads_only_bind: "reads_only m \<Longrightarrow> (\<And>x. reads_only (f x)) \<Longrightarrow> reads_only (bind m f)"
  unfolding reads_only_def by (rule unchanged.keeps_bind)

end
