(* ===== verification/RunTables.thy ===== *)
theory RunTables
  imports RunModels StoreOps
begin

text \<open>
  The tables of durable execution (\<^verbatim>\<open>storage/migrations.py\<close>), the statements the store issues on
  them, and the shared helpers of \<^verbatim>\<open>runs/_store_support.py\<close> that read rows into records, check
  scopes and leases, move a run to a state and append to its event log.  A JSON column holds
  the value its text denotes; a retry policy is kept as the record its JSON denotes.
\<close>

section \<open>Tables\<close>

record run_row =
  r_id :: string
  r_tenant :: string
  r_workspace :: string
  r_agent :: string
  r_version :: string
  r_scope_key :: string
  r_scope :: pydict
  r_idem :: string
  r_input :: string
  r_def :: string
  r_status :: run_status
  r_rev :: int
  r_cancel :: bool
  r_waiting :: "string option"
  r_retry_at :: "int option"
  r_budget :: pydict
  r_meta :: pydict
  r_result :: "pydict option"
  r_error :: "string option"
  r_token :: "string option"
  r_worker :: "string option"
  r_lease :: "int option"
  r_created :: int
  r_updated :: int
  r_completed :: "int option"

record result_row =
  x_effect :: string
  x_value :: pydict
  x_digest :: string
  x_recorded :: int

datatype aggregation_status = AggOpen | AggCompleted

record parent_row =
  p_run :: string
  p_policy :: pydict
  p_status :: aggregation_status
  p_rev :: int
  p_key :: "string option"
  p_result :: "pydict option"
  p_created :: int
  p_updated :: int

record child_row =
  ch_run :: string
  ch_parent :: string
  ch_ordinal :: int
  ch_idem :: string
  ch_revision :: string
  ch_def :: string
  ch_input :: string
  ch_budget :: pydict
  ch_evidence :: "pydict option"
  ch_created :: int
  ch_updated :: int

record progress_row =
  g_child :: string
  g_seq :: int
  g_payload :: pydict
  g_actor :: string
  g_idem :: string
  g_created :: int

datatype completion_status = CompPending | CompClaimed | CompDelivered | CompUnknown

record outbox_row =
  o_id :: string
  o_parent :: string
  o_status :: completion_status
  o_payload :: pydict
  o_attempts :: int
  o_worker :: "string option"
  o_token :: "string option"
  o_lease :: "int option"
  o_error :: "string option"
  o_created :: int
  o_updated :: int
  o_delivered :: "int option"

text \<open>\<open>draws\<close> counts the identifiers that \<^verbatim>\<open>uuid4\<close> has given out.\<close>

record db =
  t_runs :: "run_row list"
  t_steps :: "step_record list"
  t_attempts :: "attempt_record list"
  t_checkpoints :: "checkpoint_record list"
  t_effects :: "effect_record list"
  t_results :: "result_row list"
  t_events :: "run_event list"
  t_parents :: "parent_row list"
  t_children :: "child_row list"
  t_progress :: "progress_row list"
  t_outbox :: "outbox_row list"
  draws :: nat

definition empty_db :: db where
  "empty_db = \<lparr>t_runs = [], t_steps = [], t_attempts = [], t_checkpoints = [], t_effects = [],
     t_results = [], t_events = [], t_parents = [], t_children = [], t_progress = [], t_outbox = [],
     draws = 0\<rparr>"

subsection \<open>Statements\<close>

text \<open>\<open>UPDATE\<close> returns the number of rows it matched.\<close>

definition upd_runs :: "(run_row \<Rightarrow> bool) \<Rightarrow> (run_row \<Rightarrow> run_row) \<Rightarrow> (db, nat) op" where
  "upd_runs P f = (\<lambda>db. Inr (rowcount P (t_runs db), db\<lparr>t_runs := upd_where P f (t_runs db)\<rparr>))"

definition upd_steps :: "(step_record \<Rightarrow> bool) \<Rightarrow> (step_record \<Rightarrow> step_record) \<Rightarrow> (db, nat) op" where
  "upd_steps P f = (\<lambda>db. Inr (rowcount P (t_steps db), db\<lparr>t_steps := upd_where P f (t_steps db)\<rparr>))"

definition upd_attempts :: "(attempt_record \<Rightarrow> bool) \<Rightarrow> (attempt_record \<Rightarrow> attempt_record) \<Rightarrow> (db, nat) op" where
  "upd_attempts P f =
     (\<lambda>db. Inr (rowcount P (t_attempts db), db\<lparr>t_attempts := upd_where P f (t_attempts db)\<rparr>))"

definition upd_effects :: "(effect_record \<Rightarrow> bool) \<Rightarrow> (effect_record \<Rightarrow> effect_record) \<Rightarrow> (db, nat) op" where
  "upd_effects P f =
     (\<lambda>db. Inr (rowcount P (t_effects db), db\<lparr>t_effects := upd_where P f (t_effects db)\<rparr>))"

definition upd_parents :: "(parent_row \<Rightarrow> bool) \<Rightarrow> (parent_row \<Rightarrow> parent_row) \<Rightarrow> (db, nat) op" where
  "upd_parents P f =
     (\<lambda>db. Inr (rowcount P (t_parents db), db\<lparr>t_parents := upd_where P f (t_parents db)\<rparr>))"

definition upd_children :: "(child_row \<Rightarrow> bool) \<Rightarrow> (child_row \<Rightarrow> child_row) \<Rightarrow> (db, nat) op" where
  "upd_children P f =
     (\<lambda>db. Inr (rowcount P (t_children db), db\<lparr>t_children := upd_where P f (t_children db)\<rparr>))"

definition upd_outbox :: "(outbox_row \<Rightarrow> bool) \<Rightarrow> (outbox_row \<Rightarrow> outbox_row) \<Rightarrow> (db, nat) op" where
  "upd_outbox P f =
     (\<lambda>db. Inr (rowcount P (t_outbox db), db\<lparr>t_outbox := upd_where P f (t_outbox db)\<rparr>))"

text \<open>\<open>INSERT\<close> checks the keys, the unique constraints and the foreign keys of the table.\<close>

definition insert_run :: "run_row \<Rightarrow> (db, unit) op" where
  "insert_run r = modify_result (\<lambda>db. and_then
     (insert_row (list_all (\<lambda>q. r_id q \<noteq> r_id r) (t_runs db)
        \<and> list_all (\<lambda>q. \<not> (r_tenant q = r_tenant r \<and> r_workspace q = r_workspace r \<and> r_idem q = r_idem r))
            (t_runs db)) r (t_runs db))
     (\<lambda>rows. Inr (db\<lparr>t_runs := rows\<rparr>)))"

definition insert_step :: "step_record \<Rightarrow> (db, unit) op" where
  "insert_step s = modify_result (\<lambda>db. and_then
     (insert_row (list_all (\<lambda>q. \<not> (s_run q = s_run s \<and> s_id q = s_id s)) (t_steps db)
        \<and> list_ex (\<lambda>r. r_id r = s_run s) (t_runs db)) s (t_steps db))
     (\<lambda>rows. Inr (db\<lparr>t_steps := rows\<rparr>)))"

definition insert_attempt :: "attempt_record \<Rightarrow> (db, unit) op" where
  "insert_attempt a = modify_result (\<lambda>db. and_then
     (insert_row (list_all (\<lambda>q. a_id q \<noteq> a_id a) (t_attempts db)
        \<and> list_all (\<lambda>q. \<not> (a_run q = a_run a \<and> a_step q = a_step a \<and> a_number q = a_number a))
            (t_attempts db)
        \<and> list_ex (\<lambda>s. s_run s = a_run a \<and> s_id s = a_step a) (t_steps db)) a (t_attempts db))
     (\<lambda>rows. Inr (db\<lparr>t_attempts := rows\<rparr>)))"

definition insert_checkpoint :: "checkpoint_record \<Rightarrow> (db, unit) op" where
  "insert_checkpoint k = modify_result (\<lambda>db. and_then
     (insert_row (list_all (\<lambda>q. k_id q \<noteq> k_id k) (t_checkpoints db)
        \<and> list_all (\<lambda>q. \<not> (k_run q = k_run k \<and> k_seq q = k_seq k)) (t_checkpoints db)
        \<and> list_ex (\<lambda>a. a_id a = k_attempt k) (t_attempts db)) k (t_checkpoints db))
     (\<lambda>rows. Inr (db\<lparr>t_checkpoints := rows\<rparr>)))"

definition insert_effect :: "effect_record \<Rightarrow> (db, unit) op" where
  "insert_effect e = modify_result (\<lambda>db. and_then
     (insert_row (list_all (\<lambda>q. e_id q \<noteq> e_id e) (t_effects db)
        \<and> list_all (\<lambda>q. \<not> (e_run q = e_run e \<and> e_key q = e_key e)) (t_effects db)
        \<and> list_ex (\<lambda>a. a_id a = e_attempt e) (t_attempts db)) e (t_effects db))
     (\<lambda>rows. Inr (db\<lparr>t_effects := rows\<rparr>)))"

text \<open>\<open>ON CONFLICT(effect_id) DO NOTHING\<close>.\<close>

definition insert_result :: "result_row \<Rightarrow> (db, unit) op" where
  "insert_result x = modify_result (\<lambda>db.
     if list_ex (\<lambda>q. x_effect q = x_effect x) (t_results db) then Inr db
     else and_then (insert_row (list_ex (\<lambda>e. e_id e = x_effect x) (t_effects db)) x (t_results db))
            (\<lambda>rows. Inr (db\<lparr>t_results := rows\<rparr>)))"

definition insert_event_row :: "run_event \<Rightarrow> (db, unit) op" where
  "insert_event_row v = modify_result (\<lambda>db. and_then
     (insert_row (list_all (\<lambda>q. v_id q \<noteq> v_id v) (t_events db)
        \<and> list_all (\<lambda>q. \<not> (v_run q = v_run v \<and> v_seq q = v_seq v)) (t_events db)
        \<and> list_all (\<lambda>q. \<not> (v_run q = v_run v \<and> v_idem v \<noteq> None \<and> v_idem q = v_idem v)) (t_events db)
        \<and> list_ex (\<lambda>r. r_id r = v_run v) (t_runs db)) v (t_events db))
     (\<lambda>rows. Inr (db\<lparr>t_events := rows\<rparr>)))"

definition insert_parent :: "parent_row \<Rightarrow> (db, unit) op" where
  "insert_parent p = modify_result (\<lambda>db. and_then
     (insert_row (list_all (\<lambda>q. p_run q \<noteq> p_run p) (t_parents db)
        \<and> list_ex (\<lambda>r. r_id r = p_run p) (t_runs db) \<and> 0 \<le> p_rev p) p (t_parents db))
     (\<lambda>rows. Inr (db\<lparr>t_parents := rows\<rparr>)))"

definition insert_child :: "child_row \<Rightarrow> (db, unit) op" where
  "insert_child c = modify_result (\<lambda>db. and_then
     (insert_row (list_all (\<lambda>q. ch_run q \<noteq> ch_run c) (t_children db)
        \<and> list_all (\<lambda>q. \<not> (ch_parent q = ch_parent c \<and> ch_ordinal q = ch_ordinal c)) (t_children db)
        \<and> list_all (\<lambda>q. \<not> (ch_parent q = ch_parent c \<and> ch_idem q = ch_idem c)) (t_children db)
        \<and> list_ex (\<lambda>p. p_run p = ch_parent c) (t_parents db)
        \<and> list_ex (\<lambda>r. r_id r = ch_run c) (t_runs db) \<and> 0 < ch_ordinal c) c (t_children db))
     (\<lambda>rows. Inr (db\<lparr>t_children := rows\<rparr>)))"

definition insert_progress :: "progress_row \<Rightarrow> (db, unit) op" where
  "insert_progress g = modify_result (\<lambda>db. and_then
     (insert_row (list_all (\<lambda>q. \<not> (g_child q = g_child g \<and> g_seq q = g_seq g)) (t_progress db)
        \<and> list_all (\<lambda>q. \<not> (g_child q = g_child g \<and> g_idem q = g_idem g)) (t_progress db)
        \<and> list_ex (\<lambda>c. ch_run c = g_child g) (t_children db) \<and> 0 < g_seq g) g (t_progress db))
     (\<lambda>rows. Inr (db\<lparr>t_progress := rows\<rparr>)))"

definition insert_outbox :: "outbox_row \<Rightarrow> (db, unit) op" where
  "insert_outbox b = modify_result (\<lambda>db. and_then
     (insert_row (list_all (\<lambda>q. o_id q \<noteq> o_id b) (t_outbox db)
        \<and> list_all (\<lambda>q. o_parent q \<noteq> o_parent b) (t_outbox db)
        \<and> list_ex (\<lambda>p. p_run p = o_parent b) (t_parents db) \<and> 0 \<le> o_attempts b) b (t_outbox db))
     (\<lambda>rows. Inr (db\<lparr>t_outbox := rows\<rparr>)))"

definition new_uuid :: "world \<Rightarrow> (db, string) op" where
  "new_uuid w = (\<lambda>db. Inr (uuid4 w (draws db), db\<lparr>draws := Suc (draws db)\<rparr>))"

text \<open>\<open>except IntegrityError: raise RunConflictError\<close>.\<close>

definition conflict_on_integrity :: "(db, 'a) op \<Rightarrow> (db, 'a) op" where
  "conflict_on_integrity m = (\<lambda>db. case m db of
     Inl e \<Rightarrow> Inl (if e = IntegrityError then RunConflictError else e)
   | Inr r \<Rightarrow> Inr r)"

section \<open>Reading rows\<close>

text \<open>\<^verbatim>\<open>_required\<close> of the store: stripped and not empty.\<close>

definition not_empty :: "string \<Rightarrow> string result" where
  "not_empty clean = (if clean = [] then Inl ValueError else Inr clean)"

definition store_required :: "string \<Rightarrow> string result" where
  "store_required s = not_empty (strip s)"

definition positive_seconds :: "int \<Rightarrow> unit result" where
  "positive_seconds n = require (1 \<le> n) ValueError"

definition select_run :: "string \<Rightarrow> (db, run_row) op" where
  "select_run rid = select_row RunNotFoundError (\<lambda>db. find (\<lambda>r. r_id r = rid) (t_runs db))"

definition step_row :: "string \<Rightarrow> string \<Rightarrow> (db, step_record) op" where
  "step_row rid sid = select_row RunNotFoundError
     (\<lambda>db. find (\<lambda>s. s_run s = rid \<and> s_id s = sid) (t_steps db))"

definition effect_row :: "string \<Rightarrow> (db, effect_record) op" where
  "effect_row eid = select_row RunNotFoundError (\<lambda>db. find (\<lambda>e. e_id e = eid) (t_effects db))"

definition step_from_row :: "world \<Rightarrow> step_record \<Rightarrow> step_record result" where
  "step_from_row w s =
     and_then (make_retry_policy (s_retry s)) (\<lambda>p. make_step_record w (s\<lparr>s_retry := p\<rparr>))"

definition run_record_of :: "run_row \<Rightarrow> string \<Rightarrow> exec_scope \<Rightarrow> step_record list \<Rightarrow> run_record" where
  "run_record_of r key scope steps =
     \<lparr>rr_id = r_id r, rr_scope = scope, rr_idem = key, rr_input = r_input r, rr_def = r_def r,
      rr_status = r_status r, rr_rev = r_rev r, rr_steps = steps, rr_cancel = r_cancel r,
      rr_waiting = r_waiting r, rr_retry_at = r_retry_at r, rr_budget = r_budget r,
      rr_meta = r_meta r, rr_result = r_result r, rr_error = r_error r,
      rr_created = r_created r, rr_updated = r_updated r, rr_completed = r_completed r\<rparr>"

text \<open>The key a child was submitted with is kept in its link; the row holds a derived one.\<close>

definition visible_key :: "run_row \<Rightarrow> string option \<Rightarrow> db \<Rightarrow> string" where
  "visible_key r idem db =
     (case idem of
        Some k \<Rightarrow> k
      | None \<Rightarrow>
          if starts_with ''child:'' (r_idem r)
          then (case find (\<lambda>c. ch_run c = r_id r) (t_children db) of
                  None \<Rightarrow> r_idem r | Some c \<Rightarrow> ch_idem c)
          else r_idem r)"

definition run_view :: "world \<Rightarrow> run_row \<Rightarrow> string option \<Rightarrow> db \<Rightarrow> run_record result" where
  "run_view w r idem db =
     and_then (scope_from_dict (r_scope r)) (\<lambda>scope.
     and_then (map_result (step_from_row w)
        (sort_key (\<lambda>s. (s_created s, s_id s)) (filter (\<lambda>s. s_run s = r_id r) (t_steps db)))) (\<lambda>steps.
       make_run_record w (run_record_of r (visible_key r idem db) scope steps)))"

definition run_from_conn :: "world \<Rightarrow> run_row \<Rightarrow> string option \<Rightarrow> (db, run_record) op" where
  "run_from_conn w r idem = gets_result (run_view w r idem)"

definition read_run :: "world \<Rightarrow> string \<Rightarrow> (db, run_record) op" where
  "read_run w rid = bind (select_run rid) (\<lambda>r. run_from_conn w r None)"

definition run_terminal :: "run_record \<Rightarrow> bool" where
  "run_terminal r = terminal_run (rr_status r)"

text \<open>\<^verbatim>\<open>_assert_scope\<close>.\<close>

definition assert_scope :: "world \<Rightarrow> exec_scope \<Rightarrow> exec_scope \<Rightarrow> unit result" where
  "assert_scope w requested persisted =
     (case assert_same_authority requested persisted of
        Inl e \<Rightarrow> Inl RunNotFoundError
      | Inr _ \<Rightarrow> require (\<not> ((sc_parent requested \<noteq> None \<or> sc_parent persisted \<noteq> None)
                              \<and> scope_key w requested \<noteq> scope_key w persisted)) RunNotFoundError)"

text \<open>\<^verbatim>\<open>_owned_run\<close>: the fence every worker operation passes.\<close>

definition holds_lease :: "run_claim \<Rightarrow> run_row \<Rightarrow> int \<Rightarrow> bool" where
  "holds_lease c r now \<longleftrightarrow>
     r_token r = Some (c_token c) \<and> r_worker r = Some (c_worker c)
     \<and> (case r_lease r of None \<Rightarrow> False | Some t \<Rightarrow> now \<le> t) \<and> r_status r = RunRunning"

definition owned_run :: "world \<Rightarrow> exec_scope \<Rightarrow> run_claim \<Rightarrow> int \<Rightarrow> (db, run_row) op" where
  "owned_run w scope c now =
     bind (select_run (c_run c)) (\<lambda>r.
     bind (lift (scope_from_dict (r_scope r))) (\<lambda>persisted.
     bind (lift (assert_scope w scope persisted)) (\<lambda>_.
     bind (guard (c_scope_key c = scope_key w persisted) RunLeaseError) (\<lambda>_.
     bind (guard (holds_lease c r now) RunLeaseError) (\<lambda>_.
       ret r)))))"

section \<open>Attempts and run states\<close>

definition active_attempt :: "string \<Rightarrow> string \<Rightarrow> (db, attempt_record) op" where
  "active_attempt rid sid = select_row InvalidRunTransitionError (\<lambda>db.
     first_by (\<lambda>a. - a_number a) (\<lambda>a. a_run a = rid \<and> a_step a = sid \<and> a_status a = AttemptRunning)
       (t_attempts db))"

definition mark_active_attempt ::
  "string \<Rightarrow> string \<Rightarrow> attempt_status \<Rightarrow> int \<Rightarrow> string option \<Rightarrow> (db, unit) op" where
  "mark_active_attempt rid sid st now err =
     bind (upd_attempts (\<lambda>a. a_run a = rid \<and> a_step a = sid \<and> a_status a = AttemptRunning)
             (\<lambda>a. a\<lparr>a_status := st, a_error := err, a_completed := Some now\<rparr>)) (\<lambda>n.
       guard (n = 1) InvalidRunTransitionError)"

definition touch_run :: "string \<Rightarrow> int \<Rightarrow> (db, unit) op" where
  "touch_run rid now =
     bind (upd_runs (\<lambda>r. r_id r = rid) (\<lambda>r. r\<lparr>r_rev := r_rev r + 1, r_updated := now\<rparr>)) (\<lambda>n.
       guard (n = 1) RunConflictError)"

text \<open>The keyword arguments of \<^verbatim>\<open>_set_run_state\<close> and their defaults.\<close>

record run_change =
  n_error :: "string option"
  n_waiting :: "string option"
  n_retry_at :: "int option"
  n_result :: "pydict option"
  n_clear_lease :: bool
  n_completed :: bool

definition no_change :: run_change where
  "no_change = \<lparr>n_error = None, n_waiting = None, n_retry_at = None, n_result = None,
     n_clear_lease = False, n_completed = False\<rparr>"

definition changed_run :: "world \<Rightarrow> run_status \<Rightarrow> int \<Rightarrow> run_change \<Rightarrow> run_row \<Rightarrow> run_row" where
  "changed_run w st now n r =
     r\<lparr>r_status := st, r_rev := r_rev r + 1, r_error := n_error n, r_waiting := n_waiting n,
       r_retry_at := n_retry_at n, r_result := map_option (stored_json w) (n_result n),
       r_token := (if n_clear_lease n then None else r_token r),
       r_worker := (if n_clear_lease n then None else r_worker r),
       r_lease := (if n_clear_lease n then None else r_lease r),
       r_updated := now, r_completed := (if n_completed n then Some now else None)\<rparr>"

definition set_run_state ::
  "world \<Rightarrow> string \<Rightarrow> run_status \<Rightarrow> int \<Rightarrow> run_change \<Rightarrow> (db, unit) op" where
  "set_run_state w rid st now n =
     bind (upd_runs (\<lambda>r. r_id r = rid) (changed_run w st now n)) (\<lambda>k.
       guard (k = 1) RunConflictError)"

definition set_cancel_requested :: "string \<Rightarrow> (db, unit) op" where
  "set_cancel_requested rid =
     bind (upd_runs (\<lambda>r. r_id r = rid) (\<lambda>r. r\<lparr>r_cancel := True\<rparr>)) (\<lambda>_. ret ())"

section \<open>Events\<close>

text \<open>The optional keyword arguments of \<^verbatim>\<open>_insert_event\<close>.\<close>

record event_args =
  g_step :: "string option"
  g_causation :: "string option"
  g_correlation :: "string option"
  g_key :: "string option"

definition plain_event :: event_args where
  "plain_event = \<lparr>g_step = None, g_causation = None, g_correlation = None, g_key = None\<rparr>"

definition keyed_event :: "world \<Rightarrow> string \<Rightarrow> string \<Rightarrow> pydict \<Rightarrow> string option \<Rightarrow> db \<Rightarrow> run_event option result" where
  "keyed_event w rid name payload key db =
     (case key of
        None \<Rightarrow> Inr None
      | Some k \<Rightarrow>
          (case find (\<lambda>v. v_run v = rid \<and> v_idem v = Some k) (t_events db) of
             None \<Rightarrow> Inr None
           | Some row \<Rightarrow>
               and_then (make_run_event w row) (\<lambda>v.
               and_then (require (v_name v = name
                   \<and> py_eq (PDict (v_payload v)) (PDict (safe_payload w payload))) RunConflictError) (\<lambda>_.
                 Inr (Some v)))))"

definition insert_event ::
  "world \<Rightarrow> string \<Rightarrow> string \<Rightarrow> string \<Rightarrow> pydict \<Rightarrow> int \<Rightarrow> event_args \<Rightarrow> (db, run_event) op" where
  "insert_event w rid name actor payload now g =
     bind (gets_result (keyed_event w rid name payload (g_key g))) (\<lambda>existing.
       (case existing of
          Some v \<Rightarrow> ret v
        | None \<Rightarrow>
            bind (gets (\<lambda>db. next_seq (map v_seq (filter (\<lambda>v. v_run v = rid) (t_events db))))) (\<lambda>n.
            bind (new_uuid w) (\<lambda>i.
            bind (lift (make_run_event w
                    \<lparr>v_id = i, v_run = rid, v_seq = n, v_name = name, v_actor = actor,
                     v_payload = payload, v_step = g_step g, v_causation = g_causation g,
                     v_correlation = g_correlation g, v_idem = g_key g, v_created = now\<rparr>)) (\<lambda>v.
            bind (insert_event_row (v\<lparr>v_payload := stored_json w (v_payload v)\<rparr>)) (\<lambda>_.
              ret v))))))"

text \<open>An event of which only the step is given, and one of which only the key is.\<close>

definition log_event ::
  "world \<Rightarrow> string \<Rightarrow> string \<Rightarrow> string \<Rightarrow> string option \<Rightarrow> pydict \<Rightarrow> int \<Rightarrow> (db, unit) op" where
  "log_event w rid name actor step payload now =
     bind (insert_event w rid name actor payload now (plain_event\<lparr>g_step := step\<rparr>)) (\<lambda>_. ret ())"

definition log_keyed ::
  "world \<Rightarrow> string \<Rightarrow> string \<Rightarrow> string \<Rightarrow> string \<Rightarrow> pydict \<Rightarrow> int \<Rightarrow> (db, unit) op" where
  "log_keyed w rid name actor key payload now =
     bind (insert_event w rid name actor payload now (plain_event\<lparr>g_key := Some key\<rparr>)) (\<lambda>_. ret ())"

definition next_checkpoint_sequence :: "string \<Rightarrow> (db, int) op" where
  "next_checkpoint_sequence rid =
     gets (\<lambda>db. next_seq (map k_seq (filter (\<lambda>k. k_run k = rid) (t_checkpoints db))))"

end
