(* ===== verification/RunSupport.thy ===== *)
theory RunSupport
  imports RunTables
begin

text \<open>
  The rest of \<^verbatim>\<open>runs/_store_support.py\<close>: submission with its idempotency key, scoped reads, the
  records of parents and children (\<^verbatim>\<open>runs/parent_child.py\<close>), expiry of linked children,
  settlement of cancellations, and the terminal evidence of a child.
\<close>

section \<open>Submission\<close>

definition storage_key :: "string option \<Rightarrow> run_submission \<Rightarrow> string" where
  "storage_key storage s = or_else storage (su_key s) id"

definition same_submission :: "run_record \<Rightarrow> run_submission \<Rightarrow> bool" where
  "same_submission r s \<longleftrightarrow> rr_input r = su_input s \<and> rr_def r = su_def s
     \<and> py_eq (PDict (rr_budget r)) (PDict (su_budget s))"

definition idempotent_run_row ::
  "world \<Rightarrow> exec_scope \<Rightarrow> run_submission \<Rightarrow> string option \<Rightarrow> (db, run_row option) op" where
  "idempotent_run_row w scope s storage =
     bind (gets (\<lambda>db. find (\<lambda>r. r_tenant r = sc_tenant scope \<and> r_workspace r = sc_workspace scope
                               \<and> r_idem r = storage_key storage s) (t_runs db))) (\<lambda>dup.
     (case dup of
        None \<Rightarrow> ret None
      | Some row \<Rightarrow>
          bind (read_run w (r_id row)) (\<lambda>existing.
          bind (lift (assert_scope w scope (rr_scope existing))) (\<lambda>_.
          bind (guard (same_submission existing s) RunConflictError) (\<lambda>_.
            ret (Some row))))))"

definition new_run_row :: "world \<Rightarrow> exec_scope \<Rightarrow> run_submission \<Rightarrow> string option \<Rightarrow> int \<Rightarrow> run_row" where
  "new_run_row w scope s storage now =
     \<lparr>r_id = sc_run scope, r_tenant = sc_tenant scope, r_workspace = sc_workspace scope,
      r_agent = sc_agent scope, r_version = sc_version scope, r_scope_key = scope_key w scope,
      r_scope = stored_json w (scope_to_dict scope), r_idem = storage_key storage s,
      r_input = su_input s, r_def = su_def s, r_status = RunQueued, r_rev = 0, r_cancel = False,
      r_waiting = None, r_retry_at = None, r_budget = stored_json w (su_budget s),
      r_meta = stored_json w (su_meta s), r_result = None, r_error = None, r_token = None,
      r_worker = None, r_lease = None, r_created = now, r_updated = now, r_completed = None\<rparr>"

definition new_step_row :: "world \<Rightarrow> string \<Rightarrow> int \<Rightarrow> step_definition \<Rightarrow> step_record" where
  "new_step_row w rid now d =
     \<lparr>s_id = d_id d, s_run = rid, s_name = d_name d, s_status = StepQueued, s_rev = 0, s_attempts = 0,
      s_retry = d_retry d, s_retry_at = None, s_checkpoint = None, s_error = None,
      s_meta = stored_json w (d_meta d), s_created = now, s_updated = now, s_started = None,
      s_completed = None\<rparr>"

definition submit_run ::
  "world \<Rightarrow> exec_scope \<Rightarrow> run_submission \<Rightarrow> string \<Rightarrow> int \<Rightarrow> string option \<Rightarrow> (db, run_record) op" where
  "submit_run w scope s actor now storage =
     bind (idempotent_run_row w scope s storage) (\<lambda>dup.
     (case dup of
        Some row \<Rightarrow> read_run w (r_id row)
      | None \<Rightarrow>
          bind (conflict_on_integrity (insert_run (new_run_row w scope s storage now))) (\<lambda>_.
          bind (map_op (\<lambda>d. insert_step (new_step_row w (sc_run scope) now d)) (su_steps s)) (\<lambda>_.
          bind (insert_event w (sc_run scope) ''run.queued'' actor
                  [(''definition_digest'', PStr (su_def s)), (''input_digest'', PStr (su_input s)),
                   (''source_event_id'', opt_str (su_source s))] now
                  (plain_event\<lparr>g_correlation := su_correlation s,
                               g_key := Some (''submit:'' @ su_key s)\<rparr>)) (\<lambda>_.
            read_run w (sc_run scope))))))"

definition submit :: "world \<Rightarrow> int \<Rightarrow> exec_scope \<Rightarrow> run_submission \<Rightarrow> string \<Rightarrow> (db, run_record) op" where
  "submit w now scope s actor =
     bind (lift (store_required actor)) (\<lambda>actor.
       submit_run w scope s actor now None)"

section \<open>Scoped reads and host events\<close>

definition get_run :: "world \<Rightarrow> exec_scope \<Rightarrow> string \<Rightarrow> (db, run_record) op" where
  "get_run w scope rid =
     bind (read_run w rid) (\<lambda>r.
     bind (lift (assert_scope w scope (rr_scope r))) (\<lambda>_.
       ret r))"

definition run_events :: "world \<Rightarrow> exec_scope \<Rightarrow> string \<Rightarrow> int \<Rightarrow> (db, run_event list) op" where
  "run_events w scope rid after =
     bind (get_run w scope rid) (\<lambda>_.
     gets_result (\<lambda>db. map_result (make_run_event w)
       (sort_key v_seq (filter (\<lambda>v. v_run v = rid \<and> after < v_seq v) (t_events db)))))"

definition run_attempts :: "world \<Rightarrow> exec_scope \<Rightarrow> string \<Rightarrow> string option \<Rightarrow> (db, attempt_record list) op" where
  "run_attempts w scope rid step =
     bind (get_run w scope rid) (\<lambda>_.
     gets_result (\<lambda>db. map_result make_attempt_record
       (sort_key (\<lambda>a. (a_step a, a_number a))
          (filter (\<lambda>a. a_run a = rid \<and> (case step of None \<Rightarrow> True | Some sid \<Rightarrow> a_step a = sid))
             (t_attempts db)))))"

definition run_checkpoints :: "world \<Rightarrow> exec_scope \<Rightarrow> string \<Rightarrow> string option \<Rightarrow> (db, checkpoint_record list) op" where
  "run_checkpoints w scope rid step =
     bind (get_run w scope rid) (\<lambda>_.
     gets_result (\<lambda>db. map_result (make_checkpoint w)
       (sort_key k_seq
          (filter (\<lambda>k. k_run k = rid \<and> (case step of None \<Rightarrow> True | Some sid \<Rightarrow> k_step k = sid))
             (t_checkpoints db)))))"

definition run_effects :: "world \<Rightarrow> exec_scope \<Rightarrow> string \<Rightarrow> string option \<Rightarrow> (db, effect_record list) op" where
  "run_effects w scope rid step =
     bind (get_run w scope rid) (\<lambda>_.
     gets_result (\<lambda>db. map_result make_effect_record
       (sort_key (\<lambda>e. (e_created e, e_id e))
          (filter (\<lambda>e. e_run e = rid \<and> (case step of None \<Rightarrow> True | Some sid \<Rightarrow> e_step e = sid))
             (t_effects db)))))"

definition record_event ::
  "world \<Rightarrow> int \<Rightarrow> exec_scope \<Rightarrow> string \<Rightarrow> string \<Rightarrow> string \<Rightarrow> pydict \<Rightarrow> event_args \<Rightarrow> (db, run_event) op" where
  "record_event w now scope rid name actor payload g =
     bind (lift (store_required name)) (\<lambda>name.
     bind (lift (store_required actor)) (\<lambda>actor.
     bind (read_run w rid) (\<lambda>r.
     bind (lift (assert_scope w scope (rr_scope r))) (\<lambda>_.
       insert_event w rid name actor payload now g))))"

section \<open>Parents and children\<close>

record child_progress =
  cp_child :: string
  cp_seq :: int
  cp_payload :: pydict
  cp_actor :: string
  cp_idem :: string
  cp_created :: int

record child_record =
  cr_parent :: string
  cr_run :: run_record
  cr_ordinal :: int
  cr_revision :: string
  cr_progress :: "child_progress list"
  cr_evidence :: "pydict option"
  cr_created :: int
  cr_updated :: int

record parent_record =
  pr_run :: run_record
  pr_policy :: parent_policy
  pr_children :: "child_record list"
  pr_status :: aggregation_status
  pr_rev :: int
  pr_result :: "pydict option"

definition progress_from_row :: "progress_row \<Rightarrow> child_progress result" where
  "progress_from_row g =
     and_then (store_required (g_child g)) (\<lambda>c.
     and_then (require (1 \<le> g_seq g) ValueError) (\<lambda>_.
     and_then (store_required (g_actor g)) (\<lambda>ac.
     and_then (store_required (g_idem g)) (\<lambda>k.
       Inr \<lparr>cp_child = c, cp_seq = g_seq g, cp_payload = freeze_mapping (g_payload g), cp_actor = ac,
            cp_idem = k, cp_created = g_created g\<rparr>))))"

definition child_view :: "world \<Rightarrow> child_row \<Rightarrow> db \<Rightarrow> child_record result" where
  "child_view w c db =
     and_then (row_or RunNotFoundError (find (\<lambda>r. r_id r = ch_run c) (t_runs db))) (\<lambda>row.
     and_then (run_view w row (Some (ch_idem c)) db) (\<lambda>run.
     and_then (map_result progress_from_row
        (sort_key g_seq (filter (\<lambda>g. g_child g = ch_run c) (t_progress db)))) (\<lambda>progress.
     and_then (store_required (ch_parent c)) (\<lambda>parent.
     and_then (require (sc_parent (rr_scope run) = Some parent) ValueError) (\<lambda>_.
     and_then (require (1 \<le> ch_ordinal c) ValueError) (\<lambda>_.
     and_then (store_required (ch_revision c)) (\<lambda>rev.
       Inr \<lparr>cr_parent = parent, cr_run = run, cr_ordinal = ch_ordinal c, cr_revision = rev,
            cr_progress = progress, cr_evidence = map_option freeze_mapping (ch_evidence c),
            cr_created = ch_created c, cr_updated = ch_updated c\<rparr>)))))))"

definition child_rows :: "string \<Rightarrow> db \<Rightarrow> child_row list" where
  "child_rows parent db = sort_key ch_ordinal (filter (\<lambda>c. ch_parent c = parent) (t_children db))"

definition parent_view :: "world \<Rightarrow> parent_row \<Rightarrow> db \<Rightarrow> parent_record result" where
  "parent_view w p db =
     and_then (row_or RunNotFoundError (find (\<lambda>r. r_id r = p_run p) (t_runs db))) (\<lambda>row.
     and_then (run_view w row None db) (\<lambda>run.
     and_then (policy_from_dict (p_policy p)) (\<lambda>policy.
     and_then (map_result (\<lambda>c. child_view w c db) (child_rows (p_run p) db)) (\<lambda>children.
     and_then (require (sc_parent (rr_scope run) = None) ValueError) (\<lambda>_.
     and_then (require (0 \<le> p_rev p) ValueError) (\<lambda>_.
       Inr \<lparr>pr_run = run, pr_policy = policy, pr_children = children, pr_status = p_status p,
            pr_rev = p_rev p, pr_result = map_option freeze_mapping (p_result p)\<rparr>))))))"

definition select_parent :: "string \<Rightarrow> (db, parent_row) op" where
  "select_parent rid =
     bind (select_run rid) (\<lambda>_.
     select_row RunNotFoundError (\<lambda>db. find (\<lambda>p. p_run p = rid) (t_parents db)))"

definition select_child :: "string \<Rightarrow> (db, child_row) op" where
  "select_child rid = select_row RunNotFoundError (\<lambda>db. find (\<lambda>c. ch_run c = rid) (t_children db))"

definition read_parent :: "world \<Rightarrow> string \<Rightarrow> (db, parent_record) op" where
  "read_parent w rid = bind (select_parent rid) (\<lambda>p. gets_result (parent_view w p))"

definition read_child :: "world \<Rightarrow> string \<Rightarrow> (db, child_record) op" where
  "read_child w rid = bind (select_child rid) (\<lambda>c. gets_result (child_view w c))"

definition child_storage_key :: "world \<Rightarrow> string \<Rightarrow> string \<Rightarrow> string" where
  "child_storage_key w parent key = ''child:'' @ sha256 w (json_dumps (PList [PStr parent, PStr key]))"

definition reject_direct_parent_transition :: "string \<Rightarrow> (db, unit) op" where
  "reject_direct_parent_transition rid =
     bind (gets (\<lambda>db. list_ex (\<lambda>p. p_run p = rid) (t_parents db))) (\<lambda>configured.
       guard (\<not> configured) InvalidRunTransitionError)"

subsection \<open>Scopes across the link\<close>

definition assert_parent_scope :: "exec_scope \<Rightarrow> exec_scope \<Rightarrow> unit result" where
  "assert_parent_scope requested persisted =
     (case assert_resumable requested persisted of
        Inl e \<Rightarrow> Inl RunNotFoundError
      | Inr _ \<Rightarrow> require (sc_parent requested = None \<and> sc_parent persisted = None) RunNotFoundError)"

definition assert_child_scope :: "exec_scope \<Rightarrow> exec_scope \<Rightarrow> unit result" where
  "assert_child_scope parent child =
     and_then (require (sc_parent child = Some (sc_run parent)) RunNotFoundError) (\<lambda>_.
     and_then (require (sc_tenant child = sc_tenant parent \<and> sc_workspace child = sc_workspace parent
                 \<and> sc_actor child = sc_actor parent) RunNotFoundError) (\<lambda>_.
     and_then (require (sc_grants child \<subseteq> sc_grants parent) RunNotFoundError) (\<lambda>_.
       require (sc_run child \<noteq> sc_run parent) RunConflictError)))"

definition assert_parent_or_child_scope ::
  "world \<Rightarrow> exec_scope \<Rightarrow> exec_scope \<Rightarrow> exec_scope \<Rightarrow> unit result" where
  "assert_parent_or_child_scope w requested parent child =
     (if sc_run requested = sc_run parent then assert_parent_scope requested parent
      else require (scope_key w requested = scope_key w child) RunNotFoundError)"

section \<open>Expiry, settlement, cancellation of children\<close>

abbreviation claimable_or_waiting :: "run_status \<Rightarrow> bool" where
  "claimable_or_waiting s \<equiv> s \<in> {RunQueued, RunWaitingForApproval, RunWaitingForRetry}"

abbreviation uncertain_effect :: "effect_status \<Rightarrow> bool" where
  "uncertain_effect s \<equiv> s \<in> {EffectExecuting, EffectUnknown}"

definition expired_child_reason :: string where
  "expired_child_reason = ''child run budget deadline expired before claim''"

definition fail_expired_child_run :: "world \<Rightarrow> string \<Rightarrow> string \<Rightarrow> int \<Rightarrow> int \<Rightarrow> (db, unit) op" where
  "fail_expired_child_run w rid actor deadline now =
     bind (upd_steps (\<lambda>s. s_run s = rid \<and> \<not> terminal_step (s_status s))
             (\<lambda>s. s\<lparr>s_status := StepFailed, s_rev := s_rev s + 1, s_error := Some expired_child_reason,
                    s_updated := now, s_completed := Some now\<rparr>)) (\<lambda>_.
     bind (set_run_state w rid RunFailed now
             (no_change\<lparr>n_error := Some expired_child_reason, n_clear_lease := True, n_completed := True\<rparr>)) (\<lambda>_.
       log_event w rid ''run.failed'' actor None
         [(''reason'', PStr expired_child_reason), (''deadline'', PTime deadline)] now))"

definition expirable :: "exec_scope \<Rightarrow> string \<Rightarrow> db \<Rightarrow> run_row \<Rightarrow> bool" where
  "expirable scope rid db r \<longleftrightarrow>
     r_id r = rid \<and> r_tenant r = sc_tenant scope \<and> r_workspace r = sc_workspace scope
     \<and> r_agent r = sc_agent scope \<and> r_version r = sc_version scope
     \<and> \<not> r_cancel r \<and> claimable_or_waiting (r_status r)
     \<and> list_ex (\<lambda>c. ch_run c = r_id r) (t_children db)
     \<and> \<not> list_ex (\<lambda>e. e_run e = r_id r \<and> uncertain_effect (e_status e)) (t_effects db)"

definition expire_linked_child_run_if_due ::
  "world \<Rightarrow> exec_scope \<Rightarrow> string \<Rightarrow> string \<Rightarrow> int \<Rightarrow> (db, bool) op" where
  "expire_linked_child_run_if_due w scope rid actor now =
     bind (gets (\<lambda>db. find (expirable scope rid db) (t_runs db))) (\<lambda>row.
     (case row of
        None \<Rightarrow> ret False
      | Some r \<Rightarrow>
          bind (select_child rid) (\<lambda>link.
          bind (lift (scope_from_dict (r_scope r))) (\<lambda>persisted.
          bind (lift (assert_scope w scope persisted)) (\<lambda>_.
          bind (lift (run_budget_from_dict (ch_budget link))) (\<lambda>budget.
            if \<not> deadline_passed budget now then ret False
            else
              bind (select_run rid) (\<lambda>current.
              bind (if_so (\<not> r_cancel current \<and> claimable_or_waiting (r_status current))
                      (bind (lift (run_budget_from_dict (r_budget current))) (\<lambda>cb.
                        (case b_deadline cb of
                           None \<Rightarrow> ret ()
                         | Some d \<Rightarrow> if_so (d \<le> now) (fail_expired_child_run w rid actor d now)))))
                (\<lambda>_. ret True))))))))"

definition settle_run_cancellation :: "world \<Rightarrow> string \<Rightarrow> string \<Rightarrow> string \<Rightarrow> int \<Rightarrow> (db, unit) op" where
  "settle_run_cancellation w rid actor reason now =
     bind (upd_attempts (\<lambda>a. a_run a = rid \<and> a_status a = AttemptRunning)
             (\<lambda>a. a\<lparr>a_status := AttemptCancelled, a_error := Some reason, a_completed := Some now\<rparr>)) (\<lambda>_.
     bind (upd_steps (\<lambda>s. s_run s = rid \<and> \<not> terminal_step (s_status s))
             (\<lambda>s. s\<lparr>s_status := StepCancelled, s_rev := s_rev s + 1, s_error := Some reason,
                    s_retry_at := None, s_updated := now, s_completed := Some now\<rparr>)) (\<lambda>_.
     bind (set_run_state w rid RunCancelled now
             (no_change\<lparr>n_error := Some reason, n_clear_lease := True, n_completed := True\<rparr>)) (\<lambda>_.
       log_event w rid ''run.cancelled'' actor None [(''reason'', PStr reason)] now)))"

text \<open>The step update shared by \<^verbatim>\<open>cancel\<close> and the cancellation of a child: every step that is not
  completed is cancelled; a completed one only records the reason.\<close>

definition cancelled_step :: "string \<Rightarrow> int \<Rightarrow> step_record \<Rightarrow> step_record" where
  "cancelled_step reason now s =
     s\<lparr>s_status := (if s_status s \<noteq> StepCompleted then StepCancelled else s_status s),
       s_rev := s_rev s + 1, s_error := Some reason, s_updated := now,
       s_completed := (if s_status s \<noteq> StepCompleted then Some now else s_completed s)\<rparr>"

definition request_child_cancellation_of ::
  "world \<Rightarrow> string \<Rightarrow> string \<Rightarrow> string \<Rightarrow> string \<Rightarrow> int \<Rightarrow> (db, unit) op" where
  "request_child_cancellation_of w parent child actor reason now =
     bind (read_run w child) (\<lambda>run.
       if run_terminal run then ret ()
       else if rr_cancel run \<and> rr_status run \<in> {RunRunning, RunUnknown} then ret ()
       else
         bind (if claimable_or_waiting (rr_status run)
               then
                 bind (upd_attempts (\<lambda>a. a_run a = child \<and> a_status a = AttemptRunning)
                         (\<lambda>a. a\<lparr>a_status := AttemptCancelled, a_error := Some reason,
                                a_completed := Some now\<rparr>)) (\<lambda>_.
                 bind (upd_steps (\<lambda>s. s_run s = child) (cancelled_step reason now)) (\<lambda>_.
                 bind (set_run_state w child RunCancelled now
                         (no_change\<lparr>n_error := Some reason, n_clear_lease := True, n_completed := True\<rparr>)) (\<lambda>_.
                 bind (set_cancel_requested child) (\<lambda>_.
                   ret ''run.cancelled''))))
               else
                 bind (upd_runs (\<lambda>r. r_id r = child)
                         (\<lambda>r. r\<lparr>r_cancel := True, r_rev := r_rev r + 1, r_updated := now\<rparr>)) (\<lambda>_.
                   ret ''run.cancellation_requested'')) (\<lambda>name.
         bind (log_event w child name actor None
                 [(''reason'', PStr reason), (''parent_run_id'', PStr parent)] now) (\<lambda>_.
           log_event w parent ''child.cancellation_requested'' actor None
             [(''child_run_id'', PStr child), (''reason'', PStr reason)] now)))"

section \<open>Terminal evidence\<close>

definition terminal_event_names :: "string list" where
  "terminal_event_names =
     [''run.completed'', ''run.failed'', ''run.cancelled'', ''run.dead_lettered'', ''effect.reconciled'']"

definition opt_dict :: "pydict option \<Rightarrow> pyval" where
  "opt_dict v = (case v of None \<Rightarrow> PNone | Some d \<Rightarrow> PDict d)"

definition effect_evidence :: "effect_record \<Rightarrow> pyval" where
  "effect_evidence e =
     PDict [(''id'', PStr (e_id e)), (''logical_key'', PStr (e_key e)),
            (''status'', PStr (effect_status_value (e_status e))),
            (''result_digest'', opt_str (e_digest e)),
            (''reconciliation'', opt_str (map_option decision_value (e_decision e)))]"

definition terminal_child_evidence :: "run_record \<Rightarrow> db \<Rightarrow> pydict result" where
  "terminal_child_evidence run db =
     and_then (row_or InvalidRunTransitionError
        (first_by (\<lambda>v. - v_seq v)
           (\<lambda>v. v_run v = rr_id run \<and> v_name v \<in> set terminal_event_names) (t_events db))) (\<lambda>terminal.
       Inr [(''terminal_event_id'', PStr (v_id terminal)),
            (''terminal_event_sequence'', PInt (v_seq terminal)),
            (''status'', PStr (run_status_value (rr_status run))),
            (''definition_digest'', PStr (rr_def run)),
            (''input_digest'', PStr (rr_input run)),
            (''result'', opt_dict (rr_result run)),
            (''error'', opt_str (rr_error run)),
            (''last_progress_sequence'',
               PInt (fold max (map g_seq (filter (\<lambda>g. g_child g = rr_id run) (t_progress db))) 0)),
            (''effects'', PList (map effect_evidence
               (sort_key (\<lambda>e. (e_created e, e_id e)) (filter (\<lambda>e. e_run e = rr_id run) (t_effects db)))))])"

end
