(* ===== verification/RunLifecycle.thy ===== *)
theory RunLifecycle
  imports RunSupport
begin

text \<open>
  \<^verbatim>\<open>runs/_store_transitions.py\<close>, first part: claiming a run under a lease, renewing it, and the
  step operations a worker performs while it holds the lease (start, yield, checkpoint,
  complete, fail, pause for approval).  Each definition is one method; \<open>now\<close> is the clock it
  reads.
\<close>

section \<open>Leases\<close>

definition assert_claim :: "world \<Rightarrow> int \<Rightarrow> exec_scope \<Rightarrow> run_claim \<Rightarrow> (db, run_record) op" where
  "assert_claim w now scope c =
     bind (owned_run w scope c now) (\<lambda>r.
     bind (guard (\<not> r_cancel r) RunLeaseError) (\<lambda>_.
       run_from_conn w r None))"

definition claimable :: "exec_scope \<Rightarrow> string option \<Rightarrow> int \<Rightarrow> db \<Rightarrow> run_row \<Rightarrow> bool" where
  "claimable scope rid now db r \<longleftrightarrow>
     r_tenant r = sc_tenant scope \<and> r_workspace r = sc_workspace scope
     \<and> r_agent r = sc_agent scope \<and> r_version r = sc_version scope
     \<and> \<not> r_cancel r
     \<and> (r_status r = RunQueued
        \<or> r_status r = RunWaitingForRetry \<and> (case r_retry_at r of None \<Rightarrow> False | Some t \<Rightarrow> t \<le> now))
     \<and> (case rid of
          Some i \<Rightarrow> r_id r = i
        | None \<Rightarrow> \<not> list_ex (\<lambda>c. ch_run c = r_id r) (t_children db))"

text \<open>The run a scope may claim: a child scope only its own.\<close>

definition claim_target :: "exec_scope \<Rightarrow> string option \<Rightarrow> string option result" where
  "claim_target scope rid =
     (if sc_parent scope \<noteq> None
      then and_then (require (\<not> (rid \<noteq> None \<and> rid \<noteq> Some (sc_run scope))) RunNotFoundError)
             (\<lambda>_. Inr (Some (sc_run scope)))
      else Inr rid)"

definition lease_end :: "int \<Rightarrow> int \<Rightarrow> int" where
  "lease_end now lease_seconds = now + lease_seconds * 1000000"

definition claimed_row :: "string \<Rightarrow> string \<Rightarrow> int \<Rightarrow> int \<Rightarrow> int \<Rightarrow> run_row \<Rightarrow> run_row" where
  "claimed_row token worker lease revision now r =
     r\<lparr>r_status := RunRunning, r_rev := revision, r_token := Some token, r_worker := Some worker,
       r_lease := Some lease, r_waiting := None, r_retry_at := None, r_updated := now\<rparr>"

definition take_lease :: "world \<Rightarrow> run_row \<Rightarrow> exec_scope \<Rightarrow> string \<Rightarrow> int \<Rightarrow> int \<Rightarrow> (db, run_claim) op" where
  "take_lease w row persisted worker lease now =
     bind (new_uuid w) (\<lambda>token.
     bind (upd_runs (\<lambda>r. r_id r = r_id row \<and> r_rev r = r_rev row
                         \<and> r_status r \<in> {RunQueued, RunWaitingForRetry})
             (claimed_row token worker lease (r_rev row + 1) now)) (\<lambda>n.
     bind (guard (n = 1) RunConflictError) (\<lambda>_.
     bind (log_event w (r_id row) ''run.started'' worker None [(''lease_until'', PTime lease)] now) (\<lambda>_.
       lift (make_run_claim
         \<lparr>c_run = r_id row, c_scope_key = scope_key w persisted, c_worker = worker, c_token = token,
          c_lease = lease, c_rev = r_rev row + 1\<rparr>)))))"

definition claim_run ::
  "world \<Rightarrow> int \<Rightarrow> exec_scope \<Rightarrow> string \<Rightarrow> int \<Rightarrow> string option \<Rightarrow> (db, run_claim option) op" where
  "claim_run w now scope worker lease_seconds rid =
     bind (lift (store_required worker)) (\<lambda>worker.
     bind (lift (positive_seconds lease_seconds)) (\<lambda>_.
     bind (lift (claim_target scope rid)) (\<lambda>rid.
     bind (case rid of None \<Rightarrow> ret False
           | Some i \<Rightarrow> expire_linked_child_run_if_due w scope i worker now) (\<lambda>expired.
       if expired then ret None
       else
         bind (gets (\<lambda>db. first_by (\<lambda>r. (r_created r, r_id r)) (claimable scope rid now db) (t_runs db))) (\<lambda>found.
         (case found of
            None \<Rightarrow> ret None
          | Some row \<Rightarrow>
              bind (lift (scope_from_dict (r_scope row))) (\<lambda>persisted.
              bind (lift (assert_scope w scope persisted)) (\<lambda>_.
              bind (if Some (r_id row) \<noteq> rid
                    then expire_linked_child_run_if_due w scope (r_id row) worker now
                    else ret False) (\<lambda>expired.
                if expired then ret None
                else bind (take_lease w row persisted worker (lease_end now lease_seconds) now)
                       (\<lambda>c. ret (Some c)))))))))))"

definition renew :: "world \<Rightarrow> int \<Rightarrow> exec_scope \<Rightarrow> run_claim \<Rightarrow> int \<Rightarrow> (db, run_claim) op" where
  "renew w now scope c lease_seconds =
     bind (lift (positive_seconds lease_seconds)) (\<lambda>_.
     bind (owned_run w scope c now) (\<lambda>row.
     bind (upd_runs (\<lambda>r. r_id r = c_run c \<and> r_token r = Some (c_token c)
                         \<and> (case r_lease r of None \<Rightarrow> False | Some t \<Rightarrow> now \<le> t))
             (\<lambda>r. r\<lparr>r_lease := Some (lease_end now lease_seconds), r_updated := now\<rparr>)) (\<lambda>n.
     bind (guard (n = 1) RunLeaseError) (\<lambda>_.
       lift (make_run_claim (c\<lparr>c_lease := lease_end now lease_seconds, c_rev := r_rev row\<rparr>))))))"

section \<open>Steps\<close>

text \<open>The attempts that count against the limit: all but the paused ones.\<close>

definition counted_attempts :: "string \<Rightarrow> string \<Rightarrow> db \<Rightarrow> int" where
  "counted_attempts rid sid db =
     int (rowcount (\<lambda>a. a_run a = rid \<and> a_step a = sid \<and> a_status a \<noteq> AttemptPaused) (t_attempts db))"

definition uncertain_at :: "string \<Rightarrow> string \<Rightarrow> db \<Rightarrow> bool" where
  "uncertain_at rid sid db =
     list_ex (\<lambda>e. e_run e = rid \<and> e_step e = sid \<and> uncertain_effect (e_status e)) (t_effects db)"

definition paused_attempt :: "string \<Rightarrow> string \<Rightarrow> db \<Rightarrow> attempt_record option" where
  "paused_attempt rid sid db =
     first_by (\<lambda>a. - a_number a)
       (\<lambda>a. a_run a = rid \<and> a_step a = sid \<and> a_status a = AttemptPaused
            \<and> list_ex (\<lambda>s. s_run s = a_run a \<and> s_id s = a_step a \<and> s_status s = StepRunning) (t_steps db))
       (t_attempts db)"

definition start_new_attempt ::
  "world \<Rightarrow> int \<Rightarrow> run_claim \<Rightarrow> string \<Rightarrow> (db, attempt_record) op" where
  "start_new_attempt w now c sid =
     bind (gets (\<lambda>db. list_ex (\<lambda>s. s_run s = c_run c \<and> s_status s = StepRunning) (t_steps db))) (\<lambda>active.
     bind (guard (\<not> active) InvalidRunTransitionError) (\<lambda>_.
     bind (step_row (c_run c) sid) (\<lambda>step.
     bind (guard (s_status step \<in> {StepQueued, StepWaitingForRetry}) InvalidRunTransitionError) (\<lambda>_.
     bind (guard (case s_retry_at step of None \<Rightarrow> True | Some t \<Rightarrow> t \<le> now) InvalidRunTransitionError) (\<lambda>_.
     bind (lift (make_retry_policy (s_retry step))) (\<lambda>policy.
     bind (gets (counted_attempts (c_run c) sid)) (\<lambda>counted.
     bind (guard (counted < rp_max_attempts policy) InvalidRunTransitionError) (\<lambda>_.
     bind (new_uuid w) (\<lambda>aid.
       let number = s_attempts step + 1;
           a = \<lparr>a_id = aid, a_run = c_run c, a_step = sid, a_number = number, a_status = AttemptRunning,
                a_worker = c_worker c, a_token = c_token c, a_started = now, a_completed = None,
                a_error = None\<rparr>
       in bind (insert_attempt a) (\<lambda>_.
          bind (upd_steps (\<lambda>s. s_run s = c_run c \<and> s_id s = sid)
                  (\<lambda>s. s\<lparr>s_status := StepRunning, s_rev := s_rev s + 1, s_attempts := number,
                         s_retry_at := None, s_error := None,
                         s_started := (case s_started s of None \<Rightarrow> Some now | Some t \<Rightarrow> Some t),
                         s_completed := None, s_updated := now\<rparr>)) (\<lambda>_.
          bind (touch_run (c_run c) now) (\<lambda>_.
          bind (log_event w (c_run c) ''step.started'' (c_worker c) (Some sid)
                  [(''attempt_id'', PStr aid), (''attempt'', PInt number)] now) (\<lambda>_.
            lift (make_attempt_record a))))))))))))))"

definition start_step :: "world \<Rightarrow> int \<Rightarrow> exec_scope \<Rightarrow> run_claim \<Rightarrow> string \<Rightarrow> (db, attempt_record) op" where
  "start_step w now scope c sid =
     bind (owned_run w scope c now) (\<lambda>_.
     bind (gets (paused_attempt (c_run c) sid)) (\<lambda>paused.
     (case paused of
        Some a \<Rightarrow>
          bind (upd_attempts (\<lambda>q. a_id q = a_id a)
                  (\<lambda>q. q\<lparr>a_status := AttemptRunning, a_worker := c_worker c, a_token := c_token c\<rparr>)) (\<lambda>_.
          bind (select_row RunNotFoundError (\<lambda>db. find (\<lambda>q. a_id q = a_id a) (t_attempts db))) (\<lambda>q.
            lift (make_attempt_record q)))
      | None \<Rightarrow> start_new_attempt w now c sid)))"

definition yield_step ::
  "world \<Rightarrow> int \<Rightarrow> exec_scope \<Rightarrow> run_claim \<Rightarrow> string \<Rightarrow> pydict \<Rightarrow> (db, run_record) op" where
  "yield_step w now scope c sid continuation =
     bind (owned_run w scope c now) (\<lambda>_.
     bind (active_attempt (c_run c) sid) (\<lambda>a.
     bind (gets (\<lambda>db. list_ex (\<lambda>e. e_run e = c_run c \<and> uncertain_effect (e_status e)
                                   \<and> e_result_ref e = None) (t_effects db))) (\<lambda>uncertain.
     bind (guard (\<not> uncertain) InvalidRunTransitionError) (\<lambda>_.
     bind (upd_attempts (\<lambda>q. a_id q = a_id a) (\<lambda>q. q\<lparr>a_status := AttemptPaused\<rparr>)) (\<lambda>_.
     bind (set_run_state w (c_run c) RunQueued now
             (no_change\<lparr>n_clear_lease := True, n_waiting := Some ''continuation''\<rparr>)) (\<lambda>_.
     bind (log_event w (c_run c) ''run.yielded'' (c_worker c) (Some sid)
             [(''continuation'', PDict continuation)] now) (\<lambda>_.
       read_run w (c_run c))))))))"

definition add_checkpoint ::
  "world \<Rightarrow> int \<Rightarrow> exec_scope \<Rightarrow> run_claim \<Rightarrow> string \<Rightarrow> string \<Rightarrow> pydict \<Rightarrow> (db, checkpoint_record) op" where
  "add_checkpoint w now scope c sid kind payload =
     bind (lift (store_required kind)) (\<lambda>kind.
     bind (owned_run w scope c now) (\<lambda>_.
     bind (active_attempt (c_run c) sid) (\<lambda>a.
     bind (next_checkpoint_sequence (c_run c)) (\<lambda>n.
     bind (new_uuid w) (\<lambda>kid.
     bind (lift (make_checkpoint w
             \<lparr>k_id = kid, k_run = c_run c, k_step = sid, k_attempt = a_id a, k_seq = n, k_kind = kind,
              k_payload = safe_payload w payload, k_created = now\<rparr>)) (\<lambda>k.
     bind (insert_checkpoint (k\<lparr>k_payload := stored_json w (k_payload k)\<rparr>)) (\<lambda>_.
     bind (upd_steps (\<lambda>s. s_run s = c_run c \<and> s_id s = sid \<and> s_status s = StepRunning)
             (\<lambda>s. s\<lparr>s_checkpoint := Some (k_id k), s_rev := s_rev s + 1, s_updated := now\<rparr>)) (\<lambda>_.
     bind (touch_run (c_run c) now) (\<lambda>_.
     bind (log_event w (c_run c) ''step.checkpointed'' (c_worker c) (Some sid)
             [(''checkpoint_id'', PStr (k_id k)), (''kind'', PStr kind), (''sequence'', PInt n)] now) (\<lambda>_.
       ret k))))))))))"

definition complete_step ::
  "world \<Rightarrow> int \<Rightarrow> exec_scope \<Rightarrow> run_claim \<Rightarrow> string \<Rightarrow> pydict option \<Rightarrow> (db, run_record) op" where
  "complete_step w now scope c sid result =
     bind (owned_run w scope c now) (\<lambda>_.
     bind (active_attempt (c_run c) sid) (\<lambda>_.
     bind (gets (\<lambda>db. list_ex (\<lambda>e. e_run e = c_run c \<and> e_step e = sid
             \<and> e_status e \<in> {EffectIntended, EffectExecuting, EffectUnknown}) (t_effects db))) (\<lambda>unfinished.
     bind (guard (\<not> unfinished) InvalidRunTransitionError) (\<lambda>_.
     bind (mark_active_attempt (c_run c) sid AttemptCompleted now None) (\<lambda>_.
     bind (upd_steps (\<lambda>s. s_run s = c_run c \<and> s_id s = sid \<and> s_status s = StepRunning)
             (\<lambda>s. s\<lparr>s_status := StepCompleted, s_rev := s_rev s + 1, s_error := None, s_updated := now,
                    s_completed := Some now\<rparr>)) (\<lambda>_.
     bind (touch_run (c_run c) now) (\<lambda>_.
     bind (log_event w (c_run c) ''step.completed'' (c_worker c) (Some sid)
             [(''result'', PDict (safe_payload w (case result of None \<Rightarrow> [] | Some d \<Rightarrow> d)))] now) (\<lambda>_.
       read_run w (c_run c)))))))))"

definition schedule_retry ::
  "world \<Rightarrow> int \<Rightarrow> run_claim \<Rightarrow> string \<Rightarrow> string \<Rightarrow> int \<Rightarrow> (db, string \<times> pydict) op" where
  "schedule_retry w now c sid reason next_retry =
     bind (upd_steps (\<lambda>s. s_run s = c_run c \<and> s_id s = sid)
             (\<lambda>s. s\<lparr>s_status := StepWaitingForRetry, s_rev := s_rev s + 1, s_error := Some reason,
                    s_retry_at := Some next_retry, s_updated := now\<rparr>)) (\<lambda>_.
     bind (set_run_state w (c_run c) RunWaitingForRetry now
             (no_change\<lparr>n_error := Some reason, n_waiting := Some reason, n_retry_at := Some next_retry,
                        n_clear_lease := True\<rparr>)) (\<lambda>_.
       ret (''run.retry_scheduled'', [(''reason'', PStr reason), (''next_retry_at'', PTime next_retry)])))"

definition settle_failure ::
  "world \<Rightarrow> int \<Rightarrow> run_claim \<Rightarrow> string \<Rightarrow> string \<Rightarrow> (db, string \<times> pydict) op" where
  "settle_failure w now c sid reason =
     bind (upd_steps (\<lambda>s. s_run s = c_run c \<and> s_id s = sid)
             (\<lambda>s. s\<lparr>s_status := StepFailed, s_rev := s_rev s + 1, s_error := Some reason,
                    s_updated := now, s_completed := Some now\<rparr>)) (\<lambda>_.
     bind (set_run_state w (c_run c) RunFailed now
             (no_change\<lparr>n_error := Some reason, n_clear_lease := True, n_completed := True\<rparr>)) (\<lambda>_.
       ret (''run.failed'', [(''reason'', PStr reason)])))"

definition fail_step ::
  "world \<Rightarrow> int \<Rightarrow> exec_scope \<Rightarrow> run_claim \<Rightarrow> string \<Rightarrow> string \<Rightarrow> bool \<Rightarrow> (db, run_record) op" where
  "fail_step w now scope c sid reason retryable =
     bind (lift (store_required reason)) (\<lambda>reason.
     bind (owned_run w scope c now) (\<lambda>owned.
     bind (step_row (c_run c) sid) (\<lambda>row.
     bind (lift (step_from_row w row)) (\<lambda>step.
     bind (active_attempt (c_run c) sid) (\<lambda>_.
     bind (gets (uncertain_at (c_run c) sid)) (\<lambda>uncertain.
     bind (guard (\<not> uncertain) InvalidRunTransitionError) (\<lambda>_.
     bind (gets (counted_attempts (c_run c) sid)) (\<lambda>counted.
       let can_retry = retryable \<and> counted < rp_max_attempts (s_retry step)
       in if can_retry \<and> r_cancel owned
          then bind (settle_run_cancellation w (c_run c) (c_worker c)
                       (''cancellation settled after retryable step failure: '' @ reason) now) (\<lambda>_.
                 read_run w (c_run c))
          else
            bind (mark_active_attempt (c_run c) sid AttemptFailed now (Some reason)) (\<lambda>_.
            bind (if can_retry
                  then bind (lift (delay_for_attempt (s_retry step) (s_attempts step)))
                         (\<lambda>d. schedule_retry w now c sid reason (now + d))
                  else settle_failure w now c sid reason) (\<lambda>(name, payload).
            bind (log_event w (c_run c) ''step.failed'' (c_worker c) (Some sid)
                    [(''reason'', PStr reason), (''retryable'', PBool can_retry)] now) (\<lambda>_.
            bind (log_event w (c_run c) name (c_worker c) (Some sid) payload now) (\<lambda>_.
              read_run w (c_run c)))))))))))))"

definition pause_for_approval ::
  "world \<Rightarrow> int \<Rightarrow> exec_scope \<Rightarrow> run_claim \<Rightarrow> string \<Rightarrow> string \<Rightarrow> pydict \<Rightarrow> (db, run_record) op" where
  "pause_for_approval w now scope c sid approval payload =
     bind (lift (store_required approval)) (\<lambda>approval.
     bind (owned_run w scope c now) (\<lambda>_.
     bind (active_attempt (c_run c) sid) (\<lambda>a.
     bind (gets (uncertain_at (c_run c) sid)) (\<lambda>uncertain.
     bind (guard (\<not> uncertain) InvalidRunTransitionError) (\<lambda>_.
     bind (next_checkpoint_sequence (c_run c)) (\<lambda>n.
     bind (new_uuid w) (\<lambda>kid.
     bind (insert_checkpoint
             \<lparr>k_id = kid, k_run = c_run c, k_step = sid, k_attempt = a_id a, k_seq = n,
              k_kind = ''approval'',
              k_payload = stored_json w (dict_set ''approval_id'' (PStr approval) (safe_payload w payload)),
              k_created = now\<rparr>) (\<lambda>_.
     bind (mark_active_attempt (c_run c) sid AttemptPaused now (Some ''waiting for approval'')) (\<lambda>_.
     bind (upd_steps (\<lambda>s. s_run s = c_run c \<and> s_id s = sid)
             (\<lambda>s. s\<lparr>s_status := StepWaitingForApproval, s_rev := s_rev s + 1, s_checkpoint := Some kid,
                    s_error := None, s_updated := now\<rparr>)) (\<lambda>_.
     bind (set_run_state w (c_run c) RunWaitingForApproval now
             (no_change\<lparr>n_waiting := Some (''approval:'' @ approval), n_clear_lease := True\<rparr>)) (\<lambda>_.
     bind (log_event w (c_run c) ''run.paused'' (c_worker c) (Some sid)
             [(''reason'', PStr ''waiting_for_approval''), (''approval_id'', PStr approval),
              (''checkpoint_id'', PStr kid)] now) (\<lambda>_.
       read_run w (c_run c)))))))))))))"

end
