(* ===== verification/RunSettle.thy ===== *)
theory RunSettle
  imports RunLifecycle
begin

text \<open>
  \<^verbatim>\<open>runs/_store_transitions.py\<close>, second part: resuming, cancelling, completing and failing a run,
  marking it unknown, dead-lettering and steering it, and the reconciliation of runs whose
  worker lease expired.
\<close>

section \<open>Resume and cancellation\<close>

definition resume :: "world \<Rightarrow> int \<Rightarrow> exec_scope \<Rightarrow> string \<Rightarrow> string \<Rightarrow> string \<Rightarrow> (db, run_record) op" where
  "resume w now scope rid actor reason =
     bind (lift (store_required actor)) (\<lambda>actor.
     bind (lift (store_required reason)) (\<lambda>reason.
     bind (read_run w rid) (\<lambda>run.
     bind (lift (assert_scope w scope (rr_scope run))) (\<lambda>_.
     bind (guard (rr_status run \<in> {RunWaitingForApproval, RunWaitingForRetry}) InvalidRunTransitionError) (\<lambda>_.
     bind (guard (\<not> rr_cancel run) InvalidRunTransitionError) (\<lambda>_.
     bind (upd_steps (\<lambda>s. s_run s = rid \<and> s_status s \<in> {StepWaitingForApproval, StepWaitingForRetry})
             (\<lambda>s. s\<lparr>s_status := StepQueued, s_rev := s_rev s + 1, s_retry_at := None, s_error := None,
                    s_updated := now\<rparr>)) (\<lambda>_.
     bind (set_run_state w rid RunQueued now (no_change\<lparr>n_clear_lease := True\<rparr>)) (\<lambda>_.
     bind (log_event w rid ''run.resumed'' actor None [(''reason'', PStr reason)] now) (\<lambda>_.
       read_run w rid)))))))))"

definition cancel_requested_row :: "bool \<Rightarrow> string \<Rightarrow> int \<Rightarrow> run_row \<Rightarrow> run_row" where
  "cancel_requested_row immediate reason now r =
     r\<lparr>r_cancel := True, r_rev := r_rev r + 1,
       r_status := (if immediate then RunCancelled else r_status r),
       r_error := (if immediate then Some reason else r_error r),
       r_token := (if immediate then None else r_token r),
       r_worker := (if immediate then None else r_worker r),
       r_lease := (if immediate then None else r_lease r),
       r_updated := now, r_completed := (if immediate then Some now else r_completed r)\<rparr>"

definition request_cancellation ::
  "world \<Rightarrow> int \<Rightarrow> exec_scope \<Rightarrow> string \<Rightarrow> string \<Rightarrow> string \<Rightarrow> (db, run_record) op" where
  "request_cancellation w now scope rid actor reason =
     bind (lift (store_required actor)) (\<lambda>actor.
     bind (lift (store_required reason)) (\<lambda>reason.
     bind (read_run w rid) (\<lambda>run.
     bind (lift (assert_scope w scope (rr_scope run))) (\<lambda>_.
     bind (reject_direct_parent_transition rid) (\<lambda>_.
     bind (guard (rr_status run \<noteq> RunCompleted) InvalidRunTransitionError) (\<lambda>_.
       if rr_status run = RunCancelled then ret run
       else
         let immediate = claimable_or_waiting (rr_status run) in
         bind (upd_runs (\<lambda>r. r_id r = rid) (cancel_requested_row immediate reason now)) (\<lambda>_.
         bind (if_so immediate
                (bind (upd_steps
                    (\<lambda>s. s_run s = rid \<and> s_status s \<notin> {StepCompleted, StepFailed})
                    (\<lambda>s. s\<lparr>s_status := (if s_status s \<in> {StepQueued, StepWaitingForApproval, StepWaitingForRetry}
                                        then StepCancelled else s_status s),
                           s_rev := s_rev s + 1, s_error := Some reason, s_updated := now,
                           s_completed := Some now\<rparr>)) (\<lambda>_. ret ()))) (\<lambda>_.
         bind (log_event w rid ''run.cancellation_requested'' actor None
                 [(''reason'', PStr reason), (''immediate'', PBool immediate)] now) (\<lambda>_.
         bind (if_so immediate
                (log_event w rid ''run.cancelled'' actor None [(''reason'', PStr reason)] now)) (\<lambda>_.
           read_run w rid))))))))))"

definition cancel_uncertain ::
  "world \<Rightarrow> int \<Rightarrow> string \<Rightarrow> string \<Rightarrow> effect_record \<Rightarrow> (db, string \<times> pydict) op" where
  "cancel_uncertain w now rid reason effect =
     bind (if_so (e_status effect = EffectExecuting)
            (bind (upd_effects (\<lambda>e. e_id e = e_id effect)
                     (\<lambda>e. e\<lparr>e_status := EffectUnknown, e_reason := Some reason, e_updated := now\<rparr>))
                  (\<lambda>_. ret ()))) (\<lambda>_.
     bind (upd_steps (\<lambda>s. s_run s = rid \<and> s_id s = e_step effect)
             (\<lambda>s. s\<lparr>s_status := StepUnknown, s_rev := s_rev s + 1, s_error := Some reason,
                    s_updated := now\<rparr>)) (\<lambda>_.
     bind (set_run_state w rid RunUnknown now
             (no_change\<lparr>n_error := Some reason, n_clear_lease := True\<rparr>)) (\<lambda>_.
     bind (set_cancel_requested rid) (\<lambda>_.
       ret (''run.unknown'', [(''reason'', PStr reason), (''effect_id'', PStr (e_id effect)),
                              (''cancellation_requested'', PBool True)])))))"

definition cancel_certain :: "world \<Rightarrow> int \<Rightarrow> string \<Rightarrow> string \<Rightarrow> (db, string \<times> pydict) op" where
  "cancel_certain w now rid reason =
     bind (upd_attempts (\<lambda>a. a_run a = rid \<and> a_status a = AttemptRunning)
             (\<lambda>a. a\<lparr>a_status := AttemptCancelled, a_error := Some reason, a_completed := Some now\<rparr>)) (\<lambda>_.
     bind (upd_steps (\<lambda>s. s_run s = rid) (cancelled_step reason now)) (\<lambda>_.
     bind (set_run_state w rid RunCancelled now
             (no_change\<lparr>n_error := Some reason, n_clear_lease := True, n_completed := True\<rparr>)) (\<lambda>_.
     bind (set_cancel_requested rid) (\<lambda>_.
       ret (''run.cancelled'', [(''reason'', PStr reason)])))))"

definition cancel_run ::
  "world \<Rightarrow> int \<Rightarrow> exec_scope \<Rightarrow> string \<Rightarrow> string \<Rightarrow> string \<Rightarrow> run_claim option \<Rightarrow> (db, run_record) op" where
  "cancel_run w now scope rid actor reason claim =
     bind (lift (store_required actor)) (\<lambda>actor.
     bind (lift (store_required reason)) (\<lambda>reason.
     bind (read_run w rid) (\<lambda>run.
     bind (lift (assert_scope w scope (rr_scope run))) (\<lambda>_.
     bind (reject_direct_parent_transition rid) (\<lambda>_.
     bind (guard (rr_status run \<noteq> RunCompleted) InvalidRunTransitionError) (\<lambda>_.
       if rr_status run = RunCancelled then ret run
       else
         bind (if_so (rr_status run = RunRunning)
                (case claim of
                   None \<Rightarrow> raise RunLeaseError
                 | Some c \<Rightarrow> bind (owned_run w scope c now) (\<lambda>_. ret ()))) (\<lambda>_.
         bind (gets (\<lambda>db. first_by e_created (\<lambda>e. e_run e = rid \<and> uncertain_effect (e_status e))
                            (t_effects db))) (\<lambda>uncertain.
         bind (case uncertain of
                 Some row \<Rightarrow> bind (lift (make_effect_record row)) (cancel_uncertain w now rid reason)
               | None \<Rightarrow> cancel_certain w now rid reason) (\<lambda>(name, payload).
         bind (log_event w rid name actor None payload now) (\<lambda>_.
           read_run w rid))))))))))"

section \<open>Completion, failure, uncertainty\<close>

definition complete_run :: "world \<Rightarrow> int \<Rightarrow> exec_scope \<Rightarrow> run_claim \<Rightarrow> pydict \<Rightarrow> (db, run_record) op" where
  "complete_run w now scope c result =
     bind (owned_run w scope c now) (\<lambda>_.
     bind (gets (\<lambda>db. list_ex (\<lambda>s. s_run s = c_run c \<and> s_status s \<noteq> StepCompleted) (t_steps db))) (\<lambda>incomplete.
     bind (guard (\<not> incomplete) InvalidRunTransitionError) (\<lambda>_.
     bind (select_run (c_run c)) (\<lambda>r.
     bind (guard (\<not> r_cancel r) InvalidRunTransitionError) (\<lambda>_.
     bind (set_run_state w (c_run c) RunCompleted now
             (no_change\<lparr>n_result := Some (safe_payload w result), n_clear_lease := True,
                        n_completed := True\<rparr>)) (\<lambda>_.
     bind (log_event w (c_run c) ''run.completed'' (c_worker c) None
             [(''result'', PDict (safe_payload w result))] now) (\<lambda>_.
       read_run w (c_run c))))))))"

definition terminal_run_transition ::
  "world \<Rightarrow> int \<Rightarrow> exec_scope \<Rightarrow> run_claim \<Rightarrow> run_status \<Rightarrow> string \<Rightarrow> string \<Rightarrow> (db, run_record) op" where
  "terminal_run_transition w now scope c st name reason =
     bind (lift (store_required reason)) (\<lambda>reason.
     bind (owned_run w scope c now) (\<lambda>_.
     bind (gets (\<lambda>db. list_ex (\<lambda>e. e_run e = c_run c \<and> uncertain_effect (e_status e)) (t_effects db))) (\<lambda>uncertain.
     bind (guard (\<not> uncertain) InvalidRunTransitionError) (\<lambda>_.
     bind (upd_attempts (\<lambda>a. a_run a = c_run c \<and> a_status a = AttemptRunning)
             (\<lambda>a. a\<lparr>a_status := AttemptFailed, a_error := Some reason, a_completed := Some now\<rparr>)) (\<lambda>_.
     bind (upd_steps (\<lambda>s. s_run s = c_run c)
             (\<lambda>s. s\<lparr>s_status := (if s_status s = StepRunning then StepFailed else s_status s),
                    s_rev := s_rev s + 1,
                    s_error := (if s_status s = StepRunning then Some reason else s_error s),
                    s_updated := now,
                    s_completed := (if s_status s = StepRunning then Some now else s_completed s)\<rparr>)) (\<lambda>_.
     bind (set_run_state w (c_run c) st now
             (no_change\<lparr>n_error := Some reason, n_clear_lease := True, n_completed := True\<rparr>)) (\<lambda>_.
     bind (log_event w (c_run c) name (c_worker c) None [(''reason'', PStr reason)] now) (\<lambda>_.
       read_run w (c_run c)))))))))"

definition fail_run :: "world \<Rightarrow> int \<Rightarrow> exec_scope \<Rightarrow> run_claim \<Rightarrow> string \<Rightarrow> (db, run_record) op" where
  "fail_run w now scope c reason = terminal_run_transition w now scope c RunFailed ''run.failed'' reason"

definition mark_unknown :: "world \<Rightarrow> int \<Rightarrow> exec_scope \<Rightarrow> run_claim \<Rightarrow> string \<Rightarrow> (db, run_record) op" where
  "mark_unknown w now scope c reason =
     bind (lift (store_required reason)) (\<lambda>reason.
     bind (owned_run w scope c now) (\<lambda>_.
     bind (gets (\<lambda>db. first_by s_id (\<lambda>s. s_run s = c_run c \<and> s_status s = StepRunning) (t_steps db))) (\<lambda>active.
     bind (case active of
             None \<Rightarrow> ret ()
           | Some s0 \<Rightarrow>
               bind (mark_active_attempt (c_run c) (s_id s0) AttemptUnknown now (Some reason)) (\<lambda>_.
               bind (upd_steps (\<lambda>s. s_run s = c_run c \<and> s_id s = s_id s0)
                       (\<lambda>s. s\<lparr>s_status := StepUnknown, s_rev := s_rev s + 1, s_error := Some reason,
                              s_updated := now\<rparr>)) (\<lambda>_. ret ()))) (\<lambda>_.
     bind (set_run_state w (c_run c) RunUnknown now
             (no_change\<lparr>n_error := Some reason, n_clear_lease := True\<rparr>)) (\<lambda>_.
     bind (log_event w (c_run c) ''run.unknown'' (c_worker c) (map_option s_id active)
             [(''reason'', PStr reason)] now) (\<lambda>_.
       read_run w (c_run c)))))))"

definition dead_letter :: "world \<Rightarrow> int \<Rightarrow> exec_scope \<Rightarrow> string \<Rightarrow> string \<Rightarrow> string \<Rightarrow> (db, run_record) op" where
  "dead_letter w now scope rid actor reason =
     bind (lift (store_required actor)) (\<lambda>actor.
     bind (lift (store_required reason)) (\<lambda>reason.
     bind (read_run w rid) (\<lambda>run.
     bind (lift (assert_scope w scope (rr_scope run))) (\<lambda>_.
     bind (reject_direct_parent_transition rid) (\<lambda>_.
     bind (guard (rr_status run \<noteq> RunCompleted) InvalidRunTransitionError) (\<lambda>_.
     bind (upd_steps (\<lambda>s. s_run s = rid)
             (\<lambda>s. s\<lparr>s_status := (if s_status s \<notin> {StepCompleted, StepCancelled} then StepDeadLetter
                                else s_status s),
                    s_rev := s_rev s + 1, s_error := Some reason, s_updated := now,
                    s_completed := (if s_status s \<notin> {StepCompleted, StepCancelled} then Some now
                                   else s_completed s)\<rparr>)) (\<lambda>_.
     bind (set_run_state w rid RunDeadLetter now
             (no_change\<lparr>n_error := Some reason, n_clear_lease := True, n_completed := True\<rparr>)) (\<lambda>_.
     bind (log_event w rid ''run.dead_lettered'' actor None [(''reason'', PStr reason)] now) (\<lambda>_.
       read_run w rid)))))))))"

section \<open>Steering\<close>

text \<open>\<^verbatim>\<open>list(x)\<close> of a stored value.\<close>

definition py_list :: "pyval \<Rightarrow> pyval list result" where
  "py_list v = (case v of
     PList xs \<Rightarrow> Inr xs
   | PTuple xs \<Rightarrow> Inr xs
   | PStr s \<Rightarrow> Inr (map (\<lambda>c. PStr [c]) s)
   | PDict d \<Rightarrow> Inr (map (\<lambda>(k, _). PStr k) d)
   | _ \<Rightarrow> Inl TypeError)"

definition steered_meta :: "pydict \<Rightarrow> string \<Rightarrow> string \<Rightarrow> int \<Rightarrow> pydict result" where
  "steered_meta meta instruction actor now =
     and_then (py_list (case map_of meta ''steering'' of None \<Rightarrow> PList [] | Some v \<Rightarrow> v)) (\<lambda>xs.
       Inr (dict_set ''steering''
         (PList (xs @ [PDict [(''instruction'', PStr instruction), (''actor'', PStr actor),
                              (''created_at'', PTime now)]])) meta))"

definition steer ::
  "world \<Rightarrow> int \<Rightarrow> exec_scope \<Rightarrow> string \<Rightarrow> string \<Rightarrow> string \<Rightarrow> string \<Rightarrow> (db, run_record) op" where
  "steer w now scope rid instruction actor key =
     bind (lift (store_required instruction)) (\<lambda>instruction.
     bind (lift (store_required actor)) (\<lambda>actor.
     bind (lift (store_required key)) (\<lambda>key.
     bind (read_run w rid) (\<lambda>run.
     bind (lift (assert_scope w scope (rr_scope run))) (\<lambda>_.
     bind (guard (\<not> run_terminal run) InvalidRunTransitionError) (\<lambda>_.
     bind (gets (\<lambda>db. find (\<lambda>v. v_run v = rid \<and> v_idem v = Some key) (t_events db))) (\<lambda>existing.
     (case existing of
        Some v \<Rightarrow>
          bind (guard (py_eq (get_field (v_payload v) ''instruction'') (PStr instruction)) RunConflictError) (\<lambda>_.
            ret run)
      | None \<Rightarrow>
          bind (lift (steered_meta (rr_meta run) instruction actor now)) (\<lambda>meta.
          bind (upd_runs (\<lambda>r. r_id r = rid)
                  (\<lambda>r. r\<lparr>r_meta := stored_json w meta, r_rev := r_rev r + 1, r_updated := now\<rparr>)) (\<lambda>_.
          bind (log_keyed w rid ''run.steered'' actor key
                  [(''instruction'', PStr instruction),
                   (''status'', PStr (run_status_value (rr_status run)))] now) (\<lambda>_.
            read_run w rid)))))))))))"

section \<open>Expired leases\<close>

definition truthy :: "pyval \<Rightarrow> bool" where
  "truthy v = (case v of
     PNone \<Rightarrow> False | PBool b \<Rightarrow> b | PInt i \<Rightarrow> i \<noteq> 0 | PStr s \<Rightarrow> s \<noteq> [] | PTime _ \<Rightarrow> True
   | PDec d \<Rightarrow> dec_coeff d \<noteq> 0 | PList xs \<Rightarrow> xs \<noteq> [] | PTuple xs \<Rightarrow> xs \<noteq> [] | PDict d \<Rightarrow> d \<noteq> [])"

definition reconciler :: string where
  "reconciler = ''reconciler''"

definition uncertain_checkpoint_reason :: string where
  "uncertain_checkpoint_reason = ''worker lease expired at an uncertain checkpoint''"

abbreviation unsafe_effect :: "effect_status \<Rightarrow> bool" where
  "unsafe_effect s \<equiv> s \<in> {EffectExecuting, EffectUnknown, EffectCompleted}"

text \<open>A goal turn may be requeued when every dispatched effect has its receipt and none is
  unknown.\<close>

definition unrecovered_effect :: "string \<Rightarrow> db \<Rightarrow> bool" where
  "unrecovered_effect rid db =
     list_ex (\<lambda>e. e_run e = rid \<and> unsafe_effect (e_status e)
                 \<and> (\<not> list_ex (\<lambda>x. x_effect x = e_id e) (t_results db) \<or> e_status e = EffectUnknown))
       (t_effects db)"

definition requeue_goal :: "world \<Rightarrow> int \<Rightarrow> string \<Rightarrow> attempt_record option \<Rightarrow> (db, unit) op" where
  "requeue_goal w now rid attempt =
     bind (case attempt of
             None \<Rightarrow> ret ()
           | Some a \<Rightarrow> bind (upd_attempts (\<lambda>q. a_id q = a_id a) (\<lambda>q. q\<lparr>a_status := AttemptPaused\<rparr>))
                         (\<lambda>_. ret ())) (\<lambda>_.
     bind (set_run_state w rid RunQueued now
             (no_change\<lparr>n_clear_lease := True, n_waiting := Some ''continuation''\<rparr>)) (\<lambda>_.
       log_event w rid ''run.yielded'' reconciler None
         [(''reason'', PStr ''recoverable_goal_checkpoint'')] now))"

definition requeue_unstarted ::
  "world \<Rightarrow> int \<Rightarrow> string \<Rightarrow> step_record option \<Rightarrow> attempt_record option \<Rightarrow> (db, unit) op" where
  "requeue_unstarted w now rid step attempt =
     bind (case attempt of
             None \<Rightarrow> ret ()
           | Some a \<Rightarrow> bind (upd_attempts (\<lambda>q. a_id q = a_id a \<and> a_status q = AttemptRunning)
                         (\<lambda>q. q\<lparr>a_status := AttemptFailed,
                                a_error := Some ''lease expired before work started'',
                                a_completed := Some now\<rparr>)) (\<lambda>_. ret ())) (\<lambda>_.
     bind (case step of
             None \<Rightarrow> ret ()
           | Some s0 \<Rightarrow> bind (upd_steps (\<lambda>s. s_run s = rid \<and> s_id s = s_id s0)
                         (\<lambda>s. s\<lparr>s_status := StepQueued, s_rev := s_rev s + 1, s_error := None,
                                s_updated := now\<rparr>)) (\<lambda>_. ret ())) (\<lambda>_.
     bind (set_run_state w rid RunQueued now (no_change\<lparr>n_clear_lease := True\<rparr>)) (\<lambda>_.
       log_event w rid ''run.requeued'' reconciler None
         [(''reason'', PStr ''lease expired before work started'')] now)))"

definition expire_unsafe ::
  "world \<Rightarrow> int \<Rightarrow> string \<Rightarrow> step_record option \<Rightarrow> attempt_record option \<Rightarrow> effect_record option
   \<Rightarrow> (db, unit) op" where
  "expire_unsafe w now rid step attempt effect =
     bind (case effect of
             None \<Rightarrow> ret ()
           | Some e0 \<Rightarrow> if_so (e_status e0 = EffectExecuting)
               (bind (upd_effects (\<lambda>e. e_id e = e_id e0)
                        (\<lambda>e. e\<lparr>e_status := EffectUnknown,
                               e_reason := Some ''worker lease expired after effect dispatch'',
                               e_updated := now\<rparr>)) (\<lambda>_. ret ()))) (\<lambda>_.
     bind (case attempt of
             None \<Rightarrow> ret ()
           | Some a \<Rightarrow> bind (upd_attempts (\<lambda>q. a_id q = a_id a \<and> a_status q = AttemptRunning)
                         (\<lambda>q. q\<lparr>a_status := AttemptUnknown, a_error := Some uncertain_checkpoint_reason,
                                a_completed := Some now\<rparr>)) (\<lambda>_. ret ())) (\<lambda>_.
     bind (case step of
             None \<Rightarrow> ret ()
           | Some s0 \<Rightarrow> bind (upd_steps (\<lambda>s. s_run s = rid \<and> s_id s = s_id s0)
                         (\<lambda>s. s\<lparr>s_status := StepUnknown, s_rev := s_rev s + 1,
                                s_error := Some uncertain_checkpoint_reason, s_updated := now\<rparr>))
                         (\<lambda>_. ret ())) (\<lambda>_.
     bind (set_run_state w rid RunUnknown now
             (no_change\<lparr>n_error := Some uncertain_checkpoint_reason, n_clear_lease := True\<rparr>)) (\<lambda>_.
       log_event w rid ''run.unknown'' reconciler (map_option s_id step)
         [(''reason'', PStr uncertain_checkpoint_reason)] now))))"

definition still_expired :: "run_row \<Rightarrow> run_row \<Rightarrow> int \<Rightarrow> bool" where
  "still_expired current row now \<longleftrightarrow>
     r_status current = RunRunning \<and> r_token current = r_token row
     \<and> (case r_lease current of None \<Rightarrow> False | Some t \<Rightarrow> t < now)"

definition cancellation_settled_reason :: string where
  "cancellation_settled_reason =
     ''cancellation settled after the worker lease expired before an unsafe effect''"

definition reconcile_one :: "world \<Rightarrow> int \<Rightarrow> exec_scope option \<Rightarrow> run_row \<Rightarrow> (db, run_record option) op" where
  "reconcile_one w now scope row =
     bind (case scope of
             None \<Rightarrow> ret ()
           | Some sc \<Rightarrow> bind (lift (scope_from_dict (r_scope row))) (\<lambda>p. lift (assert_scope w sc p))) (\<lambda>_.
     bind (select_run (r_id row)) (\<lambda>current.
       if \<not> still_expired current row now then ret None
       else
         bind (gets (\<lambda>db. first_by s_id (\<lambda>s. s_run s = r_id row \<and> s_status s = StepRunning)
                            (t_steps db))) (\<lambda>step.
         bind (case step of
                 None \<Rightarrow> ret None
               | Some s0 \<Rightarrow> bind (active_attempt (r_id row) (s_id s0)) (\<lambda>a. ret (Some a))) (\<lambda>attempt.
         bind (gets (unrecovered_effect (r_id row))) (\<lambda>uncertain.
         bind (gets (\<lambda>db. first_by e_created (\<lambda>e. e_run e = r_id row \<and> unsafe_effect (e_status e))
                            (t_effects db))) (\<lambda>effect.
         bind (gets (\<lambda>db. case attempt of
                            None \<Rightarrow> False
                          | Some a \<Rightarrow> list_ex (\<lambda>k. k_attempt k = a_id a \<and> k_kind k \<noteq> ''effect_intent'')
                                        (t_checkpoints db))) (\<lambda>worked.
         bind (if truthy (get_field (r_meta current) ''goal_id'') \<and> \<not> uncertain \<and> \<not> r_cancel current
               then requeue_goal w now (r_id row) attempt
               else if effect = None \<and> \<not> worked
               then (if r_cancel current
                     then settle_run_cancellation w (r_id row) reconciler cancellation_settled_reason now
                     else requeue_unstarted w now (r_id row) step attempt)
               else expire_unsafe w now (r_id row) step attempt effect) (\<lambda>_.
         bind (read_run w (r_id row)) (\<lambda>r. ret (Some r))))))))))"

definition reconcile_expired :: "world \<Rightarrow> int \<Rightarrow> exec_scope option \<Rightarrow> (db, run_record list) op" where
  "reconcile_expired w now scope =
     bind (gets (\<lambda>db. sort_key (\<lambda>r. (case r_lease r of None \<Rightarrow> 0 | Some t \<Rightarrow> t, r_id r))
             (filter (\<lambda>r. r_status r = RunRunning
                          \<and> (case r_lease r of None \<Rightarrow> False | Some t \<Rightarrow> t < now)
                          \<and> (case scope of None \<Rightarrow> True | Some sc \<Rightarrow> r_id r = sc_run sc))
                (t_runs db)))) (\<lambda>rows.
     bind (map_op (reconcile_one w now scope) rows) (\<lambda>changed.
       ret (List.map_filter id changed)))"

end
