(* ===== verification/RunEffects.thy ===== *)
theory RunEffects
  imports RunSettle
begin

text \<open>
  \<^verbatim>\<open>runs/_store_effects.py\<close>: the ledger of external effects.  An effect is registered before it
  is dispatched, marked when it starts, completes, fails or becomes unknown, has at most one
  result receipt, and an unknown effect is settled by an explicit decision.
\<close>

section \<open>Intent\<close>

definition same_tool_input :: "effect_record \<Rightarrow> string \<Rightarrow> string \<Rightarrow> string \<Rightarrow> string \<Rightarrow> bool" where
  "same_tool_input e tool version schema args \<longleftrightarrow>
     e_tool e = tool \<and> e_tool_version e = version \<and> e_schema e = schema \<and> e_args e = args"

definition read_effect :: "string \<Rightarrow> (db, effect_record) op" where
  "read_effect eid = bind (effect_row eid) (\<lambda>e. lift (make_effect_record e))"

definition reuse_effect ::
  "world \<Rightarrow> int \<Rightarrow> run_claim \<Rightarrow> string \<Rightarrow> attempt_record \<Rightarrow> effect_record \<Rightarrow> (db, effect_record) op" where
  "reuse_effect w now c sid attempt effect =
     bind (guard (e_status effect \<notin> {EffectUnknown, EffectCancelled}) EffectConflictError) (\<lambda>_.
       if e_status effect = EffectFailed then
         bind (upd_effects (\<lambda>e. e_id e = e_id effect \<and> e_status e = EffectFailed)
                 (\<lambda>e. e\<lparr>e_attempt := a_id attempt, e_status := EffectIntended, e_decision := None,
                        e_by := None, e_reason := None, e_updated := now\<rparr>)) (\<lambda>_.
         bind (log_event w (c_run c) ''effect.retried'' (c_worker c) (Some sid)
                 [(''effect_id'', PStr (e_id effect)), (''logical_key'', PStr (e_key effect))] now) (\<lambda>_.
           read_effect (e_id effect)))
       else if e_status effect = EffectIntended \<and> e_attempt effect \<noteq> a_id attempt then
         bind (upd_effects (\<lambda>e. e_id e = e_id effect \<and> e_status e = EffectIntended)
                 (\<lambda>e. e\<lparr>e_attempt := a_id attempt, e_updated := now\<rparr>)) (\<lambda>_.
           read_effect (e_id effect))
       else ret effect)"

definition new_effect ::
  "world \<Rightarrow> int \<Rightarrow> run_claim \<Rightarrow> string \<Rightarrow> attempt_record \<Rightarrow> string \<Rightarrow> string \<Rightarrow> string \<Rightarrow> string \<Rightarrow> string
   \<Rightarrow> (db, effect_record) op" where
  "new_effect w now c sid attempt key tool version schema args =
     bind (new_uuid w) (\<lambda>eid.
     bind (lift (store_required tool)) (\<lambda>tool'.
     bind (lift (store_required version)) (\<lambda>version'.
     bind (lift (store_required schema)) (\<lambda>schema'.
     bind (lift (store_required args)) (\<lambda>args'.
     bind (insert_effect
             \<lparr>e_id = eid, e_run = c_run c, e_step = sid, e_attempt = a_id attempt, e_key = key,
              e_tool = tool', e_tool_version = version', e_schema = schema', e_args = args',
              e_status = EffectIntended, e_digest = None, e_result_ref = None, e_decision = None,
              e_by = None, e_reason = None, e_dispatch = None, e_created = now, e_updated = now\<rparr>) (\<lambda>_.
     bind (touch_run (c_run c) now) (\<lambda>_.
     bind (log_event w (c_run c) ''effect.intended'' (c_worker c) (Some sid)
             [(''effect_id'', PStr eid), (''logical_key'', PStr key), (''tool_name'', PStr tool),
              (''tool_version'', PStr version), (''schema_version'', PStr schema),
              (''arguments_digest'', PStr args)] now) (\<lambda>_.
       read_effect eid))))))))"

definition begin_effect ::
  "world \<Rightarrow> int \<Rightarrow> exec_scope \<Rightarrow> run_claim \<Rightarrow> string \<Rightarrow> string \<Rightarrow> string \<Rightarrow> string \<Rightarrow> string \<Rightarrow> string
   \<Rightarrow> (db, effect_record) op" where
  "begin_effect w now scope c sid key tool version schema args =
     bind (lift (store_required key)) (\<lambda>key.
     bind (owned_run w scope c now) (\<lambda>_.
     bind (active_attempt (c_run c) sid) (\<lambda>attempt.
     bind (gets (\<lambda>db. find (\<lambda>e. e_run e = c_run c \<and> e_key e = key) (t_effects db))) (\<lambda>existing.
     (case existing of
        Some row \<Rightarrow>
          bind (lift (make_effect_record row)) (\<lambda>effect.
          bind (guard (same_tool_input effect tool version schema args) EffectConflictError) (\<lambda>_.
            reuse_effect w now c sid attempt effect))
      | None \<Rightarrow> new_effect w now c sid attempt key tool version schema args)))))"

section \<open>Transitions of a claimed effect\<close>

definition result_of :: "string \<Rightarrow> db \<Rightarrow> result_row option" where
  "result_of eid db = find (\<lambda>x. x_effect x = eid) (t_results db)"

definition coalesce :: "'a option \<Rightarrow> 'a option \<Rightarrow> 'a option" where
  "coalesce v u = (case v of None \<Rightarrow> u | Some x \<Rightarrow> Some x)"

definition transition_effect ::
  "world \<Rightarrow> int \<Rightarrow> exec_scope \<Rightarrow> run_claim \<Rightarrow> string \<Rightarrow> effect_status list \<Rightarrow> effect_status \<Rightarrow> string
   \<Rightarrow> string option \<Rightarrow> string option \<Rightarrow> (db, effect_record) op" where
  "transition_effect w now scope c eid expected st name digest reason =
     bind (owned_run w scope c now) (\<lambda>_.
     bind (read_effect eid) (\<lambda>effect.
     bind (guard (e_run effect = c_run c) EffectConflictError) (\<lambda>_.
     bind (gets (result_of eid)) (\<lambda>receipt.
     bind (guard (case (digest, receipt) of (Some d, Some x) \<Rightarrow> d = x_digest x | _ \<Rightarrow> True)
             EffectConflictError) (\<lambda>_.
       if e_status effect = st then
         bind (guard (digest = None \<or> e_digest effect = digest) EffectConflictError) (\<lambda>_. ret effect)
       else
         bind (guard (e_status effect \<in> set expected) EffectConflictError) (\<lambda>_.
         bind (upd_effects (\<lambda>e. e_id e = eid)
                 (\<lambda>e. e\<lparr>e_status := st, e_digest := coalesce digest (e_digest e),
                        e_dispatch := coalesce (if st = EffectExecuting then Some (c_token c) else None)
                                        (e_dispatch e),
                        e_reason := coalesce reason (e_reason e), e_updated := now\<rparr>)) (\<lambda>_.
         bind (touch_run (c_run c) now) (\<lambda>_.
         bind (log_event w (c_run c) name (c_worker c) (Some (e_step effect))
                 [(''effect_id'', PStr eid), (''logical_key'', PStr (e_key effect)),
                  (''result_digest'', opt_str digest), (''reason'', opt_str reason)] now) (\<lambda>_.
           read_effect eid)))))))))"

definition mark_effect_started :: "world \<Rightarrow> int \<Rightarrow> exec_scope \<Rightarrow> run_claim \<Rightarrow> string \<Rightarrow> (db, effect_record) op" where
  "mark_effect_started w now scope c eid =
     transition_effect w now scope c eid [EffectIntended] EffectExecuting ''effect.started'' None None"

definition complete_effect ::
  "world \<Rightarrow> int \<Rightarrow> exec_scope \<Rightarrow> run_claim \<Rightarrow> string \<Rightarrow> string \<Rightarrow> (db, effect_record) op" where
  "complete_effect w now scope c eid digest =
     bind (lift (store_required digest)) (\<lambda>digest.
       transition_effect w now scope c eid [EffectExecuting] EffectCompleted ''effect.completed''
         (Some digest) None)"

definition fail_effect ::
  "world \<Rightarrow> int \<Rightarrow> exec_scope \<Rightarrow> run_claim \<Rightarrow> string \<Rightarrow> string \<Rightarrow> (db, effect_record) op" where
  "fail_effect w now scope c eid reason =
     bind (lift (store_required reason)) (\<lambda>reason.
       transition_effect w now scope c eid [EffectIntended, EffectExecuting] EffectFailed
         ''effect.failed'' None (Some reason))"

definition mark_effect_unknown ::
  "world \<Rightarrow> int \<Rightarrow> exec_scope \<Rightarrow> run_claim \<Rightarrow> string \<Rightarrow> string \<Rightarrow> (db, effect_record) op" where
  "mark_effect_unknown w now scope c eid reason =
     bind (lift (store_required reason)) (\<lambda>reason.
     bind (owned_run w scope c now) (\<lambda>_.
     bind (read_effect eid) (\<lambda>effect.
     bind (guard (e_run effect = c_run c) EffectConflictError) (\<lambda>_.
     bind (guard (e_status effect \<in> {EffectIntended, EffectExecuting}) EffectConflictError) (\<lambda>_.
     bind (upd_effects (\<lambda>e. e_id e = eid)
             (\<lambda>e. e\<lparr>e_status := EffectUnknown, e_reason := Some reason, e_updated := now\<rparr>)) (\<lambda>_.
     bind (mark_active_attempt (c_run c) (e_step effect) AttemptUnknown now (Some reason)) (\<lambda>_.
     bind (upd_steps (\<lambda>s. s_run s = c_run c \<and> s_id s = e_step effect)
             (\<lambda>s. s\<lparr>s_status := StepUnknown, s_rev := s_rev s + 1, s_error := Some reason,
                    s_updated := now\<rparr>)) (\<lambda>_.
     bind (set_run_state w (c_run c) RunUnknown now
             (no_change\<lparr>n_error := Some reason, n_clear_lease := True\<rparr>)) (\<lambda>_.
     bind (log_event w (c_run c) ''effect.unknown'' (c_worker c) (Some (e_step effect))
             [(''effect_id'', PStr eid), (''reason'', PStr reason)] now) (\<lambda>_.
     bind (log_event w (c_run c) ''run.unknown'' (c_worker c) (Some (e_step effect))
             [(''effect_id'', PStr eid), (''reason'', PStr reason)] now) (\<lambda>_.
       read_effect eid)))))))))))"

section \<open>Receipts\<close>

text \<open>\<^verbatim>\<open>json.dumps\<close> with \<^verbatim>\<open>ensure_ascii\<close>: every character outside the printable ASCII range is
  escaped.\<close>

definition ascii_escape :: "char \<Rightarrow> string" where
  "ascii_escape c =
     (let n = of_char c :: nat
      in if 126 < n then [CHR 0x5C, CHR ''u'', CHR ''0'', CHR ''0'', hex_digit (n div 16), hex_digit (n mod 16)]
         else [c])"

definition receipt_text :: "pyval \<Rightarrow> string" where
  "receipt_text v = concat (map ascii_escape (json_dumps v))"

definition receipt_digest :: "world \<Rightarrow> pydict \<Rightarrow> string" where
  "receipt_digest w result = ''sha256:'' @ sha256 w (receipt_text (sort_keys (PDict result)))"

definition sorted_dict :: "pydict \<Rightarrow> pydict" where
  "sorted_dict d = sort_key fst (map (\<lambda>(k, v). (k, sort_keys v)) d)"

definition record_effect_result ::
  "world \<Rightarrow> int \<Rightarrow> exec_scope \<Rightarrow> run_claim \<Rightarrow> string \<Rightarrow> pydict \<Rightarrow> (db, string) op" where
  "record_effect_result w now scope c eid result =
     (let digest = receipt_digest w result in
      bind (effect_row eid) (\<lambda>effect.
      bind (read_run w (e_run effect)) (\<lambda>run.
      bind (lift (assert_scope w scope (rr_scope run))) (\<lambda>_.
      bind (guard (e_run effect = c_run c \<and> e_dispatch effect = Some (c_token c)) EffectConflictError) (\<lambda>_.
      bind (gets (result_of eid)) (\<lambda>existing.
      bind (guard (case existing of None \<Rightarrow> True | Some x \<Rightarrow> x_digest x = digest) EffectConflictError) (\<lambda>_.
      bind (insert_result \<lparr>x_effect = eid, x_value = sorted_dict result, x_digest = digest,
                           x_recorded = now\<rparr>) (\<lambda>_.
      bind (upd_effects (\<lambda>e. e_id e = eid)
              (\<lambda>e. e\<lparr>e_result_ref := Some (''effect-result:'' @ eid), e_digest := Some digest\<rparr>)) (\<lambda>_.
        ret digest)))))))))"

definition effect_result :: "world \<Rightarrow> exec_scope \<Rightarrow> string \<Rightarrow> (db, pydict option) op" where
  "effect_result w scope eid =
     bind (effect_row eid) (\<lambda>effect.
     bind (read_run w (e_run effect)) (\<lambda>run.
     bind (lift (assert_scope w scope (rr_scope run))) (\<lambda>_.
     bind (gets (result_of eid)) (\<lambda>row.
     (case row of
        None \<Rightarrow> ret None
      | Some x \<Rightarrow>
          bind (guard (receipt_digest w (x_value x) = x_digest x
                  \<and> (e_digest effect = None \<or> e_digest effect = Some (receipt_digest w (x_value x))))
                 EffectConflictError) (\<lambda>_.
            ret (Some (x_value x))))))))"

section \<open>Reconciliation\<close>

definition reconciled_statuses ::
  "reconciliation_decision \<Rightarrow> bool \<Rightarrow> effect_status \<times> step_status \<times> run_status" where
  "reconciled_statuses decision cancelling =
     (case decision of
        Confirmed \<Rightarrow> (if cancelling then (EffectCompleted, StepCancelled, RunCancelled)
                      else (EffectCompleted, StepQueued, RunQueued))
      | Retry \<Rightarrow> (if cancelling then (EffectCancelled, StepCancelled, RunCancelled)
                  else (EffectIntended, StepQueued, RunQueued))
      | DecidedFailed \<Rightarrow> (EffectFailed, StepFailed, RunFailed)
      | DecidedCancelled \<Rightarrow> (EffectCancelled, StepCancelled, RunCancelled))"

definition settle_effect ::
  "world \<Rightarrow> int \<Rightarrow> string \<Rightarrow> effect_record \<Rightarrow> reconciliation_decision \<Rightarrow> string \<Rightarrow> string \<Rightarrow> string option
   \<Rightarrow> effect_status \<Rightarrow> step_status \<Rightarrow> run_status \<Rightarrow> (db, unit) op" where
  "settle_effect w now eid effect decision actor reason digest est sst rst =
     (let terminal = sst \<in> {StepFailed, StepCancelled} in
      bind (upd_effects (\<lambda>e. e_id e = eid \<and> e_status e = EffectUnknown)
              (\<lambda>e. e\<lparr>e_status := est, e_digest := digest, e_decision := Some decision,
                     e_by := Some actor, e_reason := Some reason, e_updated := now\<rparr>)) (\<lambda>n.
      bind (guard (n = 1) EffectConflictError) (\<lambda>_.
      bind (upd_steps (\<lambda>s. s_run s = e_run effect \<and> s_id s = e_step effect)
              (\<lambda>s. s\<lparr>s_status := sst, s_rev := s_rev s + 1,
                     s_error := (if terminal then Some reason else None), s_retry_at := None,
                     s_updated := now, s_completed := (if terminal then Some now else None)\<rparr>)) (\<lambda>_.
      bind (set_run_state w (e_run effect) rst now
              (no_change\<lparr>n_error := (if terminal then Some reason else None), n_clear_lease := True,
                         n_completed := terminal\<rparr>)) (\<lambda>_.
        log_event w (e_run effect) ''effect.reconciled'' actor (Some (e_step effect))
          [(''effect_id'', PStr eid), (''decision'', PStr (decision_value decision)),
           (''reason'', PStr reason), (''result_digest'', opt_str digest)] now)))))"

definition reconcile_effect ::
  "world \<Rightarrow> int \<Rightarrow> exec_scope \<Rightarrow> string \<Rightarrow> reconciliation_decision \<Rightarrow> string \<Rightarrow> string \<Rightarrow> string option
   \<Rightarrow> (db, reconciliation_record) op" where
  "reconcile_effect w now scope eid decision actor reason digest =
     bind (lift (store_required actor)) (\<lambda>actor.
     bind (lift (store_required reason)) (\<lambda>reason.
     bind (effect_row eid) (\<lambda>owner.
     bind (read_run w (e_run owner)) (\<lambda>run.
     bind (read_effect eid) (\<lambda>effect.
     bind (lift (assert_scope w scope (rr_scope run))) (\<lambda>_.
     bind (guard (e_status effect = EffectUnknown) EffectConflictError) (\<lambda>_.
     bind (guard (\<not> (decision = Confirmed \<and> digest = None)) ValueError) (\<lambda>_.
     bind (case reconciled_statuses decision (rr_cancel run) of
             (est, sst, rst) \<Rightarrow>
               settle_effect w now eid effect decision actor reason digest est sst rst) (\<lambda>_.
     bind (read_effect eid) (\<lambda>updated_effect.
     bind (read_run w (e_run effect)) (\<lambda>updated_run.
       ret \<lparr>rec_effect = updated_effect, rec_run = updated_run, rec_decision = decision\<rparr>)))))))))))"

end
