(* ===== verification/ParentChild.thy ===== *)
theory ParentChild
  imports RunEffects
begin

text \<open>
  \<^verbatim>\<open>runs/_store_parent_child.py\<close>: parents with a fan-out policy and a shared budget, their linked
  children, progress, cancellation across the link, the aggregation of terminal children, and
  the outbox that delivers the completion of a parent.
\<close>

section \<open>Submission\<close>

definition submit_parent ::
  "world \<Rightarrow> int \<Rightarrow> exec_scope \<Rightarrow> run_submission \<Rightarrow> parent_policy \<Rightarrow> string \<Rightarrow> (db, parent_record) op" where
  "submit_parent w now scope s policy actor =
     bind (lift (store_required actor)) (\<lambda>actor.
     bind (guard (sc_parent scope = None) InvalidRunTransitionError) (\<lambda>_.
     bind (idempotent_run_row w scope s None) (\<lambda>dup.
     bind (submit_run w scope s actor now None) (\<lambda>run.
     bind (gets (\<lambda>db. find (\<lambda>p. p_run p = rr_id run) (t_parents db))) (\<lambda>configured.
     (case configured of
        Some p \<Rightarrow>
          bind (lift (policy_from_dict (p_policy p))) (\<lambda>stored.
          bind (guard (stored = policy) RunConflictError) (\<lambda>_.
            gets_result (parent_view w p)))
      | None \<Rightarrow>
          bind (guard (dup = None) RunConflictError) (\<lambda>_.
          bind (insert_parent
                  \<lparr>p_run = rr_id run, p_policy = stored_json w (policy_to_dict policy), p_status = AggOpen,
                   p_rev = 0, p_key = None, p_result = None, p_created = now, p_updated = now\<rparr>) (\<lambda>_.
          bind (set_run_state w (rr_id run) RunWaitingForChildren now
                  (no_change\<lparr>n_waiting := Some ''waiting for required child runs''\<rparr>)) (\<lambda>_.
          bind (log_keyed w (rr_id run) ''run.waiting_for_children'' actor (''parent:'' @ su_key s)
                  [(''policy'', PDict (policy_to_dict policy))] now) (\<lambda>_.
            read_parent w (rr_id run)))))))))))"

definition same_child_work ::
  "world \<Rightarrow> child_record \<Rightarrow> exec_scope \<Rightarrow> run_submission \<Rightarrow> string \<Rightarrow> bool" where
  "same_child_work w existing child_scope s revision \<longleftrightarrow>
     scope_key w (rr_scope (cr_run existing)) = scope_key w child_scope
     \<and> rr_input (cr_run existing) = su_input s \<and> rr_def (cr_run existing) = su_def s
     \<and> cr_revision existing = revision
     \<and> py_eq (PDict (rr_budget (cr_run existing))) (PDict (su_budget s))"

definition link_child ::
  "world \<Rightarrow> int \<Rightarrow> parent_record \<Rightarrow> exec_scope \<Rightarrow> run_submission \<Rightarrow> string \<Rightarrow> run_budget \<Rightarrow> string
   \<Rightarrow> (db, child_record) op" where
  "link_child w now parent child_scope s revision child_budget actor =
     (let pid = rr_id (pr_run parent); storage = child_storage_key w pid (su_key s) in
      bind (idempotent_run_row w child_scope s (Some storage)) (\<lambda>unlinked.
      bind (guard (unlinked = None) RunConflictError) (\<lambda>_.
      bind (gets (child_rows pid)) (\<lambda>rows.
      bind (guard (int (length rows) < pp_max (pr_policy parent)) InvalidRunTransitionError) (\<lambda>_.
      bind (lift (map_result (\<lambda>c. run_budget_from_dict (ch_budget c)) rows)) (\<lambda>existing.
      bind (lift (validate_child_budget_allocation (pp_budget (pr_policy parent)) child_budget existing now)) (\<lambda>_.
      bind (submit_run w child_scope s actor now (Some storage)) (\<lambda>run.
      bind (conflict_on_integrity (insert_child
              \<lparr>ch_run = rr_id run, ch_parent = pid, ch_ordinal = int (length rows) + 1,
               ch_idem = su_key s, ch_revision = revision, ch_def = su_def s, ch_input = su_input s,
               ch_budget = stored_json w (su_budget s), ch_evidence = None, ch_created = now,
               ch_updated = now\<rparr>)) (\<lambda>_.
      bind (log_keyed w pid ''child.submitted'' actor (''child:'' @ su_key s)
              [(''child_run_id'', PStr (rr_id run)), (''ordinal'', PInt (int (length rows) + 1)),
               (''definition_revision'', PStr revision), (''definition_digest'', PStr (su_def s)),
               (''input_digest'', PStr (su_input s))] now) (\<lambda>_.
        read_child w (rr_id run)))))))))))"

definition submit_child ::
  "world \<Rightarrow> int \<Rightarrow> exec_scope \<Rightarrow> exec_scope \<Rightarrow> run_submission \<Rightarrow> string \<Rightarrow> string \<Rightarrow> (db, child_record) op" where
  "submit_child w now parent_scope child_scope s revision actor =
     bind (lift (store_required revision)) (\<lambda>revision.
     bind (guard (revision = sc_version child_scope) ValueError) (\<lambda>_.
     bind (lift (store_required actor)) (\<lambda>actor.
     bind (lift (run_budget_from_dict (su_budget s))) (\<lambda>child_budget.
     bind (read_parent w (sc_run parent_scope)) (\<lambda>parent.
     bind (lift (assert_parent_scope parent_scope (rr_scope (pr_run parent)))) (\<lambda>_.
     bind (lift (assert_child_scope (rr_scope (pr_run parent)) child_scope)) (\<lambda>_.
     bind (guard (pr_status parent = AggOpen \<and> \<not> run_terminal (pr_run parent) \<and> \<not> rr_cancel (pr_run parent))
             InvalidRunTransitionError) (\<lambda>_.
     bind (gets (\<lambda>db. find (\<lambda>c. ch_parent c = rr_id (pr_run parent) \<and> ch_idem c = su_key s) (t_children db))) (\<lambda>dup.
     (case dup of
        Some row \<Rightarrow>
          bind (gets_result (child_view w row)) (\<lambda>existing.
          bind (guard (same_child_work w existing child_scope s revision) RunConflictError) (\<lambda>_.
            ret existing))
      | None \<Rightarrow> link_child w now parent child_scope s revision child_budget actor))))))))))"

section \<open>Scoped reads\<close>

definition get_parent :: "world \<Rightarrow> exec_scope \<Rightarrow> string \<Rightarrow> (db, parent_record) op" where
  "get_parent w scope rid =
     bind (read_parent w rid) (\<lambda>parent.
     bind (lift (assert_parent_scope scope (rr_scope (pr_run parent)))) (\<lambda>_.
       ret parent))"

definition children_of :: "world \<Rightarrow> exec_scope \<Rightarrow> string \<Rightarrow> (db, child_record list) op" where
  "children_of w scope rid = bind (get_parent w scope rid) (\<lambda>parent. ret (pr_children parent))"

definition get_child :: "world \<Rightarrow> exec_scope \<Rightarrow> string \<Rightarrow> (db, child_record) op" where
  "get_child w scope rid =
     bind (select_child rid) (\<lambda>row.
     bind (read_run w (ch_parent row)) (\<lambda>parent.
     bind (gets_result (child_view w row)) (\<lambda>child.
     bind (lift (assert_parent_or_child_scope w scope (rr_scope parent) (rr_scope (cr_run child)))) (\<lambda>_.
       ret child))))"

section \<open>Progress and cancellation\<close>

definition record_child_progress ::
  "world \<Rightarrow> int \<Rightarrow> exec_scope \<Rightarrow> run_claim \<Rightarrow> int \<Rightarrow> pydict \<Rightarrow> string \<Rightarrow> (db, child_progress) op" where
  "record_child_progress w now scope c n payload key =
     bind (guard (1 \<le> n) ValueError) (\<lambda>_.
     bind (lift (store_required key)) (\<lambda>key.
     bind (select_child (c_run c)) (\<lambda>link.
     bind (select_run (ch_parent link)) (\<lambda>_.
     bind (owned_run w scope c now) (\<lambda>_.
     bind (gets (\<lambda>db. find (\<lambda>g. g_child g = c_run c \<and> g_idem g = key) (t_progress db))) (\<lambda>dup.
     (case dup of
        Some row \<Rightarrow>
          bind (lift (progress_from_row row)) (\<lambda>existing.
          bind (guard (cp_seq existing = n
                  \<and> py_eq (PDict (cp_payload existing)) (PDict (safe_payload w payload))
                  \<and> cp_actor existing = c_worker c) RunConflictError) (\<lambda>_.
            ret existing))
      | None \<Rightarrow>
          bind (gets (\<lambda>db. next_seq (map g_seq (filter (\<lambda>g. g_child g = c_run c) (t_progress db))))) (\<lambda>expected.
          bind (guard (n = expected) RunConflictError) (\<lambda>_.
          let g = \<lparr>g_child = c_run c, g_seq = n, g_payload = stored_json w (safe_payload w payload),
                   g_actor = c_worker c, g_idem = key, g_created = now\<rparr>
          in bind (insert_progress g) (\<lambda>_.
             bind (upd_children (\<lambda>q. ch_run q = c_run c) (\<lambda>q. q\<lparr>ch_updated := now\<rparr>)) (\<lambda>_.
             bind (log_keyed w (c_run c) ''child.progressed'' (c_worker c) (''progress:'' @ key)
                     [(''sequence'', PInt n), (''progress'', PDict (safe_payload w payload))] now) (\<lambda>_.
             bind (log_keyed w (ch_parent link) ''child.progressed'' (c_worker c)
                     (''progress:'' @ c_run c @ '':'' @ key)
                     [(''child_run_id'', PStr (c_run c)), (''sequence'', PInt n),
                      (''progress'', PDict (safe_payload w payload))] now) (\<lambda>_.
               lift (progress_from_row g))))))))))))))"

definition request_child_cancellation ::
  "world \<Rightarrow> int \<Rightarrow> exec_scope \<Rightarrow> string \<Rightarrow> string \<Rightarrow> string \<Rightarrow> (db, child_record) op" where
  "request_child_cancellation w now parent_scope child actor reason =
     bind (lift (store_required actor)) (\<lambda>actor.
     bind (lift (store_required reason)) (\<lambda>reason.
     bind (read_parent w (sc_run parent_scope)) (\<lambda>parent.
     bind (lift (assert_parent_scope parent_scope (rr_scope (pr_run parent)))) (\<lambda>_.
     bind (select_child child) (\<lambda>row.
     bind (guard (ch_parent row = rr_id (pr_run parent)) RunNotFoundError) (\<lambda>_.
     bind (request_child_cancellation_of w (rr_id (pr_run parent)) child actor reason now) (\<lambda>_.
       read_child w child)))))))"

definition request_parent_cancellation ::
  "world \<Rightarrow> int \<Rightarrow> exec_scope \<Rightarrow> string \<Rightarrow> string \<Rightarrow> (db, parent_record) op" where
  "request_parent_cancellation w now parent_scope actor reason =
     bind (lift (store_required actor)) (\<lambda>actor.
     bind (lift (store_required reason)) (\<lambda>reason.
     bind (read_parent w (sc_run parent_scope)) (\<lambda>parent.
     bind (lift (assert_parent_scope parent_scope (rr_scope (pr_run parent)))) (\<lambda>_.
       if pr_status parent = AggCompleted then ret parent
       else
         let pid = rr_id (pr_run parent); child_ids = map (\<lambda>c. rr_id (cr_run c)) (pr_children parent) in
         bind (upd_runs (\<lambda>r. r_id r = pid \<and> \<not> r_cancel r)
                 (\<lambda>r. r\<lparr>r_cancel := True, r_rev := r_rev r + 1, r_updated := now\<rparr>)) (\<lambda>changed.
         bind (map_op (\<lambda>i. request_child_cancellation_of w pid i actor reason now) child_ids) (\<lambda>_.
         bind (if_so (changed = 1)
                (log_keyed w pid ''run.cancellation_requested'' actor ''parent-cancellation''
                   [(''reason'', PStr reason),
                    (''status'', PStr (run_status_value (rr_status (pr_run parent)))),
                    (''child_run_ids'', PList (map PStr child_ids))] now)) (\<lambda>_.
           read_parent w pid)))))))"

section \<open>Aggregation\<close>

definition settle_child_evidence :: "world \<Rightarrow> int \<Rightarrow> child_record \<Rightarrow> (db, pyval) op" where
  "settle_child_evidence w now child =
     bind (gets_result (terminal_child_evidence (cr_run child))) (\<lambda>evidence.
     bind (upd_children (\<lambda>c. ch_run c = rr_id (cr_run child))
             (\<lambda>c. c\<lparr>ch_evidence := Some (stored_json w evidence), ch_updated := now\<rparr>)) (\<lambda>_.
       ret (PDict [(''child_run_id'', PStr (rr_id (cr_run child))), (''ordinal'', PInt (cr_ordinal child)),
                   (''status'', PStr (run_status_value (rr_status (cr_run child)))),
                   (''result'', opt_dict (rr_result (cr_run child))),
                   (''error'', opt_str (rr_error (cr_run child))),
                   (''terminal_evidence'', PDict evidence)])))"

definition aggregate_outcome :: "parent_record \<Rightarrow> run_status \<times> string option" where
  "aggregate_outcome parent =
     (if rr_cancel (pr_run parent)
      then (RunCancelled, Some ''parent cancellation completed after child settlement'')
      else if list_all (\<lambda>c. rr_status (cr_run c) = RunCompleted) (pr_children parent)
      then (RunCompleted, None)
      else (RunFailed, Some ''one or more child runs did not complete successfully''))"

definition aggregate_step_status :: "run_status \<Rightarrow> step_status" where
  "aggregate_step_status st =
     (if st = RunCompleted then StepCompleted else if st = RunCancelled then StepCancelled else StepFailed)"

definition aggregate_event_name :: "run_status \<Rightarrow> string" where
  "aggregate_event_name st =
     (if st = RunCompleted then ''run.completed''
      else if st = RunCancelled then ''run.cancelled'' else ''run.failed'')"

definition settle_parent ::
  "world \<Rightarrow> int \<Rightarrow> parent_record \<Rightarrow> string \<Rightarrow> string \<Rightarrow> pyval list \<Rightarrow> (db, unit) op" where
  "settle_parent w now parent actor key evidence =
     (let pid = rr_id (pr_run parent);
          (st, reason) = aggregate_outcome parent;
          aggregate = [(''parent_run_id'', PStr pid), (''status'', PStr (run_status_value st)),
                       (''children'', PList evidence)]
      in
        bind (upd_steps (\<lambda>s. s_run s = pid \<and> s_status s \<noteq> StepCompleted)
                (\<lambda>s. s\<lparr>s_status := aggregate_step_status st, s_rev := s_rev s + 1, s_error := reason,
                       s_updated := now, s_completed := Some now\<rparr>)) (\<lambda>_.
        bind (set_run_state w pid st now
                (no_change\<lparr>n_result := (if st = RunCompleted then Some aggregate else None),
                           n_error := reason, n_clear_lease := True, n_completed := True\<rparr>)) (\<lambda>_.
        bind (upd_parents (\<lambda>p. p_run p = pid \<and> p_status p = AggOpen)
                (\<lambda>p. p\<lparr>p_status := AggCompleted, p_rev := p_rev p + 1, p_key := Some key,
                       p_result := Some (stored_json w aggregate), p_updated := now\<rparr>)) (\<lambda>_.
        bind (log_keyed w pid ''run.children_aggregated'' actor (''aggregate:'' @ key) aggregate now) (\<lambda>_.
        bind (log_keyed w pid (aggregate_event_name st) actor ''parent-terminal''
                (if st = RunCompleted then [(''result'', PDict aggregate)]
                 else [(''reason'', opt_str reason), (''children'', PList evidence)]) now) (\<lambda>_.
        bind (new_uuid w) (\<lambda>oid.
          insert_outbox \<lparr>o_id = oid, o_parent = pid, o_status = CompPending,
            o_payload = stored_json w aggregate, o_attempts = 0, o_worker = None, o_token = None,
            o_lease = None, o_error = None, o_created = now, o_updated = now, o_delivered = None\<rparr>)))))))"

definition aggregate_children ::
  "world \<Rightarrow> int \<Rightarrow> exec_scope \<Rightarrow> string \<Rightarrow> string \<Rightarrow> (db, parent_record) op" where
  "aggregate_children w now parent_scope actor key =
     bind (lift (store_required actor)) (\<lambda>actor.
     bind (lift (store_required key)) (\<lambda>key.
     bind (read_parent w (sc_run parent_scope)) (\<lambda>parent.
     bind (lift (assert_parent_scope parent_scope (rr_scope (pr_run parent)))) (\<lambda>_.
       if pr_status parent = AggCompleted then ret parent
       else
         bind (guard (rr_cancel (pr_run parent)
                 \<or> pp_required (pr_policy parent) \<le> int (length (pr_children parent)))
                 InvalidRunTransitionError) (\<lambda>_.
         bind (guard (list_all (\<lambda>c. run_terminal (cr_run c)) (pr_children parent))
                 InvalidRunTransitionError) (\<lambda>_.
         bind (guard (pr_children parent \<noteq> [] \<or> rr_cancel (pr_run parent)) InvalidRunTransitionError) (\<lambda>_.
         bind (map_op (settle_child_evidence w now) (pr_children parent)) (\<lambda>evidence.
         bind (settle_parent w now parent actor key evidence) (\<lambda>_.
           read_parent w (rr_id (pr_run parent)))))))))))"

end
