(* ===== verification/CompletionOutbox.thy ===== *)
theory CompletionOutbox
  imports ParentChild
begin

text \<open>
  The delivery of a parent's completion (\<^verbatim>\<open>runs/_store_parent_child.py\<close>, from
  \<^verbatim>\<open>parent_completion\<close> on): one outbox row per parent, delivered under a lease; a claim whose
  lease expired, or whose outcome is ambiguous, becomes unknown and is settled by the host.
\<close>

record completion_claim =
  cc_completion :: outbox_row
  cc_worker :: string
  cc_token :: string
  cc_lease :: int

text \<open>The checks of \<^verbatim>\<open>ParentCompletion\<close> and \<^verbatim>\<open>ParentCompletionClaim\<close>.\<close>

definition completion_from_row :: "outbox_row \<Rightarrow> outbox_row result" where
  "completion_from_row b =
     and_then (store_required (o_id b)) (\<lambda>i.
     and_then (store_required (o_parent b)) (\<lambda>p.
     and_then (require (0 \<le> o_attempts b) ValueError) (\<lambda>_.
     and_then (opt_result store_required (o_worker b)) (\<lambda>wk.
     and_then (opt_result store_required (o_token b)) (\<lambda>tok.
     and_then (opt_result store_required (o_error b)) (\<lambda>err.
       Inr (b\<lparr>o_id := i, o_parent := p, o_payload := freeze_mapping (o_payload b), o_worker := wk,
              o_token := tok, o_error := err\<rparr>)))))))"

definition make_completion_claim :: "completion_claim \<Rightarrow> completion_claim result" where
  "make_completion_claim c =
     and_then (require (o_status (cc_completion c) = CompClaimed) ValueError) (\<lambda>_.
     and_then (store_required (cc_worker c)) (\<lambda>wk.
     and_then (store_required (cc_token c)) (\<lambda>tok.
       Inr (c\<lparr>cc_worker := wk, cc_token := tok\<rparr>))))"

definition completion_row :: "string \<Rightarrow> (db, outbox_row) op" where
  "completion_row oid = select_row RunNotFoundError (\<lambda>db. find (\<lambda>b. o_id b = oid) (t_outbox db))"

definition read_completion :: "string \<Rightarrow> (db, outbox_row) op" where
  "read_completion oid = bind (completion_row oid) (\<lambda>b. lift (completion_from_row b))"

definition parent_completion :: "world \<Rightarrow> exec_scope \<Rightarrow> string \<Rightarrow> (db, outbox_row option) op" where
  "parent_completion w scope rid =
     bind (get_parent w scope rid) (\<lambda>_.
     bind (gets (\<lambda>db. find (\<lambda>b. o_parent b = rid) (t_outbox db))) (\<lambda>row.
     (case row of
        None \<Rightarrow> ret None
      | Some b \<Rightarrow> bind (lift (completion_from_row b)) (\<lambda>v. ret (Some v)))))"

text \<open>The join of an outbox row with a run of the scope's agent.\<close>

definition in_agent_of :: "exec_scope \<Rightarrow> db \<Rightarrow> outbox_row \<Rightarrow> bool" where
  "in_agent_of scope db b \<longleftrightarrow>
     list_ex (\<lambda>r. r_id r = o_parent b \<and> r_tenant r = sc_tenant scope \<and> r_workspace r = sc_workspace scope
                 \<and> r_agent r = sc_agent scope \<and> r_version r = sc_version scope) (t_runs db)"

definition delivery_expired_reason :: string where
  "delivery_expired_reason = ''delivery lease expired with unknown outcome''"

definition quarantine_expired :: "world \<Rightarrow> int \<Rightarrow> exec_scope \<Rightarrow> string \<Rightarrow> (db, unit) op" where
  "quarantine_expired w now scope target =
     bind (gets (\<lambda>db. first_by (\<lambda>b. (o_created b, o_id b))
             (\<lambda>b. in_agent_of scope db b \<and> o_parent b = target \<and> o_status b = CompClaimed
                  \<and> (case o_lease b of None \<Rightarrow> False | Some t \<Rightarrow> t \<le> now)) (t_outbox db))) (\<lambda>expired.
     (case expired of
        None \<Rightarrow> ret ()
      | Some x \<Rightarrow>
          bind (upd_outbox (\<lambda>b. o_id b = o_id x \<and> o_status b = CompClaimed)
                  (\<lambda>b. b\<lparr>o_status := CompUnknown, o_worker := None, o_token := None, o_lease := None,
                         o_error := Some delivery_expired_reason, o_updated := now\<rparr>)) (\<lambda>_.
            log_keyed w (o_parent x) ''parent.completion_unknown'' ''recovery''
              (''completion-expired:'' @ o_id x)
              [(''completion_id'', PStr (o_id x)), (''reason'', PStr delivery_expired_reason)] now)))"

definition take_completion ::
  "world \<Rightarrow> int \<Rightarrow> string \<Rightarrow> outbox_row \<Rightarrow> string \<Rightarrow> int \<Rightarrow> (db, completion_claim option) op" where
  "take_completion w now parent b worker lease =
     bind (new_uuid w) (\<lambda>token.
     bind (upd_outbox (\<lambda>q. o_id q = o_id b \<and> o_status q = CompPending)
             (\<lambda>q. q\<lparr>o_status := CompClaimed, o_attempts := o_attempts q + 1, o_worker := Some worker,
                    o_token := Some token, o_lease := Some lease, o_error := None, o_updated := now\<rparr>)) (\<lambda>n.
     bind (guard (n = 1) RunConflictError) (\<lambda>_.
     bind (log_event w parent ''parent.completion_claimed'' worker None
             [(''completion_id'', PStr (o_id b))] now) (\<lambda>_.
     bind (read_completion (o_id b)) (\<lambda>completion.
     bind (lift (make_completion_claim
             \<lparr>cc_completion = completion, cc_worker = worker, cc_token = token, cc_lease = lease\<rparr>)) (\<lambda>c.
       ret (Some c)))))))"

definition claim_parent_completion ::
  "world \<Rightarrow> int \<Rightarrow> exec_scope \<Rightarrow> string \<Rightarrow> int \<Rightarrow> string option \<Rightarrow> (db, completion_claim option) op" where
  "claim_parent_completion w now scope worker lease_seconds parent_id =
     bind (lift (store_required worker)) (\<lambda>worker.
     bind (lift (positive_seconds lease_seconds)) (\<lambda>_.
     bind (guard (sc_parent scope = None) RunNotFoundError) (\<lambda>_.
     let target = or_else parent_id (sc_run scope) id in
     bind (guard (target = sc_run scope) RunNotFoundError) (\<lambda>_.
     bind (read_run w target) (\<lambda>parent.
     bind (lift (assert_parent_scope scope (rr_scope parent))) (\<lambda>_.
     bind (quarantine_expired w now scope target) (\<lambda>_.
     bind (gets (\<lambda>db. first_by (\<lambda>b. (o_created b, o_id b))
             (\<lambda>b. in_agent_of scope db b \<and> o_parent b = target \<and> o_status b = CompPending)
             (t_outbox db))) (\<lambda>found.
     (case found of
        None \<Rightarrow> ret None
      | Some b \<Rightarrow> take_completion w now (rr_id parent) b worker (lease_end now lease_seconds))))))))))"

definition holds_completion :: "completion_claim \<Rightarrow> outbox_row \<Rightarrow> bool" where
  "holds_completion c b \<longleftrightarrow>
     o_status b = CompClaimed \<and> o_token b = Some (cc_token c) \<and> o_worker b = Some (cc_worker c)"

definition transition_parent_completion_claim ::
  "world \<Rightarrow> int \<Rightarrow> exec_scope \<Rightarrow> completion_claim \<Rightarrow> completion_status \<Rightarrow> string \<Rightarrow> string option
   \<Rightarrow> (db, outbox_row) op" where
  "transition_parent_completion_claim w now scope c st name reason =
     bind (completion_row (o_id (cc_completion c))) (\<lambda>row.
     bind (read_parent w (o_parent row)) (\<lambda>parent.
     bind (lift (assert_parent_scope scope (rr_scope (pr_run parent)))) (\<lambda>_.
     bind (guard (holds_completion c row) RunLeaseError) (\<lambda>_.
     bind (guard (st = CompUnknown \<or> (case o_lease row of None \<Rightarrow> False | Some t \<Rightarrow> now < t))
             RunLeaseError) (\<lambda>_.
     bind (upd_outbox (\<lambda>b. o_id b = o_id (cc_completion c) \<and> o_status b = CompClaimed
                           \<and> o_token b = Some (cc_token c))
             (\<lambda>b. b\<lparr>o_status := st, o_worker := None, o_token := None, o_lease := None,
                    o_error := reason, o_updated := now,
                    o_delivered := (if st = CompDelivered then Some now else o_delivered b)\<rparr>)) (\<lambda>n.
     bind (guard (n = 1) RunLeaseError) (\<lambda>_.
     bind (log_event w (rr_id (pr_run parent)) name (cc_worker c) None
             [(''completion_id'', PStr (o_id (cc_completion c))), (''reason'', opt_str reason)] now) (\<lambda>_.
       read_completion (o_id (cc_completion c))))))))))"

definition complete_parent_completion ::
  "world \<Rightarrow> int \<Rightarrow> exec_scope \<Rightarrow> completion_claim \<Rightarrow> (db, outbox_row) op" where
  "complete_parent_completion w now scope c =
     transition_parent_completion_claim w now scope c CompDelivered ''parent.completion_delivered'' None"

definition fail_parent_completion ::
  "world \<Rightarrow> int \<Rightarrow> exec_scope \<Rightarrow> completion_claim \<Rightarrow> string \<Rightarrow> (db, outbox_row) op" where
  "fail_parent_completion w now scope c reason =
     bind (lift (store_required reason)) (\<lambda>reason.
       transition_parent_completion_claim w now scope c CompPending ''parent.completion_failed'' (Some reason))"

definition mark_parent_completion_unknown ::
  "world \<Rightarrow> int \<Rightarrow> exec_scope \<Rightarrow> completion_claim \<Rightarrow> string \<Rightarrow> (db, outbox_row) op" where
  "mark_parent_completion_unknown w now scope c reason =
     bind (lift (store_required reason)) (\<lambda>reason.
       transition_parent_completion_claim w now scope c CompUnknown ''parent.completion_unknown'' (Some reason))"

definition reconcile_parent_completion ::
  "world \<Rightarrow> int \<Rightarrow> exec_scope \<Rightarrow> string \<Rightarrow> bool \<Rightarrow> string \<Rightarrow> string \<Rightarrow> (db, outbox_row) op" where
  "reconcile_parent_completion w now scope rid delivered actor reason =
     bind (lift (store_required actor)) (\<lambda>actor.
     bind (lift (store_required reason)) (\<lambda>reason.
     bind (read_parent w rid) (\<lambda>parent.
     bind (lift (assert_parent_scope scope (rr_scope (pr_run parent)))) (\<lambda>_.
     bind (select_row RunNotFoundError (\<lambda>db. find (\<lambda>b. o_parent b = rid) (t_outbox db))) (\<lambda>row.
     bind (lift (completion_from_row row)) (\<lambda>completion.
     bind (guard (o_status completion = CompUnknown) InvalidRunTransitionError) (\<lambda>_.
     bind (upd_outbox (\<lambda>b. o_id b = o_id completion \<and> o_status b = CompUnknown)
             (\<lambda>b. b\<lparr>o_status := (if delivered then CompDelivered else CompPending), o_worker := None,
                    o_token := None, o_lease := None, o_error := Some reason, o_updated := now,
                    o_delivered := (if delivered then Some now else None)\<rparr>)) (\<lambda>_.
     bind (log_event w rid ''parent.completion_reconciled'' actor None
             [(''completion_id'', PStr (o_id completion)), (''delivered'', PBool delivered),
              (''reason'', PStr reason)] now) (\<lambda>_.
       read_completion (o_id completion))))))))))"

end
