(* ===== verification/Machine.thy ===== *)
theory Machine
  imports CompletionOutbox
begin

text \<open>
  The store as a machine: the calls of its protocol (\<^verbatim>\<open>runs/protocols.py\<close>, implemented by
  \<^verbatim>\<open>SQLiteRunStore\<close> in \<^verbatim>\<open>runs/store.py\<close>) and their transactional execution.  A call carries the
  clock it reads; the scope and the submission of a new run pass their constructors, and the
  other scopes, the claims and the clocks of a history are arbitrary.
\<close>

datatype run_call =
    Submit exec_scope run_submission string
  | RecordEvent exec_scope string string string pydict event_args
  | Claim exec_scope string int "string option"
  | Renew exec_scope run_claim int
  | StartStep exec_scope run_claim string
  | YieldStep exec_scope run_claim string pydict
  | AddCheckpoint exec_scope run_claim string string pydict
  | CompleteStep exec_scope run_claim string "pydict option"
  | FailStep exec_scope run_claim string string bool
  | PauseForApproval exec_scope run_claim string string pydict
  | Resume exec_scope string string string
  | RequestCancellation exec_scope string string string
  | Cancel exec_scope string string string "run_claim option"
  | Complete exec_scope run_claim pydict
  | Fail exec_scope run_claim string
  | MarkUnknown exec_scope run_claim string
  | DeadLetter exec_scope string string string
  | Steer exec_scope string string string string
  | ReconcileExpired "exec_scope option"
  | BeginEffect exec_scope run_claim string string string string string string
  | MarkEffectStarted exec_scope run_claim string
  | CompleteEffect exec_scope run_claim string string
  | RecordEffectResult exec_scope run_claim string pydict
  | FailEffect exec_scope run_claim string string
  | MarkEffectUnknown exec_scope run_claim string string
  | ReconcileEffect exec_scope string reconciliation_decision string string "string option"
  | SubmitParent exec_scope run_submission parent_policy string
  | SubmitChild exec_scope exec_scope run_submission string string
  | RecordChildProgress exec_scope run_claim int pydict string
  | RequestChildCancellation exec_scope string string string
  | RequestParentCancellation exec_scope string string
  | AggregateChildren exec_scope string string
  | ClaimParentCompletion exec_scope string int "string option"
  | CompleteParentCompletion exec_scope completion_claim
  | FailParentCompletion exec_scope completion_claim string
  | MarkParentCompletionUnknown exec_scope completion_claim string
  | ReconcileParentCompletion exec_scope string bool string string

fun exec_call :: "world \<Rightarrow> int \<Rightarrow> run_call \<Rightarrow> (db, unit) op" where
  "exec_call w now (Submit sc s a) =
     bind (lift (make_scope sc)) (\<lambda>sc. bind (lift (build_submission w s)) (\<lambda>s.
       done_after (submit w now sc s a)))"
| "exec_call w now (RecordEvent sc rid name a p g) = done_after (record_event w now sc rid name a p g)"
| "exec_call w now (Claim sc wk n rid) = done_after (claim_run w now sc wk n rid)"
| "exec_call w now (Renew sc c n) = done_after (renew w now sc c n)"
| "exec_call w now (StartStep sc c sid) = done_after (start_step w now sc c sid)"
| "exec_call w now (YieldStep sc c sid p) = done_after (yield_step w now sc c sid p)"
| "exec_call w now (AddCheckpoint sc c sid k p) = done_after (add_checkpoint w now sc c sid k p)"
| "exec_call w now (CompleteStep sc c sid p) = done_after (complete_step w now sc c sid p)"
| "exec_call w now (FailStep sc c sid rs b) = done_after (fail_step w now sc c sid rs b)"
| "exec_call w now (PauseForApproval sc c sid i p) = done_after (pause_for_approval w now sc c sid i p)"
| "exec_call w now (Resume sc rid a rs) = done_after (resume w now sc rid a rs)"
| "exec_call w now (RequestCancellation sc rid a rs) = done_after (request_cancellation w now sc rid a rs)"
| "exec_call w now (Cancel sc rid a rs c) = done_after (cancel_run w now sc rid a rs c)"
| "exec_call w now (Complete sc c p) = done_after (complete_run w now sc c p)"
| "exec_call w now (Fail sc c rs) = done_after (fail_run w now sc c rs)"
| "exec_call w now (MarkUnknown sc c rs) = done_after (mark_unknown w now sc c rs)"
| "exec_call w now (DeadLetter sc rid a rs) = done_after (dead_letter w now sc rid a rs)"
| "exec_call w now (Steer sc rid i a k) = done_after (steer w now sc rid i a k)"
| "exec_call w now (ReconcileExpired sc) = done_after (reconcile_expired w now sc)"
| "exec_call w now (BeginEffect sc c sid k t v s a) = done_after (begin_effect w now sc c sid k t v s a)"
| "exec_call w now (MarkEffectStarted sc c e) = done_after (mark_effect_started w now sc c e)"
| "exec_call w now (CompleteEffect sc c e d) = done_after (complete_effect w now sc c e d)"
| "exec_call w now (RecordEffectResult sc c e p) = done_after (record_effect_result w now sc c e p)"
| "exec_call w now (FailEffect sc c e rs) = done_after (fail_effect w now sc c e rs)"
| "exec_call w now (MarkEffectUnknown sc c e rs) = done_after (mark_effect_unknown w now sc c e rs)"
| "exec_call w now (ReconcileEffect sc e d a rs dg) = done_after (reconcile_effect w now sc e d a rs dg)"
| "exec_call w now (SubmitParent sc s p a) =
     bind (lift (make_scope sc)) (\<lambda>sc. bind (lift (build_submission w s)) (\<lambda>s.
     bind (lift (build_policy p)) (\<lambda>p. done_after (submit_parent w now sc s p a))))"
| "exec_call w now (SubmitChild ps cs s v a) =
     bind (lift (make_scope cs)) (\<lambda>cs. bind (lift (build_submission w s)) (\<lambda>s.
       done_after (submit_child w now ps cs s v a)))"
| "exec_call w now (RecordChildProgress sc c n p k) = done_after (record_child_progress w now sc c n p k)"
| "exec_call w now (RequestChildCancellation sc rid a rs) = done_after (request_child_cancellation w now sc rid a rs)"
| "exec_call w now (RequestParentCancellation sc a rs) = done_after (request_parent_cancellation w now sc a rs)"
| "exec_call w now (AggregateChildren sc a k) = done_after (aggregate_children w now sc a k)"
| "exec_call w now (ClaimParentCompletion sc wk n p) = done_after (claim_parent_completion w now sc wk n p)"
| "exec_call w now (CompleteParentCompletion sc c) = done_after (complete_parent_completion w now sc c)"
| "exec_call w now (FailParentCompletion sc c rs) = done_after (fail_parent_completion w now sc c rs)"
| "exec_call w now (MarkParentCompletionUnknown sc c rs) = done_after (mark_parent_completion_unknown w now sc c rs)"
| "exec_call w now (ReconcileParentCompletion sc rid b a rs) = done_after (reconcile_parent_completion w now sc rid b a rs)"

text \<open>A call commits when it succeeds and leaves the database unchanged when it raises.\<close>

definition execute :: "world \<Rightarrow> int \<times> run_call \<Rightarrow> db \<Rightarrow> db" where
  "execute w tc = commit (exec_call w (fst tc) (snd tc))"

definition run_history :: "world \<Rightarrow> (int \<times> run_call) list \<Rightarrow> db \<Rightarrow> db" where
  "run_history w = fold (execute w)"

definition reachable :: "world \<Rightarrow> db \<Rightarrow> bool" where
  "reachable w s \<longleftrightarrow> (\<exists>h. s = run_history w h empty_db)"

lemma run_history_Nil [simp]: "run_history w [] s = s"
  by (simp add: run_history_def)

lemma run_history_Cons [simp]: "run_history w (c # h) s = run_history w h (execute w c s)"
  by (simp add: run_history_def)

lemma run_history_append [simp]: "run_history w (h @ g) s = run_history w g (run_history w h s)"
  by (simp add: run_history_def)

lemma reachable_empty: "reachable w empty_db"
  unfolding reachable_def by (rule exI [of _ "[]"]) simp

lemma reachable_history: "reachable w s \<Longrightarrow> reachable w (run_history w h s)"
  unfolding reachable_def by (metis run_history_append)

end
