(* ===== verification/StoreFacts.thy ===== *)
theory StoreFacts
  imports Machine
begin

text \<open>
  What the statements and the shared helpers of the store do to the tables: inversion rules
  for successful executions.  They are the automation of the proofs about the operations.
\<close>


abbreviation run_of :: "string \<Rightarrow> db \<Rightarrow> run_row option" where
  "run_of rid s \<equiv> find (\<lambda>r. r_id r = rid) (t_runs s)"

section \<open>Statements\<close>

lemma upd_runs_eq [result_simps]:
  "upd_runs P f s = Inr (n, s') \<longleftrightarrow>
     n = rowcount P (t_runs s) \<and> s' = s\<lparr>t_runs := upd_where P f (t_runs s)\<rparr>"
  by (auto simp: upd_runs_def)

lemma upd_steps_eq [result_simps]:
  "upd_steps P f s = Inr (n, s') \<longleftrightarrow>
     n = rowcount P (t_steps s) \<and> s' = s\<lparr>t_steps := upd_where P f (t_steps s)\<rparr>"
  by (auto simp: upd_steps_def)

lemma upd_attempts_eq [result_simps]:
  "upd_attempts P f s = Inr (n, s') \<longleftrightarrow>
     n = rowcount P (t_attempts s) \<and> s' = s\<lparr>t_attempts := upd_where P f (t_attempts s)\<rparr>"
  by (auto simp: upd_attempts_def)

lemma upd_effects_eq [result_simps]:
  "upd_effects P f s = Inr (n, s') \<longleftrightarrow>
     n = rowcount P (t_effects s) \<and> s' = s\<lparr>t_effects := upd_where P f (t_effects s)\<rparr>"
  by (auto simp: upd_effects_def)

lemma upd_parents_eq [result_simps]:
  "upd_parents P f s = Inr (n, s') \<longleftrightarrow>
     n = rowcount P (t_parents s) \<and> s' = s\<lparr>t_parents := upd_where P f (t_parents s)\<rparr>"
  by (auto simp: upd_parents_def)

lemma upd_children_eq [result_simps]:
  "upd_children P f s = Inr (n, s') \<longleftrightarrow>
     n = rowcount P (t_children s) \<and> s' = s\<lparr>t_children := upd_where P f (t_children s)\<rparr>"
  by (auto simp: upd_children_def)

lemma upd_outbox_eq [result_simps]:
  "upd_outbox P f s = Inr (n, s') \<longleftrightarrow>
     n = rowcount P (t_outbox s) \<and> s' = s\<lparr>t_outbox := upd_where P f (t_outbox s)\<rparr>"
  by (auto simp: upd_outbox_def)

lemma new_uuid_eq [result_simps]:
  "new_uuid w s = Inr (i, s') \<longleftrightarrow> i = uuid4 w (draws s) \<and> s' = s\<lparr>draws := Suc (draws s)\<rparr>"
  by (auto simp: new_uuid_def)

lemma conflict_on_integrity_eq [result_simps]: "conflict_on_integrity m s = Inr r \<longleftrightarrow> m s = Inr r"
  by (auto simp: conflict_on_integrity_def split: sum.splits)

lemma insert_run_eq [result_simps]:
  "insert_run r s = Inr (u, s') \<longleftrightarrow>
     (\<forall>q\<in>set (t_runs s). r_id q \<noteq> r_id r)
     \<and> (\<forall>q\<in>set (t_runs s). \<not> (r_tenant q = r_tenant r \<and> r_workspace q = r_workspace r \<and> r_idem q = r_idem r))
     \<and> s' = s\<lparr>t_runs := t_runs s @ [r]\<rparr>"
  by (auto simp: insert_run_def result_simps list_all_iff)

lemma insert_step_eq [result_simps]:
  "insert_step x s = Inr (u, s') \<longleftrightarrow>
     (\<forall>q\<in>set (t_steps s). \<not> (s_run q = s_run x \<and> s_id q = s_id x))
     \<and> (\<exists>r\<in>set (t_runs s). r_id r = s_run x) \<and> s' = s\<lparr>t_steps := t_steps s @ [x]\<rparr>"
  by (auto simp: insert_step_def result_simps list_all_iff list_ex_iff)

lemma insert_attempt_eq [result_simps]:
  "insert_attempt a s = Inr (u, s') \<longleftrightarrow>
     (\<forall>q\<in>set (t_attempts s). a_id q \<noteq> a_id a)
     \<and> (\<forall>q\<in>set (t_attempts s). \<not> (a_run q = a_run a \<and> a_step q = a_step a \<and> a_number q = a_number a))
     \<and> (\<exists>x\<in>set (t_steps s). s_run x = a_run a \<and> s_id x = a_step a)
     \<and> s' = s\<lparr>t_attempts := t_attempts s @ [a]\<rparr>"
  by (auto simp: insert_attempt_def result_simps list_all_iff list_ex_iff)

lemma insert_checkpoint_eq [result_simps]:
  "insert_checkpoint k s = Inr (u, s') \<longleftrightarrow>
     (\<forall>q\<in>set (t_checkpoints s). k_id q \<noteq> k_id k)
     \<and> (\<forall>q\<in>set (t_checkpoints s). \<not> (k_run q = k_run k \<and> k_seq q = k_seq k))
     \<and> (\<exists>a\<in>set (t_attempts s). a_id a = k_attempt k)
     \<and> s' = s\<lparr>t_checkpoints := t_checkpoints s @ [k]\<rparr>"
  by (auto simp: insert_checkpoint_def result_simps list_all_iff list_ex_iff)

lemma insert_effect_eq [result_simps]:
  "insert_effect e s = Inr (u, s') \<longleftrightarrow>
     (\<forall>q\<in>set (t_effects s). e_id q \<noteq> e_id e)
     \<and> (\<forall>q\<in>set (t_effects s). \<not> (e_run q = e_run e \<and> e_key q = e_key e))
     \<and> (\<exists>a\<in>set (t_attempts s). a_id a = e_attempt e)
     \<and> s' = s\<lparr>t_effects := t_effects s @ [e]\<rparr>"
  by (auto simp: insert_effect_def result_simps list_all_iff list_ex_iff)

lemma insert_result_eq [result_simps]:
  "insert_result x s = Inr (u, s') \<longleftrightarrow>
     (if \<exists>q\<in>set (t_results s). x_effect q = x_effect x then s' = s
      else (\<exists>e\<in>set (t_effects s). e_id e = x_effect x) \<and> s' = s\<lparr>t_results := t_results s @ [x]\<rparr>)"
  by (auto simp: insert_result_def result_simps list_ex_iff)

lemma insert_event_row_eq [result_simps]:
  "insert_event_row v s = Inr (u, s') \<longleftrightarrow>
     (\<forall>q\<in>set (t_events s). v_id q \<noteq> v_id v)
     \<and> (\<forall>q\<in>set (t_events s). \<not> (v_run q = v_run v \<and> v_seq q = v_seq v))
     \<and> (\<forall>q\<in>set (t_events s). \<not> (v_run q = v_run v \<and> v_idem v \<noteq> None \<and> v_idem q = v_idem v))
     \<and> (\<exists>r\<in>set (t_runs s). r_id r = v_run v)
     \<and> s' = s\<lparr>t_events := t_events s @ [v]\<rparr>"
  by (auto simp: insert_event_row_def result_simps list_all_iff list_ex_iff)

lemma insert_parent_eq [result_simps]:
  "insert_parent p s = Inr (u, s') \<longleftrightarrow>
     (\<forall>q\<in>set (t_parents s). p_run q \<noteq> p_run p) \<and> (\<exists>r\<in>set (t_runs s). r_id r = p_run p)
     \<and> 0 \<le> p_rev p \<and> s' = s\<lparr>t_parents := t_parents s @ [p]\<rparr>"
  by (auto simp: insert_parent_def result_simps list_all_iff list_ex_iff)

lemma insert_child_eq [result_simps]:
  "insert_child c s = Inr (u, s') \<longleftrightarrow>
     (\<forall>q\<in>set (t_children s). ch_run q \<noteq> ch_run c)
     \<and> (\<forall>q\<in>set (t_children s). \<not> (ch_parent q = ch_parent c \<and> ch_ordinal q = ch_ordinal c))
     \<and> (\<forall>q\<in>set (t_children s). \<not> (ch_parent q = ch_parent c \<and> ch_idem q = ch_idem c))
     \<and> (\<exists>p\<in>set (t_parents s). p_run p = ch_parent c) \<and> (\<exists>r\<in>set (t_runs s). r_id r = ch_run c)
     \<and> 0 < ch_ordinal c \<and> s' = s\<lparr>t_children := t_children s @ [c]\<rparr>"
  by (auto simp: insert_child_def result_simps list_all_iff list_ex_iff)

lemma insert_progress_eq [result_simps]:
  "insert_progress g s = Inr (u, s') \<longleftrightarrow>
     (\<forall>q\<in>set (t_progress s). \<not> (g_child q = g_child g \<and> g_seq q = g_seq g))
     \<and> (\<forall>q\<in>set (t_progress s). \<not> (g_child q = g_child g \<and> g_idem q = g_idem g))
     \<and> (\<exists>c\<in>set (t_children s). ch_run c = g_child g) \<and> 0 < g_seq g
     \<and> s' = s\<lparr>t_progress := t_progress s @ [g]\<rparr>"
  by (auto simp: insert_progress_def result_simps list_all_iff list_ex_iff)

lemma insert_outbox_eq [result_simps]:
  "insert_outbox b s = Inr (u, s') \<longleftrightarrow>
     (\<forall>q\<in>set (t_outbox s). o_id q \<noteq> o_id b) \<and> (\<forall>q\<in>set (t_outbox s). o_parent q \<noteq> o_parent b)
     \<and> (\<exists>p\<in>set (t_parents s). p_run p = o_parent b) \<and> 0 \<le> o_attempts b
     \<and> s' = s\<lparr>t_outbox := t_outbox s @ [b]\<rparr>"
  by (auto simp: insert_outbox_def result_simps list_all_iff list_ex_iff)

lemma find_upd_where_id [simp]:
  "(\<And>r. P r \<Longrightarrow> r_id (f r) = r_id r) \<Longrightarrow>
   find (\<lambda>r. r_id r = i) (upd_where P f xs) = map_option (\<lambda>r. if P r then f r else r) (find (\<lambda>r. r_id r = i) xs)"
  by (rule find_upd_where) simp

section \<open>Reads\<close>

lemma select_run_eq [result_simps]: "select_run rid s = Inr (r, s') \<longleftrightarrow> run_of rid s = Some r \<and> s' = s"
  by (auto simp: select_run_def result_simps)

lemma make_run_record_fields:
  assumes "make_run_record w r = Inr v"
  shows "rr_status v = rr_status r" "rr_cancel v = rr_cancel r" "rr_rev v = rr_rev r"
    "rr_scope v = rr_scope r" "rr_id v = sc_run (rr_scope r)" "rr_id v = strip (rr_id r)"
  using assms by (clarsimp simp: make_run_record_def and_then_eq_Inr require_eq_Inr required_eq_Inr)+

lemma run_view_fields:
  assumes "run_view w r k s = Inr v"
  shows "rr_status v = r_status r" "rr_cancel v = r_cancel r" "rr_rev v = r_rev r"
    "scope_from_dict (r_scope r) = Inr (rr_scope v)" "rr_id v = sc_run (rr_scope v)"
    "rr_id v = strip (r_id r)"
proof -
  obtain scope k steps where "scope_from_dict (r_scope r) = Inr scope"
    "make_run_record w (run_record_of r k scope steps) = Inr v"
    using assms unfolding run_view_def and_then_eq_Inr by blast
  note this(1) make_run_record_fields [OF this(2)]
  then show "rr_status v = r_status r" "rr_cancel v = r_cancel r" "rr_rev v = r_rev r"
    "scope_from_dict (r_scope r) = Inr (rr_scope v)" "rr_id v = sc_run (rr_scope v)"
    "rr_id v = strip (r_id r)"
    by (auto simp: run_record_of_def)
qed

lemma read_run_eq:
  "read_run w rid s = Inr (v, s') \<longleftrightarrow> s' = s \<and> (\<exists>r. run_of rid s = Some r \<and> run_view w r None s = Inr v)"
  by (auto simp: read_run_def run_from_conn_def result_simps)

lemma read_runD:
  "read_run w rid s = Inr (v, s') \<Longrightarrow> s' = s \<and> (\<exists>r. run_of rid s = Some r \<and> run_view w r None s = Inr v
     \<and> rr_status v = r_status r \<and> rr_cancel v = r_cancel r \<and> scope_from_dict (r_scope r) = Inr (rr_scope v)
     \<and> rr_id v = strip rid)"
proof -
  assume "read_run w rid s = Inr (v, s')"
  then obtain r where "s' = s" and r: "run_of rid s = Some r" "run_view w r None s = Inr v"
    by (auto simp: read_run_eq)
  moreover have "r_id r = rid" using r(1) by (auto dest: find_SomeD)
  ultimately show ?thesis using run_view_fields [OF r(2)] by auto
qed

lemma owned_run_eq [result_simps]:
  "owned_run w scope c now s = Inr (r, s') \<longleftrightarrow>
     s' = s \<and> run_of (c_run c) s = Some r \<and> holds_lease c r now
     \<and> (\<exists>p. scope_from_dict (r_scope r) = Inr p \<and> assert_scope w scope p = Inr ()
            \<and> c_scope_key c = scope_key w p)"
  by (auto simp: owned_run_def result_simps)

lemma active_attempt_eq [result_simps]:
  "active_attempt rid sid s = Inr (a, s') \<longleftrightarrow>
     s' = s \<and> first_by (\<lambda>a. - a_number a)
       (\<lambda>a. a_run a = rid \<and> a_step a = sid \<and> a_status a = AttemptRunning) (t_attempts s) = Some a"
  by (auto simp: active_attempt_def result_simps)

lemma step_row_eq [result_simps]:
  "step_row rid sid s = Inr (x, s') \<longleftrightarrow> s' = s \<and> find (\<lambda>s. s_run s = rid \<and> s_id s = sid) (t_steps s) = Some x"
  by (auto simp: step_row_def result_simps)

lemma effect_row_eq [result_simps]:
  "effect_row eid s = Inr (e, s') \<longleftrightarrow> s' = s \<and> find (\<lambda>e. e_id e = eid) (t_effects s) = Some e"
  by (auto simp: effect_row_def result_simps)

lemma optional_strip: "optional v = Inr u \<Longrightarrow> u = map_option strip v"
  by (cases v) (auto simp: optional_def result_simps)

lemma make_effect_record_fields:
  assumes "make_effect_record e = Inr v"
  shows "e_status v = e_status e" "e_run v = strip (e_run e)" "e_id v = strip (e_id e)"
    "e_step v = strip (e_step e)" "e_attempt v = strip (e_attempt e)" "e_key v = strip (e_key e)"
    "e_tool v = strip (e_tool e)" "e_tool_version v = strip (e_tool_version e)"
    "e_schema v = strip (e_schema e)" "e_args v = strip (e_args e)"
    "e_digest v = map_option strip (e_digest e)" "e_dispatch v = e_dispatch e"
  using assms by (auto simp: make_effect_record_def and_then_eq_Inr required_eq_Inr dest!: optional_strip)

lemma read_effectD:
  "read_effect eid s = Inr (v, s') \<Longrightarrow> s' = s \<and> (\<exists>e. find (\<lambda>e. e_id e = eid) (t_effects s) = Some e
     \<and> make_effect_record e = Inr v \<and> e_status v = e_status e)"
  by (auto simp: read_effect_def result_simps dest: make_effect_record_fields)

lemma select_child_eq [result_simps]:
  "select_child rid s = Inr (c, s') \<longleftrightarrow> s' = s \<and> find (\<lambda>c. ch_run c = rid) (t_children s) = Some c"
  by (auto simp: select_child_def result_simps)

lemma select_parent_eq [result_simps]:
  "select_parent rid s = Inr (p, s') \<longleftrightarrow>
     s' = s \<and> (\<exists>r. run_of rid s = Some r) \<and> find (\<lambda>p. p_run p = rid) (t_parents s) = Some p"
  by (auto simp: select_parent_def result_simps)

lemma parent_view_fields:
  assumes "parent_view w p s = Inr v"
  shows "\<exists>r. run_of (p_run p) s = Some r \<and> run_view w r None s = Inr (pr_run v)"
    and "policy_from_dict (p_policy p) = Inr (pr_policy v)" and "pr_status v = p_status p"
    and "map_result (\<lambda>c. child_view w c s) (child_rows (p_run p) s) = Inr (pr_children v)"
    and "sc_parent (rr_scope (pr_run v)) = None"
  using assms by (auto simp: parent_view_def result_simps)

lemma read_parentD:
  "read_parent w rid s = Inr (v, s') \<Longrightarrow> s' = s \<and> (\<exists>p r. find (\<lambda>p. p_run p = rid) (t_parents s) = Some p
     \<and> p_run p = rid \<and> parent_view w p s = Inr v \<and> pr_status v = p_status p
     \<and> policy_from_dict (p_policy p) = Inr (pr_policy v)
     \<and> run_of rid s = Some r \<and> run_view w r None s = Inr (pr_run v)
     \<and> rr_status (pr_run v) = r_status r \<and> rr_cancel (pr_run v) = r_cancel r
     \<and> rr_id (pr_run v) = strip rid)"
proof -
  assume a: "read_parent w rid s = Inr (v, s')"
  then obtain p where s: "s' = s" and p: "find (\<lambda>p. p_run p = rid) (t_parents s) = Some p"
    and v: "parent_view w p s = Inr v"
    by (auto simp: read_parent_def result_simps)
  have id: "p_run p = rid" using p by (auto dest: find_SomeD)
  obtain r where r: "run_of (p_run p) s = Some r" "run_view w r None s = Inr (pr_run v)"
    using parent_view_fields(1) [OF v] by blast
  have "r_id r = rid" using r(1) id by (auto dest: find_SomeD)
  then show ?thesis
    using s p v id r parent_view_fields [OF v] run_view_fields [OF r(2)] by auto
qed

lemma child_view_fields:
  assumes "child_view w c s = Inr v"
  shows "\<exists>r. run_of (ch_run c) s = Some r \<and> run_view w r (Some (ch_idem c)) s = Inr (cr_run v)"
    and "sc_parent (rr_scope (cr_run v)) = Some (cr_parent v)" and "cr_parent v = strip (ch_parent c)"
    and "cr_ordinal v = ch_ordinal c"
  using assms by (auto simp: child_view_def store_required_def not_empty_def result_simps split: if_splits)

lemma next_checkpoint_sequence_eq [result_simps]:
  "next_checkpoint_sequence rid s = Inr (n, s') \<longleftrightarrow>
     s' = s \<and> n = next_seq (map k_seq (filter (\<lambda>k. k_run k = rid) (t_checkpoints s)))"
  by (auto simp: next_checkpoint_sequence_def result_simps)

lemma reject_direct_parent_transition_eq [result_simps]:
  "reject_direct_parent_transition rid s = Inr (u, s') \<longleftrightarrow>
     s' = s \<and> (\<forall>p\<in>set (t_parents s). p_run p \<noteq> rid)"
  by (auto simp: reject_direct_parent_transition_def result_simps list_ex_iff)

section \<open>Helpers that change runs, and helpers that only log\<close>

lemma set_run_state_eq [result_simps]:
  "set_run_state w rid st now n s = Inr (u, s') \<longleftrightarrow>
     rowcount (\<lambda>r. r_id r = rid) (t_runs s) = 1
     \<and> s' = s\<lparr>t_runs := upd_where (\<lambda>r. r_id r = rid) (changed_run w st now n) (t_runs s)\<rparr>"
  by (auto simp: set_run_state_def result_simps)

lemma touch_run_eq [result_simps]:
  "touch_run rid now s = Inr (u, s') \<longleftrightarrow>
     rowcount (\<lambda>r. r_id r = rid) (t_runs s) = 1
     \<and> s' = s\<lparr>t_runs := upd_where (\<lambda>r. r_id r = rid) (\<lambda>r. r\<lparr>r_rev := r_rev r + 1, r_updated := now\<rparr>) (t_runs s)\<rparr>"
  by (auto simp: touch_run_def result_simps)

lemma set_cancel_requested_eq [result_simps]:
  "set_cancel_requested rid s = Inr (u, s') \<longleftrightarrow>
     s' = s\<lparr>t_runs := upd_where (\<lambda>r. r_id r = rid) (\<lambda>r. r\<lparr>r_cancel := True\<rparr>) (t_runs s)\<rparr>"
  by (auto simp: set_cancel_requested_def result_simps)

lemma mark_active_attempt_eq [result_simps]:
  "mark_active_attempt rid sid st now err s = Inr (u, s') \<longleftrightarrow>
     rowcount (\<lambda>a. a_run a = rid \<and> a_step a = sid \<and> a_status a = AttemptRunning) (t_attempts s) = 1
     \<and> s' = s\<lparr>t_attempts := upd_where (\<lambda>a. a_run a = rid \<and> a_step a = sid \<and> a_status a = AttemptRunning)
                (\<lambda>a. a\<lparr>a_status := st, a_error := err, a_completed := Some now\<rparr>) (t_attempts s)\<rparr>"
  by (auto simp: mark_active_attempt_def result_simps)

lemma changed_run_fields [simp]:
  "r_id (changed_run w st now n r) = r_id r" "r_status (changed_run w st now n r) = st"
  "r_cancel (changed_run w st now n r) = r_cancel r" "r_rev (changed_run w st now n r) = r_rev r + 1"
  "r_scope (changed_run w st now n r) = r_scope r" "r_tenant (changed_run w st now n r) = r_tenant r"
  "r_workspace (changed_run w st now n r) = r_workspace r" "r_idem (changed_run w st now n r) = r_idem r"
  "r_agent (changed_run w st now n r) = r_agent r" "r_version (changed_run w st now n r) = r_version r"
  "r_scope_key (changed_run w st now n r) = r_scope_key r" "r_input (changed_run w st now n r) = r_input r"
  "r_def (changed_run w st now n r) = r_def r" "r_budget (changed_run w st now n r) = r_budget r"
  "r_created (changed_run w st now n r) = r_created r" "r_meta (changed_run w st now n r) = r_meta r"
  "r_token (changed_run w st now n r) = (if n_clear_lease n then None else r_token r)"
  "r_worker (changed_run w st now n r) = (if n_clear_lease n then None else r_worker r)"
  "r_lease (changed_run w st now n r) = (if n_clear_lease n then None else r_lease r)"
  by (simp_all add: changed_run_def)

lemma cancel_requested_row_fields [simp]:
  "r_id (cancel_requested_row b rs now r) = r_id r"
  "r_cancel (cancel_requested_row b rs now r) = True"
  "r_status (cancel_requested_row b rs now r) = (if b then RunCancelled else r_status r)"
  by (simp_all add: cancel_requested_row_def)

lemma claimed_row_fields [simp]:
  "r_id (claimed_row t wk l n now r) = r_id r" "r_status (claimed_row t wk l n now r) = RunRunning"
  "r_cancel (claimed_row t wk l n now r) = r_cancel r"
  by (simp_all add: claimed_row_def)

text \<open>Two databases that differ in the event log and the identifiers drawn only.\<close>

definition quiet :: "db \<Rightarrow> db \<Rightarrow> bool" where
  "quiet s s' \<longleftrightarrow>
     t_runs s' = t_runs s \<and> t_steps s' = t_steps s \<and> t_attempts s' = t_attempts s
     \<and> t_checkpoints s' = t_checkpoints s \<and> t_effects s' = t_effects s \<and> t_results s' = t_results s
     \<and> t_parents s' = t_parents s \<and> t_children s' = t_children s \<and> t_progress s' = t_progress s
     \<and> t_outbox s' = t_outbox s"

lemma quiet_tables:
  assumes "quiet s s'"
  shows "t_runs s' = t_runs s" "t_steps s' = t_steps s" "t_attempts s' = t_attempts s"
    "t_checkpoints s' = t_checkpoints s" "t_effects s' = t_effects s" "t_results s' = t_results s"
    "t_parents s' = t_parents s" "t_children s' = t_children s" "t_progress s' = t_progress s"
    "t_outbox s' = t_outbox s"
  using assms by (simp_all add: quiet_def)

lemma quiet_refl: "quiet s s"
  by (simp add: quiet_def)

lemma insert_event_quiet: "insert_event w rid n a p now g s = Inr (v, s') \<Longrightarrow> quiet s s'"
  by (auto simp: insert_event_def result_simps quiet_def split: option.splits)

lemma log_event_quiet: "log_event w rid n a st p now s = Inr (v, s') \<Longrightarrow> quiet s s'"
  by (auto simp: log_event_def result_simps dest: insert_event_quiet)

lemma log_keyed_quiet: "log_keyed w rid n a k p now s = Inr (v, s') \<Longrightarrow> quiet s s'"
  by (auto simp: log_keyed_def result_simps dest: insert_event_quiet)

section \<open>Symbolic execution\<close>

lemma post_upd [post_intros]:
  "Q (rowcount P (t_runs s)) (s\<lparr>t_runs := upd_where P f (t_runs s)\<rparr>) \<Longrightarrow> post (upd_runs P f) Q s"
  "Q (rowcount P' (t_steps s)) (s\<lparr>t_steps := upd_where P' f' (t_steps s)\<rparr>) \<Longrightarrow> post (upd_steps P' f') Q s"
  "Q (rowcount P2 (t_attempts s)) (s\<lparr>t_attempts := upd_where P2 f2 (t_attempts s)\<rparr>) \<Longrightarrow>
     post (upd_attempts P2 f2) Q s"
  "Q (rowcount P3 (t_effects s)) (s\<lparr>t_effects := upd_where P3 f3 (t_effects s)\<rparr>) \<Longrightarrow>
     post (upd_effects P3 f3) Q s"
  "Q (rowcount P4 (t_parents s)) (s\<lparr>t_parents := upd_where P4 f4 (t_parents s)\<rparr>) \<Longrightarrow>
     post (upd_parents P4 f4) Q s"
  "Q (rowcount P5 (t_children s)) (s\<lparr>t_children := upd_where P5 f5 (t_children s)\<rparr>) \<Longrightarrow>
     post (upd_children P5 f5) Q s"
  "Q (rowcount P6 (t_outbox s)) (s\<lparr>t_outbox := upd_where P6 f6 (t_outbox s)\<rparr>) \<Longrightarrow>
     post (upd_outbox P6 f6) Q s"
  by (auto simp: post_def result_simps)

lemma post_insert_run [post_intros]:
  "(\<forall>q\<in>set (t_runs s). r_id q \<noteq> r_id r \<Longrightarrow> Q () (s\<lparr>t_runs := t_runs s @ [r]\<rparr>)) \<Longrightarrow> post (insert_run r) Q s"
  by (auto simp: post_def result_simps)

lemma post_insert_step [post_intros]:
  "Q () (s\<lparr>t_steps := t_steps s @ [x]\<rparr>) \<Longrightarrow> post (insert_step x) Q s"
  by (auto simp: post_def result_simps)

lemma post_insert_attempt [post_intros]:
  "(\<forall>q\<in>set (t_attempts s). a_id q \<noteq> a_id a \<Longrightarrow> Q () (s\<lparr>t_attempts := t_attempts s @ [a]\<rparr>)) \<Longrightarrow>
   post (insert_attempt a) Q s"
  by (auto simp: post_def result_simps)

lemma post_insert_checkpoint [post_intros]:
  "Q () (s\<lparr>t_checkpoints := t_checkpoints s @ [k]\<rparr>) \<Longrightarrow> post (insert_checkpoint k) Q s"
  by (auto simp: post_def result_simps)

lemma post_insert_effect [post_intros]:
  "(\<forall>q\<in>set (t_effects s). e_id q \<noteq> e_id e \<Longrightarrow>
    \<forall>q\<in>set (t_effects s). \<not> (e_run q = e_run e \<and> e_key q = e_key e) \<Longrightarrow>
    Q () (s\<lparr>t_effects := t_effects s @ [e]\<rparr>)) \<Longrightarrow> post (insert_effect e) Q s"
  by (auto simp: post_def result_simps)

lemma post_insert_result [post_intros]:
  "(\<exists>q\<in>set (t_results s). x_effect q = x_effect x \<Longrightarrow> Q () s) \<Longrightarrow>
   (\<forall>q\<in>set (t_results s). x_effect q \<noteq> x_effect x \<Longrightarrow> Q () (s\<lparr>t_results := t_results s @ [x]\<rparr>)) \<Longrightarrow>
   post (insert_result x) Q s"
  by (auto simp: post_def result_simps split: if_splits)

lemma post_insert_parent [post_intros]:
  "(\<forall>q\<in>set (t_parents s). p_run q \<noteq> p_run p \<Longrightarrow> Q () (s\<lparr>t_parents := t_parents s @ [p]\<rparr>)) \<Longrightarrow>
   post (insert_parent p) Q s"
  by (auto simp: post_def result_simps)

lemma post_insert_child [post_intros]:
  "(\<forall>q\<in>set (t_children s). ch_run q \<noteq> ch_run c \<Longrightarrow> Q () (s\<lparr>t_children := t_children s @ [c]\<rparr>)) \<Longrightarrow>
   post (insert_child c) Q s"
  by (auto simp: post_def result_simps)

lemma post_insert_progress [post_intros]:
  "Q () (s\<lparr>t_progress := t_progress s @ [g]\<rparr>) \<Longrightarrow> post (insert_progress g) Q s"
  by (auto simp: post_def result_simps)

lemma post_insert_outbox [post_intros]:
  "(\<forall>q\<in>set (t_outbox s). o_id q \<noteq> o_id b \<and> o_parent q \<noteq> o_parent b \<Longrightarrow>
    Q () (s\<lparr>t_outbox := t_outbox s @ [b]\<rparr>)) \<Longrightarrow> post (insert_outbox b) Q s"
  by (auto simp: post_def result_simps)

lemma post_conflict_on_integrity [post_intros]: "post m Q s \<Longrightarrow> post (conflict_on_integrity m) Q s"
  by (auto simp: post_def result_simps)

lemma post_new_uuid [post_intros]:
  "Q (uuid4 w (draws s)) (s\<lparr>draws := Suc (draws s)\<rparr>) \<Longrightarrow> post (new_uuid w) Q s"
  by (auto simp: post_def result_simps)

lemma post_log_event [post_intros]:
  "(\<And>s'. quiet s s' \<Longrightarrow> Q () s') \<Longrightarrow> post (log_event w rid n a st p now) Q s"
  "(\<And>s'. quiet s s' \<Longrightarrow> Q () s') \<Longrightarrow> post (log_keyed w rid n a k p now) Q s"
  by (auto simp: post_def dest!: log_event_quiet log_keyed_quiet)

lemma post_insert_event: "(\<And>v s'. quiet s s' \<Longrightarrow> Q v s') \<Longrightarrow> post (insert_event w rid n a p now g) Q s"
  by (auto simp: post_def dest!: insert_event_quiet)

lemma post_select_run [post_intros]: "(\<And>r. run_of rid s = Some r \<Longrightarrow> Q r s) \<Longrightarrow> post (select_run rid) Q s"
  by (auto simp: post_def result_simps)

lemma post_step_row [post_intros]:
  "(\<And>x. find (\<lambda>s. s_run s = rid \<and> s_id s = sid) (t_steps s) = Some x \<Longrightarrow> Q x s) \<Longrightarrow> post (step_row rid sid) Q s"
  by (auto simp: post_def result_simps)

lemma post_effect_row [post_intros]:
  "(\<And>e. find (\<lambda>e. e_id e = eid) (t_effects s) = Some e \<Longrightarrow> Q e s) \<Longrightarrow> post (effect_row eid) Q s"
  by (auto simp: post_def result_simps)

lemma post_read_effect [post_intros]:
  "(\<And>e v. find (\<lambda>e. e_id e = eid) (t_effects s) = Some e \<Longrightarrow> make_effect_record e = Inr v \<Longrightarrow> Q v s) \<Longrightarrow>
   post (read_effect eid) Q s"
  by (auto simp: post_def dest!: read_effectD)

lemma post_run_from_conn [post_intros]:
  "(\<And>v. run_view w r k s = Inr v \<Longrightarrow> Q v s) \<Longrightarrow> post (run_from_conn w r k) Q s"
  by (auto simp: post_def run_from_conn_def result_simps)

lemma post_read_run [post_intros]:
  "(\<And>r v. run_of rid s = Some r \<Longrightarrow> run_view w r None s = Inr v \<Longrightarrow> rr_status v = r_status r \<Longrightarrow>
     rr_cancel v = r_cancel r \<Longrightarrow> scope_from_dict (r_scope r) = Inr (rr_scope v) \<Longrightarrow>
     rr_id v = strip rid \<Longrightarrow> Q v s) \<Longrightarrow>
   post (read_run w rid) Q s"
  by (auto simp: post_def dest!: read_runD)

lemma post_owned_run [post_intros]:
  "(\<And>r p. run_of (c_run c) s = Some r \<Longrightarrow> holds_lease c r now \<Longrightarrow> scope_from_dict (r_scope r) = Inr p \<Longrightarrow>
     assert_scope w scope p = Inr () \<Longrightarrow> c_scope_key c = scope_key w p \<Longrightarrow> Q r s) \<Longrightarrow>
   post (owned_run w scope c now) Q s"
  by (auto simp: post_def result_simps)

lemma post_active_attempt [post_intros]:
  "(\<And>a. a \<in> set (t_attempts s) \<Longrightarrow> a_run a = rid \<Longrightarrow> a_step a = sid \<Longrightarrow> a_status a = AttemptRunning \<Longrightarrow> Q a s) \<Longrightarrow>
   post (active_attempt rid sid) Q s"
  by (auto simp: post_def result_simps dest!: first_by_SomeD)

lemma post_select_child [post_intros]:
  "(\<And>c. find (\<lambda>c. ch_run c = rid) (t_children s) = Some c \<Longrightarrow> Q c s) \<Longrightarrow> post (select_child rid) Q s"
  by (auto simp: post_def result_simps)

lemma post_select_parent [post_intros]:
  "(\<And>p r. run_of rid s = Some r \<Longrightarrow> find (\<lambda>p. p_run p = rid) (t_parents s) = Some p \<Longrightarrow> Q p s) \<Longrightarrow>
   post (select_parent rid) Q s"
  by (auto simp: post_def result_simps)

lemma post_read_parent [post_intros]:
  "(\<And>p r v. find (\<lambda>p. p_run p = rid) (t_parents s) = Some p \<Longrightarrow> p_run p = rid \<Longrightarrow>
     parent_view w p s = Inr v \<Longrightarrow> pr_status v = p_status p \<Longrightarrow>
     policy_from_dict (p_policy p) = Inr (pr_policy v) \<Longrightarrow> run_of rid s = Some r \<Longrightarrow>
     rr_status (pr_run v) = r_status r \<Longrightarrow> rr_cancel (pr_run v) = r_cancel r \<Longrightarrow>
     rr_id (pr_run v) = strip rid \<Longrightarrow> Q v s) \<Longrightarrow>
   post (read_parent w rid) Q s"
  by (auto simp: post_def dest!: read_parentD)

lemma post_read_child [post_intros]:
  "(\<And>c v. find (\<lambda>c. ch_run c = rid) (t_children s) = Some c \<Longrightarrow> child_view w c s = Inr v \<Longrightarrow> Q v s) \<Longrightarrow>
   post (read_child w rid) Q s"
  by (auto simp: post_def read_child_def result_simps)

lemma post_set_run_state [post_intros]:
  "(rowcount (\<lambda>r. r_id r = rid) (t_runs s) = 1 \<Longrightarrow>
    Q () (s\<lparr>t_runs := upd_where (\<lambda>r. r_id r = rid) (changed_run w st now n) (t_runs s)\<rparr>)) \<Longrightarrow>
   post (set_run_state w rid st now n) Q s"
  by (auto simp: post_def result_simps)

lemma post_touch_run [post_intros]:
  "Q () (s\<lparr>t_runs := upd_where (\<lambda>r. r_id r = rid) (\<lambda>r. r\<lparr>r_rev := r_rev r + 1, r_updated := now\<rparr>) (t_runs s)\<rparr>) \<Longrightarrow>
   post (touch_run rid now) Q s"
  by (auto simp: post_def result_simps)

lemma post_set_cancel_requested [post_intros]:
  "Q () (s\<lparr>t_runs := upd_where (\<lambda>r. r_id r = rid) (\<lambda>r. r\<lparr>r_cancel := True\<rparr>) (t_runs s)\<rparr>) \<Longrightarrow>
   post (set_cancel_requested rid) Q s"
  by (auto simp: post_def result_simps)

lemma post_mark_active_attempt [post_intros]:
  "(rowcount (\<lambda>a. a_run a = rid \<and> a_step a = sid \<and> a_status a = AttemptRunning) (t_attempts s) = 1 \<Longrightarrow>
    Q () (s\<lparr>t_attempts := upd_where (\<lambda>a. a_run a = rid \<and> a_step a = sid \<and> a_status a = AttemptRunning)
            (\<lambda>a. a\<lparr>a_status := st, a_error := err, a_completed := Some now\<rparr>) (t_attempts s)\<rparr>)) \<Longrightarrow>
   post (mark_active_attempt rid sid st now err) Q s"
  by (auto simp: post_def result_simps)

lemma post_next_checkpoint_sequence [post_intros]:
  "Q (next_seq (map k_seq (filter (\<lambda>k. k_run k = rid) (t_checkpoints s)))) s \<Longrightarrow>
   post (next_checkpoint_sequence rid) Q s"
  by (auto simp: post_def result_simps)

lemma post_reject_direct_parent_transition [post_intros]:
  "(\<forall>p\<in>set (t_parents s). p_run p \<noteq> rid \<Longrightarrow> Q () s) \<Longrightarrow> post (reject_direct_parent_transition rid) Q s"
  by (auto simp: post_def result_simps)

end
