(* ===== verification/RunMoves.thy ===== *)
theory RunMoves
  imports StoreFacts
begin

text \<open>
  What each operation does to the rows of \<^verbatim>\<open>durable_runs\<close>.  \<open>moves_runs\<close> describes a change of
  status that releases the lease, \<open>touches_runs\<close> a change that keeps status and lease holder.
\<close>

section \<open>Row transformations\<close>

definition same_identity :: "run_row \<Rightarrow> run_row \<Rightarrow> bool" where
  "same_identity r q \<longleftrightarrow>
     r_id q = r_id r \<and> r_tenant q = r_tenant r \<and> r_workspace q = r_workspace r \<and> r_agent q = r_agent r
     \<and> r_version q = r_version r \<and> r_scope_key q = r_scope_key r \<and> r_scope q = r_scope r
     \<and> r_idem q = r_idem r \<and> r_input q = r_input r \<and> r_def q = r_def r \<and> r_budget q = r_budget r
     \<and> r_created q = r_created r"

definition settles :: "run_status \<Rightarrow> run_row \<Rightarrow> run_row \<Rightarrow> bool" where
  "settles st r q \<longleftrightarrow>
     same_identity r q \<and> r_status q = st \<and> (r_cancel r \<longrightarrow> r_cancel q) \<and> r_rev r < r_rev q
     \<and> r_token q = None \<and> r_worker q = None \<and> r_lease q = None"

definition touches :: "run_row \<Rightarrow> run_row \<Rightarrow> bool" where
  "touches r q \<longleftrightarrow>
     same_identity r q \<and> r_status q = r_status r \<and> (r_cancel r \<longrightarrow> r_cancel q) \<and> r_rev r \<le> r_rev q
     \<and> r_token q = r_token r \<and> r_worker q = r_worker r \<and> (r_lease q = None \<longleftrightarrow> r_lease r = None)"

definition moves_runs :: "string \<Rightarrow> run_status \<Rightarrow> run_row list \<Rightarrow> run_row list \<Rightarrow> bool" where
  "moves_runs rid st xs ys \<longleftrightarrow> list_all2 (\<lambda>r q. if r_id r = rid then settles st r q else q = r) xs ys"

definition touches_runs :: "string \<Rightarrow> run_row list \<Rightarrow> run_row list \<Rightarrow> bool" where
  "touches_runs rid xs ys \<longleftrightarrow> list_all2 (\<lambda>r q. if r_id r = rid then touches r q else q = r) xs ys"

lemma list_all2_upd_where:
  "(\<And>r. r \<in> set xs \<Longrightarrow> Q r (if P r then f r else r)) \<Longrightarrow> list_all2 Q xs (upd_where P f xs)"
  by (simp add: upd_where_def list_all2_map2 list_all2_same)

lemma moves_runs_changed [simp]:
  "n_clear_lease n \<Longrightarrow>
   moves_runs rid st xs (upd_where (\<lambda>r. r_id r = rid) (changed_run w st now n) xs)"
  unfolding moves_runs_def by (rule list_all2_upd_where) (simp add: settles_def same_identity_def)

lemma moves_runs_upd:
  "(\<And>r. settles st r (f r)) \<Longrightarrow> moves_runs rid st xs (upd_where (\<lambda>r. r_id r = rid) f xs)"
  unfolding moves_runs_def by (rule list_all2_upd_where) auto

lemma upd_where_twice:
  "(\<And>r. r_id (f r) = r_id r) \<Longrightarrow>
   upd_where (\<lambda>r. r_id r = i) g (upd_where (\<lambda>r. r_id r = i) f xs) = upd_where (\<lambda>r. r_id r = i) (g \<circ> f) xs"
  by (simp add: upd_where_def)

lemma moves_runs_cancelled [simp]:
  "n_clear_lease n \<Longrightarrow>
   moves_runs rid st xs (upd_where (\<lambda>r. r_id r = rid) (\<lambda>r. r\<lparr>r_cancel := True\<rparr>)
     (upd_where (\<lambda>r. r_id r = rid) (changed_run w st now n) xs))"
  by (subst upd_where_twice, simp) (rule moves_runs_upd, simp add: settles_def same_identity_def)

lemma touches_runs_upd [simp]:
  "(\<And>r. touches r (f r)) \<Longrightarrow> touches_runs rid xs (upd_where (\<lambda>r. r_id r = rid) f xs)"
  unfolding touches_runs_def by (rule list_all2_upd_where) auto

lemma touches_refl [simp]: "touches r r"
  by (simp add: touches_def same_identity_def)

lemma touches_runs_refl [simp]: "touches_runs rid xs xs"
  by (simp add: touches_runs_def list_all2_same)

lemma touches_fields [simp]:
  "touches r (r\<lparr>r_rev := r_rev r + 1, r_updated := now\<rparr>)"
  "touches r (r\<lparr>r_meta := m, r_rev := r_rev r + 1, r_updated := now\<rparr>)"
  "touches r (r\<lparr>r_cancel := True, r_rev := r_rev r + 1, r_updated := now\<rparr>)"
  "touches r (cancel_requested_row False rs now r)"
  by (simp_all add: touches_def same_identity_def cancel_requested_row_def)

lemma settles_cancel_requested [simp]: "settles RunCancelled r (cancel_requested_row True rs now r)"
  by (simp add: settles_def same_identity_def cancel_requested_row_def)

section \<open>Worker operations\<close>

text \<open>The claim names a run that is running under the claim's lease.\<close>

definition leased :: "run_claim \<Rightarrow> int \<Rightarrow> db \<Rightarrow> bool" where
  "leased c now s \<longleftrightarrow> (\<exists>r. run_of (c_run c) s = Some r \<and> holds_lease c r now)"

lemma leased_running: "leased c now s \<Longrightarrow> \<exists>r. run_of (c_run c) s = Some r \<and> r_status r = RunRunning"
  by (auto simp: leased_def holds_lease_def)

text \<open>The postconditions below speak of the runs before and after; \<open>touched\<close> and \<open>moved\<close>
  abbreviate the two shapes for a worker's run.\<close>

abbreviation touched :: "run_claim \<Rightarrow> int \<Rightarrow> db \<Rightarrow> db \<Rightarrow> bool" where
  "touched c now s s' \<equiv> leased c now s \<and> touches_runs (c_run c) (t_runs s) (t_runs s')"

abbreviation moved :: "run_claim \<Rightarrow> int \<Rightarrow> run_status \<Rightarrow> db \<Rightarrow> db \<Rightarrow> bool" where
  "moved c now st s s' \<equiv> leased c now s \<and> moves_runs (c_run c) st (t_runs s) (t_runs s')"

lemma quiet_runs: "quiet s s' \<Longrightarrow> t_runs s' = t_runs s"
  by (simp add: quiet_def)

lemma renewed_touches:
  "touches_runs (c_run c) xs
     (upd_where (\<lambda>r. r_id r = c_run c \<and> r_token r = Some tok
                     \<and> (case r_lease r of None \<Rightarrow> False | Some t \<Rightarrow> now \<le> t))
        (\<lambda>r. r\<lparr>r_lease := Some l, r_updated := now\<rparr>) xs)"
  unfolding touches_runs_def
  by (rule list_all2_upd_where) (auto simp: touches_def same_identity_def split: option.splits)

lemma renew_runs: "post (renew w now scope c n) (\<lambda>_ s'. touched c now s s') s"
  unfolding renew_def by (intro post_intros) (auto simp: leased_def renewed_touches)

lemma start_step_runs: "post (start_step w now scope c sid) (\<lambda>_ s'. touched c now s s') s"
  unfolding start_step_def start_new_attempt_def
  by (intro post_intros) (auto simp: leased_def dest!: quiet_runs)

lemma yield_step_runs: "post (yield_step w now scope c sid p) (\<lambda>_ s'. moved c now RunQueued s s') s"
  unfolding yield_step_def by (intro post_intros) (auto simp: leased_def dest!: quiet_runs)

lemma add_checkpoint_runs: "post (add_checkpoint w now scope c sid k p) (\<lambda>_ s'. touched c now s s') s"
  unfolding add_checkpoint_def by (intro post_intros) (auto simp: leased_def dest!: quiet_runs)

lemma complete_step_runs: "post (complete_step w now scope c sid p) (\<lambda>_ s'. touched c now s s') s"
  unfolding complete_step_def by (intro post_intros) (auto simp: leased_def dest!: quiet_runs)

lemma settle_run_cancellation_runs:
  "(\<And>x s'. moves_runs rid RunCancelled (t_runs s) (t_runs s') \<Longrightarrow> Q x s') \<Longrightarrow>
   post (settle_run_cancellation w rid a rs now) Q s"
  unfolding settle_run_cancellation_def by (intro post_intros) (auto dest!: quiet_runs)

lemma fail_step_runs:
  "post (fail_step w now scope c sid rs b)
     (\<lambda>_ s'. leased c now s
        \<and> (\<exists>st\<in>{RunWaitingForRetry, RunFailed, RunCancelled}. moves_runs (c_run c) st (t_runs s) (t_runs s'))) s"
  unfolding fail_step_def schedule_retry_def settle_failure_def
  by (intro post_intros settle_run_cancellation_runs) (auto simp: leased_def dest!: quiet_runs)

lemma pause_for_approval_runs:
  "post (pause_for_approval w now scope c sid i p) (\<lambda>_ s'. moved c now RunWaitingForApproval s s') s"
  unfolding pause_for_approval_def by (intro post_intros) (auto simp: leased_def dest!: quiet_runs)

lemma complete_run_runs:
  "post (complete_run w now scope c p)
     (\<lambda>_ s'. moved c now RunCompleted s s' \<and> (\<exists>r. run_of (c_run c) s = Some r \<and> \<not> r_cancel r)) s"
  unfolding complete_run_def by (intro post_intros) (auto simp: leased_def dest!: quiet_runs)

lemma fail_run_runs: "post (fail_run w now scope c rs) (\<lambda>_ s'. moved c now RunFailed s s') s"
  unfolding fail_run_def terminal_run_transition_def
  by (intro post_intros) (auto simp: leased_def dest!: quiet_runs)

lemma mark_unknown_runs: "post (mark_unknown w now scope c rs) (\<lambda>_ s'. moved c now RunUnknown s s') s"
  unfolding mark_unknown_def by (intro post_intros) (auto simp: leased_def dest!: quiet_runs)

section \<open>Effects and progress\<close>

lemma begin_effect_runs: "post (begin_effect w now scope c sid k t v sc a) (\<lambda>_ s'. touched c now s s') s"
  unfolding begin_effect_def reuse_effect_def new_effect_def
  by (intro post_intros) (auto simp: leased_def dest!: quiet_runs)

lemma transition_effect_runs:
  "post (transition_effect w now scope c e xs st n d rs) (\<lambda>_ s'. touched c now s s') s"
  unfolding transition_effect_def by (intro post_intros) (auto simp: leased_def dest!: quiet_runs)

lemma mark_effect_started_runs: "post (mark_effect_started w now scope c e) (\<lambda>_ s'. touched c now s s') s"
  unfolding mark_effect_started_def by (rule transition_effect_runs)

lemma complete_effect_runs: "post (complete_effect w now scope c e d) (\<lambda>_ s'. touched c now s s') s"
  unfolding complete_effect_def by (intro post_intros transition_effect_runs)

lemma fail_effect_runs: "post (fail_effect w now scope c e rs) (\<lambda>_ s'. touched c now s s') s"
  unfolding fail_effect_def by (intro post_intros transition_effect_runs)

lemma mark_effect_unknown_runs:
  "post (mark_effect_unknown w now scope c e rs) (\<lambda>_ s'. moved c now RunUnknown s s') s"
  unfolding mark_effect_unknown_def by (intro post_intros) (auto simp: leased_def dest!: quiet_runs)

lemma record_effect_result_runs:
  "post (record_effect_result w now scope c e p) (\<lambda>_ s'. t_runs s' = t_runs s) s"
  unfolding record_effect_result_def by (intro post_intros) auto

lemma record_child_progress_runs:
  "post (record_child_progress w now scope c n p k) (\<lambda>_ s'. leased c now s \<and> t_runs s' = t_runs s) s"
  unfolding record_child_progress_def by (intro post_intros) (auto simp: leased_def dest!: quiet_runs)

lemma reconciled_run_status:
  "reconciled_statuses d b = (est, sst, rst) \<Longrightarrow>
   rst \<in> {RunQueued, RunFailed, RunCancelled} \<and> (rst = RunQueued \<longrightarrow> \<not> b)"
  by (cases d) (auto simp: reconciled_statuses_def split: if_splits)

lemma settle_effect_runs:
  "(\<And>x s'. moves_runs (e_run e) rst (t_runs s) (t_runs s') \<Longrightarrow> Q x s') \<Longrightarrow>
   post (settle_effect w now eid e d a rs dg est sst rst) Q s"
  unfolding settle_effect_def by (intro post_intros) (auto dest!: quiet_runs)

lemma effect_record_run_status:
  "make_effect_record e = Inr v \<Longrightarrow> e_status v = e_status e \<and> e_run v = strip (e_run e)"
  by (simp add: make_effect_record_fields)

lemma reconcile_effect_runs:
  "post (reconcile_effect w now scope eid d a rs dg)
     (\<lambda>_ s'. \<exists>e r st. find (\<lambda>e. e_id e = eid) (t_effects s) = Some e \<and> e_status e = EffectUnknown
       \<and> run_of (e_run e) s = Some r \<and> st \<in> {RunQueued, RunFailed, RunCancelled}
       \<and> (st = RunQueued \<longrightarrow> \<not> r_cancel r) \<and> moves_runs (strip (e_run e)) st (t_runs s) (t_runs s')) s"
  unfolding reconcile_effect_def
  by (intro post_intros settle_effect_runs, drule effect_record_run_status, simp, elim conjE,
      drule reconciled_run_status, blast)

section \<open>Host operations\<close>

lemma record_event_runs: "post (record_event w now scope rid n a p g) (\<lambda>_ s'. t_runs s' = t_runs s) s"
  unfolding record_event_def by (intro post_intros post_insert_event) (auto dest!: quiet_runs)

lemma resume_runs:
  "post (resume w now scope rid a rs)
     (\<lambda>_ s'. (\<exists>r. run_of rid s = Some r \<and> r_status r \<in> {RunWaitingForApproval, RunWaitingForRetry} \<and> \<not> r_cancel r)
       \<and> moves_runs rid RunQueued (t_runs s) (t_runs s')) s"
  unfolding resume_def by (intro post_intros) (auto dest!: quiet_runs)

text \<open>A direct cancellation or dead-lettering never concerns a configured parent.\<close>

definition no_parent :: "string \<Rightarrow> db \<Rightarrow> bool" where
  "no_parent rid s \<longleftrightarrow> (\<forall>p\<in>set (t_parents s). p_run p \<noteq> rid)"

lemma cancel_requested_moves:
  "moves_runs rid RunCancelled xs (upd_where (\<lambda>r. r_id r = rid) (cancel_requested_row True rs now) xs)"
  by (rule moves_runs_upd) simp

lemma request_cancellation_runs:
  "post (request_cancellation w now scope rid a rs)
     (\<lambda>_ s'. no_parent rid s \<and> (\<exists>r. run_of rid s = Some r \<and> r_status r \<noteq> RunCompleted
       \<and> (t_runs s' = t_runs s
          \<or> claimable_or_waiting (r_status r) \<and> moves_runs rid RunCancelled (t_runs s) (t_runs s')
          \<or> touches_runs rid (t_runs s) (t_runs s')))) s"
  unfolding request_cancellation_def no_parent_def
  by (intro post_intros) (auto simp: cancel_requested_moves dest!: quiet_runs)

lemma cancel_certain_runs:
  "(\<And>x s'. moves_runs rid RunCancelled (t_runs s) (t_runs s') \<Longrightarrow> Q x s') \<Longrightarrow>
   post (cancel_certain w now rid rs) Q s"
  unfolding cancel_certain_def by (intro post_intros) auto

lemma cancel_uncertain_runs:
  "(\<And>x s'. moves_runs rid RunUnknown (t_runs s) (t_runs s') \<Longrightarrow> Q x s') \<Longrightarrow>
   post (cancel_uncertain w now rid rs e) Q s"
  unfolding cancel_uncertain_def by (intro post_intros) auto

lemma cancel_run_runs:
  "post (cancel_run w now scope rid a rs c)
     (\<lambda>_ s'. no_parent rid s \<and> (\<exists>r. run_of rid s = Some r \<and> r_status r \<noteq> RunCompleted
       \<and> (t_runs s' = t_runs s \<or> (\<exists>st\<in>{RunUnknown, RunCancelled}. moves_runs rid st (t_runs s) (t_runs s'))))) s"
  unfolding cancel_run_def no_parent_def
  by (intro post_intros cancel_certain_runs cancel_uncertain_runs) (auto dest!: quiet_runs)

lemma dead_letter_runs:
  "post (dead_letter w now scope rid a rs)
     (\<lambda>_ s'. no_parent rid s \<and> (\<exists>r. run_of rid s = Some r \<and> r_status r \<noteq> RunCompleted)
       \<and> moves_runs rid RunDeadLetter (t_runs s) (t_runs s')) s"
  unfolding dead_letter_def no_parent_def by (intro post_intros) (auto dest!: quiet_runs)

lemma steer_runs: "post (steer w now scope rid i a k) (\<lambda>_ s'. touches_runs rid (t_runs s) (t_runs s')) s"
  unfolding steer_def by (intro post_intros) (auto dest!: quiet_runs)

lemma requeue_goal_runs:
  "(\<And>x s'. moves_runs rid RunQueued (t_runs s) (t_runs s') \<Longrightarrow> Q x s') \<Longrightarrow> post (requeue_goal w now rid a) Q s"
  unfolding requeue_goal_def by (intro post_intros) (auto dest!: quiet_runs)

lemma requeue_unstarted_runs:
  "(\<And>x s'. moves_runs rid RunQueued (t_runs s) (t_runs s') \<Longrightarrow> Q x s') \<Longrightarrow>
   post (requeue_unstarted w now rid st a) Q s"
  unfolding requeue_unstarted_def by (intro post_intros) (auto dest!: quiet_runs)

lemma expire_unsafe_runs:
  "(\<And>x s'. moves_runs rid RunUnknown (t_runs s) (t_runs s') \<Longrightarrow> Q x s') \<Longrightarrow>
   post (expire_unsafe w now rid st a e) Q s"
  unfolding expire_unsafe_def by (intro post_intros) (auto dest!: quiet_runs)

lemma reconcile_one_runs:
  "post (reconcile_one w now sc row)
     (\<lambda>_ s'. t_runs s' = t_runs s
       \<or> (\<exists>r st. run_of (r_id row) s = Some r \<and> still_expired r row now
            \<and> st \<in> {RunQueued, RunCancelled, RunUnknown} \<and> moves_runs (r_id row) st (t_runs s) (t_runs s'))) s"
  unfolding reconcile_one_def
  by (intro post_intros requeue_goal_runs requeue_unstarted_runs expire_unsafe_runs settle_run_cancellation_runs)
    auto

section \<open>Claims, expiry, submissions\<close>

lemma fail_expired_child_run_runs:
  "(\<And>x s'. moves_runs rid RunFailed (t_runs s) (t_runs s') \<Longrightarrow> Q x s') \<Longrightarrow>
   post (fail_expired_child_run w rid a d now) Q s"
  unfolding fail_expired_child_run_def by (intro post_intros) (auto dest!: quiet_runs)

definition expires_run :: "string \<Rightarrow> db \<Rightarrow> db \<Rightarrow> bool" where
  "expires_run rid s s' \<longleftrightarrow>
     t_runs s' = t_runs s
     \<or> (\<exists>r. run_of rid s = Some r \<and> claimable_or_waiting (r_status r) \<and> \<not> r_cancel r
            \<and> moves_runs rid RunFailed (t_runs s) (t_runs s'))"

lemma expire_linked_runs:
  "post (expire_linked_child_run_if_due w scope rid a now)
     (\<lambda>b s'. expires_run rid s s' \<and> (\<not> b \<longrightarrow> s' = s)) s"
  unfolding expire_linked_child_run_if_due_def
  by (intro post_intros fail_expired_child_run_runs) (auto simp: expires_run_def)

text \<open>Taking the lease: exactly the row that was found, with a token just drawn.\<close>

definition takes_row :: "world \<Rightarrow> run_row \<Rightarrow> string \<Rightarrow> int \<Rightarrow> int \<Rightarrow> run_claim \<Rightarrow> db \<Rightarrow> db \<Rightarrow> bool" where
  "takes_row w row worker lease now c s s' \<longleftrightarrow>
     c_run c = strip (r_id row) \<and> c_token c = strip (uuid4 w (draws s)) \<and> c_worker c = strip worker
     \<and> c_lease c = lease \<and> c_rev c = r_rev row + 1
     \<and> rowcount (\<lambda>r. r_id r = r_id row \<and> r_rev r = r_rev row
                      \<and> r_status r \<in> {RunQueued, RunWaitingForRetry}) (t_runs s) = 1
     \<and> t_runs s' = upd_where (\<lambda>r. r_id r = r_id row \<and> r_rev r = r_rev row
                                   \<and> r_status r \<in> {RunQueued, RunWaitingForRetry})
                      (claimed_row (uuid4 w (draws s)) worker lease (r_rev row + 1) now) (t_runs s)"

lemma make_run_claim_fields:
  "make_run_claim c = Inr d \<Longrightarrow>
   c_run d = strip (c_run c) \<and> c_token d = strip (c_token c) \<and> c_worker d = strip (c_worker c)
   \<and> c_lease d = c_lease c \<and> c_rev d = c_rev c"
  by (auto simp: make_run_claim_def and_then_eq_Inr require_eq_Inr required_eq_Inr)

text \<open>A claim: the run is expired, or nothing is claimable, or one claimable row is taken.\<close>

lemma take_lease_runs:
  "post (take_lease w row p worker lease now) (\<lambda>c s'. takes_row w row worker lease now c s s') s"
  unfolding take_lease_def
  by (intro post_intros) (auto simp: takes_row_def dest!: quiet_runs make_run_claim_fields)

definition claims_run ::
  "world \<Rightarrow> exec_scope \<Rightarrow> string option \<Rightarrow> int \<Rightarrow> run_claim option \<Rightarrow> db \<Rightarrow> db \<Rightarrow> bool" where
  "claims_run w scope rid now c s s' \<longleftrightarrow>
     (case c of
        None \<Rightarrow> \<exists>i. expires_run i s s'
      | Some c \<Rightarrow> \<exists>target row worker lease.
          claim_target scope rid = Inr target
          \<and> first_by (\<lambda>r. (r_created r, r_id r)) (claimable scope target now s) (t_runs s) = Some row
          \<and> takes_row w row worker lease now c s s')"

lemma claims_runI:
  "expires_run i s s' \<Longrightarrow> claims_run w scope rid now None s s'"
  "t_runs s' = t_runs s \<Longrightarrow> claims_run w scope rid now None s s'"
  "claim_target scope rid = Inr target \<Longrightarrow>
   first_by (\<lambda>r. (r_created r, r_id r)) (claimable scope target now s) (t_runs s) = Some row \<Longrightarrow>
   takes_row w row worker lease now c s s' \<Longrightarrow> claims_run w scope rid now (Some c) s s'"
  by (auto simp: claims_run_def expires_run_def)

lemma claim_run_runs:
  "post (claim_run w now scope worker n rid) (\<lambda>c s'. claims_run w scope rid now c s s') s"
  unfolding claim_run_def
  by (intro post_intros post_weaken [OF expire_linked_runs] post_weaken [OF take_lease_runs])
    (auto intro: claims_runI)
section \<open>Submissions, parents and children\<close>

lemma new_run_row_fields [simp]:
  "r_id (new_run_row w scope sub k now) = sc_run scope"
  "r_status (new_run_row w scope sub k now) = RunQueued"
  "r_cancel (new_run_row w scope sub k now) = False" "r_rev (new_run_row w scope sub k now) = 0"
  "r_token (new_run_row w scope sub k now) = None" "r_worker (new_run_row w scope sub k now) = None"
  "r_lease (new_run_row w scope sub k now) = None"
  by (simp_all add: new_run_row_def)

lemma post_idempotent_run_row [post_intros]:
  "(\<And>row r. find (\<lambda>r. r_tenant r = sc_tenant scope \<and> r_workspace r = sc_workspace scope
                        \<and> r_idem r = storage_key storage sub) (t_runs s) = row \<Longrightarrow> Q row s) \<Longrightarrow>
   post (idempotent_run_row w scope sub storage) Q s"
  unfolding idempotent_run_row_def by (intro post_intros) auto

lemma insert_steps_eq:
  "map_op (\<lambda>d. insert_step (f d)) ds s = Inr (us, s') \<Longrightarrow> s' = s\<lparr>t_steps := t_steps s @ map f ds\<rparr>"
proof (induction ds arbitrary: s us)
  case (Cons d ds)
  from Cons.prems obtain us' where
    "map_op (\<lambda>d. insert_step (f d)) ds (s\<lparr>t_steps := t_steps s @ [f d]\<rparr>) = Inr (us', s')"
    by (auto simp: result_simps)
  from Cons.IH [OF this] show ?case by simp
qed (simp add: result_simps)

lemma post_insert_steps [post_intros]:
  "(\<And>u. Q u (s\<lparr>t_steps := t_steps s @ map f ds\<rparr>)) \<Longrightarrow> post (map_op (\<lambda>d. insert_step (f d)) ds) Q s"
  by (auto simp: post_def dest: insert_steps_eq)

text \<open>A run is added only under a new identifier; otherwise the runs stay as they are.\<close>

definition adds_run :: "world \<Rightarrow> exec_scope \<Rightarrow> run_submission \<Rightarrow> string option \<Rightarrow> int \<Rightarrow> db \<Rightarrow> db \<Rightarrow> bool" where
  "adds_run w scope sub storage now s s' \<longleftrightarrow>
     (\<forall>q\<in>set (t_runs s). r_id q \<noteq> sc_run scope)
     \<and> t_runs s' = t_runs s @ [new_run_row w scope sub storage now]"

lemma submit_run_runs:
  "post (submit_run w scope sub a now storage)
     (\<lambda>r s'. (case find (\<lambda>r. r_tenant r = sc_tenant scope \<and> r_workspace r = sc_workspace scope
                         \<and> r_idem r = storage_key storage sub) (t_runs s) of
               Some row \<Rightarrow> s' = s \<and> rr_id r = strip (r_id row)
             | None \<Rightarrow> adds_run w scope sub storage now s s' \<and> rr_id r = strip (sc_run scope)
                 \<and> t_parents s' = t_parents s \<and> t_children s' = t_children s \<and> t_effects s' = t_effects s)) s"
  unfolding submit_run_def
  by (intro post_intros post_insert_event) (auto simp: adds_run_def quiet_def)

text \<open>A parent is added together with its run, which waits for its children at once.\<close>

definition adds_parent :: "exec_scope \<Rightarrow> db \<Rightarrow> db \<Rightarrow> bool" where
  "adds_parent scope s s' \<longleftrightarrow>
     (\<forall>q\<in>set (t_runs s). r_id q \<noteq> sc_run scope)
     \<and> (\<exists>r p. t_runs s' = t_runs s @ [r] \<and> t_parents s' = t_parents s @ [p]
          \<and> r_id r = sc_run scope \<and> r_status r = RunWaitingForChildren \<and> \<not> r_cancel r \<and> 0 \<le> r_rev r
          \<and> r_token r = None \<and> r_worker r = None \<and> r_lease r = None
          \<and> p_run p = sc_run scope \<and> p_status p = AggOpen
          \<and> (\<forall>q\<in>set (t_parents s). p_run q \<noteq> sc_run scope))"

lemma adds_parentI:
  assumes "adds_run w scope sub k now s s1"
    and "t_runs s' = upd_where (\<lambda>r. r_id r = sc_run scope) (changed_run w RunWaitingForChildren now n) (t_runs s1)"
    and "t_parents s' = t_parents s @ [p]" and "p_run p = sc_run scope" and "p_status p = AggOpen"
    and "\<forall>q\<in>set (t_parents s). p_run q \<noteq> sc_run scope"
  shows "adds_parent scope s s'"
proof -
  have "upd_where (\<lambda>r. r_id r = sc_run scope) (changed_run w RunWaitingForChildren now n) (t_runs s) = t_runs s"
    using assms(1) by (auto simp: adds_run_def intro: upd_where_unmatched)
  then have "t_runs s' = t_runs s @ [changed_run w RunWaitingForChildren now n (new_run_row w scope sub k now)]"
    using assms(1,2) by (simp add: adds_run_def upd_where_def)
  then show ?thesis
    using assms by (auto simp: adds_parent_def adds_run_def)
qed

lemma submit_parent_runs:
  assumes "strip (sc_run scope) = sc_run scope"
  shows "post (submit_parent w now scope sub policy a)
     (\<lambda>_ s'. s' = s \<or> adds_parent scope s s'
        \<or> adds_run w scope sub None now s s' \<and> t_parents s' = t_parents s) s"
  unfolding submit_parent_def
  by (intro post_intros post_weaken [OF submit_run_runs])
    (auto simp: quiet_def assms intro: adds_parentI split: option.splits)

lemma link_child_runs:
  "post (link_child w now parent cs sub v b a)
     (\<lambda>_ s'. (\<exists>k. adds_run w cs sub k now s s') \<and> t_parents s' = t_parents s \<or> t_runs s' = t_runs s) s"
  unfolding link_child_def
  by (intro post_intros post_weaken [OF submit_run_runs])
    (auto simp: quiet_def adds_run_def split: option.splits)

lemma submit_child_runs:
  "post (submit_child w now ps cs sub v a)
     (\<lambda>_ s'. (\<exists>k. adds_run w cs sub k now s s') \<and> t_parents s' = t_parents s \<or> t_runs s' = t_runs s) s"
  unfolding submit_child_def by (intro post_intros post_weaken [OF link_child_runs]) auto

lemma submit_runs:
  "post (submit w now scope sub a)
     (\<lambda>_ s'. (\<exists>k. adds_run w scope sub k now s s') \<and> t_parents s' = t_parents s \<or> t_runs s' = t_runs s) s"
  unfolding submit_def
  by (intro post_intros post_weaken [OF submit_run_runs]) (auto split: option.splits)

text \<open>Cancelling a child: settled at once while it waits, only asked for otherwise.\<close>

definition cancels_child :: "string \<Rightarrow> db \<Rightarrow> db \<Rightarrow> bool" where
  "cancels_child child s s' \<longleftrightarrow>
     t_parents s' = t_parents s \<and> t_effects s' = t_effects s
     \<and> (t_runs s' = t_runs s
     \<or> (\<exists>r. run_of child s = Some r \<and> \<not> terminal_run (r_status r)
          \<and> (claimable_or_waiting (r_status r) \<and> moves_runs child RunCancelled (t_runs s) (t_runs s')
             \<or> touches_runs child (t_runs s) (t_runs s'))))"

lemma request_child_cancellation_of_runs:
  "post (request_child_cancellation_of w p child a rs now) (\<lambda>_ s'. cancels_child child s s') s"
  unfolding request_child_cancellation_of_def
  by (intro post_intros) (auto simp: cancels_child_def run_terminal_def quiet_def)

lemma request_child_cancellation_runs:
  "post (request_child_cancellation w now ps child a rs) (\<lambda>_ s'. cancels_child child s s') s"
  unfolding request_child_cancellation_def
  by (intro post_intros post_weaken [OF request_child_cancellation_of_runs])


section \<open>Parents and their delivery\<close>

text \<open>Databases that differ outside the runs and the parents only.\<close>

abbreviation same_runs :: "db \<Rightarrow> db \<Rightarrow> bool" where
  "same_runs s s' \<equiv> t_runs s' = t_runs s \<and> t_parents s' = t_parents s"

lemma settle_child_evidence_runs:
  "post (settle_child_evidence w now child) (\<lambda>_ s'. same_runs s s') s"
  unfolding settle_child_evidence_def by (intro post_intros) auto

lemma settle_all_evidence_runs:
  "post (map_op (settle_child_evidence w now) children) (\<lambda>_ s'. same_runs s s') s"
  by (rule post_map_op) (auto intro!: post_weaken [OF settle_child_evidence_runs])

text \<open>The aggregation closes the parent's row and moves its run to the aggregated status.\<close>

definition closes_parents :: "string \<Rightarrow> parent_row list \<Rightarrow> parent_row list \<Rightarrow> bool" where
  "closes_parents rid xs ys \<longleftrightarrow>
     list_all2 (\<lambda>p q. if p_run p = rid \<and> p_status p = AggOpen
                      then p_run q = p_run p \<and> p_status q = AggCompleted else q = p) xs ys"

lemma closes_parents_upd [simp]:
  "(\<And>p. p_run (f p) = p_run p \<and> p_status (f p) = AggCompleted) \<Longrightarrow>
   closes_parents rid xs (upd_where (\<lambda>p. p_run p = rid \<and> p_status p = AggOpen) f xs)"
  unfolding closes_parents_def by (rule list_all2_upd_where) auto

definition settles_parent :: "string \<Rightarrow> db \<Rightarrow> db \<Rightarrow> bool" where
  "settles_parent rid s s' \<longleftrightarrow>
     (\<exists>p r st. find (\<lambda>p. p_run p = rid) (t_parents s) = Some p \<and> p_status p = AggOpen
        \<and> run_of rid s = Some r \<and> st \<in> {RunCompleted, RunFailed, RunCancelled}
        \<and> (st = RunCompleted \<longrightarrow> \<not> r_cancel r)
        \<and> moves_runs (strip rid) st (t_runs s) (t_runs s') \<and> closes_parents (strip rid) (t_parents s) (t_parents s'))"

lemma aggregate_outcome_status:
  "aggregate_outcome p = (st, reason) \<Longrightarrow>
   st \<in> {RunCompleted, RunFailed, RunCancelled} \<and> (st = RunCompleted \<longrightarrow> \<not> rr_cancel (pr_run p))"
  by (auto simp: aggregate_outcome_def split: if_splits)

lemma settle_parent_runs:
  "(\<And>x st s'. st \<in> {RunCompleted, RunFailed, RunCancelled} \<Longrightarrow>
      (st = RunCompleted \<longrightarrow> \<not> rr_cancel (pr_run parent)) \<Longrightarrow>
      moves_runs (rr_id (pr_run parent)) st (t_runs s) (t_runs s') \<Longrightarrow>
      closes_parents (rr_id (pr_run parent)) (t_parents s) (t_parents s') \<Longrightarrow> Q x s') \<Longrightarrow>
   post (settle_parent w now parent a k ev) Q s"
proof (cases "aggregate_outcome parent")
  case (Pair st reason)
  assume Q: "\<And>x st s'. st \<in> {RunCompleted, RunFailed, RunCancelled} \<Longrightarrow>
      (st = RunCompleted \<longrightarrow> \<not> rr_cancel (pr_run parent)) \<Longrightarrow>
      moves_runs (rr_id (pr_run parent)) st (t_runs s) (t_runs s') \<Longrightarrow>
      closes_parents (rr_id (pr_run parent)) (t_parents s) (t_parents s') \<Longrightarrow> Q x s'"
  from aggregate_outcome_status [OF Pair] show ?thesis
    unfolding settle_parent_def Pair by (intro post_intros Q [of st]) (auto simp: quiet_def)
qed

lemma not_AggCompleted [simp]: "x \<noteq> AggCompleted \<longleftrightarrow> x = AggOpen"
  by (cases x) auto

lemma aggregate_children_runs:
  "post (aggregate_children w now ps a k) (\<lambda>_ s'. s' = s \<or> settles_parent (sc_run ps) s s') s"
  unfolding aggregate_children_def
  by (intro post_intros post_weaken [OF settle_all_evidence_runs] settle_parent_runs) (auto simp: settles_parent_def)


text \<open>Cancelling a parent: its run is marked, then its children are asked one by one; a property
  that both steps keep holds in the end.\<close>

lemma request_parent_cancellation_runs:
  assumes "I s"
    and mark: "\<And>s1. t_runs s1 = upd_where (\<lambda>r. r_id r = strip (sc_run ps) \<and> \<not> r_cancel r)
          (\<lambda>r. r\<lparr>r_cancel := True, r_rev := r_rev r + 1, r_updated := now\<rparr>) (t_runs s) \<Longrightarrow>
        t_parents s1 = t_parents s \<Longrightarrow> t_effects s1 = t_effects s \<Longrightarrow> I s1"
    and cancel: "\<And>i s1 s2. I s1 \<Longrightarrow> cancels_child i s1 s2 \<Longrightarrow> I s2"
    and quiet: "\<And>s1 s2. I s1 \<Longrightarrow> quiet s1 s2 \<Longrightarrow> I s2"
  shows "post (request_parent_cancellation w now ps a rs) (\<lambda>_ s'. I s') s"
proof -
  have all: "post (map_op (\<lambda>i. request_child_cancellation_of w pid i a rs now) is) (\<lambda>_ s'. I s') s1"
    if "I s1" for pid a rs "is" s1
    using that by (rule post_map_op) (auto intro!: post_weaken [OF request_child_cancellation_of_runs] intro: cancel)
  show ?thesis
    unfolding request_parent_cancellation_def
    by (intro post_intros post_weaken [OF all]) (auto intro: mark quiet assms(1))
qed

end
