(* ===== verification/StoreLaw.thy ===== *)
theory StoreLaw
  imports RunMoves
begin

text \<open>
  What every statement of the store keeps, every operation, call and history keeps.  The locales
  take a relation between databases and ask it of the statements the operations issue: the
  updates of a table within the frame of the table, its inserts, and the drawing of an
  identifier.  \<open>run_law\<close> covers the operations that write neither effects nor parents,
  \<open>effect_law\<close> adds the effects, \<open>parent_law\<close> the parents, hence all calls but the one that links a
  child; \<open>child_law\<close> covers that one, and \<open>store_law\<close> all calls.
\<close>

section \<open>Frames\<close>

text \<open>What no update of a table changes, and how the columns that only grow do.\<close>

definition run_frame :: "run_row \<Rightarrow> run_row \<Rightarrow> bool" where
  "run_frame r q \<longleftrightarrow> same_identity r q \<and> (r_cancel r \<longrightarrow> r_cancel q) \<and> r_rev r \<le> r_rev q"

definition step_frame :: "step_record \<Rightarrow> step_record \<Rightarrow> bool" where
  "step_frame s q \<longleftrightarrow>
     s_id q = s_id s \<and> s_run q = s_run s \<and> s_name q = s_name s \<and> s_retry q = s_retry s
     \<and> s_meta q = s_meta s \<and> s_created q = s_created s \<and> s_rev s \<le> s_rev q"

definition attempt_frame :: "attempt_record \<Rightarrow> attempt_record \<Rightarrow> bool" where
  "attempt_frame a q \<longleftrightarrow>
     a_id q = a_id a \<and> a_run q = a_run a \<and> a_step q = a_step a \<and> a_number q = a_number a
     \<and> a_started q = a_started a"

definition effect_frame :: "effect_record \<Rightarrow> effect_record \<Rightarrow> bool" where
  "effect_frame e q \<longleftrightarrow>
     e_id q = e_id e \<and> e_run q = e_run e \<and> e_step q = e_step e \<and> e_key q = e_key e
     \<and> same_tool_input q (e_tool e) (e_tool_version e) (e_schema e) (e_args e) \<and> e_created q = e_created e
     \<and> (e_dispatch e \<noteq> None \<longrightarrow> e_dispatch q \<noteq> None)
     \<and> e_result_ref q \<in> {e_result_ref e, Some (''effect-result:'' @ e_id e)}"

definition parent_frame :: "parent_row \<Rightarrow> parent_row \<Rightarrow> bool" where
  "parent_frame p q \<longleftrightarrow>
     p_run q = p_run p \<and> p_policy q = p_policy p \<and> p_created q = p_created p \<and> p_rev p \<le> p_rev q
     \<and> (p_status p = AggCompleted \<longrightarrow> q = p)"

definition child_frame :: "child_row \<Rightarrow> child_row \<Rightarrow> bool" where
  "child_frame c q \<longleftrightarrow>
     q = c\<lparr>ch_evidence := ch_evidence q, ch_updated := ch_updated q\<rparr>"

definition outbox_edge :: "completion_status \<Rightarrow> completion_status \<Rightarrow> bool" where
  "outbox_edge s t \<longleftrightarrow>
     (s, t) \<in> {(CompPending, CompClaimed), (CompClaimed, CompPending), (CompClaimed, CompDelivered),
               (CompClaimed, CompUnknown), (CompUnknown, CompPending), (CompUnknown, CompDelivered)}"

definition outbox_frame :: "outbox_row \<Rightarrow> outbox_row \<Rightarrow> bool" where
  "outbox_frame b q \<longleftrightarrow>
     o_id q = o_id b \<and> o_parent q = o_parent b \<and> o_payload q = o_payload b \<and> o_created q = o_created b
     \<and> o_attempts b \<le> o_attempts q \<and> outbox_edge (o_status b) (o_status q)
     \<and> (o_status q = CompClaimed \<longleftrightarrow> o_token q \<noteq> None)
     \<and> (o_delivered b = None \<longrightarrow> (o_status q = CompDelivered \<longleftrightarrow> o_delivered q \<noteq> None))"

lemmas frame_defs = run_frame_def same_identity_def step_frame_def attempt_frame_def effect_frame_def
  same_tool_input_def coalesce_def parent_frame_def child_frame_def outbox_frame_def outbox_edge_def
  claimed_row_def cancelled_step_def cancel_requested_row_def

lemma run_frame_rows [simp]:
  "run_frame r (changed_run w st now n r)"
  "r_rev q = r_rev r \<Longrightarrow> run_frame r (claimed_row tok wk lease (r_rev q + 1) now r)"
  "run_frame r (cancel_requested_row im reason now r)"
  "run_frame r (r\<lparr>r_cancel := True\<rparr>)"
  "run_frame r (r\<lparr>r_rev := r_rev r + 1, r_updated := now\<rparr>)"
  "run_frame r (r\<lparr>r_cancel := True, r_rev := r_rev r + 1, r_updated := now\<rparr>)"
  "run_frame r (r\<lparr>r_meta := m, r_rev := r_rev r + 1, r_updated := now\<rparr>)"
  "run_frame r (r\<lparr>r_lease := l, r_updated := now\<rparr>)"
  by (simp_all add: frame_defs claimed_row_def cancel_requested_row_def)

lemma step_frame_cancelled [simp]: "step_frame s (cancelled_step reason now s)"
  by (simp add: frame_defs cancelled_step_def)

lemma keeps_conflict [keeps_intros]: "keeps R m \<Longrightarrow> keeps R (conflict_on_integrity m)"
  by (auto simp: keeps_def result_simps)

section \<open>Operations on runs, steps and attempts\<close>

locale run_law = evolution R for R :: "db \<Rightarrow> db \<Rightarrow> bool" +
  fixes w :: world
  assumes upd_runs [keeps_intros]: "(\<And>r. P r \<Longrightarrow> run_frame r (f r)) \<Longrightarrow> keeps R (upd_runs P f)"
    and upd_steps [keeps_intros]: "(\<And>s. P' s \<Longrightarrow> step_frame s (f' s)) \<Longrightarrow> keeps R (upd_steps P' f')"
    and upd_attempts [keeps_intros]: "(\<And>a. Q a \<Longrightarrow> attempt_frame a (g a)) \<Longrightarrow> keeps R (upd_attempts Q g)"
    and upd_children [keeps_intros]: "(\<And>c. Q' c \<Longrightarrow> child_frame c (g' c)) \<Longrightarrow> keeps R (upd_children Q' g')"
    and upd_outbox [keeps_intros]: "(\<And>b. U b \<Longrightarrow> outbox_frame b (h b)) \<Longrightarrow> keeps R (upd_outbox U h)"
    and insert_run [keeps_intros]: "keeps R (insert_run new_run)"
    and insert_step [keeps_intros]: "keeps R (insert_step new_step)"
    and insert_attempt [keeps_intros]: "keeps R (insert_attempt new_attempt)"
    and insert_checkpoint [keeps_intros]: "keeps R (insert_checkpoint new_checkpoint)"
    and insert_result [keeps_intros]: "keeps R (insert_result new_result)"
    and insert_progress [keeps_intros]: "keeps R (insert_progress new_progress)"
    and insert_outbox [keeps_intros]: "keeps R (insert_outbox new_outbox)"
    and insert_event [keeps_intros]: "keeps R (insert_event w rid name actor payload now args)"
    and new_uuid [keeps_intros]: "keeps R (new_uuid w)"
begin
lemma select_run_law [keeps_intros]: "keeps R (select_run i)"
  unfolding select_run_def
  by (intro keeps_intros; simp add: frame_defs)

lemma step_row_law [keeps_intros]: "keeps R (step_row i j)"
  unfolding step_row_def
  by (intro keeps_intros; simp add: frame_defs)

lemma effect_row_law [keeps_intros]: "keeps R (effect_row i)"
  unfolding effect_row_def
  by (intro keeps_intros; simp add: frame_defs)

lemma select_parent_law [keeps_intros]: "keeps R (select_parent i)"
  unfolding select_parent_def
  by (intro keeps_intros; simp add: frame_defs)

lemma select_child_law [keeps_intros]: "keeps R (select_child i)"
  unfolding select_child_def
  by (intro keeps_intros; simp add: frame_defs)

lemma completion_row_law [keeps_intros]: "keeps R (completion_row i)"
  unfolding completion_row_def
  by (intro keeps_intros; simp add: frame_defs)

lemma run_from_conn_law [keeps_intros]: "keeps R (run_from_conn w r k)"
  unfolding run_from_conn_def
  by (intro keeps_intros; simp add: frame_defs)

lemma read_run_law [keeps_intros]: "keeps R (read_run w i)"
  unfolding read_run_def
  by (intro keeps_intros; simp add: frame_defs)

lemma read_parent_law [keeps_intros]: "keeps R (read_parent w i)"
  unfolding read_parent_def
  by (intro keeps_intros; simp add: frame_defs)

lemma read_child_law [keeps_intros]: "keeps R (read_child w i)"
  unfolding read_child_def
  by (intro keeps_intros; simp add: frame_defs)

lemma read_effect_law [keeps_intros]: "keeps R (read_effect i)"
  unfolding read_effect_def
  by (intro keeps_intros; simp add: frame_defs)

lemma read_completion_law [keeps_intros]: "keeps R (read_completion i)"
  unfolding read_completion_def
  by (intro keeps_intros; simp add: frame_defs)

lemma active_attempt_law [keeps_intros]: "keeps R (active_attempt i j)"
  unfolding active_attempt_def
  by (intro keeps_intros; simp add: frame_defs)

lemma owned_run_law [keeps_intros]: "keeps R (owned_run w scope c now)"
  unfolding owned_run_def
  by (intro keeps_intros; simp add: frame_defs)

lemma next_checkpoint_sequence_law [keeps_intros]: "keeps R (next_checkpoint_sequence i)"
  unfolding next_checkpoint_sequence_def
  by (intro keeps_intros; simp add: frame_defs)

lemma reject_direct_parent_transition_law [keeps_intros]: "keeps R (reject_direct_parent_transition i)"
  unfolding reject_direct_parent_transition_def
  by (intro keeps_intros; simp add: frame_defs)

lemma idempotent_run_row_law [keeps_intros]: "keeps R (idempotent_run_row w scope sub k)"
  unfolding idempotent_run_row_def
  by (intro keeps_intros; simp add: frame_defs)

lemma get_parent_law [keeps_intros]: "keeps R (get_parent w scope i)"
  unfolding get_parent_def
  by (intro keeps_intros; simp add: frame_defs)

lemma log_event_law [keeps_intros]: "keeps R (log_event w i n a st p now)"
  unfolding log_event_def
  by (intro keeps_intros; simp add: frame_defs)

lemma log_keyed_law [keeps_intros]: "keeps R (log_keyed w i n a k p now)"
  unfolding log_keyed_def
  by (intro keeps_intros; simp add: frame_defs)

lemma mark_active_attempt_law [keeps_intros]: "keeps R (mark_active_attempt i j st now e)"
  unfolding mark_active_attempt_def
  by (intro keeps_intros; simp add: frame_defs)

lemma touch_run_law [keeps_intros]: "keeps R (touch_run i now)"
  unfolding touch_run_def
  by (intro keeps_intros; simp add: frame_defs)

lemma set_run_state_law [keeps_intros]: "keeps R (set_run_state w i st now n)"
  unfolding set_run_state_def
  by (intro keeps_intros; simp add: frame_defs)

lemma set_cancel_requested_law [keeps_intros]: "keeps R (set_cancel_requested i)"
  unfolding set_cancel_requested_def
  by (intro keeps_intros; simp add: frame_defs)

lemma submit_run_law [keeps_intros]: "keeps R (submit_run w scope sub a now k)"
  unfolding submit_run_def
  by (intro keeps_intros; simp add: frame_defs)

lemma submit_law [keeps_intros]: "keeps R (submit w now scope sub a)"
  unfolding submit_def
  by (intro keeps_intros; simp add: frame_defs)

lemma record_event_law [keeps_intros]: "keeps R (record_event w now scope i n a p g)"
  unfolding record_event_def
  by (intro keeps_intros; simp add: frame_defs)

lemma fail_expired_child_run_law [keeps_intros]: "keeps R (fail_expired_child_run w i a d now)"
  unfolding fail_expired_child_run_def
  by (intro keeps_intros; simp add: frame_defs)

lemma expire_linked_child_run_if_due_law [keeps_intros]: "keeps R (expire_linked_child_run_if_due w scope i a now)"
  unfolding expire_linked_child_run_if_due_def
  by (intro keeps_intros; simp add: frame_defs)

lemma settle_run_cancellation_law [keeps_intros]: "keeps R (settle_run_cancellation w i a rs now)"
  unfolding settle_run_cancellation_def
  by (intro keeps_intros; simp add: frame_defs)

lemma request_child_cancellation_of_law [keeps_intros]: "keeps R (request_child_cancellation_of w p i a rs now)"
  unfolding request_child_cancellation_of_def
  by (intro keeps_intros; simp add: frame_defs)

lemma take_lease_law [keeps_intros]: "keeps R (take_lease w row p wk l now)"
  unfolding take_lease_def
  by (intro keeps_intros; simp add: frame_defs)

lemma claim_run_law [keeps_intros]: "keeps R (claim_run w now scope wk n i)"
  unfolding claim_run_def
  by (intro keeps_intros; simp add: frame_defs)

lemma renew_law [keeps_intros]: "keeps R (renew w now scope c n)"
  unfolding renew_def
  by (intro keeps_intros; simp add: frame_defs)

lemma start_new_attempt_law [keeps_intros]: "keeps R (start_new_attempt w now c sid)"
  unfolding start_new_attempt_def
  by (intro keeps_intros; simp add: frame_defs)

lemma start_step_law [keeps_intros]: "keeps R (start_step w now scope c sid)"
  unfolding start_step_def
  by (intro keeps_intros; simp add: frame_defs)

lemma yield_step_law [keeps_intros]: "keeps R (yield_step w now scope c sid p)"
  unfolding yield_step_def
  by (intro keeps_intros; simp add: frame_defs)

lemma add_checkpoint_law [keeps_intros]: "keeps R (add_checkpoint w now scope c sid k p)"
  unfolding add_checkpoint_def
  by (intro keeps_intros; simp add: frame_defs)

lemma complete_step_law [keeps_intros]: "keeps R (complete_step w now scope c sid p)"
  unfolding complete_step_def
  by (intro keeps_intros; simp add: frame_defs)

lemma schedule_retry_law [keeps_intros]: "keeps R (schedule_retry w now c sid rs t)"
  unfolding schedule_retry_def
  by (intro keeps_intros; simp add: frame_defs)

lemma settle_failure_law [keeps_intros]: "keeps R (settle_failure w now c sid rs)"
  unfolding settle_failure_def
  by (intro keeps_intros; simp add: frame_defs)

lemma fail_step_law [keeps_intros]: "keeps R (fail_step w now scope c sid rs b)"
  unfolding fail_step_def
  by (intro keeps_intros; simp add: frame_defs)

lemma pause_for_approval_law [keeps_intros]: "keeps R (pause_for_approval w now scope c sid i p)"
  unfolding pause_for_approval_def
  by (intro keeps_intros; simp add: frame_defs)

lemma resume_law [keeps_intros]: "keeps R (resume w now scope i a rs)"
  unfolding resume_def
  by (intro keeps_intros; simp add: frame_defs)

lemma request_cancellation_law [keeps_intros]: "keeps R (request_cancellation w now scope i a rs)"
  unfolding request_cancellation_def
  by (intro keeps_intros; simp add: frame_defs)

lemma cancel_certain_law [keeps_intros]: "keeps R (cancel_certain w now i rs)"
  unfolding cancel_certain_def
  by (intro keeps_intros; simp add: frame_defs)

lemma complete_run_law [keeps_intros]: "keeps R (complete_run w now scope c p)"
  unfolding complete_run_def
  by (intro keeps_intros; simp add: frame_defs)

lemma terminal_run_transition_law [keeps_intros]: "keeps R (terminal_run_transition w now scope c st n rs)"
  unfolding terminal_run_transition_def
  by (intro keeps_intros; simp add: frame_defs)

lemma fail_run_law [keeps_intros]: "keeps R (fail_run w now scope c rs)"
  unfolding fail_run_def
  by (intro keeps_intros; simp add: frame_defs)

lemma mark_unknown_law [keeps_intros]: "keeps R (mark_unknown w now scope c rs)"
  unfolding mark_unknown_def
  by (intro keeps_intros; simp add: frame_defs)

lemma dead_letter_law [keeps_intros]: "keeps R (dead_letter w now scope i a rs)"
  unfolding dead_letter_def
  by (intro keeps_intros; simp add: frame_defs)

lemma steer_law [keeps_intros]: "keeps R (steer w now scope i ins a k)"
  unfolding steer_def
  by (intro keeps_intros; simp add: frame_defs)

lemma requeue_goal_law [keeps_intros]: "keeps R (requeue_goal w now i a)"
  unfolding requeue_goal_def
  by (intro keeps_intros; simp add: frame_defs)

lemma requeue_unstarted_law [keeps_intros]: "keeps R (requeue_unstarted w now i s a)"
  unfolding requeue_unstarted_def
  by (intro keeps_intros; simp add: frame_defs)

lemma record_child_progress_law [keeps_intros]: "keeps R (record_child_progress w now scope c n p k)"
  unfolding record_child_progress_def
  by (intro keeps_intros; simp add: frame_defs)

lemma request_child_cancellation_law [keeps_intros]: "keeps R (request_child_cancellation w now ps i a rs)"
  unfolding request_child_cancellation_def
  by (intro keeps_intros; simp add: frame_defs)

lemma request_parent_cancellation_law [keeps_intros]: "keeps R (request_parent_cancellation w now ps a rs)"
  unfolding request_parent_cancellation_def
  by (intro keeps_intros; simp add: frame_defs)

lemma settle_child_evidence_law [keeps_intros]: "keeps R (settle_child_evidence w now c)"
  unfolding settle_child_evidence_def
  by (intro keeps_intros; simp add: frame_defs)

lemma quarantine_expired_law [keeps_intros]: "keeps R (quarantine_expired w now scope t)"
  unfolding quarantine_expired_def
  by (intro keeps_intros; simp add: frame_defs)

lemma take_completion_law [keeps_intros]: "keeps R (take_completion w now p b wk l)"
  unfolding take_completion_def
  by (intro keeps_intros; simp add: frame_defs)

lemma claim_parent_completion_law [keeps_intros]: "keeps R (claim_parent_completion w now scope wk n p)"
  unfolding claim_parent_completion_def
  by (intro keeps_intros; simp add: frame_defs)

lemma transition_parent_completion_claim_law:
  assumes "st \<noteq> CompClaimed"
  shows "keeps R (transition_parent_completion_claim w now scope c st n rs)"
  using assms unfolding transition_parent_completion_claim_def
  by (intro keeps_intros; cases st) (simp_all add: frame_defs)

lemma complete_parent_completion_law [keeps_intros]: "keeps R (complete_parent_completion w now scope c)"
  unfolding complete_parent_completion_def by (intro keeps_intros transition_parent_completion_claim_law; simp)

lemma fail_parent_completion_law [keeps_intros]: "keeps R (fail_parent_completion w now scope c rs)"
  unfolding fail_parent_completion_def by (intro keeps_intros transition_parent_completion_claim_law; simp)

lemma mark_parent_completion_unknown_law [keeps_intros]: "keeps R (mark_parent_completion_unknown w now scope c rs)"
  unfolding mark_parent_completion_unknown_def by (intro keeps_intros transition_parent_completion_claim_law; simp)

lemma reconcile_parent_completion_law [keeps_intros]: "keeps R (reconcile_parent_completion w now scope i b a rs)"
  unfolding reconcile_parent_completion_def
  by (intro keeps_intros; simp add: frame_defs)

end

section \<open>Linking a child\<close>

locale child_law = run_law R w for R :: "db \<Rightarrow> db \<Rightarrow> bool" and w :: world +
  assumes insert_child [keeps_intros]: "keeps R (insert_child new_child)"
begin

lemma link_child_law [keeps_intros]: "keeps R (link_child w now p cs sub v b a)"
  unfolding link_child_def
  by (intro keeps_intros; simp add: frame_defs)

lemma submit_child_law [keeps_intros]: "keeps R (submit_child w now ps cs sub v a)"
  unfolding submit_child_def
  by (intro keeps_intros; simp add: frame_defs)

end

section \<open>Operations on effects\<close>

locale effect_law = run_law R w for R :: "db \<Rightarrow> db \<Rightarrow> bool" and w :: world +
  assumes upd_effects [keeps_intros]: "(\<And>e. V e \<Longrightarrow> effect_frame e (k e)) \<Longrightarrow> keeps R (upd_effects V k)"
    and insert_effect [keeps_intros]: "keeps R (insert_effect fresh_effect)"
begin

lemma cancel_uncertain_law [keeps_intros]: "keeps R (cancel_uncertain w now i rs e)"
  unfolding cancel_uncertain_def
  by (intro keeps_intros; simp add: frame_defs)

lemma cancel_run_law [keeps_intros]: "keeps R (cancel_run w now scope i a rs c)"
  unfolding cancel_run_def
  by (intro keeps_intros; simp add: frame_defs)

lemma expire_unsafe_law [keeps_intros]: "keeps R (expire_unsafe w now i s a e)"
  unfolding expire_unsafe_def
  by (intro keeps_intros; simp add: frame_defs)

lemma reconcile_one_law [keeps_intros]: "keeps R (reconcile_one w now sc row)"
  unfolding reconcile_one_def
  by (intro keeps_intros; simp add: frame_defs)

lemma reconcile_expired_law [keeps_intros]: "keeps R (reconcile_expired w now sc)"
  unfolding reconcile_expired_def
  by (intro keeps_intros; simp add: frame_defs)

lemma reuse_effect_law [keeps_intros]: "keeps R (reuse_effect w now c sid a e)"
  unfolding reuse_effect_def
  by (intro keeps_intros; simp add: frame_defs)

lemma new_effect_law [keeps_intros]: "keeps R (new_effect w now c sid a key tool v sch args)"
  unfolding new_effect_def
  by (intro keeps_intros; simp add: frame_defs)

lemma begin_effect_law [keeps_intros]: "keeps R (begin_effect w now scope c sid key tool v sch args)"
  unfolding begin_effect_def
  by (intro keeps_intros; simp add: frame_defs)

lemma transition_effect_law [keeps_intros]: "keeps R (transition_effect w now scope c e xs st n d rs)"
  unfolding transition_effect_def
  by (intro keeps_intros; simp add: frame_defs)

lemma mark_effect_started_law [keeps_intros]: "keeps R (mark_effect_started w now scope c e)"
  unfolding mark_effect_started_def
  by (intro keeps_intros; simp add: frame_defs)

lemma complete_effect_law [keeps_intros]: "keeps R (complete_effect w now scope c e d)"
  unfolding complete_effect_def
  by (intro keeps_intros; simp add: frame_defs)

lemma fail_effect_law [keeps_intros]: "keeps R (fail_effect w now scope c e rs)"
  unfolding fail_effect_def
  by (intro keeps_intros; simp add: frame_defs)

lemma mark_effect_unknown_law [keeps_intros]: "keeps R (mark_effect_unknown w now scope c e rs)"
  unfolding mark_effect_unknown_def
  by (intro keeps_intros; simp add: frame_defs)

lemma record_effect_result_law [keeps_intros]: "keeps R (record_effect_result w now scope c e p)"
  unfolding record_effect_result_def
  by (intro keeps_intros; simp add: frame_defs)

lemma settle_effect_law [keeps_intros]: "keeps R (settle_effect w now i e d a rs dg est sst rst)"
  unfolding settle_effect_def
  by (intro keeps_intros; simp add: frame_defs)

lemma reconcile_effect_law [keeps_intros]: "keeps R (reconcile_effect w now scope i d a rs dg)"
  unfolding reconcile_effect_def
  by (intro keeps_intros; simp add: frame_defs)

end

section \<open>All operations\<close>

fun links_child :: "run_call \<Rightarrow> bool" where
  "links_child (SubmitChild _ _ _ _ _) = True"
| "links_child _ = False"

locale parent_law = effect_law R w for R :: "db \<Rightarrow> db \<Rightarrow> bool" and w :: world +
  assumes upd_parents [keeps_intros]: "(\<And>p. T p \<Longrightarrow> parent_frame p (l p)) \<Longrightarrow> keeps R (upd_parents T l)"
    and insert_parent [keeps_intros]: "keeps R (insert_parent new_parent)"
begin

lemma submit_parent_law [keeps_intros]: "keeps R (submit_parent w now scope sub policy a)"
  unfolding submit_parent_def
  by (intro keeps_intros; simp add: frame_defs)

lemma settle_parent_law [keeps_intros]: "keeps R (settle_parent w now p a k ev)"
  unfolding settle_parent_def
  by (intro keeps_intros; simp add: frame_defs)

lemma aggregate_children_law [keeps_intros]: "keeps R (aggregate_children w now ps a k)"
  unfolding aggregate_children_def
  by (intro keeps_intros; simp add: frame_defs)

text \<open>Every call but the one that links a child.\<close>

lemma other_call_law: "\<not> links_child c \<Longrightarrow> keeps R (exec_call w now c)"
  by (cases c) (auto simp: done_after_def intro!: keeps_intros)

lemma other_execute_law: "\<not> links_child c \<Longrightarrow> R s (execute w (now, c) s)"
  unfolding execute_def by (rule commit_keeps) (simp add: other_call_law)

end

locale store_law = parent_law R w + child_law R w for R :: "db \<Rightarrow> db \<Rightarrow> bool" and w :: world
begin

lemma exec_call_law: "keeps R (exec_call w now c)"
  by (cases c) (auto simp: done_after_def intro!: keeps_intros)

lemma execute_law: "R s (execute w tc s)"
  unfolding execute_def by (rule commit_keeps [OF exec_call_law])

lemma run_history_law: "R s (run_history w h s)"
  unfolding run_history_def by (rule history_keeps) (rule execute_law)

lemma reachable_law: "reachable w s \<Longrightarrow> R empty_db s"
  unfolding reachable_def by (auto intro: run_history_law)

end

end
