(* ===== verification/StoreHistory.thy ===== *)
theory StoreHistory
  imports StoreLaw
begin

text \<open>
  Laws of every history of calls: rows are never deleted, logs only grow, what identifies a row
  never changes, keys stay unique and references stay inside their tables.  Each is an
  interpretation of \<open>store_law\<close> on the store's statements.
\<close>

section \<open>How a table evolves\<close>

text \<open>Every old row is still there, at its place and within the frame; new rows come after.\<close>

definition grows :: "('r \<Rightarrow> 'r \<Rightarrow> bool) \<Rightarrow> 'r list \<Rightarrow> 'r list \<Rightarrow> bool" where
  "grows F xs ys \<longleftrightarrow> (\<exists>us vs. ys = us @ vs \<and> list_all2 F xs us)"

lemma grows_refl: "(\<And>r. F r r) \<Longrightarrow> grows F xs xs"
  unfolding grows_def by (rule exI [of _ xs]) (simp add: list_all2_same)

lemma grows_trans:
  assumes F: "\<And>a b c. F a b \<Longrightarrow> F b c \<Longrightarrow> F a c" and "grows F xs ys" and "grows F ys zs"
  shows "grows F xs zs"
proof -
  obtain us vs where ys: "ys = us @ vs" and xu: "list_all2 F xs us"
    using assms(2) by (auto simp: grows_def)
  obtain ts ws where "zs = ts @ ws" and "list_all2 F ys ts"
    using assms(3) by (auto simp: grows_def)
  moreover from this ys obtain t1 t2 where "ts = t1 @ t2" and "list_all2 F us t1"
    by (auto simp: list_all2_append1)
  ultimately show ?thesis
    using list_all2_trans [of F F F xs us t1] F xu unfolding grows_def by auto
qed

lemma grows_append: "(\<And>r. F r r) \<Longrightarrow> grows F xs (xs @ [y])"
  unfolding grows_def by (rule exI [of _ xs]) (simp add: list_all2_same)

lemma grows_upd:
  assumes "\<And>r. F r r" and "\<And>r. P r \<Longrightarrow> F r (f r)"
  shows "grows F xs (upd_where P f xs)"
  using assms unfolding grows_def
  by (intro exI [of _ "upd_where P f xs"] exI [of _ "[]"]) (auto intro: list_all2_upd_where)

lemma grows_equal: "grows (=) xs ys \<longleftrightarrow> (\<exists>vs. ys = xs @ vs)"
  by (auto simp: grows_def list.rel_eq)

lemma grows_equal_trans: "grows (=) xs ys \<Longrightarrow> grows (=) ys zs \<Longrightarrow> grows (=) xs zs"
  by (auto simp: grows_equal)

lemma grows_star_trans: "grows F\<^sup>*\<^sup>* xs ys \<Longrightarrow> grows F\<^sup>*\<^sup>* ys zs \<Longrightarrow> grows F\<^sup>*\<^sup>* xs zs"
  by (rule grows_trans [where F = "F\<^sup>*\<^sup>*"]) (rule rtranclp_trans)

lemma grows_star_upd: "(\<And>r. P r \<Longrightarrow> F r (f r)) \<Longrightarrow> grows F\<^sup>*\<^sup>* xs (upd_where P f xs)"
  by (rule grows_upd) auto

lemma grows_rows: "grows F xs ys \<Longrightarrow> i < length xs \<Longrightarrow> i < length ys \<and> F (xs ! i) (ys ! i)"
  by (auto simp: grows_def nth_append list_all2_conv_all_nth)

section \<open>Frames are preorders\<close>

lemma frame_refl [simp]:
  "run_frame r r" "step_frame s s" "attempt_frame a a" "effect_frame e e" "parent_frame p p" "child_frame c c"
  by (simp_all add: frame_defs)

lemma run_frame_trans: "run_frame r q \<Longrightarrow> run_frame q t \<Longrightarrow> run_frame r t"
  by (auto simp: run_frame_def same_identity_def)

lemma step_frame_trans: "step_frame r q \<Longrightarrow> step_frame q t \<Longrightarrow> step_frame r t"
  by (auto simp: step_frame_def)

lemma attempt_frame_trans: "attempt_frame r q \<Longrightarrow> attempt_frame q t \<Longrightarrow> attempt_frame r t"
  by (auto simp: attempt_frame_def)

lemma effect_frame_trans: "effect_frame r q \<Longrightarrow> effect_frame q t \<Longrightarrow> effect_frame r t"
  by (auto simp: effect_frame_def same_tool_input_def)

lemma parent_frame_trans: "parent_frame r q \<Longrightarrow> parent_frame q t \<Longrightarrow> parent_frame r t"
  by (auto simp: parent_frame_def)

lemma child_frame_trans: "child_frame r q \<Longrightarrow> child_frame q t \<Longrightarrow> child_frame r t"
  unfolding child_frame_def by (cases r; cases q; cases t) simp

section \<open>The rows of the store\<close>

definition store_grows :: "db \<Rightarrow> db \<Rightarrow> bool" where
  "store_grows s s' \<longleftrightarrow>
     grows run_frame (t_runs s) (t_runs s') \<and> grows step_frame (t_steps s) (t_steps s')
     \<and> grows attempt_frame (t_attempts s) (t_attempts s') \<and> grows (=) (t_checkpoints s) (t_checkpoints s')
     \<and> grows effect_frame (t_effects s) (t_effects s') \<and> grows (=) (t_results s) (t_results s')
     \<and> grows (=) (t_events s) (t_events s') \<and> grows parent_frame (t_parents s) (t_parents s')
     \<and> grows child_frame (t_children s) (t_children s') \<and> grows (=) (t_progress s) (t_progress s')
     \<and> grows outbox_frame\<^sup>*\<^sup>* (t_outbox s) (t_outbox s') \<and> draws s \<le> draws s'"

lemmas frame_grows = grows_refl [of run_frame] grows_refl [of step_frame] grows_refl [of attempt_frame]
  grows_refl [of effect_frame] grows_refl [of parent_frame] grows_refl [of child_frame]
  grows_refl [of "(=)"] grows_refl [of "outbox_frame\<^sup>*\<^sup>*"]

lemma store_grows_refl [simp]: "store_grows s s"
  by (simp add: store_grows_def frame_grows)

lemma store_grows_trans: "store_grows s t \<Longrightarrow> store_grows t u \<Longrightarrow> store_grows s u"
  unfolding store_grows_def
  by (elim conjE, intro conjI;
      (erule (1) grows_equal_trans grows_star_trans le_trans
       | rule grows_trans [where F = run_frame, OF run_frame_trans], assumption+
       | rule grows_trans [where F = step_frame, OF step_frame_trans], assumption+
       | rule grows_trans [where F = attempt_frame, OF attempt_frame_trans], assumption+
       | rule grows_trans [where F = effect_frame, OF effect_frame_trans], assumption+
       | rule grows_trans [where F = parent_frame, OF parent_frame_trans], assumption+
       | rule grows_trans [where F = child_frame, OF child_frame_trans], assumption+))

lemma insert_eventD:
  assumes "insert_event w rid name actor payload now g s = Inr (v, s')"
  shows "s' = s \<or> (\<exists>e. v_run e = strip rid \<and> v_seq e = next_seq (map v_seq (filter (\<lambda>v. v_run v = rid) (t_events s)))
           \<and> (\<exists>p. v_payload e = stored_json w p) \<and> insert_event_row e (s\<lparr>draws := Suc (draws s)\<rparr>) = Inr ((), s'))"
proof -
  obtain existing where "insert_event w rid name actor payload now g s = Inr (v, s')"
    and k: "keyed_event w rid name payload (g_key g) s = Inr existing"
    using assms by (auto simp: insert_event_def result_simps)
  show ?thesis
  proof (cases existing)
    case (Some x)
    then show ?thesis using assms k by (auto simp: insert_event_def result_simps)
  next
    case None
    let ?n = "next_seq (map v_seq (filter (\<lambda>v. v_run v = rid) (t_events s)))"
    obtain e where "make_run_event w \<lparr>v_id = uuid4 w (draws s), v_run = rid, v_seq = ?n, v_name = name,
        v_actor = actor, v_payload = payload, v_step = g_step g, v_causation = g_causation g,
        v_correlation = g_correlation g, v_idem = g_key g, v_created = now\<rparr> = Inr e"
      and "insert_event_row (e\<lparr>v_payload := stored_json w (v_payload e)\<rparr>) (s\<lparr>draws := Suc (draws s)\<rparr>) = Inr ((), s')"
      using assms k None by (simp add: insert_event_def bind_def ret_def gets_def new_uuid_def lift_def
          gets_result_def split: sum.splits prod.splits)
    moreover from this(1) have "v_seq e = ?n" "v_run e = strip rid"
      by (auto simp: make_run_event_def and_then_eq_Inr require_eq_Inr required_eq_Inr)
    ultimately show ?thesis
      by (intro disjI2 exI [of _ "e\<lparr>v_payload := stored_json w (v_payload e)\<rparr>"]) auto
  qed
qed

lemma event_grows: "insert_event w rid name actor payload now g s = Inr (v, s') \<Longrightarrow> store_grows s s'"
  by (drule insert_eventD) (auto simp: insert_event_row_eq store_grows_def frame_grows grows_append)

interpretation rows: store_law store_grows w for w
proof unfold_locales
  fix rid name actor payload now args
  show "keeps store_grows (insert_event w rid name actor payload now args)"
    by (rule keepsI) (rule event_grows)
  show "store_grows s s" for s by simp
  show "store_grows s t \<Longrightarrow> store_grows t u \<Longrightarrow> store_grows s u" for s t u by (rule store_grows_trans)
qed (auto intro!: keepsI
      simp: result_simps store_grows_def frame_grows grows_append grows_upd grows_star_upd split: if_splits)

section \<open>Keys and references\<close>

text \<open>The primary keys and unique constraints of the tables.\<close>

definition keys_unique :: "db \<Rightarrow> bool" where
  "keys_unique s \<longleftrightarrow>
     distinct (map r_id (t_runs s)) \<and> distinct (map (\<lambda>r. (r_tenant r, r_workspace r, r_idem r)) (t_runs s))
     \<and> distinct (map (\<lambda>x. (s_run x, s_id x)) (t_steps s))
     \<and> distinct (map a_id (t_attempts s)) \<and> distinct (map (\<lambda>a. (a_run a, a_step a, a_number a)) (t_attempts s))
     \<and> distinct (map k_id (t_checkpoints s)) \<and> distinct (map (\<lambda>k. (k_run k, k_seq k)) (t_checkpoints s))
     \<and> distinct (map e_id (t_effects s)) \<and> distinct (map (\<lambda>e. (e_run e, e_key e)) (t_effects s))
     \<and> distinct (map x_effect (t_results s)) \<and> distinct (map v_id (t_events s))
     \<and> distinct (map (\<lambda>v. (v_run v, v_idem v)) (filter (\<lambda>v. v_idem v \<noteq> None) (t_events s)))
     \<and> distinct (map p_run (t_parents s)) \<and> distinct (map ch_run (t_children s))
     \<and> distinct (map (\<lambda>c. (ch_parent c, ch_ordinal c)) (t_children s))
     \<and> distinct (map (\<lambda>c. (ch_parent c, ch_idem c)) (t_children s))
     \<and> distinct (map (\<lambda>g. (g_child g, g_seq g)) (t_progress s))
     \<and> distinct (map (\<lambda>g. (g_child g, g_idem g)) (t_progress s))
     \<and> distinct (map o_id (t_outbox s)) \<and> distinct (map o_parent (t_outbox s))"

text \<open>The foreign keys that no update changes.\<close>

definition references_hold :: "db \<Rightarrow> bool" where
  "references_hold s \<longleftrightarrow>
     set (map s_run (t_steps s)) \<subseteq> set (map r_id (t_runs s))
     \<and> set (map (\<lambda>a. (a_run a, a_step a)) (t_attempts s)) \<subseteq> set (map (\<lambda>x. (s_run x, s_id x)) (t_steps s))
     \<and> set (map k_attempt (t_checkpoints s)) \<subseteq> set (map a_id (t_attempts s))
     \<and> set (map x_effect (t_results s)) \<subseteq> set (map e_id (t_effects s))
     \<and> set (map v_run (t_events s)) \<subseteq> set (map r_id (t_runs s))
     \<and> set (map p_run (t_parents s)) \<subseteq> set (map r_id (t_runs s))
     \<and> set (map ch_parent (t_children s)) \<subseteq> set (map p_run (t_parents s))
     \<and> set (map ch_run (t_children s)) \<subseteq> set (map r_id (t_runs s))
     \<and> set (map g_child (t_progress s)) \<subseteq> set (map ch_run (t_children s))
     \<and> set (map o_parent (t_outbox s)) \<subseteq> set (map p_run (t_parents s))"

text \<open>The events of each run are numbered from one without a gap.\<close>

definition events_of :: "string \<Rightarrow> db \<Rightarrow> run_event list" where
  "events_of rid s = filter (\<lambda>v. v_run v = rid) (t_events s)"

definition log_numbered :: "db \<Rightarrow> bool" where
  "log_numbered s \<longleftrightarrow>
     (\<forall>v\<in>set (t_events s). strip (v_run v) = v_run v)
     \<and> (\<forall>rid. map v_seq (events_of rid s) = map int [1..<Suc (length (events_of rid s))])"

definition well_kept :: "db \<Rightarrow> bool" where
  "well_kept s \<longleftrightarrow> keys_unique s \<and> references_hold s \<and> log_numbered s"

lemma distinct_map_snoc:
  "distinct (map f (xs @ [x])) \<longleftrightarrow> distinct (map f xs) \<and> (\<forall>y\<in>set xs. f y \<noteq> f x)"
  by (auto simp: image_iff dest: sym)

lemma log_numbered_append:
  assumes "log_numbered s" and "v_run e = strip rid"
    and "v_seq e = next_seq (map v_seq (filter (\<lambda>v. v_run v = rid) (t_events s)))"
    and "\<forall>q\<in>set (t_events s). \<not> (v_run q = v_run e \<and> v_seq q = v_seq e)"
    and "t_events s' = t_events s @ [e]"
  shows "log_numbered s'"
proof -
  have seqs: "map v_seq (events_of i s) = map int [1..<Suc (length (events_of i s))]" for i
    using assms(1) by (simp add: log_numbered_def)
  let ?n = "length (events_of rid s)"
  have e: "v_seq e = int (Suc ?n)"
    using assms(3) seqs [of rid] next_seq_upto [of ?n] by (simp add: events_of_def)
  have "length (events_of (strip rid) s) = ?n"
  proof (cases "strip rid = rid")
    case False
    then have "events_of rid s = []"
      using assms(1) by (auto simp: log_numbered_def events_of_def filter_empty_conv)
    moreover have "events_of (strip rid) s = []"
    proof (rule ccontr)
      assume ne: "events_of (strip rid) s \<noteq> []"
      then have "1 \<in> set (map v_seq (events_of (strip rid) s))"
        by (subst seqs, cases "length (events_of (strip rid) s)") (auto intro!: image_eqI [of _ int 1])
      with assms(2,4) e \<open>events_of rid s = []\<close> show False by (auto simp: events_of_def)
    qed
    ultimately show ?thesis by simp
  qed simp
  moreover have "events_of i s' = events_of i s @ (if i = strip rid then [e] else [])" for i
    using assms(2,5) by (simp add: events_of_def)
  ultimately show ?thesis
    using assms(1,2,5) seqs e by (auto simp: log_numbered_def)
qed

text \<open>Updates within the frame keep the keys.\<close>

lemma map_keys:
  assumes "\<And>r. P r \<Longrightarrow> k (f r) = k r"
  shows "map k (upd_where P f xs) = map k xs" and "k ` set (upd_where P f xs) = k ` set xs"
proof -
  show "map k (upd_where P f xs) = map k xs" using assms by (rule map_upd_where)
  then show "k ` set (upd_where P f xs) = k ` set xs" by (metis set_map)
qed

lemma child_frameD: "child_frame c q \<Longrightarrow>
   ch_run q = ch_run c \<and> ch_parent q = ch_parent c \<and> ch_ordinal q = ch_ordinal c \<and> ch_idem q = ch_idem c"
  unfolding child_frame_def by (metis child_row.simps(1,2,3,4) child_row.update_convs(9,11) child_row.surjective)

lemma log_numbered_other [simp]:
  "log_numbered (s\<lparr>t_runs := xs_runs\<rparr>) = log_numbered s"
  "log_numbered (s\<lparr>t_steps := xs_steps\<rparr>) = log_numbered s"
  "log_numbered (s\<lparr>t_attempts := xs_attempts\<rparr>) = log_numbered s"
  "log_numbered (s\<lparr>t_checkpoints := xs_checkpoints\<rparr>) = log_numbered s"
  "log_numbered (s\<lparr>t_effects := xs_effects\<rparr>) = log_numbered s"
  "log_numbered (s\<lparr>t_results := xs_results\<rparr>) = log_numbered s"
  "log_numbered (s\<lparr>t_parents := xs_parents\<rparr>) = log_numbered s"
  "log_numbered (s\<lparr>t_children := xs_children\<rparr>) = log_numbered s"
  "log_numbered (s\<lparr>t_progress := xs_progress\<rparr>) = log_numbered s"
  "log_numbered (s\<lparr>t_outbox := xs_outbox\<rparr>) = log_numbered s"
  by (simp_all add: log_numbered_def events_of_def)

lemma mem_image: "a \<in> f ` A \<longleftrightarrow> (\<exists>y\<in>A. f y = a)"
  by auto

lemmas key_simps = well_kept_def keys_unique_def references_hold_def mem_image subset_insertI2

lemma upd_runs_keys:
  "(\<And>r. P r \<Longrightarrow> run_frame r (f r)) \<Longrightarrow> well_kept s \<Longrightarrow> well_kept (s\<lparr>t_runs := upd_where P f (t_runs s)\<rparr>)"
  by (simp add: key_simps map_keys run_frame_def same_identity_def)

lemma upd_steps_keys:
  "(\<And>r. P r \<Longrightarrow> step_frame r (f r)) \<Longrightarrow> well_kept s \<Longrightarrow> well_kept (s\<lparr>t_steps := upd_where P f (t_steps s)\<rparr>)"
  by (simp add: key_simps map_keys step_frame_def)

lemma upd_attempts_keys:
  "(\<And>r. P r \<Longrightarrow> attempt_frame r (f r)) \<Longrightarrow> well_kept s \<Longrightarrow> well_kept (s\<lparr>t_attempts := upd_where P f (t_attempts s)\<rparr>)"
  by (simp add: key_simps map_keys attempt_frame_def)

lemma upd_effects_keys:
  "(\<And>r. P r \<Longrightarrow> effect_frame r (f r)) \<Longrightarrow> well_kept s \<Longrightarrow> well_kept (s\<lparr>t_effects := upd_where P f (t_effects s)\<rparr>)"
  by (simp add: key_simps map_keys effect_frame_def)

lemma upd_parents_keys:
  "(\<And>r. P r \<Longrightarrow> parent_frame r (f r)) \<Longrightarrow> well_kept s \<Longrightarrow> well_kept (s\<lparr>t_parents := upd_where P f (t_parents s)\<rparr>)"
  by (simp add: key_simps map_keys parent_frame_def)

lemma upd_children_keys:
  "(\<And>r. P r \<Longrightarrow> child_frame r (f r)) \<Longrightarrow> well_kept s \<Longrightarrow> well_kept (s\<lparr>t_children := upd_where P f (t_children s)\<rparr>)"
  by (simp add: key_simps map_keys child_frameD)

lemma upd_outbox_keys:
  "(\<And>r. P r \<Longrightarrow> outbox_frame r (f r)) \<Longrightarrow> well_kept s \<Longrightarrow> well_kept (s\<lparr>t_outbox := upd_where P f (t_outbox s)\<rparr>)"
  by (simp add: key_simps map_keys outbox_frame_def)

lemma insert_run_keys: "insert_run r s = Inr (u, s') \<Longrightarrow> well_kept s \<Longrightarrow> well_kept s'"
  by (simp add: insert_run_eq key_simps split: if_splits)

lemma insert_step_keys: "insert_step r s = Inr (u, s') \<Longrightarrow> well_kept s \<Longrightarrow> well_kept s'"
  by (simp add: insert_step_eq key_simps split: if_splits)

lemma insert_attempt_keys: "insert_attempt r s = Inr (u, s') \<Longrightarrow> well_kept s \<Longrightarrow> well_kept s'"
  by (simp add: insert_attempt_eq key_simps split: if_splits)

lemma insert_checkpoint_keys: "insert_checkpoint r s = Inr (u, s') \<Longrightarrow> well_kept s \<Longrightarrow> well_kept s'"
  by (simp add: insert_checkpoint_eq key_simps split: if_splits)

lemma insert_effect_keys: "insert_effect r s = Inr (u, s') \<Longrightarrow> well_kept s \<Longrightarrow> well_kept s'"
  by (simp add: insert_effect_eq key_simps split: if_splits)

lemma insert_result_keys: "insert_result r s = Inr (u, s') \<Longrightarrow> well_kept s \<Longrightarrow> well_kept s'"
  by (simp add: insert_result_eq key_simps split: if_splits)

lemma insert_parent_keys: "insert_parent r s = Inr (u, s') \<Longrightarrow> well_kept s \<Longrightarrow> well_kept s'"
  by (simp add: insert_parent_eq key_simps split: if_splits)

lemma insert_child_keys: "insert_child r s = Inr (u, s') \<Longrightarrow> well_kept s \<Longrightarrow> well_kept s'"
  by (simp add: insert_child_eq key_simps split: if_splits)

lemma insert_progress_keys: "insert_progress r s = Inr (u, s') \<Longrightarrow> well_kept s \<Longrightarrow> well_kept s'"
  by (simp add: insert_progress_eq key_simps split: if_splits)

lemma insert_outbox_keys: "insert_outbox r s = Inr (u, s') \<Longrightarrow> well_kept s \<Longrightarrow> well_kept s'"
  by (simp add: insert_outbox_eq key_simps split: if_splits)

lemma draws_keys [simp]: "well_kept (s\<lparr>draws := n\<rparr>) \<longleftrightarrow> well_kept s"
  by (simp add: well_kept_def keys_unique_def references_hold_def log_numbered_def events_of_def)

lemma insert_event_keys:
  assumes "insert_event w rid name actor payload now g s = Inr (v, s')" and "well_kept s"
  shows "well_kept s'"
  using insert_eventD [OF assms(1)]
proof
  assume "\<exists>e. v_run e = strip rid \<and> v_seq e = next_seq (map v_seq (filter (\<lambda>v. v_run v = rid) (t_events s)))
    \<and> (\<exists>p. v_payload e = stored_json w p) \<and> insert_event_row e (s\<lparr>draws := Suc (draws s)\<rparr>) = Inr ((), s')"
  then obtain e where e: "v_run e = strip rid"
      "v_seq e = next_seq (map v_seq (filter (\<lambda>v. v_run v = rid) (t_events s)))"
    and row: "insert_event_row e (s\<lparr>draws := Suc (draws s)\<rparr>) = Inr ((), s')" by blast
  have "log_numbered s'"
  proof (rule log_numbered_append [OF _ e])
    show "log_numbered s" using assms(2) by (simp add: well_kept_def)
    show "\<forall>q\<in>set (t_events s). \<not> (v_run q = v_run e \<and> v_seq q = v_seq e)" "t_events s' = t_events s @ [e]"
      using row by (simp_all add: insert_event_row_eq)
  qed
  moreover have "references_hold s'"
    using assms(2) row by (simp add: key_simps insert_event_row_eq)
  moreover have "keys_unique s'"
    using assms(2) row by (simp add: key_simps insert_event_row_eq) force
  ultimately show ?thesis by (simp add: well_kept_def)
qed (simp add: assms(2))

interpretation keys: store_law "preserves well_kept" w for w
proof unfold_locales
  fix rid name actor payload now args
  show "keeps (preserves well_kept) (insert_event w rid name actor payload now args)"
    by (rule keepsI, rule preservesI) (rule insert_event_keys)
qed (auto intro!: keepsI preservesI simp: result_simps
      dest: insert_run_keys insert_step_keys insert_attempt_keys insert_checkpoint_keys insert_effect_keys
        insert_result_keys insert_parent_keys insert_child_keys insert_progress_keys insert_outbox_keys
      simp: upd_runs_keys upd_steps_keys upd_attempts_keys upd_effects_keys upd_parents_keys upd_children_keys
        upd_outbox_keys)

lemma well_kept_empty: "well_kept empty_db"
  by (simp add: well_kept_def keys_unique_def references_hold_def log_numbered_def events_of_def empty_db_def)

lemma reachable_well_kept: "reachable w s \<Longrightarrow> well_kept s"
  using keys.reachable_law [of w s] well_kept_empty by (simp add: preserves_def)

end
