(* ===== verification/StatusMachine.thy ===== *)
theory StatusMachine
  imports StoreHistory
begin

text \<open>
  The status of a run under every call of the store.  \<open>call_moves\<close> is the table of the status
  changes each call may make; \<open>sound\<close> the invariant it needs: a run waits for its children
  exactly while its parent row is open, and an effect whose outcome is unknown keeps its run in a
  doubtful state until it is reconciled.
\<close>

section \<open>The table\<close>

abbreviation doubtful :: "run_status \<Rightarrow> bool" where
  "doubtful st \<equiv> st \<in> {RunUnknown, RunFailed, RunCancelled, RunDeadLetter}"

fun call_moves :: "run_call \<Rightarrow> run_status \<Rightarrow> run_status \<Rightarrow> bool" where
  "call_moves (Claim _ _ _ _) a b =
     (a \<in> {RunQueued, RunWaitingForRetry} \<and> b = RunRunning \<or> claimable_or_waiting a \<and> b = RunFailed)"
| "call_moves (YieldStep _ _ _ _) a b = (a = RunRunning \<and> b = RunQueued)"
| "call_moves (FailStep _ _ _ _ _) a b =
     (a = RunRunning \<and> b \<in> {RunWaitingForRetry, RunFailed, RunCancelled})"
| "call_moves (PauseForApproval _ _ _ _ _) a b = (a = RunRunning \<and> b = RunWaitingForApproval)"
| "call_moves (Resume _ _ _ _) a b = (a \<in> {RunWaitingForApproval, RunWaitingForRetry} \<and> b = RunQueued)"
| "call_moves (RequestCancellation _ _ _ _) a b = (claimable_or_waiting a \<and> b = RunCancelled)"
| "call_moves (Cancel _ _ _ _ _) a b =
     (a \<notin> {RunCompleted, RunCancelled, RunWaitingForChildren} \<and> b \<in> {RunUnknown, RunCancelled})"
| "call_moves (Complete _ _ _) a b = (a = RunRunning \<and> b = RunCompleted)"
| "call_moves (Fail _ _ _) a b = (a = RunRunning \<and> b = RunFailed)"
| "call_moves (MarkUnknown _ _ _) a b = (a = RunRunning \<and> b = RunUnknown)"
| "call_moves (MarkEffectUnknown _ _ _ _) a b = (a = RunRunning \<and> b = RunUnknown)"
| "call_moves (DeadLetter _ _ _ _) a b = (a \<notin> {RunCompleted, RunWaitingForChildren} \<and> b = RunDeadLetter)"
| "call_moves (ReconcileExpired _) a b = (a = RunRunning \<and> b \<in> {RunQueued, RunCancelled, RunUnknown})"
| "call_moves (ReconcileEffect _ _ _ _ _ _) a b = (doubtful a \<and> b \<in> {RunQueued, RunFailed, RunCancelled})"
| "call_moves (RequestChildCancellation _ _ _ _) a b = (claimable_or_waiting a \<and> b = RunCancelled)"
| "call_moves (RequestParentCancellation _ _ _) a b = (claimable_or_waiting a \<and> b = RunCancelled)"
| "call_moves (AggregateChildren _ _ _) a b =
     (a = RunWaitingForChildren \<and> b \<in> {RunCompleted, RunFailed, RunCancelled})"
| "call_moves _ a b = False"

text \<open>Every run is still there, at the same status or moved as \<open>S\<close> says; new runs are queued or wait
  for their children.\<close>

definition evolves :: "(run_status \<Rightarrow> run_status \<Rightarrow> bool) \<Rightarrow> db \<Rightarrow> db \<Rightarrow> bool" where
  "evolves S s s' \<longleftrightarrow>
     (\<forall>r\<in>set (t_runs s). \<exists>q\<in>set (t_runs s'). r_id q = r_id r
        \<and> (r_status q = r_status r \<or> S (r_status r) (r_status q)))
     \<and> (\<forall>q\<in>set (t_runs s'). (\<exists>r\<in>set (t_runs s). r_id r = r_id q)
          \<or> r_status q \<in> {RunQueued, RunWaitingForChildren})"

section \<open>The invariant\<close>

definition unknown_at :: "db \<Rightarrow> string \<Rightarrow> string \<Rightarrow> bool" where
  "unknown_at s rid i \<longleftrightarrow> (\<exists>e\<in>set (t_effects s). e_run e = rid \<and> e_id e = i \<and> e_status e = EffectUnknown)"

definition clean_ids :: "db \<Rightarrow> bool" where
  "clean_ids s \<longleftrightarrow> (\<forall>r\<in>set (t_runs s). strip (r_id r) = r_id r)
     \<and> (\<forall>e\<in>set (t_effects s). strip (e_id e) = e_id e \<and> (\<exists>r\<in>set (t_runs s). r_id r = e_run e))"

definition parents_wait :: "db \<Rightarrow> bool" where
  "parents_wait s \<longleftrightarrow>
     (\<forall>p\<in>set (t_parents s). p_status p = AggOpen \<longrightarrow>
        (\<exists>r\<in>set (t_runs s). r_id r = p_run p \<and> r_status r = RunWaitingForChildren))
     \<and> (\<forall>r\<in>set (t_runs s). r_status r = RunWaitingForChildren \<longrightarrow>
        (\<exists>p\<in>set (t_parents s). p_run p = r_id r \<and> p_status p = AggOpen))"

definition doubts_kept :: "db \<Rightarrow> bool" where
  "doubts_kept s \<longleftrightarrow>
     (\<forall>r\<in>set (t_runs s). \<forall>i. unknown_at s (r_id r) i \<longrightarrow> doubtful (r_status r))
     \<and> (\<forall>r\<in>set (t_runs s). \<forall>i j. unknown_at s (r_id r) i \<longrightarrow> unknown_at s (r_id r) j \<longrightarrow> i \<noteq> j \<longrightarrow> r_cancel r)"

definition sound :: "db \<Rightarrow> bool" where
  "sound s \<longleftrightarrow> well_kept s \<and> clean_ids s \<and> parents_wait s \<and> doubts_kept s"

lemma run_of_in: "run_of i s = Some r \<Longrightarrow> r \<in> set (t_runs s) \<and> r_id r = i"
  by (auto simp: find_Some_iff)

lemma same_row: "well_kept s \<Longrightarrow> r \<in> set (t_runs s) \<Longrightarrow> q \<in> set (t_runs s) \<Longrightarrow> r_id q = r_id r \<Longrightarrow> q = r"
  by (auto simp: well_kept_def keys_unique_def distinct_map dest: inj_onD)

lemma same_effect: "well_kept s \<Longrightarrow> e \<in> set (t_effects s) \<Longrightarrow> f \<in> set (t_effects s) \<Longrightarrow> e_id f = e_id e \<Longrightarrow> f = e"
  by (auto simp: well_kept_def keys_unique_def distinct_map dest: inj_onD)

text \<open>One run changes, and effects of that run only: what has to be shown of the run.\<close>

definition row_moves :: "(run_status \<Rightarrow> run_status \<Rightarrow> bool) \<Rightarrow> db \<Rightarrow> run_row \<Rightarrow> run_row \<Rightarrow> bool" where
  "row_moves S s' r q \<longleftrightarrow>
     r_id q = r_id r \<and> (r_cancel r \<longrightarrow> r_cancel q)
     \<and> (r_status q = RunWaitingForChildren \<longleftrightarrow> r_status r = RunWaitingForChildren)
     \<and> (\<forall>i. unknown_at s' (r_id r) i \<longrightarrow> doubtful (r_status q))
     \<and> (\<forall>i j. unknown_at s' (r_id r) i \<longrightarrow> unknown_at s' (r_id r) j \<longrightarrow> i \<noteq> j \<longrightarrow> r_cancel q)
     \<and> (r_status q = r_status r \<or> S (r_status r) (r_status q))"

lemma list_all2_rows:
  assumes "list_all2 Q xs ys"
  shows "x \<in> set xs \<Longrightarrow> \<exists>y\<in>set ys. Q x y" and "y \<in> set ys \<Longrightarrow> \<exists>x\<in>set xs. Q x y"
  using assms by (auto simp: list_all2_conv_all_nth in_set_conv_nth) (metis nth_mem)+

lemma sound_update:
  assumes sound: "sound s" and kept: "well_kept s'"
    and rows: "list_all2 (\<lambda>r q. if r_id r = rid then row_moves S s' r q else q = r) (t_runs s) (t_runs s')"
    and parents: "t_parents s' = t_parents s"
    and others: "\<And>i k. unknown_at s' i k \<Longrightarrow> i \<noteq> rid \<Longrightarrow> unknown_at s i k"
    and owned: "\<And>e. e \<in> set (t_effects s') \<Longrightarrow> strip (e_id e) = e_id e
        \<and> ((\<exists>f\<in>set (t_effects s). e_run f = e_run e) \<or> (\<exists>r\<in>set (t_runs s). r_id r = e_run e))"
  shows "sound s' \<and> evolves S s s'"
proof -
  have fwd: "\<exists>q\<in>set (t_runs s'). r_id q = r_id r \<and> (r_status q = r_status r \<or> S (r_status r) (r_status q))
      \<and> (r_status q = RunWaitingForChildren \<longleftrightarrow> r_status r = RunWaitingForChildren)"
    if "r \<in> set (t_runs s)" for r
    using list_all2_rows(1) [OF rows that] by (auto simp: row_moves_def split: if_splits)
  have bwd: "\<exists>r\<in>set (t_runs s). r_id q = r_id r
      \<and> (r_status q = RunWaitingForChildren \<longleftrightarrow> r_status r = RunWaitingForChildren)
      \<and> (r_id r \<noteq> rid \<longrightarrow> q = r)
      \<and> (r_id r = rid \<longrightarrow> row_moves S s' r q)" if "q \<in> set (t_runs s')" for q
    using list_all2_rows(2) [OF rows that] by (auto simp: row_moves_def split: if_splits)
  have ids: "(\<exists>q\<in>set (t_runs s'). r_id q = i) \<longleftrightarrow> (\<exists>r\<in>set (t_runs s). r_id r = i)" for i
    using fwd bwd by metis
  have "clean_ids s'"
    unfolding clean_ids_def
  proof (intro conjI ballI)
    show "strip (r_id q) = r_id q" if "q \<in> set (t_runs s')" for q
      using bwd [OF that] sound by (auto simp: sound_def clean_ids_def)
    show "strip (e_id e) = e_id e" if "e \<in> set (t_effects s')" for e
      using owned [OF that] by simp
    show "\<exists>r\<in>set (t_runs s'). r_id r = e_run e" if "e \<in> set (t_effects s')" for e
      using owned [OF that] sound unfolding ids sound_def clean_ids_def by metis
  qed
  moreover have "parents_wait s'"
    unfolding parents_wait_def parents
  proof (intro conjI ballI impI)
    fix p assume "p \<in> set (t_parents s)" and "p_status p = AggOpen"
    then obtain r where "r \<in> set (t_runs s)" "r_id r = p_run p" "r_status r = RunWaitingForChildren"
      using sound by (auto simp: sound_def parents_wait_def)
    then show "\<exists>r\<in>set (t_runs s'). r_id r = p_run p \<and> r_status r = RunWaitingForChildren"
      using fwd [of r] by metis
  next
    fix q assume "q \<in> set (t_runs s')" and "r_status q = RunWaitingForChildren"
    then show "\<exists>p\<in>set (t_parents s). p_run p = r_id q \<and> p_status p = AggOpen"
      using bwd [of q] sound unfolding sound_def parents_wait_def by metis
  qed
  moreover have "doubts_kept s'"
    unfolding doubts_kept_def
  proof (intro conjI ballI allI impI)
    fix q i assume q: "q \<in> set (t_runs s')" "unknown_at s' (r_id q) i"
    show "doubtful (r_status q)"
      using bwd [OF q(1)] q(2) others sound unfolding sound_def doubts_kept_def row_moves_def by metis
  next
    fix q i j assume q: "q \<in> set (t_runs s')" "unknown_at s' (r_id q) i" "unknown_at s' (r_id q) j" "i \<noteq> j"
    show "r_cancel q"
      using bwd [OF q(1)] q(2-) others sound unfolding sound_def doubts_kept_def row_moves_def by metis
  qed
  moreover have "evolves S s s'"
    unfolding evolves_def
  proof (intro conjI ballI)
    show "\<exists>q\<in>set (t_runs s'). r_id q = r_id r \<and> (r_status q = r_status r \<or> S (r_status r) (r_status q))"
      if "r \<in> set (t_runs s)" for r using fwd [OF that] by blast
    show "(\<exists>r\<in>set (t_runs s). r_id r = r_id q) \<or> r_status q \<in> {RunQueued, RunWaitingForChildren}"
      if "q \<in> set (t_runs s')" for q using bwd [OF that] by auto
  qed
  ultimately show ?thesis using kept by (simp add: sound_def)
qed

section \<open>Operations that leave effects and parents alone\<close>

definition same_ledger :: "db \<Rightarrow> db \<Rightarrow> bool" where
  "same_ledger s s' \<longleftrightarrow> t_effects s' = t_effects s \<and> t_parents s' = t_parents s"

definition same_parents :: "db \<Rightarrow> db \<Rightarrow> bool" where
  "same_parents s s' \<longleftrightarrow> t_parents s' = t_parents s"

lemma event_ledger: "insert_event w rid name actor payload now g s = Inr (v, s') \<Longrightarrow> same_ledger s s'"
  by (drule insert_event_quiet) (simp add: quiet_def same_ledger_def)

interpretation ledger: child_law same_ledger w for w
proof unfold_locales
  fix rid name actor payload now args
  show "keeps same_ledger (insert_event w rid name actor payload now args)"
    by (rule keepsI) (rule event_ledger)
qed (auto intro!: keepsI simp: same_ledger_def result_simps split: if_splits)

interpretation parents: effect_law same_parents w for w
proof unfold_locales
  fix rid name actor payload now args
  show "keeps same_parents (insert_event w rid name actor payload now args)"
    by (rule keepsI) (auto dest!: event_ledger simp: same_ledger_def same_parents_def)
qed (auto intro!: keepsI simp: same_parents_def result_simps split: if_splits)

lemma same_ledger_unknown: "same_ledger s s' \<Longrightarrow> unknown_at s' = unknown_at s"
  by (simp add: same_ledger_def unknown_at_def fun_eq_iff)

lemma sound_ledger_update:
  assumes "sound s" and "well_kept s'" and "same_ledger s s'"
    and "list_all2 (\<lambda>r q. if r_id r = rid then row_moves S s' r q else q = r) (t_runs s) (t_runs s')"
  shows "sound s' \<and> evolves S s s'"
proof (rule sound_update [OF assms(1,2,4)])
  show "t_parents s' = t_parents s" using assms(3) by (simp add: same_ledger_def)
  show "unknown_at s i k" if "unknown_at s' i k" for i k
    using that by (simp add: same_ledger_unknown [OF assms(3)])
  fix e assume "e \<in> set (t_effects s')"
  then have e: "e \<in> set (t_effects s)" using assms(3) by (simp add: same_ledger_def)
  then have "strip (e_id e) = e_id e" using assms(1) by (simp add: sound_def clean_ids_def)
  with e show "strip (e_id e) = e_id e \<and> ((\<exists>f\<in>set (t_effects s). e_run f = e_run e)
      \<or> (\<exists>r\<in>set (t_runs s). r_id r = e_run e))" by blast
qed

text \<open>The run keeps its status.\<close>

lemma sound_touches:
  assumes "sound s" and "well_kept s'" and "same_ledger s s'" and "touches_runs rid (t_runs s) (t_runs s')"
  shows "sound s' \<and> evolves S s s'"
proof (rule sound_ledger_update [OF assms(1-3)])
  show "list_all2 (\<lambda>r q. if r_id r = rid then row_moves S s' r q else q = r) (t_runs s) (t_runs s')"
    using assms(4) unfolding touches_runs_def
  proof (rule list.rel_mono_strong)
    fix r q assume r: "r \<in> set (t_runs s)" and t: "if r_id r = rid then touches r q else q = r"
    show "if r_id r = rid then row_moves S s' r q else q = r"
      using t r assms(1) same_ledger_unknown [OF assms(3)]
      by (auto simp: row_moves_def touches_def same_identity_def sound_def doubts_kept_def)
  qed
qed

lemma evolves_refl [simp]: "evolves S s s"
  by (auto simp: evolves_def)

lemma sound_same_runs:
  assumes "sound s" and "well_kept s'" and "same_ledger s s'" and "t_runs s' = t_runs s"
  shows "sound s' \<and> evolves S s s'"
  using assms by (intro sound_touches [where rid = "[]"]) simp_all

text \<open>The run moves from a status that knows no doubt, or to a doubtful one.\<close>

lemma sound_moves:
  assumes "sound s" and "well_kept s'" and "same_ledger s s'" and "moves_runs rid st (t_runs s) (t_runs s')"
    and "run_of rid s = Some r" and "r_status r \<noteq> RunWaitingForChildren" and "st \<noteq> RunWaitingForChildren"
    and "doubtful (r_status r) \<longrightarrow> doubtful st" and "S (r_status r) st"
  shows "sound s' \<and> evolves S s s'"
proof (rule sound_ledger_update [OF assms(1-3)])
  have r: "r \<in> set (t_runs s)" "r_id r = rid" using run_of_in [OF assms(5)] by auto
  show "list_all2 (\<lambda>r q. if r_id r = rid then row_moves S s' r q else q = r) (t_runs s) (t_runs s')"
    using assms(4) unfolding moves_runs_def
  proof (rule list.rel_mono_strong)
    fix x q assume x: "x \<in> set (t_runs s)" and m: "if r_id x = rid then settles st x q else q = x"
    show "if r_id x = rid then row_moves S s' x q else q = x"
    proof (cases "r_id x = rid")
      case True
      then have xr: "x = r" using same_row [of s r x] assms(1) r x by (simp add: sound_def)
      have q: "r_id q = r_id x" "r_status q = st" "r_cancel x \<longrightarrow> r_cancel q"
        using m True by (simp_all add: settles_def same_identity_def)
      have "unknown_at s (r_id x) i \<longrightarrow> doubtful (r_status r)"
        "unknown_at s (r_id x) i \<longrightarrow> unknown_at s (r_id x) j \<longrightarrow> i \<noteq> j \<longrightarrow> r_cancel x" for i j
        using assms(1) x r(1) xr unfolding sound_def doubts_kept_def by blast+
      then have "row_moves S s' x q"
        unfolding row_moves_def same_ledger_unknown [OF assms(3)] q(1,2)
        using assms(6-9) q(3) xr by blast
      with True show ?thesis by simp
    qed (use m in simp)
  qed
qed

section \<open>Operations that advance a sound store\<close>

definition advances :: "(run_status \<Rightarrow> run_status \<Rightarrow> bool) \<Rightarrow> (db, 'a) op \<Rightarrow> bool" where
  "advances S m \<longleftrightarrow> (\<forall>s x s'. sound s \<longrightarrow> m s = Inr (x, s') \<longrightarrow> sound s' \<and> evolves S s s')"

lemma advancesI:
  assumes "keeps (preserves well_kept) m"
    and "\<And>s x s'. sound s \<Longrightarrow> well_kept s' \<Longrightarrow> m s = Inr (x, s') \<Longrightarrow> sound s' \<and> evolves S s s'"
  shows "advances S m"
  unfolding advances_def
proof (intro allI impI)
  fix s x s' assume a: "sound s" "m s = Inr (x, s')"
  have "well_kept s'" using keepsD [OF assms(1) a(2)] a(1) by (simp add: preserves_def sound_def)
  then show "sound s' \<and> evolves S s s'" by (rule assms(2) [OF a(1) _ a(2)])
qed

lemma advances_done: "advances S m \<Longrightarrow> advances S (done_after m)"
  by (auto simp: advances_def done_after_def result_simps)

lemma advances_lift: "(\<And>x. r = Inr x \<Longrightarrow> advances S (f x)) \<Longrightarrow> advances S (bind (lift r) f)"
  by (auto simp: advances_def result_simps)

lemma advances_touch:
  assumes "keeps (preserves well_kept) m" and "keeps same_ledger m"
    and "\<And>s. post m (\<lambda>_ s'. \<exists>rid. touches_runs rid (t_runs s) (t_runs s')) s"
  shows "advances S m"
proof (rule advancesI [OF assms(1)])
  fix s x s' assume a: "sound s" "well_kept s'" "m s = Inr (x, s')"
  obtain rid where "touches_runs rid (t_runs s) (t_runs s')" using postD [OF assms(3) a(3)] by blast
  then show "sound s' \<and> evolves S s s'" by (rule sound_touches [OF a(1,2) keepsD [OF assms(2) a(3)]])
qed

lemma advances_move:
  assumes "keeps (preserves well_kept) m" and "keeps same_ledger m"
    and "\<And>s. sound s \<Longrightarrow> post m (\<lambda>_ s'. (\<exists>rid. touches_runs rid (t_runs s) (t_runs s'))
        \<or> (\<exists>rid r st. run_of rid s = Some r \<and> moves_runs rid st (t_runs s) (t_runs s')
            \<and> r_status r \<noteq> RunWaitingForChildren \<and> st \<noteq> RunWaitingForChildren
            \<and> (doubtful (r_status r) \<longrightarrow> doubtful st) \<and> S (r_status r) st)) s"
  shows "advances S m"
proof (rule advancesI [OF assms(1)])
  fix s x s' assume a: "sound s" "well_kept s'" "m s = Inr (x, s')"
  note l = keepsD [OF assms(2) a(3)]
  from postD [OF assms(3) [OF a(1)] a(3)] show "sound s' \<and> evolves S s s'"
    using sound_touches [OF a(1,2) l] sound_moves [OF a(1,2) l] by blast
qed

lemma advances_leased:
  assumes "keeps (preserves well_kept) m" and "keeps same_ledger m"
    and "\<And>s. post m (\<lambda>_ s'. leased c now s
        \<and> (\<exists>st\<in>X. moves_runs (c_run c) st (t_runs s) (t_runs s'))) s"
    and "\<And>st. st \<in> X \<Longrightarrow> st \<noteq> RunWaitingForChildren \<and> S RunRunning st"
  shows "advances S m"
  by (rule advances_move [OF assms(1,2)], rule post_weaken [OF assms(3)])
    (use assms(4) in \<open>fastforce dest!: leased_running\<close>)

subsection \<open>Host and worker calls\<close>

lemma advances_touches:
  "advances S (record_event w now scope rid n a p g)" "advances S (renew w now scope c k)"
  "advances S (start_step w now scope c sid)" "advances S (add_checkpoint w now scope c sid n p)"
  "advances S (complete_step w now scope c sid q)" "advances S (steer w now scope rid i a n)"
  "advances S (record_child_progress w now scope c k p n)"
  by (rule advances_touch, rule keys.record_event_law keys.renew_law keys.start_step_law keys.add_checkpoint_law
        keys.complete_step_law keys.steer_law keys.record_child_progress_law,
      rule ledger.record_event_law ledger.renew_law ledger.start_step_law ledger.add_checkpoint_law
        ledger.complete_step_law ledger.steer_law ledger.record_child_progress_law,
      rule post_weaken, rule record_event_runs renew_runs start_step_runs add_checkpoint_runs
        complete_step_runs steer_runs record_child_progress_runs, force intro: exI [of _ "[]"])+

lemma yield_step_advances: "advances (\<lambda>a b. a = RunRunning \<and> b = RunQueued) (yield_step w now scope c sid p)"
  by (rule advances_leased [where X = "{RunQueued}" and c = c and now = now, OF keys.yield_step_law
        ledger.yield_step_law post_weaken [OF yield_step_runs]]) auto

lemma fail_step_advances: "advances (\<lambda>a b. a = RunRunning \<and> b \<in> {RunWaitingForRetry, RunFailed, RunCancelled}) (fail_step w now scope c sid rs k)"
  by (rule advances_leased [where X = "{RunWaitingForRetry, RunFailed, RunCancelled}" and c = c and now = now, OF keys.fail_step_law
        ledger.fail_step_law post_weaken [OF fail_step_runs]]) auto

lemma pause_for_approval_advances: "advances (\<lambda>a b. a = RunRunning \<and> b = RunWaitingForApproval) (pause_for_approval w now scope c sid i p)"
  by (rule advances_leased [where X = "{RunWaitingForApproval}" and c = c and now = now, OF keys.pause_for_approval_law
        ledger.pause_for_approval_law post_weaken [OF pause_for_approval_runs]]) auto

lemma complete_run_advances: "advances (\<lambda>a b. a = RunRunning \<and> b = RunCompleted) (complete_run w now scope c p)"
  by (rule advances_leased [where X = "{RunCompleted}" and c = c and now = now, OF keys.complete_run_law
        ledger.complete_run_law post_weaken [OF complete_run_runs]]) auto

lemma fail_run_advances: "advances (\<lambda>a b. a = RunRunning \<and> b = RunFailed) (fail_run w now scope c rs)"
  by (rule advances_leased [where X = "{RunFailed}" and c = c and now = now, OF keys.fail_run_law
        ledger.fail_run_law post_weaken [OF fail_run_runs]]) auto

lemma mark_unknown_advances: "advances (\<lambda>a b. a = RunRunning \<and> b = RunUnknown) (mark_unknown w now scope c rs)"
  by (rule advances_leased [where X = "{RunUnknown}" and c = c and now = now, OF keys.mark_unknown_law
        ledger.mark_unknown_law post_weaken [OF mark_unknown_runs]]) auto

lemma no_parent_waits:
  "sound s \<Longrightarrow> no_parent rid s \<Longrightarrow> run_of rid s = Some r \<Longrightarrow> r_status r \<noteq> RunWaitingForChildren"
  by (auto simp: sound_def parents_wait_def no_parent_def dest!: run_of_in)

lemma resume_advances:
  "advances (\<lambda>a b. a \<in> {RunWaitingForApproval, RunWaitingForRetry} \<and> b = RunQueued) (resume w now scope rid a rs)"
  by (rule advances_move [OF keys.resume_law ledger.resume_law], rule post_weaken [OF resume_runs]) fastforce

lemma request_cancellation_advances:
  "advances (\<lambda>a b. claimable_or_waiting a \<and> b = RunCancelled) (request_cancellation w now scope rid a rs)"
proof (rule advances_move [OF keys.request_cancellation_law ledger.request_cancellation_law])
  fix s assume "sound s"
  show "post (request_cancellation w now scope rid a rs)
     (\<lambda>_ s'. (\<exists>rid. touches_runs rid (t_runs s) (t_runs s'))
        \<or> (\<exists>rid r st. run_of rid s = Some r \<and> moves_runs rid st (t_runs s) (t_runs s')
            \<and> r_status r \<noteq> RunWaitingForChildren \<and> st \<noteq> RunWaitingForChildren
            \<and> (doubtful (r_status r) \<longrightarrow> doubtful st) \<and> (claimable_or_waiting (r_status r) \<and> st = RunCancelled))) s"
    by (rule post_weaken [OF request_cancellation_runs]) (metis run_status.distinct touches_runs_refl insertE singletonD empty_iff insertI1)
qed

lemma dead_letter_advances:
  "advances (\<lambda>a b. a \<notin> {RunCompleted, RunWaitingForChildren} \<and> b = RunDeadLetter) (dead_letter w now scope rid a rs)"
  by (rule advances_move [OF keys.dead_letter_law ledger.dead_letter_law], rule post_weaken [OF dead_letter_runs])
    (fastforce dest: no_parent_waits)

subsection \<open>Claims\<close>

lemma row_moves_same:
  assumes "sound s" and "r \<in> set (t_runs s)" and "unknown_at s' = unknown_at s" and "r_id q = r_id r"
    and "r_cancel r \<longrightarrow> r_cancel q" and "r_status q = RunWaitingForChildren \<longleftrightarrow> r_status r = RunWaitingForChildren"
    and "doubtful (r_status r) \<longrightarrow> doubtful (r_status q)"
    and "r_status q = r_status r \<or> S (r_status r) (r_status q)"
  shows "row_moves S s' r q"
proof -
  have "unknown_at s (r_id r) i \<longrightarrow> doubtful (r_status r)"
    "unknown_at s (r_id r) i \<longrightarrow> unknown_at s (r_id r) j \<longrightarrow> i \<noteq> j \<longrightarrow> r_cancel r" for i j
    using assms(1,2) unfolding sound_def doubts_kept_def by blast+
  then show ?thesis unfolding row_moves_def assms(3) using assms(4-) by blast
qed

lemma claim_run_advances:
  "advances (\<lambda>a b. a \<in> {RunQueued, RunWaitingForRetry} \<and> b = RunRunning \<or> claimable_or_waiting a \<and> b = RunFailed)
     (claim_run w now scope worker k rid)" (is "advances ?S _")
proof (rule advancesI [OF keys.claim_run_law])
  fix s c s' assume a: "sound s" "well_kept s'" "claim_run w now scope worker k rid s = Inr (c, s')"
  note l = keepsD [OF ledger.claim_run_law a(3)]
  have claims: "claims_run w scope rid now c s s'" by (rule postD [OF claim_run_runs a(3)])
  show "sound s' \<and> evolves ?S s s'"
  proof (cases c)
    case None
    then obtain i where "expires_run i s s'" using claims by (auto simp: claims_run_def)
    then show ?thesis
      unfolding expires_run_def
      using sound_same_runs [OF a(1,2) l] sound_moves [OF a(1,2) l, of i RunFailed _ ?S]
      by auto
  next
    case (Some d)
    then obtain row wk lease where t: "takes_row w row wk lease now d s s'"
      using claims by (auto simp: claims_run_def)
    have "list_all2 (\<lambda>r q. if r_id r = r_id row then row_moves ?S s' r q else q = r) (t_runs s) (t_runs s')"
      using t unfolding takes_row_def
      by (auto intro!: list_all2_upd_where row_moves_same [OF a(1)] simp: same_ledger_unknown [OF l] claimed_row_def split: if_splits)
    then show ?thesis by (rule sound_ledger_update [OF a(1,2) l])
  qed
qed

lemma sound_cancels_child:
  assumes "sound s" and "well_kept s'" and "cancels_child i s s'"
  shows "sound s' \<and> evolves (\<lambda>a b. claimable_or_waiting a \<and> b = RunCancelled) s s'"
proof -
  have l: "same_ledger s s'" using assms(3) by (simp add: cancels_child_def same_ledger_def)
  show ?thesis
    using assms(3) sound_same_runs [OF assms(1,2) l] sound_touches [OF assms(1,2) l, of i]
      sound_moves [OF assms(1,2) l, of i RunCancelled _ "\<lambda>a b. claimable_or_waiting a \<and> b = RunCancelled"]
    by (auto simp: cancels_child_def)
qed

lemma request_child_cancellation_advances:
  "advances (\<lambda>a b. claimable_or_waiting a \<and> b = RunCancelled) (request_child_cancellation w now ps i a rs)"
  by (rule advancesI [OF keys.request_child_cancellation_law])
    (auto dest!: postD [OF request_child_cancellation_runs] dest: sound_cancels_child)

subsection \<open>Submissions\<close>

lemma sound_adds:
  assumes "sound s" and "well_kept s'" and "t_effects s' = t_effects s"
    and "t_runs s' = t_runs s @ [r]" and "strip (r_id r) = r_id r" and "\<forall>q\<in>set (t_runs s). r_id q \<noteq> r_id r"
    and "t_parents s' = t_parents s \<and> r_status r = RunQueued
      \<or> (\<exists>p. t_parents s' = t_parents s @ [p] \<and> p_run p = r_id r \<and> p_status p = AggOpen \<and> r_status r = RunWaitingForChildren)"
  shows "sound s' \<and> evolves S s s'"
proof -
  have u: "unknown_at s' = unknown_at s" by (simp add: unknown_at_def assms(3) fun_eq_iff)
  have n: "\<not> unknown_at s (r_id r) i" for i
    using assms(1,6) by (auto simp: sound_def clean_ids_def unknown_at_def)
  have "clean_ids s'" using assms(1,3,4,5) by (auto simp: sound_def clean_ids_def)
  moreover have "parents_wait s'"
    using assms(1,4,7) unfolding sound_def parents_wait_def by auto
  moreover have "doubts_kept s'"
    using assms(1,4) n unfolding sound_def doubts_kept_def u by auto
  moreover have "evolves S s s'" using assms(4,7) by (auto simp: evolves_def)
  ultimately show ?thesis using assms(2) by (simp add: sound_def)
qed

lemma sound_adds_run:
  assumes "sound s" and "well_kept s'" and "same_ledger s s'" and "strip (sc_run scope) = sc_run scope"
    and "adds_run w scope sub k now s s'"
  shows "sound s' \<and> evolves S s s'"
  using assms by (intro sound_adds [OF assms(1,2)]) (auto simp: adds_run_def same_ledger_def)

lemma submit_advances: "strip (sc_run scope) = sc_run scope \<Longrightarrow> advances S (submit w now scope sub a)"
  by (rule advancesI [OF keys.submit_law], frule postD [OF submit_runs], drule keepsD [OF ledger.submit_law])
    (elim disjE conjE exE, rule sound_adds_run, assumption+, rule sound_same_runs)

lemma submit_child_advances: "strip (sc_run cs) = sc_run cs \<Longrightarrow> advances S (submit_child w now ps cs sub v a)"
  by (rule advancesI [OF keys.submit_child_law], frule postD [OF submit_child_runs], drule keepsD [OF ledger.submit_child_law])
    (elim disjE conjE exE, rule sound_adds_run, assumption+, rule sound_same_runs)

lemma submit_parent_effects: "post (submit_parent w now scope sub policy a) (\<lambda>_ s'. t_effects s' = t_effects s) s"
proof -
  have submit_run: "post (submit_run w scope sub a now k) (\<lambda>_ s'. t_effects s' = t_effects s) s" for k a
    using ledger.submit_run_law by (auto simp: post_def keeps_def same_ledger_def)
  show ?thesis
    unfolding submit_parent_def
    by (intro post_intros post_weaken [OF submit_run]) (auto simp: quiet_def)
qed

lemma submit_parent_advances:
  "strip (sc_run scope) = sc_run scope \<Longrightarrow> advances S (submit_parent w now scope sub policy a)"
proof (rule advancesI [OF keys.submit_parent_law])
  fix s x s' assume c: "strip (sc_run scope) = sc_run scope"
    and a: "sound s" "well_kept s'" "submit_parent w now scope sub policy a s = Inr (x, s')"
  note e = postD [OF submit_parent_effects a(3)]
  consider "s' = s" | "adds_parent scope s s'" | "adds_run w scope sub None now s s'" "t_parents s' = t_parents s"
    using postD [OF submit_parent_runs [OF c] a(3)] by blast
  then show "sound s' \<and> evolves S s s'"
  proof cases
    case 2
    then obtain r p where "t_runs s' = t_runs s @ [r]" "r_id r = sc_run scope"
      "\<forall>q\<in>set (t_runs s). r_id q \<noteq> sc_run scope" "t_parents s' = t_parents s @ [p]"
      "p_run p = sc_run scope" "p_status p = AggOpen" "r_status r = RunWaitingForChildren"
      by (auto simp: adds_parent_def)
    with c show ?thesis by (intro sound_adds [OF a(1,2) e, of r]) auto
  next
    case 3
    then show ?thesis using sound_adds_run [OF a(1,2) _ c] e by (simp add: same_ledger_def)
  qed (use a in simp)
qed

subsection \<open>Parents\<close>

lemma settle_all_evidence_effects:
  "post (map_op (settle_child_evidence w now) children) (\<lambda>_ s'. t_effects s' = t_effects s) s"
  by (rule post_map_op) (auto simp: post_def dest!: keepsD [OF ledger.settle_child_evidence_law] simp: same_ledger_def)

lemma settle_parent_effects: "post (settle_parent w now p a k ev) (\<lambda>_ s'. t_effects s' = t_effects s) s"
  unfolding settle_parent_def by (intro post_intros) (auto simp: quiet_def)

lemma aggregate_children_effects:
  "post (aggregate_children w now ps a k) (\<lambda>_ s'. t_effects s' = t_effects s) s"
  unfolding aggregate_children_def
  by (intro post_intros post_weaken [OF settle_all_evidence_effects] post_weaken [OF settle_parent_effects]) simp_all

lemma sound_closes:
  assumes a: "sound s" "well_kept s'" and e: "t_effects s' = t_effects s"
    and r: "r \<in> set (t_runs s)" "r_id r = rid" "r_status r = RunWaitingForChildren"
    and st: "st \<noteq> RunWaitingForChildren" "S RunWaitingForChildren st"
    and m: "moves_runs rid st (t_runs s) (t_runs s')" and c: "closes_parents rid (t_parents s) (t_parents s')"
  shows "sound s' \<and> evolves S s s'"
proof -
  have u: "unknown_at s' = unknown_at s" by (simp add: unknown_at_def e fun_eq_iff)
  have none: "\<not> unknown_at s rid i" for i
    using a(1) r unfolding sound_def doubts_kept_def by fastforce
  note ps = list_all2_rows [OF c [unfolded closes_parents_def]]
  have fwd: "\<exists>q\<in>set (t_runs s'). r_id q = r_id x \<and> (r_status q = r_status x \<or> S (r_status x) (r_status q))
      \<and> (r_id x \<noteq> rid \<longrightarrow> q = x)" if x: "x \<in> set (t_runs s)" for x
  proof (cases "r_id x = rid")
    case True
    then have "x = r" using same_row [of s r x] r x a(1) by (simp add: sound_def)
    then show ?thesis
      using list_all2_rows(1) [OF m [unfolded moves_runs_def] x] r st by (auto simp: settles_def same_identity_def)
  qed (use list_all2_rows(1) [OF m [unfolded moves_runs_def] x] in \<open>auto split: if_splits\<close>)
  have bwd: "\<exists>x\<in>set (t_runs s). r_id q = r_id x \<and> (r_id x \<noteq> rid \<longrightarrow> q = x) \<and> (r_id x = rid \<longrightarrow> r_status q = st)"
    if q: "q \<in> set (t_runs s')" for q
    using list_all2_rows(2) [OF m [unfolded moves_runs_def] q] unfolding settles_def same_identity_def by metis
  have old: "q \<in> set (t_runs s)" if "q \<in> set (t_runs s')" "r_id q \<noteq> rid \<or> r_status q \<noteq> st" for q
    using bwd [OF that(1)] that(2) by auto
  have "clean_ids s'"
    unfolding clean_ids_def e using a(1) fwd bwd unfolding sound_def clean_ids_def by metis
  moreover have "parents_wait s'"
    unfolding parents_wait_def
  proof (intro conjI ballI impI)
    fix q assume q: "q \<in> set (t_parents s')" "p_status q = AggOpen"
    then have "q \<in> set (t_parents s)" "p_run q \<noteq> rid"
      using ps(2) [OF q(1)] by (auto split: if_splits)
    with q(2) a(1) fwd show "\<exists>x\<in>set (t_runs s'). r_id x = p_run q \<and> r_status x = RunWaitingForChildren"
      unfolding sound_def parents_wait_def by metis
  next
    fix q assume q: "q \<in> set (t_runs s')" "r_status q = RunWaitingForChildren"
    then have qs: "q \<in> set (t_runs s)" using old st by metis
    obtain p where p: "p \<in> set (t_parents s)" "p_run p = r_id q" "p_status p = AggOpen"
      using a(1) qs q(2) unfolding sound_def parents_wait_def by metis
    have "r_id q \<noteq> rid" using bwd [OF q(1)] q(2) st by metis
    then have "p \<in> set (t_parents s')" using ps(1) [OF p(1)] p(2) by auto
    with p show "\<exists>p\<in>set (t_parents s'). p_run p = r_id q \<and> p_status p = AggOpen" by blast
  qed
  moreover have "doubts_kept s'"
    using a(1) old none unfolding doubts_kept_def u sound_def by metis
  moreover have "evolves S s s'" unfolding evolves_def using fwd bwd by metis
  ultimately show ?thesis using a(2) by (simp add: sound_def)
qed

lemma aggregate_children_advances:
  "advances (\<lambda>a b. a = RunWaitingForChildren \<and> b \<in> {RunCompleted, RunFailed, RunCancelled})
     (aggregate_children w now ps a k)" (is "advances ?S _")
proof (rule advancesI [OF keys.aggregate_children_law])
  fix s x s' assume a: "sound s" "well_kept s'" "aggregate_children w now ps a k s = Inr (x, s')"
  show "sound s' \<and> evolves ?S s s'"
  proof (cases "s' = s")
    case False
    then obtain p r st where p: "find (\<lambda>p. p_run p = sc_run ps) (t_parents s) = Some p" "p_status p = AggOpen"
      and r: "run_of (sc_run ps) s = Some r" and st: "st \<in> {RunCompleted, RunFailed, RunCancelled}"
      and m: "moves_runs (strip (sc_run ps)) st (t_runs s) (t_runs s')"
      and c: "closes_parents (strip (sc_run ps)) (t_parents s) (t_parents s')"
      using postD [OF aggregate_children_runs a(3)] by (auto simp: settles_parent_def)
    have rs: "r \<in> set (t_runs s)" "r_id r = sc_run ps" using run_of_in [OF r] by auto
    have clean: "strip (sc_run ps) = sc_run ps" using a(1) rs by (auto simp: sound_def clean_ids_def)
    have "p \<in> set (t_parents s)" "p_run p = sc_run ps" using p(1) by (auto simp: find_Some_iff)
    then obtain r' where "r' \<in> set (t_runs s)" "r_id r' = sc_run ps" "r_status r' = RunWaitingForChildren"
      using a(1) p(2) unfolding sound_def parents_wait_def by metis
    then have "r_status r = RunWaitingForChildren"
      using same_row [of s r r'] rs a(1) by (simp add: sound_def)
    then show ?thesis
      using st sound_closes [OF a(1,2) postD [OF aggregate_children_effects a(3)] rs(1) refl, of st ?S]
        m c rs(2) clean by auto
  qed (use a in simp)
qed

text \<open>A chain of steps whose moves compose and that adds no run.\<close>

lemma evolves_trans:
  assumes "evolves S s t" and "evolves S t u" and S: "\<And>a b c. S a b \<Longrightarrow> S b c \<Longrightarrow> S a c"
    and "map r_id (t_runs u) = map r_id (t_runs s)"
  shows "evolves S s u"
  unfolding evolves_def
proof (intro conjI ballI)
  fix r assume "r \<in> set (t_runs s)"
  then obtain q where q: "q \<in> set (t_runs t)" "r_id q = r_id r" "r_status q = r_status r \<or> S (r_status r) (r_status q)"
    using assms(1) unfolding evolves_def by blast
  from q(1) obtain x where "x \<in> set (t_runs u)" "r_id x = r_id q"
      "r_status x = r_status q \<or> S (r_status q) (r_status x)"
    using assms(2) unfolding evolves_def by blast
  then show "\<exists>q\<in>set (t_runs u). r_id q = r_id r \<and> (r_status q = r_status r \<or> S (r_status r) (r_status q))"
    using q S by metis
next
  fix q assume "q \<in> set (t_runs u)"
  then have "r_id q \<in> set (map r_id (t_runs s))" unfolding assms(4) [symmetric] by simp
  then show "(\<exists>r\<in>set (t_runs s). r_id r = r_id q) \<or> r_status q \<in> {RunQueued, RunWaitingForChildren}"
    by auto
qed

lemma list_all2_map_eq: "list_all2 Q xs ys \<Longrightarrow> (\<And>x y. Q x y \<Longrightarrow> f y = f x) \<Longrightarrow> map f ys = map f xs"
  by (induction rule: list_all2_induct) auto

lemma moves_ids: "moves_runs rid st xs ys \<Longrightarrow> map r_id ys = map r_id xs"
  unfolding moves_runs_def
  by (erule list_all2_map_eq) (auto simp: settles_def same_identity_def split: if_splits)

lemma touches_ids: "touches_runs rid xs ys \<Longrightarrow> map r_id ys = map r_id xs"
  unfolding touches_runs_def
  by (erule list_all2_map_eq) (auto simp: touches_def same_identity_def split: if_splits)

lemma cancels_child_ids: "cancels_child i s s' \<Longrightarrow> map r_id (t_runs s') = map r_id (t_runs s)"
  by (auto simp: cancels_child_def dest: moves_ids touches_ids)

text \<open>Progress of a chain that started in \<open>s\<close>.\<close>

definition chained :: "(run_status \<Rightarrow> run_status \<Rightarrow> bool) \<Rightarrow> db \<Rightarrow> db \<Rightarrow> bool" where
  "chained S s t \<longleftrightarrow> sound t \<and> evolves S s t \<and> map r_id (t_runs t) = map r_id (t_runs s)"

lemma chained_next:
  assumes "chained S s t" and "sound u \<and> evolves S t u" and "map r_id (t_runs u) = map r_id (t_runs t)"
    and "\<And>a b c. S a b \<Longrightarrow> S b c \<Longrightarrow> S a c"
  shows "chained S s u"
  using assms evolves_trans [of S s t u] by (auto simp: chained_def)

end
