(* ===== verification/StatusEffects.thy ===== *)
theory StatusEffects
  imports StatusMachine
begin

text \<open>
  The effect calls, cancellation and lease expiry: what they write to the ledger of effects, and
  that they advance a sound store.
\<close>

section \<open>Writing the ledger\<close>

text \<open>Writing effects of one run: at most one of them, \<open>u\<close>, becomes unknown.\<close>

definition ledger_step :: "string option \<Rightarrow> string \<Rightarrow> db \<Rightarrow> db \<Rightarrow> bool" where
  "ledger_step u rid s s' \<longleftrightarrow>
     t_parents s' = t_parents s
     \<and> (\<forall>e\<in>set (t_effects s'). strip (e_id e) = e_id e
          \<and> (e_run e = rid \<or> (\<exists>f\<in>set (t_effects s). e_run f = e_run e)))
     \<and> (\<forall>i k. unknown_at s' i k \<longrightarrow> unknown_at s i k \<or> i = rid \<and> Some k = u)"

lemma ledger_step_upd:
  assumes "sound s" and "t_parents s' = t_parents s" and "t_effects s' = upd_where P f (t_effects s)"
    and f: "\<And>e. e \<in> set (t_effects s) \<Longrightarrow> P e \<Longrightarrow> e_id (f e) = e_id e \<and> e_run (f e) = e_run e
      \<and> (e_status (f e) = EffectUnknown \<longrightarrow> e_status e = EffectUnknown \<or> e_run e = rid \<and> Some (e_id e) = u)"
  shows "ledger_step u rid s s'"
proof -
  have clean: "strip (e_id e) = e_id e" if "e \<in> set (t_effects s)" for e
    using assms(1) that by (simp add: sound_def clean_ids_def)
  have step: "\<exists>e\<in>set (t_effects s). e_id q = e_id e \<and> e_run q = e_run e
      \<and> (e_status q = EffectUnknown \<longrightarrow> e_status e = EffectUnknown \<or> e_run e = rid \<and> Some (e_id e) = u)"
    if "q \<in> set (t_effects s')" for q
    using that f unfolding assms(3) set_upd_where by (auto split: if_splits)
  show ?thesis
    unfolding ledger_step_def unknown_at_def using step clean assms(2) by metis
qed

lemma ledger_step_same:
  "sound s \<Longrightarrow> t_parents s' = t_parents s \<Longrightarrow> t_effects s' = t_effects s \<Longrightarrow> ledger_step u rid s s'"
  by (rule ledger_step_upd [where P = "\<lambda>_. False" and f = id]) (simp_all add: upd_where_def)

lemma ledger_step_insert:
  "sound s \<Longrightarrow> t_parents s' = t_parents s \<Longrightarrow> t_effects s' = t_effects s @ [e] \<Longrightarrow>
   strip (e_id e) = e_id e \<Longrightarrow> e_run e = rid \<Longrightarrow> e_status e \<noteq> EffectUnknown \<Longrightarrow> ledger_step u rid s s'"
  by (auto simp: ledger_step_def unknown_at_def sound_def clean_ids_def)

lemma sound_ledger_step:
  assumes s: "sound s" "well_kept s'" and l: "ledger_step u rid s s'"
    and r: "run_of rid s = Some r"
    and rows: "list_all2 (\<lambda>x q. if r_id x = rid then r_id q = r_id x \<and> (r_cancel x \<longrightarrow> r_cancel q)
          \<and> r_status q = st else q = x) (t_runs s) (t_runs s')"
    and st: "st = RunWaitingForChildren \<longleftrightarrow> r_status r = RunWaitingForChildren"
    and S: "st = r_status r \<or> S (r_status r) st"
    and doubt: "\<And>k. unknown_at s' rid k \<Longrightarrow> doubtful st"
    and two: "\<And>k j. unknown_at s' rid k \<Longrightarrow> unknown_at s' rid j \<Longrightarrow> k \<noteq> j \<Longrightarrow>
        r_cancel r \<or> (\<forall>q\<in>set (t_runs s'). r_id q = rid \<longrightarrow> r_cancel q)"
  shows "sound s' \<and> evolves S s s'"
proof (rule sound_update [OF s])
  have rr: "r \<in> set (t_runs s)" "r_id r = rid" using run_of_in [OF r] by auto
  show "list_all2 (\<lambda>x q. if r_id x = rid then row_moves S s' x q else q = x) (t_runs s) (t_runs s')"
    unfolding list_all2_conv_all_nth
  proof (intro conjI allI impI)
    show len: "length (t_runs s) = length (t_runs s')" by (rule list_all2_lengthD [OF rows])
    fix n assume n: "n < length (t_runs s)"
    let ?x = "t_runs s ! n" and ?q = "t_runs s' ! n"
    note m = list_all2_nthD [OF rows n]
    have q: "?q \<in> set (t_runs s')" using n len by simp
    show "if r_id ?x = rid then row_moves S s' ?x ?q else ?q = ?x"
    proof (cases "r_id ?x = rid")
      case True
      then have "?x = r" using same_row [of s r ?x] s(1) rr n by (simp add: sound_def)
      with True m q st S doubt two rr show ?thesis unfolding row_moves_def by auto
    qed (use m in simp)
  qed
  show "t_parents s' = t_parents s" using l by (simp add: ledger_step_def)
  show "unknown_at s i k" if "unknown_at s' i k" "i \<noteq> rid" for i k
    using l that by (auto simp: ledger_step_def)
  show "strip (e_id e) = e_id e
        \<and> ((\<exists>f\<in>set (t_effects s). e_run f = e_run e) \<or> (\<exists>r\<in>set (t_runs s). r_id r = e_run e))"
    if "e \<in> set (t_effects s')" for e
    using l that rr unfolding ledger_step_def by metis
qed

lemma moves_rows:
  "moves_runs rid st xs ys \<Longrightarrow>
   list_all2 (\<lambda>x q. if r_id x = rid then r_id q = r_id x \<and> (r_cancel x \<longrightarrow> r_cancel q)
          \<and> r_status q = st else q = x) xs ys"
  unfolding moves_runs_def
  by (erule list.rel_mono_strong) (auto simp: settles_def same_identity_def split: if_splits)

text \<open>The two shapes of a worker's call: no new doubt, or one new doubt and the run unknown.\<close>

lemma unknown_doubtful:
  "sound s \<Longrightarrow> run_of rid s = Some r \<Longrightarrow> unknown_at s rid k \<Longrightarrow> doubtful (r_status r)"
  by (auto simp: sound_def doubts_kept_def dest!: run_of_in)

lemma unknown_two:
  "sound s \<Longrightarrow> run_of rid s = Some r \<Longrightarrow> unknown_at s rid k \<Longrightarrow> unknown_at s rid j \<Longrightarrow> k \<noteq> j \<Longrightarrow> r_cancel r"
  by (auto simp: sound_def doubts_kept_def dest!: run_of_in)

lemma sound_calm:
  assumes s: "sound s" "well_kept s'" and l: "ledger_step None rid s s'" and r: "run_of rid s = Some r"
    and t: "touches_runs rid (t_runs s) (t_runs s')"
  shows "sound s' \<and> evolves S s s'"
proof (rule sound_ledger_step [OF s l r])
  have old: "unknown_at s rid k" if "unknown_at s' rid k" for k
    using l that by (auto simp: ledger_step_def)
  show "list_all2 (\<lambda>x q. if r_id x = rid then r_id q = r_id x \<and> (r_cancel x \<longrightarrow> r_cancel q)
          \<and> r_status q = r_status r else q = x) (t_runs s) (t_runs s')"
    using t unfolding touches_runs_def
  proof (rule list.rel_mono_strong)
    fix x q assume "x \<in> set (t_runs s)" "if r_id x = rid then touches x q else q = x"
    then show "if r_id x = rid then r_id q = r_id x \<and> (r_cancel x \<longrightarrow> r_cancel q) \<and> r_status q = r_status r
        else q = x"
      using same_row [of s r x] run_of_in [OF r] s(1)
      by (auto simp: touches_def same_identity_def sound_def split: if_splits)
  qed
  show "doubtful (r_status r)" if "unknown_at s' rid k" for k
    using unknown_doubtful [OF s(1) r old [OF that]] .
  show "r_cancel r \<or> (\<forall>q\<in>set (t_runs s'). r_id q = rid \<longrightarrow> r_cancel q)"
    if "unknown_at s' rid k" "unknown_at s' rid j" "k \<noteq> j" for k j
    using unknown_two [OF s(1) r old [OF that(1)] old [OF that(2)] that(3)] by simp
qed simp_all

lemma sound_one_doubt:
  assumes s: "sound s" "well_kept s'" and l: "ledger_step u rid s s'" and r: "run_of rid s = Some r"
    and run: "r_status r = RunRunning" and m: "moves_runs rid RunUnknown (t_runs s) (t_runs s')"
    and S: "S RunRunning RunUnknown"
  shows "sound s' \<and> evolves S s s'"
proof (rule sound_ledger_step [OF s l r moves_rows [OF m]])
  have new: "Some k = u" if "unknown_at s' rid k" for k
    using l that unknown_doubtful [OF s(1) r, of k] run by (auto simp: ledger_step_def)
  show "r_cancel r \<or> (\<forall>q\<in>set (t_runs s'). r_id q = rid \<longrightarrow> r_cancel q)"
    if "unknown_at s' rid k" "unknown_at s' rid j" "k \<noteq> j" for k j
    using new [OF that(1)] new [OF that(2)] that(3) by auto
qed (use run S in simp_all)

text \<open>The effects a call writes.\<close>

lemma begin_effect_ledger:
  "sound s \<Longrightarrow> clean_world w \<Longrightarrow>
   post (begin_effect w now scope c sid k t v sc a) (\<lambda>_ s'. ledger_step None (c_run c) s s') s"
  unfolding begin_effect_def reuse_effect_def new_effect_def
  by (intro post_intros)
    (auto simp: quiet_def clean_world_def intro: ledger_step_upd ledger_step_same ledger_step_insert)

lemma transition_effect_ledger:
  "sound s \<Longrightarrow> st \<noteq> EffectUnknown \<Longrightarrow>
   post (transition_effect w now scope c e xs st n d rs) (\<lambda>_ s'. ledger_step None (c_run c) s s') s"
  unfolding transition_effect_def
  by (intro post_intros) (auto simp: quiet_def intro: ledger_step_upd ledger_step_same)

lemma effect_run_clean: "sound s \<Longrightarrow> e \<in> set (t_effects s) \<Longrightarrow> strip (e_run e) = e_run e \<and> strip (e_id e) = e_id e"
  unfolding sound_def clean_ids_def by metis

text \<open>The rows of an effect identifier: one row, and what its record says of it.\<close>

lemma effect_rows:
  assumes "sound s" and "find (\<lambda>e. e_id e = i) (t_effects s) = Some e0"
  shows "e0 \<in> set (t_effects s)" "e_id e0 = i" "strip (e_run e0) = e_run e0" "strip i = i"
    and "e \<in> set (t_effects s) \<Longrightarrow> e_id e = i \<Longrightarrow> e = e0"
  using find_SomeD [OF assms(2)] effect_run_clean [OF assms(1), of e0] same_effect [of s e0 e] assms(1)
  by (auto simp: sound_def)

lemma mark_effect_unknown_ledger:
  assumes "sound s"
  shows "post (mark_effect_unknown w now scope c i rs) (\<lambda>_ s'. ledger_step (Some i) (c_run c) s s') s"
proof -
  have only: "e_run e = c_run c" if "find (\<lambda>e. e_id e = i) (t_effects s) = Some e0" "make_effect_record e0 = Inr v"
      "e_run v = c_run c" "e \<in> set (t_effects s)" "e_id e = i" for e e0 v
    using effect_rows [OF assms that(1)] that(2-) by (simp add: make_effect_record_fields)
  show ?thesis
    unfolding mark_effect_unknown_def
    by (intro post_intros, rule ledger_step_upd [OF assms, where P = "\<lambda>e. e_id e = i"])
      (simp add: quiet_def, simp add: quiet_def, drule (4) only, simp)
qed

lemma advances_calm:
  assumes "keeps (preserves well_kept) m"
    and "\<And>s. sound s \<Longrightarrow> post m (\<lambda>_ s'. ledger_step None rid s s') s"
    and "\<And>s. sound s \<Longrightarrow> post m (\<lambda>_ s'. (\<exists>r. run_of rid s = Some r) \<and> touches_runs rid (t_runs s) (t_runs s')) s"
  shows "advances S m"
proof (rule advancesI [OF assms(1)])
  fix s x s' assume a: "sound s" "well_kept s'" "m s = Inr (x, s')"
  from postD [OF assms(3) [OF a(1)] a(3)] postD [OF assms(2) [OF a(1)] a(3)]
  show "sound s' \<and> evolves S s s'" using sound_calm [OF a(1,2)] by blast
qed

lemma touched_some:
  "post m (\<lambda>_ s'. touched c now s s') s \<Longrightarrow>
   post m (\<lambda>_ s'. (\<exists>r. run_of (c_run c) s = Some r) \<and> touches_runs (c_run c) (t_runs s) (t_runs s')) s"
  by (auto simp: leased_def elim: post_weaken)

lemma begin_effect_advances: "clean_world w \<Longrightarrow> advances S (begin_effect w now scope c sid k t v sc a)"
  by (rule advances_calm [OF keys.begin_effect_law begin_effect_ledger touched_some [OF begin_effect_runs]])

lemma transition_effect_advances: "st \<noteq> EffectUnknown \<Longrightarrow> advances S (transition_effect w now scope c e xs st n d rs)"
  by (rule advances_calm [OF keys.transition_effect_law transition_effect_ledger touched_some [OF transition_effect_runs]])

lemma effect_calls_advances:
  "advances S (mark_effect_started w now scope c e)" "advances S (complete_effect w now scope c e d)"
  "advances S (fail_effect w now scope c e rs)"
  unfolding mark_effect_started_def complete_effect_def fail_effect_def
  by (intro advances_lift transition_effect_advances; simp)+

lemma record_effect_result_ledger:
  assumes "sound s"
  shows "post (record_effect_result w now scope c i p)
     (\<lambda>_ s'. (\<exists>r. run_of (c_run c) s = Some r) \<and> ledger_step None (c_run c) s s') s"
proof -
  have calm: "ledger_step None rid s (s'\<lparr>t_effects := upd_where (\<lambda>e. e_id e = i)
      (\<lambda>e. e\<lparr>e_result_ref := g, e_digest := d\<rparr>) (t_effects s')\<rparr>)"
    if "t_effects s' = t_effects s" "t_parents s' = t_parents s" for s' g d rid
    by (rule ledger_step_upd [OF assms, where P = "\<lambda>e. e_id e = i"], simp add: that, simp add: that, simp)
  show ?thesis
    unfolding record_effect_result_def
    by (intro post_intros conjI calm; (elim conjE)?; fastforce)
qed

lemma record_effect_result_advances: "advances S (record_effect_result w now scope c i p)"
proof (rule advances_calm [where rid = "c_run c", OF keys.record_effect_result_law])
  show "post (record_effect_result w now scope c i p) (\<lambda>_ s'. ledger_step None (c_run c) s s') s" if "sound s" for s
    by (rule post_weaken [OF record_effect_result_ledger [OF that]]) simp
  show "post (record_effect_result w now scope c i p)
      (\<lambda>_ s'. (\<exists>r. run_of (c_run c) s = Some r) \<and> touches_runs (c_run c) (t_runs s) (t_runs s')) s" if "sound s" for s
  proof (rule postI)
    fix x s' assume e: "record_effect_result w now scope c i p s = Inr (x, s')"
    show "(\<exists>r. run_of (c_run c) s = Some r) \<and> touches_runs (c_run c) (t_runs s) (t_runs s')"
      using postD [OF record_effect_result_ledger [OF that] e] postD [OF record_effect_result_runs e] by simp
  qed
qed

lemma mark_effect_unknown_advances:
  "advances (\<lambda>a b. a = RunRunning \<and> b = RunUnknown) (mark_effect_unknown w now scope c i rs)" (is "advances ?S _")
proof (rule advancesI [OF keys.mark_effect_unknown_law])
  fix s x s' assume a: "sound s" "well_kept s'" "mark_effect_unknown w now scope c i rs s = Inr (x, s')"
  note l = postD [OF mark_effect_unknown_ledger [OF a(1)] a(3)]
  from postD [OF mark_effect_unknown_runs a(3)] show "sound s' \<and> evolves ?S s s'"
    using leased_running sound_one_doubt [OF a(1,2) l, where S = ?S] by blast
qed

section \<open>Cancellation, reconciliation, expiry\<close>

lemma ledger_step_quiet: "ledger_step u rid s s1 \<Longrightarrow> quiet s1 s' \<Longrightarrow> ledger_step u rid s s'"
  by (simp add: ledger_step_def quiet_def unknown_at_def)

lemma requested_runs:
  "\<forall>q\<in>set (upd_where (\<lambda>r. r_id r = rid) (\<lambda>r. r\<lparr>r_cancel := True\<rparr>) xs). r_id q = rid \<longrightarrow> r_cancel q"
  by (simp add: ball_upd_where)

lemma cancel_uncertain_ledger:
  assumes "sound s" and "first_by e_created (\<lambda>e. e_run e = rid \<and> uncertain_effect (e_status e)) (t_effects s) = Some e"
    and "make_effect_record e = Inr v"
    and Q: "\<And>x s'. ledger_step (Some (e_id v)) rid s s' \<Longrightarrow> moves_runs rid RunUnknown (t_runs s) (t_runs s') \<Longrightarrow>
      \<forall>q\<in>set (t_runs s'). r_id q = rid \<longrightarrow> r_cancel q \<Longrightarrow> Q x s'"
  shows "post (cancel_uncertain w now rid reason v) Q s"
proof -
  have e: "e \<in> set (t_effects s)" "e_run e = rid" using first_by_SomeD [OF assms(2)] by auto
  have i: "e_id v = e_id e"
    using effect_run_clean [OF assms(1) e(1)] assms(3) by (simp add: make_effect_record_fields)
  have only: "f = e" if "f \<in> set (t_effects s)" "e_id f = e_id e" for f
    using same_effect [of s e f] assms(1) e that by (simp add: sound_def)
  have step: "ledger_step (Some (e_id e)) rid s s'"
    if "t_effects s' = upd_where (\<lambda>f. e_id f = e_id e) (\<lambda>f. f\<lparr>e_status := EffectUnknown, e_reason := a, e_updated := b\<rparr>) (t_effects s)"
      and "t_parents s' = t_parents s" for s' :: db and a b
    using only e(2) by (intro ledger_step_upd [OF assms(1) that(2,1)]) auto
  show ?thesis
    unfolding cancel_uncertain_def
    by (intro post_intros Q [unfolded i]; (rule step ledger_step_same [OF assms(1)])?; simp add: i requested_runs)
qed

lemma cancel_certain_ledger:
  assumes "sound s"
    and Q: "\<And>x s'. ledger_step None rid s s' \<Longrightarrow> moves_runs rid RunCancelled (t_runs s) (t_runs s') \<Longrightarrow>
      \<forall>q\<in>set (t_runs s'). r_id q = rid \<longrightarrow> r_cancel q \<Longrightarrow> Q x s'"
  shows "post (cancel_certain w now rid reason) Q s"
  unfolding cancel_certain_def
  by (intro post_intros Q; (rule ledger_step_same [OF assms(1)])?; simp add: requested_runs)

definition cancels_run :: "string \<Rightarrow> db \<Rightarrow> db \<Rightarrow> bool" where
  "cancels_run rid s s' \<longleftrightarrow>
     s' = s \<or> (\<exists>r st u. run_of rid s = Some r \<and> no_parent rid s
        \<and> r_status r \<notin> {RunCompleted, RunCancelled} \<and> st \<in> {RunUnknown, RunCancelled}
        \<and> ledger_step u rid s s' \<and> moves_runs rid st (t_runs s) (t_runs s')
        \<and> (\<forall>q\<in>set (t_runs s'). r_id q = rid \<longrightarrow> r_cancel q))"

lemma cancels_runI:
  assumes "run_of rid s = Some r" and "\<forall>p\<in>set (t_parents s). p_run p \<noteq> rid"
    and "r_status r \<noteq> RunCompleted" and "r_status r \<noteq> RunCancelled"
    and "ledger_step u rid s s1" and "moves_runs rid st (t_runs s) (t_runs s1)"
    and "\<forall>q\<in>set (t_runs s1). r_id q = rid \<longrightarrow> r_cancel q" and "quiet s1 s'" and "st \<in> {RunUnknown, RunCancelled}"
  shows "cancels_run rid s s'"
proof -
  have "ledger_step u rid s s'" "t_runs s' = t_runs s1"
    using ledger_step_quiet [OF assms(5,8)] quiet_runs [OF assms(8)] by auto
  then show ?thesis unfolding cancels_run_def no_parent_def using assms by auto
qed

lemma cancel_run_cancels:
  assumes "sound s"
  shows "post (cancel_run w now scope rid a rs c) (\<lambda>_ s'. cancels_run rid s s') s"
  unfolding cancel_run_def
  by (intro post_intros cancel_certain_ledger [OF assms] cancel_uncertain_ledger [OF assms])
    ((simp add: cancels_run_def; fail | assumption | (rule cancels_runI, assumption, assumption, simp, simp, assumption+, simp))+)

lemma cancel_run_advances:
  "advances (\<lambda>a b. a \<notin> {RunCompleted, RunCancelled, RunWaitingForChildren} \<and> b \<in> {RunUnknown, RunCancelled})
     (cancel_run w now scope rid a rs c)" (is "advances ?S _")
proof (rule advancesI [OF keys.cancel_run_law])
  fix s x s' assume a: "sound s" "well_kept s'" "cancel_run w now scope rid a rs c s = Inr (x, s')"
  show "sound s' \<and> evolves ?S s s'"
  proof (cases "s' = s")
    case False
    then obtain r st u where r: "run_of rid s = Some r" and p: "no_parent rid s"
      and b: "r_status r \<notin> {RunCompleted, RunCancelled}" and st: "st \<in> {RunUnknown, RunCancelled}"
      and l: "ledger_step u rid s s'" and m: "moves_runs rid st (t_runs s) (t_runs s')"
      and c: "\<forall>q\<in>set (t_runs s'). r_id q = rid \<longrightarrow> r_cancel q"
      using postD [OF cancel_run_cancels [OF a(1)] a(3)] unfolding cancels_run_def by blast
    have "r_status r \<noteq> RunWaitingForChildren" by (rule no_parent_waits [OF a(1) p r])
    then show ?thesis using sound_ledger_step [OF a(1,2) l r moves_rows [OF m], of ?S] b st c by auto
  qed (use a(1) in simp)
qed

text \<open>Reconciling an unknown effect: the doubt is removed, or kept in a doubtful run.\<close>

lemma reconciled_effect_known: "reconciled_statuses d b = (est, sst, rst) \<Longrightarrow> est \<noteq> EffectUnknown"
  by (cases d) (auto simp: reconciled_statuses_def split: if_splits)

definition settles_doubt :: "string \<Rightarrow> db \<Rightarrow> db \<Rightarrow> bool" where
  "settles_doubt i s s' \<longleftrightarrow>
     t_parents s' = t_parents s \<and> (\<forall>rid k. unknown_at s' rid k \<longrightarrow> unknown_at s rid k \<and> k \<noteq> i)
     \<and> (\<forall>rid. ledger_step None rid s s')"

lemma settles_doubtI:
  assumes "sound s" and "est \<noteq> EffectUnknown" and "t_parents s' = t_parents s"
    and "t_effects s' = upd_where (\<lambda>e. e_id e = i \<and> e_status e = EffectUnknown)
          (\<lambda>e. e\<lparr>e_status := est, e_digest := a, e_decision := b, e_by := c, e_reason := d, e_updated := t\<rparr>)
          (t_effects s)"
  shows "settles_doubt i s s'"
proof -
  have "ledger_step None rid s s'" for rid
    by (rule ledger_step_upd [OF assms(1,3,4)]) (simp add: assms(2))
  moreover have "unknown_at s rid k \<and> k \<noteq> i" if "unknown_at s' rid k" for rid k
    using that assms(2) unfolding unknown_at_def assms(4) set_upd_where by (auto split: if_splits)
  ultimately show ?thesis using assms(3) by (simp add: settles_doubt_def)
qed

lemma settle_effect_ledger:
  assumes "sound s" and "est \<noteq> EffectUnknown"
    and Q: "\<And>x s'. settles_doubt i s s' \<Longrightarrow> Q x s'"
  shows "post (settle_effect w now i e d a rs dg est sst rst) Q s"
  unfolding settle_effect_def
  by (intro post_intros Q) (auto simp: quiet_def intro!: settles_doubtI [OF assms(1,2)])

lemma reconcile_effect_ledger:
  assumes "sound s"
  shows "post (reconcile_effect w now scope i d a rs dg) (\<lambda>_ s'. settles_doubt i s s') s"
  unfolding reconcile_effect_def
  by (intro post_intros settle_effect_ledger [OF assms]; assumption?) (auto dest: reconciled_effect_known)

lemma reconcile_effect_advances:
  "advances (\<lambda>a b. doubtful a \<and> b \<in> {RunQueued, RunFailed, RunCancelled}) (reconcile_effect w now scope i d a rs dg)"
  (is "advances ?S _")
proof (rule advancesI [OF keys.reconcile_effect_law])
  fix s x s' assume a: "sound s" "well_kept s'" "reconcile_effect w now scope i d a rs dg s = Inr (x, s')"
  obtain e r st where e: "find (\<lambda>e. e_id e = i) (t_effects s) = Some e" "e_status e = EffectUnknown"
    and r: "run_of (e_run e) s = Some r" and st: "st \<in> {RunQueued, RunFailed, RunCancelled}"
    and q: "st = RunQueued \<longrightarrow> \<not> r_cancel r" and m: "moves_runs (strip (e_run e)) st (t_runs s) (t_runs s')"
    using postD [OF reconcile_effect_runs a(3)] by blast
  note d = postD [OF reconcile_effect_ledger [OF a(1)] a(3)]
  have l: "ledger_step None (e_run e) s s'" using d by (simp add: settles_doubt_def)
  have m': "moves_runs (e_run e) st (t_runs s) (t_runs s')" using m effect_rows(3) [OF a(1) e(1)] by simp
  have here: "unknown_at s (e_run e) i" using e effect_rows(1,2) [OF a(1) e(1)] by (auto simp: unknown_at_def)
  have doubt: "doubtful (r_status r)" by (rule unknown_doubtful [OF a(1) r here])
  have left: "unknown_at s (e_run e) k \<and> k \<noteq> i" if "unknown_at s' (e_run e) k" for k
    using d that by (simp add: settles_doubt_def)
  have "doubtful st" if "unknown_at s' (e_run e) k" for k
  proof -
    have "r_cancel r" using unknown_two [OF a(1) r here, of k] left [OF that] by auto
    then show ?thesis using q st by auto
  qed
  moreover have "r_cancel r" if "unknown_at s' (e_run e) k" "unknown_at s' (e_run e) j" "k \<noteq> j" for k j
    using unknown_two [OF a(1) r, of k j] left that by blast
  ultimately show "sound s' \<and> evolves ?S s s'"
    using doubt st by (intro sound_ledger_step [OF a(1,2) l r moves_rows [OF m']]) auto
qed


text \<open>Expired leases, one run after the other.\<close>

definition reconciles_run :: "string \<Rightarrow> db \<Rightarrow> db \<Rightarrow> bool" where
  "reconciles_run rid s s' \<longleftrightarrow>
     s' = s \<or> (\<exists>r st u. run_of rid s = Some r \<and> r_status r = RunRunning
        \<and> moves_runs rid st (t_runs s) (t_runs s') \<and> ledger_step u rid s s'
        \<and> (st \<in> {RunQueued, RunCancelled} \<and> u = None \<or> st = RunUnknown))"

lemma requeue_goal_ledger:
  assumes "sound s"
    and Q: "\<And>x s'. moves_runs rid RunQueued (t_runs s) (t_runs s') \<Longrightarrow> ledger_step None rid s s' \<Longrightarrow> Q x s'"
  shows "post (requeue_goal w now rid a) Q s"
  unfolding requeue_goal_def
  by (intro post_intros Q; (rule ledger_step_same [OF assms(1)])?; simp add: quiet_def)

lemma requeue_unstarted_ledger:
  assumes "sound s"
    and Q: "\<And>x s'. moves_runs rid RunQueued (t_runs s) (t_runs s') \<Longrightarrow> ledger_step None rid s s' \<Longrightarrow> Q x s'"
  shows "post (requeue_unstarted w now rid st a) Q s"
  unfolding requeue_unstarted_def
  by (intro post_intros Q; (rule ledger_step_same [OF assms(1)])?; simp add: quiet_def)

lemma settle_run_cancellation_ledger:
  assumes "sound s"
    and Q: "\<And>x s'. moves_runs rid RunCancelled (t_runs s) (t_runs s') \<Longrightarrow> ledger_step None rid s s' \<Longrightarrow> Q x s'"
  shows "post (settle_run_cancellation w rid a rs now) Q s"
  unfolding settle_run_cancellation_def
  by (intro post_intros Q; (rule ledger_step_same [OF assms(1)])?; simp add: quiet_def)

lemma expire_unsafe_ledger:
  assumes "sound s" and "\<And>e0. e = Some e0 \<Longrightarrow> e0 \<in> set (t_effects s) \<and> e_run e0 = rid"
    and Q: "\<And>x s' u. moves_runs rid RunUnknown (t_runs s) (t_runs s') \<Longrightarrow> ledger_step u rid s s' \<Longrightarrow> Q x s'"
  shows "post (expire_unsafe w now rid st a e) Q s"
proof -
  have one: "ledger_step (Some (e_id e0)) rid s s'"
    if "e = Some e0" and "t_parents s' = t_parents s"
      and "t_effects s' = upd_where (\<lambda>f. e_id f = e_id e0)
        (\<lambda>f. f\<lparr>e_status := EffectUnknown, e_reason := k, e_updated := b\<rparr>) (t_effects s)" for s' :: db and e0 k b
  proof (rule ledger_step_upd [OF assms(1) that(2,3)])
    fix f assume f: "f \<in> set (t_effects s)" "e_id f = e_id e0"
    note e0 = assms(2) [OF that(1)]
    then have "f = e0" using same_effect [of s e0 f] f assms(1) by (simp add: sound_def)
    then show "e_id (f\<lparr>e_status := EffectUnknown, e_reason := k, e_updated := b\<rparr>) = e_id f
      \<and> e_run (f\<lparr>e_status := EffectUnknown, e_reason := k, e_updated := b\<rparr>) = e_run f
      \<and> (e_status (f\<lparr>e_status := EffectUnknown, e_reason := k, e_updated := b\<rparr>) = EffectUnknown \<longrightarrow>
         e_status f = EffectUnknown \<or> e_run f = rid \<and> Some (e_id f) = Some (e_id e0))"
      using e0 by simp
  qed
  show ?thesis
  proof (cases e)
    case None
    show ?thesis
      unfolding expire_unsafe_def None option.case
      by (intro post_intros Q [where u = None]; (rule ledger_step_same [OF assms(1)])?; simp add: quiet_def)
  next
    case (Some e0)
    show ?thesis
    proof (cases "e_status e0 = EffectExecuting")
      case True
      have yes: "if_so (e_status e0 = EffectExecuting) m = m" for m :: "(db, unit) op" by (simp add: if_so_def True)
      show ?thesis
        unfolding expire_unsafe_def Some option.case yes
        by (intro post_intros Q [where u = "Some (e_id e0)"]; (rule one [OF Some])?; simp add: quiet_def)
    next
      case False
      have no: "if_so (e_status e0 = EffectExecuting) m = ret ()" for m :: "(db, unit) op" by (simp add: if_so_def False)
      show ?thesis
        unfolding expire_unsafe_def Some option.case no
        by (intro post_intros Q [where u = None]; (rule ledger_step_same [OF assms(1)])?; simp add: quiet_def)
    qed
  qed
qed

lemma reconciles_runI:
  "run_of rid s = Some r \<Longrightarrow> \<not> \<not> still_expired r row now \<Longrightarrow> moves_runs rid st (t_runs s) (t_runs s') \<Longrightarrow>
   ledger_step u rid s s' \<Longrightarrow> st \<in> {RunQueued, RunCancelled} \<and> u = None \<or> st = RunUnknown \<Longrightarrow>
   reconciles_run rid s s'"
  unfolding reconciles_run_def still_expired_def by blast

lemma reconcile_one_reconciles:
  assumes "sound s"
  shows "post (reconcile_one w now sc row) (\<lambda>_ s'. reconciles_run (r_id row) s s') s"
  unfolding reconcile_one_def
  by (intro post_intros requeue_goal_ledger [OF assms] requeue_unstarted_ledger [OF assms]
       settle_run_cancellation_ledger [OF assms] expire_unsafe_ledger [OF assms])
    (simp add: reconciles_run_def; fail
      | (rule reconciles_runI, assumption+, simp; fail)
      | (drule first_by_SomeD, simp; fail))+

lemma sound_reconciles_run:
  assumes "sound s" and "well_kept s'" and "reconciles_run rid s s'"
    and "\<And>st. st \<in> {RunQueued, RunCancelled, RunUnknown} \<Longrightarrow> S RunRunning st"
  shows "sound s' \<and> evolves S s s' \<and> map r_id (t_runs s') = map r_id (t_runs s)"
proof (cases "s' = s")
  case False
  then obtain r st u where r: "run_of rid s = Some r" "r_status r = RunRunning"
    and m: "moves_runs rid st (t_runs s) (t_runs s')" and l: "ledger_step u rid s s'"
    and st: "st \<in> {RunQueued, RunCancelled} \<and> u = None \<or> st = RunUnknown"
    using assms(3) unfolding reconciles_run_def by blast
  have new: "Some k = u" if "unknown_at s' rid k" for k
    using l that unknown_doubtful [OF assms(1) r(1), of k] r(2) by (auto simp: ledger_step_def)
  have "sound s' \<and> evolves S s s'"
  proof (rule sound_ledger_step [OF assms(1,2) l r(1) moves_rows [OF m]])
    show "st = RunWaitingForChildren \<longleftrightarrow> r_status r = RunWaitingForChildren" using st r by auto
    show "st = r_status r \<or> S (r_status r) st" using st r assms(4) by auto
    show "doubtful st" if "unknown_at s' rid k" for k using st new [OF that] by auto
    show "r_cancel r \<or> (\<forall>q\<in>set (t_runs s'). r_id q = rid \<longrightarrow> r_cancel q)"
      if "unknown_at s' rid k" "unknown_at s' rid j" "k \<noteq> j" for k j
      using new [OF that(1)] new [OF that(2)] that(3) by auto
  qed
  then show ?thesis using moves_ids [OF m] by simp
qed (use assms(1) in simp)

lemma reconcile_expired_advances:
  "advances (\<lambda>a b. a = RunRunning \<and> b \<in> {RunQueued, RunCancelled, RunUnknown}) (reconcile_expired w now sc)"
  (is "advances ?S _")
  unfolding advances_def
proof (intro allI impI)
  fix s x s' assume a: "sound s" "reconcile_expired w now sc s = Inr (x, s')"
  have round: "post (reconcile_one w now sc row) (\<lambda>_ u. chained ?S s u) t" if "chained ?S s t" for row t
  proof (rule postI)
    fix y u assume e: "reconcile_one w now sc row t = Inr (y, u)"
    have t: "sound t" using that by (simp add: chained_def)
    have "well_kept u"
      using keepsD [OF keys.reconcile_one_law e] t by (simp add: preserves_def sound_def)
    from sound_reconciles_run [OF t this postD [OF reconcile_one_reconciles [OF t] e], of ?S]
    show "chained ?S s u" by (intro chained_next [OF that]) auto
  qed
  have "post (reconcile_expired w now sc) (\<lambda>_ u. chained ?S s u) s"
    unfolding reconcile_expired_def
    by (intro post_bind post_gets post_ret post_weaken [OF post_map_op [where I = "chained ?S s", OF _ round]])
      (simp_all add: chained_def a(1))
  from postD [OF this a(2)] show "sound s' \<and> evolves ?S s s'" by (simp add: chained_def)
qed

text \<open>Cancelling a parent, child by child.\<close>

definition advances_rows :: "(run_status \<Rightarrow> run_status \<Rightarrow> bool) \<Rightarrow> (db, 'a) op \<Rightarrow> bool" where
  "advances_rows S m \<longleftrightarrow> advances S m \<and> keeps (\<lambda>s s'. map r_id (t_runs s') = map r_id (t_runs s)) m"

lemma chained_post:
  assumes "advances_rows S m" and "\<And>a b c. S a b \<Longrightarrow> S b c \<Longrightarrow> S a c" and "chained S s t"
    and "\<And>x u. chained S s u \<Longrightarrow> Q x u"
  shows "post m Q t"
proof (rule postI)
  fix x u assume e: "m t = Inr (x, u)"
  have adv: "advances S m" and ids: "keeps (\<lambda>s s'. map r_id (t_runs s') = map r_id (t_runs s)) m"
    using assms(1) by (simp_all add: advances_rows_def)
  have "sound t" using assms(3) by (simp add: chained_def)
  then have next_one: "sound u \<and> evolves S t u" using adv e by (simp add: advances_def)
  have same: "map r_id (t_runs u) = map r_id (t_runs t)" by (rule keepsD [OF ids e])
  have "chained S s u" by (rule chained_next [OF assms(3) next_one same]) (rule assms(2))
  then show "Q x u" by (rule assms(4))
qed

lemma mark_parent_advances:
  "advances_rows S (upd_runs (\<lambda>r. r_id r = pid \<and> \<not> r_cancel r)
     (\<lambda>r. r\<lparr>r_cancel := True, r_rev := r_rev r + 1, r_updated := now\<rparr>))" (is "advances_rows S ?m")
  unfolding advances_rows_def
proof
  have "keeps same_ledger ?m" by (rule ledger.upd_runs) simp
  moreover have "keeps (preserves well_kept) ?m" by (rule keys.upd_runs) simp
  moreover have "post ?m (\<lambda>_ s'. \<exists>rid. touches_runs rid (t_runs s) (t_runs s')) s" for s
    by (intro post_intros exI [of _ pid]) (auto simp: touches_runs_def intro: list_all2_upd_where)
  ultimately show "advances S ?m" by (intro advances_touch)
  show "keeps (\<lambda>s s'. map r_id (t_runs s') = map r_id (t_runs s)) ?m"
    by (rule keepsI) (auto simp: result_simps map_upd_where)
qed

lemma cancel_child_advances:
  "advances_rows (\<lambda>a b. claimable_or_waiting a \<and> b = RunCancelled) (request_child_cancellation_of w pid i a rs now)"
  unfolding advances_rows_def
  by (intro conjI advancesI [OF keys.request_child_cancellation_of_law] keepsI)
    (auto dest!: postD [OF request_child_cancellation_of_runs] dest: sound_cancels_child cancels_child_ids)

lemma log_keyed_advances: "advances_rows S (log_keyed w rid n a k p now)"
proof -
  have "well_kept s \<Longrightarrow> log_keyed w rid n a k p now s = Inr (v, s') \<Longrightarrow> well_kept s'" for s v s'
    using keepsD [OF keys.log_keyed_law] by (auto simp: preserves_def)
  then show ?thesis
    unfolding advances_rows_def
    by (intro conjI advancesI [OF keys.log_keyed_law] keepsI sound_same_runs)
      (auto simp: quiet_def same_ledger_def dest!: log_keyed_quiet)
qed

lemma request_parent_cancellation_advances:
  "advances (\<lambda>a b. claimable_or_waiting a \<and> b = RunCancelled) (request_parent_cancellation w now ps a rs)"
  (is "advances ?S _")
  unfolding advances_def
proof (intro allI impI)
  fix s x s' assume a: "sound s" "request_parent_cancellation w now ps a rs s = Inr (x, s')"
  have trans: "?S a b \<Longrightarrow> ?S b c \<Longrightarrow> ?S a c" for a b c by auto
  have all: "post (map_op (\<lambda>i. request_child_cancellation_of w pid i a rs now) is) Q t"
    if "chained ?S s t" "\<And>x u. chained ?S s u \<Longrightarrow> Q x u" for pid a rs "is" Q t
    by (rule post_weaken [OF post_map_op [where I = "chained ?S s"]], rule that(1),
        rule chained_post [OF cancel_child_advances trans]) (assumption+, rule that(2))
  have "post (request_parent_cancellation w now ps a rs) (\<lambda>_ u. chained ?S s u) s"
    unfolding request_parent_cancellation_def
    by (intro post_lift post_bind post_read_parent post_let post_if post_ret post_if_so all
        chained_post [OF mark_parent_advances trans] chained_post [OF log_keyed_advances trans])
      (simp_all add: chained_def a(1))
  from postD [OF this a(2)] show "sound s' \<and> evolves ?S s s'" by (simp add: chained_def)
qed

end
