(* ===== verification/StatusTable.thy ===== *)
theory StatusTable
  imports StatusEffects
begin

text \<open>
  Every call of the store advances a sound store as the table of status changes says; hence every
  history does.
\<close>

section \<open>Delivery leaves the runs alone\<close>

lemma take_completion_runs: "post (take_completion w now p b wk l) (\<lambda>_ s'. t_runs s' = t_runs s) s"
  unfolding take_completion_def read_completion_def completion_row_def
  by (intro post_intros) (auto simp: quiet_def)

lemma quarantine_expired_runs: "post (quarantine_expired w now sc p) (\<lambda>_ s'. t_runs s' = t_runs s) s"
  unfolding quarantine_expired_def by (intro post_intros) (auto simp: quiet_def)

lemma claim_parent_completion_runs:
  "post (claim_parent_completion w now sc wk n p) (\<lambda>_ s'. t_runs s' = t_runs s) s"
  unfolding claim_parent_completion_def
  by (intro post_intros post_weaken [OF quarantine_expired_runs] post_weaken [OF take_completion_runs]) auto

lemma transition_parent_completion_claim_runs:
  "post (transition_parent_completion_claim w now sc c st n rs) (\<lambda>_ s'. t_runs s' = t_runs s) s"
  unfolding transition_parent_completion_claim_def read_completion_def completion_row_def
  by (intro post_intros) (auto simp: quiet_def)

lemma reconcile_parent_completion_runs:
  "post (reconcile_parent_completion w now sc rid b a rs) (\<lambda>_ s'. t_runs s' = t_runs s) s"
  unfolding reconcile_parent_completion_def read_completion_def completion_row_def
  by (intro post_intros) (auto simp: quiet_def)

lemma outbox_calls_runs:
  "post (complete_parent_completion w now sc c) (\<lambda>_ s'. t_runs s' = t_runs s) s"
  "post (fail_parent_completion w now sc c rs) (\<lambda>_ s'. t_runs s' = t_runs s) s"
  "post (mark_parent_completion_unknown w now sc c rs) (\<lambda>_ s'. t_runs s' = t_runs s) s"
  unfolding complete_parent_completion_def fail_parent_completion_def mark_parent_completion_unknown_def
  by (intro post_intros transition_parent_completion_claim_runs)+

lemma advances_delivery:
  assumes "keeps (preserves well_kept) m" and "keeps same_ledger m"
    and "\<And>s. post m (\<lambda>_ s'. t_runs s' = t_runs s) s"
  shows "advances S m"
  by (rule advancesI [OF assms(1)], rule sound_same_runs)
    (assumption+, erule keepsD [OF assms(2)], erule postD [OF assms(3)])

lemma outbox_advances:
  "advances S (claim_parent_completion w now sc wk n p)" "advances S (complete_parent_completion w now sc c)"
  "advances S (fail_parent_completion w now sc c rs)" "advances S (mark_parent_completion_unknown w now sc c rs)"
  "advances S (reconcile_parent_completion w now sc rid b a rs)"
  by (intro advances_delivery keys.claim_parent_completion_law ledger.claim_parent_completion_law
        claim_parent_completion_runs keys.complete_parent_completion_law ledger.complete_parent_completion_law
        keys.fail_parent_completion_law ledger.fail_parent_completion_law
        keys.mark_parent_completion_unknown_law ledger.mark_parent_completion_unknown_law
        keys.reconcile_parent_completion_law ledger.reconcile_parent_completion_law
        reconcile_parent_completion_runs outbox_calls_runs)+

section \<open>Every call\<close>

lemma make_scope_clean: "make_scope sc = Inr sc' \<Longrightarrow> strip (sc_run sc') = sc_run sc'"
  by (auto dest!: make_scope_ok simp: scope_ok_def clean_text_def)

lemmas call_advances_rules = advances_touches yield_step_advances fail_step_advances
  pause_for_approval_advances complete_run_advances fail_run_advances mark_unknown_advances
  resume_advances request_cancellation_advances dead_letter_advances claim_run_advances
  request_child_cancellation_advances submit_advances submit_child_advances submit_parent_advances
  aggregate_children_advances begin_effect_advances effect_calls_advances record_effect_result_advances
  mark_effect_unknown_advances cancel_run_advances reconcile_effect_advances reconcile_expired_advances
  request_parent_cancellation_advances outbox_advances

lemma call_advances:
  assumes "clean_world w"
  shows "advances (call_moves c) (exec_call w now c)"
  using assms
  by (cases c; simp only: exec_call.simps call_moves.simps [abs_def];
      (intro advances_done advances_lift call_advances_rules; (rule assms)?)) (auto dest: make_scope_clean)

lemma execute_advances:
  assumes "clean_world w" and "sound s"
  shows "sound (execute w (now, c) s) \<and> evolves (call_moves c) s (execute w (now, c) s)"
  using call_advances [OF assms(1), of c now] assms(2)
  by (auto simp: execute_def commit_def advances_def split: sum.splits)

lemma sound_empty: "sound empty_db"
  unfolding sound_def using well_kept_empty by (simp add: clean_ids_def parents_wait_def doubts_kept_def unknown_at_def empty_db_def)

lemma history_sound: "clean_world w \<Longrightarrow> sound s \<Longrightarrow> sound (run_history w h s)"
proof (induction h arbitrary: s)
  case (Cons tc h)
  then show ?case using execute_advances [of w s "fst tc" "snd tc"] by simp
qed simp

lemma reachable_sound: "clean_world w \<Longrightarrow> reachable w s \<Longrightarrow> sound s"
  by (auto simp: reachable_def intro: history_sound sound_empty)


section \<open>The abstract lifecycle\<close>

text \<open>The status of every run, and the steps a call may make on it: each run stays or moves as the
  table allows, and new runs are queued or wait for their children.\<close>

definition statuses :: "db \<Rightarrow> string \<Rightarrow> run_status option" where
  "statuses s i = map_option r_status (run_of i s)"

inductive lifecycle :: "run_call \<Rightarrow> (string \<Rightarrow> run_status option) \<Rightarrow> (string \<Rightarrow> run_status option) \<Rightarrow> bool" where
  "(\<And>i a. m i = Some a \<Longrightarrow> \<exists>b. n i = Some b \<and> (b = a \<or> call_moves c a b)) \<Longrightarrow>
   (\<And>i b. m i = None \<Longrightarrow> n i = Some b \<Longrightarrow> b \<in> {RunQueued, RunWaitingForChildren}) \<Longrightarrow> lifecycle c m n"

inductive_cases lifecycleE: "lifecycle c m n"

lemma statuses_eq_None: "statuses s i = None \<longleftrightarrow> (\<forall>r\<in>set (t_runs s). r_id r \<noteq> i)"
  by (auto simp: statuses_def find_None_iff)

lemma statuses_row: "statuses s i = Some a \<Longrightarrow> \<exists>r\<in>set (t_runs s). r_id r = i \<and> r_status r = a"
  by (auto simp: statuses_def dest!: run_of_in)

lemma run_of_row: "well_kept s \<Longrightarrow> r \<in> set (t_runs s) \<Longrightarrow> run_of (r_id r) s = Some r"
proof (cases "run_of (r_id r) s")
  case None
  then show "r \<in> set (t_runs s) \<Longrightarrow> ?thesis" by (auto simp: find_None_iff)
next
  case (Some q)
  then show "well_kept s \<Longrightarrow> r \<in> set (t_runs s) \<Longrightarrow> ?thesis"
    using same_row [of s r q] run_of_in [OF Some] by simp
qed

lemma evolves_statuses:
  assumes "well_kept s'" and "evolves S s s'"
  shows "statuses s i = Some a \<Longrightarrow> \<exists>b. statuses s' i = Some b \<and> (b = a \<or> S a b)"
    and "statuses s i = None \<Longrightarrow> statuses s' i = Some b \<Longrightarrow> b \<in> {RunQueued, RunWaitingForChildren}"
proof -
  assume "statuses s i = Some a"
  then obtain r where "r \<in> set (t_runs s)" "r_id r = i" "r_status r = a" using statuses_row by metis
  then obtain q where "q \<in> set (t_runs s')" "r_id q = i" "r_status q = a \<or> S a (r_status q)"
    using assms(2) unfolding evolves_def by metis
  then show "\<exists>b. statuses s' i = Some b \<and> (b = a \<or> S a b)"
    using run_of_row [OF assms(1), of q] by (simp add: statuses_def)
next
  assume "statuses s i = None" "statuses s' i = Some b"
  then show "b \<in> {RunQueued, RunWaitingForChildren}"
    using assms(2) statuses_row [of s' i b] unfolding statuses_eq_None evolves_def by metis
qed

lemma call_lifecycle:
  assumes "clean_world w" and "sound s"
  shows "lifecycle c (statuses s) (statuses (execute w (now, c) s))"
proof -
  note e = execute_advances [OF assms, of now c]
  then have "well_kept (execute w (now, c) s)" by (simp add: sound_def)
  from evolves_statuses [OF this conjunct2 [OF e]] show ?thesis by (intro lifecycle.intros)
qed

lemma completed_has_no_move: "\<not> call_moves c RunCompleted b"
  by (cases c) auto

lemma lifecycle_completed: "lifecycle c m n \<Longrightarrow> m i = Some RunCompleted \<Longrightarrow> n i = Some RunCompleted"
  by (erule lifecycleE) (metis completed_has_no_move)

lemma history_completed:
  assumes "clean_world w" and "sound s" and "statuses s i = Some RunCompleted"
  shows "statuses (run_history w h s) i = Some RunCompleted"
  using assms(2,3)
proof (induction h arbitrary: s)
  case (Cons tc h)
  have "statuses (execute w (fst tc, snd tc) s) i = Some RunCompleted"
    by (rule lifecycle_completed [OF call_lifecycle [OF assms(1) Cons.prems(1)] Cons.prems(2)])
  moreover have "sound (execute w (fst tc, snd tc) s)"
    using execute_advances [OF assms(1) Cons.prems(1)] by blast
  ultimately show ?case using Cons.IH by simp
qed simp


text \<open>A sequence of calls is a path of the abstract machine.\<close>

fun lifecycles :: "run_call list \<Rightarrow> (string \<Rightarrow> run_status option) \<Rightarrow> (string \<Rightarrow> run_status option) \<Rightarrow> bool" where
  "lifecycles [] m n = (m = n)"
| "lifecycles (c # cs) m n = (\<exists>k. lifecycle c m k \<and> lifecycles cs k n)"

lemma lifecycles_from:
  "clean_world w \<Longrightarrow> sound s \<Longrightarrow> lifecycles (map snd h) (statuses s) (statuses (run_history w h s))"
proof (induction h arbitrary: s)
  case (Cons tc h)
  have step: "lifecycle (snd tc) (statuses s) (statuses (execute w (fst tc, snd tc) s))"
    by (rule call_lifecycle [OF Cons.prems])
  have "sound (execute w (fst tc, snd tc) s)" using execute_advances [OF Cons.prems] by blast
  with Cons.IH [OF Cons.prems(1)] step show ?case by auto
qed simp

lemma statuses_empty: "statuses empty_db = (\<lambda>_. None)"
  by (simp add: statuses_def empty_db_def fun_eq_iff)

lemma history_lifecycles:
  "clean_world w \<Longrightarrow> lifecycles (map snd h) (\<lambda>_. None) (statuses (run_history w h empty_db))"
  using lifecycles_from [OF _ sound_empty, of w h] by (simp add: statuses_empty)

end
