(* ===== verification/RunRows.thy ===== *)
theory RunRows
  imports StatusTable
begin

text \<open>
  The life of a row of \<^verbatim>\<open>durable_runs\<close>: every call is a sequence of four elementary steps (a run is
  touched, moves to another status and gives up its lease, is added, or is taken under a fresh
  token).  What the steps keep, histories keep: the lease columns, the fencing tokens, revisions
  and cancellation requests.
\<close>

section \<open>Elementary steps\<close>

definition fresh_row :: "run_row \<Rightarrow> bool" where
  "fresh_row r \<longleftrightarrow>
     r_status r \<in> {RunQueued, RunWaitingForChildren} \<and> \<not> r_cancel r
     \<and> r_token r = None \<and> r_worker r = None \<and> r_lease r = None"

definition row_change :: "run_row list \<Rightarrow> run_row list \<Rightarrow> bool" where
  "row_change xs ys \<longleftrightarrow>
     (\<exists>rid. touches_runs rid xs ys)
     \<or> (\<exists>rid st. moves_runs rid st xs ys \<and> st \<noteq> RunRunning
          \<and> (st = RunCompleted \<longrightarrow> (\<exists>r. find (\<lambda>r. r_id r = rid) xs = Some r \<and> \<not> r_cancel r)))
     \<or> (\<exists>r. ys = xs @ [r] \<and> fresh_row r \<and> (\<forall>q\<in>set xs. r_id q \<noteq> r_id r))"

inductive row_step :: "world \<Rightarrow> db \<Rightarrow> db \<Rightarrow> bool" for w where
  change: "draws s \<le> draws s' \<Longrightarrow> row_change (t_runs s) (t_runs s') \<Longrightarrow> row_step w s s'"
| take: "draws s < draws s' \<Longrightarrow> takes_row w row worker lease now c s s' \<Longrightarrow> row \<in> set (t_runs s) \<Longrightarrow>
    r_status row \<in> {RunQueued, RunWaitingForRetry} \<Longrightarrow> \<not> r_cancel row \<Longrightarrow> row_step w s s'"

abbreviation row_steps :: "world \<Rightarrow> db \<Rightarrow> db \<Rightarrow> bool" where
  "row_steps w \<equiv> (row_step w)\<^sup>*\<^sup>*"

interpretation life: evolution "row_steps w" for w
  by unfold_locales (auto intro: rtranclp_trans)

lemma changes_same [simp]: "row_change xs xs"
  unfolding row_change_def using touches_runs_refl by blast

lemma row_changeI:
  "touches_runs rid xs ys \<Longrightarrow> row_change xs ys"
  "moves_runs rid st xs ys \<Longrightarrow> st \<noteq> RunRunning \<Longrightarrow> st \<noteq> RunCompleted \<Longrightarrow> row_change xs ys"
  "moves_runs rid RunCompleted xs ys \<Longrightarrow> find (\<lambda>r. r_id r = rid) xs = Some r \<Longrightarrow> \<not> r_cancel r \<Longrightarrow> row_change xs ys"
  unfolding row_change_def by blast+

definition changes :: "(db, 'a) op \<Rightarrow> bool" where
  "changes m \<longleftrightarrow> (\<forall>s. post m (\<lambda>_ s'. row_change (t_runs s) (t_runs s')) s)"

lemma changesI: "(\<And>s. post m (\<lambda>_ s'. row_change (t_runs s) (t_runs s')) s) \<Longrightarrow> changes m"
  by (simp add: changes_def)

lemma changes_steps:
  assumes "keeps store_grows m" and "changes m"
  shows "keeps (row_steps w) m"
proof (rule keepsI)
  fix s x s' assume "m s = Inr (x, s')"
  with assms have "draws s \<le> draws s'" "row_change (t_runs s) (t_runs s')"
    by (auto simp: changes_def store_grows_def post_def dest: keepsD)
  then show "row_steps w s s'" by (blast intro: row_step.change)
qed

section \<open>The calls\<close>

lemma worker_changes:
  "changes (renew w now scope c n)" "changes (start_step w now scope c sid)"
  "changes (yield_step w now scope c sid p)" "changes (add_checkpoint w now scope c sid k p)"
  "changes (complete_step w now scope c sid q)" "changes (fail_step w now scope c sid rs b)"
  "changes (pause_for_approval w now scope c sid i p)" "changes (complete_run w now scope c p)"
  "changes (fail_run w now scope c rs)" "changes (mark_unknown w now scope c rs)"
  "changes (begin_effect w now scope c sid k t v sc a)" "changes (mark_effect_started w now scope c e)"
  "changes (complete_effect w now scope c e d)" "changes (fail_effect w now scope c e rs)"
  "changes (mark_effect_unknown w now scope c e rs)" "changes (record_effect_result w now scope c e p)"
  "changes (record_child_progress w now scope c n' p k)"
  by (rule changesI, rule post_weaken,
      rule renew_runs start_step_runs yield_step_runs add_checkpoint_runs complete_step_runs fail_step_runs
        pause_for_approval_runs complete_run_runs fail_run_runs mark_unknown_runs begin_effect_runs
        mark_effect_started_runs complete_effect_runs fail_effect_runs mark_effect_unknown_runs
        record_effect_result_runs record_child_progress_runs,
      (simp; fail | (elim conjE bexE exE, fastforce intro: row_changeI)))+

lemma expires_run_change: "expires_run i s s' \<Longrightarrow> row_change (t_runs s) (t_runs s')"
  by (auto simp: expires_run_def intro: row_changeI)

lemma cancels_child_change: "cancels_child i s s' \<Longrightarrow> row_change (t_runs s) (t_runs s')"
  by (auto simp: cancels_child_def intro: row_changeI)

lemma settles_parent_change: "settles_parent i s s' \<Longrightarrow> strip i = i \<Longrightarrow> row_change (t_runs s) (t_runs s')"
  by (auto simp: settles_parent_def intro: row_changeI)

lemma host_changes:
  "changes (record_event w now scope rid n a p g)" "changes (resume w now scope rid a rs)"
  "changes (request_cancellation w now scope rid a rs)" "changes (cancel_run w now scope rid a rs c)"
  "changes (dead_letter w now scope rid a rs)" "changes (steer w now scope rid i a k)"
  "changes (reconcile_one w now sc' row)" "changes (reconcile_effect w now scope eid d a rs dg)"
  "changes (request_child_cancellation w now scope i a rs)"
  "changes (request_child_cancellation_of w pid i a rs now)"
  "changes (claim_parent_completion w now sc wk n' p')" "changes (complete_parent_completion w now sc c')"
  "changes (fail_parent_completion w now sc c' rs)" "changes (mark_parent_completion_unknown w now sc c' rs)"
  "changes (reconcile_parent_completion w now sc rid b a rs)"
  by (rule changesI, rule post_weaken,
      rule record_event_runs resume_runs request_cancellation_runs cancel_run_runs dead_letter_runs steer_runs
        reconcile_one_runs reconcile_effect_runs request_child_cancellation_runs
        request_child_cancellation_of_runs claim_parent_completion_runs outbox_calls_runs
        reconcile_parent_completion_runs,
      (simp; fail | (elim conjE bexE exE disjE; (simp; fail | fastforce intro: row_changeI))
        | (auto intro: row_changeI cancels_child_change; fail)))+

lemma adds_run_change: "adds_run w scope sub k now s s' \<Longrightarrow> row_change (t_runs s) (t_runs s')"
  unfolding row_change_def adds_run_def
  by (intro disjI2 exI [of _ "new_run_row w scope sub k now"]) (simp add: fresh_row_def)

lemma adds_parent_change: "adds_parent scope s s' \<Longrightarrow> row_change (t_runs s) (t_runs s')"
  unfolding row_change_def adds_parent_def fresh_row_def by fastforce

lemma submission_changes:
  "changes (submit w now scope sub a)" "changes (submit_child w now ps cs sub v a)"
  by (rule changesI, rule post_weaken, rule submit_runs submit_child_runs,
      auto intro: adds_run_change)+

lemma submit_parent_changes: "strip (sc_run scope) = sc_run scope \<Longrightarrow> changes (submit_parent w now scope sub p a)"
  by (rule changesI, rule post_weaken, erule submit_parent_runs)
    (auto intro: adds_run_change adds_parent_change)

section \<open>Sequences of steps\<close>

lemma upd_runs_changes: "(\<And>r. P r \<Longrightarrow> touches r (f r)) \<Longrightarrow> (\<And>r. P r \<Longrightarrow> r_id r = rid) \<Longrightarrow> changes (upd_runs P f)"
  by (rule changesI, intro post_intros row_changeI(1) [of rid])
    (auto simp: touches_runs_def intro!: list_all2_upd_where)

lemma steps_quiet:
  "keeps store_grows m \<Longrightarrow> (\<And>s x s'. m s = Inr (x, s') \<Longrightarrow> t_runs s' = t_runs s) \<Longrightarrow> keeps (row_steps w) m"
  by (rule changes_steps) (auto simp: changes_def post_def)

lemma request_parent_cancellation_steps: "keeps (row_steps w) (request_parent_cancellation w now ps a rs)"
  unfolding request_parent_cancellation_def
  by (intro life.keeps_bind life.keeps_lift keeps_let keeps_if life.keeps_if_so life.keeps_map_op life.keeps_ret
      changes_steps [OF rows.request_child_cancellation_of_law host_changes(10)]
      changes_steps [OF rows.upd_runs upd_runs_changes]
      steps_quiet [OF rows.log_keyed_law] steps_quiet [OF rows.read_parent_law])
    (auto dest!: log_keyed_quiet quiet_runs read_parentD)

lemma reconcile_expired_steps: "keeps (row_steps w) (reconcile_expired w now sc)"
  unfolding reconcile_expired_def
  by (intro life.keeps_bind life.keeps_gets life.keeps_map_op life.keeps_ret
      changes_steps [OF rows.reconcile_one_law host_changes(7)])

lemma new_uuid_draws: "new_uuid w s = Inr (i, s') \<Longrightarrow> draws s < draws s'"
  by (simp add: result_simps)

lemma take_lease_draws:
  "take_lease w row p worker lease now s = Inr (c, s') \<Longrightarrow> draws s < draws s'"
  unfolding take_lease_def
proof (subst (asm) bind_eq_Inr, elim exE conjE)
  fix tok s1
  assume u: "new_uuid w s = Inr (tok, s1)"
  let ?rest = "bind (upd_runs (\<lambda>r. r_id r = r_id row \<and> r_rev r = r_rev row \<and> r_status r \<in> {RunQueued, RunWaitingForRetry})
      (claimed_row tok worker lease (r_rev row + 1) now)) (\<lambda>n. bind (guard (n = 1) RunConflictError)
      (\<lambda>_. bind (log_event w (r_id row) ''run.started'' worker None [(''lease_until'', PTime lease)] now)
      (\<lambda>_. lift (make_run_claim \<lparr>c_run = r_id row, c_scope_key = scope_key w p, c_worker = worker,
          c_token = tok, c_lease = lease, c_rev = r_rev row + 1\<rparr>))))"
  assume r: "?rest s1 = Inr (c, s')"
  have "keeps store_grows ?rest" by (intro keeps_intros; simp)
  from keepsD [OF this r] new_uuid_draws [OF u] show "draws s < draws s'" by (simp add: store_grows_def)
qed

lemma claim_run_draws:
  "post (claim_run w now scope worker n rid) (\<lambda>c s'. c \<noteq> None \<longrightarrow> draws s < draws s') s"
proof -
  have t: "post (take_lease w row p wk lease now) (\<lambda>_ s'. draws s < draws s') s" for row p wk lease s
    by (rule postI) (rule take_lease_draws)
  show ?thesis
    unfolding claim_run_def
    by (intro post_intros post_weaken [OF expire_linked_runs] post_weaken [OF t]) auto
qed

lemma claim_run_steps: "keeps (row_steps w) (claim_run w now scope worker n rid)"
proof (rule keepsI)
  fix s c s' assume e: "claim_run w now scope worker n rid s = Inr (c, s')"
  note shape = postD [OF claim_run_runs e] and drawn = postD [OF claim_run_draws e]
  have grows: "draws s \<le> draws s'" using keepsD [OF rows.claim_run_law e] by (simp add: store_grows_def)
  show "row_steps w s s'"
  proof (cases c)
    case None
    then show ?thesis
      using shape grows
      by (auto simp: claims_run_def intro!: r_into_rtranclp row_step.change elim: expires_run_change)
  next
    case (Some d)
    then obtain target row wk lease where
      f: "first_by (\<lambda>r. (r_created r, r_id r)) (claimable scope target now s) (t_runs s) = Some row"
      and t: "takes_row w row wk lease now d s s'"
      using shape by (auto simp: claims_run_def)
    have "row \<in> set (t_runs s)" "claimable scope target now s row" using first_by_SomeD [OF f] by auto
    then show ?thesis
      using drawn Some t by (intro r_into_rtranclp row_step.take [OF _ t]) (auto simp: claimable_def)
  qed
qed

lemma aggregate_children_steps:
  assumes "sound s" and "aggregate_children w now ps a k s = Inr (x, s')"
  shows "row_steps w s s'"
proof -
  have grows: "draws s \<le> draws s'"
    using keepsD [OF rows.aggregate_children_law assms(2)] by (simp add: store_grows_def)
  have "row_change (t_runs s) (t_runs s')"
  proof (cases "s' = s")
    case False
    then have c: "settles_parent (sc_run ps) s s'" using postD [OF aggregate_children_runs assms(2)] by blast
    then obtain r where "r \<in> set (t_runs s)" "r_id r = sc_run ps"
      by (auto simp: settles_parent_def dest: run_of_in)
    then have "strip (sc_run ps) = sc_run ps" using assms(1) unfolding sound_def clean_ids_def by metis
    with c show ?thesis by (rule settles_parent_change)
  qed simp
  with grows show ?thesis by (blast intro: row_step.change)
qed

lemmas call_changes = worker_changes host_changes submission_changes

lemma call_steps:
  assumes "sound s" and "exec_call w now c s = Inr (u, s')"
  shows "row_steps w s s'"
proof (cases "row_change (t_runs s) (t_runs s')")
  case True
  moreover have "draws s \<le> draws s'"
    using keepsD [OF rows.exec_call_law assms(2)] by (simp add: store_grows_def)
  ultimately show ?thesis by (blast intro: row_step.change)
next
  case False
  then show ?thesis
    using assms
    by (cases c)
      (auto simp: done_after_eq result_simps
        dest: call_changes [unfolded changes_def post_def, rule_format] make_scope_clean
          submit_parent_changes [unfolded changes_def post_def, rule_format]
          keepsD [OF claim_run_steps] keepsD [OF reconcile_expired_steps]
          keepsD [OF request_parent_cancellation_steps] aggregate_children_steps)
qed


section \<open>What the steps keep\<close>

text \<open>Where a row of the new database comes from.\<close>

definition row_origin :: "world \<Rightarrow> db \<Rightarrow> db \<Rightarrow> run_row \<Rightarrow> bool" where
  "row_origin w s s' q \<longleftrightarrow>
     (\<exists>r\<in>set (t_runs s). touches r q)
     \<or> (\<exists>r\<in>set (t_runs s). \<exists>st. settles st r q \<and> st \<noteq> RunRunning
          \<and> (st = RunCompleted \<longrightarrow> (\<exists>x\<in>set (t_runs s). r_id x = r_id q \<and> \<not> r_cancel x)))
     \<or> fresh_row q \<and> (\<forall>r\<in>set (t_runs s). r_id r \<noteq> r_id q)
     \<or> (\<exists>r\<in>set (t_runs s). \<exists>n wk lease now. q = claimed_row (uuid4 w n) wk lease (r_rev r + 1) now r
          \<and> \<not> r_cancel r \<and> r_status r \<in> {RunQueued, RunWaitingForRetry} \<and> draws s \<le> n \<and> n < draws s')"

lemma rowcount_one: "rowcount P xs = 1 \<Longrightarrow> x \<in> set xs \<Longrightarrow> P x \<Longrightarrow> y \<in> set xs \<Longrightarrow> P y \<Longrightarrow> x = y"
proof -
  assume "rowcount P xs = 1" and m: "x \<in> set xs" "P x" "y \<in> set xs" "P y"
  then obtain z where z: "filter P xs = [z]" by (auto simp: rowcount_def length_Suc_conv)
  have "x \<in> set (filter P xs)" "y \<in> set (filter P xs)" using m by simp_all
  then show "x = y" unfolding z by simp
qed

lemma row_step_origin:
  assumes "row_step w s s'" and "q \<in> set (t_runs s')"
  shows "row_origin w s s' q"
proof (cases "q \<in> set (t_runs s)")
  case True
  then show ?thesis unfolding row_origin_def using touches_refl by blast
next
  case new: False
  from assms(1) show ?thesis
  proof (cases rule: row_step.cases)
    case change
    from change(2) show ?thesis unfolding row_change_def
    proof (elim disjE exE conjE)
      fix rid assume t: "touches_runs rid (t_runs s) (t_runs s')"
      obtain r where "r \<in> set (t_runs s)" "touches r q"
        using list_all2_rows(2) [OF t [unfolded touches_runs_def] assms(2)] by (auto split: if_splits)
      then show ?thesis by (auto simp: row_origin_def)
    next
      fix rid st assume m: "moves_runs rid st (t_runs s) (t_runs s')" and st: "st \<noteq> RunRunning"
        and fin: "st = RunCompleted \<longrightarrow> (\<exists>r. run_of rid s = Some r \<and> \<not> r_cancel r)"
      obtain r where r: "r \<in> set (t_runs s)" "if r_id r = rid then settles st r q else q = r"
        using list_all2_rows(2) [OF m [unfolded moves_runs_def] assms(2)] by auto
      show ?thesis
      proof (cases "r_id r = rid")
        case True
        then have "r_id q = rid" using r(2) by (simp add: settles_def same_identity_def)
        then have "st = RunCompleted \<longrightarrow> (\<exists>x\<in>set (t_runs s). r_id x = r_id q \<and> \<not> r_cancel x)"
          using fin run_of_in by metis
        then show ?thesis using r st True unfolding row_origin_def by auto
      qed (use r new in auto)
    next
      fix r assume "t_runs s' = t_runs s @ [r]" "fresh_row r" "\<forall>q\<in>set (t_runs s). r_id q \<noteq> r_id r"
      then show ?thesis using assms(2) new unfolding row_origin_def by auto
    qed
  next
    case (take row worker lease now c)
    let ?P = "\<lambda>r. r_id r = r_id row \<and> r_rev r = r_rev row \<and> r_status r \<in> {RunQueued, RunWaitingForRetry}"
    have one: "rowcount ?P (t_runs s) = 1"
      and upd: "t_runs s' = upd_where ?P (claimed_row (uuid4 w (draws s)) worker lease (r_rev row + 1) now) (t_runs s)"
      using take(2) by (simp_all add: takes_row_def)
    obtain r where r: "r \<in> set (t_runs s)"
      "q = (if ?P r then claimed_row (uuid4 w (draws s)) worker lease (r_rev row + 1) now r else r)"
      using assms(2) unfolding upd set_upd_where by blast
    show ?thesis
    proof (cases "?P r")
      case True
      have "row = r" by (rule rowcount_one [OF one]) (use take r True in simp_all)
      then have ok: "\<not> r_cancel r" "r_status r \<in> {RunQueued, RunWaitingForRetry}"
        using take(4,5) by blast+
      have "q = claimed_row (uuid4 w (draws s)) worker lease (r_rev row + 1) now r"
        using r(2) True by argo
      then have q: "q = claimed_row (uuid4 w (draws s)) worker lease (r_rev r + 1) now r"
        using True by argo
      show ?thesis
        unfolding row_origin_def using r(1) q ok take(1) by blast
    qed (use r new in auto)
  qed
qed

text \<open>A relation that the elementary steps have, calls and histories have.\<close>

locale row_law = evolution R for R :: "db \<Rightarrow> db \<Rightarrow> bool" +
  fixes w :: world
  assumes step: "row_step w s s' \<Longrightarrow> R s s'"
begin

lemma steps: "row_steps w s s' \<Longrightarrow> R s s'"
  by (induction rule: rtranclp_induct) (auto intro: same later step)

lemma call: "sound s \<Longrightarrow> R s (execute w (now, c) s)"
  by (auto simp: execute_def commit_def intro: same steps call_steps split: sum.splits)

lemma history: "clean_world w \<Longrightarrow> sound s \<Longrightarrow> R s (run_history w h s)"
proof (induction h arbitrary: s)
  case (Cons tc h)
  have "R s (execute w (fst tc, snd tc) s)" by (rule call [OF Cons.prems(2)])
  moreover have "sound (execute w (fst tc, snd tc) s)" using execute_advances [OF Cons.prems] by blast
  ultimately show ?case using Cons.IH [OF Cons.prems(1)] later by auto
qed (simp add: same)

lemma reached: "clean_world w \<Longrightarrow> reachable w s \<Longrightarrow> R empty_db s"
  by (auto simp: reachable_def intro: history sound_empty)

end

subsection \<open>The lease columns\<close>

definition lease_row :: "run_row \<Rightarrow> bool" where
  "lease_row r \<longleftrightarrow>
     (r_status r = RunRunning \<longleftrightarrow> r_token r \<noteq> None) \<and> (r_worker r = None \<longleftrightarrow> r_token r = None)
     \<and> (r_lease r = None \<longleftrightarrow> r_token r = None)"

definition lease_rows :: "db \<Rightarrow> bool" where
  "lease_rows s \<longleftrightarrow> (\<forall>r\<in>set (t_runs s). lease_row r)"

lemma lease_row_changes:
  "lease_row r \<Longrightarrow> touches r q \<Longrightarrow> lease_row q"
  "settles st r q \<Longrightarrow> st \<noteq> RunRunning \<Longrightarrow> lease_row q"
  "fresh_row q \<Longrightarrow> lease_row q" "lease_row (claimed_row t wk l n now r)"
  by (auto simp: lease_row_def touches_def settles_def fresh_row_def claimed_row_def)

interpretation leases: row_law "preserves lease_rows" w for w
proof unfold_locales
  fix s s' assume "row_step w s s'"
  from row_step_origin [OF this] show "preserves lease_rows s s'"
    unfolding preserves_def lease_rows_def row_origin_def by (blast intro: lease_row_changes)
qed

subsection \<open>Fencing tokens\<close>

definition tokens_drawn :: "world \<Rightarrow> db \<Rightarrow> bool" where
  "tokens_drawn w s \<longleftrightarrow> (\<forall>r\<in>set (t_runs s). \<forall>t. r_token r = Some t \<longrightarrow> (\<exists>n<draws s. t = uuid4 w n))"

lemma row_step_draws: "row_step w s s' \<Longrightarrow> draws s \<le> draws s'"
  by (auto elim: row_step.cases)

lemma token_origin:
  assumes "row_step w s s'" and "q \<in> set (t_runs s')" and "r_token q = Some t"
  shows "(\<exists>r\<in>set (t_runs s). r_id r = r_id q \<and> r_token r = Some t)
    \<or> (\<exists>n. t = uuid4 w n \<and> draws s \<le> n \<and> n < draws s')"
  using row_step_origin [OF assms(1,2)] assms(3)
  by (auto simp: row_origin_def touches_def settles_def same_identity_def fresh_row_def claimed_row_def)

interpretation tokens: row_law "preserves (tokens_drawn w)" w for w
proof unfold_locales
  fix s s' assume r: "row_step w s s'"
  show "preserves (tokens_drawn w) s s'"
    unfolding preserves_def tokens_drawn_def
  proof (intro impI ballI allI)
    fix q t assume "\<forall>r\<in>set (t_runs s). \<forall>t. r_token r = Some t \<longrightarrow> (\<exists>n<draws s. t = uuid4 w n)"
      and "q \<in> set (t_runs s')" "r_token q = Some t"
    with token_origin [OF r this(2,3)] row_step_draws [OF r] show "\<exists>n<draws s'. t = uuid4 w n"
      using order_less_le_trans by blast
  qed
qed

text \<open>A token that a run does not hold now, it never holds again: a lost lease stays lost.\<close>

definition lost :: "world \<Rightarrow> string \<Rightarrow> nat \<Rightarrow> db \<Rightarrow> bool" where
  "lost w rid k s \<longleftrightarrow> k < draws s \<and> (\<forall>r\<in>set (t_runs s). r_id r = rid \<longrightarrow> r_token r \<noteq> Some (uuid4 w k))"

lemma lost_step:
  assumes "inj (uuid4 w)" and "row_step w s s'" and "lost w rid k s"
  shows "lost w rid k s'"
  unfolding lost_def
proof (intro conjI ballI impI notI)
  show "k < draws s'" using row_step_draws [OF assms(2)] assms(3) by (simp add: lost_def)
  fix q assume "q \<in> set (t_runs s')" "r_id q = rid" "r_token q = Some (uuid4 w k)"
  with token_origin [OF assms(2) this(1,3)] assms(1,3) show False
    by (auto simp: lost_def dest: injD)
qed

interpretation fencing: row_law "preserves (\<lambda>s. inj (uuid4 w) \<longrightarrow> lost w rid k s)" w for rid k w
  by unfold_locales (auto simp: preserves_def intro: lost_step)

subsection \<open>Revisions\<close>

text \<open>The revision never decreases, and the status and the lease holder change only with it.\<close>

definition row_later :: "run_row \<Rightarrow> run_row \<Rightarrow> bool" where
  "row_later r q \<longleftrightarrow>
     r_id q = r_id r \<and> r_rev r \<le> r_rev q
     \<and> (r_rev q = r_rev r \<longrightarrow> r_status q = r_status r \<and> r_token q = r_token r \<and> r_worker q = r_worker r)"

lemma row_later_trans: "row_later a b \<Longrightarrow> row_later b c \<Longrightarrow> row_later a c"
  by (auto simp: row_later_def)

lemma row_later_refl [simp]: "row_later r r"
  by (simp add: row_later_def)

definition rows_later :: "db \<Rightarrow> db \<Rightarrow> bool" where
  "rows_later s s' \<longleftrightarrow> (\<forall>r\<in>set (t_runs s). \<exists>q\<in>set (t_runs s'). row_later r q)"

interpretation revisions: row_law rows_later w for w
proof unfold_locales
  show "rows_later s s" for s unfolding rows_later_def using row_later_refl by blast
  show "rows_later s t \<Longrightarrow> rows_later t u \<Longrightarrow> rows_later s u" for s t u
    unfolding rows_later_def by (meson row_later_trans)
  fix s s' assume "row_step w s s'"
  then show "rows_later s s'"
  proof (cases rule: row_step.cases)
    case change
    from change(2) show ?thesis unfolding row_change_def rows_later_def
    proof (elim disjE exE conjE; intro ballI)
      fix rid r assume "touches_runs rid (t_runs s) (t_runs s')" "r \<in> set (t_runs s)"
      from list_all2_rows(1) [OF this(1) [unfolded touches_runs_def] this(2)]
      show "\<exists>q\<in>set (t_runs s'). row_later r q"
        by (auto simp: row_later_def touches_def same_identity_def split: if_splits)
    next
      fix rid st r assume "moves_runs rid st (t_runs s) (t_runs s')" "r \<in> set (t_runs s)"
      from list_all2_rows(1) [OF this(1) [unfolded moves_runs_def] this(2)]
      show "\<exists>q\<in>set (t_runs s'). row_later r q"
        by (auto simp: row_later_def settles_def same_identity_def split: if_splits)
    next
      fix x r assume "t_runs s' = t_runs s @ [x]" "r \<in> set (t_runs s)"
      then show "\<exists>q\<in>set (t_runs s'). row_later r q" by (auto intro: bexI [of _ r])
    qed
  next
    case (take row worker lease now c)
    let ?P = "\<lambda>r. r_id r = r_id row \<and> r_rev r = r_rev row \<and> r_status r \<in> {RunQueued, RunWaitingForRetry}"
    let ?f = "\<lambda>r. if ?P r then claimed_row (uuid4 w (draws s)) worker lease (r_rev row + 1) now r else r"
    have "set (t_runs s') = ?f ` set (t_runs s)" using take(2) by (simp add: takes_row_def set_upd_where)
    moreover have "row_later r (?f r)" for r by (simp add: row_later_def claimed_row_def)
    ultimately show ?thesis unfolding rows_later_def by blast
  qed
qed

subsection \<open>Cancellation requests\<close>

text \<open>Once cancellation is requested, no new lease is granted and the run never completes.\<close>

definition stopping :: "string \<Rightarrow> bool \<Rightarrow> db \<Rightarrow> bool" where
  "stopping rid idle s \<longleftrightarrow>
     (\<exists>r\<in>set (t_runs s). r_id r = rid)
     \<and> (\<forall>r\<in>set (t_runs s). r_id r = rid \<longrightarrow> r_cancel r \<and> r_status r \<noteq> RunCompleted \<and> (idle \<longrightarrow> r_status r \<noteq> RunRunning))"

lemma row_step_ids: "row_step w s s' \<Longrightarrow> r \<in> set (t_runs s) \<Longrightarrow> \<exists>q\<in>set (t_runs s'). r_id q = r_id r"
  using revisions.step by (fastforce simp: rows_later_def row_later_def)

interpretation cancellation: row_law "preserves (stopping rid idle)" w for rid idle w
proof unfold_locales
  fix s s' assume r: "row_step w s s'"
  show "preserves (stopping rid idle) s s'"
    unfolding preserves_def stopping_def
  proof (intro impI conjI ballI, elim conjE)
    assume a: "\<exists>r\<in>set (t_runs s). r_id r = rid"
    then show "\<exists>r\<in>set (t_runs s'). r_id r = rid" using row_step_ids [OF r] by metis
  next
    fix q assume a: "(\<exists>r\<in>set (t_runs s). r_id r = rid) \<and> (\<forall>r\<in>set (t_runs s). r_id r = rid \<longrightarrow>
        r_cancel r \<and> r_status r \<noteq> RunCompleted \<and> (idle \<longrightarrow> r_status r \<noteq> RunRunning))"
      and q: "q \<in> set (t_runs s')" "r_id q = rid"
    have "r_cancel q \<and> r_status q \<noteq> RunCompleted \<and> (idle \<longrightarrow> r_status q \<noteq> RunRunning)"
      using row_step_origin [OF r q(1)] a q(2) unfolding row_origin_def
    proof (elim disjE bexE exE conjE)
      fix r n wk lease now
      assume "r \<in> set (t_runs s)" "q = claimed_row (uuid4 w n) wk lease (r_rev r + 1) now r" "\<not> r_cancel r"
      then show ?thesis using a q(2) by auto
    qed (auto simp: touches_def settles_def same_identity_def)
    then show "r_cancel q" "r_status q \<noteq> RunCompleted" "idle \<Longrightarrow> r_status q \<noteq> RunRunning" by simp_all
  qed
qed


section \<open>Calls under a lease\<close>

text \<open>The claim a worker's call presents.\<close>

fun worker_claim :: "run_call \<Rightarrow> run_claim option" where
  "worker_claim (Renew _ c _) = Some c"
| "worker_claim (StartStep _ c _) = Some c"
| "worker_claim (YieldStep _ c _ _) = Some c"
| "worker_claim (AddCheckpoint _ c _ _ _) = Some c"
| "worker_claim (CompleteStep _ c _ _) = Some c"
| "worker_claim (FailStep _ c _ _ _) = Some c"
| "worker_claim (PauseForApproval _ c _ _ _) = Some c"
| "worker_claim (Complete _ c _) = Some c"
| "worker_claim (Fail _ c _) = Some c"
| "worker_claim (MarkUnknown _ c _) = Some c"
| "worker_claim (BeginEffect _ c _ _ _ _ _ _) = Some c"
| "worker_claim (MarkEffectStarted _ c _) = Some c"
| "worker_claim (CompleteEffect _ c _ _) = Some c"
| "worker_claim (FailEffect _ c _ _) = Some c"
| "worker_claim (MarkEffectUnknown _ c _ _) = Some c"
| "worker_claim (RecordChildProgress _ c _ _ _) = Some c"
| "worker_claim _ = None"

lemma leased_calls:
  "renew w now scope c n s = Inr r \<Longrightarrow> leased c now s" "start_step w now scope c sid s = Inr r1 \<Longrightarrow> leased c now s"
  "yield_step w now scope c sid p s = Inr r2 \<Longrightarrow> leased c now s"
  "add_checkpoint w now scope c sid k p s = Inr r3 \<Longrightarrow> leased c now s"
  "complete_step w now scope c sid q s = Inr r4 \<Longrightarrow> leased c now s"
  "fail_step w now scope c sid rs b s = Inr r5 \<Longrightarrow> leased c now s"
  "pause_for_approval w now scope c sid i p s = Inr r6 \<Longrightarrow> leased c now s"
  "complete_run w now scope c p s = Inr r7 \<Longrightarrow> leased c now s" "fail_run w now scope c rs s = Inr r8 \<Longrightarrow> leased c now s"
  "mark_unknown w now scope c rs s = Inr r9 \<Longrightarrow> leased c now s"
  "begin_effect w now scope c sid k t v sc a s = Inr r10 \<Longrightarrow> leased c now s"
  "mark_effect_started w now scope c e s = Inr r11 \<Longrightarrow> leased c now s"
  "complete_effect w now scope c e d s = Inr r12 \<Longrightarrow> leased c now s"
  "fail_effect w now scope c e rs s = Inr r13 \<Longrightarrow> leased c now s"
  "mark_effect_unknown w now scope c e rs s = Inr r14 \<Longrightarrow> leased c now s"
  "record_child_progress w now scope c n' p k s = Inr r15 \<Longrightarrow> leased c now s"
  using renew_runs start_step_runs yield_step_runs add_checkpoint_runs complete_step_runs fail_step_runs
    pause_for_approval_runs complete_run_runs fail_run_runs mark_unknown_runs begin_effect_runs
    mark_effect_started_runs complete_effect_runs fail_effect_runs mark_effect_unknown_runs
    record_child_progress_runs
  unfolding post_def by (metis prod.collapse)+

lemma worker_call_leased:
  "worker_claim c = Some k \<Longrightarrow> exec_call w now c s = Inr (u, s') \<Longrightarrow> leased k now s"
  by (cases c) (auto simp: done_after_eq dest: leased_calls)

end
