(* ===== verification/Scenario.thy ===== *)
theory Scenario
  imports RunRows
begin

text \<open>
  A concrete history: one run with one step and one external effect, from its submission to its
  completion, and the branches where the effect's outcome is lost and where cancellation is
  requested.  Every state is written out and checked against the execution of the call that leads
  to it; the states are where properties with hypotheses are applied.
\<close>

definition w0 :: world where
  "w0 = \<lparr>redact_text = id, uuid4 = (\<lambda>n. ''u'' @ digits_of n), sha256 = (\<lambda>s. ''h'' @ digits_of (length s))\<rparr>"

definition sc0 :: exec_scope where
  "sc0 = \<lparr>sc_tenant = ''t'', sc_workspace = ''w'', sc_actor = None, sc_agent = ''a'', sc_version = ''1'',
     sc_run = ''r1'', sc_conversation = None, sc_trigger = None, sc_channel = None, sc_parent = None,
     sc_grants = {}\<rparr>"

definition retry0 :: retry_policy where
  "retry0 = \<lparr>rp_max_attempts = 2, rp_initial_delay = 1, rp_max_delay = 60, rp_multiplier = 2\<rparr>"

definition su0 :: run_submission where
  "su0 = \<lparr>su_key = ''k'', su_input = ''i'', su_def = ''d'',
     su_steps = [\<lparr>d_id = ''s1'', d_name = ''S'', d_retry = retry0, d_meta = []\<rparr>],
     su_budget = [], su_meta = [], su_source = None, su_correlation = None\<rparr>"

definition cl0 :: run_claim where
  "cl0 = \<lparr>c_run = ''r1'', c_scope_key = ''h193'', c_worker = ''wk'', c_token = ''u1'', c_lease = 60000002,
     c_rev = 1\<rparr>"

definition budget0 :: run_budget where
  "budget0 = \<lparr>b_scope = ScChildTask, b_model_calls = Some 5, b_tool_calls = None, b_tokens = Some 100,
     b_cost = None, b_deadline = None, b_unknown = FailClosed\<rparr>"

definition policy0 :: parent_policy where
  "policy0 = \<lparr>pp_required = 1, pp_max = 2, pp_budget = budget0\<rparr>"

definition delivery0 :: "db \<Rightarrow> completion_claim" where
  "delivery0 s = \<lparr>cc_completion = hd (t_outbox s), cc_worker = ''wk'', cc_token = ''u9'', cc_lease = 60000005\<rparr>"

definition sc1 :: exec_scope where
  "sc1 = sc0\<lparr>sc_run := ''r2'', sc_parent := Some ''r1''\<rparr>"

definition su1 :: run_submission where
  "su1 = su0\<lparr>su_key := ''k2'', su_budget := budget_to_dict (budget0\<lparr>b_model_calls := Some 2, b_tokens := Some 60\<rparr>)\<rparr>"

section \<open>States\<close>

text \<open>The keys of the payloads below name no secret; with that known, evaluation does not search them
  for the markers again.\<close>

definition plain_keys :: "string list" where
  "plain_keys = [''actor_id'', ''agent_id'', ''agent_version'', ''channel_id'', ''conversation_id'', ''grants'', ''parent_run_id'', ''run_id'', ''tenant_id'', ''trigger_id'', ''workspace_id'', ''definition_digest'', ''input_digest'', ''source_event_id'', ''lease_until'', ''attempt_id'', ''attempt'', ''effect_id'', ''logical_key'', ''tool_name'', ''tool_version'', ''schema_version'', ''arguments_digest'', ''reason'', ''result_digest'', ''result'', ''ok'', ''x'', ''status'', ''policy'', ''required_children'', ''max_children'', ''budget'', ''scope'', ''max_model_calls'', ''max_tool_calls'', ''max_tokens'', ''max_cost'', ''deadline'', ''unknown_cost_policy'', ''child_run_id'', ''ordinal'', ''definition_revision'', ''children'', ''terminal_evidence'', ''error'', ''completion_id'', ''child_run_ids'', ''run_status'', ''cancellation_requested'']"

lemma plain_keys_ok: "list_all (\<lambda>k. \<not> is_secret_key k) plain_keys"
  by code_simp

lemma is_secret_key_plain [code]:
  "is_secret_key k = (if k \<in> set plain_keys then False else secret_name (normalized_key k))"
  using plain_keys_ok by (auto simp: list_all_iff is_secret_key_def)

definition run_r1 :: run_row where
  "run_r1 = \<lparr>r_id = ''r1'', r_tenant = ''t'', r_workspace = ''w'', r_agent = ''a'', r_version
     = ''1'', r_scope_key = ''h193'', r_scope = [(''actor_id'', PNone), (''agent_id'', PStr ''a''),
     (''agent_version'', PStr ''1''), (''channel_id'', PNone), (''conversation_id'', PNone),
     (''grants'', PList []), (''parent_run_id'', PNone), (''run_id'', PStr ''r1''), (''tenant_id'',
     PStr ''t''), (''trigger_id'', PNone), (''workspace_id'', PStr ''w'')], r_idem = ''k'', r_input
     = ''i'', r_def = ''d'', r_status = RunQueued, r_rev = 0, r_cancel = False, r_waiting = None,
     r_retry_at = None, r_budget = [], r_meta = [], r_result = None, r_error = None, r_token = None,
     r_worker = None, r_lease = None, r_created = 1, r_updated = 1, r_completed = None\<rparr>"

definition step_s1 :: step_record where
  "step_s1 = \<lparr>s_id = ''s1'', s_run = ''r1'', s_name = ''S'', s_status = StepQueued, s_rev =
     0, s_attempts = 0, s_retry = \<lparr>rp_max_attempts = 2, rp_initial_delay = 1, rp_max_delay =
     60, rp_multiplier = 2\<rparr>, s_retry_at = None, s_checkpoint = None, s_error = None, s_meta =
     [], s_created = 1, s_updated = 1, s_started = None, s_completed = None\<rparr>"

definition event_u0 :: run_event where
  "event_u0 = \<lparr>v_id = ''u0'', v_run = ''r1'', v_seq = 1, v_name = ''run.queued'', v_actor =
     ''host'', v_payload = [(''definition_digest'', PStr ''d''), (''input_digest'', PStr ''i''),
     (''source_event_id'', PNone)], v_step = None, v_causation = None, v_correlation = None, v_idem
     = Some ''submit:k'', v_created = 1\<rparr>"

definition queued_db :: db where
  "queued_db = empty_db\<lparr>t_runs := [run_r1], t_steps := [step_s1], t_events := [event_u0],
     draws := 1\<rparr>"

definition event_u2 :: run_event where
  "event_u2 = \<lparr>v_id = ''u2'', v_run = ''r1'', v_seq = 2, v_name = ''run.started'', v_actor =
     ''wk'', v_payload = [(''lease_until'', PTime 60000002)], v_step = None, v_causation = None,
     v_correlation = None, v_idem = None, v_created = 2\<rparr>"

definition claimed_db :: db where
  "claimed_db = empty_db\<lparr>t_runs := [run_r1\<lparr>r_status := RunRunning, r_rev := 1, r_token
     := Some ''u1'', r_worker := Some ''wk'', r_lease := Some 60000002, r_updated := 2\<rparr>],
     t_steps := [step_s1], t_events := [event_u0, event_u2], draws := 3\<rparr>"

definition attempt_u3 :: attempt_record where
  "attempt_u3 = \<lparr>a_id = ''u3'', a_run = ''r1'', a_step = ''s1'', a_number = 1, a_status =
     AttemptRunning, a_worker = ''wk'', a_token = ''u1'', a_started = 3, a_completed = None, a_error
     = None\<rparr>"

definition event_u4 :: run_event where
  "event_u4 = \<lparr>v_id = ''u4'', v_run = ''r1'', v_seq = 3, v_name = ''step.started'', v_actor =
     ''wk'', v_payload = [(''attempt'', PInt 1), (''attempt_id'', PStr ''u3'')], v_step = Some
     ''s1'', v_causation = None, v_correlation = None, v_idem = None, v_created = 3\<rparr>"

definition started_db :: db where
  "started_db = empty_db\<lparr>t_runs := [run_r1\<lparr>r_status := RunRunning, r_rev := 2, r_token
     := Some ''u1'', r_worker := Some ''wk'', r_lease := Some 60000002, r_updated := 3\<rparr>],
     t_steps := [step_s1\<lparr>s_status := StepRunning, s_rev := 1, s_attempts := 1, s_updated :=
     3, s_started := Some 3\<rparr>], t_attempts := [attempt_u3], t_events := [event_u0, event_u2,
     event_u4], draws := 5\<rparr>"

definition effect_u5 :: effect_record where
  "effect_u5 = \<lparr>e_id = ''u5'', e_run = ''r1'', e_step = ''s1'', e_attempt = ''u3'', e_key =
     ''pay'', e_tool = ''tool'', e_tool_version = ''1'', e_schema = ''1'', e_args = ''args'',
     e_status = EffectIntended, e_digest = None, e_result_ref = None, e_decision = None, e_by =
     None, e_reason = None, e_dispatch = None, e_created = 4, e_updated = 4\<rparr>"

definition event_u6 :: run_event where
  "event_u6 = \<lparr>v_id = ''u6'', v_run = ''r1'', v_seq = 4, v_name = ''effect.intended'',
     v_actor = ''wk'', v_payload = [(''arguments_digest'', PStr ''args''), (''effect_id'', PStr
     ''u5''), (''logical_key'', PStr ''pay''), (''schema_version'', PStr ''1''), (''tool_name'',
     PStr ''tool''), (''tool_version'', PStr ''1'')], v_step = Some ''s1'', v_causation = None,
     v_correlation = None, v_idem = None, v_created = 4\<rparr>"

definition intended_db :: db where
  "intended_db = empty_db\<lparr>t_runs := [run_r1\<lparr>r_status := RunRunning, r_rev := 3,
     r_token := Some ''u1'', r_worker := Some ''wk'', r_lease := Some 60000002, r_updated :=
     4\<rparr>], t_steps := [step_s1\<lparr>s_status := StepRunning, s_rev := 1, s_attempts := 1,
     s_updated := 3, s_started := Some 3\<rparr>], t_attempts := [attempt_u3], t_effects :=
     [effect_u5], t_events := [event_u0, event_u2, event_u4, event_u6], draws := 7\<rparr>"

definition event_u7 :: run_event where
  "event_u7 = \<lparr>v_id = ''u7'', v_run = ''r1'', v_seq = 5, v_name = ''effect.started'', v_actor
     = ''wk'', v_payload = [(''effect_id'', PStr ''u5''), (''logical_key'', PStr ''pay''),
     (''reason'', PNone), (''result_digest'', PNone)], v_step = Some ''s1'', v_causation = None,
     v_correlation = None, v_idem = None, v_created = 5\<rparr>"

definition executing_db :: db where
  "executing_db = empty_db\<lparr>t_runs := [run_r1\<lparr>r_status := RunRunning, r_rev := 4,
     r_token := Some ''u1'', r_worker := Some ''wk'', r_lease := Some 60000002, r_updated :=
     5\<rparr>], t_steps := [step_s1\<lparr>s_status := StepRunning, s_rev := 1, s_attempts := 1,
     s_updated := 3, s_started := Some 3\<rparr>], t_attempts := [attempt_u3], t_effects :=
     [effect_u5\<lparr>e_status := EffectExecuting, e_dispatch := Some ''u1'', e_updated :=
     5\<rparr>], t_events := [event_u0, event_u2, event_u4, event_u6, event_u7], draws := 8\<rparr>"

definition receipt_u5 :: result_row where
  "receipt_u5 = \<lparr>x_effect = ''u5'', x_value = [(''ok'', PBool True)], x_digest =
     ''sha256:h11'', x_recorded = 6\<rparr>"

definition receipt_db :: db where
  "receipt_db = empty_db\<lparr>t_runs := [run_r1\<lparr>r_status := RunRunning, r_rev := 4, r_token
     := Some ''u1'', r_worker := Some ''wk'', r_lease := Some 60000002, r_updated := 5\<rparr>],
     t_steps := [step_s1\<lparr>s_status := StepRunning, s_rev := 1, s_attempts := 1, s_updated :=
     3, s_started := Some 3\<rparr>], t_attempts := [attempt_u3], t_effects :=
     [effect_u5\<lparr>e_status := EffectExecuting, e_digest := Some ''sha256:h11'', e_result_ref :=
     Some ''effect-result:u5'', e_dispatch := Some ''u1'', e_updated := 5\<rparr>], t_results :=
     [receipt_u5], t_events := [event_u0, event_u2, event_u4, event_u6, event_u7], draws :=
     8\<rparr>"

definition event_u8 :: run_event where
  "event_u8 = \<lparr>v_id = ''u8'', v_run = ''r1'', v_seq = 6, v_name = ''effect.completed'',
     v_actor = ''wk'', v_payload = [(''effect_id'', PStr ''u5''), (''logical_key'', PStr ''pay''),
     (''reason'', PNone), (''result_digest'', PStr ''sha256:h11'')], v_step = Some ''s1'',
     v_causation = None, v_correlation = None, v_idem = None, v_created = 7\<rparr>"

definition effected_db :: db where
  "effected_db = empty_db\<lparr>t_runs := [run_r1\<lparr>r_status := RunRunning, r_rev := 5,
     r_token := Some ''u1'', r_worker := Some ''wk'', r_lease := Some 60000002, r_updated :=
     7\<rparr>], t_steps := [step_s1\<lparr>s_status := StepRunning, s_rev := 1, s_attempts := 1,
     s_updated := 3, s_started := Some 3\<rparr>], t_attempts := [attempt_u3], t_effects :=
     [effect_u5\<lparr>e_status := EffectCompleted, e_digest := Some ''sha256:h11'', e_result_ref :=
     Some ''effect-result:u5'', e_dispatch := Some ''u1'', e_updated := 7\<rparr>], t_results :=
     [receipt_u5], t_events := [event_u0, event_u2, event_u4, event_u6, event_u7, event_u8], draws
     := 9\<rparr>"

definition event_u9 :: run_event where
  "event_u9 = \<lparr>v_id = ''u9'', v_run = ''r1'', v_seq = 7, v_name = ''step.completed'', v_actor
     = ''wk'', v_payload = [(''result'', PDict [])], v_step = Some ''s1'', v_causation = None,
     v_correlation = None, v_idem = None, v_created = 8\<rparr>"

definition stepped_db :: db where
  "stepped_db = empty_db\<lparr>t_runs := [run_r1\<lparr>r_status := RunRunning, r_rev := 6, r_token
     := Some ''u1'', r_worker := Some ''wk'', r_lease := Some 60000002, r_updated := 8\<rparr>],
     t_steps := [step_s1\<lparr>s_status := StepCompleted, s_rev := 2, s_attempts := 1, s_updated :=
     8, s_started := Some 3, s_completed := Some 8\<rparr>], t_attempts :=
     [attempt_u3\<lparr>a_status := AttemptCompleted, a_completed := Some 8\<rparr>], t_effects :=
     [effect_u5\<lparr>e_status := EffectCompleted, e_digest := Some ''sha256:h11'', e_result_ref :=
     Some ''effect-result:u5'', e_dispatch := Some ''u1'', e_updated := 7\<rparr>], t_results :=
     [receipt_u5], t_events := [event_u0, event_u2, event_u4, event_u6, event_u7, event_u8,
     event_u9], draws := 10\<rparr>"

definition event_u10 :: run_event where
  "event_u10 = \<lparr>v_id = ''u10'', v_run = ''r1'', v_seq = 8, v_name = ''run.completed'',
     v_actor = ''wk'', v_payload = [(''result'', PDict [(''ok'', PBool True)])], v_step = None,
     v_causation = None, v_correlation = None, v_idem = None, v_created = 9\<rparr>"

definition completed_db :: db where
  "completed_db = empty_db\<lparr>t_runs := [run_r1\<lparr>r_status := RunCompleted, r_rev := 7,
     r_result := Some [(''ok'', PBool True)], r_updated := 9, r_completed := Some 9\<rparr>],
     t_steps := [step_s1\<lparr>s_status := StepCompleted, s_rev := 2, s_attempts := 1, s_updated :=
     8, s_started := Some 3, s_completed := Some 8\<rparr>], t_attempts :=
     [attempt_u3\<lparr>a_status := AttemptCompleted, a_completed := Some 8\<rparr>], t_effects :=
     [effect_u5\<lparr>e_status := EffectCompleted, e_digest := Some ''sha256:h11'', e_result_ref :=
     Some ''effect-result:u5'', e_dispatch := Some ''u1'', e_updated := 7\<rparr>], t_results :=
     [receipt_u5], t_events := [event_u0, event_u2, event_u4, event_u6, event_u7, event_u8,
     event_u9, event_u10], draws := 11\<rparr>"

definition unknown_db :: db where
  "unknown_db = empty_db\<lparr>t_runs := [run_r1\<lparr>r_status := RunUnknown, r_rev := 5, r_error
     := Some ''lost'', r_updated := 6\<rparr>], t_steps := [step_s1\<lparr>s_status := StepUnknown,
     s_rev := 2, s_attempts := 1, s_error := Some ''lost'', s_updated := 6, s_started := Some
     3\<rparr>], t_attempts := [attempt_u3\<lparr>a_status := AttemptUnknown, a_completed := Some 6,
     a_error := Some ''lost''\<rparr>], t_effects := [effect_u5\<lparr>e_status := EffectUnknown,
     e_reason := Some ''lost'', e_dispatch := Some ''u1'', e_updated := 6\<rparr>], t_events :=
     [event_u0, event_u2, event_u4, event_u6, event_u7, event_u8\<lparr>v_name :=
     ''effect.unknown'', v_payload := [(''effect_id'', PStr ''u5''), (''reason'', PStr ''lost'')],
     v_created := 6\<rparr>, event_u9\<lparr>v_name := ''run.unknown'', v_payload :=
     [(''effect_id'', PStr ''u5''), (''reason'', PStr ''lost'')], v_created := 6\<rparr>], draws :=
     10\<rparr>"

definition event_u3 :: run_event where
  "event_u3 = \<lparr>v_id = ''u3'', v_run = ''r1'', v_seq = 3, v_name =
     ''run.cancellation_requested'', v_actor = ''host'', v_payload = [(''immediate'', PBool False),
     (''reason'', PStr ''stop'')], v_step = None, v_causation = None, v_correlation = None, v_idem =
     None, v_created = 3\<rparr>"

definition stopping_db :: db where
  "stopping_db = empty_db\<lparr>t_runs := [run_r1\<lparr>r_status := RunRunning, r_rev := 2,
     r_cancel := True, r_token := Some ''u1'', r_worker := Some ''wk'', r_lease := Some 60000002,
     r_updated := 3\<rparr>], t_steps := [step_s1], t_events := [event_u0, event_u2, event_u3],
     draws := 4\<rparr>"

definition event_u1 :: run_event where
  "event_u1 = \<lparr>v_id = ''u1'', v_run = ''r1'', v_seq = 2, v_name =
     ''run.waiting_for_children'', v_actor = ''host'', v_payload = [(''policy'', PDict [(''budget'',
     PDict [(''deadline'', PNone), (''max_cost'', PNone), (''max_model_calls'', PInt 5),
     (''max_tokens'', PInt 100), (''max_tool_calls'', PNone), (''scope'', PStr ''child_task''),
     (''unknown_cost_policy'', PStr ''fail_closed'')]), (''max_children'', PInt 2),
     (''required_children'', PInt 1)])], v_step = None, v_causation = None, v_correlation = None,
     v_idem = Some ''parent:k'', v_created = 1\<rparr>"

definition parent_r1 :: parent_row where
  "parent_r1 = \<lparr>p_run = ''r1'', p_policy = [(''budget'', PDict [(''deadline'', PNone),
     (''max_cost'', PNone), (''max_model_calls'', PInt 5), (''max_tokens'', PInt 100),
     (''max_tool_calls'', PNone), (''scope'', PStr ''child_task''), (''unknown_cost_policy'', PStr
     ''fail_closed'')]), (''max_children'', PInt 2), (''required_children'', PInt 1)], p_status =
     AggOpen, p_rev = 0, p_key = None, p_result = None, p_created = 1, p_updated = 1\<rparr>"

definition parent_db :: db where
  "parent_db = empty_db\<lparr>t_runs := [run_r1\<lparr>r_status := RunWaitingForChildren, r_rev :=
     1, r_waiting := Some ''waiting for required child runs''\<rparr>], t_steps := [step_s1],
     t_events := [event_u0, event_u1], t_parents := [parent_r1], draws := 2\<rparr>"

definition run_r2 :: run_row where
  "run_r2 = \<lparr>r_id = ''r2'', r_tenant = ''t'', r_workspace = ''w'', r_agent = ''a'', r_version
     = ''1'', r_scope_key = ''h193'', r_scope = [(''actor_id'', PNone), (''agent_id'', PStr ''a''),
     (''agent_version'', PStr ''1''), (''channel_id'', PNone), (''conversation_id'', PNone),
     (''grants'', PList []), (''parent_run_id'', PStr ''r1''), (''run_id'', PStr ''r2''),
     (''tenant_id'', PStr ''t''), (''trigger_id'', PNone), (''workspace_id'', PStr ''w'')], r_idem =
     ''child:h11'', r_input = ''i'', r_def = ''d'', r_status = RunQueued, r_rev = 0, r_cancel =
     False, r_waiting = None, r_retry_at = None, r_budget = [(''deadline'', PNone), (''max_cost'',
     PNone), (''max_model_calls'', PInt 2), (''max_tokens'', PInt 60), (''max_tool_calls'', PNone),
     (''scope'', PStr ''child_task''), (''unknown_cost_policy'', PStr ''fail_closed'')], r_meta =
     [], r_result = None, r_error = None, r_token = None, r_worker = None, r_lease = None, r_created
     = 2, r_updated = 2, r_completed = None\<rparr>"

definition child_r2 :: child_row where
  "child_r2 = \<lparr>ch_run = ''r2'', ch_parent = ''r1'', ch_ordinal = 1, ch_idem = ''k2'',
     ch_revision = ''1'', ch_def = ''d'', ch_input = ''i'', ch_budget = [(''deadline'', PNone),
     (''max_cost'', PNone), (''max_model_calls'', PInt 2), (''max_tokens'', PInt 60),
     (''max_tool_calls'', PNone), (''scope'', PStr ''child_task''), (''unknown_cost_policy'', PStr
     ''fail_closed'')], ch_evidence = None, ch_created = 2, ch_updated = 2\<rparr>"

definition child_db :: db where
  "child_db = empty_db\<lparr>t_runs := [run_r1\<lparr>r_status := RunWaitingForChildren, r_rev :=
     1, r_waiting := Some ''waiting for required child runs''\<rparr>, run_r2], t_steps := [step_s1,
     step_s1\<lparr>s_run := ''r2'', s_created := 2, s_updated := 2\<rparr>], t_events := [event_u0,
     event_u1, event_u2\<lparr>v_run := ''r2'', v_seq := 1, v_name := ''run.queued'', v_actor :=
     ''host'', v_payload := [(''definition_digest'', PStr ''d''), (''input_digest'', PStr ''i''),
     (''source_event_id'', PNone)], v_idem := Some ''submit:k2''\<rparr>, event_u3\<lparr>v_name :=
     ''child.submitted'', v_payload := [(''child_run_id'', PStr ''r2''), (''definition_digest'',
     PStr ''d''), (''definition_revision'', PStr ''1''), (''input_digest'', PStr ''i''),
     (''ordinal'', PInt 1)], v_idem := Some ''child:k2'', v_created := 2\<rparr>], t_parents :=
     [parent_r1], t_children := [child_r2], draws := 4\<rparr>"

definition event_u5 :: run_event where
  "event_u5 = \<lparr>v_id = ''u5'', v_run = ''r1'', v_seq = 4, v_name =
     ''child.cancellation_requested'', v_actor = ''host'', v_payload = [(''child_run_id'', PStr
     ''r2''), (''reason'', PStr ''stop'')], v_step = None, v_causation = None, v_correlation = None,
     v_idem = None, v_created = 3\<rparr>"

definition childless_db :: db where
  "childless_db = empty_db\<lparr>t_runs := [run_r1\<lparr>r_status := RunWaitingForChildren, r_rev
     := 1, r_waiting := Some ''waiting for required child runs''\<rparr>, run_r2\<lparr>r_status :=
     RunCancelled, r_rev := 1, r_cancel := True, r_error := Some ''stop'', r_updated := 3,
     r_completed := Some 3\<rparr>], t_steps := [step_s1, step_s1\<lparr>s_run := ''r2'', s_status
     := StepCancelled, s_rev := 1, s_error := Some ''stop'', s_created := 2, s_updated := 3,
     s_completed := Some 3\<rparr>], t_events := [event_u0, event_u1, event_u2\<lparr>v_run :=
     ''r2'', v_seq := 1, v_name := ''run.queued'', v_actor := ''host'', v_payload :=
     [(''definition_digest'', PStr ''d''), (''input_digest'', PStr ''i''), (''source_event_id'',
     PNone)], v_idem := Some ''submit:k2''\<rparr>, event_u3\<lparr>v_name := ''child.submitted'',
     v_payload := [(''child_run_id'', PStr ''r2''), (''definition_digest'', PStr ''d''),
     (''definition_revision'', PStr ''1''), (''input_digest'', PStr ''i''), (''ordinal'', PInt 1)],
     v_idem := Some ''child:k2'', v_created := 2\<rparr>, event_u4\<lparr>v_run := ''r2'', v_seq :=
     2, v_name := ''run.cancelled'', v_actor := ''host'', v_payload := [(''parent_run_id'', PStr
     ''r1''), (''reason'', PStr ''stop'')], v_step := None\<rparr>, event_u5], t_parents :=
     [parent_r1], t_children := [child_r2], draws := 6\<rparr>"

definition completion_u8 :: outbox_row where
  "completion_u8 = \<lparr>o_id = ''u8'', o_parent = ''r1'', o_status = CompPending, o_payload =
     [(''children'', PList [PDict [(''child_run_id'', PStr ''r2''), (''error'', PStr ''stop''),
     (''ordinal'', PInt 1), (''result'', PNone), (''status'', PStr ''cancelled''),
     (''terminal_evidence'', PDict [(''definition_digest'', PStr ''d''), (''effects'', PList []),
     (''error'', PStr ''stop''), (''input_digest'', PStr ''i''), (''last_progress_sequence'', PInt
     0), (''result'', PNone), (''status'', PStr ''cancelled''), (''terminal_event_id'', PStr
     ''u4''), (''terminal_event_sequence'', PInt 2)])]]), (''parent_run_id'', PStr ''r1''),
     (''status'', PStr ''failed'')], o_attempts = 0, o_worker = None, o_token = None, o_lease =
     None, o_error = None, o_created = 4, o_updated = 4, o_delivered = None\<rparr>"

definition aggregated_db :: db where
  "aggregated_db = empty_db\<lparr>t_runs := [run_r1\<lparr>r_status := RunFailed, r_rev := 2,
     r_error := Some ''one or more child runs did not complete successfully'', r_updated := 4,
     r_completed := Some 4\<rparr>, run_r2\<lparr>r_status := RunCancelled, r_rev := 1, r_cancel :=
     True, r_error := Some ''stop'', r_updated := 3, r_completed := Some 3\<rparr>], t_steps :=
     [step_s1\<lparr>s_status := StepFailed, s_rev := 1, s_error := Some
     ''one or more child runs did not complete successfully'', s_updated := 4, s_completed := Some
     4\<rparr>, step_s1\<lparr>s_run := ''r2'', s_status := StepCancelled, s_rev := 1, s_error :=
     Some ''stop'', s_created := 2, s_updated := 3, s_completed := Some 3\<rparr>], t_events :=
     [event_u0, event_u1, event_u2\<lparr>v_run := ''r2'', v_seq := 1, v_name := ''run.queued'',
     v_actor := ''host'', v_payload := [(''definition_digest'', PStr ''d''), (''input_digest'', PStr
     ''i''), (''source_event_id'', PNone)], v_idem := Some ''submit:k2''\<rparr>,
     event_u3\<lparr>v_name := ''child.submitted'', v_payload := [(''child_run_id'', PStr ''r2''),
     (''definition_digest'', PStr ''d''), (''definition_revision'', PStr ''1''), (''input_digest'',
     PStr ''i''), (''ordinal'', PInt 1)], v_idem := Some ''child:k2'', v_created := 2\<rparr>,
     event_u4\<lparr>v_run := ''r2'', v_seq := 2, v_name := ''run.cancelled'', v_actor := ''host'',
     v_payload := [(''parent_run_id'', PStr ''r1''), (''reason'', PStr ''stop'')], v_step :=
     None\<rparr>, event_u5, event_u6\<lparr>v_seq := 5, v_name := ''run.children_aggregated'',
     v_actor := ''host'', v_payload := [(''children'', PList [PDict [(''child_run_id'', PStr
     ''r2''), (''error'', PStr ''stop''), (''ordinal'', PInt 1), (''result'', PNone), (''status'',
     PStr ''cancelled''), (''terminal_evidence'', PDict [(''definition_digest'', PStr ''d''),
     (''effects'', PList []), (''error'', PStr ''stop''), (''input_digest'', PStr ''i''),
     (''last_progress_sequence'', PInt 0), (''result'', PNone), (''status'', PStr ''cancelled''),
     (''terminal_event_id'', PStr ''u4''), (''terminal_event_sequence'', PInt 2)])]]),
     (''parent_run_id'', PStr ''r1''), (''status'', PStr ''failed'')], v_step := None, v_idem :=
     Some ''aggregate:agg''\<rparr>, event_u7\<lparr>v_seq := 6, v_name := ''run.failed'', v_actor
     := ''host'', v_payload := [(''children'', PList [PDict [(''child_run_id'', PStr ''r2''),
     (''error'', PStr ''stop''), (''ordinal'', PInt 1), (''result'', PNone), (''status'', PStr
     ''cancelled''), (''terminal_evidence'', PDict [(''definition_digest'', PStr ''d''),
     (''effects'', PList []), (''error'', PStr ''stop''), (''input_digest'', PStr ''i''),
     (''last_progress_sequence'', PInt 0), (''result'', PNone), (''status'', PStr ''cancelled''),
     (''terminal_event_id'', PStr ''u4''), (''terminal_event_sequence'', PInt 2)])]]), (''reason'',
     PStr ''one or more child runs did not complete successfully'')], v_step := None, v_idem := Some
     ''parent-terminal'', v_created := 4\<rparr>], t_parents := [parent_r1\<lparr>p_status :=
     AggCompleted, p_rev := 1, p_key := Some ''agg'', p_result := Some [(''children'', PList [PDict
     [(''child_run_id'', PStr ''r2''), (''error'', PStr ''stop''), (''ordinal'', PInt 1),
     (''result'', PNone), (''status'', PStr ''cancelled''), (''terminal_evidence'', PDict
     [(''definition_digest'', PStr ''d''), (''effects'', PList []), (''error'', PStr ''stop''),
     (''input_digest'', PStr ''i''), (''last_progress_sequence'', PInt 0), (''result'', PNone),
     (''status'', PStr ''cancelled''), (''terminal_event_id'', PStr ''u4''),
     (''terminal_event_sequence'', PInt 2)])]]), (''parent_run_id'', PStr ''r1''), (''status'', PStr
     ''failed'')], p_updated := 4\<rparr>], t_children := [child_r2\<lparr>ch_evidence := Some
     [(''definition_digest'', PStr ''d''), (''effects'', PList []), (''error'', PStr ''stop''),
     (''input_digest'', PStr ''i''), (''last_progress_sequence'', PInt 0), (''result'', PNone),
     (''status'', PStr ''cancelled''), (''terminal_event_id'', PStr ''u4''),
     (''terminal_event_sequence'', PInt 2)], ch_updated := 4\<rparr>], t_outbox := [completion_u8],
     draws := 9\<rparr>"

definition delivering_db :: db where
  "delivering_db = empty_db\<lparr>t_runs := [run_r1\<lparr>r_status := RunFailed, r_rev := 2,
     r_error := Some ''one or more child runs did not complete successfully'', r_updated := 4,
     r_completed := Some 4\<rparr>, run_r2\<lparr>r_status := RunCancelled, r_rev := 1, r_cancel :=
     True, r_error := Some ''stop'', r_updated := 3, r_completed := Some 3\<rparr>], t_steps :=
     [step_s1\<lparr>s_status := StepFailed, s_rev := 1, s_error := Some
     ''one or more child runs did not complete successfully'', s_updated := 4, s_completed := Some
     4\<rparr>, step_s1\<lparr>s_run := ''r2'', s_status := StepCancelled, s_rev := 1, s_error :=
     Some ''stop'', s_created := 2, s_updated := 3, s_completed := Some 3\<rparr>], t_events :=
     [event_u0, event_u1, event_u2\<lparr>v_run := ''r2'', v_seq := 1, v_name := ''run.queued'',
     v_actor := ''host'', v_payload := [(''definition_digest'', PStr ''d''), (''input_digest'', PStr
     ''i''), (''source_event_id'', PNone)], v_idem := Some ''submit:k2''\<rparr>,
     event_u3\<lparr>v_name := ''child.submitted'', v_payload := [(''child_run_id'', PStr ''r2''),
     (''definition_digest'', PStr ''d''), (''definition_revision'', PStr ''1''), (''input_digest'',
     PStr ''i''), (''ordinal'', PInt 1)], v_idem := Some ''child:k2'', v_created := 2\<rparr>,
     event_u4\<lparr>v_run := ''r2'', v_seq := 2, v_name := ''run.cancelled'', v_actor := ''host'',
     v_payload := [(''parent_run_id'', PStr ''r1''), (''reason'', PStr ''stop'')], v_step :=
     None\<rparr>, event_u5, event_u6\<lparr>v_seq := 5, v_name := ''run.children_aggregated'',
     v_actor := ''host'', v_payload := [(''children'', PList [PDict [(''child_run_id'', PStr
     ''r2''), (''error'', PStr ''stop''), (''ordinal'', PInt 1), (''result'', PNone), (''status'',
     PStr ''cancelled''), (''terminal_evidence'', PDict [(''definition_digest'', PStr ''d''),
     (''effects'', PList []), (''error'', PStr ''stop''), (''input_digest'', PStr ''i''),
     (''last_progress_sequence'', PInt 0), (''result'', PNone), (''status'', PStr ''cancelled''),
     (''terminal_event_id'', PStr ''u4''), (''terminal_event_sequence'', PInt 2)])]]),
     (''parent_run_id'', PStr ''r1''), (''status'', PStr ''failed'')], v_step := None, v_idem :=
     Some ''aggregate:agg''\<rparr>, event_u7\<lparr>v_seq := 6, v_name := ''run.failed'', v_actor
     := ''host'', v_payload := [(''children'', PList [PDict [(''child_run_id'', PStr ''r2''),
     (''error'', PStr ''stop''), (''ordinal'', PInt 1), (''result'', PNone), (''status'', PStr
     ''cancelled''), (''terminal_evidence'', PDict [(''definition_digest'', PStr ''d''),
     (''effects'', PList []), (''error'', PStr ''stop''), (''input_digest'', PStr ''i''),
     (''last_progress_sequence'', PInt 0), (''result'', PNone), (''status'', PStr ''cancelled''),
     (''terminal_event_id'', PStr ''u4''), (''terminal_event_sequence'', PInt 2)])]]), (''reason'',
     PStr ''one or more child runs did not complete successfully'')], v_step := None, v_idem := Some
     ''parent-terminal'', v_created := 4\<rparr>, event_u10\<lparr>v_seq := 7, v_name :=
     ''parent.completion_claimed'', v_payload := [(''completion_id'', PStr ''u8'')], v_created :=
     5\<rparr>], t_parents := [parent_r1\<lparr>p_status := AggCompleted, p_rev := 1, p_key := Some
     ''agg'', p_result := Some [(''children'', PList [PDict [(''child_run_id'', PStr ''r2''),
     (''error'', PStr ''stop''), (''ordinal'', PInt 1), (''result'', PNone), (''status'', PStr
     ''cancelled''), (''terminal_evidence'', PDict [(''definition_digest'', PStr ''d''),
     (''effects'', PList []), (''error'', PStr ''stop''), (''input_digest'', PStr ''i''),
     (''last_progress_sequence'', PInt 0), (''result'', PNone), (''status'', PStr ''cancelled''),
     (''terminal_event_id'', PStr ''u4''), (''terminal_event_sequence'', PInt 2)])]]),
     (''parent_run_id'', PStr ''r1''), (''status'', PStr ''failed'')], p_updated := 4\<rparr>],
     t_children := [child_r2\<lparr>ch_evidence := Some [(''definition_digest'', PStr ''d''),
     (''effects'', PList []), (''error'', PStr ''stop''), (''input_digest'', PStr ''i''),
     (''last_progress_sequence'', PInt 0), (''result'', PNone), (''status'', PStr ''cancelled''),
     (''terminal_event_id'', PStr ''u4''), (''terminal_event_sequence'', PInt 2)], ch_updated :=
     4\<rparr>], t_outbox := [completion_u8\<lparr>o_status := CompClaimed, o_attempts := 1,
     o_worker := Some ''wk'', o_token := Some ''u9'', o_lease := Some 60000005, o_updated :=
     5\<rparr>], draws := 11\<rparr>"

definition event_u11 :: run_event where
  "event_u11 = \<lparr>v_id = ''u11'', v_run = ''r1'', v_seq = 8, v_name =
     ''parent.completion_delivered'', v_actor = ''wk'', v_payload = [(''completion_id'', PStr
     ''u8''), (''reason'', PNone)], v_step = None, v_causation = None, v_correlation = None, v_idem
     = None, v_created = 6\<rparr>"

definition delivered_db :: db where
  "delivered_db = empty_db\<lparr>t_runs := [run_r1\<lparr>r_status := RunFailed, r_rev := 2,
     r_error := Some ''one or more child runs did not complete successfully'', r_updated := 4,
     r_completed := Some 4\<rparr>, run_r2\<lparr>r_status := RunCancelled, r_rev := 1, r_cancel :=
     True, r_error := Some ''stop'', r_updated := 3, r_completed := Some 3\<rparr>], t_steps :=
     [step_s1\<lparr>s_status := StepFailed, s_rev := 1, s_error := Some
     ''one or more child runs did not complete successfully'', s_updated := 4, s_completed := Some
     4\<rparr>, step_s1\<lparr>s_run := ''r2'', s_status := StepCancelled, s_rev := 1, s_error :=
     Some ''stop'', s_created := 2, s_updated := 3, s_completed := Some 3\<rparr>], t_events :=
     [event_u0, event_u1, event_u2\<lparr>v_run := ''r2'', v_seq := 1, v_name := ''run.queued'',
     v_actor := ''host'', v_payload := [(''definition_digest'', PStr ''d''), (''input_digest'', PStr
     ''i''), (''source_event_id'', PNone)], v_idem := Some ''submit:k2''\<rparr>,
     event_u3\<lparr>v_name := ''child.submitted'', v_payload := [(''child_run_id'', PStr ''r2''),
     (''definition_digest'', PStr ''d''), (''definition_revision'', PStr ''1''), (''input_digest'',
     PStr ''i''), (''ordinal'', PInt 1)], v_idem := Some ''child:k2'', v_created := 2\<rparr>,
     event_u4\<lparr>v_run := ''r2'', v_seq := 2, v_name := ''run.cancelled'', v_actor := ''host'',
     v_payload := [(''parent_run_id'', PStr ''r1''), (''reason'', PStr ''stop'')], v_step :=
     None\<rparr>, event_u5, event_u6\<lparr>v_seq := 5, v_name := ''run.children_aggregated'',
     v_actor := ''host'', v_payload := [(''children'', PList [PDict [(''child_run_id'', PStr
     ''r2''), (''error'', PStr ''stop''), (''ordinal'', PInt 1), (''result'', PNone), (''status'',
     PStr ''cancelled''), (''terminal_evidence'', PDict [(''definition_digest'', PStr ''d''),
     (''effects'', PList []), (''error'', PStr ''stop''), (''input_digest'', PStr ''i''),
     (''last_progress_sequence'', PInt 0), (''result'', PNone), (''status'', PStr ''cancelled''),
     (''terminal_event_id'', PStr ''u4''), (''terminal_event_sequence'', PInt 2)])]]),
     (''parent_run_id'', PStr ''r1''), (''status'', PStr ''failed'')], v_step := None, v_idem :=
     Some ''aggregate:agg''\<rparr>, event_u7\<lparr>v_seq := 6, v_name := ''run.failed'', v_actor
     := ''host'', v_payload := [(''children'', PList [PDict [(''child_run_id'', PStr ''r2''),
     (''error'', PStr ''stop''), (''ordinal'', PInt 1), (''result'', PNone), (''status'', PStr
     ''cancelled''), (''terminal_evidence'', PDict [(''definition_digest'', PStr ''d''),
     (''effects'', PList []), (''error'', PStr ''stop''), (''input_digest'', PStr ''i''),
     (''last_progress_sequence'', PInt 0), (''result'', PNone), (''status'', PStr ''cancelled''),
     (''terminal_event_id'', PStr ''u4''), (''terminal_event_sequence'', PInt 2)])]]), (''reason'',
     PStr ''one or more child runs did not complete successfully'')], v_step := None, v_idem := Some
     ''parent-terminal'', v_created := 4\<rparr>, event_u10\<lparr>v_seq := 7, v_name :=
     ''parent.completion_claimed'', v_payload := [(''completion_id'', PStr ''u8'')], v_created :=
     5\<rparr>, event_u11], t_parents := [parent_r1\<lparr>p_status := AggCompleted, p_rev := 1,
     p_key := Some ''agg'', p_result := Some [(''children'', PList [PDict [(''child_run_id'', PStr
     ''r2''), (''error'', PStr ''stop''), (''ordinal'', PInt 1), (''result'', PNone), (''status'',
     PStr ''cancelled''), (''terminal_evidence'', PDict [(''definition_digest'', PStr ''d''),
     (''effects'', PList []), (''error'', PStr ''stop''), (''input_digest'', PStr ''i''),
     (''last_progress_sequence'', PInt 0), (''result'', PNone), (''status'', PStr ''cancelled''),
     (''terminal_event_id'', PStr ''u4''), (''terminal_event_sequence'', PInt 2)])]]),
     (''parent_run_id'', PStr ''r1''), (''status'', PStr ''failed'')], p_updated := 4\<rparr>],
     t_children := [child_r2\<lparr>ch_evidence := Some [(''definition_digest'', PStr ''d''),
     (''effects'', PList []), (''error'', PStr ''stop''), (''input_digest'', PStr ''i''),
     (''last_progress_sequence'', PInt 0), (''result'', PNone), (''status'', PStr ''cancelled''),
     (''terminal_event_id'', PStr ''u4''), (''terminal_event_sequence'', PInt 2)], ch_updated :=
     4\<rparr>], t_outbox := [completion_u8\<lparr>o_status := CompDelivered, o_attempts := 1,
     o_updated := 6, o_delivered := Some 6\<rparr>], draws := 12\<rparr>"

section \<open>Steps\<close>

lemma queued_step: "exec_call w0 1 (Submit sc0 su0 ''host'') empty_db = Inr ((), queued_db)"
  by code_simp

lemma claimed_step: "exec_call w0 2 (Claim sc0 ''wk'' 60 (Some ''r1'')) queued_db = Inr ((), claimed_db)"
  by code_simp

lemma started_step: "exec_call w0 3 (StartStep sc0 cl0 ''s1'') claimed_db = Inr ((), started_db)"
  by code_simp

lemma intended_step: "exec_call w0 4 (BeginEffect sc0 cl0 ''s1'' ''pay'' ''tool'' ''1'' ''1'' ''args'') started_db = Inr ((), intended_db)"
  by code_simp

lemma executing_step: "exec_call w0 5 (MarkEffectStarted sc0 cl0 ''u5'') intended_db = Inr ((), executing_db)"
  by code_simp

lemma receipt_step: "exec_call w0 6 (RecordEffectResult sc0 cl0 ''u5'' [(''ok'', PBool True)]) executing_db = Inr ((), receipt_db)"
  by code_simp

lemma effected_step: "exec_call w0 7 (CompleteEffect sc0 cl0 ''u5'' ''sha256:h11'') receipt_db = Inr ((), effected_db)"
  by code_simp

lemma stepped_step: "exec_call w0 8 (CompleteStep sc0 cl0 ''s1'' None) effected_db = Inr ((), stepped_db)"
  by code_simp

lemma completed_step: "exec_call w0 9 (Complete sc0 cl0 [(''ok'', PBool True)]) stepped_db = Inr ((), completed_db)"
  by code_simp

lemma unknown_step: "exec_call w0 6 (MarkEffectUnknown sc0 cl0 ''u5'' ''lost'') executing_db = Inr ((), unknown_db)"
  by code_simp

lemma stopping_step: "exec_call w0 3 (RequestCancellation sc0 ''r1'' ''host'' ''stop'') claimed_db = Inr ((), stopping_db)"
  by code_simp

lemma parent_step: "exec_call w0 1 (SubmitParent sc0 su0 policy0 ''host'') empty_db = Inr ((), parent_db)"
  by code_simp

lemma child_step: "exec_call w0 2 (SubmitChild sc0 sc1 su1 ''1'' ''host'') parent_db = Inr ((), child_db)"
  by code_simp

lemma childless_step: "exec_call w0 3 (RequestChildCancellation sc0 ''r2'' ''host'' ''stop'') child_db = Inr ((), childless_db)"
  by code_simp

lemma delivering_step: "exec_call w0 5 (ClaimParentCompletion sc0 ''wk'' 60 (Some ''r1'')) aggregated_db = Inr ((), delivering_db)"
  by code_simp

lemma delivered_step: "exec_call w0 6 (CompleteParentCompletion sc0 (delivery0 delivering_db)) delivering_db = Inr ((), delivered_db)"
  by code_simp

section \<open>The world of the scenario\<close>

text \<open>Identifiers are numbered: they carry no blanks and never repeat.\<close>

lemma digit_code: "k < 10 \<Longrightarrow> of_char (char_of (48 + k) :: char) = (48 + k :: nat)"
  by (simp add: of_char_of)

lemma digits_of_value: "foldl (\<lambda>a c. 10 * a + (of_char c - 48)) 0 (digits_of n) = (n :: nat)"
proof (induction n rule: digits_of.induct)
  case (1 n)
  show ?case
  proof (cases "n < 10")
    case True
    then show ?thesis by (subst digits_of.simps) (simp add: digit_code)
  next
    case False
    then show ?thesis using 1 digit_code [of "n mod 10"] by (subst digits_of.simps) simp
  qed
qed

lemma digits_of_inj: "digits_of m = digits_of n \<Longrightarrow> m = n"
  by (metis digits_of_value)

lemma digits_of_last: "digits_of n \<noteq> [] \<and> last (digits_of n) = char_of (48 + n mod 10)"
  by (subst (1 2) digits_of.simps) simp

lemma space_code_digit: "k < 10 \<Longrightarrow> \<not> space_code (48 + k)"
  by (simp add: space_code_def)

lemma strip_uuid: "strip (''u'' @ digits_of n) = ''u'' @ digits_of n"
proof -
  have d: "digits_of n = butlast (digits_of n) @ [char_of (48 + n mod 10)]"
    using digits_of_last [of n] append_butlast_last_id [of "digits_of n"] by metis
  have "rev (''u'' @ digits_of n) = char_of (48 + n mod 10) # rev (''u'' @ butlast (digits_of n))"
    using arg_cong [OF d, of rev] by simp
  moreover have "\<not> py_isspace (char_of (48 + n mod 10))"
    using space_code_digit [of "n mod 10"] digit_code [of "n mod 10"] by (simp add: py_isspace_def)
  moreover have "dropWhile py_isspace (''u'' @ digits_of n) = ''u'' @ digits_of n"
    by (simp add: py_isspace_def space_code_def)
  ultimately show ?thesis unfolding strip_def by (metis dropWhile.simps(2) rev_rev_ident)
qed

lemma clean_w0: "clean_world w0"
  unfolding clean_world_def w0_def using strip_uuid by simp

lemma inj_w0: "inj (uuid4 w0)"
  by (rule injI) (simp add: w0_def digits_of_inj)

section \<open>Reachability\<close>

lemma reachable_call: "exec_call w now c s = Inr (u, s') \<Longrightarrow> reachable w s \<Longrightarrow> reachable w s'"
  using reachable_history [of w s "[(now, c)]"] by (simp add: execute_def commit_def)

lemma execute_step: "exec_call w now c s = Inr (u, s') \<Longrightarrow> execute w (now, c) s = s'"
  by (simp add: execute_def commit_def)

lemma reachable_queued: "reachable w0 queued_db"
  by (rule reachable_call [OF queued_step reachable_empty])

lemma reachable_claimed: "reachable w0 claimed_db"
  by (rule reachable_call [OF claimed_step reachable_queued])

lemma reachable_started: "reachable w0 started_db"
  by (rule reachable_call [OF started_step reachable_claimed])

lemma reachable_intended: "reachable w0 intended_db"
  by (rule reachable_call [OF intended_step reachable_started])

lemma reachable_executing: "reachable w0 executing_db"
  by (rule reachable_call [OF executing_step reachable_intended])

lemma reachable_receipt: "reachable w0 receipt_db"
  by (rule reachable_call [OF receipt_step reachable_executing])

lemma reachable_effected: "reachable w0 effected_db"
  by (rule reachable_call [OF effected_step reachable_receipt])

lemma reachable_stepped: "reachable w0 stepped_db"
  by (rule reachable_call [OF stepped_step reachable_effected])

lemma reachable_completed: "reachable w0 completed_db"
  by (rule reachable_call [OF completed_step reachable_stepped])

lemma reachable_unknown: "reachable w0 unknown_db"
  by (rule reachable_call [OF unknown_step reachable_executing])

lemma reachable_stopping: "reachable w0 stopping_db"
  by (rule reachable_call [OF stopping_step reachable_claimed])

lemma reachable_parent: "reachable w0 parent_db"
  by (rule reachable_call [OF parent_step reachable_empty])

lemma reachable_child: "reachable w0 child_db"
  by (rule reachable_call [OF child_step reachable_parent])

lemma reachable_childless: "reachable w0 childless_db"
  by (rule reachable_call [OF childless_step reachable_child])

end
