(* ===== verification/CallSpecs.thy ===== *)
theory CallSpecs
  imports RunRows
begin

text \<open>
  What single calls promise: the claim takes the oldest claimable run, a retry waits a bounded and
  growing time, a submission is idempotent, and a result receipt is read back as it was recorded.
\<close>

section \<open>Claims\<close>

lemma take_lease_exact:
  "post (take_lease w row p worker lease now)
     (\<lambda>c s'. c_token c = strip (uuid4 w (draws s)) \<and> c_run c = strip (r_id row) \<and> c_worker c = strip worker
        \<and> c_lease c = lease
        \<and> rowcount (\<lambda>r. r_id r = r_id row \<and> r_rev r = r_rev row
                      \<and> r_status r \<in> {RunQueued, RunWaitingForRetry}) (t_runs s) = 1
        \<and> t_runs s' = upd_where (\<lambda>r. r_id r = r_id row \<and> r_rev r = r_rev row
                                   \<and> r_status r \<in> {RunQueued, RunWaitingForRetry})
                      (claimed_row (uuid4 w (draws s)) worker lease (r_rev row + 1) now) (t_runs s)) s"
  unfolding take_lease_def
  by (intro post_intros) (auto dest!: quiet_runs make_run_claim_fields)

lemma store_required_eq_Inr [result_simps]: "store_required s = Inr t \<longleftrightarrow> t = strip s \<and> strip s \<noteq> []"
  by (auto simp: store_required_def not_empty_def)

definition takes_oldest :: "world \<Rightarrow> exec_scope \<Rightarrow> string \<Rightarrow> int \<Rightarrow> string option \<Rightarrow> int \<Rightarrow> run_claim \<Rightarrow> db \<Rightarrow> db \<Rightarrow> bool" where
  "takes_oldest w scope worker n rid now c s s' \<longleftrightarrow>
     (\<exists>target row. claim_target scope rid = Inr target
        \<and> first_by (\<lambda>r. (r_created r, r_id r)) (claimable scope target now s) (t_runs s) = Some row
        \<and> c_token c = strip (uuid4 w (draws s)) \<and> c_run c = strip (r_id row) \<and> c_worker c = strip worker
        \<and> c_lease c = lease_end now n
        \<and> rowcount (\<lambda>r. r_id r = r_id row \<and> r_rev r = r_rev row
                      \<and> r_status r \<in> {RunQueued, RunWaitingForRetry}) (t_runs s) = 1
        \<and> t_runs s' = upd_where (\<lambda>r. r_id r = r_id row \<and> r_rev r = r_rev row
                                   \<and> r_status r \<in> {RunQueued, RunWaitingForRetry})
                      (claimed_row (uuid4 w (draws s)) (strip worker) (lease_end now n) (r_rev row + 1) now)
                      (t_runs s))"

lemma claim_run_takes_oldest:
  "post (claim_run w now scope worker n rid)
     (\<lambda>c s'. case c of None \<Rightarrow> True | Some c \<Rightarrow> takes_oldest w scope worker n rid now c s s') s"
  unfolding claim_run_def
  by (intro post_intros post_weaken [OF expire_linked_runs] post_weaken [OF take_lease_exact])
    (auto simp: takes_oldest_def store_required_eq_Inr)

lemma claim_run_spec:
  assumes "claim_run w now scope worker n rid s = Inr (Some c, s')"
  shows "\<exists>target row. claim_target scope rid = Inr target \<and> row \<in> set (t_runs s)
    \<and> claimable scope target now s row
    \<and> (\<forall>q\<in>set (t_runs s). claimable scope target now s q \<longrightarrow> (r_created row, r_id row) \<le> (r_created q, r_id q))
    \<and> c_run c = strip (r_id row) \<and> c_token c = strip (uuid4 w (draws s)) \<and> c_lease c = now + n * 1000000
    \<and> t_runs s' = map (\<lambda>q. if q = row then
         claimed_row (uuid4 w (draws s)) (strip worker) (now + n * 1000000) (r_rev row + 1) now row else q) (t_runs s)"
proof -
  let ?P = "\<lambda>row r. r_id r = r_id row \<and> r_rev r = r_rev row \<and> r_status r \<in> {RunQueued, RunWaitingForRetry}"
  obtain target row where t: "claim_target scope rid = Inr target"
    and f: "first_by (\<lambda>r. (r_created r, r_id r)) (claimable scope target now s) (t_runs s) = Some row"
    and c: "c_token c = strip (uuid4 w (draws s))" "c_run c = strip (r_id row)" "c_lease c = lease_end now n"
    and one: "rowcount (?P row) (t_runs s) = 1"
    and upd: "t_runs s' = upd_where (?P row)
                (claimed_row (uuid4 w (draws s)) (strip worker) (lease_end now n) (r_rev row + 1) now) (t_runs s)"
    using postD [OF claim_run_takes_oldest assms] unfolding takes_oldest_def option.case by blast
  have row: "row \<in> set (t_runs s)" "claimable scope target now s row" using first_by_SomeD [OF f] by auto
  have P: "?P row row" using row(2) by (auto simp: claimable_def)
  have only: "?P row q \<longleftrightarrow> q = row" if "q \<in> set (t_runs s)" for q
    using rowcount_one [OF one row(1) P that] P by blast
  have "t_runs s' = map (\<lambda>q. if q = row then
         claimed_row (uuid4 w (draws s)) (strip worker) (lease_end now n) (r_rev row + 1) now row else q) (t_runs s)"
    unfolding upd upd_where_def using only by (intro map_cong) auto
  then show ?thesis
    using t row c first_by_least [OF f] unfolding lease_end_def by blast
qed

section \<open>Retry delays\<close>

lemma round_half_even_near: "floor x \<le> round_half_even x" "round_half_even x \<le> floor x + 1"
  by (auto simp: round_half_even_def Let_def)

lemma round_half_even_mono:
  assumes "x \<le> y"
  shows "round_half_even x \<le> round_half_even y"
proof (cases "floor x = floor y")
  case True
  then show ?thesis using assms by (auto simp: round_half_even_def Let_def)
next
  case False
  then have "floor x + 1 \<le> floor y" using floor_mono [OF assms] by simp
  then show ?thesis using round_half_even_near [of x] round_half_even_near [of y] by linarith
qed

lemma seconds_to_us_mono: "x \<le> y \<Longrightarrow> seconds_to_us x \<le> seconds_to_us y"
  unfolding seconds_to_us_def by (rule round_half_even_mono) simp

lemma seconds_to_us_whole: "seconds_to_us (of_int n) = n * 1000000"
proof -
  have "floor (of_int n * 1000000 :: rat) = n * 1000000"
    by (metis floor_of_int of_int_mult of_int_numeral)
  then show ?thesis by (simp add: seconds_to_us_def round_half_even_def Let_def)
qed

lemma delay_grows:
  assumes "make_retry_policy p = Inr q" and "1 \<le> a" and "a \<le> b"
  shows "\<exists>x y. delay_for_attempt q a = Inr x \<and> delay_for_attempt q b = Inr y
    \<and> seconds_to_us (rp_initial_delay q) \<le> x \<and> x \<le> y \<and> y \<le> seconds_to_us (rp_max_delay q)"
proof -
  have q: "0 \<le> rp_initial_delay q" "rp_initial_delay q \<le> rp_max_delay q" "1 \<le> rp_multiplier q"
    using assms(1) by (auto simp: make_retry_policy_def result_simps)
  have pow: "1 \<le> rp_multiplier q ^ nat (a - 1)"
    "rp_multiplier q ^ nat (a - 1) \<le> rp_multiplier q ^ nat (b - 1)"
    using q(3) assms(2,3) by (auto intro: one_le_power power_increasing)
  have "rp_initial_delay q * 1 \<le> rp_initial_delay q * rp_multiplier q ^ nat (a - 1)"
    and le: "rp_initial_delay q * rp_multiplier q ^ nat (a - 1) \<le> rp_initial_delay q * rp_multiplier q ^ nat (b - 1)"
    using mult_left_mono [OF pow(1) q(1)] mult_left_mono [OF pow(2) q(1)] by simp_all
  then have "rp_initial_delay q \<le> min (rp_max_delay q) (rp_initial_delay q * rp_multiplier q ^ nat (a - 1))"
    using q(2) by simp
  moreover have "min (rp_max_delay q) (rp_initial_delay q * rp_multiplier q ^ nat (a - 1))
      \<le> min (rp_max_delay q) (rp_initial_delay q * rp_multiplier q ^ nat (b - 1))"
    using le by (rule min.mono [OF order.refl])
  ultimately show ?thesis
    using assms(2,3) by (auto simp: delay_for_attempt_def intro!: seconds_to_us_mono)
qed

section \<open>Submissions\<close>

text \<open>A submission under a key that the workspace already knows returns the known run, or raises when
  the work is different; nothing is written.\<close>

lemma submit_known:
  assumes "submit w now scope sub actor s = Inr (v, s')"
    and "find (\<lambda>r. r_tenant r = sc_tenant scope \<and> r_workspace r = sc_workspace scope
                 \<and> r_idem r = su_key sub) (t_runs s) = Some row"
  shows "s' = s \<and> rr_id v = strip (r_id row)
    \<and> rr_input v = su_input sub \<and> rr_def v = su_def sub \<and> py_eq (PDict (rr_budget v)) (PDict (su_budget sub))"
proof -
  have key: "storage_key None sub = su_key sub" by (simp add: storage_key_def or_else_def)
  obtain dup where d: "idempotent_run_row w scope sub None s = Inr (dup, s)" and
    r: "(case dup of Some row \<Rightarrow> read_run w (r_id row) s = Inr (v, s') | None \<Rightarrow> True)"
    using assms unfolding submit_def submit_run_def
    by (auto simp: result_simps idempotent_run_row_def key read_run_eq split: option.splits)
  from d assms(2) have dup: "dup = Some row" and
    same: "\<exists>existing. read_run w (r_id row) s = Inr (existing, s) \<and> same_submission existing sub"
    by (auto simp: result_simps idempotent_run_row_def key read_run_eq)
  with r have "read_run w (r_id row) s = Inr (v, s')" by simp
  with same show ?thesis
    by (auto simp: same_submission_def dest: read_runD)
qed

section \<open>Receipts\<close>

lemma sorted_dict_PDict: "sort_keys (PDict d) = PDict (sorted_dict d)"
  by (simp add: sorted_dict_def)

lemma sort_keys_idem: "sort_keys (sort_keys v) = sort_keys v"
proof (induction v rule: pyval_induct)
  case (PDict kvs)
  let ?f = "\<lambda>(k, v). (k, sort_keys v)"
  have fst_f: "fst (?f x) = fst x" for x by (cases x) simp
  have twice: "map ?f (map ?f kvs) = map ?f kvs" using PDict by auto
  have "sort_key fst (map ?f (sort_key fst (map ?f kvs))) = map ?f (sort_key fst (sort_key fst (map ?f kvs)))"
    by (rule sort_key_map [where k = fst and f = ?f, OF fst_f])
  also have "\<dots> = map ?f (sort_key fst (map ?f kvs))"
    by (simp only: sort_key_id_if_sorted [OF sorted_sort_key])
  also have "\<dots> = sort_key fst (map ?f (map ?f kvs))" by (rule sort_key_map [where k = fst and f = ?f, OF fst_f, symmetric])
  finally show ?case unfolding twice by simp
qed auto

lemma receipt_digest_sorted: "receipt_digest w (sorted_dict d) = receipt_digest w d"
  unfolding receipt_digest_def sorted_dict_PDict [symmetric]
  using sort_keys_idem [of "PDict d"] by (simp only: sorted_dict_PDict)

lemma find_effect_upd:
  "(\<And>e. e_id (f e) = e_id e) \<Longrightarrow>
   find (\<lambda>e. e_id e = i) (upd_where (\<lambda>e. e_id e = i) f xs) = map_option f (find (\<lambda>e. e_id e = i) xs)"
  by (induction xs) (auto simp: upd_where_def)

lemma effect_result_recorded:
  assumes "record_effect_result w now scope c i result s = Inr (d, s')" and "result_of i s = None"
  shows "effect_result w scope i s' = Inr (Some (sorted_dict result), s')"
proof -
  let ?d = "receipt_digest w result"
  obtain e r v where e: "find (\<lambda>e. e_id e = i) (t_effects s) = Some e"
    and r: "run_of (e_run e) s = Some r" "run_view w r None s = Inr v"
    and scope: "assert_scope w scope (rr_scope v) = Inr ()"
    and s': "s' = s\<lparr>t_results := t_results s @ [\<lparr>x_effect = i, x_value = sorted_dict result, x_digest = ?d, x_recorded = now\<rparr>],
        t_effects := upd_where (\<lambda>e. e_id e = i)
           (\<lambda>e. e\<lparr>e_result_ref := Some (''effect-result:'' @ i), e_digest := Some ?d\<rparr>) (t_effects s)\<rparr>"
    using assms
    by (auto simp: record_effect_result_def Let_def result_simps read_run_eq result_of_def find_None_iff)
  have "find (\<lambda>e. e_id e = i) (t_effects s')
      = Some (e\<lparr>e_result_ref := Some (''effect-result:'' @ i), e_digest := Some ?d\<rparr>)"
    unfolding s' using e by (simp add: find_effect_upd)
  moreover have "run_view w r None s' = run_view w r None s"
    by (simp add: run_view_def visible_key_def s' cong: option.case_cong)
  moreover have "result_of i s' = Some \<lparr>x_effect = i, x_value = sorted_dict result, x_digest = ?d, x_recorded = now\<rparr>"
    using assms(2) by (simp add: result_of_def s')
  ultimately show ?thesis
    using r scope
    by (simp add: effect_result_def effect_row_def read_run_def run_from_conn_def select_run_def select_row_def
        bind_def gets_result_def gets_def lift_def guard_def ret_def receipt_digest_sorted s')
qed

end
