(* ===== verification/ChildEnvelope.thy ===== *)
theory ChildEnvelope
  imports StatusTable
begin

text \<open>
  The envelope of a parent run in the store: whatever is submitted, cancelled and aggregated, the
  children linked to a parent are numbered from one, at most as many as its policy allows, and
  the budgets stored for them were admitted one after the other into the budget of the policy.
\<close>

section \<open>Stored budgets\<close>

text \<open>Budgets pass through the store unchanged: redaction leaves the words of a budget alone.\<close>

definition budgets_kept :: "world \<Rightarrow> bool" where
  "budgets_kept w \<longleftrightarrow>
     (\<forall>d b. run_budget_from_dict d = Inr b \<longrightarrow> run_budget_from_dict (stored_json w d) = Inr b)"

definition stored_value :: "(string \<Rightarrow> string) \<Rightarrow> pyval \<Rightarrow> pyval" where
  "stored_value rt v = sort_keys (redact_data rt v)"

lemma map_of_json_store:
  "\<not> is_secret_key k \<Longrightarrow> map_of (json_store rt d) k = map_option (stored_value rt) (map_of d k)"
  unfolding json_store_def map_of_sort_key by (induction d) (auto simp: redact_dict_def stored_value_def)

lemma get_field_json_store:
  "\<not> is_secret_key k \<Longrightarrow> get_field (json_store rt d) k = stored_value rt (get_field d k)"
  by (auto simp: get_field_def map_of_json_store stored_value_def split: option.split)

lemma keys_json_store: "set (map fst (json_store rt d)) = set (map fst d)"
  by (force simp: json_store_def redact_dict_def)

lemma require_keys_store: "require_keys (json_store rt d) ks = require_keys d ks"
  by (simp only: require_keys_def keys_json_store)

lemma stored_value_simps:
  "stored_value rt (PDict d) = PDict (json_store rt d)" "stored_value rt (PInt n) = PInt n"
  "stored_value rt (PBool b) = PBool b" "stored_value rt PNone = PNone" "stored_value rt (PTime t) = PTime t"
  "stored_value rt (PDec x) = PDec x" "stored_value rt (PStr u) = PStr (rt u)"
  by (simp_all add: stored_value_def redact_data_PDict json_store_def del: redact_data.simps(1))

lemma decode_stored:
  "as_optional_integer (stored_value rt v) = as_optional_integer v" "as_boolean (stored_value rt v) = as_boolean v"
  "as_decimal (stored_value rt v) = as_decimal v" "as_instant (stored_value rt v) = as_instant v"
  "(\<And>t. rt t = t) \<Longrightarrow> text_or_empty (stored_value rt v) = text_or_empty v"
  by (cases v; simp add: stored_value_def as_optional_integer_def as_integer_def as_boolean_def as_decimal_def
      as_instant_def text_or_empty_def)+

lemma budget_keys_plain:
  "list_all (\<lambda>k. \<not> is_secret_key k) [''scope'', ''max_model_calls'', ''max_tool_calls'', ''max_tokens'',
     ''max_cost'', ''deadline'', ''unknown_cost_policy'', ''amount'', ''currency'', ''pricing_known'',
     ''estimated'', ''reported'']"
  by code_simp

lemma cost_stored: "(\<And>t. rt t = t) \<Longrightarrow> cost_from_value (stored_value rt v) = cost_from_value v"
  using budget_keys_plain
  by (cases v) (simp_all add: stored_value_simps cost_from_value_def require_keys_store get_field_json_store decode_stored,
      simp_all add: stored_value_def)

lemma budget_stored: "(\<And>t. rt t = t) \<Longrightarrow> run_budget_from_dict (json_store rt d) = run_budget_from_dict d"
  using budget_keys_plain
  by (simp add: run_budget_from_dict_def require_keys_store get_field_json_store decode_stored cost_stored)

lemma budgets_kept_plain: "(\<And>t. redact_text w t = t) \<Longrightarrow> budgets_kept w"
  by (simp add: budgets_kept_def stored_json_def budget_stored)

text \<open>The ordinals and stored budgets of the children of a parent, and what a policy asks of them.\<close>

definition linked :: "string \<Rightarrow> db \<Rightarrow> (int \<times> pydict) list" where
  "linked pid s = map (\<lambda>c. (ch_ordinal c, ch_budget c)) (child_rows pid s)"

definition fits :: "parent_policy \<Rightarrow> (int \<times> pydict) list \<Rightarrow> bool" where
  "fits policy cs \<longleftrightarrow>
     (\<exists>bs. map_result run_budget_from_dict (map snd cs) = Inr bs \<and> admitted (pp_budget policy) bs)
     \<and> int (length cs) \<le> pp_max policy \<and> map fst cs = map int [1..<Suc (length cs)]"

definition envelopes :: "db \<Rightarrow> bool" where
  "envelopes s \<longleftrightarrow>
     (\<forall>p\<in>set (t_parents s). \<forall>policy. policy_from_dict (p_policy p) = Inr policy \<longrightarrow> fits policy (linked (p_run p) s))"

section \<open>Calls that link no child\<close>

lemma child_frame_fields:
  "child_frame c q \<Longrightarrow> ch_parent q = ch_parent c \<and> ch_ordinal q = ch_ordinal c \<and> ch_budget q = ch_budget c"
  unfolding child_frame_def by (cases c, cases q) simp

lemma linked_upd:
  assumes "\<And>c. Q c \<Longrightarrow> child_frame c (g c)"
  shows "linked pid (s\<lparr>t_children := upd_where Q g (t_children s)\<rparr>) = linked pid s"
proof -
  let ?g = "\<lambda>c. if Q c then g c else c"
  have g: "ch_ordinal (?g c) = ch_ordinal c" "ch_parent (?g c) = ch_parent c" "ch_budget (?g c) = ch_budget c" for c
    using child_frame_fields [OF assms, of c] by auto
  have "sort_key ch_ordinal (map ?g xs) = map ?g (sort_key ch_ordinal xs)" for xs
    by (rule sort_key_map [where k = ch_ordinal and f = ?g, OF g(1)])
  then show ?thesis
    unfolding linked_def child_rows_def upd_where_def by (simp add: filter_map o_def g cong: filter_cong)
qed

lemma linked_same: "t_children s' = t_children s \<Longrightarrow> linked pid s' = linked pid s"
  by (simp add: linked_def child_rows_def)

lemma envelopes_same: "envelopes s \<Longrightarrow> t_parents s' = t_parents s \<Longrightarrow> t_children s' = t_children s \<Longrightarrow> envelopes s'"
  by (simp add: envelopes_def linked_same [of s' s])

lemma envelopes_upd_children:
  "(\<And>c. Q c \<Longrightarrow> child_frame c (g c)) \<Longrightarrow> envelopes s \<Longrightarrow> envelopes (s\<lparr>t_children := upd_where Q g (t_children s)\<rparr>)"
  by (simp add: envelopes_def linked_upd)

lemma envelopes_upd_parents:
  "(\<And>p. T p \<Longrightarrow> parent_frame p (l p)) \<Longrightarrow> envelopes s \<Longrightarrow> envelopes (s\<lparr>t_parents := upd_where T l (t_parents s)\<rparr>)"
  by (auto simp: envelopes_def linked_same [of "s\<lparr>t_parents := x\<rparr>" s for x] upd_where_def parent_frame_def)

lemma policy_room: "policy_from_dict d = Inr policy \<Longrightarrow> 1 \<le> pp_max policy"
  by (auto simp: policy_from_dict_def make_policy_def result_simps split: pyval.splits)

lemma fits_none: "1 \<le> pp_max policy \<Longrightarrow> fits policy []"
  by (auto simp: fits_def intro: admitted_none)

lemma envelopes_new_parent:
  assumes "well_kept s" and "envelopes s" and "\<forall>q\<in>set (t_parents s). p_run q \<noteq> p_run p"
  shows "envelopes (s\<lparr>t_parents := t_parents s @ [p]\<rparr>)"
proof -
  have "\<forall>c\<in>set (t_children s). ch_parent c \<noteq> p_run p"
    using assms(1,3) by (auto simp: well_kept_def references_hold_def)
  then have "linked (p_run p) s = []"
    by (simp add: linked_def child_rows_def filter_False)
  then show ?thesis
    using assms(2) by (auto simp: envelopes_def linked_same [of "s\<lparr>t_parents := x\<rparr>" s for x] intro: fits_none policy_room)
qed

abbreviation enveloped :: "db \<Rightarrow> bool" where
  "enveloped s \<equiv> well_kept s \<and> envelopes s"

lemma enveloped_keeps:
  assumes "keeps (preserves well_kept) m"
    and "\<And>s x s'. m s = Inr (x, s') \<Longrightarrow> well_kept s \<Longrightarrow> envelopes s \<Longrightarrow> envelopes s'"
  shows "keeps (preserves enveloped) m"
  using assms unfolding keeps_def preserves_def by blast

lemma enveloped_other:
  assumes "keeps (preserves well_kept) m"
    and "\<And>s x s'. m s = Inr (x, s') \<Longrightarrow> t_parents s' = t_parents s \<and> t_children s' = t_children s"
  shows "keeps (preserves enveloped) m"
  using assms(2) by (intro enveloped_keeps [OF assms(1)]) (auto intro: envelopes_same)

interpretation children: parent_law "preserves enveloped" w for w
proof unfold_locales
  show "keeps (preserves enveloped) (upd_children Q g)" if "\<And>c. Q c \<Longrightarrow> child_frame c (g c)" for Q g
    by (rule enveloped_keeps [OF keys.upd_children [OF that]]) (auto simp: result_simps intro: that envelopes_upd_children)
  show "keeps (preserves enveloped) (upd_parents T l)" if "\<And>p. T p \<Longrightarrow> parent_frame p (l p)" for T l
    by (rule enveloped_keeps [OF keys.upd_parents [OF that]]) (auto simp: result_simps intro: that envelopes_upd_parents)
  show "keeps (preserves enveloped) (insert_parent p)" for p
    by (rule enveloped_keeps [OF keys.insert_parent]) (auto simp: result_simps intro: envelopes_new_parent)
  show "keeps (preserves enveloped) (insert_event w rid n a p now g)" for w rid n a p now g
    by (rule enveloped_other [OF keys.insert_event]) (auto dest!: insert_event_quiet simp: quiet_def)
qed (auto intro!: enveloped_other keys.upd_runs keys.upd_steps keys.upd_attempts keys.upd_outbox keys.insert_run
       keys.insert_step keys.insert_attempt keys.insert_checkpoint keys.insert_result keys.insert_progress
       keys.insert_outbox keys.new_uuid keys.upd_effects keys.insert_effect
     simp: result_simps preserves_def split: if_splits)

section \<open>Linking a child\<close>

definition same_links :: "db \<Rightarrow> db \<Rightarrow> bool" where
  "same_links s s' \<longleftrightarrow> t_children s' = t_children s \<and> t_parents s' = t_parents s"

interpretation links: evolution same_links
  by unfold_locales (auto simp: same_links_def)

lemma submit_run_links: "keeps same_links (submit_run w scope sub a now k)"
proof -
  have quiet: "keeps same_links (insert_event w rid n a p now g)" for rid n a p now g
    by (rule keepsI) (auto dest: insert_event_quiet simp: quiet_def same_links_def)
  have reads: "keeps same_links (read_run w i)" "keeps same_links (idempotent_run_row w scope sub k)" for i
    by (auto simp: keeps_def read_run_eq idempotent_run_row_def result_simps same_links_def split: option.splits)
  show ?thesis
    unfolding submit_run_def
    by (intro keeps_intros links.keeps_bind links.keeps_map_op quiet reads)
      (auto intro!: keepsI simp: result_simps same_links_def)
qed

lemma post_submit_run_links: "(\<And>r s'. same_links s s' \<Longrightarrow> Q r s') \<Longrightarrow> post (submit_run w scope sub a now k) Q s"
  using submit_run_links by (auto simp: post_def keeps_def)

definition links_one :: "int \<Rightarrow> string \<Rightarrow> parent_policy \<Rightarrow> run_budget \<Rightarrow> pydict \<Rightarrow> db \<Rightarrow> db \<Rightarrow> bool" where
  "links_one now pid policy cb budget s s' \<longleftrightarrow>
     t_parents s' = t_parents s \<and> int (length (child_rows pid s)) < pp_max policy
     \<and> (\<exists>c existing. t_children s' = t_children s @ [c] \<and> ch_parent c = pid \<and> ch_budget c = budget
          \<and> ch_ordinal c = int (length (child_rows pid s)) + 1
          \<and> map_result (\<lambda>c. run_budget_from_dict (ch_budget c)) (child_rows pid s) = Inr existing
          \<and> validate_child_budget_allocation (pp_budget policy) cb existing now = Inr ())"

lemma link_child_appends:
  "post (link_child w now parent cs sub v cb actor)
     (\<lambda>_ s'. links_one now (rr_id (pr_run parent)) (pr_policy parent) cb (stored_json w (su_budget sub)) s s') s"
  unfolding link_child_def
  by (intro post_intros post_submit_run_links)
    (auto simp: links_one_def same_links_def quiet_def)

lemma submit_child_links:
  "post (submit_child w now ps cs sub v actor)
     (\<lambda>_ s'. s' = s \<or> (\<exists>p policy cb. p \<in> set (t_parents s) \<and> policy_from_dict (p_policy p) = Inr policy
        \<and> run_budget_from_dict (su_budget sub) = Inr cb
        \<and> links_one now (strip (p_run p)) policy cb (stored_json w (su_budget sub)) s s')) s"
  unfolding submit_child_def
  by (intro post_intros post_weaken [OF link_child_appends]) (auto dest!: find_SomeD)

text \<open>A linked child comes last among those of its parent and changes no other parent's.\<close>

lemma linked_snoc:
  assumes "links_one now pid policy cb budget s s'" and "fits policy (linked pid s)"
    and "run_budget_from_dict budget = Inr cb"
  shows "fits policy (linked pid s')" and "q \<noteq> pid \<Longrightarrow> linked q s' = linked q s"
proof -
  obtain c existing where c: "t_children s' = t_children s @ [c]" "ch_parent c = pid" "ch_budget c = budget"
      "ch_ordinal c = int (length (child_rows pid s)) + 1"
    and room: "int (length (child_rows pid s)) < pp_max policy"
    and ex: "map_result (\<lambda>c. run_budget_from_dict (ch_budget c)) (child_rows pid s) = Inr existing"
    and ok: "validate_child_budget_allocation (pp_budget policy) cb existing now = Inr ()"
    using assms(1) unfolding links_one_def by blast
  show "q \<noteq> pid \<Longrightarrow> linked q s' = linked q s"
    using c by (simp add: linked_def child_rows_def)
  let ?n = "length (child_rows pid s)"
  have nums: "map ch_ordinal (child_rows pid s) = map int [1..<Suc ?n]"
    using assms(2) by (simp add: fits_def linked_def o_def)
  have "ch_ordinal y < ch_ordinal c" if "y \<in> set (child_rows pid s)" for y
  proof -
    have "ch_ordinal y \<in> set (map int [1..<Suc ?n])" using that unfolding nums [symmetric] by simp
    then show ?thesis using c(4) by auto
  qed
  then have "child_rows pid s' = child_rows pid s @ [c]"
    using c sort_key_last [of "filter (\<lambda>c. ch_parent c = pid) (t_children s)" ch_ordinal c]
    by (simp add: child_rows_def)
  then have rows: "linked pid s' = linked pid s @ [(int ?n + 1, budget)]"
    using c by (simp add: linked_def)
  have len: "length (linked pid s) = ?n" and nums': "map fst (linked pid s) = map int [1..<Suc ?n]"
    using nums by (simp_all add: linked_def o_def)
  obtain bs where bs: "map_result run_budget_from_dict (map snd (linked pid s)) = Inr bs"
    and adm: "admitted (pp_budget policy) bs"
    using assms(2) unfolding fits_def by blast
  have "bs = existing"
    using bs ex by (simp add: linked_def map_result_comp o_def)
  then have "admitted (pp_budget policy) (bs @ [cb])"
    using admitted_next [OF adm] ok by simp
  moreover have "map_result run_budget_from_dict (map snd (linked pid s')) = Inr (bs @ [cb])"
    using map_result_snoc [OF bs assms(3)] by (simp add: rows)
  ultimately show "fits policy (linked pid s')"
    using room nums' unfolding fits_def rows by (auto simp: len)
qed

section \<open>Every reachable state\<close>

lemma links_one_enveloped:
  assumes "links_one now (p_run p) policy cb budget s s'" and "enveloped s" and "p \<in> set (t_parents s)"
    and "policy_from_dict (p_policy p) = Inr policy" and "run_budget_from_dict budget = Inr cb"
  shows "envelopes s'"
  unfolding envelopes_def
proof (intro ballI allI impI)
  fix q policy' assume q: "q \<in> set (t_parents s')" "policy_from_dict (p_policy q) = Inr policy'"
  then have old: "q \<in> set (t_parents s)" using assms(1) by (simp add: links_one_def)
  have fits: "fits policy (linked (p_run p) s)" "fits policy' (linked (p_run q) s)"
    using assms(2-4) old q(2) by (auto simp: envelopes_def)
  show "fits policy' (linked (p_run q) s')"
  proof (cases "p_run q = p_run p")
    case True
    then have "q = p" using assms(2,3) old by (auto simp: well_kept_def keys_unique_def distinct_map dest: inj_onD)
    then show ?thesis using linked_snoc(1) [OF assms(1) fits(1) assms(5)] q(2) assms(4) by simp
  next
    case False
    then show ?thesis using linked_snoc(2) [OF assms(1) fits(1) assms(5)] fits(2) by simp
  qed
qed

lemma submit_child_enveloped:
  assumes "budgets_kept w" and "\<forall>p\<in>set (t_parents s). strip (p_run p) = p_run p" and "enveloped s"
    and "submit_child w now ps cs sub v actor s = Inr (x, s')"
  shows "envelopes s'"
  using postD [OF submit_child_links assms(4)]
proof (elim disjE exE conjE)
  fix p policy cb
  assume "p \<in> set (t_parents s)" "policy_from_dict (p_policy p) = Inr policy"
    and cb: "run_budget_from_dict (su_budget sub) = Inr cb"
    and "links_one now (strip (p_run p)) policy cb (stored_json w (su_budget sub)) s s'"
  moreover have "run_budget_from_dict (stored_json w (su_budget sub)) = Inr cb"
    using assms(1) cb by (simp add: budgets_kept_def)
  ultimately show ?thesis
    using links_one_enveloped [of now p policy cb _ s s'] assms(2,3) by simp
qed (use assms(3) in simp)

lemma execute_enveloped:
  assumes "clean_world w" and "budgets_kept w" and "sound s" and "envelopes s"
  shows "envelopes (execute w (now, c) s)"
proof (cases "links_child c")
  case True
  then obtain ps cs sub v a where c: "c = SubmitChild ps cs sub v a" by (cases c) auto
  have "strip (p_run p) = p_run p" if "p \<in> set (t_parents s)" for p
    using assms(3) that by (auto simp: sound_def clean_ids_def well_kept_def references_hold_def)
  then have "envelopes s'" if "submit_child w now ps x y v a s = Inr (z, s')" for x y z s'
    using submit_child_enveloped [OF assms(2) _ _ that] assms(3,4) by (simp add: sound_def)
  then show ?thesis
    using assms(4) by (auto simp: c execute_def commit_def done_after_def result_simps split: sum.splits)
next
  case False
  then show ?thesis
    using children.other_execute_law [OF False, of s w now] assms(3,4) by (simp add: preserves_def sound_def)
qed

lemma history_enveloped:
  "clean_world w \<Longrightarrow> budgets_kept w \<Longrightarrow> sound s \<Longrightarrow> envelopes s \<Longrightarrow> envelopes (run_history w h s)"
proof (induction h arbitrary: s)
  case (Cons tc h)
  then show ?case
    using execute_enveloped [of w s "fst tc" "snd tc"] execute_advances [of w s "fst tc" "snd tc"] by simp
qed simp

lemma reachable_enveloped:
  assumes "clean_world w" and "budgets_kept w" and "reachable w s"
  shows "envelopes s"
proof -
  have "envelopes empty_db" by (simp add: envelopes_def empty_db_def)
  then show ?thesis
    using assms history_enveloped [OF assms(1,2) sound_empty] by (auto simp: reachable_def)
qed

text \<open>What the policy promises of the budgets it admitted.\<close>

lemma cost_from_value_amount: "cost_from_value v = Inr (Some c) \<Longrightarrow> (\<forall>a. xc_amount c = Some a \<longrightarrow> 0 \<le> dec_value a)"
  by (auto simp: cost_from_value_def make_cost_def Let_def result_simps split: pyval.splits)

lemma decoded_envelope:
  assumes "run_budget_from_dict d = Inr b"
  shows "within_envelope b []"
proof -
  obtain b' where "make_budget b' = Inr b" "cost_from_value (get_field d ''max_cost'') = Inr (b_cost b')"
    using assms by (auto simp: run_budget_from_dict_def result_simps)
  then have "make_budget b = Inr b" "cost_from_value (get_field d ''max_cost'') = Inr (b_cost b)"
    by (auto simp: make_budget_def result_simps split: option.splits)
  then show ?thesis
    using cost_from_value_amount
    by (fastforce simp: within_envelope_def make_budget_def result_simps positive_or_none_def cost_amount_def
        split: option.splits)
qed

lemma admitted_inside: "admitted parent bs \<Longrightarrow> within_envelope parent [] \<Longrightarrow> within_envelope parent bs"
  by (induction rule: admitted.induct) (auto intro: within_envelope_snoc)

lemma fits_inside:
  assumes "policy_from_dict d = Inr policy" and "fits policy cs"
  shows "\<exists>bs. map_result run_budget_from_dict (map snd cs) = Inr bs \<and> within_envelope (pp_budget policy) bs"
proof -
  obtain bd where "run_budget_from_dict bd = Inr (pp_budget policy)"
    using assms(1) by (auto simp: policy_from_dict_def make_policy_def result_simps split: pyval.splits)
  then show ?thesis
    using assms(2) admitted_inside [OF _ decoded_envelope] unfolding fits_def by blast
qed

end
