(* ===== verification/ScenarioCalls.thy ===== *)
theory ScenarioCalls
  imports Scenario CallSpecs ChildEnvelope
begin

text \<open>Results of single calls of the concrete history, and facts of its world.\<close>

lemma claimed_call: "claim_run w0 2 sc0 ''wk'' 60 (Some ''r1'') queued_db = Inr (Some cl0, claimed_db)"
  by code_simp

lemma receipt_call:
  "record_effect_result w0 6 sc0 cl0 ''u5'' [(''ok'', PBool True)] executing_db = Inr (''sha256:h11'', receipt_db)"
  by code_simp

lemma resubmit_call: "map_sum id snd (submit w0 9 sc0 su0 ''host'' queued_db) = Inr queued_db"
  by code_simp

lemma retry0_ok: "make_retry_policy retry0 = Inr retry0"
  by code_simp

lemma budgets_kept_w0: "budgets_kept w0"
  by (rule budgets_kept_plain) (simp add: w0_def)

lemma crashed_call: "map_sum id (\<lambda>(_, s). map r_status (t_runs s)) (reconcile_expired w0 60000003 None executing_db) = Inr [RunUnknown]"
  by code_simp

lemma parent_policy0: "policy_from_dict (p_policy parent_r1) = Inr policy0"
  by code_simp

end
