(* ===== verification/Recovery.thy ===== *)
theory Recovery
  imports StatusTable
begin

text \<open>
  Recovery after a crash (\<^verbatim>\<open>reconcile_expired\<close>): one pass settles every run whose lease has run out,
  and a run that may have had an external effect is never handed to another worker by it.
\<close>

section \<open>Every expired run is settled\<close>

definition expired :: "int \<Rightarrow> run_row \<Rightarrow> bool" where
  "expired now r \<longleftrightarrow> r_status r = RunRunning \<and> (case r_lease r of None \<Rightarrow> False | Some t \<Rightarrow> t < now)"

lemma still_expired_self: "still_expired r r now \<longleftrightarrow> expired now r"
  by (simp add: still_expired_def expired_def)

lemma reconcile_one_settles:
  "post (reconcile_one w now sc row)
     (\<lambda>_ s'. (\<exists>r. run_of (r_id row) s = Some r \<and> \<not> still_expired r row now) \<and> t_runs s' = t_runs s
       \<or> (\<exists>st. st \<in> {RunQueued, RunCancelled, RunUnknown} \<and> moves_runs (r_id row) st (t_runs s) (t_runs s'))) s"
  unfolding reconcile_one_def
  by (intro post_intros requeue_goal_runs requeue_unstarted_runs expire_unsafe_runs settle_run_cancellation_runs)
    auto

text \<open>Rows that a pass has not visited yet are as they were when the pass began.\<close>

lemma reconcile_one_left:
  assumes kept: "well_kept s" and left: "\<forall>q\<in>set (t_runs s). expired now q \<longrightarrow> q \<in> set (row # rows)"
    and ids: "distinct (map r_id (row # rows))" and one: "reconcile_one w now sc row s = Inr (x, s')"
  shows "\<forall>q\<in>set (t_runs s'). expired now q \<longrightarrow> q \<in> set rows"
  using postD [OF reconcile_one_settles one]
proof (elim disjE conjE exE)
  fix r assume r: "run_of (r_id row) s = Some r" "\<not> still_expired r row now" and same: "t_runs s' = t_runs s"
  have "row \<notin> set (t_runs s) \<or> \<not> expired now row"
    using r same_row [OF kept, of r row] run_of_in [OF r(1)] still_expired_self by auto
  then show ?thesis using left same by auto
next
  fix st assume st: "st \<in> {RunQueued, RunCancelled, RunUnknown}"
    and m: "moves_runs (r_id row) st (t_runs s) (t_runs s')"
  show ?thesis
  proof (intro ballI impI)
    fix q assume q: "q \<in> set (t_runs s')" "expired now q"
    from list_all2_rows(2) [OF m [unfolded moves_runs_def] q(1)]
    obtain r where r: "r \<in> set (t_runs s)" "if r_id r = r_id row then settles st r q else q = r" by blast
    with st q(2) have "r_id r \<noteq> r_id row" "q = r" by (auto simp: settles_def expired_def split: if_splits)
    with left r(1) q(2) show "q \<in> set rows" by auto
  qed
qed

lemma reconcile_rounds:
  assumes "well_kept s" and "\<forall>q\<in>set (t_runs s). expired now q \<longrightarrow> q \<in> set rows" and "distinct (map r_id rows)"
    and "map_op (reconcile_one w now sc) rows s = Inr (xs, s')"
  shows "\<forall>q\<in>set (t_runs s'). \<not> expired now q"
  using assms
proof (induction rows arbitrary: s xs)
  case Nil
  then show ?case by (auto simp: result_simps)
next
  case (Cons row rows)
  then obtain x s1 ys where one: "reconcile_one w now sc row s = Inr (x, s1)"
    and rest: "map_op (reconcile_one w now sc) rows s1 = Inr (ys, s')"
    by (auto simp: result_simps)
  have "well_kept s1" using keepsD [OF keys.reconcile_one_law one] Cons.prems(1) by (simp add: preserves_def)
  then show ?case
    using Cons.IH [OF _ reconcile_one_left [OF Cons.prems(1,2,3) one] _ rest] Cons.prems(3) by simp
qed

lemma reconcile_expired_settles:
  assumes "well_kept s" and "reconcile_expired w now None s = Inr (xs, s')"
  shows "\<forall>q\<in>set (t_runs s'). \<not> expired now q"
proof -
  let ?key = "\<lambda>r. (case r_lease r of None \<Rightarrow> 0 | Some t \<Rightarrow> t, r_id r)"
  let ?rows = "sort_key ?key (filter (\<lambda>r. r_status r = RunRunning
      \<and> (case r_lease r of None \<Rightarrow> False | Some t \<Rightarrow> t < now)) (t_runs s))"
  have ids: "distinct (map r_id ?rows)"
    using assms(1) by (auto simp: well_kept_def keys_unique_def distinct_map intro: inj_on_subset)
  obtain ys where "map_op (reconcile_one w now None) ?rows s = Inr (ys, s')"
    using assms(2) by (auto simp: reconcile_expired_def result_simps)
  with ids show ?thesis by (intro reconcile_rounds [OF assms(1)]) (auto simp: expired_def)
qed

section \<open>Doubtful work is not handed on\<close>

definition in_doubt :: "string \<Rightarrow> db \<Rightarrow> bool" where
  "in_doubt rid s \<longleftrightarrow> (\<exists>e\<in>set (t_effects s). e_run e = rid \<and> unsafe_effect (e_status e)
     \<and> (e_status e = EffectUnknown \<or> (\<forall>x\<in>set (t_results s). x_effect x \<noteq> e_id e)))"

lemma unrecovered_in_doubt: "unrecovered_effect rid s \<longleftrightarrow> in_doubt rid s"
  by (auto simp: unrecovered_effect_def in_doubt_def list_ex_iff)

lemma reconcile_one_in_doubt:
  assumes "in_doubt (r_id row) s"
  shows "post (reconcile_one w now sc row) (\<lambda>_ s'. (\<exists>r. run_of (r_id row) s = Some r
      \<and> (still_expired r row now \<longrightarrow> moves_runs (r_id row) RunUnknown (t_runs s) (t_runs s')))) s"
proof -
  have "first_by e_created (\<lambda>e. e_run e = r_id row \<and> unsafe_effect (e_status e)) (t_effects s) \<noteq> None"
    using assms unfolding in_doubt_def first_by_None by blast
  then show ?thesis
    using assms unfolding reconcile_one_def
    by (intro post_intros requeue_goal_runs requeue_unstarted_runs expire_unsafe_runs settle_run_cancellation_runs)
      (auto simp: unrecovered_in_doubt)
qed

end
