(* ===== verification/EffectMachine.thy ===== *)
theory EffectMachine
  imports StatusTable
begin

text \<open>
  The status of an external effect under every call: an effect is intended, dispatched once, and then
  completed, failed, cancelled or unknown; only an unknown outcome is decided by the host, and a
  completed or cancelled effect never moves again.
\<close>

section \<open>The table\<close>

fun effect_moves :: "run_call \<Rightarrow> effect_status \<Rightarrow> effect_status \<Rightarrow> bool" where
  "effect_moves (BeginEffect _ _ _ _ _ _ _ _) a b = (a = EffectFailed \<and> b = EffectIntended)"
| "effect_moves (MarkEffectStarted _ _ _) a b = (a = EffectIntended \<and> b = EffectExecuting)"
| "effect_moves (CompleteEffect _ _ _ _) a b = (a = EffectExecuting \<and> b = EffectCompleted)"
| "effect_moves (FailEffect _ _ _ _) a b = (a \<in> {EffectIntended, EffectExecuting} \<and> b = EffectFailed)"
| "effect_moves (MarkEffectUnknown _ _ _ _) a b = (a \<in> {EffectIntended, EffectExecuting} \<and> b = EffectUnknown)"
| "effect_moves (Cancel _ _ _ _ _) a b = (a = EffectExecuting \<and> b = EffectUnknown)"
| "effect_moves (ReconcileExpired _) a b = (a = EffectExecuting \<and> b = EffectUnknown)"
| "effect_moves (ReconcileEffect _ _ _ _ _ _) a b =
     (a = EffectUnknown \<and> b \<in> {EffectCompleted, EffectIntended, EffectFailed, EffectCancelled})"
| "effect_moves _ a b = False"

definition effect_moved :: "(effect_status \<Rightarrow> effect_status \<Rightarrow> bool) \<Rightarrow> effect_record \<Rightarrow> effect_record \<Rightarrow> bool" where
  "effect_moved M e q \<longleftrightarrow> e_id q = e_id e \<and> (e_status q = e_status e \<or> M (e_status e) (e_status q))"

text \<open>Every effect is still there, moved as \<open>M\<close> says or not at all; new effects are intended.\<close>

definition ledger_moves :: "(effect_status \<Rightarrow> effect_status \<Rightarrow> bool) \<Rightarrow> db \<Rightarrow> db \<Rightarrow> bool" where
  "ledger_moves M s s' \<longleftrightarrow>
     (\<exists>us vs. t_effects s' = us @ vs \<and> list_all2 (effect_moved M) (t_effects s) us
        \<and> (\<forall>e\<in>set vs. e_status e = EffectIntended))"

lemma ledger_moves_none: "list_all2 (effect_moved M) (t_effects s) (t_effects s') \<Longrightarrow> ledger_moves M s s'"
  unfolding ledger_moves_def by (intro exI [of _ "t_effects s'"] exI [of _ "[]"]) simp

lemma ledger_moves_same: "t_effects s' = t_effects s \<Longrightarrow> ledger_moves M s s'"
  by (rule ledger_moves_none) (simp add: list_all2_same effect_moved_def)

lemma ledger_moves_insert:
  "t_effects s' = t_effects s @ [e] \<Longrightarrow> e_status e = EffectIntended \<Longrightarrow> ledger_moves M s s'"
  unfolding ledger_moves_def
  by (intro exI [of _ "t_effects s"] exI [of _ "[e]"]) (simp add: list_all2_same effect_moved_def)

lemma ledger_moves_upd:
  assumes "t_effects s' = upd_where P f (t_effects s)"
    and "\<And>e. e \<in> set (t_effects s) \<Longrightarrow> P e \<Longrightarrow> e_id (f e) = e_id e
      \<and> (e_status (f e) = e_status e \<or> M (e_status e) (e_status (f e)))"
  shows "ledger_moves M s s'"
  by (rule ledger_moves_none, unfold assms(1), rule list_all2_upd_where) (simp add: effect_moved_def assms(2))

lemma ledger_moves_mono: "(\<And>a b. M a b \<Longrightarrow> N a b) \<Longrightarrow> ledger_moves M s s' \<Longrightarrow> ledger_moves N s s'"
  unfolding ledger_moves_def effect_moved_def by (blast intro: list.rel_mono_strong)

text \<open>An update of the one row of an effect.\<close>

lemma ledger_moves_one:
  assumes "sound s" and "find (\<lambda>e. e_id e = i) (t_effects s) = Some e0"
    and "t_effects s' = upd_where (\<lambda>e. e_id e = i) f (t_effects s)"
    and "e_id (f e0) = e_id e0" and "e_status (f e0) = e_status e0 \<or> M (e_status e0) (e_status (f e0))"
  shows "ledger_moves M s s'"
  using effect_rows(5) [OF assms(1,2)] assms(4,5) by (intro ledger_moves_upd [OF assms(3)]) metis

lemma ledger_moves_trans:
  assumes M: "\<And>a b c. M a b \<Longrightarrow> M b c \<Longrightarrow> M a c" and new: "\<And>c. \<not> M EffectIntended c"
    and "ledger_moves M s t" and "ledger_moves M t u"
  shows "ledger_moves M s u"
proof -
  obtain us vs where t: "t_effects t = us @ vs" and su: "list_all2 (effect_moved M) (t_effects s) us"
    and vs: "\<forall>e\<in>set vs. e_status e = EffectIntended"
    using assms(3) unfolding ledger_moves_def by blast
  obtain us' vs' ws where u: "t_effects u = (us' @ vs') @ ws" and ut: "list_all2 (effect_moved M) us us'"
    and vt: "list_all2 (effect_moved M) vs vs'" and ws: "\<forall>e\<in>set ws. e_status e = EffectIntended"
    using assms(4) unfolding ledger_moves_def t list_all2_append1 by auto
  have "list_all2 (effect_moved M) (t_effects s) us'"
    by (rule list_all2_trans [OF _ su ut]) (unfold effect_moved_def, metis M)
  moreover have "\<forall>e\<in>set vs'. e_status e = EffectIntended"
    using vs list_all2_rows(2) [OF vt] new unfolding effect_moved_def by metis
  ultimately show ?thesis
    using u ws unfolding ledger_moves_def by (intro exI [of _ us'] exI [of _ "vs' @ ws"]) auto
qed

section \<open>Calls that write effects\<close>

lemma begin_effect_moves:
  "post (begin_effect w now scope c sid k t v sc a)
     (\<lambda>_ s'. ledger_moves (\<lambda>a b. a = EffectFailed \<and> b = EffectIntended) s s') s"
  unfolding begin_effect_def reuse_effect_def new_effect_def
  by (intro post_intros)
    (auto simp: quiet_def intro: ledger_moves_same ledger_moves_insert ledger_moves_upd)

lemma transition_effect_moves:
  assumes "sound s"
  shows "post (transition_effect w now scope c i xs st n d rs)
     (\<lambda>_ s'. ledger_moves (\<lambda>a b. a \<in> set xs \<and> b = st) s s') s"
  unfolding transition_effect_def
  by (intro post_intros)
    ((rule ledger_moves_same, rule refl)
      | (rule ledger_moves_one [OF assms], assumption, simp add: quiet_def, simp, simp add: make_effect_record_fields))+

lemma mark_effect_unknown_moves:
  assumes "sound s"
  shows "post (mark_effect_unknown w now scope c i rs)
     (\<lambda>_ s'. ledger_moves (\<lambda>a b. a \<in> {EffectIntended, EffectExecuting} \<and> b = EffectUnknown) s s') s"
  unfolding mark_effect_unknown_def
  by (intro post_intros, rule ledger_moves_one [OF assms], assumption, simp add: quiet_def, simp,
      simp add: make_effect_record_fields)

lemma record_effect_result_moves:
  "post (record_effect_result w now scope c i p) (\<lambda>_ s'. ledger_moves M s s') s"
  unfolding record_effect_result_def Let_def
  by (intro post_intros; rule ledger_moves_upd [where P = "\<lambda>e. e_id e = i"]) auto

lemma settle_effect_moves:
  assumes "\<And>x s'. ledger_moves (\<lambda>a b. a = EffectUnknown \<and> b = est) s s' \<Longrightarrow> Q x s'"
  shows "post (settle_effect w now i e d a rs dg est sst rst) Q s"
  unfolding settle_effect_def Let_def
  by (intro post_intros assms, rule ledger_moves_upd [where P = "\<lambda>e. e_id e = i \<and> e_status e = EffectUnknown"],
      simp add: quiet_def, simp)

lemma reconcile_effect_moves:
  "post (reconcile_effect w now scope i d a rs dg) (\<lambda>_ s'. ledger_moves (\<lambda>a b. a = EffectUnknown
      \<and> b \<in> {EffectCompleted, EffectIntended, EffectFailed, EffectCancelled}) s s') s"
  unfolding reconcile_effect_def
  by (intro post_intros settle_effect_moves; erule ledger_moves_mono [rotated])
    (auto simp: reconciled_statuses_def split: reconciliation_decision.splits if_splits)

lemma cancel_uncertain_moves:
  assumes "sound s" and "find (\<lambda>e. e_id e = e_id v) (t_effects s) = Some e" and "e_status v = e_status e"
    and Q: "\<And>x s'. ledger_moves (\<lambda>a b. a = EffectExecuting \<and> b = EffectUnknown) s s' \<Longrightarrow> Q x s'"
  shows "post (cancel_uncertain w now rid reason v) Q s"
  unfolding cancel_uncertain_def
  by (intro post_intros Q)
    ((rule ledger_moves_same, simp; fail)
     | (rule ledger_moves_one [OF assms(1,2)], simp, simp, simp add: assms(3)))+

lemma cancel_certain_moves:
  "(\<And>x s'. ledger_moves M s s' \<Longrightarrow> Q x s') \<Longrightarrow> post (cancel_certain w now rid reason) Q s"
  unfolding cancel_certain_def by (intro post_intros) (simp add: ledger_moves_same)

lemma find_own_row:
  assumes "sound s" and "e \<in> set (t_effects s)"
  shows "find (\<lambda>x. e_id x = e_id e) (t_effects s) = Some e"
proof -
  obtain f where f: "find (\<lambda>x. e_id x = e_id e) (t_effects s) = Some f"
    using assms(2) find_NoneD [of "\<lambda>x. e_id x = e_id e"] by (cases "find (\<lambda>x. e_id x = e_id e) (t_effects s)") auto
  then show ?thesis using effect_rows(5) [OF assms(1) f assms(2)] by simp
qed

lemma effect_row_found:
  assumes "sound s" and "first_by k (\<lambda>e. e_run e = rid \<and> P (e_status e)) (t_effects s) = Some e"
    and "make_effect_record e = Inr v"
  shows "find (\<lambda>x. e_id x = e_id v) (t_effects s) = Some e" and "e_status v = e_status e"
proof -
  have e: "e \<in> set (t_effects s)" using first_by_SomeD [OF assms(2)] by simp
  then have i: "e_id v = e_id e" using effect_run_clean [OF assms(1) e] assms(3) by (simp add: make_effect_record_fields)
  then show "find (\<lambda>x. e_id x = e_id v) (t_effects s) = Some e" using find_own_row [OF assms(1) e] by simp
  show "e_status v = e_status e" using assms(3) by (simp add: make_effect_record_fields)
qed

lemma cancel_run_moves:
  assumes "sound s"
  shows "post (cancel_run w now scope rid a rs c)
     (\<lambda>_ s'. ledger_moves (\<lambda>a b. a = EffectExecuting \<and> b = EffectUnknown) s s') s"
proof -
  have quiet: "ledger_moves M s t" if "ledger_moves M s u" "quiet u t" for M u t
    using that by (simp add: ledger_moves_def quiet_def)
  have same: "ledger_moves M s s" for M by (simp add: ledger_moves_same)
  note found = effect_row_found [OF assms]
  show ?thesis
    unfolding cancel_run_def
    by (intro post_intros cancel_certain_moves) 
      (assumption | rule same | (rule cancel_uncertain_moves [OF assms found], assumption+) | (rule quiet, assumption+) | intro post_intros)+
qed

lemma expire_unsafe_moves:
  assumes "sound s" and "first_by k (\<lambda>e. e_run e = rid \<and> unsafe_effect (e_status e)) (t_effects s) = e"
    and Q: "\<And>x s'. ledger_moves (\<lambda>a b. a = EffectExecuting \<and> b = EffectUnknown) s s' \<Longrightarrow> Q x s'"
  shows "post (expire_unsafe w now rid st at0 e) Q s"
proof (cases e)
  case None
  show ?thesis
    unfolding expire_unsafe_def None option.case
    by (intro post_intros Q ledger_moves_same; simp add: quiet_def)
next
  case (Some e0)
  have e0: "find (\<lambda>e. e_id e = e_id e0) (t_effects s) = Some e0"
    using assms(2) Some by (intro find_own_row [OF assms(1)]) (auto dest: first_by_SomeD)
  show ?thesis
    unfolding expire_unsafe_def Some option.case
    by (intro post_intros Q) ((rule ledger_moves_same, simp add: quiet_def; fail)
       | (rule ledger_moves_one [OF assms(1) e0], simp add: quiet_def, simp, simp))+
qed

section \<open>The table holds\<close>

definition moves_effects :: "(effect_status \<Rightarrow> effect_status \<Rightarrow> bool) \<Rightarrow> (db, 'a) op \<Rightarrow> bool" where
  "moves_effects M m \<longleftrightarrow> (\<forall>s. sound s \<longrightarrow> post m (\<lambda>_ s'. ledger_moves M s s') s)"

lemma moves_effects_ledger: "keeps same_ledger m \<Longrightarrow> moves_effects M m"
  by (auto simp: moves_effects_def keeps_def post_def same_ledger_def intro: ledger_moves_same)

lemma moves_effects_same: "(\<And>s. post m (\<lambda>_ s'. t_effects s' = t_effects s) s) \<Longrightarrow> moves_effects M m"
  by (auto simp: moves_effects_def post_def intro: ledger_moves_same)

lemma moves_effects_done: "moves_effects M m \<Longrightarrow> moves_effects M (done_after m)"
  by (auto simp: moves_effects_def done_after_def post_def result_simps)

lemma moves_effects_lift: "(\<And>x. r = Inr x \<Longrightarrow> moves_effects M (f x)) \<Longrightarrow> moves_effects M (bind (lift r) f)"
  by (auto simp: moves_effects_def post_def result_simps)

lemma moves_effects_mono: "(\<And>a b. M a b \<Longrightarrow> N a b) \<Longrightarrow> moves_effects M m \<Longrightarrow> moves_effects N m"
  unfolding moves_effects_def post_def by (blast intro: ledger_moves_mono)

lemma transition_effect_moves_effects:
  "moves_effects (\<lambda>a b. a \<in> set xs \<and> b = st) (transition_effect w now scope c i xs st n d rs)"
  by (simp add: moves_effects_def transition_effect_moves)

lemma effect_calls_move:
  "moves_effects (\<lambda>a b. a = EffectIntended \<and> b = EffectExecuting) (mark_effect_started w now scope c i)"
  "moves_effects (\<lambda>a b. a = EffectExecuting \<and> b = EffectCompleted) (complete_effect w now scope c i d)"
  "moves_effects (\<lambda>a b. a \<in> {EffectIntended, EffectExecuting} \<and> b = EffectFailed) (fail_effect w now scope c i rs)"
  unfolding mark_effect_started_def complete_effect_def fail_effect_def
  by (intro moves_effects_lift moves_effects_mono [OF _ transition_effect_moves_effects]; simp)+

abbreviation lost_outcome :: "effect_status \<Rightarrow> effect_status \<Rightarrow> bool" where
  "lost_outcome a b \<equiv> a = EffectExecuting \<and> b = EffectUnknown"

lemma post_same_ledger:
  "keeps same_ledger m \<Longrightarrow> (\<And>x s'. ledger_moves lost_outcome s s' \<Longrightarrow> Q x s') \<Longrightarrow> post m Q s"
  by (auto simp: keeps_def post_def same_ledger_def ledger_moves_same)

lemmas requeue_moves = post_same_ledger [OF ledger.requeue_goal_law] post_same_ledger [OF ledger.requeue_unstarted_law]
  post_same_ledger [OF ledger.settle_run_cancellation_law]

lemma reconcile_one_moves:
  assumes "sound s"
  shows "post (reconcile_one w now sc row) (\<lambda>_ s'. ledger_moves lost_outcome s s') s"
  unfolding reconcile_one_def
  by (intro post_intros requeue_moves expire_unsafe_moves [OF assms refl])
    (assumption | rule ledger_moves_same, rule refl)+

lemma reconcile_expired_moves: "moves_effects lost_outcome (reconcile_expired w now sc)"
  unfolding moves_effects_def
proof (intro allI impI)
  fix s assume s: "sound s"
  let ?I = "\<lambda>u. sound u \<and> ledger_moves lost_outcome s u"
  have round: "post (reconcile_one w now sc row) (\<lambda>_ u. ?I u) t" if t: "?I t" for row t
  proof (rule postI)
    fix y u assume e: "reconcile_one w now sc row t = Inr (y, u)"
    have "well_kept u" using keepsD [OF keys.reconcile_one_law e] t by (simp add: preserves_def sound_def)
    with t have "sound u"
      using sound_reconciles_run [of t u "r_id row" "\<lambda>_ _. True"] postD [OF reconcile_one_reconciles e] by blast
    moreover have "ledger_moves lost_outcome s u"
      by (rule ledger_moves_trans [of lost_outcome s t u]) (use t postD [OF reconcile_one_moves e] in auto)
    ultimately show "?I u" ..
  qed
  show "post (reconcile_expired w now sc) (\<lambda>_ u. ledger_moves lost_outcome s u) s"
    unfolding reconcile_expired_def
    by (intro post_bind post_gets post_ret post_weaken [OF post_map_op [where I = ?I, OF _ round]])
      (simp_all add: s ledger_moves_same)
qed

lemmas ledger_calls =
  ledger.submit_law ledger.record_event_law ledger.claim_run_law ledger.renew_law
  ledger.start_step_law ledger.yield_step_law ledger.add_checkpoint_law ledger.complete_step_law
  ledger.fail_step_law ledger.pause_for_approval_law ledger.resume_law
  ledger.request_cancellation_law ledger.complete_run_law ledger.fail_run_law
  ledger.mark_unknown_law ledger.dead_letter_law ledger.steer_law ledger.submit_child_law
  ledger.record_child_progress_law ledger.request_child_cancellation_law
  ledger.request_parent_cancellation_law ledger.claim_parent_completion_law
  ledger.complete_parent_completion_law ledger.fail_parent_completion_law
  ledger.mark_parent_completion_unknown_law ledger.reconcile_parent_completion_law

lemma writing_calls_move:
  "moves_effects (\<lambda>a b. a = EffectFailed \<and> b = EffectIntended) (begin_effect w now scope c sid k t v sc a)"
  "moves_effects (\<lambda>a b. False) (record_effect_result w now scope c i p)"
  "moves_effects (\<lambda>a b. a = EffectUnknown \<and> b \<in> {EffectCompleted, EffectIntended, EffectFailed, EffectCancelled})
     (reconcile_effect w now scope i d ac rs dg)"
  "moves_effects (\<lambda>a b. a \<in> {EffectIntended, EffectExecuting} \<and> b = EffectUnknown)
     (mark_effect_unknown w now scope c i rs)"
  "moves_effects lost_outcome (cancel_run w now scope rid ac rs cl)"
  unfolding moves_effects_def
  by (intro allI impI begin_effect_moves record_effect_result_moves reconcile_effect_moves
      mark_effect_unknown_moves cancel_run_moves; assumption)+

lemma call_moves_effects: "moves_effects (effect_moves c) (exec_call w now c)"
  by (cases c; simp only: exec_call.simps effect_moves.simps [abs_def];
      intro moves_effects_done moves_effects_lift effect_calls_move reconcile_expired_moves writing_calls_move
        moves_effects_same [OF submit_parent_effects] moves_effects_same [OF aggregate_children_effects]
        ledger_calls [THEN moves_effects_ledger])

text \<open>Completed and cancelled effects are final.\<close>

abbreviation settled_effect :: "effect_status \<Rightarrow> bool" where
  "settled_effect st \<equiv> st \<in> {EffectCompleted, EffectCancelled}"

lemma settled_has_no_move: "settled_effect a \<Longrightarrow> \<not> effect_moves c a b"
  by (cases c) auto

lemma execute_moves_effects: "sound s \<Longrightarrow> ledger_moves (effect_moves c) s (execute w (now, c) s)"
  using call_moves_effects [of c w now]
  by (auto simp: moves_effects_def post_def execute_def commit_def ledger_moves_same split: sum.splits)

lemma ledger_moves_row: "ledger_moves M s s' \<Longrightarrow> e \<in> set (t_effects s) \<Longrightarrow> \<exists>q\<in>set (t_effects s'). effect_moved M e q"
  unfolding ledger_moves_def by (metis UnI1 list_all2_rows(1) set_append)

lemma history_settled:
  assumes "clean_world w" and "sound s" and "e \<in> set (t_effects s)" and "settled_effect (e_status e)"
  shows "\<exists>q\<in>set (t_effects (run_history w h s)). e_id q = e_id e \<and> e_status q = e_status e"
  using assms(2-)
proof (induction h arbitrary: s e)
  case (Cons tc h)
  let ?t = "execute w (fst tc, snd tc) s"
  obtain q where q: "q \<in> set (t_effects ?t)" "effect_moved (effect_moves (snd tc)) e q"
    using ledger_moves_row [OF execute_moves_effects [OF Cons.prems(1)] Cons.prems(2)] by blast
  then have same: "e_id q = e_id e" "e_status q = e_status e"
    using settled_has_no_move [OF Cons.prems(3)] by (auto simp: effect_moved_def)
  have "sound ?t" using execute_advances [OF assms(1) Cons.prems(1)] by blast
  from Cons.IH [OF this q(1)] show ?case using Cons.prems(3) by (simp add: same)
qed auto

end
