(* ===== verification/Secrecy.thy ===== *)
theory Secrecy
  imports StoreHistory
begin

text \<open>
  What is written as JSON holds no secret: the stored form of a mapping is redacted at every depth,
  and so is the payload of every event in every state a history reaches.
\<close>

lemma sort_keys_secrets: "secrets_redacted v \<Longrightarrow> secrets_redacted (sort_keys v)"
  by (induction v rule: pyval_induct) (fastforce simp: list_all_iff)+

lemma stored_json_secrets: "secrets_redacted (PDict (stored_json w d))"
proof -
  have "PDict (stored_json w d) = sort_keys (redact_data (redact_text w) (PDict d))"
    by (simp only: redact_data_PDict stored_json_def json_store_def sort_keys.simps)
  then show ?thesis using sort_keys_secrets [OF redact_data_secrets] by metis
qed

definition log_redacted :: "db \<Rightarrow> bool" where
  "log_redacted s \<longleftrightarrow> (\<forall>v\<in>set (t_events s). secrets_redacted (PDict (v_payload v)))"

lemma event_redacted:
  "insert_event w rid name actor payload now g s = Inr (v, s') \<Longrightarrow> log_redacted s \<Longrightarrow> log_redacted s'"
  by (drule insert_eventD) (auto simp: insert_event_row_eq log_redacted_def stored_json_secrets simp del: secrets_redacted.simps)

interpretation secrecy: store_law "preserves log_redacted" w for w
proof unfold_locales
  fix rid name actor payload now args
  show "keeps (preserves log_redacted) (insert_event w rid name actor payload now args)"
    by (rule keepsI, rule preservesI) (rule event_redacted)
qed (auto intro!: keepsI preservesI simp: result_simps log_redacted_def simp del: secrets_redacted.simps split: if_splits)

lemma reachable_redacted: "reachable w s \<Longrightarrow> log_redacted s"
  using secrecy.reachable_law [of w s] by (simp add: preserves_def log_redacted_def empty_db_def)

end
