(* ===== verification/GoalModels.thy ===== *)
theory GoalModels
  imports Budget
begin

text \<open>
  The data of durable goals (\<^verbatim>\<open>goals/models.py\<close>): statuses, criteria, evidence, approvals,
  steering instructions, steps and the goal snapshot, each with the checks of its
  \<^verbatim>\<open>__post_init__\<close>.  Every snapshot of a goal is built through \<open>make_goal\<close>; the \<^verbatim>\<open>replace\<close>
  of the code is \<open>make_goal\<close> of the updated record.  Times are microseconds since the epoch
  (time-zone aware, in UTC).  Fields that no operation interprets (\<^verbatim>\<open>source_plan\<close>,
  \<^verbatim>\<open>metadata\<close>) are plain dictionaries.
\<close>

section \<open>Statuses\<close>

datatype goal_status =
    GoalDraft | GoalApproved | GoalRunning | GoalPaused | GoalBlocked | GoalCompleted
  | GoalCancelled | GoalFailed

datatype gstep_status =
    GPending | GReady | GRunning | GBlocked | GCompleted | GSkipped | GFailed | GUncertain

datatype goal_risk = RiskLow | RiskMedium | RiskHigh

fun goal_status_value :: "goal_status \<Rightarrow> string" where
  "goal_status_value GoalDraft = ''draft''"
| "goal_status_value GoalApproved = ''approved''"
| "goal_status_value GoalRunning = ''running''"
| "goal_status_value GoalPaused = ''paused''"
| "goal_status_value GoalBlocked = ''blocked''"
| "goal_status_value GoalCompleted = ''completed''"
| "goal_status_value GoalCancelled = ''cancelled''"
| "goal_status_value GoalFailed = ''failed''"

fun gstep_status_value :: "gstep_status \<Rightarrow> string" where
  "gstep_status_value GPending = ''pending''"
| "gstep_status_value GReady = ''ready''"
| "gstep_status_value GRunning = ''running''"
| "gstep_status_value GBlocked = ''blocked''"
| "gstep_status_value GCompleted = ''completed''"
| "gstep_status_value GSkipped = ''skipped''"
| "gstep_status_value GFailed = ''failed''"
| "gstep_status_value GUncertain = ''uncertain''"

fun goal_risk_value :: "goal_risk \<Rightarrow> string" where
  "goal_risk_value RiskLow = ''low''"
| "goal_risk_value RiskMedium = ''medium''"
| "goal_risk_value RiskHigh = ''high''"

definition terminal_goal_status :: "goal_status \<Rightarrow> bool" where
  "terminal_goal_status s = (s \<in> {GoalCompleted, GoalCancelled, GoalFailed})"

section \<open>Texts and lists of identifiers\<close>

definition goal_text :: "string \<Rightarrow> string result" where
  "goal_text s = (let clean = strip s in if clean = [] then Inl ValueError else Inr clean)"

definition goal_text_opt :: "string option \<Rightarrow> string option" where
  "goal_text_opt v =
     (case v of None \<Rightarrow> None | Some s \<Rightarrow> (let clean = strip s in if clean = [] then None else Some clean))"

text \<open>\<^verbatim>\<open>dict.fromkeys\<close>: the first occurrence of every element, in order.\<close>

fun fromkeys :: "'a list \<Rightarrow> 'a list" where
  "fromkeys [] = []"
| "fromkeys (x # xs) = x # removeAll x (fromkeys xs)"

definition unique_optional :: "string list \<Rightarrow> string list result" where
  "unique_optional xs = and_then (map_result goal_text xs) (\<lambda>ys. Inr (fromkeys ys))"

definition unique_required :: "string list \<Rightarrow> string list result" where
  "unique_required xs =
     and_then (unique_optional xs) (\<lambda>ys. if ys = [] then Inl ValueError else Inr ys)"

definition clean_goal_text :: "string \<Rightarrow> bool" where
  "clean_goal_text s \<longleftrightarrow> s \<noteq> [] \<and> strip s = s"

lemma goal_text_eq_Inr [result_simps]: "goal_text s = Inr t \<longleftrightarrow> t = strip s \<and> strip s \<noteq> []"
  by (auto simp: goal_text_def Let_def)

lemma goal_text_clean [simp]: "clean_goal_text s \<Longrightarrow> goal_text s = Inr s"
  by (simp add: goal_text_def clean_goal_text_def)

lemma goal_text_Inr_clean: "goal_text s = Inr t \<Longrightarrow> clean_goal_text t"
  by (auto simp: result_simps clean_goal_text_def)

lemma goal_text_fix: "goal_text s = Inr s \<longleftrightarrow> clean_goal_text s"
  by (auto simp: result_simps clean_goal_text_def)

lemma goal_text_opt_idem [simp]: "goal_text_opt (goal_text_opt v) = goal_text_opt v"
  by (auto simp: goal_text_opt_def Let_def split: option.splits)

lemma set_fromkeys [simp]: "set (fromkeys xs) = set xs"
  by (induction xs) auto

lemma distinct_fromkeys [simp]: "distinct (fromkeys xs)"
  by (induction xs) (auto simp: distinct_removeAll)

lemma fromkeys_distinct: "distinct xs \<Longrightarrow> fromkeys xs = xs"
  by (induction xs) auto

lemma map_result_id: "(\<And>x. x \<in> set xs \<Longrightarrow> f x = Inr x) \<Longrightarrow> map_result f xs = Inr xs"
  by (induction xs) simp_all

definition clean_id_list :: "string list \<Rightarrow> bool" where
  "clean_id_list xs \<longleftrightarrow> distinct xs \<and> list_all clean_goal_text xs"

lemma unique_optional_clean: "clean_id_list xs \<Longrightarrow> unique_optional xs = Inr xs"
proof -
  assume "clean_id_list xs"
  then have "map_result goal_text xs = Inr xs" and "distinct xs"
    by (auto simp: clean_id_list_def list_all_iff intro!: map_result_id)
  then show ?thesis by (simp add: unique_optional_def fromkeys_distinct)
qed

lemma map_result_texts: "map_result goal_text xs = Inr ys \<Longrightarrow> list_all clean_goal_text ys"
  by (induction xs arbitrary: ys) (auto simp: result_simps clean_goal_text_def)

lemma unique_optional_Inr: "unique_optional xs = Inr ys \<Longrightarrow> clean_id_list ys"
  by (auto simp: unique_optional_def clean_id_list_def result_simps list_all_iff dest!: map_result_texts)

lemma unique_required_Inr: "unique_required xs = Inr ys \<Longrightarrow> clean_id_list ys \<and> ys \<noteq> []"
  by (auto simp: unique_required_def and_then_eq_Inr dest!: unique_optional_Inr split: if_splits)

lemma unique_required_clean: "clean_id_list xs \<Longrightarrow> xs \<noteq> [] \<Longrightarrow> unique_required xs = Inr xs"
  by (simp add: unique_required_def unique_optional_clean)

section \<open>Criteria, evidence, approvals, steering\<close>

record goal_criterion =
  gc_id :: string
  gc_description :: string

record goal_evidence =
  ge_id :: string
  ge_summary :: string
  ge_criteria :: "string list"
  ge_step :: "string option"
  ge_kind :: string
  ge_reference :: "string option"
  ge_by :: string
  ge_at :: int
  ge_metadata :: pydict

record goal_approval =
  ga_id :: string
  ga_by :: string
  ga_scope :: string
  ga_step :: "string option"
  ga_reason :: "string option"
  ga_at :: int

record goal_steering =
  gt_id :: string
  gt_instruction :: string
  gt_by :: string
  gt_at :: int
  gt_supersedes :: "string list"

definition make_criterion :: "goal_criterion \<Rightarrow> goal_criterion result" where
  "make_criterion c =
     and_then (goal_text (gc_id c)) (\<lambda>i.
     and_then (goal_text (gc_description c)) (\<lambda>d.
       Inr \<lparr>gc_id = i, gc_description = d\<rparr>))"

definition make_evidence :: "goal_evidence \<Rightarrow> goal_evidence result" where
  "make_evidence e =
     and_then (goal_text (ge_id e)) (\<lambda>i.
     and_then (goal_text (ge_summary e)) (\<lambda>summary.
     and_then (unique_required (ge_criteria e)) (\<lambda>criteria.
     and_then (goal_text (ge_kind e)) (\<lambda>kind.
     and_then (goal_text (ge_by e)) (\<lambda>who.
       Inr \<lparr>ge_id = i, ge_summary = summary, ge_criteria = criteria,
            ge_step = goal_text_opt (ge_step e), ge_kind = kind,
            ge_reference = goal_text_opt (ge_reference e), ge_by = who, ge_at = ge_at e,
            ge_metadata = freeze_mapping (ge_metadata e)\<rparr>)))))"

definition make_approval :: "goal_approval \<Rightarrow> goal_approval result" where
  "make_approval a =
     and_then (goal_text (ga_id a)) (\<lambda>i.
     and_then (goal_text (ga_by a)) (\<lambda>who.
     and_then (require (ga_scope a \<in> set [''goal'', ''step'', ''skip'']) ValueError) (\<lambda>_.
     (let step = goal_text_opt (ga_step a) in
     and_then (require (\<not> (ga_scope a \<noteq> ''goal'' \<and> step = None)) ValueError) (\<lambda>_.
       Inr \<lparr>ga_id = i, ga_by = who, ga_scope = ga_scope a, ga_step = step,
            ga_reason = goal_text_opt (ga_reason a), ga_at = ga_at a\<rparr>)))))"

definition make_steering :: "goal_steering \<Rightarrow> goal_steering result" where
  "make_steering t =
     and_then (goal_text (gt_id t)) (\<lambda>i.
     and_then (goal_text (gt_instruction t)) (\<lambda>instruction.
     and_then (goal_text (gt_by t)) (\<lambda>who.
     and_then (unique_optional (gt_supersedes t)) (\<lambda>supersedes.
       Inr \<lparr>gt_id = i, gt_instruction = instruction, gt_by = who, gt_at = gt_at t,
            gt_supersedes = supersedes\<rparr>))))"

section \<open>Steps\<close>

record goal_step =
  gs_id :: string
  gs_title :: string
  gs_description :: string
  gs_criteria :: "string list"
  gs_depends :: "string list"
  gs_risk :: goal_risk
  gs_tools :: "string list"
  gs_status :: gstep_status
  gs_attempt :: int
  gs_max :: int
  gs_evidence :: "string list"
  gs_blocked :: "string option"
  gs_skip :: "string option"
  gs_started :: "int option"
  gs_completed :: "int option"

definition make_step :: "goal_step \<Rightarrow> goal_step result" where
  "make_step s =
     and_then (goal_text (gs_id s)) (\<lambda>i.
     and_then (goal_text (gs_title s)) (\<lambda>title.
     and_then (goal_text (gs_description s)) (\<lambda>description.
     and_then (unique_required (gs_criteria s)) (\<lambda>criteria.
     and_then (unique_optional (gs_depends s)) (\<lambda>depends.
     and_then (unique_optional (gs_tools s)) (\<lambda>tools.
     and_then (require (0 \<le> gs_attempt s) ValueError) (\<lambda>_.
     and_then (require (1 \<le> gs_max s) ValueError) (\<lambda>_.
     and_then (require (gs_attempt s \<le> gs_max s) ValueError) (\<lambda>_.
     and_then (unique_optional (gs_evidence s)) (\<lambda>evidence.
       Inr (s\<lparr>gs_id := i, gs_title := title, gs_description := description,
              gs_criteria := criteria, gs_depends := depends, gs_tools := tools,
              gs_evidence := evidence, gs_blocked := goal_text_opt (gs_blocked s),
              gs_skip := goal_text_opt (gs_skip s)\<rparr>)))))))))))"

definition terminal_gstep :: "goal_step \<Rightarrow> bool" where
  "terminal_gstep s = (gs_status s \<in> {GCompleted, GSkipped, GFailed})"

section \<open>The dependency graph of the steps\<close>

text \<open>
  \<^verbatim>\<open>_reject_cycles\<close>: a depth-first search with the ids on the current path and the ids whose
  search is finished.  The loop over the dependencies of a step and the recursive \<^verbatim>\<open>visit\<close>
  are one function over the list of ids still to visit; the dependencies of a step are
  visited in the order of its tuple (the code visits a set, in no fixed order).
\<close>

function visit :: "(string \<times> string list) list \<Rightarrow> string list \<Rightarrow> string list \<Rightarrow> string list
    \<Rightarrow> string list result" where
  "visit deps visiting visited [] = Inr visited"
| "visit deps visiting visited (s # ss) =
     (if s \<in> set visited then visit deps visiting visited ss
      else if s \<in> set visiting then Inl ValueError
      else (case map_of deps s of None \<Rightarrow> Inl KeyError
            | Some ds \<Rightarrow>
                (case visit deps (s # visiting) visited ds of Inl e \<Rightarrow> Inl e
                 | Inr visited' \<Rightarrow> visit deps visiting (s # visited') ss)))"
  by pat_completeness auto

lemma unvisited_less:
  assumes "s \<notin> set visiting" and "map_of deps s = Some ds"
  shows "card (fst ` set deps - insert s (set visiting)) < card (fst ` set deps - set visiting)"
proof -
  have "s \<in> fst ` set deps" using assms(2) by (metis map_of_eq_None_iff option.distinct(1))
  with assms(1) show ?thesis by (intro psubset_card_mono) auto
qed

termination visit
  by (relation "measures [\<lambda>(deps, visiting, visited, ss). card (fst ` set deps - set visiting),
                          \<lambda>(deps, visiting, visited, ss). length ss]")
    (auto simp: unvisited_less)

definition step_deps :: "goal_step list \<Rightarrow> (string \<times> string list) list" where
  "step_deps steps = map (\<lambda>s. (gs_id s, gs_depends s)) steps"

definition reject_cycles :: "goal_step list \<Rightarrow> unit result" where
  "reject_cycles steps =
     (let deps = step_deps steps in and_then (visit deps [] [] (map fst deps)) (\<lambda>_. Inr ()))"

lemma map_fst_step_deps [simp]: "map fst (step_deps steps) = map gs_id steps"
  by (simp add: step_deps_def)

definition known_ids :: "string set \<Rightarrow> string list \<Rightarrow> bool" where
  "known_ids known xs = (set xs \<subseteq> known)"

definition step_refs_ok :: "string set \<Rightarrow> string set \<Rightarrow> goal_step \<Rightarrow> bool" where
  "step_refs_ok criteria steps s =
     (known_ids criteria (gs_criteria s) \<and> known_ids steps (gs_depends s)
      \<and> gs_id s \<notin> set (gs_depends s))"

definition evidence_refs_ok :: "string set \<Rightarrow> string set \<Rightarrow> goal_evidence \<Rightarrow> bool" where
  "evidence_refs_ok criteria steps e =
     ((case ge_step e of None \<Rightarrow> True | Some s \<Rightarrow> s \<in> steps) \<and> known_ids criteria (ge_criteria e))"

definition validate_goal_graph ::
  "goal_criterion list \<Rightarrow> goal_step list \<Rightarrow> goal_evidence list \<Rightarrow> unit result" where
  "validate_goal_graph criteria steps evidence =
     (let cids = map gc_id criteria; sids = map gs_id steps; eids = map ge_id evidence in
     and_then (require (cids \<noteq> []) ValueError) (\<lambda>_.
     and_then (require (distinct cids) ValueError) (\<lambda>_.
     and_then (require (sids \<noteq> []) ValueError) (\<lambda>_.
     and_then (require (distinct sids) ValueError) (\<lambda>_.
     and_then (require (\<forall>s\<in>set steps. step_refs_ok (set cids) (set sids) s) ValueError) (\<lambda>_.
     and_then (reject_cycles steps) (\<lambda>_.
     and_then (require (distinct eids) ValueError) (\<lambda>_.
     and_then (require (\<forall>e\<in>set evidence. evidence_refs_ok (set cids) (set sids) e) ValueError) (\<lambda>_.
       require (\<forall>s\<in>set steps. known_ids (set eids) (gs_evidence s)) ValueError)))))))))"

section \<open>Goals\<close>

record goal =
  g_id :: string
  g_profile :: string
  g_title :: string
  g_criteria :: "goal_criterion list"
  g_steps :: "goal_step list"
  g_budget :: run_budget
  g_status :: goal_status
  g_revision :: int
  g_evidence :: "goal_evidence list"
  g_approvals :: "goal_approval list"
  g_steering :: "goal_steering list"
  g_conversation :: "string option"
  g_turn :: "string option"
  g_plan :: "pydict option"
  g_children :: "string list"
  g_schedules :: "string list"
  g_processes :: "string list"
  g_traces :: "string list"
  g_artifacts :: "string list"
  g_cancel :: bool
  g_created_at :: int
  g_updated :: int
  g_approved :: "int option"
  g_started :: "int option"
  g_completed :: "int option"
  g_error :: "string option"
  g_description :: "string option"
  g_constraints :: "string list"
  g_fulfilled :: "(string \<times> string list) list"

text \<open>Every steering instruction has a fresh id and supersedes only active ones.\<close>

fun steering_ok :: "string set \<Rightarrow> string set \<Rightarrow> goal_steering list \<Rightarrow> bool" where
  "steering_ok seen active [] = True"
| "steering_ok seen active (t # ts) =
     (gt_id t \<notin> seen \<and> set (gt_supersedes t) \<subseteq> active
      \<and> steering_ok (insert (gt_id t) seen) (insert (gt_id t) (active - set (gt_supersedes t))) ts)"

definition clean_fulfillment :: "(string \<times> string list) list \<Rightarrow> (string \<times> string list) list result" where
  "clean_fulfillment fs =
     map_result (\<lambda>(k, refs). and_then (unique_required refs) (\<lambda>r. Inr (k, r))) fs"

definition fulfillment_ok :: "goal_steering list \<Rightarrow> goal_evidence list \<Rightarrow> (string \<times> string list) list \<Rightarrow> bool" where
  "fulfillment_ok steering evidence fs =
     (fst ` set fs \<subseteq> gt_id ` set steering
      \<and> (\<forall>(k, refs)\<in>set fs. set refs \<subseteq> ge_id ` set evidence))"

definition make_goal :: "goal \<Rightarrow> goal result" where
  "make_goal g =
     and_then (goal_text (g_id g)) (\<lambda>i.
     and_then (goal_text (g_profile g)) (\<lambda>profile.
     and_then (goal_text (g_title g)) (\<lambda>title.
     and_then (goal_text (case g_description g of None \<Rightarrow> title | Some d \<Rightarrow> d)) (\<lambda>description.
     and_then (unique_optional (g_constraints g)) (\<lambda>constraints.
     and_then (require (b_scope (g_budget g) = ScGoal) ValueError) (\<lambda>_.
     and_then (require (0 \<le> g_revision g) ValueError) (\<lambda>_.
     and_then (require (steering_ok {} {} (g_steering g)) ValueError) (\<lambda>_.
     and_then (unique_optional (g_children g)) (\<lambda>children.
     and_then (unique_optional (g_schedules g)) (\<lambda>schedules.
     and_then (unique_optional (g_processes g)) (\<lambda>processes.
     and_then (unique_optional (g_traces g)) (\<lambda>traces.
     and_then (unique_optional (g_artifacts g)) (\<lambda>artifacts.
     and_then (validate_goal_graph (g_criteria g) (g_steps g) (g_evidence g)) (\<lambda>_.
     and_then (clean_fulfillment (g_fulfilled g)) (\<lambda>fulfilled.
     and_then (require (fulfillment_ok (g_steering g) (g_evidence g) fulfilled) ValueError) (\<lambda>_.
       Inr (g\<lparr>g_id := i, g_profile := profile, g_title := title, g_description := Some description,
              g_constraints := constraints, g_children := children, g_schedules := schedules,
              g_processes := processes, g_traces := traces, g_artifacts := artifacts,
              g_conversation := goal_text_opt (g_conversation g), g_turn := goal_text_opt (g_turn g),
              g_plan := map_option freeze_mapping (g_plan g),
              g_error := goal_text_opt (g_error g), g_fulfilled := fulfilled\<rparr>)))))))))))))))))"

definition terminal_goal :: "goal \<Rightarrow> bool" where
  "terminal_goal g = terminal_goal_status (g_status g)"

definition active_steering :: "goal \<Rightarrow> goal_steering list" where
  "active_steering g =
     (let superseded = (\<Union>t\<in>set (g_steering g). set (gt_supersedes t))
      in filter (\<lambda>t. gt_id t \<notin> superseded) (g_steering g))"

definition evidenced_ids :: "goal \<Rightarrow> string set" where
  "evidenced_ids g = (\<Union>e\<in>set (g_evidence g). set (ge_criteria e))"

definition missing_ids :: "goal \<Rightarrow> string list" where
  "missing_ids g = filter (\<lambda>c. c \<notin> evidenced_ids g) (map gc_id (g_criteria g))"

definition with_revision :: "goal \<Rightarrow> int \<Rightarrow> int \<Rightarrow> goal result" where
  "with_revision g revision now = make_goal (g\<lparr>g_revision := revision, g_updated := now\<rparr>)"

end
