(* ===== verification/GoalTransitions.thy ===== *)
theory GoalTransitions
  imports GoalModels
begin

text \<open>
  The pure transitions of goals and their steps (\<^verbatim>\<open>goals/transitions.py\<close>).  A transition
  maps a goal snapshot to the next one or raises; \<^verbatim>\<open>replace\<close> of a step or of a goal is
  \<open>make_step\<close> or \<open>make_goal\<close> of the updated record, whose checks run again.
\<close>

section \<open>Helpers\<close>

text \<open>\<^verbatim>\<open>_require_status\<close>\<close>

definition require_status :: "goal \<Rightarrow> goal_status list \<Rightarrow> unit result" where
  "require_status g statuses = require (g_status g \<in> set statuses) InvalidGoalTransitionError"

definition satisfied_ids :: "goal_step list \<Rightarrow> string set" where
  "satisfied_ids steps = gs_id ` {s \<in> set steps. gs_status s \<in> {GCompleted, GSkipped}}"

definition refreshed_step :: "string set \<Rightarrow> goal_step \<Rightarrow> goal_step result" where
  "refreshed_step satisfied s =
     (if gs_status s \<in> {GPending, GReady}
      then make_step (s\<lparr>gs_status := if set (gs_depends s) \<subseteq> satisfied then GReady else GPending\<rparr>)
      else Inr s)"

text \<open>\<^verbatim>\<open>_refresh_ready_steps\<close>\<close>

definition refresh_ready_steps :: "goal_step list \<Rightarrow> goal_step list result" where
  "refresh_ready_steps steps = map_result (refreshed_step (satisfied_ids steps)) steps"

definition find_step :: "goal_step list \<Rightarrow> string \<Rightarrow> goal_step result" where
  "find_step steps i = row_or KeyError (find (\<lambda>s. gs_id s = i) steps)"

definition replace_step :: "goal_step list \<Rightarrow> goal_step \<Rightarrow> goal_step list" where
  "replace_step steps new = map (\<lambda>s. if gs_id s = gs_id new then new else s) steps"

definition step_is_approved :: "goal \<Rightarrow> string \<Rightarrow> bool" where
  "step_is_approved g i = (\<exists>a\<in>set (g_approvals g). ga_scope a = ''step'' \<and> ga_step a = Some i)"

section \<open>Goal transitions\<close>

definition approve_goal :: "goal_approval \<Rightarrow> int \<Rightarrow> goal \<Rightarrow> goal result" where
  "approve_goal a now g =
     and_then (require_status g [GoalDraft]) (\<lambda>_.
     and_then (require (ga_scope a = ''goal'') InvalidGoalTransitionError) (\<lambda>_.
       make_goal (g\<lparr>g_status := GoalApproved, g_approvals := g_approvals g @ [a],
                    g_approved := Some now, g_cancel := False, g_error := None\<rparr>)))"

definition start_goal :: "int \<Rightarrow> goal \<Rightarrow> goal result" where
  "start_goal now g =
     and_then (require_status g [GoalApproved, GoalPaused, GoalBlocked]) (\<lambda>_.
     and_then (require (\<not> g_cancel g) InvalidGoalTransitionError) (\<lambda>_.
     and_then (refresh_ready_steps (g_steps g)) (\<lambda>steps.
     and_then (require (\<exists>s\<in>set steps. gs_status s \<in> {GReady, GRunning}) InvalidGoalTransitionError) (\<lambda>_.
       make_goal (g\<lparr>g_status := GoalRunning, g_steps := steps,
                    g_started := Some (case g_started g of None \<Rightarrow> now | Some t \<Rightarrow> t),
                    g_error := None\<rparr>)))))"

definition pause_goal :: "goal \<Rightarrow> goal result" where
  "pause_goal g =
     and_then (require_status g [GoalRunning, GoalBlocked]) (\<lambda>_.
       make_goal (g\<lparr>g_status := GoalPaused\<rparr>))"

definition resume_goal :: "int \<Rightarrow> goal \<Rightarrow> goal result" where
  "resume_goal now g =
     and_then (require_status g [GoalPaused, GoalBlocked]) (\<lambda>_. start_goal now g)"

definition steer_goal :: "goal_steering \<Rightarrow> goal \<Rightarrow> goal result" where
  "steer_goal t g =
     and_then (require (\<not> terminal_goal g) InvalidGoalTransitionError) (\<lambda>_.
     and_then (require (set (gt_supersedes t) \<subseteq> gt_id ` set (active_steering g))
                 InvalidGoalTransitionError) (\<lambda>_.
       make_goal (g\<lparr>g_steering := g_steering g @ [t]\<rparr>)))"

definition request_goal_cancellation :: "goal \<Rightarrow> goal result" where
  "request_goal_cancellation g =
     (if terminal_goal g
      then if g_status g = GoalCancelled then Inr g else Inl InvalidGoalTransitionError
      else make_goal (g\<lparr>g_cancel := True\<rparr>))"

definition fulfill_steering :: "string \<Rightarrow> string list \<Rightarrow> goal \<Rightarrow> goal result" where
  "fulfill_steering i evidence g =
     and_then (require (\<not> terminal_goal g) InvalidGoalTransitionError) (\<lambda>_.
     and_then (require (i \<in> gt_id ` set (g_steering g)) InvalidGoalTransitionError) (\<lambda>_.
     and_then (require (evidence \<noteq> [] \<and> set evidence \<subseteq> ge_id ` set (g_evidence g))
                 InvalidGoalTransitionError) (\<lambda>_.
     (let known = (case map_of (g_fulfilled g) i of None \<Rightarrow> [] | Some refs \<Rightarrow> refs) in
       make_goal (g\<lparr>g_fulfilled := assoc_set i (fromkeys (known @ evidence)) (g_fulfilled g)\<rparr>)))))"

definition interrupted_reason :: string where
  "interrupted_reason = ''Cancellation interrupted an active action; outcome is uncertain.''"

definition interrupted_step :: "goal_step \<Rightarrow> goal_step result" where
  "interrupted_step s =
     make_step (s\<lparr>gs_status := if gs_status s = GRunning then GUncertain else gs_status s,
                  gs_blocked := if gs_status s = GRunning then Some interrupted_reason
                                else gs_blocked s\<rparr>)"

definition cancel_goal :: "int \<Rightarrow> goal \<Rightarrow> goal result" where
  "cancel_goal now g =
     and_then (require (g_status g \<noteq> GoalCompleted) InvalidGoalTransitionError) (\<lambda>_.
     if g_status g = GoalCancelled then Inr g
     else and_then (map_result interrupted_step (g_steps g)) (\<lambda>steps.
       make_goal (g\<lparr>g_status := GoalCancelled, g_steps := steps, g_cancel := True,
                    g_completed := Some now\<rparr>)))"

definition fail_goal :: "string \<Rightarrow> int \<Rightarrow> goal \<Rightarrow> goal result" where
  "fail_goal reason now g =
     and_then (require (\<not> terminal_goal g) InvalidGoalTransitionError) (\<lambda>_.
     (let clean = strip reason in
     and_then (require (clean \<noteq> []) ValueError) (\<lambda>_.
       make_goal (g\<lparr>g_status := GoalFailed, g_error := Some clean, g_completed := Some now\<rparr>))))"

definition complete_goal :: "int \<Rightarrow> goal \<Rightarrow> goal result" where
  "complete_goal now g =
     and_then (require_status g [GoalRunning, GoalBlocked]) (\<lambda>_.
     and_then (require (\<forall>s\<in>set (g_steps g). gs_status s \<in> {GCompleted, GSkipped})
                 InvalidGoalTransitionError) (\<lambda>_.
     and_then (require (missing_ids g = []) InvalidGoalTransitionError) (\<lambda>_.
       make_goal (g\<lparr>g_status := GoalCompleted, g_completed := Some now, g_cancel := False,
                    g_error := None\<rparr>))))"

section \<open>Step transitions\<close>

definition start_goal_step :: "string \<Rightarrow> int \<Rightarrow> goal \<Rightarrow> goal result" where
  "start_goal_step i now g =
     and_then (require_status g [GoalRunning]) (\<lambda>_.
     and_then (require (\<not> g_cancel g) InvalidGoalTransitionError) (\<lambda>_.
     and_then (require (\<not> (\<exists>s\<in>set (g_steps g). gs_status s = GRunning)) InvalidGoalTransitionError) (\<lambda>_.
     and_then (refresh_ready_steps (g_steps g)) (\<lambda>steps.
     and_then (find_step steps i) (\<lambda>s.
     and_then (require (gs_status s = GReady) InvalidGoalTransitionError) (\<lambda>_.
     and_then (require (\<not> (gs_risk s = RiskHigh \<and> \<not> step_is_approved g i)) InvalidGoalTransitionError) (\<lambda>_.
     and_then (make_step (s\<lparr>gs_status := GRunning, gs_attempt := gs_attempt s + 1,
                            gs_started := Some now, gs_completed := None, gs_blocked := None\<rparr>)) (\<lambda>new.
       make_goal (g\<lparr>g_steps := replace_step steps new\<rparr>)))))))))"

definition record_evidence :: "goal_evidence \<Rightarrow> goal \<Rightarrow> goal result" where
  "record_evidence e g =
     and_then (require (\<not> terminal_goal g) InvalidGoalTransitionError) (\<lambda>_.
     if ge_id e \<in> ge_id ` set (g_evidence g) then Inr g
     else (case ge_step e of
        None \<Rightarrow> make_goal (g\<lparr>g_evidence := g_evidence g @ [e]\<rparr>)
      | Some i \<Rightarrow>
          and_then (find_step (g_steps g) i) (\<lambda>s.
          and_then (make_step (s\<lparr>gs_evidence := gs_evidence s @ [ge_id e]\<rparr>)) (\<lambda>new.
            make_goal (g\<lparr>g_evidence := g_evidence g @ [e],
                         g_steps := replace_step (g_steps g) new\<rparr>)))))"

definition complete_goal_step :: "string \<Rightarrow> int \<Rightarrow> goal \<Rightarrow> goal result" where
  "complete_goal_step i now g =
     and_then (require_status g [GoalRunning]) (\<lambda>_.
     and_then (find_step (g_steps g) i) (\<lambda>s.
     and_then (require (gs_status s = GRunning) InvalidGoalTransitionError) (\<lambda>_.
     and_then (require (set (gs_criteria s) \<subseteq> evidenced_ids g) InvalidGoalTransitionError) (\<lambda>_.
     and_then (make_step (s\<lparr>gs_status := GCompleted, gs_completed := Some now, gs_blocked := None\<rparr>)) (\<lambda>new.
     and_then (refresh_ready_steps (replace_step (g_steps g) new)) (\<lambda>steps.
       make_goal (g\<lparr>g_steps := steps\<rparr>)))))))"

definition block_step :: "string \<Rightarrow> string \<Rightarrow> goal \<Rightarrow> goal result" where
  "block_step i reason g =
     and_then (require_status g [GoalRunning]) (\<lambda>_.
     (let clean = strip reason in
     and_then (require (clean \<noteq> []) ValueError) (\<lambda>_.
     and_then (find_step (g_steps g) i) (\<lambda>s.
     and_then (require (gs_status s \<in> {GRunning, GReady}) InvalidGoalTransitionError) (\<lambda>_.
     and_then (make_step (s\<lparr>gs_status := GBlocked, gs_blocked := Some clean\<rparr>)) (\<lambda>new.
       make_goal (g\<lparr>g_status := GoalBlocked, g_steps := replace_step (g_steps g) new,
                    g_error := Some clean\<rparr>)))))))"

definition retry_step :: "string \<Rightarrow> goal \<Rightarrow> goal result" where
  "retry_step i g =
     and_then (require_status g [GoalBlocked, GoalRunning]) (\<lambda>_.
     and_then (find_step (g_steps g) i) (\<lambda>s.
     and_then (require (gs_status s \<in> {GBlocked, GFailed, GUncertain}) InvalidGoalTransitionError) (\<lambda>_.
     and_then (require (gs_attempt s < gs_max s) InvalidGoalTransitionError) (\<lambda>_.
     and_then (make_step (s\<lparr>gs_status := GPending, gs_blocked := None, gs_completed := None\<rparr>)) (\<lambda>new.
     and_then (refresh_ready_steps (replace_step (g_steps g) new)) (\<lambda>steps.
       make_goal (g\<lparr>g_status := GoalRunning, g_steps := steps, g_error := None\<rparr>)))))))"

definition skip_step :: "string \<Rightarrow> string \<Rightarrow> goal_approval \<Rightarrow> int \<Rightarrow> goal \<Rightarrow> goal result" where
  "skip_step i reason a now g =
     and_then (require (\<not> terminal_goal g) InvalidGoalTransitionError) (\<lambda>_.
     and_then (require (ga_scope a = ''skip'' \<and> ga_step a = Some i) InvalidGoalTransitionError) (\<lambda>_.
     (let clean = strip reason in
     and_then (require (clean \<noteq> []) ValueError) (\<lambda>_.
     and_then (find_step (g_steps g) i) (\<lambda>s.
     and_then (require (gs_status s \<notin> {GCompleted, GSkipped, GRunning}) InvalidGoalTransitionError) (\<lambda>_.
     and_then (make_step (s\<lparr>gs_status := GSkipped, gs_skip := Some clean, gs_completed := Some now\<rparr>)) (\<lambda>new.
     and_then (refresh_ready_steps (replace_step (g_steps g) new)) (\<lambda>steps.
       make_goal (g\<lparr>g_steps := steps, g_approvals := g_approvals g @ [a],
                    g_status := if g_status g \<in> {GoalRunning, GoalBlocked} then GoalRunning else g_status g,
                    g_error := None\<rparr>)))))))))"

definition approve_step :: "goal_approval \<Rightarrow> goal \<Rightarrow> goal result" where
  "approve_step a g =
     and_then (require (ga_scope a = ''step'' \<and> ga_step a \<noteq> None) InvalidGoalTransitionError) (\<lambda>_.
     and_then (require (\<not> terminal_goal g) InvalidGoalTransitionError) (\<lambda>_.
     and_then (find_step (g_steps g) (the (ga_step a))) (\<lambda>_.
       make_goal (g\<lparr>g_approvals := g_approvals g @ [a]\<rparr>))))"

definition restart_reason :: string where
  "restart_reason = ''Action outcome is uncertain after restart.''"

definition mark_step_uncertain :: "string \<Rightarrow> string \<Rightarrow> goal \<Rightarrow> goal result" where
  "mark_step_uncertain i reason g =
     and_then (find_step (g_steps g) i) (\<lambda>s.
     if gs_status s \<noteq> GRunning then Inr g
     else and_then (make_step (s\<lparr>gs_status := GUncertain,
              gs_blocked := Some (if strip reason = [] then restart_reason else strip reason)\<rparr>)) (\<lambda>new.
       make_goal (g\<lparr>g_status := GoalBlocked, g_steps := replace_step (g_steps g) new,
                    g_error := gs_blocked new\<rparr>)))"

text \<open>
  \<^verbatim>\<open>GoalService.update_budget\<close>: the mutation it applies, for what the store knows of the last
  execution (whether its budget ran out, and its step).
\<close>

definition reopened_step :: "bool \<Rightarrow> string option \<Rightarrow> goal_step \<Rightarrow> goal_step result" where
  "reopened_step exhausted latest s =
     (if exhausted \<and> gs_status s = GBlocked \<and> latest = Some (gs_id s)
      then make_step (s\<lparr>gs_status := GRunning, gs_blocked := None\<rparr>) else Inr s)"

text \<open>Python's equality of two budgets: decimals compare by value.\<close>

definition same_cost :: "exact_cost \<Rightarrow> exact_cost \<Rightarrow> bool" where
  "same_cost a b =
     (map_option dec_value (xc_amount a) = map_option dec_value (xc_amount b)
      \<and> a\<lparr>xc_amount := None\<rparr> = b\<lparr>xc_amount := None\<rparr>)"

definition same_budget :: "run_budget \<Rightarrow> run_budget \<Rightarrow> bool" where
  "same_budget a b =
     (a\<lparr>b_cost := None\<rparr> = b\<lparr>b_cost := None\<rparr>
      \<and> (case (b_cost a, b_cost b) of
           (None, None) \<Rightarrow> True | (Some c, Some d) \<Rightarrow> same_cost c d | _ \<Rightarrow> False))"

definition update_goal_budget :: "bool \<Rightarrow> string option \<Rightarrow> run_budget \<Rightarrow> goal \<Rightarrow> goal result" where
  "update_goal_budget exhausted latest budget g =
     and_then (require (\<not> terminal_goal g) ValueError) (\<lambda>_.
     and_then (make_budget (budget\<lparr>b_scope := ScGoal\<rparr>)) (\<lambda>normalized.
     if same_budget normalized (g_budget g) then Inr g
     else and_then (map_result (reopened_step exhausted latest) (g_steps g)) (\<lambda>steps.
       make_goal (g\<lparr>g_budget := normalized, g_steps := steps,
                    g_status := if exhausted \<or> g_status g = GoalRunning then GoalPaused else g_status g,
                    g_error := if exhausted then None else g_error g\<rparr>))))"

text \<open>\<^verbatim>\<open>GoalService.link_resource\<close>: a resource id joins one of the five lists, once.\<close>

datatype resource_kind = LinkChild | LinkSchedule | LinkProcess | LinkTrace | LinkArtifact

fun linked_ids :: "resource_kind \<Rightarrow> goal \<Rightarrow> string list" where
  "linked_ids LinkChild g = g_children g"
| "linked_ids LinkSchedule g = g_schedules g"
| "linked_ids LinkProcess g = g_processes g"
| "linked_ids LinkTrace g = g_traces g"
| "linked_ids LinkArtifact g = g_artifacts g"

fun with_linked :: "resource_kind \<Rightarrow> string list \<Rightarrow> goal \<Rightarrow> goal" where
  "with_linked LinkChild ids g = g\<lparr>g_children := ids\<rparr>"
| "with_linked LinkSchedule ids g = g\<lparr>g_schedules := ids\<rparr>"
| "with_linked LinkProcess ids g = g\<lparr>g_processes := ids\<rparr>"
| "with_linked LinkTrace ids g = g\<lparr>g_traces := ids\<rparr>"
| "with_linked LinkArtifact ids g = g\<lparr>g_artifacts := ids\<rparr>"

definition link_resource :: "resource_kind \<Rightarrow> string \<Rightarrow> goal \<Rightarrow> goal result" where
  "link_resource kind i g =
     (let clean = strip i in
     and_then (require (clean \<noteq> []) ValueError) (\<lambda>_.
       if clean \<in> set (linked_ids kind g) then Inr g
       else make_goal (with_linked kind (linked_ids kind g @ [clean]) g)))"

section \<open>Calls\<close>

text \<open>
  What \<^verbatim>\<open>GoalStore.recover_expired\<close> makes of a goal whose lease ended: every running step
  becomes uncertain; a goal with no running step is blocked.
\<close>

definition lease_expired_reason :: string where
  "lease_expired_reason =
     ''Runner lease expired after action intent was persisted; operator review is required before retry.''"

definition lease_lost_error :: string where
  "lease_lost_error = ''Runner lease expired before completion.''"

fun mark_all_uncertain :: "string list \<Rightarrow> goal \<Rightarrow> goal result" where
  "mark_all_uncertain [] g = Inr g"
| "mark_all_uncertain (i # is) g =
     and_then (mark_step_uncertain i lease_expired_reason g) (mark_all_uncertain is)"

definition recovered_goal :: "goal \<Rightarrow> goal result" where
  "recovered_goal g =
     (let active = map gs_id (filter (\<lambda>s. gs_status s = GRunning) (g_steps g)) in
      if active = [] then make_goal (g\<lparr>g_status := GoalBlocked, g_error := Some lease_lost_error\<rparr>)
      else mark_all_uncertain active g)"

text \<open>
  The mutations of a stored goal: the transitions, the revision and update time the store
  assigns, and the recovery of a goal whose lease ended, which the store's query restricts to
  running and paused goals.
\<close>

datatype goal_call =
    ApproveGoal goal_approval int | StartGoal int | PauseGoal | ResumeGoal int
  | SteerGoal goal_steering | RequestCancel | FulfillSteering string "string list"
  | CancelGoal int | FailGoal string int | CompleteGoal int
  | StartGoalStep string int | RecordEvidence goal_evidence | CompleteGoalStep string int
  | BlockStep string string | RetryStep string | SkipStep string string goal_approval int
  | ApproveStep goal_approval | MarkUncertain string string
  | UpdateBudget bool "string option" run_budget | LinkResource resource_kind string
  | Revise int int | LoseLease

fun exec_goal :: "goal_call \<Rightarrow> goal \<Rightarrow> goal result" where
  "exec_goal (ApproveGoal a now) g = approve_goal a now g"
| "exec_goal (StartGoal now) g = start_goal now g"
| "exec_goal PauseGoal g = pause_goal g"
| "exec_goal (ResumeGoal now) g = resume_goal now g"
| "exec_goal (SteerGoal t) g = steer_goal t g"
| "exec_goal RequestCancel g = request_goal_cancellation g"
| "exec_goal (FulfillSteering i es) g = fulfill_steering i es g"
| "exec_goal (CancelGoal now) g = cancel_goal now g"
| "exec_goal (FailGoal reason now) g = fail_goal reason now g"
| "exec_goal (CompleteGoal now) g = complete_goal now g"
| "exec_goal (StartGoalStep i now) g = start_goal_step i now g"
| "exec_goal (RecordEvidence e) g = record_evidence e g"
| "exec_goal (CompleteGoalStep i now) g = complete_goal_step i now g"
| "exec_goal (BlockStep i reason) g = block_step i reason g"
| "exec_goal (RetryStep i) g = retry_step i g"
| "exec_goal (SkipStep i reason a now) g = skip_step i reason a now g"
| "exec_goal (ApproveStep a) g = approve_step a g"
| "exec_goal (MarkUncertain i reason) g = mark_step_uncertain i reason g"
| "exec_goal (UpdateBudget exhausted latest b) g = update_goal_budget exhausted latest b g"
| "exec_goal (LinkResource kind i) g = link_resource kind i g"
| "exec_goal (Revise revision now) g = with_revision g revision now"
| "exec_goal LoseLease g = and_then (require_status g [GoalRunning, GoalPaused]) (\<lambda>_. recovered_goal g)"

text \<open>A history of calls: one that raises leaves the goal as it was.\<close>

definition goal_after :: "goal_call \<Rightarrow> goal \<Rightarrow> goal" where
  "goal_after c g = (case exec_goal c g of Inl e \<Rightarrow> g | Inr h \<Rightarrow> h)"

definition goal_history :: "goal_call list \<Rightarrow> goal \<Rightarrow> goal" where
  "goal_history cs g = fold goal_after cs g"

end
