(* ===== verification/GoalGraph.thy ===== *)
theory GoalGraph
  imports GoalModels
begin

text \<open>
  The dependency check of goals.  The search of \<^verbatim>\<open>_reject_cycles\<close> always returns, accepts
  exactly the acyclic graphs, and the order in which it finishes the steps is a schedule:
  every step comes after the steps it depends on.
\<close>

section \<open>What the search leaves visited\<close>

text \<open>In \<open>ordered_by deps xs\<close> the dependencies of every id come later in \<open>xs\<close>.\<close>

fun ordered_by :: "(string \<times> string list) list \<Rightarrow> string list \<Rightarrow> bool" where
  "ordered_by deps [] = True"
| "ordered_by deps (x # xs) =
     (x \<notin> set xs \<and> (case map_of deps x of None \<Rightarrow> False | Some ds \<Rightarrow> set ds \<subseteq> set xs)
      \<and> ordered_by deps xs)"

lemma visit_visits:
  "visit deps visiting visited ss = Inr out \<Longrightarrow> set visited \<union> set ss \<subseteq> set out"
proof (induction deps visiting visited ss arbitrary: out rule: visit.induct)
  case (2 deps visiting visited s ss)
  show ?case
  proof (cases "s \<in> set visited")
    case True
    then show ?thesis using 2 by auto
  next
    case False
    with "2.prems" obtain ds out' where s: "s \<notin> set visiting" "map_of deps s = Some ds"
      and 1: "visit deps (s # visiting) visited ds = Inr out'"
      and rest: "visit deps visiting (s # out') ss = Inr out"
      by (auto split: if_splits option.splits sum.splits)
    show ?thesis using "2.IH"(2) [OF False s 1] "2.IH"(3) [OF False s 1 rest] by auto
  qed
qed simp

lemma visit_avoids_path:
  "visit deps visiting visited ss = Inr out \<Longrightarrow> set visited \<inter> set visiting = {}
   \<Longrightarrow> set out \<inter> set visiting = {}"
proof (induction deps visiting visited ss arbitrary: out rule: visit.induct)
  case (2 deps visiting visited s ss)
  show ?case
  proof (cases "s \<in> set visited")
    case True
    then show ?thesis using 2 by simp
  next
    case False
    with "2.prems"(1) obtain ds out' where s: "s \<notin> set visiting" "map_of deps s = Some ds"
      and 1: "visit deps (s # visiting) visited ds = Inr out'"
      and rest: "visit deps visiting (s # out') ss = Inr out"
      by (auto split: if_splits option.splits sum.splits)
    have "set out' \<inter> set (s # visiting) = {}"
      using "2.IH"(2) [OF False s 1] "2.prems"(2) False by auto
    then have "set (s # out') \<inter> set visiting = {}" using s(1) by auto
    then show ?thesis using "2.IH"(3) [OF False s 1 rest] by simp
  qed
qed simp

lemma visit_ordered:
  "visit deps visiting visited ss = Inr out \<Longrightarrow> ordered_by deps visited
   \<Longrightarrow> set visited \<inter> set visiting = {} \<Longrightarrow> ordered_by deps out"
proof (induction deps visiting visited ss arbitrary: out rule: visit.induct)
  case (2 deps visiting visited s ss)
  show ?case
  proof (cases "s \<in> set visited")
    case True
    then show ?thesis using 2 by simp
  next
    case False
    with "2.prems"(1) obtain ds out' where s: "s \<notin> set visiting" "map_of deps s = Some ds"
      and 1: "visit deps (s # visiting) visited ds = Inr out'"
      and rest: "visit deps visiting (s # out') ss = Inr out"
      by (auto split: if_splits option.splits sum.splits)
    have apart: "set visited \<inter> set (s # visiting) = {}" using "2.prems"(3) False by auto
    have ord: "ordered_by deps out'" by (rule "2.IH"(2) [OF False s 1 "2.prems"(2) apart])
    have out': "set out' \<inter> set (s # visiting) = {}" by (rule visit_avoids_path [OF 1 apart])
    have "set ds \<subseteq> set out'" using visit_visits [OF 1] by simp
    then have "ordered_by deps (s # out')" using ord s(2) out' by simp
    moreover have "set (s # out') \<inter> set visiting = {}" using out' s(1) by auto
    ultimately show ?thesis using "2.IH"(3) [OF False s 1 rest] by simp
  qed
qed simp

section \<open>The search raises only on a cycle\<close>

definition dep_edges :: "(string \<times> string list) list \<Rightarrow> (string \<times> string) set" where
  "dep_edges deps = {(d, s). \<exists>ds. map_of deps s = Some ds \<and> d \<in> set ds}"

text \<open>The path of the search: every id is a dependency of the one below it.\<close>

fun on_path :: "(string \<times> string) set \<Rightarrow> string list \<Rightarrow> bool" where
  "on_path E (x # y # xs) = ((x, y) \<in> E \<and> on_path E (y # xs))"
| "on_path E xs = True"

lemma on_path_reaches: "on_path E (x # xs) \<Longrightarrow> y \<in> set xs \<Longrightarrow> (x, y) \<in> E\<^sup>+"
proof (induction xs arbitrary: x)
  case (Cons z zs)
  then have xz: "(x, z) \<in> E" and "on_path E (z # zs)" by simp_all
  show ?case
  proof (cases "y = z")
    case True
    with xz show ?thesis by auto
  next
    case False
    with Cons \<open>on_path E (z # zs)\<close> have "(z, y) \<in> E\<^sup>+" by simp
    with xz show ?thesis by (rule trancl_into_trancl2)
  qed
qed simp

lemma visit_raises:
  assumes "visit deps visiting visited ss = Inl e"
    and "on_path (dep_edges deps) visiting"
    and "visiting = [] \<or> (\<forall>s\<in>set ss. (s, hd visiting) \<in> dep_edges deps)"
    and "\<forall>s\<in>set ss. map_of deps s \<noteq> None"
    and "\<forall>s ds. map_of deps s = Some ds \<longrightarrow> (\<forall>d\<in>set ds. map_of deps d \<noteq> None)"
  shows "e = ValueError \<and> \<not> acyclic (dep_edges deps)"
  using assms
proof (induction deps visiting visited ss rule: visit.induct)
  case (2 deps visiting visited s ss)
  let ?E = "dep_edges deps"
  have path: "on_path ?E (s # visiting)"
    using "2.prems"(2,3) by (cases visiting) auto
  show ?case
  proof (cases "s \<in> set visited")
    case True
    then show ?thesis using 2 by auto
  next
    case False
    show ?thesis
    proof (cases "s \<in> set visiting")
      case True
      then have "(s, s) \<in> ?E\<^sup>+" using on_path_reaches [OF path] by simp
      then have "\<not> acyclic ?E" by (auto simp: acyclic_def)
      then show ?thesis using True False "2.prems"(1) by simp
    next
      case new: False
      from "2.prems"(4) obtain ds where ds: "map_of deps s = Some ds" by auto
      have below: "\<forall>d\<in>set ds. (d, s) \<in> ?E" using ds by (auto simp: dep_edges_def)
      have known: "\<forall>d\<in>set ds. map_of deps d \<noteq> None" using ds "2.prems"(5) by blast
      show ?thesis
      proof (cases "visit deps (s # visiting) visited ds")
        case (Inl e')
        then have "e = e'" using "2.prems"(1) False new ds by simp
        then show ?thesis using "2.IH"(2) [OF False new ds] Inl path below known "2.prems"(5) by auto
      next
        case (Inr out)
        then have "visit deps visiting (s # out) ss = Inl e" using "2.prems"(1) False new ds by simp
        then show ?thesis using "2.IH"(3) [OF False new ds Inr] "2.prems"(2-5) by auto
      qed
    qed
  qed
qed simp

section \<open>Schedules and acyclicity\<close>

lemma ordered_no_edge_back:
  assumes "ordered_by deps xs" and "(d, s) \<in> (dep_edges deps)\<^sup>+" and "s \<in> set xs"
  shows "\<exists>ys zs. xs = ys @ s # zs \<and> d \<in> set zs"
  using assms(2,1,3)
proof (induction arbitrary: xs rule: trancl_induct)
  case (base s)
  then obtain ys zs where xs: "xs = ys @ s # zs" by (meson split_list)
  have "ordered_by deps (s # zs)" using base.prems(1) unfolding xs by (induction ys) auto
  then have "d \<in> set zs" using base.hyps by (auto simp: dep_edges_def)
  with xs show ?case by blast
next
  case (step m s)
  from step.prems obtain ys zs where xs: "xs = ys @ s # zs" by (meson split_list)
  have ord: "ordered_by deps (s # zs)" using step.prems(1) unfolding xs by (induction ys) auto
  then have "m \<in> set zs" using step.hyps(2) by (auto simp: dep_edges_def)
  with step.IH [of zs] ord have "d \<in> set zs" by auto
  with xs show ?case by blast
qed

lemma ordered_distinct: "ordered_by deps xs \<Longrightarrow> distinct xs"
  by (induction xs) auto

lemma ordered_acyclic:
  assumes "ordered_by deps xs" and "fst ` set deps \<subseteq> set xs"
  shows "acyclic (dep_edges deps)"
proof (rule acyclicI, rule allI, rule notI)
  fix s assume cycle: "(s, s) \<in> (dep_edges deps)\<^sup>+"
  then obtain d where "(d, s) \<in> dep_edges deps" by (meson tranclE)
  then have "s \<in> fst ` set deps"
    by (auto simp: dep_edges_def) (metis map_of_eq_None_iff option.distinct(1))
  with assms(2) have "s \<in> set xs" by auto
  with ordered_no_edge_back [OF assms(1) cycle] obtain ys zs where "xs = ys @ s # zs" "s \<in> set zs" by auto
  with ordered_distinct [OF assms(1)] show False by simp
qed

section \<open>The check of a list of steps\<close>

definition depends_on :: "goal_step list \<Rightarrow> (string \<times> string) set" where
  "depends_on steps = {(d, gs_id s) | d s. s \<in> set steps \<and> d \<in> set (gs_depends s)}"

lemma map_of_step_deps:
  "distinct (map gs_id steps) \<Longrightarrow>
   map_of (step_deps steps) i = Some ds \<longleftrightarrow> (\<exists>s\<in>set steps. gs_id s = i \<and> gs_depends s = ds)"
proof -
  assume d: "distinct (map gs_id steps)"
  then have "distinct (map fst (step_deps steps))" by simp
  then show ?thesis by (auto simp: map_of_eq_Some_iff step_deps_def)
qed

lemma dep_edges_steps: "distinct (map gs_id steps) \<Longrightarrow> dep_edges (step_deps steps) = depends_on steps"
  by (auto simp: dep_edges_def depends_on_def) (auto simp: step_deps_def)

lemma known_step_deps: "map_of (step_deps steps) i \<noteq> None \<longleftrightarrow> i \<in> gs_id ` set steps"
  by (auto simp: step_deps_def map_of_eq_None_iff image_iff)

lemma reject_cycles_order:
  assumes "reject_cycles steps = Inr u"
  obtains xs where "ordered_by (step_deps steps) xs" "gs_id ` set steps \<subseteq> set xs"
proof -
  from assms obtain out where out: "visit (step_deps steps) [] [] (map gs_id steps) = Inr out"
    by (auto simp: reject_cycles_def Let_def result_simps)
  show thesis
    using that [of out] visit_ordered [OF out] visit_visits [OF out] by simp
qed

lemma reject_cycles_acyclic:
  assumes "distinct (map gs_id steps)" and "\<forall>s\<in>set steps. set (gs_depends s) \<subseteq> gs_id ` set steps"
  shows "reject_cycles steps = (if acyclic (depends_on steps) then Inr () else Inl ValueError)"
proof (cases "visit (step_deps steps) [] [] (map gs_id steps)")
  case (Inl e)
  have "\<forall>s ds. map_of (step_deps steps) s = Some ds \<longrightarrow> (\<forall>d\<in>set ds. map_of (step_deps steps) d \<noteq> None)"
    using assms(2) unfolding known_step_deps by (auto simp: map_of_step_deps [OF assms(1)])
  moreover have "\<forall>s\<in>set (map gs_id steps). map_of (step_deps steps) s \<noteq> None"
    unfolding known_step_deps by simp
  ultimately have "e = ValueError \<and> \<not> acyclic (dep_edges (step_deps steps))"
    using visit_raises [OF Inl] by simp
  with Inl show ?thesis
    by (simp add: dep_edges_steps [OF assms(1)] reject_cycles_def Let_def)
next
  case (Inr out)
  then have "reject_cycles steps = Inr ()"
    by (simp add: reject_cycles_def Let_def)
  moreover have "acyclic (dep_edges (step_deps steps))"
  proof (rule ordered_acyclic)
    show "ordered_by (step_deps steps) out" using visit_ordered [OF Inr] by simp
    show "fst ` set (step_deps steps) \<subseteq> set out"
      using visit_visits [OF Inr] by (force simp: step_deps_def)
  qed
  ultimately show ?thesis by (simp add: dep_edges_steps [OF assms(1)])
qed

text \<open>Some open step has all its dependencies satisfied.\<close>

lemma ordered_first_open:
  assumes "ordered_by deps xs" and "x \<in> set xs" and "x \<notin> done_ids"
  shows "\<exists>y ds. y \<in> set xs \<and> y \<notin> done_ids \<and> map_of deps y = Some ds \<and> set ds \<subseteq> done_ids"
  using assms
proof (induction xs arbitrary: x)
  case (Cons z zs)
  show ?case
  proof (cases "set zs \<subseteq> done_ids")
    case True
    with Cons.prems have "x = z" by auto
    with True Cons.prems show ?thesis by (fastforce split: option.splits)
  next
    case False
    then obtain y where "y \<in> set zs" "y \<notin> done_ids" by auto
    with Cons.IH [of y] Cons.prems show ?thesis by auto
  qed
qed simp

end
