(* ===== verification/GoalFacts.thy ===== *)
theory GoalFacts
  imports GoalTransitions GoalGraph
begin

text \<open>
  What the constructors of steps and goals guarantee, and how rebuilding a well-formed record
  with changed fields behaves: the automation the proofs about transitions share.
\<close>

named_theorems goal_simps \<open>fields of rebuilt steps and goals\<close>

section \<open>Well-formed steps\<close>

definition step_ok :: "goal_step \<Rightarrow> bool" where
  "step_ok s \<longleftrightarrow>
     clean_goal_text (gs_id s) \<and> clean_goal_text (gs_title s) \<and> clean_goal_text (gs_description s) \<and>
     clean_id_list (gs_criteria s) \<and> gs_criteria s \<noteq> [] \<and> clean_id_list (gs_depends s) \<and>
     clean_id_list (gs_tools s) \<and> 0 \<le> gs_attempt s \<and> 1 \<le> gs_max s \<and> gs_attempt s \<le> gs_max s \<and>
     clean_id_list (gs_evidence s) \<and> goal_text_opt (gs_blocked s) = gs_blocked s \<and>
     goal_text_opt (gs_skip s) = gs_skip s"

lemma make_step_ok: "make_step s = Inr t \<Longrightarrow> step_ok t"
  by (auto simp: make_step_def result_simps step_ok_def clean_goal_text_def
      dest!: unique_required_Inr unique_optional_Inr)

lemma make_step_id: "step_ok s \<Longrightarrow> make_step s = Inr s"
  by (cases s) (simp add: make_step_def step_ok_def unique_required_clean unique_optional_clean)

lemma make_step_iff: "make_step s = Inr s \<longleftrightarrow> step_ok s"
  using make_step_ok make_step_id by blast

lemma make_step_fields:
  assumes "make_step s = Inr t"
  shows "gs_status t = gs_status s" "gs_attempt t = gs_attempt s" "gs_max t = gs_max s"
    "gs_risk t = gs_risk s" "gs_started t = gs_started s" "gs_completed t = gs_completed s"
  using assms by (auto simp: make_step_def result_simps)

lemma goal_text_opt_None [simp]: "goal_text_opt None = None"
  by (simp add: goal_text_opt_def)

lemma goal_text_opt_strip [simp]: "strip s \<noteq> [] \<Longrightarrow> goal_text_opt (Some (strip s)) = Some (strip s)"
  by (simp add: goal_text_opt_def)

text \<open>Rebuilding a step changes nothing but what was asked for.\<close>

lemma make_step_status [simp]: "step_ok s \<Longrightarrow> make_step (s\<lparr>gs_status := x\<rparr>) = Inr (s\<lparr>gs_status := x\<rparr>)"
  by (rule make_step_id) (simp add: step_ok_def)

lemma step_ok_status [simp]: "step_ok (s\<lparr>gs_status := x\<rparr>) = step_ok s"
  "step_ok (s\<lparr>gs_completed := t\<rparr>) = step_ok s" "step_ok (s\<lparr>gs_started := t\<rparr>) = step_ok s"
  by (simp_all add: step_ok_def)

lemma step_ok_blocked [simp]:
  "step_ok s \<Longrightarrow> step_ok (s\<lparr>gs_blocked := v\<rparr>) \<longleftrightarrow> goal_text_opt v = v"
  "step_ok s \<Longrightarrow> step_ok (s\<lparr>gs_skip := v\<rparr>) \<longleftrightarrow> goal_text_opt v = v"
  by (simp_all add: step_ok_def)

lemma step_ok_attempt [simp]:
  "step_ok s \<Longrightarrow> step_ok (s\<lparr>gs_attempt := n\<rparr>) \<longleftrightarrow> 0 \<le> n \<and> n \<le> gs_max s"
  by (auto simp: step_ok_def)

section \<open>Refreshing, finding and replacing steps\<close>

definition refreshed :: "string set \<Rightarrow> goal_step \<Rightarrow> goal_step" where
  "refreshed sat s =
     (if gs_status s \<in> {GPending, GReady}
      then s\<lparr>gs_status := if set (gs_depends s) \<subseteq> sat then GReady else GPending\<rparr> else s)"

lemma refreshed_step_ok: "step_ok s \<Longrightarrow> refreshed_step sat s = Inr (refreshed sat s)"
  by (simp add: refreshed_step_def refreshed_def)

lemma refreshed_ok [simp]: "step_ok (refreshed sat s) = step_ok s"
  by (simp add: refreshed_def)

lemma refreshed_fields [simp]:
  "gs_id (refreshed sat s) = gs_id s" "gs_depends (refreshed sat s) = gs_depends s"
  "gs_criteria (refreshed sat s) = gs_criteria s" "gs_risk (refreshed sat s) = gs_risk s"
  "gs_attempt (refreshed sat s) = gs_attempt s" "gs_max (refreshed sat s) = gs_max s"
  "gs_evidence (refreshed sat s) = gs_evidence s"
  by (simp_all add: refreshed_def)

lemma refresh_ready_steps_ok:
  assumes "\<forall>s\<in>set steps. step_ok s"
  shows "refresh_ready_steps steps = Inr (map (refreshed (satisfied_ids steps)) steps)"
  using assms by (auto simp: refresh_ready_steps_def refreshed_step_ok intro!: map_result_Inr)

lemma find_step_Inr: "find_step steps i = Inr s \<Longrightarrow> s \<in> set steps \<and> gs_id s = i"
  by (auto simp: find_step_def result_simps dest!: find_SomeD)

lemma find_step_Inl: "find_step steps i = Inl e \<longleftrightarrow> i \<notin> gs_id ` set steps \<and> e = KeyError"
  by (auto simp: find_step_def result_simps find_None_iff)

lemma same_step:
  "distinct (map gs_id steps) \<Longrightarrow> s \<in> set steps \<Longrightarrow> t \<in> set steps \<Longrightarrow> gs_id s = gs_id t \<Longrightarrow> s = t"
  by (metis distinct_map inj_onD)

lemma map_ids_replace [simp]: "map gs_id (replace_step steps new) = map gs_id steps"
  by (simp add: replace_step_def comp_def)

lemma map_ids_refreshed [simp]: "map gs_id (map (refreshed sat) steps) = map gs_id steps"
  by (simp add: comp_def)

lemma list_all2_replace:
  assumes "distinct (map gs_id steps)" and "s \<in> set steps" and "gs_id new = gs_id s"
    and "R s new" and "\<And>x. x \<in> set steps \<Longrightarrow> gs_id x \<noteq> gs_id s \<Longrightarrow> R x x"
  shows "list_all2 R steps (replace_step steps new)"
proof -
  have "R x (if gs_id x = gs_id new then new else x)" if "x \<in> set steps" for x
    using same_step [OF assms(1) that assms(2)] assms(3-5) that by auto
  then show ?thesis by (auto simp: replace_step_def list_all2_conv_all_nth)
qed

lemma list_all2_map_right: "(\<And>x. x \<in> set xs \<Longrightarrow> R x (f x)) \<Longrightarrow> list_all2 R xs (map f xs)"
  by (auto simp: list_all2_conv_all_nth)

lemma list_all2_then_map:
  "list_all2 R xs ys \<Longrightarrow> (\<And>x y. x \<in> set xs \<Longrightarrow> y \<in> set ys \<Longrightarrow> R x y \<Longrightarrow> S x (f y)) \<Longrightarrow> list_all2 S xs (map f ys)"
  by (auto simp: list_all2_conv_all_nth)

lemma set_replace_step:
  assumes "\<forall>s\<in>set steps. P s" and "P new" shows "\<forall>s\<in>set (replace_step steps new). P s"
  using assms by (auto simp: replace_step_def)

section \<open>Well-formed goals\<close>

definition goal_ok :: "goal \<Rightarrow> bool" where
  "goal_ok g \<longleftrightarrow> make_goal g = Inr g \<and> (\<forall>s\<in>set (g_steps g). step_ok s)"

lemma make_goal_fields:
  assumes "make_goal g = Inr h"
  shows "g_criteria h = g_criteria g" "g_steps h = g_steps g" "g_budget h = g_budget g"
    "g_status h = g_status g" "g_revision h = g_revision g" "g_evidence h = g_evidence g"
    "g_approvals h = g_approvals g" "g_steering h = g_steering g" "g_cancel h = g_cancel g"
    "g_created_at h = g_created_at g" "g_updated h = g_updated g" "g_approved h = g_approved g"
    "g_started h = g_started g" "g_completed h = g_completed g"
    "validate_goal_graph (g_criteria g) (g_steps g) (g_evidence g) = Inr ()"
    "steering_ok {} {} (g_steering g)" "b_scope (g_budget g) = ScGoal" "0 \<le> g_revision g"
    "g_id h = strip (g_id g)" "g_profile h = strip (g_profile g)" "g_title h = strip (g_title g)"
  using assms by (auto simp: make_goal_def result_simps)

lemma freeze_value_idem: "freeze_value (freeze_value v) = freeze_value v"
  by (induction v rule: pyval_induct) auto

lemma freeze_mapping_idem [simp]: "freeze_mapping (freeze_mapping d) = freeze_mapping d"
  by (auto simp: freeze_mapping_def freeze_value_idem)

lemma clean_fulfillment_idem:
  "clean_fulfillment fs = Inr gs \<Longrightarrow> clean_fulfillment gs = Inr gs"
  unfolding clean_fulfillment_def
  by (induction fs arbitrary: gs)
    (auto simp: result_simps unique_required_clean dest!: unique_required_Inr)

lemma make_goal_idem: "make_goal g = Inr h \<Longrightarrow> make_goal h = Inr h"
  unfolding make_goal_def
  by (auto simp: result_simps unique_optional_clean clean_fulfillment_idem option.map_comp comp_def
      dest!: unique_optional_Inr)

lemma make_goal_ok:
  "make_goal g = Inr h \<Longrightarrow> (\<And>s. s \<in> set (g_steps g) \<Longrightarrow> step_ok s) \<Longrightarrow> goal_ok h"
  by (simp add: goal_ok_def make_goal_idem make_goal_fields)

text \<open>The shape of a goal that was constructed, apart from its graph.\<close>

definition goal_clean :: "goal \<Rightarrow> bool" where
  "goal_clean g \<longleftrightarrow>
     clean_goal_text (g_id g) \<and> clean_goal_text (g_profile g) \<and> clean_goal_text (g_title g) \<and>
     (case g_description g of None \<Rightarrow> False | Some d \<Rightarrow> clean_goal_text d) \<and>
     clean_id_list (g_constraints g) \<and> b_scope (g_budget g) = ScGoal \<and> 0 \<le> g_revision g \<and>
     steering_ok {} {} (g_steering g) \<and> clean_id_list (g_children g) \<and> clean_id_list (g_schedules g) \<and>
     clean_id_list (g_processes g) \<and> clean_id_list (g_traces g) \<and> clean_id_list (g_artifacts g) \<and>
     clean_fulfillment (g_fulfilled g) = Inr (g_fulfilled g) \<and>
     fulfillment_ok (g_steering g) (g_evidence g) (g_fulfilled g) \<and>
     goal_text_opt (g_conversation g) = g_conversation g \<and> goal_text_opt (g_turn g) = g_turn g \<and>
     map_option freeze_mapping (g_plan g) = g_plan g \<and> goal_text_opt (g_error g) = g_error g"

lemma make_goal_clean: "make_goal g = Inr h \<Longrightarrow> goal_clean h"
  unfolding make_goal_def goal_clean_def
  by (auto simp: result_simps clean_goal_text_def clean_fulfillment_idem option.map_comp comp_def
      dest!: unique_optional_Inr)

lemma make_goal_id:
  assumes "goal_clean g" and "validate_goal_graph (g_criteria g) (g_steps g) (g_evidence g) = Inr ()"
  shows "make_goal g = Inr g"
  using assms unfolding make_goal_def goal_clean_def
  by (cases g) (auto simp: unique_optional_clean split: option.splits)

lemma validate_goal_graphD:
  assumes "validate_goal_graph criteria steps evidence = Inr u"
  shows "criteria \<noteq> []" "distinct (map gc_id criteria)" "steps \<noteq> []" "distinct (map gs_id steps)"
    "\<And>s. s \<in> set steps \<Longrightarrow> set (gs_criteria s) \<subseteq> gc_id ` set criteria"
    "\<And>s. s \<in> set steps \<Longrightarrow> set (gs_depends s) \<subseteq> gs_id ` set steps - {gs_id s}"
    "reject_cycles steps = Inr ()" "distinct (map ge_id evidence)"
    "\<And>e. e \<in> set evidence \<Longrightarrow> set (ge_criteria e) \<subseteq> gc_id ` set criteria"
    "\<And>s. s \<in> set steps \<Longrightarrow> set (gs_evidence s) \<subseteq> ge_id ` set evidence"
  using assms
  by (auto simp: validate_goal_graph_def Let_def result_simps step_refs_ok_def known_ids_def
      evidence_refs_ok_def)

lemma goal_okD:
  assumes "goal_ok g"
  shows "distinct (map gs_id (g_steps g))" "\<And>s. s \<in> set (g_steps g) \<Longrightarrow> step_ok s"
    "reject_cycles (g_steps g) = Inr ()"
    "\<And>s. s \<in> set (g_steps g) \<Longrightarrow> set (gs_depends s) \<subseteq> gs_id ` set (g_steps g) - {gs_id s}"
    "g_steps g \<noteq> []" "0 \<le> g_revision g" "make_goal g = Inr g"
  using assms validate_goal_graphD [OF make_goal_fields(15) [of g g]] make_goal_fields(18) [of g g]
  by (auto simp: goal_ok_def)

end
