(* ===== verification/GoalMoves.thy ===== *)
theory GoalMoves
  imports GoalFacts
begin

text \<open>
  What one call does to the steps of a goal: the table of step moves, with the guards under
  which a move happens, and the proof that every call follows it.
\<close>

section \<open>The table of step moves\<close>

definition same_core :: "goal_step \<Rightarrow> goal_step \<Rightarrow> bool" where
  "same_core s t \<longleftrightarrow>
     gs_id t = gs_id s \<and> gs_depends t = gs_depends s \<and> gs_criteria t = gs_criteria s \<and>
     gs_risk t = gs_risk s \<and> gs_max t = gs_max s"

abbreviation satisfied :: "goal \<Rightarrow> string set" where
  "satisfied g \<equiv> satisfied_ids (g_steps g)"

inductive step_moved :: "goal_call \<Rightarrow> goal \<Rightarrow> goal \<Rightarrow> goal_step \<Rightarrow> goal_step \<Rightarrow> bool" for c g h where
  kept: "same_core s t \<Longrightarrow> gs_attempt t = gs_attempt s \<Longrightarrow> gs_status t = gs_status s \<Longrightarrow> step_moved c g h s t"
| opened: "same_core s t \<Longrightarrow> gs_attempt t = gs_attempt s \<Longrightarrow> gs_status s \<in> {GPending, GReady} \<Longrightarrow>
     gs_status t \<in> {GPending, GReady} \<Longrightarrow>
     (gs_status t = GReady \<longrightarrow> set (gs_depends s) \<subseteq> satisfied h) \<Longrightarrow> step_moved c g h s t"
| started: "same_core s t \<Longrightarrow> gs_attempt t = gs_attempt s + 1 \<Longrightarrow> gs_status s \<in> {GPending, GReady} \<Longrightarrow>
     gs_status t = GRunning \<Longrightarrow> set (gs_depends s) \<subseteq> satisfied h \<Longrightarrow>
     (gs_risk s = RiskHigh \<longrightarrow> step_is_approved g (gs_id s)) \<Longrightarrow>
     c = StartGoalStep (gs_id s) now \<Longrightarrow> g_status g = GoalRunning \<Longrightarrow> \<not> g_cancel g \<Longrightarrow>
     (\<forall>x\<in>set (g_steps g). gs_status x \<noteq> GRunning) \<Longrightarrow> step_moved c g h s t"
| completed: "same_core s t \<Longrightarrow> gs_attempt t = gs_attempt s \<Longrightarrow> gs_status s = GRunning \<Longrightarrow>
     gs_status t = GCompleted \<Longrightarrow> set (gs_criteria s) \<subseteq> evidenced_ids g \<Longrightarrow>
     c = CompleteGoalStep (gs_id s) now \<Longrightarrow> g_status g = GoalRunning \<Longrightarrow> step_moved c g h s t"
| stopped: "same_core s t \<Longrightarrow> gs_attempt t = gs_attempt s \<Longrightarrow> gs_status s \<in> {GRunning, GReady} \<Longrightarrow>
     gs_status t = GBlocked \<Longrightarrow> c = BlockStep (gs_id s) reason \<Longrightarrow> step_moved c g h s t"
| doubted: "same_core s t \<Longrightarrow> gs_attempt t = gs_attempt s \<Longrightarrow> gs_status s = GRunning \<Longrightarrow>
     gs_status t = GUncertain \<Longrightarrow> step_moved c g h s t"
| retried: "same_core s t \<Longrightarrow> gs_attempt t = gs_attempt s \<Longrightarrow>
     gs_status s \<in> {GBlocked, GFailed, GUncertain} \<Longrightarrow> gs_status t \<in> {GPending, GReady} \<Longrightarrow>
     (gs_status t = GReady \<longrightarrow> set (gs_depends s) \<subseteq> satisfied h) \<Longrightarrow>
     gs_attempt s < gs_max s \<Longrightarrow> c = RetryStep (gs_id s) \<Longrightarrow> step_moved c g h s t"
| skipped: "same_core s t \<Longrightarrow> gs_attempt t = gs_attempt s \<Longrightarrow>
     gs_status s \<notin> {GCompleted, GSkipped, GRunning} \<Longrightarrow> gs_status t = GSkipped \<Longrightarrow>
     c = SkipStep (gs_id s) reason a now \<Longrightarrow> ga_scope a = ''skip'' \<Longrightarrow> ga_step a = Some (gs_id s) \<Longrightarrow>
     step_moved c g h s t"
| reopened: "same_core s t \<Longrightarrow> gs_attempt t = gs_attempt s \<Longrightarrow> gs_status s = GBlocked \<Longrightarrow>
     gs_status t = GRunning \<Longrightarrow> c = UpdateBudget True (Some (gs_id s)) b \<Longrightarrow> step_moved c g h s t"

inductive_cases moved_to_running: "step_moved c g h s t"

definition goal_advances :: "goal_call \<Rightarrow> goal \<Rightarrow> goal \<Rightarrow> bool" where
  "goal_advances c g h \<longleftrightarrow>
     goal_ok h \<and> list_all2 (step_moved c g h) (g_steps g) (g_steps h) \<and>
     set (g_approvals g) \<subseteq> set (g_approvals h) \<and> set (g_evidence g) \<subseteq> set (g_evidence h) \<and>
     g_criteria h = g_criteria g"

lemma same_core_refl [simp]: "same_core s s"
  by (simp add: same_core_def)

lemma moved_refl: "step_moved c g h s s"
  by (rule kept) simp_all

lemma moved_same: "list_all2 (step_moved c g h) xs xs"
  by (simp add: list.rel_refl moved_refl)

lemma satisfied_refreshed [simp]:
  "satisfied_ids (map (refreshed sat) steps) = satisfied_ids steps"
  by (force simp: satisfied_ids_def refreshed_def image_iff)

lemma satisfied_ids_Cons:
  "satisfied_ids (s # ss) = (if gs_status s \<in> {GCompleted, GSkipped} then insert (gs_id s) (satisfied_ids ss)
     else satisfied_ids ss)"
  by (auto simp: satisfied_ids_def)

lemma satisfied_ids_cong:
  "list_all2 (\<lambda>x y. gs_id y = gs_id x \<and> (gs_status y \<in> {GCompleted, GSkipped} \<longleftrightarrow> gs_status x \<in> {GCompleted, GSkipped}))
     xs ys \<Longrightarrow> satisfied_ids ys = satisfied_ids xs"
  by (induction xs ys rule: list_all2_induct) (simp_all add: satisfied_ids_Cons)

lemma refreshed_moved:
  "satisfied h = sat \<Longrightarrow> step_moved c g h s (refreshed sat s)"
  by (cases "gs_status s \<in> {GPending, GReady}")
    (auto simp: refreshed_def same_core_def intro: opened kept)

section \<open>Calls that keep the steps\<close>

text \<open>A rebuilt goal that keeps its steps, criteria and past approvals and evidence goal_advances.\<close>

lemma rebuilt_advances:
  assumes "goal_ok g" and "make_goal f = Inr h" and "\<And>s. s \<in> set (g_steps f) \<Longrightarrow> step_ok s"
    and "list_all2 (step_moved c g h) (g_steps g) (g_steps f)"
    and "set (g_approvals g) \<subseteq> set (g_approvals f)" "set (g_evidence g) \<subseteq> set (g_evidence f)"
    and "g_criteria f = g_criteria g"
  shows "goal_advances c g h"
  using assms make_goal_ok [OF assms(2,3)] by (simp add: goal_advances_def make_goal_fields [OF assms(2)])

lemma unchanged_advances: "goal_ok g \<Longrightarrow> goal_advances c g g"
  by (simp add: goal_advances_def moved_same)

lemma plain_advances:
  assumes "goal_ok g" and "make_goal f = Inr h" and "g_steps f = g_steps g"
    and "set (g_approvals g) \<subseteq> set (g_approvals f)" "set (g_evidence g) \<subseteq> set (g_evidence f)"
    and "g_criteria f = g_criteria g"
  shows "goal_advances c g h"
  using assms by (intro rebuilt_advances [OF assms(1,2)]) (auto simp: moved_same goal_okD(2))

lemma with_linked_fields [simp]:
  "g_steps (with_linked k ids g) = g_steps g" "g_approvals (with_linked k ids g) = g_approvals g"
  "g_evidence (with_linked k ids g) = g_evidence g" "g_criteria (with_linked k ids g) = g_criteria g"
  "g_status (with_linked k ids g) = g_status g" "g_cancel (with_linked k ids g) = g_cancel g"
  by (cases k; simp)+

lemma keep_calls:
  assumes "goal_ok g"
  shows "approve_goal a now g = Inr h \<Longrightarrow> goal_advances c g h" and "pause_goal g = Inr h \<Longrightarrow> goal_advances c g h"
    and "steer_goal t g = Inr h \<Longrightarrow> goal_advances c g h" and "request_goal_cancellation g = Inr h \<Longrightarrow> goal_advances c g h"
    and "fulfill_steering i es g = Inr h \<Longrightarrow> goal_advances c g h" and "fail_goal reason now g = Inr h \<Longrightarrow> goal_advances c g h"
    and "complete_goal now g = Inr h \<Longrightarrow> goal_advances c g h" and "approve_step a g = Inr h \<Longrightarrow> goal_advances c g h"
    and "link_resource kind i g = Inr h \<Longrightarrow> goal_advances c g h" and "with_revision g r now = Inr h \<Longrightarrow> goal_advances c g h"
  using assms
  by (auto simp: approve_goal_def pause_goal_def steer_goal_def request_goal_cancellation_def
      fulfill_steering_def fail_goal_def complete_goal_def approve_step_def link_resource_def
      with_revision_def Let_def result_simps intro: unchanged_advances split: if_splits
      intro!: plain_advances [OF assms])

section \<open>Calls that change steps\<close>

lemma start_goal_advances:
  assumes "goal_ok g" and "start_goal now g = Inr h"
  shows "goal_advances c g h"
proof -
  let ?steps = "map (refreshed (satisfied g)) (g_steps g)"
  have ok: "\<forall>s\<in>set (g_steps g). step_ok s" using goal_okD(2) [OF assms(1)] by blast
  from assms(2) obtain f where f: "make_goal f = Inr h" "g_steps f = ?steps" "g_criteria f = g_criteria g"
      "g_approvals f = g_approvals g" "g_evidence f = g_evidence g"
    unfolding start_goal_def refresh_ready_steps_ok [OF ok]
    by (auto simp: result_simps)
  show ?thesis
  proof (rule rebuilt_advances [OF assms(1) f(1)])
    have "satisfied h = satisfied g" by (simp add: make_goal_fields [OF f(1)] f(2))
    then show "list_all2 (step_moved c g h) (g_steps g) (g_steps f)"
      by (simp add: f(2) list_all2_map_right refreshed_moved)
  qed (use f ok in auto)
qed

lemma replaced_advances:
  assumes "goal_ok g" and "make_goal f = Inr h" and "g_steps f = replace_step (g_steps g) new"
    and "find_step (g_steps g) i = Inr s" and "gs_id new = gs_id s" and "step_ok new"
    and "step_moved c g h s new"
    and "set (g_approvals g) \<subseteq> set (g_approvals f)" "set (g_evidence g) \<subseteq> set (g_evidence f)"
    and "g_criteria f = g_criteria g"
  shows "goal_advances c g h"
proof (rule rebuilt_advances [OF assms(1,2) _ _ assms(8-10)])
  have s: "s \<in> set (g_steps g)" using find_step_Inr [OF assms(4)] by simp
  show "list_all2 (step_moved c g h) (g_steps g) (g_steps f)"
    unfolding assms(3)
    by (rule list_all2_replace [where s = s])
      (use s assms(5,7) goal_okD(1) [OF assms(1)] in \<open>simp_all add: moved_refl\<close>)
  show "step_ok x" if "x \<in> set (g_steps f)" for x
    using set_replace_step [of "g_steps g" step_ok new] goal_okD(2) [OF assms(1)] assms(6) that
    unfolding assms(3) by blast
qed

lemma replaced_refreshed_advances:
  assumes "goal_ok g" and "make_goal f = Inr h"
    and "refresh_ready_steps (replace_step (g_steps g) new) = Inr steps" and "g_steps f = steps"
    and "find_step (g_steps g) i = Inr s" and "gs_id new = gs_id s" and "step_ok new"
    and "satisfied h = satisfied_ids (replace_step (g_steps g) new) \<Longrightarrow>
      step_moved c g h s (refreshed (satisfied_ids (replace_step (g_steps g) new)) new)"
    and "set (g_approvals g) \<subseteq> set (g_approvals f)" "set (g_evidence g) \<subseteq> set (g_evidence f)"
    and "g_criteria f = g_criteria g"
  shows "goal_advances c g h"
proof (rule rebuilt_advances [OF assms(1,2) _ _ assms(9-11)])
  let ?mid = "replace_step (g_steps g) new"
  have s: "s \<in> set (g_steps g)" using find_step_Inr [OF assms(5)] by simp
  have ok: "\<forall>x\<in>set ?mid. step_ok x"
    using set_replace_step [of "g_steps g" step_ok new] goal_okD(2) [OF assms(1)] assms(7) by blast
  have steps: "g_steps f = map (refreshed (satisfied_ids ?mid)) ?mid"
    using assms(3,4) refresh_ready_steps_ok [OF ok] by simp
  then show "step_ok x" if "x \<in> set (g_steps f)" for x using that ok by auto
  have sat: "satisfied h = satisfied_ids ?mid" by (simp add: make_goal_fields [OF assms(2)] steps)
  have "list_all2 (\<lambda>x y. (y = x \<and> gs_id x \<noteq> gs_id s) \<or> (x = s \<and> y = new)) (g_steps g) ?mid"
    by (rule list_all2_replace [OF goal_okD(1) [OF assms(1)] s assms(6)]) simp_all
  then show "list_all2 (step_moved c g h) (g_steps g) (g_steps f)"
    unfolding steps by (rule list_all2_then_map) (use assms(8) [OF sat] refreshed_moved [OF sat] in auto)
qed

text \<open>The single-step calls.\<close>

lemma make_step_upd:
  assumes "make_step t = Inr new" and "step_ok t" shows "new = t"
  using assms make_step_id by fastforce

lemma complete_step_advances:
  assumes "goal_ok g" and "complete_goal_step i now g = Inr h"
  shows "goal_advances (CompleteGoalStep i now) g h"
proof -
  from assms(2) obtain s new steps where st: "g_status g = GoalRunning" and s: "find_step (g_steps g) i = Inr s"
    and run: "gs_status s = GRunning" and ev: "set (gs_criteria s) \<subseteq> evidenced_ids g"
    and new: "make_step (s\<lparr>gs_status := GCompleted, gs_completed := Some now, gs_blocked := None\<rparr>) = Inr new"
    and steps: "refresh_ready_steps (replace_step (g_steps g) new) = Inr steps"
    and h: "make_goal (g\<lparr>g_steps := steps\<rparr>) = Inr h"
    by (auto simp: complete_goal_step_def require_status_def result_simps)
  have sok: "step_ok s" and i: "gs_id s = i"
    using goal_okD(2) [OF assms(1)] find_step_Inr [OF s] by auto
  have n: "new = s\<lparr>gs_status := GCompleted, gs_completed := Some now, gs_blocked := None\<rparr>"
    using make_step_upd [OF new] sok by simp
  show ?thesis
    by (rule replaced_refreshed_advances [OF assms(1) h steps _ s])
      (use n sok run ev i st in \<open>auto simp: refreshed_def same_core_def intro!: completed\<close>)
qed

lemma retry_step_advances:
  assumes "goal_ok g" and "retry_step i g = Inr h"
  shows "goal_advances (RetryStep i) g h"
proof -
  from assms(2) obtain s new steps where s: "find_step (g_steps g) i = Inr s"
    and run: "gs_status s \<in> {GBlocked, GFailed, GUncertain}" and att: "gs_attempt s < gs_max s"
    and new: "make_step (s\<lparr>gs_status := GPending, gs_blocked := None, gs_completed := None\<rparr>) = Inr new"
    and steps: "refresh_ready_steps (replace_step (g_steps g) new) = Inr steps"
    and h: "make_goal (g\<lparr>g_status := GoalRunning, g_steps := steps, g_error := None\<rparr>) = Inr h"
    unfolding retry_step_def and_then_eq_Inr require_eq_Inr by blast
  have sok: "step_ok s" and i: "gs_id s = i"
    using goal_okD(2) [OF assms(1)] find_step_Inr [OF s] by auto
  have n: "new = s\<lparr>gs_status := GPending, gs_blocked := None, gs_completed := None\<rparr>"
    using make_step_upd [OF new] sok by simp
  have "step_moved (RetryStep i) g h s (refreshed sat new)" if "satisfied h = sat" for sat
    by (rule retried) (use n run att i that in \<open>auto simp: refreshed_def same_core_def\<close>)
  then show ?thesis
    by (intro replaced_refreshed_advances [OF assms(1) h steps _ s]) (use n sok in simp_all)
qed

lemma skip_step_advances:
  assumes "goal_ok g" and "skip_step i reason a now g = Inr h"
  shows "goal_advances (SkipStep i reason a now) g h"
proof -
  have a: "ga_scope a = ''skip''" "ga_step a = Some i" and why: "strip reason \<noteq> []"
    using assms(2) by (simp_all add: skip_step_def result_simps Let_def)
  with assms(2) obtain s new steps where s: "find_step (g_steps g) i = Inr s"
    and run: "gs_status s \<notin> {GCompleted, GSkipped, GRunning}"
    and new: "make_step (s\<lparr>gs_status := GSkipped, gs_skip := Some (strip reason), gs_completed := Some now\<rparr>) = Inr new"
    and steps: "refresh_ready_steps (replace_step (g_steps g) new) = Inr steps"
    and h: "make_goal (g\<lparr>g_steps := steps, g_approvals := g_approvals g @ [a],
              g_status := if g_status g \<in> {GoalRunning, GoalBlocked} then GoalRunning else g_status g,
              g_error := None\<rparr>) = Inr h"
    unfolding skip_step_def Let_def and_then_eq_Inr require_eq_Inr by blast
  have sok: "step_ok s" and i: "gs_id s = i"
    using goal_okD(2) [OF assms(1)] find_step_Inr [OF s] by auto
  have n: "new = s\<lparr>gs_status := GSkipped, gs_skip := Some (strip reason), gs_completed := Some now\<rparr>"
    using make_step_upd [OF new] sok why by simp
  show ?thesis
    by (rule replaced_refreshed_advances [OF assms(1) h steps _ s])
      (use n sok run a i why in \<open>auto simp: refreshed_def same_core_def intro!: skipped\<close>)
qed

lemma block_step_advances:
  assumes "goal_ok g" and "block_step i reason g = Inr h"
  shows "goal_advances (BlockStep i reason) g h"
proof -
  from assms(2) obtain s new where s: "find_step (g_steps g) i = Inr s" and why: "strip reason \<noteq> []"
    and run: "gs_status s \<in> {GRunning, GReady}"
    and new: "make_step (s\<lparr>gs_status := GBlocked, gs_blocked := Some (strip reason)\<rparr>) = Inr new"
    and h: "make_goal (g\<lparr>g_status := GoalBlocked, g_steps := replace_step (g_steps g) new,
              g_error := Some (strip reason)\<rparr>) = Inr h"
    unfolding block_step_def Let_def by (auto simp only: result_simps)
  have sok: "step_ok s" and i: "gs_id s = i"
    using goal_okD(2) [OF assms(1)] find_step_Inr [OF s] by auto
  have n: "new = s\<lparr>gs_status := GBlocked, gs_blocked := Some (strip reason)\<rparr>"
    using make_step_upd [OF new] sok why by simp
  show ?thesis
    by (rule replaced_advances [where new = new, OF assms(1) h _ s])
      (use n sok run i why in \<open>auto simp: same_core_def intro!: stopped\<close>)
qed

lemma record_evidence_advances:
  assumes "goal_ok g" and "record_evidence e g = Inr h"
  shows "goal_advances c g h"
proof (cases "ge_id e \<in> ge_id ` set (g_evidence g)")
  case True
  with assms show ?thesis by (auto simp: record_evidence_def result_simps intro: unchanged_advances)
next
  case new: False
  show ?thesis
  proof (cases "ge_step e")
    case None
    with assms new show ?thesis
      by (auto simp: record_evidence_def result_simps intro!: plain_advances [OF assms(1)])
  next
    case (Some i)
    with assms(2) new obtain s new where s: "find_step (g_steps g) i = Inr s"
      and n: "make_step (s\<lparr>gs_evidence := gs_evidence s @ [ge_id e]\<rparr>) = Inr new"
      and h: "make_goal (g\<lparr>g_evidence := g_evidence g @ [e], g_steps := replace_step (g_steps g) new\<rparr>) = Inr h"
      by (auto simp: record_evidence_def result_simps)
    have sok: "step_ok s" using goal_okD(2) [OF assms(1)] find_step_Inr [OF s] by auto
    then have core: "same_core s new" and att: "gs_attempt new = gs_attempt s" "gs_status new = gs_status s"
      using n by (auto simp: make_step_def result_simps same_core_def step_ok_def clean_goal_text_def
          unique_required_clean unique_optional_clean)
    then show ?thesis
      by (intro replaced_advances [OF assms(1) h _ s])
        (use make_step_ok [OF n] in \<open>auto simp: same_core_def intro!: kept\<close>)
  qed
qed

lemma cancel_goal_advances:
  assumes "goal_ok g" and "cancel_goal now g = Inr h"
  shows "goal_advances c g h"
proof (cases "g_status g = GoalCancelled")
  case True
  with assms show ?thesis by (auto simp: cancel_goal_def result_simps intro: unchanged_advances)
next
  case False
  let ?f = "\<lambda>s. s\<lparr>gs_status := if gs_status s = GRunning then GUncertain else gs_status s,
                 gs_blocked := if gs_status s = GRunning then Some interrupted_reason else gs_blocked s\<rparr>"
  have reason: "goal_text_opt (Some interrupted_reason) = Some interrupted_reason" by code_simp
  have ok: "step_ok (?f s)" if "s \<in> set (g_steps g)" for s
    using goal_okD(2) [OF assms(1) that] reason by (auto simp: step_ok_def)
  have "map_result interrupted_step (g_steps g) = Inr (map ?f (g_steps g))"
    by (rule map_result_Inr) (simp add: interrupted_step_def make_step_id [OF ok])
  with assms(2) False have h: "make_goal (g\<lparr>g_status := GoalCancelled, g_steps := map ?f (g_steps g),
      g_cancel := True, g_completed := Some now\<rparr>) = Inr h"
    by (auto simp: cancel_goal_def result_simps)
  have "step_moved c g h s (?f s)" for s
    by (cases "gs_status s = GRunning") (auto simp: same_core_def intro: doubted kept)
  then show ?thesis
    using ok by (intro rebuilt_advances [OF assms(1) h]) (auto simp: list_all2_map_right)
qed

lemma update_goal_budget_advances:
  assumes "goal_ok g" and "update_goal_budget exhausted latest b g = Inr h"
  shows "goal_advances (UpdateBudget exhausted latest b) g h"
proof -
  let ?f = "\<lambda>s. if exhausted \<and> gs_status s = GBlocked \<and> latest = Some (gs_id s)
                then s\<lparr>gs_status := GRunning, gs_blocked := None\<rparr> else s"
  have ok: "step_ok (?f s)" if "s \<in> set (g_steps g)" for s
    using goal_okD(2) [OF assms(1) that] by simp
  have "map_result (reopened_step exhausted latest) (g_steps g) = Inr (map ?f (g_steps g))"
    by (rule map_result_Inr) (use goal_okD(2) [OF assms(1)] in \<open>simp add: reopened_step_def make_step_id\<close>)
  with assms(2) consider "h = g" | f where "make_goal f = Inr h" "g_steps f = map ?f (g_steps g)"
      "g_approvals f = g_approvals g" "g_evidence f = g_evidence g" "g_criteria f = g_criteria g"
    unfolding update_goal_budget_def by (fastforce simp: result_simps split: if_splits)
  then show ?thesis
  proof cases
    case 1
    then show ?thesis using unchanged_advances [OF assms(1)] by simp
  next
    case (2 f)
    have m: "step_moved (UpdateBudget exhausted latest b) g h s (?f s)" for s
      by (auto simp: same_core_def intro!: reopened moved_refl)
    show ?thesis
    proof (rule rebuilt_advances [OF assms(1) 2(1)])
      show "step_ok x" if "x \<in> set (g_steps f)" for x
        using that ok unfolding 2(2) set_map by blast
      show "list_all2 (step_moved (UpdateBudget exhausted latest b) g h) (g_steps g) (g_steps f)"
        unfolding 2(2) by (rule list_all2_map_right) (rule m)
    qed (simp_all add: 2)
  qed
qed

lemma start_step_advances:
  assumes "goal_ok g" and "start_goal_step i now g = Inr h"
  shows "goal_advances (StartGoalStep i now) g h"
proof -
  let ?mid = "map (refreshed (satisfied g)) (g_steps g)"
  have gok: "\<forall>s\<in>set (g_steps g). step_ok s" using goal_okD(2) [OF assms(1)] by blast
  from assms(2) obtain steps s new where steps: "refresh_ready_steps (g_steps g) = Inr steps"
    and st: "g_status g \<in> set [GoalRunning]" "\<not> g_cancel g"
    and none: "\<not> (\<exists>x\<in>set (g_steps g). gs_status x = GRunning)"
    and s': "find_step steps i = Inr s" and ready: "gs_status s = GReady"
    and high: "\<not> (gs_risk s = RiskHigh \<and> \<not> step_is_approved g i)"
    and new: "make_step (s\<lparr>gs_status := GRunning, gs_attempt := gs_attempt s + 1,
                 gs_started := Some now, gs_completed := None, gs_blocked := None\<rparr>) = Inr new"
    and h': "make_goal (g\<lparr>g_steps := replace_step steps new\<rparr>) = Inr h"
    unfolding start_goal_step_def require_status_def and_then_eq_Inr require_eq_Inr
    by (elim exE conjE) (rule that)
  from steps have "steps = ?mid" by (simp add: refresh_ready_steps_ok [OF gok])
  with s' h' have s: "find_step ?mid i = Inr s"
    and h: "make_goal (g\<lparr>g_steps := replace_step ?mid new\<rparr>) = Inr h" by simp_all
  have i: "gs_id s = i" and "s \<in> refreshed (satisfied g) ` set (g_steps g)"
    using find_step_Inr [OF s] by simp_all
  then obtain s0 where s0: "s0 \<in> set (g_steps g)" "s = refreshed (satisfied g) s0" by (elim imageE)
  have sok: "step_ok s" using gok s0 by simp
  have open_s: "gs_status s0 \<in> {GPending, GReady}" "set (gs_depends s0) \<subseteq> satisfied g"
    using ready s0(1) none by (auto simp: s0(2) refreshed_def split: if_splits)
  have core: "same_core s new" and att: "gs_attempt new = gs_attempt s + 1" and run: "gs_status new = GRunning"
    using new sok by (auto simp: make_step_def result_simps same_core_def step_ok_def clean_goal_text_def
        unique_required_clean unique_optional_clean)
  have "satisfied_ids (replace_step ?mid new) = satisfied_ids ?mid"
    by (rule satisfied_ids_cong, rule list_all2_replace [where s = s])
      (use goal_okD(1) [OF assms(1)] find_step_Inr [OF s] core run ready in
        \<open>simp_all add: same_core_def comp_def\<close>)
  then have sat: "satisfied h = satisfied g" by (simp add: make_goal_fields [OF h])
  have mv: "step_moved (StartGoalStep i now) g h s0 new"
    by (rule started) (use core att run open_s high i none st sat s0 in \<open>auto simp: same_core_def\<close>)
  have two: "list_all2 (\<lambda>x y. (y = x \<and> gs_id x \<noteq> gs_id s) \<or> (x = s \<and> y = new)) ?mid (replace_step ?mid new)"
    by (rule list_all2_replace [where s = s])
      (use goal_okD(1) [OF assms(1)] find_step_Inr [OF s] core in \<open>simp_all add: same_core_def comp_def\<close>)
  have "list_all2 (step_moved (StartGoalStep i now) g h) (g_steps g) (replace_step ?mid new)"
  proof (rule list_all2_all_nthI)
    show "length (g_steps g) = length (replace_step ?mid new)" by (simp add: replace_step_def)
    fix n assume n: "n < length (g_steps g)"
    let ?x = "g_steps g ! n" and ?y = "replace_step ?mid new ! n"
    have "(?y = refreshed (satisfied g) ?x \<and> gs_id ?x \<noteq> gs_id s)
        \<or> (refreshed (satisfied g) ?x = s \<and> ?y = new)"
      using list_all2_nthD [OF two, of n] n by auto
    then show "step_moved (StartGoalStep i now) g h ?x ?y"
    proof
      assume "refreshed (satisfied g) ?x = s \<and> ?y = new"
      moreover from this have "?x = s0"
        using same_step [OF goal_okD(1) [OF assms(1)], of ?x s0] n s0 by (metis nth_mem refreshed_fields(1))
      ultimately show ?thesis using mv by simp
    qed (simp add: refreshed_moved [OF sat])
  qed
  then show ?thesis
    by (intro rebuilt_advances [OF assms(1) h])
      (use gok make_step_ok [OF new] in \<open>auto simp: replace_step_def\<close>)
qed

text \<open>Marking steps uncertain, once or for every running step.\<close>

definition maybe_doubted :: "goal_step \<Rightarrow> goal_step \<Rightarrow> bool" where
  "maybe_doubted s t \<longleftrightarrow> same_core s t \<and> gs_attempt t = gs_attempt s \<and>
     (gs_status t = gs_status s \<or> gs_status s = GRunning \<and> gs_status t = GUncertain)"

lemma maybe_doubted_moved: "maybe_doubted s t \<Longrightarrow> step_moved c g h s t"
  by (auto simp: maybe_doubted_def intro: kept doubted)

lemma maybe_doubted_trans: "maybe_doubted s t \<Longrightarrow> maybe_doubted t u \<Longrightarrow> maybe_doubted s u"
  by (auto simp: maybe_doubted_def same_core_def)

definition doubts_steps :: "goal \<Rightarrow> goal \<Rightarrow> bool" where
  "doubts_steps g h \<longleftrightarrow>
     goal_ok h \<and> list_all2 maybe_doubted (g_steps g) (g_steps h) \<and> g_approvals h = g_approvals g \<and>
     g_evidence h = g_evidence g \<and> g_criteria h = g_criteria g"

lemma doubts_steps_advances: "doubts_steps g h \<Longrightarrow> goal_advances c g h"
  by (auto simp: doubts_steps_def goal_advances_def elim!: list_all2_mono intro: maybe_doubted_moved)

lemma doubts_steps_refl: "goal_ok g \<Longrightarrow> doubts_steps g g"
  by (simp add: doubts_steps_def list.rel_refl maybe_doubted_def)

lemma doubts_steps_trans: "doubts_steps f g \<Longrightarrow> doubts_steps g h \<Longrightarrow> doubts_steps f h"
  unfolding doubts_steps_def using list_all2_trans [of maybe_doubted maybe_doubted maybe_doubted] maybe_doubted_trans
  by (metis (no_types, lifting))

lemma mark_step_uncertain_doubts:
  assumes "goal_ok g" and "mark_step_uncertain i reason g = Inr h"
  shows "doubts_steps g h"
proof -
  let ?why = "if strip reason = [] then restart_reason else strip reason"
  from assms(2) obtain s where s: "find_step (g_steps g) i = Inr s"
    by (auto simp: mark_step_uncertain_def result_simps)
  show ?thesis
  proof (cases "gs_status s = GRunning")
    case False
    with assms s show ?thesis by (auto simp: mark_step_uncertain_def intro: doubts_steps_refl)
  next
    case True
    with assms(2) s obtain new where
      n: "make_step (s\<lparr>gs_status := GUncertain, gs_blocked := Some ?why\<rparr>) = Inr new"
      and h: "make_goal (g\<lparr>g_status := GoalBlocked, g_steps := replace_step (g_steps g) new,
                g_error := gs_blocked new\<rparr>) = Inr h"
      by (auto simp: mark_step_uncertain_def result_simps)
    have "goal_text_opt (Some restart_reason) = Some restart_reason" by code_simp
    then have why: "goal_text_opt (Some ?why) = Some ?why" by simp
    have sok: "step_ok s" using goal_okD(2) [OF assms(1)] find_step_Inr [OF s] by auto
    have new: "new = s\<lparr>gs_status := GUncertain, gs_blocked := Some ?why\<rparr>"
      by (rule make_step_upd [OF n]) (use sok why in simp)
    have "list_all2 maybe_doubted (g_steps g) (replace_step (g_steps g) new)"
      by (rule list_all2_replace [where s = s])
        (use goal_okD(1) [OF assms(1)] find_step_Inr [OF s] True new
          in \<open>simp_all add: maybe_doubted_def same_core_def\<close>)
    moreover have "\<forall>x\<in>set (replace_step (g_steps g) new). step_ok x"
      by (rule set_replace_step) (use goal_okD(2) [OF assms(1)] make_step_ok [OF n] in auto)
    ultimately show ?thesis
      using make_goal_ok [OF h] by (simp add: doubts_steps_def make_goal_fields [OF h])
  qed
qed

lemma mark_all_uncertain_doubts:
  "goal_ok g \<Longrightarrow> mark_all_uncertain is g = Inr h \<Longrightarrow> doubts_steps g h"
proof (induction "is" arbitrary: g)
  case (Cons i "is")
  then obtain f where f: "mark_step_uncertain i lease_expired_reason g = Inr f" "mark_all_uncertain is f = Inr h"
    by (auto simp: result_simps)
  have "doubts_steps g f" by (rule mark_step_uncertain_doubts [OF Cons.prems(1) f(1)])
  moreover from this have "doubts_steps f h" using Cons.IH [OF _ f(2)] by (simp add: doubts_steps_def [of g f])
  ultimately show ?case by (rule doubts_steps_trans)
qed (simp add: doubts_steps_refl)

lemma recovered_goal_advances:
  assumes "goal_ok g" and "recovered_goal g = Inr h"
  shows "goal_advances c g h"
  using assms
  by (auto simp: recovered_goal_def Let_def intro: plain_advances [OF assms(1)]
      doubts_steps_advances mark_all_uncertain_doubts split: if_splits)

section \<open>Every call follows the table\<close>

theorem exec_goal_advances:
  assumes "goal_ok g" and "exec_goal c g = Inr h"
  shows "goal_advances c g h"
  using assms
  by (cases c)
    (auto simp: resume_goal_def result_simps
      intro: keep_calls start_goal_advances complete_step_advances retry_step_advances
        skip_step_advances block_step_advances record_evidence_advances cancel_goal_advances
        update_goal_budget_advances start_step_advances recovered_goal_advances
        doubts_steps_advances mark_step_uncertain_doubts)

lemma goal_after_ok: "goal_ok g \<Longrightarrow> goal_ok (goal_after c g)"
  using exec_goal_advances [of g c] by (auto simp: goal_after_def goal_advances_def split: sum.splits)

end
