(* ===== verification/GoalMachine.thy ===== *)
theory GoalMachine
  imports GoalMoves
begin

text \<open>
  Goals over a history of calls: the table of goal statuses, the invariants that every call
  keeps (\<open>goal_law\<close>), the bound on the number of attempts, and progress: an accepted goal
  whose open steps wait only for each other always has a step that can start.
\<close>

section \<open>Laws kept by every call\<close>

locale goal_law =
  fixes I :: "goal \<Rightarrow> bool" and allowed :: "goal_call \<Rightarrow> bool"
  assumes keeps: "goal_ok g \<Longrightarrow> allowed c \<Longrightarrow> exec_goal c g = Inr h \<Longrightarrow> goal_advances c g h \<Longrightarrow> I g \<Longrightarrow> I h"
begin

lemma after: "goal_ok g \<Longrightarrow> allowed c \<Longrightarrow> I g \<Longrightarrow> I (goal_after c g)"
  using keeps exec_goal_advances by (auto simp: goal_after_def split: sum.splits)

lemma history:
  assumes "goal_ok g" and "list_all allowed cs" and "I g"
  shows "I (goal_history cs g) \<and> goal_ok (goal_history cs g)"
  using assms
proof (induction cs arbitrary: g)
  case (Cons c cs)
  then have "goal_ok (goal_after c g)" and "I (goal_after c g)"
    by (simp_all add: goal_after_ok after)
  with Cons show ?case by (simp add: goal_history_def)
qed (simp add: goal_history_def)

end

lemma goal_history_Nil [simp]: "goal_history [] g = g"
  by (simp add: goal_history_def)

lemma goal_history_Cons [simp]: "goal_history (c # cs) g = goal_history cs (goal_after c g)"
  by (simp add: goal_history_def)

lemma goal_history_snoc: "goal_history (cs @ [c]) g = goal_after c (goal_history cs g)"
  by (simp add: goal_history_def)

section \<open>The table of goal statuses\<close>

fun goal_moves :: "goal_call \<Rightarrow> goal_status \<Rightarrow> goal_status \<Rightarrow> bool" where
  "goal_moves (ApproveGoal a now) x y = (x = GoalDraft \<and> y = GoalApproved)"
| "goal_moves (StartGoal now) x y = (x \<in> {GoalApproved, GoalPaused, GoalBlocked} \<and> y = GoalRunning)"
| "goal_moves PauseGoal x y = (x \<in> {GoalRunning, GoalBlocked} \<and> y = GoalPaused)"
| "goal_moves (ResumeGoal now) x y = (x \<in> {GoalPaused, GoalBlocked} \<and> y = GoalRunning)"
| "goal_moves (SteerGoal t) x y = (\<not> terminal_goal_status x \<and> y = x)"
| "goal_moves RequestCancel x y = (x \<notin> {GoalCompleted, GoalFailed} \<and> y = x)"
| "goal_moves (FulfillSteering i es) x y = (\<not> terminal_goal_status x \<and> y = x)"
| "goal_moves (CancelGoal now) x y = (x \<noteq> GoalCompleted \<and> y = GoalCancelled)"
| "goal_moves (FailGoal reason now) x y = (\<not> terminal_goal_status x \<and> y = GoalFailed)"
| "goal_moves (CompleteGoal now) x y = (x \<in> {GoalRunning, GoalBlocked} \<and> y = GoalCompleted)"
| "goal_moves (StartGoalStep i now) x y = (x = GoalRunning \<and> y = GoalRunning)"
| "goal_moves (RecordEvidence e) x y = (\<not> terminal_goal_status x \<and> y = x)"
| "goal_moves (CompleteGoalStep i now) x y = (x = GoalRunning \<and> y = GoalRunning)"
| "goal_moves (BlockStep i reason) x y = (x = GoalRunning \<and> y = GoalBlocked)"
| "goal_moves (RetryStep i) x y = (x \<in> {GoalBlocked, GoalRunning} \<and> y = GoalRunning)"
| "goal_moves (SkipStep i reason a now) x y =
     (\<not> terminal_goal_status x \<and> y = (if x \<in> {GoalRunning, GoalBlocked} then GoalRunning else x))"
| "goal_moves (ApproveStep a) x y = (\<not> terminal_goal_status x \<and> y = x)"
| "goal_moves (MarkUncertain i reason) x y = (y = x \<or> y = GoalBlocked)"
| "goal_moves (UpdateBudget exhausted latest b) x y =
     (\<not> terminal_goal_status x \<and> (y = x \<or> y = GoalPaused))"
| "goal_moves (LinkResource kind i) x y = (y = x)"
| "goal_moves (Revise r now) x y = (y = x)"
| "goal_moves LoseLease x y = (x \<in> {GoalRunning, GoalPaused} \<and> y = GoalBlocked)"

lemma goal_text_optD: "make_goal f = Inr h \<Longrightarrow> g_status h = g_status f"
  by (simp add: make_goal_fields)

lemma mark_step_uncertain_status:
  "mark_step_uncertain i reason g = Inr h \<Longrightarrow>
   (g_status h = g_status g \<and> h = g \<and> (\<forall>s. find_step (g_steps g) i = Inr s \<longrightarrow> gs_status s \<noteq> GRunning))
   \<or> g_status h = GoalBlocked"
  by (cases "find_step (g_steps g) i") (auto simp: mark_step_uncertain_def and_then_eq_Inr make_goal_fields split: if_splits)

lemma mark_all_uncertain_status:
  "mark_all_uncertain is g = Inr h \<Longrightarrow> g_status g = GoalBlocked \<Longrightarrow> g_status h = GoalBlocked"
proof (induction "is" arbitrary: g)
  case (Cons i "is")
  then show ?case using mark_step_uncertain_status by (fastforce simp: result_simps)
qed simp

lemma find_step_first:
  assumes "distinct (map gs_id steps)" and "s \<in> set steps"
  shows "find_step steps (gs_id s) = Inr s"
proof (cases "find_step steps (gs_id s)")
  case (Inl e)
  then show ?thesis using assms(2) by (auto simp: find_step_Inl)
next
  case (Inr t)
  then show ?thesis using find_step_Inr [OF Inr] same_step [OF assms(1)] assms(2) by auto
qed

lemma recovered_goal_status:
  assumes "goal_ok g" and "recovered_goal g = Inr h"
  shows "g_status h = GoalBlocked"
proof (cases "filter (\<lambda>s. gs_status s = GRunning) (g_steps g)")
  case Nil
  with assms(2) show ?thesis by (auto simp: recovered_goal_def make_goal_fields)
next
  case (Cons s ss)
  have s: "s \<in> set (g_steps g)" "gs_status s = GRunning"
    using arg_cong [OF Cons, of set] by auto
  from assms(2) Cons obtain f where f: "mark_step_uncertain (gs_id s) lease_expired_reason g = Inr f"
    and rest: "mark_all_uncertain (map gs_id ss) f = Inr h"
    by (auto simp: recovered_goal_def result_simps)
  have "g_status f = GoalBlocked"
    using mark_step_uncertain_status [OF f] find_step_first [OF goal_okD(1) [OF assms(1)] s(1)] s(2) by auto
  then show ?thesis by (rule mark_all_uncertain_status [OF rest])
qed

lemma exec_goal_moves:
  assumes "goal_ok g" and "exec_goal c g = Inr h"
  shows "goal_moves c (g_status g) (g_status h)"
proof (cases c)
  case (MarkUncertain i reason)
  with assms show ?thesis using mark_step_uncertain_status by fastforce
next
  case LoseLease
  with assms show ?thesis using recovered_goal_status by (auto simp: require_status_def result_simps)
next
  case (RecordEvidence e)
  with assms show ?thesis
    by (auto simp: record_evidence_def result_simps make_goal_fields terminal_goal_def
        split: if_splits option.splits)
qed (use assms in \<open>auto simp: approve_goal_def start_goal_def pause_goal_def resume_goal_def steer_goal_def
    request_goal_cancellation_def fulfill_steering_def cancel_goal_def fail_goal_def complete_goal_def
    start_goal_step_def complete_goal_step_def block_step_def retry_step_def skip_step_def approve_step_def
    update_goal_budget_def link_resource_def with_revision_def require_status_def terminal_goal_def
    terminal_goal_status_def Let_def result_simps make_goal_fields split: if_splits\<close>)

section \<open>Moves and what they keep\<close>

lemma moved_core: "step_moved c g h s t \<Longrightarrow> same_core s t"
  by (cases rule: step_moved.cases) auto

lemma moved_done: "step_moved c g h s t \<Longrightarrow> gs_status s \<in> {GCompleted, GSkipped} \<Longrightarrow> gs_status t = gs_status s"
  by (cases rule: step_moved.cases) auto

lemma moved_running: "step_moved c g h s t \<Longrightarrow> gs_status t = GRunning \<Longrightarrow> gs_status s \<noteq> GRunning \<Longrightarrow>
    (\<exists>now. c = StartGoalStep (gs_id s) now) \<and> (\<forall>x\<in>set (g_steps g). gs_status x \<noteq> GRunning) \<and> g_status g = GoalRunning
    \<or> (\<exists>b. c = UpdateBudget True (Some (gs_id s)) b)"
  by (cases rule: step_moved.cases) auto

lemma moved_attempt: "step_moved c g h s t \<Longrightarrow>
    gs_attempt t = gs_attempt s \<or> gs_attempt t = gs_attempt s + 1 \<and> gs_status t = GRunning
      \<and> gs_status s \<in> {GPending, GReady} \<and> (\<exists>now. c = StartGoalStep (gs_id s) now)"
  by (cases rule: step_moved.cases) auto

lemma list_all2_back: "list_all2 R xs ys \<Longrightarrow> y \<in> set ys \<Longrightarrow> \<exists>x\<in>set xs. R x y"
  by (induction rule: list_all2_induct) auto

lemma list_all2_forth: "list_all2 R xs ys \<Longrightarrow> x \<in> set xs \<Longrightarrow> \<exists>y\<in>set ys. R x y"
  by (induction rule: list_all2_induct) auto

lemma advances_step:
  assumes "goal_advances c g h" and "t \<in> set (g_steps h)"
  obtains s where "s \<in> set (g_steps g)" "step_moved c g h s t"
  using assms list_all2_back unfolding goal_advances_def by metis

lemma advances_step':
  assumes "goal_advances c g h" and "s \<in> set (g_steps g)"
  obtains t where "t \<in> set (g_steps h)" "step_moved c g h s t"
  using assms list_all2_forth unfolding goal_advances_def by metis

lemma satisfied_grows: "goal_advances c g h \<Longrightarrow> satisfied g \<subseteq> satisfied h"
proof
  fix i assume adv: "goal_advances c g h" and "i \<in> satisfied g"
  then obtain s where s: "s \<in> set (g_steps g)" "gs_id s = i" "gs_status s \<in> {GCompleted, GSkipped}"
    by (auto simp: satisfied_ids_def)
  from advances_step' [OF adv s(1)] obtain t where t: "t \<in> set (g_steps h)" "step_moved c g h s t" .
  have "gs_status t \<in> {GCompleted, GSkipped}" "gs_id t = i"
    using moved_done [OF t(2) s(3)] moved_core [OF t(2)] s by (auto simp: same_core_def)
  with t(1) show "i \<in> satisfied h" by (force simp: satisfied_ids_def)
qed

lemma evidenced_grows: "goal_advances c g h \<Longrightarrow> evidenced_ids g \<subseteq> evidenced_ids h"
  by (auto simp: goal_advances_def evidenced_ids_def)

lemma approved_grows: "goal_advances c g h \<Longrightarrow> step_is_approved g i \<Longrightarrow> step_is_approved h i"
  by (auto simp: goal_advances_def step_is_approved_def)

section \<open>The discipline of steps\<close>

definition disciplined :: "goal \<Rightarrow> goal_step \<Rightarrow> bool" where
  "disciplined g s \<longleftrightarrow>
     (gs_status s \<in> {GReady, GRunning, GBlocked, GCompleted, GUncertain} \<longrightarrow> set (gs_depends s) \<subseteq> satisfied g) \<and>
     (gs_status s \<in> {GPending, GReady} \<longrightarrow> gs_attempt s < gs_max s) \<and>
     (gs_status s = GCompleted \<longrightarrow> set (gs_criteria s) \<subseteq> evidenced_ids g) \<and>
     (gs_risk s = RiskHigh \<and> 0 < gs_attempt s \<longrightarrow> step_is_approved g (gs_id s)) \<and>
     gs_status s \<noteq> GFailed"

definition goal_disciplined :: "goal \<Rightarrow> bool" where
  "goal_disciplined g \<longleftrightarrow> (\<forall>s\<in>set (g_steps g). disciplined g s)"

lemma moved_disciplined:
  assumes "goal_advances c g h" and "step_moved c g h s t" and "disciplined g s"
  shows "disciplined h t"
proof -
  have sat: "set (gs_depends s) \<subseteq> satisfied g \<Longrightarrow> set (gs_depends s) \<subseteq> satisfied h"
    and ev: "set (gs_criteria s) \<subseteq> evidenced_ids g \<Longrightarrow> set (gs_criteria s) \<subseteq> evidenced_ids h"
    using satisfied_grows [OF assms(1)] evidenced_grows [OF assms(1)] by blast+
  note approved = approved_grows [OF assms(1), of "gs_id s"]
  have core: "gs_id t = gs_id s" "gs_depends t = gs_depends s" "gs_criteria t = gs_criteria s"
    "gs_risk t = gs_risk s" "gs_max t = gs_max s"
    using moved_core [OF assms(2)] by (simp_all add: same_core_def)
  show ?thesis
    using assms(2)
  proof (cases rule: step_moved.cases)
    case kept
    then show ?thesis using assms(3) sat ev approved unfolding disciplined_def core by metis
  next
    case opened
    then show ?thesis using assms(3) approved unfolding disciplined_def core by (elim insertE) simp_all
  next
    case (started now)
    then show ?thesis using assms(3) sat ev approved unfolding disciplined_def core by auto
  next
    case (completed now)
    then show ?thesis using assms(3) sat ev approved unfolding disciplined_def core by auto
  next
    case (stopped reason)
    then show ?thesis using assms(3) sat ev approved unfolding disciplined_def core by auto
  next
    case doubted
    then show ?thesis using assms(3) sat ev approved unfolding disciplined_def core by auto
  next
    case retried
    then show ?thesis using assms(3) approved unfolding disciplined_def core by (elim insertE) simp_all
  next
    case (skipped reason a now)
    then show ?thesis using assms(3) sat ev approved unfolding disciplined_def core by auto
  next
    case (reopened b)
    then show ?thesis using assms(3) sat ev approved unfolding disciplined_def core by auto
  qed
qed

interpretation discipline: goal_law goal_disciplined "\<lambda>_. True"
proof
  fix g c h assume "goal_advances c g h" and "goal_disciplined g"
  then show "goal_disciplined h"
    unfolding goal_disciplined_def by (metis advances_step moved_disciplined)
qed

section \<open>Ended goals\<close>

definition ended_goal :: "goal \<Rightarrow> bool" where
  "ended_goal g \<longleftrightarrow>
     (g_status g = GoalCompleted \<longrightarrow>
        (\<forall>s\<in>set (g_steps g). gs_status s \<in> {GCompleted, GSkipped}) \<and> missing_ids g = []) \<and>
     (g_status g = GoalCancelled \<longrightarrow> (\<forall>s\<in>set (g_steps g). gs_status s \<noteq> GRunning))"

lemma missing_shrinks: "goal_advances c g h \<Longrightarrow> missing_ids g = [] \<Longrightarrow> missing_ids h = []"
  using evidenced_grows [of c g h] by (auto simp: missing_ids_def goal_advances_def filter_empty_conv)

lemma cancel_goal_quiet:
  assumes "cancel_goal now g = Inr h" and "g_status g \<noteq> GoalCancelled" and "s \<in> set (g_steps h)"
  shows "gs_status s \<noteq> GRunning"
proof -
  from assms(1,2) obtain steps where m: "map_result interrupted_step (g_steps g) = Inr steps"
    and h: "make_goal (g\<lparr>g_status := GoalCancelled, g_steps := steps, g_cancel := True,
                         g_completed := Some now\<rparr>) = Inr h"
    by (auto simp: cancel_goal_def result_simps)
  have "\<forall>t\<in>set steps. gs_status t \<noteq> GRunning" if "map_result interrupted_step xs = Inr steps" for xs
    using that
    by (induction xs arbitrary: steps)
      (auto simp: result_simps interrupted_step_def dest!: make_step_fields(1) split: if_splits)
  from this [OF m] show ?thesis using assms(3) by (simp add: make_goal_fields [OF h])
qed

lemma ended_kept:
  assumes "goal_ok g" and "exec_goal c g = Inr h" and "goal_advances c g h" and "ended_goal g"
  shows "ended_goal h"
proof -
  note mv = exec_goal_moves [OF assms(1,2)]
  have complete: "(\<forall>s\<in>set (g_steps h). gs_status s \<in> {GCompleted, GSkipped}) \<and> missing_ids h = []"
    if "(\<forall>s\<in>set (g_steps g). gs_status s \<in> {GCompleted, GSkipped})" "missing_ids g = []"
    using that missing_shrinks [OF assms(3)] advances_step [OF assms(3)] moved_done by metis
  have completed: "(\<forall>s\<in>set (g_steps g). gs_status s \<in> {GCompleted, GSkipped}) \<and> missing_ids g = []"
    if "g_status h = GoalCompleted"
  proof (cases "g_status g = GoalCompleted")
    case True
    then show ?thesis using assms(4) by (simp add: ended_goal_def)
  next
    case False
    with mv that obtain now where "c = CompleteGoal now" by (cases c) (auto split: if_splits)
    then show ?thesis using assms(2) by (auto simp: complete_goal_def result_simps)
  qed
  have quiet: "gs_status t \<noteq> GRunning" if "g_status h = GoalCancelled" "t \<in> set (g_steps h)" for t
  proof (cases "g_status g = GoalCancelled")
    case True
    from advances_step [OF assms(3) that(2)] obtain s where s: "s \<in> set (g_steps g)" "step_moved c g h s t" .
    have "gs_status s \<noteq> GRunning" using assms(4) True s(1) by (simp add: ended_goal_def)
    then show ?thesis using moved_running [OF s(2)] mv True by (auto simp: terminal_goal_status_def)
  next
    case False
    with mv that(1) obtain now where "c = CancelGoal now" by (cases c) (auto split: if_splits)
    then show ?thesis using cancel_goal_quiet [OF _ False that(2)] assms(2) by simp
  qed
  show ?thesis using complete completed quiet by (simp add: ended_goal_def)
qed

interpretation ended: goal_law ended_goal "\<lambda>_. True"
  by unfold_locales (rule ended_kept)

text \<open>A completed or cancelled goal never leaves its status.\<close>

definition settled_as :: "goal_status \<Rightarrow> goal \<Rightarrow> bool" where
  "settled_as st g \<longleftrightarrow> g_status g = st \<and> ended_goal g"

lemma no_running_unmarked:
  assumes "\<forall>s\<in>set (g_steps g). gs_status s \<noteq> GRunning" and "mark_step_uncertain i reason g = Inr h"
  shows "h = g"
  using assms find_step_Inr by (auto simp: mark_step_uncertain_def result_simps split: if_splits)

interpretation settled: goal_law "settled_as st" "\<lambda>_. st \<in> {GoalCompleted, GoalCancelled}" for st
proof
  fix g c h
  assume ok: "goal_ok g" and st: "st \<in> {GoalCompleted, GoalCancelled}" and ex: "exec_goal c g = Inr h"
    and adv: "goal_advances c g h" and s: "settled_as st g"
  have "\<forall>s\<in>set (g_steps g). gs_status s \<noteq> GRunning"
    using s st by (fastforce simp: settled_as_def ended_goal_def)
  then have "h = g" if "c = MarkUncertain i reason" for i reason
    using that ex no_running_unmarked by auto
  then have "g_status h = st"
    using exec_goal_moves [OF ok ex] st s by (cases c) (auto simp: settled_as_def terminal_goal_status_def)
  then show "settled_as st h" using ended_kept [OF ok ex adv] s by (simp add: settled_as_def)
qed

section \<open>One step runs at a time\<close>

definition running_steps :: "goal \<Rightarrow> goal_step list" where
  "running_steps g = filter (\<lambda>s. gs_status s = GRunning) (g_steps g)"

definition one_running :: "goal \<Rightarrow> bool" where
  "one_running g \<longleftrightarrow>
     (\<forall>s\<in>set (g_steps g). \<forall>t\<in>set (g_steps g). gs_status s = GRunning \<longrightarrow> gs_status t = GRunning \<longrightarrow> gs_id s = gs_id t)"

text \<open>The one call that sets a step running without looking at the others.\<close>

fun reopens :: "goal_call \<Rightarrow> bool" where
  "reopens (UpdateBudget exhausted latest b) = exhausted"
| "reopens c = False"

interpretation single: goal_law one_running "\<lambda>c. \<not> reopens c"
proof
  fix g c h
  assume c: "\<not> reopens c" and adv: "goal_advances c g h" and one: "one_running g"
  show "one_running h"
    unfolding one_running_def
  proof (intro ballI impI)
    fix t u assume t: "t \<in> set (g_steps h)" "gs_status t = GRunning"
      and u: "u \<in> set (g_steps h)" "gs_status u = GRunning"
    from advances_step [OF adv t(1)] obtain s where s: "s \<in> set (g_steps g)" "step_moved c g h s t" .
    from advances_step [OF adv u(1)] obtain r where r: "r \<in> set (g_steps g)" "step_moved c g h r u" .
    have ids: "gs_id t = gs_id s" "gs_id u = gs_id r"
      using moved_core [OF s(2)] moved_core [OF r(2)] by (simp_all add: same_core_def)
    have start: "gs_status x = GRunning \<or> (\<exists>now. c = StartGoalStep (gs_id x) now)
        \<and> (\<forall>z\<in>set (g_steps g). gs_status z \<noteq> GRunning)"
      if "step_moved c g h x y" "gs_status y = GRunning" for x y
      using moved_running [OF that] c by fastforce
    have both: "gs_status s = GRunning \<Longrightarrow> gs_status r = GRunning \<Longrightarrow> gs_id s = gs_id r"
      using one s(1) r(1) unfolding one_running_def by blast
    have "gs_id s = gs_id r"
      using start [OF s(2) t(2)] start [OF r(2) u(2)] both s(1) r(1) by auto
    then show "gs_id t = gs_id u" by (simp add: ids)
  qed
qed

lemma one_running_length:
  assumes "goal_ok g" and "one_running g" shows "length (running_steps g) \<le> 1"
proof -
  have "distinct (map gs_id (running_steps g))"
    unfolding running_steps_def using goal_okD(1) [OF assms(1)] by (rule distinct_map_filter)
  moreover have "\<exists>i. set (map gs_id (running_steps g)) \<subseteq> {i}"
  proof (cases "running_steps g")
    case (Cons s ss)
    then have "s \<in> set (running_steps g)" by simp
    then have "set (map gs_id (running_steps g)) \<subseteq> {gs_id s}"
      using assms(2) unfolding one_running_def running_steps_def by auto
    then show ?thesis by blast
  qed simp
  ultimately obtain i where d: "distinct (map gs_id (running_steps g))"
    and i: "set (map gs_id (running_steps g)) \<subseteq> {i}" by blast
  have "length (map gs_id (running_steps g)) \<le> 1"
    using card_mono [OF _ i] distinct_card [OF d] by simp
  then show ?thesis by simp
qed

section \<open>Attempts are bounded\<close>

text \<open>The successful starts of steps in a history, and what the attempt limits leave.\<close>

definition starts :: "goal_call \<Rightarrow> goal \<Rightarrow> nat" where
  "starts c g = (case exec_goal c g of Inl e \<Rightarrow> 0
     | Inr h \<Rightarrow> (case c of StartGoalStep i now \<Rightarrow> 1 | _ \<Rightarrow> 0))"

fun count_starts :: "goal_call list \<Rightarrow> goal \<Rightarrow> nat" where
  "count_starts [] g = 0"
| "count_starts (c # cs) g = starts c g + count_starts cs (goal_after c g)"

definition total_attempts :: "goal \<Rightarrow> int" where
  "total_attempts g = sum_list (map gs_attempt (g_steps g))"

definition total_limit :: "goal \<Rightarrow> int" where
  "total_limit g = sum_list (map gs_max (g_steps g))"

lemma sum_list_le:
  "list_all2 (\<lambda>x y. f x \<le> (g y :: int)) xs ys \<Longrightarrow> sum_list (map f xs) \<le> sum_list (map g ys)"
  by (induction rule: list_all2_induct) auto

lemma sum_list_less:
  "list_all2 (\<lambda>x y. f x \<le> (g y :: int)) xs ys \<Longrightarrow> \<exists>(x, y)\<in>set (zip xs ys). f x < g y \<Longrightarrow>
   sum_list (map f xs) < sum_list (map g ys)"
proof (induction rule: list_all2_induct)
  case (Cons x xs y ys)
  show ?case
  proof (cases "f x < g y")
    case True
    then show ?thesis using sum_list_le [OF Cons.hyps(2)] by simp
  next
    case False
    with Cons.prems Cons.IH Cons.hyps(1) show ?thesis by fastforce
  qed
qed simp

lemma total_limit_kept: "goal_advances c g h \<Longrightarrow> total_limit h = total_limit g"
proof -
  assume adv: "goal_advances c g h"
  have "list_all2 (\<lambda>s t. gs_max t = gs_max s) (g_steps g) (g_steps h)"
    using adv unfolding goal_advances_def by (auto elim!: list_all2_mono dest!: moved_core simp: same_core_def)
  then have "map gs_max (g_steps h) = map gs_max (g_steps g)"
    by (induction rule: list_all2_induct) auto
  then show ?thesis by (simp add: total_limit_def)
qed

lemma total_attempts_grow:
  assumes "goal_ok g" and "exec_goal c g = Inr h"
  shows "total_attempts g + int (starts c g) \<le> total_attempts h"
proof -
  have adv: "goal_advances c g h" by (rule exec_goal_advances [OF assms])
  then have le: "list_all2 (\<lambda>s t. gs_attempt s \<le> gs_attempt t) (g_steps g) (g_steps h)"
    unfolding goal_advances_def by (auto elim!: list_all2_mono dest!: moved_attempt)
  show ?thesis
  proof (cases "\<exists>i now. c = StartGoalStep i now")
    case False
    then have "starts c g = 0" by (cases c) (auto simp: starts_def split: sum.split)
    then show ?thesis using sum_list_le [OF le] by (simp add: total_attempts_def)
  next
    case True
    then obtain i now where c: "c = StartGoalStep i now" by blast
    have "start_goal_step i now g = Inr h" using assms(2) c by simp
    then obtain steps s new where none: "\<not> (\<exists>x\<in>set (g_steps g). gs_status x = GRunning)"
      and new: "make_step (s\<lparr>gs_status := GRunning, gs_attempt := gs_attempt s + 1,
                 gs_started := Some now, gs_completed := None, gs_blocked := None\<rparr>) = Inr new"
      and s: "find_step steps i = Inr s" and ids: "refresh_ready_steps (g_steps g) = Inr steps"
      and h: "make_goal (g\<lparr>g_steps := replace_step steps new\<rparr>) = Inr h"
      unfolding start_goal_step_def require_status_def and_then_eq_Inr require_eq_Inr
      by (elim exE conjE) (rule that)
    have "gs_status new = GRunning" using make_step_fields(1) [OF new] by simp
    moreover have "new \<in> set (g_steps h)"
    proof -
      have sok: "step_ok s"
        using find_step_Inr [OF s] ids refresh_ready_steps_ok [of "g_steps g"] goal_okD(2) [OF assms(1)] by auto
      then have "gs_id new = gs_id s"
        using new by (auto simp: make_step_def result_simps step_ok_def clean_goal_text_def)
      then show ?thesis
        using find_step_Inr [OF s] by (force simp: make_goal_fields [OF h] replace_step_def image_iff)
    qed
    ultimately obtain n where n: "n < length (g_steps h)" "gs_status (g_steps h ! n) = GRunning"
      by (metis in_set_conv_nth)
    have len: "length (g_steps g) = length (g_steps h)" and m: "step_moved c g h (g_steps g ! n) (g_steps h ! n)"
      using adv n(1) unfolding goal_advances_def by (auto simp: list_all2_conv_all_nth)
    have "gs_attempt (g_steps g ! n) < gs_attempt (g_steps h ! n)"
      using m c n(2) none len n(1) by (cases rule: step_moved.cases) (auto dest: nth_mem)
    moreover have "(g_steps g ! n, g_steps h ! n) \<in> set (zip (g_steps g) (g_steps h))"
      using n(1) len by (auto simp: set_zip)
    ultimately have "total_attempts g < total_attempts h"
      unfolding total_attempts_def by (intro sum_list_less [OF le]) blast
    moreover have "starts c g = 1" using assms(2) c by (simp add: starts_def)
    ultimately show ?thesis by simp
  qed
qed

lemma count_starts_bound:
  "goal_ok g \<Longrightarrow> total_attempts g + int (count_starts cs g) \<le> total_attempts (goal_history cs g)
     \<and> total_limit (goal_history cs g) = total_limit g \<and> goal_ok (goal_history cs g)"
proof (induction cs arbitrary: g)
  case (Cons c cs)
  note ok = goal_after_ok [OF Cons.prems, of c]
  have "total_attempts g + int (starts c g) \<le> total_attempts (goal_after c g)
      \<and> total_limit (goal_after c g) = total_limit g"
  proof (cases "exec_goal c g")
    case (Inl e)
    then show ?thesis by (simp add: goal_after_def starts_def)
  next
    case (Inr h)
    then show ?thesis
      using total_attempts_grow [OF Cons.prems Inr] total_limit_kept [OF exec_goal_advances [OF Cons.prems Inr]]
      by (simp add: goal_after_def)
  qed
  with Cons.IH [OF ok] show ?case by simp
qed simp

lemma attempts_within_limit: "goal_ok g \<Longrightarrow> total_attempts g \<le> total_limit g"
proof -
  assume "goal_ok g"
  then have "list_all2 (\<lambda>s t. gs_attempt s \<le> gs_max t) (g_steps g) (g_steps g)"
    using goal_okD(2) by (auto simp: list_all2_same step_ok_def)
  then show ?thesis unfolding total_attempts_def total_limit_def by (rule sum_list_le)
qed

section \<open>Progress\<close>

text \<open>Some open step can start when the other steps are open or done.\<close>

lemma some_step_ready:
  assumes "goal_ok g"
    and "\<forall>s\<in>set (g_steps g). gs_status s \<in> {GPending, GReady, GCompleted, GSkipped}"
    and "s \<in> set (g_steps g)" and "gs_status s \<in> {GPending, GReady}"
  shows "\<exists>t\<in>set (g_steps g). gs_status t \<in> {GPending, GReady} \<and> set (gs_depends t) \<subseteq> satisfied g"
proof -
  note ok = goal_okD [OF assms(1)]
  obtain xs where xs: "ordered_by (step_deps (g_steps g)) xs" "gs_id ` set (g_steps g) \<subseteq> set xs"
    using reject_cycles_order [OF ok(3)] .
  have "gs_id s \<notin> satisfied g"
    using same_step [OF ok(1)] assms(3,4) by (force simp: satisfied_ids_def)
  then obtain i ds where i: "i \<notin> satisfied g" "map_of (step_deps (g_steps g)) i = Some ds" "set ds \<subseteq> satisfied g"
    using ordered_first_open [OF xs(1), of "gs_id s" "satisfied g"] xs(2) assms(3) by auto
  then obtain t where t: "t \<in> set (g_steps g)" "gs_id t = i" "gs_depends t = ds"
    using map_of_step_deps [OF ok(1)] by auto
  have "gs_status t \<in> {GPending, GReady}" using assms(2) t i(1) by (force simp: satisfied_ids_def)
  then show ?thesis using t i(3) by auto
qed

text \<open>The checks of a goal look only at what no transition of a step changes.\<close>

definition graph_view :: "goal_step \<Rightarrow> string \<times> string list \<times> string list \<times> string list" where
  "graph_view s = (gs_id s, gs_depends s, gs_criteria s, gs_evidence s)"

lemma validate_same_view:
  assumes "map graph_view ss = map graph_view ts"
  shows "validate_goal_graph cs ss es = validate_goal_graph cs ts es"
proof -
  have ids: "map gs_id ss = map gs_id ts" and deps: "step_deps ss = step_deps ts"
    using arg_cong [OF assms, of "map (\<lambda>(i, d, c, e). i)"] arg_cong [OF assms, of "map (\<lambda>(i, d, c, e). (i, d))"]
    by (simp_all add: graph_view_def step_deps_def comp_def)
  have P: "(\<forall>s\<in>set ss. P (graph_view s)) = (\<forall>s\<in>set ts. P (graph_view s))" for P
    using arg_cong [OF assms, of set] by (metis (no_types, lifting) image_iff list.set_map)
  have refs: "(\<forall>s\<in>set ss. step_refs_ok A B s) = (\<forall>s\<in>set ts. step_refs_ok A B s)" for A B
    using P [of "\<lambda>(i, d, c, e). known_ids A c \<and> known_ids B d \<and> i \<notin> set d"]
    by (simp add: graph_view_def step_refs_ok_def)
  have ev: "(\<forall>s\<in>set ss. known_ids A (gs_evidence s)) = (\<forall>s\<in>set ts. known_ids A (gs_evidence s))" for A
    using P [of "\<lambda>(i, d, c, e). known_ids A e"] by (simp add: graph_view_def)
  show ?thesis
    by (simp only: validate_goal_graph_def reject_cycles_def ids deps refs ev)
qed

lemma make_goal_same_view:
  assumes "make_goal g = Inr g" and "map graph_view ts = map graph_view (g_steps g)"
  shows "make_goal (g\<lparr>g_steps := ts\<rparr>) = Inr (g\<lparr>g_steps := ts\<rparr>)"
proof -
  have "goal_clean (g\<lparr>g_steps := ts\<rparr>)"
    using make_goal_clean [OF assms(1)] by (simp add: goal_clean_def)
  then show ?thesis
    using make_goal_fields(15) [OF assms(1)] validate_same_view [OF assms(2)] by (simp add: make_goal_id)
qed

lemma graph_view_refreshed [simp]: "graph_view (refreshed sat s) = graph_view s"
  by (simp add: graph_view_def)

lemma start_step_ready:
  assumes "goal_ok g" and "g_status g = GoalRunning" and "\<not> g_cancel g"
    and "\<forall>s\<in>set (g_steps g). gs_status s \<noteq> GRunning"
    and "t \<in> set (g_steps g)" and "gs_status t \<in> {GPending, GReady}" and "set (gs_depends t) \<subseteq> satisfied g"
    and "gs_attempt t < gs_max t" and "gs_risk t = RiskHigh \<longrightarrow> step_is_approved g (gs_id t)"
  shows "\<exists>h. start_goal_step (gs_id t) now g = Inr h"
proof -
  let ?mid = "map (refreshed (satisfied g)) (g_steps g)" and ?s = "refreshed (satisfied g) t"
  let ?new = "?s\<lparr>gs_status := GRunning, gs_attempt := gs_attempt ?s + 1, gs_started := Some now,
                 gs_completed := None, gs_blocked := None\<rparr>"
  have gok: "\<forall>s\<in>set (g_steps g). step_ok s" and tok: "step_ok t"
    using goal_okD(2) [OF assms(1)] assms(5) by blast+
  have find: "find_step ?mid (gs_id t) = Inr ?s"
    using find_step_first [of ?mid ?s] goal_okD(1) [OF assms(1)] assms(5) by (simp add: comp_def)
  have ready: "gs_status ?s = GReady" using assms(6,7) by (simp add: refreshed_def)
  have "step_ok ?new"
    using tok assms(8) by (simp add: step_ok_def refreshed_def)
  then have new: "make_step ?new = Inr ?new" by (rule make_step_id)
  have "map graph_view (replace_step ?mid ?new) = map graph_view (g_steps g)"
    using same_step [OF goal_okD(1) [OF assms(1)] _ assms(5)]
    by (auto simp: replace_step_def graph_view_def)
  then have "make_goal (g\<lparr>g_steps := replace_step ?mid ?new\<rparr>) = Inr (g\<lparr>g_steps := replace_step ?mid ?new\<rparr>)"
    by (rule make_goal_same_view [OF goal_okD(7) [OF assms(1)]])
  then show ?thesis
    using assms(2-4,9) find ready new
    by (simp add: start_goal_step_def require_status_def refresh_ready_steps_ok [OF gok])
qed

text \<open>Goals as they are created: drafts whose steps have not been tried.\<close>

definition fresh_goal :: "goal \<Rightarrow> bool" where
  "fresh_goal g \<longleftrightarrow>
     goal_ok g \<and> g_status g = GoalDraft \<and>
     (\<forall>s\<in>set (g_steps g). gs_status s = GPending \<and> gs_attempt s = 0)"

lemma fresh_goalD:
  assumes "fresh_goal g"
  shows "goal_ok g" and "goal_disciplined g" and "ended_goal g" and "one_running g" and "total_attempts g = 0"
proof -
  show "goal_ok g" using assms by (simp add: fresh_goal_def)
  then have "1 \<le> gs_max s" if "s \<in> set (g_steps g)" for s using goal_okD(2) [of g s] that by (simp add: step_ok_def)
  then show "goal_disciplined g"
    using assms by (fastforce simp: fresh_goal_def goal_disciplined_def disciplined_def)
  show "ended_goal g" "one_running g"
    using assms by (simp_all add: fresh_goal_def ended_goal_def one_running_def)
  have "map gs_attempt (g_steps g) = map (\<lambda>_. 0) (g_steps g)" using assms by (simp add: fresh_goal_def)
  then show "total_attempts g = 0" unfolding total_attempts_def by (simp only: sum_list_0)
qed

end
