(* ===== verification/GoalCodec.thy ===== *)
theory GoalCodec
  imports GoalFacts
begin

text \<open>
  The dictionary form of goals (\<^verbatim>\<open>to_dict\<close> and \<^verbatim>\<open>goal_from_dict\<close> of \<^verbatim>\<open>goals/models.py\<close>), in
  which the goal store writes and reads its snapshots, the digest of what counts as success,
  and the proof that reading back what was written gives the goal.

  Python's \<^verbatim>\<open>str\<close>, \<^verbatim>\<open>int\<close> and \<^verbatim>\<open>bool\<close> of a JSON value are written out; \<open>PTime\<close> and
  \<open>PDec\<close> stand for the texts of instants and decimals, as in the other theories.
\<close>

section \<open>Python conversions of JSON values\<close>

definition repr_char :: "char \<Rightarrow> char \<Rightarrow> string" where
  "repr_char q c =
     (let n = of_char c :: nat in
      if c = q \<or> n = 92 then [CHR 0x5C, c]
      else if n = 9 then [CHR 0x5C, CHR ''t'']
      else if n = 10 then [CHR 0x5C, CHR ''n'']
      else if n = 13 then [CHR 0x5C, CHR ''r'']
      else if n < 32 \<or> 127 \<le> n \<and> n \<le> 160 \<or> n = 173
           then [CHR 0x5C, CHR ''x'', hex_digit (n div 16), hex_digit (n mod 16)]
      else [c])"

definition repr_str :: "string \<Rightarrow> string" where
  "repr_str s =
     (let q = (if CHR 0x27 \<in> set s \<and> CHR 0x22 \<notin> set s then CHR 0x22 else CHR 0x27)
      in q # concat (map (repr_char q) s) @ [q])"

fun join_texts :: "string list \<Rightarrow> string" where
  "join_texts [] = []"
| "join_texts [t] = t"
| "join_texts (t # u # ts) = t @ '', '' @ join_texts (u # ts)"

fun py_repr :: "pyval \<Rightarrow> string" where
  "py_repr PNone = ''None''"
| "py_repr (PBool b) = (if b then ''True'' else ''False'')"
| "py_repr (PInt i) = int_text i"
| "py_repr (PStr s) = repr_str s"
| "py_repr (PTime t) = repr_str (iso_utc t)"
| "py_repr (PDec d) = repr_str (decimal_text d)"
| "py_repr (PList xs) = ''['' @ join_texts (map py_repr xs) @ '']''"
| "py_repr (PTuple xs) =
     (case xs of [x] \<Rightarrow> ''('' @ py_repr x @ '',)'' | _ \<Rightarrow> ''('' @ join_texts (map py_repr xs) @ '')'')"
| "py_repr (PDict kvs) =
     ''{'' @ join_texts (map (\<lambda>(k, v). repr_str k @ '': '' @ v) (map (\<lambda>(k, v). (k, py_repr v)) kvs)) @ ''}''"

fun py_str :: "pyval \<Rightarrow> string" where
  "py_str (PStr s) = s"
| "py_str (PTime t) = iso_utc t"
| "py_str (PDec d) = decimal_text d"
| "py_str v = py_repr v"

text \<open>Decimal text to integer, with the single underscores Python allows between digits.\<close>

definition is_digit :: "char \<Rightarrow> bool" where
  "is_digit c = (CHR ''0'' \<le> c \<and> c \<le> CHR ''9'')"

fun digits_value :: "int \<Rightarrow> bool \<Rightarrow> string \<Rightarrow> int option" where
  "digits_value acc after_digit [] = (if after_digit then Some acc else None)"
| "digits_value acc after_digit (c # s) =
     (if is_digit c then digits_value (acc * 10 + int (of_char c) - 48) True s
      else if c = CHR ''_'' \<and> after_digit then digits_value acc False s else None)"

definition text_to_int :: "string \<Rightarrow> int option" where
  "text_to_int s =
     (case strip s of
        [] \<Rightarrow> None
      | c # t \<Rightarrow> if c = CHR ''-'' then map_option uminus (digits_value 0 False t)
                 else if c = CHR ''+'' then digits_value 0 False t else digits_value 0 False (c # t))"

definition py_int :: "pyval \<Rightarrow> int result" where
  "py_int v =
     (case v of
        PInt i \<Rightarrow> Inr i
      | PBool b \<Rightarrow> Inr (if b then 1 else 0)
      | PStr s \<Rightarrow> row_or ValueError (text_to_int s)
      | PDec d \<Rightarrow> row_or ValueError (text_to_int (decimal_text d))
      | PTime t \<Rightarrow> Inl ValueError
      | _ \<Rightarrow> Inl TypeError)"

definition py_truth :: "pyval \<Rightarrow> bool" where
  "py_truth v =
     (case v of PNone \<Rightarrow> False | PBool b \<Rightarrow> b | PInt i \<Rightarrow> i \<noteq> 0 | PStr s \<Rightarrow> s \<noteq> [] | PTime t \<Rightarrow> True
      | PDec d \<Rightarrow> True | PList xs \<Rightarrow> xs \<noteq> [] | PTuple xs \<Rightarrow> xs \<noteq> [] | PDict kvs \<Rightarrow> kvs \<noteq> [])"

section \<open>Reading fields\<close>

text \<open>\<^verbatim>\<open>d[k]\<close> and \<^verbatim>\<open>d.get(k, default)\<close>\<close>

definition item :: "pydict \<Rightarrow> string \<Rightarrow> pyval result" where
  "item d k = row_or KeyError (map_of d k)"

definition get_or :: "pydict \<Rightarrow> string \<Rightarrow> pyval \<Rightarrow> pyval" where
  "get_or d k v = (case map_of d k of None \<Rightarrow> v | Some u \<Rightarrow> u)"

definition text_item :: "pydict \<Rightarrow> string \<Rightarrow> string result" where
  "text_item d k = and_then (item d k) (\<lambda>v. Inr (py_str v))"

definition as_mapping :: "pyval \<Rightarrow> pydict result" where
  "as_mapping v = (case v of PDict d \<Rightarrow> Inr d | _ \<Rightarrow> Inl ValueError)"

definition as_items :: "pyval \<Rightarrow> pyval list result" where
  "as_items v = (case v of PList xs \<Rightarrow> Inr xs | PTuple xs \<Rightarrow> Inr xs | _ \<Rightarrow> Inl ValueError)"

definition mapping_items :: "pyval \<Rightarrow> pydict list result" where
  "mapping_items v = and_then (as_items v) (map_result as_mapping)"

definition as_strings :: "pyval \<Rightarrow> string list result" where
  "as_strings v = and_then (as_items v) (\<lambda>xs. Inr (map py_str xs))"

definition optional_text_value :: "pyval \<Rightarrow> string option" where
  "optional_text_value v = (if v = PNone then None else goal_text_opt (Some (py_str v)))"

definition as_datetime :: "pyval \<Rightarrow> int result" where
  "as_datetime v = (case v of PTime t \<Rightarrow> Inr t | _ \<Rightarrow> Inl ValueError)"

definition optional_datetime :: "pyval \<Rightarrow> int option result" where
  "optional_datetime v = (if v = PNone then Inr None else and_then (as_datetime v) (\<lambda>t. Inr (Some t)))"

definition optional_int :: "pyval \<Rightarrow> int option result" where
  "optional_int v = (case v of PNone \<Rightarrow> Inr None | PInt i \<Rightarrow> Inr (Some i) | _ \<Rightarrow> Inl ValueError)"

text \<open>\<^verbatim>\<open>E(text)\<close> for the enumerations of goals.\<close>

definition enum_of :: "('e \<Rightarrow> string) \<Rightarrow> 'e list \<Rightarrow> string \<Rightarrow> 'e result" where
  "enum_of val members s = row_or ValueError (find (\<lambda>m. val m = s) members)"

definition goal_status_of :: "string \<Rightarrow> goal_status result" where
  "goal_status_of = enum_of goal_status_value
     [GoalDraft, GoalApproved, GoalRunning, GoalPaused, GoalBlocked, GoalCompleted, GoalCancelled, GoalFailed]"

definition gstep_status_of :: "string \<Rightarrow> gstep_status result" where
  "gstep_status_of = enum_of gstep_status_value
     [GPending, GReady, GRunning, GBlocked, GCompleted, GSkipped, GFailed, GUncertain]"

definition goal_risk_of :: "string \<Rightarrow> goal_risk result" where
  "goal_risk_of = enum_of goal_risk_value [RiskLow, RiskMedium, RiskHigh]"

lemma goal_enums_of_value [simp]:
  "goal_status_of (goal_status_value a) = Inr a"
  "gstep_status_of (gstep_status_value b) = Inr b"
  "goal_risk_of (goal_risk_value c) = Inr c"
proof -
  show "goal_status_of (goal_status_value a) = Inr a"
    by (cases a) (simp_all add: goal_status_of_def enum_of_def row_or_def)
  show "gstep_status_of (gstep_status_value b) = Inr b"
    by (cases b) (simp_all add: gstep_status_of_def enum_of_def row_or_def)
  show "goal_risk_of (goal_risk_value c) = Inr c"
    by (cases c) (simp_all add: goal_risk_of_def enum_of_def row_or_def)
qed

section \<open>Writing\<close>

abbreviation strs :: "string list \<Rightarrow> pyval" where
  "strs xs \<equiv> PList (map PStr xs)"

abbreviation opt_time :: "int option \<Rightarrow> pyval" where
  "opt_time v \<equiv> (case v of None \<Rightarrow> PNone | Some t \<Rightarrow> PTime t)"

text \<open>\<^verbatim>\<open>_plain\<close> of a mapping.\<close>

definition plain_mapping :: "pydict \<Rightarrow> pydict" where
  "plain_mapping d = map (\<lambda>(k, v). (k, plain_data v)) d"

definition criterion_to_dict :: "goal_criterion \<Rightarrow> pydict" where
  "criterion_to_dict c = [(''id'', PStr (gc_id c)), (''description'', PStr (gc_description c))]"

definition evidence_to_dict :: "goal_evidence \<Rightarrow> pydict" where
  "evidence_to_dict e =
     [(''id'', PStr (ge_id e)), (''summary'', PStr (ge_summary e)),
      (''criterion_ids'', strs (ge_criteria e)), (''step_id'', opt_str (ge_step e)),
      (''kind'', PStr (ge_kind e)), (''reference'', opt_str (ge_reference e)),
      (''recorded_by'', PStr (ge_by e)), (''recorded_at'', PTime (ge_at e)),
      (''metadata'', PDict (plain_mapping (ge_metadata e)))]"

definition approval_to_dict :: "goal_approval \<Rightarrow> pydict" where
  "approval_to_dict a =
     [(''id'', PStr (ga_id a)), (''approved_by'', PStr (ga_by a)), (''scope'', PStr (ga_scope a)),
      (''step_id'', opt_str (ga_step a)), (''reason'', opt_str (ga_reason a)),
      (''created_at'', PTime (ga_at a))]"

definition steering_to_dict :: "goal_steering \<Rightarrow> pydict" where
  "steering_to_dict t =
     [(''id'', PStr (gt_id t)), (''instruction'', PStr (gt_instruction t)),
      (''created_by'', PStr (gt_by t)), (''created_at'', PTime (gt_at t)),
      (''supersedes'', strs (gt_supersedes t))]"

definition step_to_dict :: "goal_step \<Rightarrow> pydict" where
  "step_to_dict s =
     [(''id'', PStr (gs_id s)), (''title'', PStr (gs_title s)), (''description'', PStr (gs_description s)),
      (''acceptance_criterion_ids'', strs (gs_criteria s)), (''depends_on'', strs (gs_depends s)),
      (''risk'', PStr (goal_risk_value (gs_risk s))), (''expected_tools'', strs (gs_tools s)),
      (''status'', PStr (gstep_status_value (gs_status s))), (''attempt'', PInt (gs_attempt s)),
      (''max_attempts'', PInt (gs_max s)), (''evidence_ids'', strs (gs_evidence s)),
      (''blocked_reason'', opt_str (gs_blocked s)), (''skip_reason'', opt_str (gs_skip s)),
      (''started_at'', opt_time (gs_started s)), (''completed_at'', opt_time (gs_completed s))]"

definition goal_to_dict :: "goal \<Rightarrow> pydict" where
  "goal_to_dict g =
     [(''id'', PStr (g_id g)), (''profile_id'', PStr (g_profile g)), (''title'', PStr (g_title g)),
      (''description'', opt_str (g_description g)), (''constraints'', strs (g_constraints g)),
      (''steering_fulfillments'', PDict (map (\<lambda>(k, refs). (k, strs refs)) (g_fulfilled g))),
      (''acceptance_criteria'', PList (map (\<lambda>c. PDict (criterion_to_dict c)) (g_criteria g))),
      (''steps'', PList (map (\<lambda>s. PDict (step_to_dict s)) (g_steps g))),
      (''budget'', PDict (budget_to_dict (g_budget g))),
      (''status'', PStr (goal_status_value (g_status g))), (''revision'', PInt (g_revision g)),
      (''evidence'', PList (map (\<lambda>e. PDict (evidence_to_dict e)) (g_evidence g))),
      (''approvals'', PList (map (\<lambda>a. PDict (approval_to_dict a)) (g_approvals g))),
      (''steering'', PList (map (\<lambda>t. PDict (steering_to_dict t)) (g_steering g))),
      (''source_conversation_id'', opt_str (g_conversation g)), (''source_turn_id'', opt_str (g_turn g)),
      (''source_plan'', case g_plan g of None \<Rightarrow> PNone | Some p \<Rightarrow> PDict (plain_mapping p)),
      (''child_task_ids'', strs (g_children g)), (''schedule_ids'', strs (g_schedules g)),
      (''process_ids'', strs (g_processes g)), (''trace_ids'', strs (g_traces g)),
      (''artifact_refs'', strs (g_artifacts g)), (''cancellation_requested'', PBool (g_cancel g)),
      (''created_at'', PTime (g_created_at g)), (''updated_at'', PTime (g_updated g)),
      (''approved_at'', opt_time (g_approved g)), (''started_at'', opt_time (g_started g)),
      (''completed_at'', opt_time (g_completed g)), (''last_error'', opt_str (g_error g))]"

section \<open>Reading\<close>

definition criterion_from_dict :: "pydict \<Rightarrow> goal_criterion result" where
  "criterion_from_dict d =
     and_then (text_item d ''id'') (\<lambda>i.
     and_then (text_item d ''description'') (\<lambda>desc.
       make_criterion \<lparr>gc_id = i, gc_description = desc\<rparr>))"

definition step_from_dict :: "pydict \<Rightarrow> goal_step result" where
  "step_from_dict d =
     and_then (text_item d ''id'') (\<lambda>i.
     and_then (text_item d ''title'') (\<lambda>title.
     and_then (text_item d ''description'') (\<lambda>desc.
     and_then (as_strings (get_or d ''acceptance_criterion_ids'' (PTuple []))) (\<lambda>criteria.
     and_then (as_strings (get_or d ''depends_on'' (PTuple []))) (\<lambda>depends.
     and_then (goal_risk_of (py_str (get_or d ''risk'' (PStr ''low'')))) (\<lambda>risk.
     and_then (as_strings (get_or d ''expected_tools'' (PTuple []))) (\<lambda>tools.
     and_then (gstep_status_of (py_str (get_or d ''status'' (PStr ''pending'')))) (\<lambda>status.
     and_then (py_int (get_or d ''attempt'' (PInt 0))) (\<lambda>attempt.
     and_then (py_int (get_or d ''max_attempts'' (PInt 1))) (\<lambda>limit.
     and_then (as_strings (get_or d ''evidence_ids'' (PTuple []))) (\<lambda>evidence.
     and_then (optional_datetime (get_or d ''started_at'' PNone)) (\<lambda>started.
     and_then (optional_datetime (get_or d ''completed_at'' PNone)) (\<lambda>completed.
       make_step \<lparr>gs_id = i, gs_title = title, gs_description = desc, gs_criteria = criteria,
         gs_depends = depends, gs_risk = risk, gs_tools = tools, gs_status = status,
         gs_attempt = attempt, gs_max = limit, gs_evidence = evidence,
         gs_blocked = optional_text_value (get_or d ''blocked_reason'' PNone),
         gs_skip = optional_text_value (get_or d ''skip_reason'' PNone),
         gs_started = started, gs_completed = completed\<rparr>)))))))))))))"

definition evidence_from_dict :: "pydict \<Rightarrow> goal_evidence result" where
  "evidence_from_dict d =
     and_then (text_item d ''id'') (\<lambda>i.
     and_then (text_item d ''summary'') (\<lambda>summary.
     and_then (as_strings (get_or d ''criterion_ids'' (PTuple []))) (\<lambda>criteria.
     and_then (item d ''recorded_at'') (\<lambda>at_value.
     and_then (as_datetime at_value) (\<lambda>recorded.
     and_then (as_mapping (get_or d ''metadata'' (PDict []))) (\<lambda>metadata.
       make_evidence \<lparr>ge_id = i, ge_summary = summary, ge_criteria = criteria,
         ge_step = optional_text_value (get_or d ''step_id'' PNone),
         ge_kind = py_str (get_or d ''kind'' (PStr ''observation'')),
         ge_reference = optional_text_value (get_or d ''reference'' PNone),
         ge_by = py_str (get_or d ''recorded_by'' (PStr ''runner'')), ge_at = recorded,
         ge_metadata = metadata\<rparr>))))))"

definition approval_from_dict :: "pydict \<Rightarrow> goal_approval result" where
  "approval_from_dict d =
     and_then (text_item d ''id'') (\<lambda>i.
     and_then (text_item d ''approved_by'') (\<lambda>who.
     and_then (item d ''created_at'') (\<lambda>at_value.
     and_then (as_datetime at_value) (\<lambda>created.
       make_approval \<lparr>ga_id = i, ga_by = who, ga_scope = py_str (get_or d ''scope'' (PStr ''goal'')),
         ga_step = optional_text_value (get_or d ''step_id'' PNone),
         ga_reason = optional_text_value (get_or d ''reason'' PNone), ga_at = created\<rparr>))))"

definition steering_from_dict :: "pydict \<Rightarrow> goal_steering result" where
  "steering_from_dict d =
     and_then (text_item d ''id'') (\<lambda>i.
     and_then (text_item d ''instruction'') (\<lambda>instruction.
     and_then (text_item d ''created_by'') (\<lambda>who.
     and_then (item d ''created_at'') (\<lambda>at_value.
     and_then (as_datetime at_value) (\<lambda>created.
     and_then (as_strings (get_or d ''supersedes'' (PTuple []))) (\<lambda>supersedes.
       make_steering \<lparr>gt_id = i, gt_instruction = instruction, gt_by = who, gt_at = created,
         gt_supersedes = supersedes\<rparr>))))))"

text \<open>\<^verbatim>\<open>Decimal(str(v))\<close> of a JSON value that holds a decimal or an integer.\<close>

definition goal_decimal :: "pyval \<Rightarrow> decimal option result" where
  "goal_decimal v =
     (case v of PNone \<Rightarrow> Inr None | PDec d \<Rightarrow> Inr (Some d) | PInt n \<Rightarrow> Inr (Some (Dec n 0))
      | _ \<Rightarrow> Inl InvalidOperation)"

definition goal_cost_from_dict :: "pyval \<Rightarrow> exact_cost option result" where
  "goal_cost_from_dict v =
     (if v = PNone then Inr None
      else and_then (as_mapping v) (\<lambda>d.
           and_then (goal_decimal (get_or d ''amount'' PNone)) (\<lambda>amount.
           and_then (make_cost \<lparr>xc_amount = amount, xc_currency = py_str (get_or d ''currency'' (PStr ''USD'')),
               xc_known = py_truth (get_or d ''pricing_known'' (PBool False)),
               xc_estimated = py_truth (get_or d ''estimated'' (PBool False)),
               xc_reported = py_truth (get_or d ''reported'' (PBool False))\<rparr>) (\<lambda>c. Inr (Some c)))))"

definition goal_budget_from_dict :: "pydict \<Rightarrow> run_budget result" where
  "goal_budget_from_dict d =
     and_then (goal_cost_from_dict (get_or d ''max_cost'' PNone)) (\<lambda>cost.
     and_then (budget_scope_of (py_str (get_or d ''scope'' (PStr ''goal'')))) (\<lambda>scope.
     and_then (optional_int (get_or d ''max_model_calls'' PNone)) (\<lambda>model_calls.
     and_then (optional_int (get_or d ''max_tool_calls'' PNone)) (\<lambda>tool_calls.
     and_then (optional_int (get_or d ''max_tokens'' PNone)) (\<lambda>tokens.
     and_then (optional_datetime (get_or d ''deadline'' PNone)) (\<lambda>deadline.
     and_then (unknown_cost_of (py_str (get_or d ''unknown_cost_policy'' (PStr ''fail_closed'')))) (\<lambda>unknown.
       make_budget \<lparr>b_scope = scope, b_model_calls = model_calls, b_tool_calls = tool_calls,
         b_tokens = tokens, b_cost = cost, b_deadline = deadline, b_unknown = unknown\<rparr>)))))))"

definition fulfillment_item :: "string \<times> pyval \<Rightarrow> (string \<times> string list) result" where
  "fulfillment_item kv = (case kv of (k, v) \<Rightarrow> and_then (as_strings v) (\<lambda>refs. Inr (k, refs)))"

definition goal_from_dict :: "pydict \<Rightarrow> goal result" where
  "goal_from_dict d =
     and_then (as_mapping (get_or d ''budget'' PNone)) (\<lambda>budget_dict.
     and_then (goal_budget_from_dict budget_dict) (\<lambda>budget.
     and_then (text_item d ''id'') (\<lambda>i.
     and_then (text_item d ''profile_id'') (\<lambda>profile.
     and_then (text_item d ''title'') (\<lambda>title.
     and_then (as_strings (get_or d ''constraints'' (PTuple []))) (\<lambda>constraints.
     and_then (as_mapping (get_or d ''steering_fulfillments'' (PDict []))) (\<lambda>fulfillments.
     and_then (map_result fulfillment_item fulfillments) (\<lambda>fulfilled.
     and_then (mapping_items (get_or d ''acceptance_criteria'' PNone)) (\<lambda>criteria_dicts.
     and_then (map_result criterion_from_dict criteria_dicts) (\<lambda>criteria.
     and_then (mapping_items (get_or d ''steps'' PNone)) (\<lambda>step_dicts.
     and_then (map_result step_from_dict step_dicts) (\<lambda>steps.
     and_then (goal_status_of (py_str (get_or d ''status'' (PStr ''draft'')))) (\<lambda>status.
     and_then (py_int (get_or d ''revision'' (PInt 0))) (\<lambda>revision.
     and_then (mapping_items (get_or d ''evidence'' (PTuple []))) (\<lambda>evidence_dicts.
     and_then (map_result evidence_from_dict evidence_dicts) (\<lambda>evidence.
     and_then (mapping_items (get_or d ''approvals'' (PTuple []))) (\<lambda>approval_dicts.
     and_then (map_result approval_from_dict approval_dicts) (\<lambda>approvals.
     and_then (mapping_items (get_or d ''steering'' (PTuple []))) (\<lambda>steering_dicts.
     and_then (map_result steering_from_dict steering_dicts) (\<lambda>steering.
     and_then (if get_or d ''source_plan'' PNone = PNone then Inr None
               else and_then (as_mapping (get_or d ''source_plan'' PNone)) (\<lambda>p. Inr (Some p))) (\<lambda>plan.
     and_then (as_strings (get_or d ''child_task_ids'' (PTuple []))) (\<lambda>children.
     and_then (as_strings (get_or d ''schedule_ids'' (PTuple []))) (\<lambda>schedules.
     and_then (as_strings (get_or d ''process_ids'' (PTuple []))) (\<lambda>processes.
     and_then (as_strings (get_or d ''trace_ids'' (PTuple []))) (\<lambda>traces.
     and_then (as_strings (get_or d ''artifact_refs'' (PTuple []))) (\<lambda>artifacts.
     and_then (and_then (item d ''created_at'') as_datetime) (\<lambda>created.
     and_then (and_then (item d ''updated_at'') as_datetime) (\<lambda>updated.
     and_then (optional_datetime (get_or d ''approved_at'' PNone)) (\<lambda>approved.
     and_then (optional_datetime (get_or d ''started_at'' PNone)) (\<lambda>started.
     and_then (optional_datetime (get_or d ''completed_at'' PNone)) (\<lambda>completed.
       make_goal \<lparr>g_id = i, g_profile = profile, g_title = title, g_criteria = criteria,
         g_steps = steps, g_budget = budget, g_status = status, g_revision = revision,
         g_evidence = evidence, g_approvals = approvals, g_steering = steering,
         g_conversation = optional_text_value (get_or d ''source_conversation_id'' PNone),
         g_turn = optional_text_value (get_or d ''source_turn_id'' PNone), g_plan = plan,
         g_children = children, g_schedules = schedules, g_processes = processes,
         g_traces = traces, g_artifacts = artifacts,
         g_cancel = py_truth (get_or d ''cancellation_requested'' (PBool False)),
         g_created_at = created, g_updated = updated, g_approved = approved, g_started = started,
         g_completed = completed,
         g_error = optional_text_value (get_or d ''last_error'' PNone),
         g_description = optional_text_value (get_or d ''description'' PNone),
         g_constraints = constraints, g_fulfilled = fulfilled\<rparr>)))))))))))))))))))))))))))))))"

section \<open>Reading back what was written\<close>

lemma freeze_plain: "freeze_value v = v \<Longrightarrow> freeze_value (plain_data v) = v"
proof (induction v rule: pyval_induct)
  case (PTuple xs)
  have "freeze_value (plain_data x) = x" if "x \<in> set xs" for x
    using PTuple.IH [OF that] PTuple.prems that by (simp add: map_idI list_eq_iff_nth_eq) (metis in_set_conv_nth)
  then show ?case by (simp add: map_idI)
next
  case (PDict kvs)
  have "freeze_value v = v" if "(k, v) \<in> set kvs" for k v
  proof -
    from PDict.prems have "map (\<lambda>(k, v). (k, freeze_value v)) kvs = kvs" by simp
    then have "(\<lambda>(k, v). (k, freeze_value v)) (k, v) = (k, v)"
      using that by (metis (no_types, lifting) in_set_conv_nth nth_map)
    then show ?thesis by simp
  qed
  then have "freeze_value (plain_data v) = v" if "(k, v) \<in> set kvs" for k v
    using PDict.IH that by blast
  then show ?case by (auto intro!: map_idI)
qed simp_all

lemma freeze_plain_mapping:
  assumes "freeze_mapping d = d" shows "freeze_mapping (plain_mapping d) = d"
proof -
  have "freeze_value (plain_data (PDict d)) = PDict d"
    by (rule freeze_plain) (use assms in \<open>simp add: freeze_mapping_def\<close>)
  then show ?thesis by (simp add: freeze_mapping_def plain_mapping_def)
qed

lemma py_str_strs [simp]: "as_strings (strs xs) = Inr xs"
  by (simp add: as_strings_def as_items_def comp_def)

lemma optional_text_read [simp]: "optional_text_value (opt_str v) = goal_text_opt v"
  by (cases v) (simp_all add: optional_text_value_def)

lemma optional_datetime_read [simp]: "optional_datetime (opt_time v) = Inr v"
  by (cases v) (simp_all add: optional_datetime_def as_datetime_def)

lemma optional_int_read [simp]: "optional_int (opt_int v) = Inr v"
  by (cases v) (simp_all add: optional_int_def)

lemma simple_reads [simp]:
  "py_int (PInt i) = Inr i" "as_mapping (PDict d) = Inr d" "py_truth (PBool b) = b"
  "as_datetime (PTime t) = Inr t"
  by (simp_all add: py_int_def as_mapping_def py_truth_def as_datetime_def)

lemma mapping_items_read [simp]: "mapping_items (PList (map (\<lambda>x. PDict (f x)) xs)) = Inr (map f xs)"
  by (induction xs) (auto simp: mapping_items_def as_items_def)

lemma map_result_read:
  "(\<And>x. x \<in> set xs \<Longrightarrow> rd (f x) = Inr x) \<Longrightarrow> map_result rd (map f xs) = Inr xs"
  by (induction xs) auto

lemma criterion_read:
  assumes "make_criterion c = Inr c" shows "criterion_from_dict (criterion_to_dict c) = Inr c"
  using assms by (cases c) (simp add: criterion_from_dict_def criterion_to_dict_def text_item_def item_def row_or_def)

lemma step_read:
  assumes "step_ok s" shows "step_from_dict (step_to_dict s) = Inr s"
proof -
  have "goal_text_opt (gs_blocked s) = gs_blocked s" "goal_text_opt (gs_skip s) = gs_skip s"
    using assms by (simp_all add: step_ok_def)
  then show ?thesis
    using make_step_id [OF assms]
    by (cases s) (simp add: step_from_dict_def step_to_dict_def text_item_def item_def row_or_def get_or_def)
qed

lemma evidence_read:
  assumes "make_evidence e = Inr e" shows "evidence_from_dict (evidence_to_dict e) = Inr e"
proof -
  have fz: "freeze_mapping (ge_metadata e) = ge_metadata e" and opt: "goal_text_opt (ge_step e) = ge_step e"
      "goal_text_opt (ge_reference e) = ge_reference e"
    using assms by (auto simp: make_evidence_def result_simps) (metis goal_evidence.select_convs)+
  have "make_evidence (e\<lparr>ge_metadata := plain_mapping (ge_metadata e)\<rparr>) = Inr e"
    using assms freeze_plain_mapping [OF fz] by (auto simp: make_evidence_def result_simps fz)
  then show ?thesis
    by (cases e) (use opt in \<open>simp add: evidence_from_dict_def evidence_to_dict_def text_item_def item_def
        row_or_def get_or_def\<close>)
qed

lemma approval_read:
  assumes "make_approval a = Inr a" shows "approval_from_dict (approval_to_dict a) = Inr a"
proof -
  have "goal_text_opt (ga_step a) = ga_step a" "goal_text_opt (ga_reason a) = ga_reason a"
    using assms by (auto simp: make_approval_def Let_def result_simps) (metis goal_approval.select_convs)+
  then show ?thesis using assms
    by (cases a) (simp add: approval_from_dict_def approval_to_dict_def text_item_def item_def row_or_def get_or_def)
qed

lemma steering_read:
  assumes "make_steering t = Inr t" shows "steering_from_dict (steering_to_dict t) = Inr t"
  using assms
  by (cases t) (simp add: steering_from_dict_def steering_to_dict_def text_item_def item_def row_or_def get_or_def)

lemma goal_budget_read:
  assumes "budget_ok b" shows "goal_budget_from_dict (budget_to_dict b) = Inr b"
proof -
  have cost: "goal_cost_from_dict (case b_cost b of None \<Rightarrow> PNone | Some c \<Rightarrow> PDict (cost_to_dict c)) = Inr (b_cost b)"
  proof (cases "b_cost b")
    case None
    then show ?thesis by (simp add: goal_cost_from_dict_def)
  next
    case (Some c)
    then have "make_cost c = Inr c" using assms by (simp add: budget_ok_def cost_ok_def)
    then show ?thesis
      by (cases c) (auto simp: Some goal_cost_from_dict_def cost_to_dict_def get_or_def goal_decimal_def
          split: option.splits)
  qed
  have "make_budget b = Inr b" using assms by (simp add: budget_ok_def)
  then show ?thesis using cost
    by (cases b) (simp add: goal_budget_from_dict_def budget_to_dict_def get_or_def)
qed

text \<open>A goal all of whose parts were constructed.\<close>

definition goal_built :: "goal \<Rightarrow> bool" where
  "goal_built g \<longleftrightarrow>
     goal_ok g \<and> budget_ok (g_budget g) \<and>
     (\<forall>c\<in>set (g_criteria g). make_criterion c = Inr c) \<and>
     (\<forall>e\<in>set (g_evidence g). make_evidence e = Inr e) \<and>
     (\<forall>a\<in>set (g_approvals g). make_approval a = Inr a) \<and>
     (\<forall>t\<in>set (g_steering g). make_steering t = Inr t)"

lemma fulfillment_read [simp]:
  "map_result fulfillment_item (map (\<lambda>(k, refs). (k, strs refs)) fs) = Inr fs"
  by (induction fs) (auto simp: fulfillment_item_def)

lemma goal_dict_fields [simp]:
  "get_or (goal_to_dict g) ''budget'' v = PDict (budget_to_dict (g_budget g))"
  "item (goal_to_dict g) ''id'' = Inr (PStr (g_id g))"
  "item (goal_to_dict g) ''profile_id'' = Inr (PStr (g_profile g))"
  "item (goal_to_dict g) ''title'' = Inr (PStr (g_title g))"
  "get_or (goal_to_dict g) ''description'' v = opt_str (g_description g)"
  "get_or (goal_to_dict g) ''constraints'' v = strs (g_constraints g)"
  "get_or (goal_to_dict g) ''steering_fulfillments'' v = PDict (map (\<lambda>(k, refs). (k, strs refs)) (g_fulfilled g))"
  "get_or (goal_to_dict g) ''acceptance_criteria'' v = PList (map (\<lambda>c. PDict (criterion_to_dict c)) (g_criteria g))"
  "get_or (goal_to_dict g) ''steps'' v = PList (map (\<lambda>s. PDict (step_to_dict s)) (g_steps g))"
  "get_or (goal_to_dict g) ''status'' v = PStr (goal_status_value (g_status g))"
  "get_or (goal_to_dict g) ''revision'' v = PInt (g_revision g)"
  "get_or (goal_to_dict g) ''evidence'' v = PList (map (\<lambda>e. PDict (evidence_to_dict e)) (g_evidence g))"
  "get_or (goal_to_dict g) ''approvals'' v = PList (map (\<lambda>a. PDict (approval_to_dict a)) (g_approvals g))"
  "get_or (goal_to_dict g) ''steering'' v = PList (map (\<lambda>t. PDict (steering_to_dict t)) (g_steering g))"
  "get_or (goal_to_dict g) ''source_conversation_id'' v = opt_str (g_conversation g)"
  "get_or (goal_to_dict g) ''source_turn_id'' v = opt_str (g_turn g)"
  "get_or (goal_to_dict g) ''source_plan'' v =
     (case g_plan g of None \<Rightarrow> PNone | Some p \<Rightarrow> PDict (plain_mapping p))"
  "get_or (goal_to_dict g) ''child_task_ids'' v = strs (g_children g)"
  "get_or (goal_to_dict g) ''schedule_ids'' v = strs (g_schedules g)"
  "get_or (goal_to_dict g) ''process_ids'' v = strs (g_processes g)"
  "get_or (goal_to_dict g) ''trace_ids'' v = strs (g_traces g)"
  "get_or (goal_to_dict g) ''artifact_refs'' v = strs (g_artifacts g)"
  "get_or (goal_to_dict g) ''cancellation_requested'' v = PBool (g_cancel g)"
  "item (goal_to_dict g) ''created_at'' = Inr (PTime (g_created_at g))"
  "item (goal_to_dict g) ''updated_at'' = Inr (PTime (g_updated g))"
  "get_or (goal_to_dict g) ''approved_at'' v = opt_time (g_approved g)"
  "get_or (goal_to_dict g) ''started_at'' v = opt_time (g_started g)"
  "get_or (goal_to_dict g) ''completed_at'' v = opt_time (g_completed g)"
  "get_or (goal_to_dict g) ''last_error'' v = opt_str (g_error g)"
  by (simp_all add: goal_to_dict_def get_or_def item_def row_or_def)

lemma goal_plan_eta:
  "g\<lparr>g_plan := q\<rparr> =
     \<lparr>g_id = g_id g, g_profile = g_profile g, g_title = g_title g, g_criteria = g_criteria g,
      g_steps = g_steps g, g_budget = g_budget g, g_status = g_status g, g_revision = g_revision g,
      g_evidence = g_evidence g, g_approvals = g_approvals g, g_steering = g_steering g, g_conversation = g_conversation g,
      g_turn = g_turn g, g_plan = q, g_children = g_children g, g_schedules = g_schedules g,
      g_processes = g_processes g, g_traces = g_traces g, g_artifacts = g_artifacts g, g_cancel = g_cancel g,
      g_created_at = g_created_at g, g_updated = g_updated g, g_approved = g_approved g, g_started = g_started g,
      g_completed = g_completed g, g_error = g_error g, g_description = g_description g, g_constraints = g_constraints g,
      g_fulfilled = g_fulfilled g\<rparr>"
  by (cases g) simp

theorem goal_from_to_dict:
  assumes "goal_built g"
  shows "goal_from_dict (goal_to_dict g) = Inr g"
proof -
  have ok: "goal_ok g" and b: "budget_ok (g_budget g)" using assms by (simp_all add: goal_built_def)
  have clean: "goal_clean g" using make_goal_clean goal_okD(7) [OF ok] by blast
  then have opts: "goal_text_opt (g_conversation g) = g_conversation g" "goal_text_opt (g_turn g) = g_turn g"
      "goal_text_opt (g_error g) = g_error g" "goal_text_opt (g_description g) = g_description g"
      and plan: "map_option freeze_mapping (g_plan g) = g_plan g"
    by (auto simp: goal_clean_def goal_text_opt_def clean_goal_text_def split: option.splits)
  have lists:
    "map_result criterion_from_dict (map criterion_to_dict (g_criteria g)) = Inr (g_criteria g)"
    "map_result step_from_dict (map step_to_dict (g_steps g)) = Inr (g_steps g)"
    "map_result evidence_from_dict (map evidence_to_dict (g_evidence g)) = Inr (g_evidence g)"
    "map_result approval_from_dict (map approval_to_dict (g_approvals g)) = Inr (g_approvals g)"
    "map_result steering_from_dict (map steering_to_dict (g_steering g)) = Inr (g_steering g)"
    using assms goal_okD(2) [OF ok]
    by (auto simp: goal_built_def intro!: map_result_read criterion_read step_read evidence_read
        approval_read steering_read)
  have p: "freeze_mapping (plain_mapping d) = d" if "g_plan g = Some d" for d
    using plan that by (intro freeze_plain_mapping) simp
  have p': "map_option (\<lambda>d. freeze_mapping (plain_mapping d)) (g_plan g) = g_plan g"
    using p by (cases "g_plan g") simp_all
  have mk: "make_goal (g\<lparr>g_plan := map_option plain_mapping (g_plan g)\<rparr>) = Inr g"
    using clean make_goal_fields(15) [OF goal_okD(7) [OF ok]] p' unfolding make_goal_def goal_clean_def
    by (cases g) (auto simp: unique_optional_clean option.map_comp comp_def split: option.splits)
  have "goal_from_dict (goal_to_dict g) = make_goal (g\<lparr>g_plan := map_option plain_mapping (g_plan g)\<rparr>)"
    unfolding goal_plan_eta
    by (cases "g_plan g") (simp_all add: goal_from_dict_def text_item_def lists opts goal_budget_read [OF b])
  then show ?thesis using mk by simp
qed

section \<open>What counts as success\<close>

text \<open>
  \<^verbatim>\<open>json.dumps(v, sort_keys=True)\<close> in Python's default format (blanks after separators,
  everything outside printable ASCII escaped) and \<^verbatim>\<open>verification_context_digest\<close>.
\<close>

definition ascii_char :: "char \<Rightarrow> string" where
  "ascii_char c =
     (let n = of_char c :: nat in
      if n < 127 then json_char c
      else [CHR 0x5C, CHR ''u'', CHR ''0'', CHR ''0'', hex_digit (n div 16), hex_digit (n mod 16)])"

definition ascii_string :: "string \<Rightarrow> string" where
  "ascii_string s = dquote # concat (map ascii_char s) @ [dquote]"

fun json_default :: "pyval \<Rightarrow> string" where
  "json_default PNone = ''null''"
| "json_default (PBool b) = (if b then ''true'' else ''false'')"
| "json_default (PInt i) = int_text i"
| "json_default (PStr s) = ascii_string s"
| "json_default (PTime t) = ascii_string (iso_utc t)"
| "json_default (PDec d) = ascii_string (decimal_text d)"
| "json_default (PList xs) = ''['' @ join_texts (map json_default xs) @ '']''"
| "json_default (PTuple xs) = ''['' @ join_texts (map json_default xs) @ '']''"
| "json_default (PDict kvs) =
     ''{'' @ join_texts (map (\<lambda>(k, t). ascii_string k @ '': '' @ t)
        (sort_key fst (map (\<lambda>(k, v). (k, json_default v)) kvs))) @ ''}''"

definition verification_context :: "goal \<Rightarrow> pydict" where
  "verification_context g =
     [(''description'', opt_str (g_description g)),
      (''constraints'', PTuple (map PStr (g_constraints g))),
      (''criteria'', PList (map (\<lambda>c. PDict (criterion_to_dict c)) (g_criteria g))),
      (''instructions'', PList (map (\<lambda>t. PDict (steering_to_dict t)) (active_steering g))),
      (''steps'', PList (map (\<lambda>s. PDict [(''id'', PStr (gs_id s)), (''description'', PStr (gs_description s)),
          (''criterion_ids'', PTuple (map PStr (gs_criteria s)))]) (g_steps g)))]"

definition verification_context_digest :: "world \<Rightarrow> goal \<Rightarrow> string" where
  "verification_context_digest w g = sha256 w (json_default (PDict (verification_context g)))"

end
