(* ===== verification/GoalStore.thy ===== *)
theory GoalStore
  imports GoalMachine StoreOps GoalCodec
begin

text \<open>
  The SQLite store of goals (\<^verbatim>\<open>goals/store.py\<close>): its tables with the constraints of the
  migrations, and its operations, each a transaction.  A snapshot column holds the goal whose
  JSON text the code stores (\<open>goal_from_to_dict\<close> reads back what was written); the columns the
  code lays over the snapshot are kept beside it.  Operations take the profile of the store
  and the time its clock reads.
\<close>

section \<open>Tables\<close>

record goal_row =
  gr_id :: string
  gr_profile :: string
  gr_title :: string
  gr_status :: goal_status
  gr_revision :: int
  gr_snapshot :: goal
  gr_cancel :: bool
  gr_token :: "string option"
  gr_runner :: "string option"
  gr_lease :: "int option"
  gr_created :: int
  gr_updated :: int
  gr_completed :: "int option"

record goal_event_row =
  gv_id :: string
  gv_goal :: string
  gv_profile :: string
  gv_revision :: int
  gv_kind :: string
  gv_actor :: string
  gv_payload :: pydict
  gv_created :: int

datatype action_state = ActStarted | ActCompleted | ActFailed | ActUncertain

record action_row =
  ck_id :: string
  ck_goal :: string
  ck_step :: string
  ck_profile :: string
  ck_key :: string
  ck_kind :: string
  ck_ref :: "string option"
  ck_state :: action_state
  ck_token :: string
  ck_result :: "pydict option"
  ck_error :: "string option"
  ck_created :: int
  ck_updated :: int
  ck_effect :: "string option"

record verification_row =
  vf_sequence :: int
  vf_goal :: string
  vf_profile :: string
  vf_step :: string
  vf_operation :: string
  vf_context :: string
  vf_evidence :: string
  vf_passed :: bool
  vf_feedback :: string
  vf_count :: int
  vf_created :: int
  vf_revision :: int
  vf_applied :: "int option"

record execution_row =
  xr_goal :: string
  xr_profile :: string
  xr_conversation :: string
  xr_turn :: "string option"
  xr_step :: "string option"
  xr_stop :: "string option"
  xr_usage :: pydict
  xr_exhausted :: "pydict option"

record slice_row =
  sl_turn :: string
  sl_goal :: string
  sl_profile :: string
  sl_step :: string
  sl_token :: string
  sl_revision :: int
  sl_state :: string
  sl_admitted :: int
  sl_finished :: "int option"
  sl_started :: bool
  sl_previous :: "string option"
  sl_new :: bool

record request_row =
  rq_id :: string
  rq_goal :: string
  rq_profile :: string
  rq_step :: string
  rq_conversation :: string
  rq_turn :: string
  rq_index :: int
  rq_purpose :: string
  rq_revision :: int
  rq_steering :: "string list"
  rq_token :: string
  rq_created :: int
  rq_response :: "string option"
  rq_incorporated :: "int option"

record incorporation_row =
  in_goal :: string
  in_profile :: string
  in_steering :: string
  in_request :: string

record goal_db =
  d_goals :: "goal_row list"
  d_events :: "goal_event_row list"
  d_actions :: "action_row list"
  d_verifications :: "verification_row list"
  d_executions :: "execution_row list"
  d_slices :: "slice_row list"
  d_requests :: "request_row list"
  d_incorporations :: "incorporation_row list"
  d_sequence :: int
  d_draws :: nat

type_synonym 'a goal_op = "(goal_db, 'a) op"

definition empty_goal_db :: goal_db where
  "empty_goal_db = \<lparr>d_goals = [], d_events = [], d_actions = [], d_verifications = [],
     d_executions = [], d_slices = [], d_requests = [], d_incorporations = [], d_sequence = 0,
     d_draws = 0\<rparr>"

text \<open>\<^verbatim>\<open>uuid4().hex\<close> and \<^verbatim>\<open>str(uuid4())\<close>\<close>

definition draw_uuid :: "world \<Rightarrow> string goal_op" where
  "draw_uuid w = (\<lambda>s. Inr (uuid4 w (d_draws s), s\<lparr>d_draws := Suc (d_draws s)\<rparr>))"

definition hyphenated :: "string \<Rightarrow> string" where
  "hyphenated h = take 8 h @ ''-'' @ take 4 (drop 8 h) @ ''-'' @ take 4 (drop 12 h) @ ''-'' @
     take 4 (drop 16 h) @ ''-'' @ drop 20 h"

text \<open>\<^verbatim>\<open>_json\<close> of a mapping, as it is read back: sorted keys, lists for sequences.\<close>

definition goal_json :: "pydict \<Rightarrow> pydict" where
  "goal_json d = sort_key fst (map (\<lambda>(k, v). (k, sort_keys v)) d)"

section \<open>Rows and goals\<close>

text \<open>\<^verbatim>\<open>_goal_from_row\<close>: the columns overlay the snapshot, and the goal is constructed.\<close>

definition goal_from_row :: "goal_row \<Rightarrow> goal result" where
  "goal_from_row r =
     make_goal ((gr_snapshot r)\<lparr>g_revision := gr_revision r, g_status := gr_status r,
       g_cancel := gr_cancel r, g_updated := gr_updated r, g_completed := gr_completed r\<rparr>)"

definition goal_row_of :: "string \<Rightarrow> string \<Rightarrow> goal_row goal_op" where
  "goal_row_of p i = select_row GoalNotFoundError (\<lambda>s. find (\<lambda>r. gr_id r = i \<and> gr_profile r = p) (d_goals s))"

definition new_goal_row :: "goal \<Rightarrow> goal_row" where
  "new_goal_row g = \<lparr>gr_id = g_id g, gr_profile = g_profile g, gr_title = g_title g, gr_status = g_status g,
     gr_revision = g_revision g, gr_snapshot = g, gr_cancel = g_cancel g, gr_token = None,
     gr_runner = None, gr_lease = None, gr_created = g_created_at g, gr_updated = g_updated g,
     gr_completed = g_completed g\<rparr>"

text \<open>\<^verbatim>\<open>_insert_goal\<close>, with the primary key and the checks of the table.\<close>

definition insert_goal_row :: "goal \<Rightarrow> goal_db \<Rightarrow> goal_db result" where
  "insert_goal_row g s =
     and_then (insert_row (0 \<le> g_revision g \<and> g_id g \<notin> gr_id ` set (d_goals s)) (new_goal_row g) (d_goals s))
       (\<lambda>rows. Inr (s\<lparr>d_goals := rows\<rparr>))"

text \<open>\<^verbatim>\<open>_insert_event\<close>\<close>

definition insert_goal_event ::
  "world \<Rightarrow> goal \<Rightarrow> string \<Rightarrow> string \<Rightarrow> pydict \<Rightarrow> int \<Rightarrow> unit goal_op" where
  "insert_goal_event w g kind actor payload now =
     bind (guard (strip kind \<noteq> [] \<and> strip actor \<noteq> []) ValueError) (\<lambda>_.
     bind (draw_uuid w) (\<lambda>i.
       modify_result (\<lambda>s.
         and_then (insert_row (i \<notin> gv_id ` set (d_events s)
             \<and> (g_id g, g_revision g) \<notin> (\<lambda>e. (gv_goal e, gv_revision e)) ` set (d_events s)
             \<and> g_id g \<in> gr_id ` set (d_goals s) \<and> 0 \<le> g_revision g)
           \<lparr>gv_id = i, gv_goal = g_id g, gv_profile = g_profile g, gv_revision = g_revision g,
            gv_kind = strip kind, gv_actor = strip actor, gv_payload = goal_json payload,
            gv_created = now\<rparr> (d_events s)) (\<lambda>rows. Inr (s\<lparr>d_events := rows\<rparr>)))))"

definition create_goal :: "world \<Rightarrow> string \<Rightarrow> goal \<Rightarrow> string \<Rightarrow> string \<Rightarrow> pydict \<Rightarrow> goal goal_op" where
  "create_goal w p g actor kind payload =
     bind (guard (g_profile g = p) ValueError) (\<lambda>_.
     bind (guard (g_revision g = 0) ValueError) (\<lambda>_.
     bind (modify_result (\<lambda>s. case insert_goal_row g s of Inl e \<Rightarrow> Inl ValueError | Inr t \<Rightarrow> Inr t)) (\<lambda>_.
     bind (insert_goal_event w g kind actor payload (g_created_at g)) (\<lambda>_.
       ret g))))"

definition get_goal :: "string \<Rightarrow> string \<Rightarrow> goal goal_op" where
  "get_goal p i = bind (goal_row_of p i) (\<lambda>r. lift (goal_from_row r))"

text \<open>\<^verbatim>\<open>UPDATE goals SET ... WHERE id = ? AND profile_id = ? AND ...\<close> and its row count.\<close>

definition update_goal_rows :: "(goal_row \<Rightarrow> bool) \<Rightarrow> (goal_row \<Rightarrow> goal_row) \<Rightarrow> nat goal_op" where
  "update_goal_rows P f =
     (\<lambda>s. Inr (rowcount P (d_goals s), s\<lparr>d_goals := upd_where P f (d_goals s)\<rparr>))"

section \<open>Claims\<close>

record goal_claim =
  gk_goal :: string
  gk_profile :: string
  gk_runner :: string
  gk_token :: string
  gk_until :: int

definition make_goal_claim :: "goal_claim \<Rightarrow> goal_claim result" where
  "make_goal_claim c =
     and_then (goal_text (gk_goal c)) (\<lambda>i.
     and_then (goal_text (gk_profile c)) (\<lambda>p.
     and_then (goal_text (gk_runner c)) (\<lambda>r.
     and_then (goal_text (gk_token c)) (\<lambda>t.
       Inr \<lparr>gk_goal = i, gk_profile = p, gk_runner = r, gk_token = t, gk_until = gk_until c\<rparr>))))"

text \<open>\<^verbatim>\<open>_assert_claim_owner\<close> and \<^verbatim>\<open>_assert_action_boundary\<close>\<close>

definition assert_claim_owner :: "string \<Rightarrow> goal_claim \<Rightarrow> int \<Rightarrow> goal goal_op" where
  "assert_claim_owner p c now =
     bind (goal_row_of p (gk_goal c)) (\<lambda>r.
     bind (lift (goal_from_row r)) (\<lambda>g.
     bind (guard (gr_token r = Some (gk_token c) \<and> gr_runner r = Some (gk_runner c)) GoalLeaseConflictError) (\<lambda>_.
     bind (guard (case gr_lease r of None \<Rightarrow> False | Some t \<Rightarrow> now \<le> t) GoalLeaseConflictError) (\<lambda>_.
       ret g))))"

definition assert_action_boundary :: "string \<Rightarrow> goal_claim \<Rightarrow> string \<Rightarrow> int \<Rightarrow> goal goal_op" where
  "assert_action_boundary p c step now =
     bind (assert_claim_owner p c now) (\<lambda>g.
     bind (guard (g_status g = GoalRunning) GoalLeaseConflictError) (\<lambda>_.
     bind (guard (\<not> g_cancel g) GoalLeaseConflictError) (\<lambda>_.
     bind (lift (find_step (g_steps g) step)) (\<lambda>s.
     bind (guard (gs_status s = GRunning) GoalLeaseConflictError) (\<lambda>_.
       ret g)))))"

definition lease_live :: "goal_row \<Rightarrow> int \<Rightarrow> bool" where
  "lease_live r now = (case gr_lease r of None \<Rightarrow> False | Some t \<Rightarrow> now \<le> t)"

definition claim_goal :: "world \<Rightarrow> string \<Rightarrow> int \<Rightarrow> string \<Rightarrow> string \<Rightarrow> int \<Rightarrow> int \<Rightarrow> goal_claim goal_op" where
  "claim_goal w p now i runner expected seconds =
     bind (guard (strip runner \<noteq> []) ValueError) (\<lambda>_.
     bind (guard (1 \<le> seconds) ValueError) (\<lambda>_.
     bind (draw_uuid w) (\<lambda>token.
     bind (goal_row_of p i) (\<lambda>r.
     bind (lift (goal_from_row r)) (\<lambda>g.
     bind (guard (g_revision g = expected) GoalRevisionConflictError) (\<lambda>_.
     bind (guard (g_status g = GoalRunning) GoalLeaseConflictError) (\<lambda>_.
     bind (guard (\<not> g_cancel g) GoalLeaseConflictError) (\<lambda>_.
     bind (guard (\<not> lease_live r now) GoalLeaseConflictError) (\<lambda>_.
     (let until = now + seconds * 1000000 in
     bind (update_goal_rows
             (\<lambda>q. gr_id q = i \<and> gr_profile q = p \<and> gr_revision q = expected \<and> gr_status q = GoalRunning
                \<and> \<not> gr_cancel q \<and> \<not> lease_live q now)
             (\<lambda>q. q\<lparr>gr_token := Some token, gr_runner := Some (strip runner), gr_lease := Some until,
                    gr_updated := now\<rparr>)) (\<lambda>n.
     bind (guard (n = 1) GoalLeaseConflictError) (\<lambda>_.
       lift (make_goal_claim \<lparr>gk_goal = i, gk_profile = p, gk_runner = strip runner,
         gk_token = token, gk_until = until\<rparr>)))))))))))))"

definition heartbeat_goal :: "string \<Rightarrow> int \<Rightarrow> goal_claim \<Rightarrow> int \<Rightarrow> goal_claim goal_op" where
  "heartbeat_goal p now c seconds =
     bind (guard (gk_profile c = p) GoalLeaseConflictError) (\<lambda>_.
     bind (guard (1 \<le> seconds) ValueError) (\<lambda>_.
     (let until = now + seconds * 1000000 in
     bind (update_goal_rows
             (\<lambda>q. gr_id q = gk_goal c \<and> gr_profile q = p \<and> gr_status q \<in> {GoalRunning, GoalPaused, GoalBlocked}
                \<and> gr_token q = Some (gk_token c) \<and> gr_runner q = Some (gk_runner c) \<and> lease_live q now)
             (\<lambda>q. q\<lparr>gr_lease := Some until, gr_updated := now\<rparr>)) (\<lambda>n.
     bind (guard (n = 1) GoalLeaseConflictError) (\<lambda>_.
       lift (make_goal_claim (c\<lparr>gk_until := until\<rparr>)))))))"

definition release_goal_claim :: "string \<Rightarrow> int \<Rightarrow> goal_claim \<Rightarrow> bool goal_op" where
  "release_goal_claim p now c =
     (if gk_profile c \<noteq> p then ret False
      else bind (update_goal_rows
             (\<lambda>q. gr_id q = gk_goal c \<and> gr_profile q = p \<and> gr_token q = Some (gk_token c)
                \<and> gr_runner q = Some (gk_runner c))
             (\<lambda>q. q\<lparr>gr_token := None, gr_runner := None, gr_lease := None, gr_updated := now\<rparr>)) (\<lambda>n.
           ret (n = 1)))"

definition has_active_goal_claim :: "string \<Rightarrow> int \<Rightarrow> string \<Rightarrow> bool goal_op" where
  "has_active_goal_claim p now i =
     bind (goal_row_of p i) (\<lambda>r.
       ret (gr_token r \<noteq> None \<and> gr_runner r \<noteq> None \<and> lease_live r now))"

section \<open>Mutation under a revision check\<close>

definition ended_status :: "goal_status \<Rightarrow> bool" where
  "ended_status st = (st \<in> {GoalCompleted, GoalCancelled, GoalFailed})"

text \<open>The \<^verbatim>\<open>UPDATE\<close> of \<^verbatim>\<open>mutate\<close>; \<open>owned\<close> when a claim was presented.\<close>

definition mutated_row :: "goal \<Rightarrow> bool \<Rightarrow> goal_row \<Rightarrow> goal_row" where
  "mutated_row g owned q =
     (let clear = (\<not> owned \<and> ended_status (g_status g)) in
      q\<lparr>gr_title := g_title g, gr_status := g_status g, gr_revision := g_revision g, gr_snapshot := g,
        gr_cancel := g_cancel g, gr_updated := g_updated g, gr_completed := g_completed g,
        gr_token := if clear then None else gr_token q, gr_runner := if clear then None else gr_runner q,
        gr_lease := if clear then None else gr_lease q\<rparr>)"

definition unresolved_action :: "string \<Rightarrow> pydict \<Rightarrow> goal_db \<Rightarrow> bool" where
  "unresolved_action i payload s =
     (\<exists>a\<in>set (d_actions s). ck_goal a = i \<and> map_of payload ''step_id'' = Some (PStr (ck_step a))
        \<and> ck_effect a \<noteq> None \<and> ck_result a = None)"

definition mutate_goal ::
  "world \<Rightarrow> string \<Rightarrow> int \<Rightarrow> string \<Rightarrow> int \<Rightarrow> string \<Rightarrow> string \<Rightarrow> (goal \<Rightarrow> goal result) \<Rightarrow> pydict
   \<Rightarrow> goal_claim option \<Rightarrow> goal goal_op" where
  "mutate_goal w p now i expected kind actor mutation payload claim =
     bind (case claim of None \<Rightarrow> ret ()
           | Some c \<Rightarrow> bind (guard (gk_goal c = i) GoalLeaseConflictError) (\<lambda>_.
                        bind (assert_claim_owner p c now) (\<lambda>_. ret ()))) (\<lambda>_.
     bind (goal_row_of p i) (\<lambda>r.
     bind (lift (goal_from_row r)) (\<lambda>current.
     bind (guard (g_revision current = expected) GoalRevisionConflictError) (\<lambda>_.
     bind (gets (unresolved_action i payload)) (\<lambda>unresolved.
     bind (guard (\<not> (kind = ''goal.step_retried'' \<and> unresolved)) GoalActionConflictError) (\<lambda>_.
     bind (lift (mutation current)) (\<lambda>changed.
     bind (guard (g_id changed = g_id current \<and> g_profile changed = g_profile current) ValueError) (\<lambda>_.
     bind (guard (g_revision changed = g_revision current) ValueError) (\<lambda>_.
     if changed = current then ret current
     else
     bind (guard (\<not> (g_status current \<noteq> GoalRunning \<and> g_status changed = GoalRunning \<and> lease_live r now))
             GoalLeaseConflictError) (\<lambda>_.
     bind (lift (with_revision changed (g_revision current + 1) now)) (\<lambda>updated.
     bind (update_goal_rows
             (\<lambda>q. gr_id q = g_id updated \<and> gr_profile q = g_profile updated \<and> gr_revision q = g_revision current)
             (mutated_row updated (claim \<noteq> None))) (\<lambda>n.
     bind (guard (n = 1) GoalRevisionConflictError) (\<lambda>_.
     bind (insert_goal_event w updated kind actor payload now) (\<lambda>_.
       ret updated))))))))))))))"

text \<open>\<^verbatim>\<open>_commit_execution_goal\<close>\<close>

definition committed_row :: "goal \<Rightarrow> goal_row \<Rightarrow> goal_row" where
  "committed_row g q =
     q\<lparr>gr_status := g_status g, gr_revision := g_revision g, gr_snapshot := g, gr_cancel := g_cancel g,
       gr_updated := g_updated g, gr_completed := g_completed g\<rparr>"

definition commit_execution_goal :: "world \<Rightarrow> int \<Rightarrow> goal \<Rightarrow> goal \<Rightarrow> string \<Rightarrow> string \<Rightarrow> goal goal_op" where
  "commit_execution_goal w now current changed kind actor =
     bind (lift (with_revision changed (g_revision current + 1) now)) (\<lambda>updated.
     bind (update_goal_rows
             (\<lambda>q. gr_id q = g_id current \<and> gr_profile q = g_profile current \<and> gr_revision q = g_revision current)
             (committed_row updated)) (\<lambda>n.
     bind (guard (n = 1) GoalRevisionConflictError) (\<lambda>_.
     bind (insert_goal_event w updated kind actor [] now) (\<lambda>_.
       ret updated))))"

end
