(* ===== verification/GoalRuns.thy ===== *)
theory GoalRuns
  imports GoalStore
begin

text \<open>
  The operations of the goal store that serve a running goal (\<^verbatim>\<open>goals/store.py\<close>): action
  checkpoints, model request receipts, host verification, execution slices, recovery of
  expired leases, retention and purging.
\<close>

section \<open>Action checkpoints\<close>

definition put_action :: "action_row \<Rightarrow> goal_db \<Rightarrow> goal_db result" where
  "put_action a s =
     and_then (insert_row (ck_id a \<notin> ck_id ` set (d_actions s)
         \<and> (ck_goal a, ck_key a) \<notin> (\<lambda>b. (ck_goal b, ck_key b)) ` set (d_actions s)
         \<and> ck_goal a \<in> gr_id ` set (d_goals s)) a (d_actions s))
       (\<lambda>rows. Inr (s\<lparr>d_actions := rows\<rparr>))"

definition update_actions :: "(action_row \<Rightarrow> bool) \<Rightarrow> (action_row \<Rightarrow> action_row) \<Rightarrow> unit goal_op" where
  "update_actions P f = modify (\<lambda>s. s\<lparr>d_actions := upd_where P f (d_actions s)\<rparr>)"

definition action_of :: "(action_row \<Rightarrow> bool) \<Rightarrow> py_error \<Rightarrow> action_row goal_op" where
  "action_of P e = select_row e (\<lambda>s. find P (d_actions s))"

text \<open>\<^verbatim>\<open>action_ref.strip() if action_ref and action_ref.strip() else None\<close>\<close>

definition clean_ref :: "string option \<Rightarrow> string option" where
  "clean_ref r = (case r of None \<Rightarrow> None | Some t \<Rightarrow> if strip t = [] then None else Some (strip t))"

definition begin_action ::
  "world \<Rightarrow> string \<Rightarrow> int \<Rightarrow> goal_claim \<Rightarrow> string \<Rightarrow> string \<Rightarrow> string \<Rightarrow> string option \<Rightarrow> bool \<Rightarrow> action_row goal_op" where
  "begin_action w p now c step key kind ref recover_existing =
     bind (guard (strip key \<noteq> [] \<and> strip kind \<noteq> []) ValueError) (\<lambda>_.
     bind (draw_uuid w) (\<lambda>i.
     bind (lift (and_then (goal_text step) (\<lambda>st. Inr
        \<lparr>ck_id = i, ck_goal = gk_goal c, ck_step = st, ck_profile = p, ck_key = strip key, ck_kind = strip kind,
         ck_ref = clean_ref ref, ck_state = ActStarted, ck_token = gk_token c, ck_result = None,
         ck_error = None, ck_created = now, ck_updated = now, ck_effect = None\<rparr>))) (\<lambda>checkpoint.
     bind (assert_action_boundary p c step now) (\<lambda>_.
     bind (gets (\<lambda>s. find (\<lambda>a. ck_goal a = gk_goal c \<and> ck_key a = strip key) (d_actions s))) (\<lambda>existing.
     case existing of
       Some stored \<Rightarrow>
         bind (guard (ck_step stored = step \<and> ck_kind stored = strip kind \<and> ck_ref stored = ck_ref checkpoint)
                 GoalActionConflictError) (\<lambda>_.
         if recover_existing
         then bind (update_actions (\<lambda>a. ck_id a = ck_id stored)
                 (\<lambda>a. a\<lparr>ck_token := gk_token c, ck_state := if ck_result a = None then ActStarted else ck_state a\<rparr>)) (\<lambda>_.
              action_of (\<lambda>a. ck_id a = ck_id stored) TypeError)
         else raise GoalActionConflictError)
     | None \<Rightarrow> bind (modify_result (put_action checkpoint)) (\<lambda>_. ret checkpoint))))))"

definition link_action_effect :: "string \<Rightarrow> int \<Rightarrow> goal_claim \<Rightarrow> string \<Rightarrow> string \<Rightarrow> unit goal_op" where
  "link_action_effect p now c i effect =
     bind (assert_claim_owner p c now) (\<lambda>_.
     bind (action_of (\<lambda>a. ck_id a = i \<and> ck_goal a = gk_goal c \<and> ck_profile a = p) GoalActionConflictError) (\<lambda>a.
     bind (guard (ck_effect a = None \<or> ck_effect a = Some effect) GoalActionConflictError) (\<lambda>_.
       update_actions (\<lambda>a. ck_id a = i) (\<lambda>a. a\<lparr>ck_effect := Some effect\<rparr>))))"

text \<open>An error of \<^verbatim>\<open>finish_action\<close> is one that is not empty.\<close>

definition finish_action ::
  "string \<Rightarrow> int \<Rightarrow> goal_claim \<Rightarrow> string \<Rightarrow> pydict option \<Rightarrow> string option \<Rightarrow> action_row goal_op" where
  "finish_action p now c i result error =
     bind (action_of (\<lambda>a. ck_id a = i \<and> ck_goal a = gk_goal c \<and> ck_profile a = p) GoalActionConflictError) (\<lambda>a.
     if ck_state a \<noteq> ActStarted then ret a
     else
     bind (guard (ck_token a = gk_token c) GoalActionConflictError) (\<lambda>_.
     bind (assert_claim_owner p c now) (\<lambda>_.
     bind (update_actions (\<lambda>a. ck_id a = i \<and> ck_state a = ActStarted \<and> ck_token a = gk_token c)
            (\<lambda>a. a\<lparr>ck_state := if error = None \<or> error = Some [] then ActCompleted else ActFailed,
                   ck_result := map_option goal_json result, ck_error := error, ck_updated := now\<rparr>)) (\<lambda>_.
       action_of (\<lambda>a. ck_id a = i) TypeError))))"

section \<open>Model request receipts\<close>

definition put_request :: "request_row \<Rightarrow> goal_db \<Rightarrow> goal_db result" where
  "put_request r s =
     and_then (insert_row (rq_id r \<notin> rq_id ` set (d_requests s)
         \<and> (rq_conversation r, rq_turn r, rq_index r)
             \<notin> (\<lambda>q. (rq_conversation q, rq_turn q, rq_index q)) ` set (d_requests s)
         \<and> rq_goal r \<in> gr_id ` set (d_goals s) \<and> 0 < rq_index r \<and> 0 \<le> rq_revision r) r (d_requests s))
       (\<lambda>rows. Inr (s\<lparr>d_requests := rows\<rparr>))"

definition make_request :: "request_row \<Rightarrow> request_row result" where
  "make_request r =
     and_then (goal_text (rq_id r)) (\<lambda>i. and_then (goal_text (rq_goal r)) (\<lambda>g.
     and_then (goal_text (rq_profile r)) (\<lambda>p. and_then (goal_text (rq_step r)) (\<lambda>st.
     and_then (goal_text (rq_conversation r)) (\<lambda>cv. and_then (goal_text (rq_turn r)) (\<lambda>t.
     and_then (goal_text (rq_purpose r)) (\<lambda>u.
     and_then (require (1 \<le> rq_index r) ValueError) (\<lambda>_.
     and_then (require (0 \<le> rq_revision r) ValueError) (\<lambda>_.
     and_then (unique_optional (rq_steering r)) (\<lambda>ids.
     and_then (require ((goal_text_opt (rq_response r) = None) = (rq_incorporated r = None)) ValueError) (\<lambda>_.
       Inr (r\<lparr>rq_id := i, rq_goal := g, rq_profile := p, rq_step := st, rq_conversation := cv, rq_turn := t,
              rq_purpose := u, rq_steering := ids, rq_response := goal_text_opt (rq_response r)\<rparr>))))))))))))"

definition begin_model_request ::
  "world \<Rightarrow> string \<Rightarrow> int \<Rightarrow> goal_claim \<Rightarrow> string \<Rightarrow> string \<Rightarrow> string \<Rightarrow> int \<Rightarrow> string \<Rightarrow> int \<Rightarrow> string list
   \<Rightarrow> request_row goal_op" where
  "begin_model_request w p now c step conversation turn index purpose revision ids =
     bind (draw_uuid w) (\<lambda>i.
     bind (lift (make_request
        \<lparr>rq_id = i, rq_goal = gk_goal c, rq_profile = p, rq_step = step, rq_conversation = conversation,
         rq_turn = turn, rq_index = index, rq_purpose = purpose, rq_revision = revision, rq_steering = ids,
         rq_token = gk_token c, rq_created = now, rq_response = None, rq_incorporated = None\<rparr>)) (\<lambda>receipt.
     bind (assert_action_boundary p c step now) (\<lambda>g.
     bind (guard (g_revision g = revision) GoalRevisionConflictError) (\<lambda>_.
     bind (guard (ids = map gt_id (active_steering g)) GoalActionConflictError) (\<lambda>_.
     bind (gets (\<lambda>s. find (\<lambda>q. rq_conversation q = conversation \<and> rq_turn q = turn \<and> rq_index q = index)
             (d_requests s))) (\<lambda>existing.
     bind (guard (existing = None) GoalActionConflictError) (\<lambda>_.
     bind (modify_result (put_request (receipt\<lparr>rq_steering := ids\<rparr>))) (\<lambda>_.
       ret receipt))))))))"

text \<open>\<^verbatim>\<open>INSERT ... ON CONFLICT(goal_id, steering_id) DO UPDATE SET request_id\<close>\<close>

definition incorporate :: "incorporation_row \<Rightarrow> incorporation_row list \<Rightarrow> incorporation_row list" where
  "incorporate r rows =
     (if (in_goal r, in_steering r) \<in> (\<lambda>q. (in_goal q, in_steering q)) ` set rows
      then upd_where (\<lambda>q. in_goal q = in_goal r \<and> in_steering q = in_steering r) (\<lambda>q. q\<lparr>in_request := in_request r\<rparr>) rows
      else rows @ [r])"

definition acknowledge_model_response ::
  "string \<Rightarrow> int \<Rightarrow> goal_claim \<Rightarrow> string \<Rightarrow> string \<Rightarrow> request_row goal_op" where
  "acknowledge_model_response p now c i ref =
     bind (guard (strip ref \<noteq> []) ValueError) (\<lambda>_.
     bind (assert_claim_owner p c now) (\<lambda>_.
     bind (select_row GoalActionConflictError
             (\<lambda>s. find (\<lambda>q. rq_id q = i \<and> rq_goal q = gk_goal c \<and> rq_profile q = p) (d_requests s))) (\<lambda>row.
     bind (lift (make_request row)) (\<lambda>current.
     case rq_response current of
       Some r \<Rightarrow> bind (guard (r = strip ref) GoalActionConflictError) (\<lambda>_. ret current)
     | None \<Rightarrow>
         bind (modify (\<lambda>s. s\<lparr>d_requests :=
            upd_where (\<lambda>q. rq_id q = i \<and> rq_incorporated q = None)
              (\<lambda>q. q\<lparr>rq_response := Some (strip ref), rq_incorporated := Some now\<rparr>) (d_requests s),
            d_incorporations := fold (\<lambda>t. incorporate \<lparr>in_goal = gk_goal c, in_profile = p, in_steering = t, in_request = i\<rparr>)
              (rq_steering current) (d_incorporations s)\<rparr>)) (\<lambda>_.
         lift (make_request (current\<lparr>rq_response := Some (strip ref), rq_incorporated := Some now\<rparr>)))))))"

section \<open>Host verification\<close>

definition put_verification :: "verification_row \<Rightarrow> goal_db \<Rightarrow> goal_db result" where
  "put_verification v s =
     and_then (insert_row ((vf_goal v, vf_operation v) \<notin> (\<lambda>u. (vf_goal u, vf_operation u)) ` set (d_verifications s)
         \<and> vf_goal v \<in> gr_id ` set (d_goals s) \<and> 0 \<le> vf_count v)
         (v\<lparr>vf_sequence := d_sequence s + 1\<rparr>) (d_verifications s))
       (\<lambda>rows. Inr (s\<lparr>d_verifications := rows, d_sequence := d_sequence s + 1\<rparr>))"

text \<open>The latest decision of a step: the last one of the greatest sequence number.\<close>

definition latest_verification :: "string \<Rightarrow> string \<Rightarrow> goal_db \<Rightarrow> verification_row option" where
  "latest_verification i step s =
     first_by (\<lambda>v. - vf_sequence v) (\<lambda>v. vf_goal v = i \<and> vf_step v = step) (d_verifications s)"

definition rejection_count :: "bool \<Rightarrow> string \<Rightarrow> string \<Rightarrow> verification_row option \<Rightarrow> int" where
  "rejection_count passed context evidence previous =
     (if passed then 0
      else 1 + (case previous of None \<Rightarrow> 0
                | Some v \<Rightarrow> if vf_context v = context \<and> vf_evidence v = evidence then vf_count v else 0))"

definition stagnation_reason :: "string \<Rightarrow> string" where
  "stagnation_reason feedback =
     ''verification_stagnation: three rejections without new evidence. '' @ feedback"

definition blocked_row :: "goal \<Rightarrow> int \<Rightarrow> goal_row \<Rightarrow> goal_row" where
  "blocked_row g now q =
     q\<lparr>gr_status := g_status g, gr_revision := g_revision g, gr_snapshot := g, gr_updated := now\<rparr>"

definition record_verification ::
  "world \<Rightarrow> string \<Rightarrow> int \<Rightarrow> goal_claim \<Rightarrow> string \<Rightarrow> string \<Rightarrow> int \<Rightarrow> string \<Rightarrow> string \<Rightarrow> bool \<Rightarrow> string
   \<Rightarrow> int goal_op" where
  "record_verification w p now c step operation expected context evidence passed feedback =
     bind (assert_claim_owner p c now) (\<lambda>current.
     bind (gets (\<lambda>s. find (\<lambda>v. vf_goal v = gk_goal c \<and> vf_operation v = operation) (d_verifications s))) (\<lambda>existing.
     case existing of
       Some v \<Rightarrow>
         bind (guard (vf_context v = context \<and> vf_evidence v = evidence \<and> vf_passed v = passed
                 \<and> vf_feedback v = feedback) GoalActionConflictError) (\<lambda>_. ret (vf_count v))
     | None \<Rightarrow>
         bind (assert_action_boundary p c step now) (\<lambda>_.
         bind (guard (g_revision current = expected) GoalRevisionConflictError) (\<lambda>_.
         bind (gets (latest_verification (gk_goal c) step)) (\<lambda>previous.
         (let count = rejection_count passed context evidence previous in
         bind (modify_result (put_verification
            \<lparr>vf_sequence = 0, vf_goal = gk_goal c, vf_profile = p, vf_step = step, vf_operation = operation,
             vf_context = context, vf_evidence = evidence, vf_passed = passed, vf_feedback = feedback,
             vf_count = count, vf_created = now, vf_revision = g_revision current, vf_applied = None\<rparr>)) (\<lambda>_.
         if count < 3 then ret count
         else
           bind (lift (and_then (block_step step (stagnation_reason feedback) current) (\<lambda>g.
                         with_revision g (g_revision current + 1) now))) (\<lambda>changed.
           bind (update_goal_rows (\<lambda>q. gr_id q = g_id current \<and> gr_profile q = p
                   \<and> gr_revision q = g_revision current \<and> gr_token q = Some (gk_token c))
                 (blocked_row changed now)) (\<lambda>_.
           bind (insert_goal_event w changed ''goal.blocked'' (gk_runner c)
                   [(''reason'', PStr (stagnation_reason feedback)), (''operation_id'', PStr operation)] now) (\<lambda>_.
             ret count))))))))))"

definition verification_evidence :: "goal_claim \<Rightarrow> int \<Rightarrow> verification_row \<Rightarrow> goal_step \<Rightarrow> goal_evidence" where
  "verification_evidence c now v s =
     \<lparr>ge_id = ''verification:'' @ int_text (vf_sequence v), ge_summary = vf_feedback v, ge_criteria = gs_criteria s,
      ge_step = Some (vf_step v), ge_kind = ''verification'',
      ge_reference = Some (''goal-verification:'' @ int_text (vf_sequence v)), ge_by = gk_runner c,
      ge_at = now, ge_metadata = []\<rparr>"

definition all_finished :: "goal \<Rightarrow> bool" where
  "all_finished g \<longleftrightarrow> (\<forall>s\<in>set (g_steps g). gs_status s \<in> {GCompleted, GSkipped}) \<and> missing_ids g = []"

definition apply_verified_step ::
  "world \<Rightarrow> string \<Rightarrow> int \<Rightarrow> goal_claim \<Rightarrow> string \<Rightarrow> int \<Rightarrow> pydict option \<Rightarrow> goal goal_op" where
  "apply_verified_step w p now c operation expected usage =
     bind (assert_claim_owner p c now) (\<lambda>current.
     bind (select_row GoalActionConflictError (\<lambda>s. find (\<lambda>v. vf_goal v = gk_goal c \<and> vf_operation v = operation
             \<and> vf_profile v = p) (d_verifications s))) (\<lambda>v.
     bind (guard (vf_passed v) GoalActionConflictError) (\<lambda>_.
     if vf_applied v \<noteq> None then ret current
     else
     bind (assert_action_boundary p c (vf_step v) now) (\<lambda>_.
     bind (guard (g_revision current = expected \<and> vf_context v = verification_context_digest w current)
             GoalRevisionConflictError) (\<lambda>_.
     bind (lift (find_step (g_steps current) (vf_step v))) (\<lambda>s.
     bind (lift (make_evidence (verification_evidence c now v s))) (\<lambda>evidence.
     bind (lift (and_then (record_evidence evidence current) (complete_goal_step (vf_step v) now))) (\<lambda>stepped.
     bind (lift (if all_finished stepped then complete_goal now stepped else Inr stepped)) (\<lambda>changed.
     bind (commit_execution_goal w now current changed ''goal.progress_verified'' (gk_runner c)) (\<lambda>updated.
     bind (modify (\<lambda>s. s\<lparr>d_verifications := upd_where (\<lambda>u. vf_sequence u = vf_sequence v)
              (\<lambda>u. u\<lparr>vf_applied := Some (g_revision updated)\<rparr>) (d_verifications s),
            d_executions := (case usage of None \<Rightarrow> d_executions s
              | Some u \<Rightarrow> upd_where (\<lambda>x. xr_goal x = gk_goal c \<and> xr_profile x = p)
                           (\<lambda>x. x\<lparr>xr_usage := goal_json u\<rparr>) (d_executions s))\<rparr>)) (\<lambda>_.
       ret updated)))))))))))"

end
