(* ===== verification/GoalSlices.thy ===== *)
theory GoalSlices
  imports GoalRuns
begin

text \<open>
  Execution slices of a goal, the recovery of goals whose lease ended, and retention
  (\<^verbatim>\<open>goals/store.py\<close>): which step a slice works on and under which turn, when it is refused,
  and what a purge deletes.
\<close>

section \<open>Admission of a slice\<close>

record slice_admission =
  ad_goal :: goal
  ad_claim :: "goal_claim option"
  ad_step :: "string option"
  ad_conversation :: string
  ad_turn :: string
  ad_previous :: "string option"
  ad_stop :: "string option"
  ad_new :: bool
  ad_recovering :: bool

definition start_execution :: "execution_row \<Rightarrow> goal_db \<Rightarrow> goal_db result" where
  "start_execution x s =
     (if xr_goal x \<in> xr_goal ` set (d_executions s) then Inr s
      else and_then (insert_row (xr_conversation x \<notin> xr_conversation ` set (d_executions s)
             \<and> xr_goal x \<in> gr_id ` set (d_goals s)) x (d_executions s))
           (\<lambda>rows. Inr (s\<lparr>d_executions := rows\<rparr>)))"

definition update_executions :: "string \<Rightarrow> (execution_row \<Rightarrow> execution_row) \<Rightarrow> unit goal_op" where
  "update_executions i f = modify (\<lambda>s. s\<lparr>d_executions := upd_where (\<lambda>x. xr_goal x = i) f (d_executions s)\<rparr>)"

text \<open>\<^verbatim>\<open>INSERT INTO goal_slices ... ON CONFLICT(turn_id) DO UPDATE SET claim_token\<close>\<close>

definition put_slice :: "slice_row \<Rightarrow> goal_db \<Rightarrow> goal_db result" where
  "put_slice x s =
     (if sl_turn x \<in> sl_turn ` set (d_slices s)
      then Inr (s\<lparr>d_slices := upd_where (\<lambda>y. sl_turn y = sl_turn x) (\<lambda>y. y\<lparr>sl_token := sl_token x\<rparr>) (d_slices s)\<rparr>)
      else and_then (insert_row (sl_goal x \<in> gr_id ` set (d_goals s)) x (d_slices s))
           (\<lambda>rows. Inr (s\<lparr>d_slices := rows\<rparr>)))"

definition open_slice_states :: "string list" where
  "open_slice_states = [''admitted'', ''recovery_required'', ''approval_required'', ''paused'', ''budget_exhausted'']"

text \<open>
  The turn a slice runs under: the turn of an interrupted slice is taken up again, as a
  recovery when work was dispatched under it and as the same fresh turn when none was.
\<close>

definition slice_identity ::
  "goal_step option \<Rightarrow> string option \<Rightarrow> slice_row option \<Rightarrow> string
   \<Rightarrow> string \<times> string option \<times> bool \<times> bool" where
  "slice_identity active previous prior turn =
     (let fresh = (previous = None) in
      case (active, previous, prior) of
        (Some _, Some latest, Some x) \<Rightarrow>
          if sl_state x \<in> set open_slice_states
          then if sl_started x then (latest, previous, fresh, True)
               else (latest, sl_previous x, sl_new x, False)
          else (turn, previous, fresh, False)
      | _ \<Rightarrow> (turn, previous, fresh, False))"

definition claimed_goal_row :: "goal_claim \<Rightarrow> string \<Rightarrow> goal_row \<Rightarrow> goal_row" where
  "claimed_goal_row c runner q = q\<lparr>gr_token := Some (gk_token c), gr_runner := Some runner, gr_lease := Some (gk_until c)\<rparr>"

definition admit_slice ::
  "world \<Rightarrow> string \<Rightarrow> int \<Rightarrow> string \<Rightarrow> string \<Rightarrow> int \<Rightarrow> string \<Rightarrow> int \<Rightarrow> slice_admission goal_op" where
  "admit_slice w p now i runner expected turn seconds =
     bind (guard (strip runner \<noteq> [] \<and> strip turn \<noteq> [] \<and> 0 < seconds) ValueError) (\<lambda>_.
     bind (goal_row_of p i) (\<lambda>row.
     bind (lift (goal_from_row row)) (\<lambda>g.
     bind (guard (g_revision g = expected) GoalRevisionConflictError) (\<lambda>_.
     bind (guard (g_status g = GoalRunning \<and> \<not> g_cancel g) GoalLeaseConflictError) (\<lambda>_.
     bind (guard (\<not> lease_live row now) GoalLeaseConflictError) (\<lambda>_.
     bind (draw_uuid w) (\<lambda>u.
     bind (modify_result (start_execution
        \<lparr>xr_goal = i, xr_profile = p, xr_conversation = hyphenated u, xr_turn = None, xr_step = None,
         xr_stop = None, xr_usage = [], xr_exhausted = None\<rparr>)) (\<lambda>_.
     bind (select_row TypeError (\<lambda>s. find (\<lambda>x. xr_goal x = i) (d_executions s))) (\<lambda>x.
     (let active = find (\<lambda>s. gs_status s = GRunning) (g_steps g) in
     bind (gets (\<lambda>s. case xr_turn x of None \<Rightarrow> None | Some t \<Rightarrow> find (\<lambda>y. sl_turn y = t) (d_slices s))) (\<lambda>prior.
     case slice_identity active (xr_turn x) prior turn of (turn', previous, fresh, recovering) \<Rightarrow>
     case (case active of Some s \<Rightarrow> Some s | None \<Rightarrow> find (\<lambda>s. gs_status s = GReady) (g_steps g)) of
       None \<Rightarrow>
         (if all_finished g
          then bind (lift (complete_goal now g)) (\<lambda>changed.
               bind (commit_execution_goal w now g changed ''goal.completed'' runner) (\<lambda>h.
                 ret \<lparr>ad_goal = h, ad_claim = None, ad_step = None, ad_conversation = xr_conversation x,
                      ad_turn = turn', ad_previous = previous, ad_stop = Some ''completed'', ad_new = False,
                      ad_recovering = False\<rparr>))
          else ret \<lparr>ad_goal = g, ad_claim = None, ad_step = None, ad_conversation = xr_conversation x,
                    ad_turn = turn', ad_previous = previous, ad_stop = Some ''blocked'', ad_new = False,
                    ad_recovering = False\<rparr>)
     | Some selected \<Rightarrow>
         (if gs_risk selected = RiskHigh \<and> \<not> step_is_approved g (gs_id selected)
          then bind (update_executions i (\<lambda>x. x\<lparr>xr_stop := Some ''approval_required''\<rparr>)) (\<lambda>_.
               ret \<lparr>ad_goal = g, ad_claim = None, ad_step = Some (gs_id selected),
                    ad_conversation = xr_conversation x, ad_turn = turn', ad_previous = previous,
                    ad_stop = Some ''approval_required'', ad_new = False, ad_recovering = False\<rparr>)
          else
          bind (gets (\<lambda>s. \<exists>a\<in>set (d_actions s). ck_goal a = i \<and> ck_step a = gs_id selected)) (\<lambda>acted.
          if active \<noteq> None \<and> previous = None \<and> acted
          then ret \<lparr>ad_goal = g, ad_claim = None, ad_step = Some (gs_id selected),
                    ad_conversation = xr_conversation x, ad_turn = turn', ad_previous = None,
                    ad_stop = Some ''recovery_required'', ad_new = False, ad_recovering = False\<rparr>
          else
          bind (if active = None
                then bind (lift (start_goal_step (gs_id selected) now g)) (\<lambda>changed.
                     bind (commit_execution_goal w now g changed ''goal.step_started'' runner) (\<lambda>h.
                       ret (h, None)))
                else ret (g, previous)) (\<lambda>(h, previous').
          bind (draw_uuid w) (\<lambda>token.
          bind (lift (make_goal_claim \<lparr>gk_goal = i, gk_profile = p, gk_runner = runner, gk_token = token,
                  gk_until = now + seconds * 1000000\<rparr>)) (\<lambda>c.
          bind (update_goal_rows (\<lambda>q. gr_id q = i \<and> gr_profile q = p) (claimed_goal_row c runner)) (\<lambda>_.
          bind (modify_result (put_slice
             \<lparr>sl_turn = turn', sl_goal = i, sl_profile = p, sl_step = gs_id selected, sl_token = gk_token c,
              sl_revision = g_revision h, sl_state = ''admitted'', sl_admitted = now, sl_finished = None,
              sl_started = False, sl_previous = previous', sl_new = fresh\<rparr>)) (\<lambda>_.
          bind (update_executions i (\<lambda>x. x\<lparr>xr_turn := Some turn', xr_step := Some (gs_id selected),
                  xr_stop := None\<rparr>)) (\<lambda>_.
            ret \<lparr>ad_goal = h, ad_claim = Some c, ad_step = Some (gs_id selected),
                 ad_conversation = xr_conversation x, ad_turn = turn', ad_previous = previous',
                 ad_stop = None, ad_new = fresh, ad_recovering = recovering\<rparr>)))))))))))))))))))"

definition mark_slice_started :: "string \<Rightarrow> int \<Rightarrow> goal_claim \<Rightarrow> string \<Rightarrow> unit goal_op" where
  "mark_slice_started p now c turn =
     (let P = (\<lambda>x. sl_turn x = turn \<and> sl_goal x = gk_goal c \<and> sl_token x = gk_token c) in
     bind (assert_claim_owner p c now) (\<lambda>_.
     bind (gets (\<lambda>s. rowcount P (d_slices s))) (\<lambda>n.
     bind (modify (\<lambda>s. s\<lparr>d_slices := upd_where P (\<lambda>x. x\<lparr>sl_started := True\<rparr>) (d_slices s)\<rparr>)) (\<lambda>_.
       guard (n = 1) GoalLeaseConflictError))))"

definition finish_slice ::
  "string \<Rightarrow> int \<Rightarrow> goal_claim \<Rightarrow> string \<Rightarrow> string \<Rightarrow> pydict \<Rightarrow> pydict option \<Rightarrow> unit goal_op" where
  "finish_slice p now c turn reason usage exhausted =
     bind (assert_claim_owner p c now) (\<lambda>_.
       modify (\<lambda>s. s\<lparr>d_slices := upd_where (\<lambda>x. sl_turn x = turn \<and> sl_token x = gk_token c)
            (\<lambda>x. x\<lparr>sl_state := reason, sl_finished := Some now\<rparr>) (d_slices s),
          d_executions := upd_where (\<lambda>x. xr_goal x = gk_goal c \<and> xr_profile x = p \<and> xr_turn x = Some turn)
            (\<lambda>x. x\<lparr>xr_stop := Some reason, xr_usage := goal_json usage,
                   xr_exhausted := (case exhausted of None \<Rightarrow> None
                     | Some b \<Rightarrow> if b = [] then None else Some (goal_json b))\<rparr>) (d_executions s)\<rparr>))"

section \<open>Recovery of expired leases\<close>

definition recovered_row :: "goal \<Rightarrow> int \<Rightarrow> goal_row \<Rightarrow> goal_row" where
  "recovered_row g now q =
     q\<lparr>gr_status := g_status g, gr_revision := g_revision g, gr_snapshot := g, gr_token := None,
       gr_runner := None, gr_lease := None, gr_updated := now\<rparr>"

definition lost_action_error :: string where
  "lost_action_error = ''Runner lease expired before a durable action result was recorded.''"

definition recover_row :: "world \<Rightarrow> string \<Rightarrow> int \<Rightarrow> string \<Rightarrow> goal_row \<Rightarrow> goal goal_op" where
  "recover_row w p now actor r =
     bind (lift (goal_from_row r)) (\<lambda>g.
     bind (lift (and_then (recovered_goal g) (\<lambda>changed. with_revision changed (g_revision g + 1) now))) (\<lambda>updated.
     bind (update_goal_rows (\<lambda>q. gr_id q = g_id updated \<and> gr_profile q = p \<and> gr_revision q = g_revision g)
             (recovered_row updated now)) (\<lambda>_.
     bind (update_actions (\<lambda>a. ck_goal a = g_id g \<and> ck_profile a = p \<and> ck_state a = ActStarted)
             (\<lambda>a. a\<lparr>ck_state := ActUncertain, ck_error := Some lost_action_error, ck_updated := now\<rparr>)) (\<lambda>_.
     bind (insert_goal_event w updated ''goal.lease_expired'' actor
             [(''uncertain_step_ids'', PList (map PStr (map gs_id (filter (\<lambda>s. gs_status s = GRunning) (g_steps g)))))]
             now) (\<lambda>_.
       ret updated)))))"

definition lease_expired :: "string \<Rightarrow> int \<Rightarrow> goal_row \<Rightarrow> bool" where
  "lease_expired p now r =
     (gr_profile r = p \<and> gr_status r \<in> {GoalRunning, GoalPaused}
      \<and> (case gr_lease r of None \<Rightarrow> False | Some t \<Rightarrow> t < now))"

definition recover_expired_goals :: "world \<Rightarrow> string \<Rightarrow> int \<Rightarrow> string \<Rightarrow> goal list goal_op" where
  "recover_expired_goals w p now actor =
     bind (gets (\<lambda>s. sort_key (\<lambda>r. (gr_updated r, gr_id r)) (filter (lease_expired p now) (d_goals s)))) (\<lambda>rows.
       map_op (recover_row w p now actor) rows)"

section \<open>Listing, retention and purging\<close>

definition list_goals :: "string \<Rightarrow> goal_status option \<Rightarrow> int \<Rightarrow> goal list goal_op" where
  "list_goals p status limit =
     bind (guard (1 \<le> limit \<and> limit \<le> 10000) ValueError) (\<lambda>_.
     bind (gets (\<lambda>s. take (nat limit) (sort_key (\<lambda>r. (- gr_updated r, gr_id r))
             (filter (\<lambda>r. gr_profile r = p \<and> (case status of None \<Rightarrow> True | Some st \<Rightarrow> gr_status r = st)) (d_goals s)))))
       (\<lambda>rows. lift (map_result goal_from_row rows)))"

record retention_policy =
  rt_completed :: "int option"
  rt_cancelled :: "int option"
  rt_failed :: "int option"
  rt_export :: int

definition make_retention :: "retention_policy \<Rightarrow> retention_policy result" where
  "make_retention p =
     and_then (require (\<forall>v\<in>set [rt_completed p, rt_cancelled p, rt_failed p].
                 case v of None \<Rightarrow> True | Some d \<Rightarrow> 0 \<le> d) ValueError) (\<lambda>_.
     and_then (require (1 \<le> rt_export p \<and> rt_export p \<le> 10000) ValueError) (\<lambda>_. Inr p))"

definition retention_for :: "retention_policy \<Rightarrow> goal_status \<Rightarrow> int option" where
  "retention_for p st =
     (case st of GoalCompleted \<Rightarrow> rt_completed p | GoalCancelled \<Rightarrow> rt_cancelled p
      | GoalFailed \<Rightarrow> rt_failed p | _ \<Rightarrow> None)"

definition retention_candidates :: "string \<Rightarrow> retention_policy \<Rightarrow> int \<Rightarrow> goal list goal_op" where
  "retention_candidates p policy now =
     bind (list_goals p None (rt_export policy)) (\<lambda>goals.
       ret (filter (\<lambda>g. case (g_completed g, retention_for policy (g_status g)) of
              (Some t, Some d) \<Rightarrow> t + d \<le> now | _ \<Rightarrow> False) goals))"

text \<open>\<^verbatim>\<open>DELETE FROM goals\<close> with the cascades of the foreign keys.\<close>

definition delete_goal :: "string \<Rightarrow> goal_db \<Rightarrow> goal_db" where
  "delete_goal i s =
     s\<lparr>d_goals := filter (\<lambda>r. gr_id r \<noteq> i) (d_goals s), d_events := filter (\<lambda>e. gv_goal e \<noteq> i) (d_events s),
       d_actions := filter (\<lambda>a. ck_goal a \<noteq> i) (d_actions s),
       d_verifications := filter (\<lambda>v. vf_goal v \<noteq> i) (d_verifications s),
       d_executions := filter (\<lambda>x. xr_goal x \<noteq> i) (d_executions s),
       d_slices := filter (\<lambda>x. sl_goal x \<noteq> i) (d_slices s),
       d_requests := filter (\<lambda>q. rq_goal q \<noteq> i) (d_requests s),
       d_incorporations := filter (\<lambda>q. in_goal q \<noteq> i) (d_incorporations s)\<rparr>"

definition purge_one :: "string \<Rightarrow> string \<times> int \<Rightarrow> string goal_op" where
  "purge_one p ir =
     (case ir of (i, expected) \<Rightarrow>
       bind (goal_row_of p i) (\<lambda>r.
       bind (lift (goal_from_row r)) (\<lambda>g.
       bind (guard (g_revision g = expected) GoalRevisionConflictError) (\<lambda>_.
       bind (guard (terminal_goal g) ValueError) (\<lambda>_.
       bind (gets (\<lambda>s. rowcount (\<lambda>q. gr_id q = i \<and> gr_profile q = p \<and> gr_revision q = expected) (d_goals s))) (\<lambda>n.
       bind (guard (n = 1) GoalRevisionConflictError) (\<lambda>_.
       bind (modify (delete_goal i)) (\<lambda>_. ret i))))))))"

definition purge_terminal :: "string \<Rightarrow> (string \<times> int) list \<Rightarrow> string list goal_op" where
  "purge_terminal p expected = map_op (purge_one p) expected"

section \<open>Stale revisions\<close>

lemma stale_revision:
  assumes "get_goal p i s = Inr (g, s)" and "g_revision g \<noteq> n"
  shows "mutate_goal w p now i n kind actor f d None s = Inl GoalRevisionConflictError"
    and "claim_goal w p now i runner n secs s
      = Inl (if strip runner = [] \<or> secs < 1 then ValueError else GoalRevisionConflictError)"
    and "admit_slice w p now i runner n turn secs s
      = Inl (if strip runner = [] \<or> strip turn = [] \<or> secs < 1 then ValueError else GoalRevisionConflictError)"
proof -
  obtain r where r: "find (\<lambda>r. gr_id r = i \<and> gr_profile r = p) (d_goals s) = Some r" "goal_from_row r = Inr g"
    using assms(1) by (auto simp: get_goal_def goal_row_of_def select_row_def bind_def lift_def split: option.splits sum.splits)
  have row: "goal_row_of p i t = Inr (r, t)" if "d_goals t = d_goals s" for t
    using r(1) that by (simp add: goal_row_of_def select_row_def)
  show "mutate_goal w p now i n kind actor f d None s = Inl GoalRevisionConflictError"
    using assms(2) row r(2) by (simp add: mutate_goal_def bind_def ret_def lift_def guard_def)
  show "claim_goal w p now i runner n secs s
      = Inl (if strip runner = [] \<or> secs < 1 then ValueError else GoalRevisionConflictError)"
    using assms(2) row r(2) by (simp add: claim_goal_def draw_uuid_def bind_def lift_def guard_def not_less)
  show "admit_slice w p now i runner n turn secs s
      = Inl (if strip runner = [] \<or> strip turn = [] \<or> secs < 1 then ValueError else GoalRevisionConflictError)"
    using assms(2) row r(2) by (simp add: admit_slice_def bind_def lift_def guard_def not_less)
qed

end
