(* ===== verification/GoalStoreFacts.thy ===== *)
theory GoalStoreFacts
  imports GoalSlices
begin

text \<open>
  What a stored goal is at any time: the columns of its row agree with its snapshot, its events
  number its revisions without gaps, and whatever an operation of the store does to it is a
  history of the calls of \<open>GoalTransitions\<close>.
\<close>

section \<open>Rows in agreement with their snapshots\<close>

definition goal_of :: "goal_row \<Rightarrow> goal" where
  "goal_of r = (gr_snapshot r)\<lparr>g_updated := gr_updated r\<rparr>"

definition row_synced :: "goal_row \<Rightarrow> bool" where
  "row_synced r \<longleftrightarrow>
     goal_ok (gr_snapshot r) \<and> g_id (gr_snapshot r) = gr_id r \<and> g_profile (gr_snapshot r) = gr_profile r \<and>
     g_status (gr_snapshot r) = gr_status r \<and> g_revision (gr_snapshot r) = gr_revision r \<and>
     g_cancel (gr_snapshot r) = gr_cancel r \<and> g_completed (gr_snapshot r) = gr_completed r \<and>
     (gr_token r = None \<longleftrightarrow> gr_runner r = None) \<and> (gr_token r = None \<longleftrightarrow> gr_lease r = None)"

lemma goal_clean_updated [simp]: "goal_clean (g\<lparr>g_updated := t\<rparr>) = goal_clean g"
  by (simp add: goal_clean_def)

lemma goal_ok_iff:
  "goal_ok g \<longleftrightarrow> goal_clean g \<and> validate_goal_graph (g_criteria g) (g_steps g) (g_evidence g) = Inr ()
     \<and> (\<forall>s\<in>set (g_steps g). step_ok s)"
  using make_goal_clean make_goal_fields(15) make_goal_id by (auto simp: goal_ok_def)

lemma goal_ok_updated [simp]: "goal_ok (g\<lparr>g_updated := t\<rparr>) = goal_ok g"
  by (simp add: goal_ok_iff)

lemma goal_of_ok: "row_synced r \<Longrightarrow> goal_ok (goal_of r)"
  by (simp add: row_synced_def goal_of_def)

lemma goal_of_fields:
  assumes "row_synced r"
  shows "g_id (goal_of r) = gr_id r" "g_profile (goal_of r) = gr_profile r" "g_status (goal_of r) = gr_status r"
    "g_revision (goal_of r) = gr_revision r" "g_cancel (goal_of r) = gr_cancel r"
    "g_completed (goal_of r) = gr_completed r"
  using assms by (simp_all add: row_synced_def goal_of_def)

lemma goal_from_row_synced: "row_synced r \<Longrightarrow> goal_from_row r = Inr (goal_of r)"
proof -
  assume syn: "row_synced r"
  have "(gr_snapshot r)\<lparr>g_revision := gr_revision r, g_status := gr_status r, g_cancel := gr_cancel r,
      g_updated := gr_updated r, g_completed := gr_completed r\<rparr> = goal_of r"
    using syn by (cases "gr_snapshot r") (auto simp: row_synced_def goal_of_def)
  then show ?thesis using goal_okD(7) [OF goal_of_ok [OF syn]] by (simp add: goal_from_row_def)
qed

section \<open>Goals keep their identity\<close>

lemma goal_ok_id: "goal_ok g \<Longrightarrow> strip (g_id g) = g_id g \<and> strip (g_profile g) = g_profile g"
  by (simp add: goal_ok_iff goal_clean_def clean_goal_text_def)

lemma with_linked_ids [simp]:
  "g_id (with_linked k ids g) = g_id g" "g_profile (with_linked k ids g) = g_profile g"
  "g_revision (with_linked k ids g) = g_revision g"
  by (cases k; simp)+

definition same_goal :: "goal \<Rightarrow> goal \<Rightarrow> bool" where
  "same_goal g h \<longleftrightarrow> g_id h = g_id g \<and> g_profile h = g_profile g \<and> g_revision h = g_revision g"

lemma make_goal_same:
  assumes "make_goal f = Inr h" and "goal_ok g" and "g_id f = g_id g" "g_profile f = g_profile g" "g_revision f = g_revision g"
  shows "same_goal g h"
  using assms goal_ok_id [OF assms(2)] by (simp add: same_goal_def make_goal_fields [OF assms(1)])

lemma same_goal_refl [simp]: "same_goal g g"
  by (simp add: same_goal_def)

lemma mark_step_uncertain_same:
  "goal_ok g \<Longrightarrow> mark_step_uncertain i reason g = Inr h \<Longrightarrow>
   same_goal g h \<and> g_cancel h = g_cancel g \<and> g_completed h = g_completed g"
  by (auto simp: mark_step_uncertain_def result_simps make_goal_fields same_goal_def goal_ok_id split: if_splits)

lemma mark_all_uncertain_same:
  "goal_ok g \<Longrightarrow> mark_all_uncertain is g = Inr h \<Longrightarrow>
   same_goal g h \<and> g_cancel h = g_cancel g \<and> g_completed h = g_completed g"
proof (induction "is" arbitrary: g)
  case (Cons i "is")
  then obtain f where f: "mark_step_uncertain i lease_expired_reason g = Inr f" "mark_all_uncertain is f = Inr h"
    by (auto simp: result_simps)
  have "goal_ok f" using mark_step_uncertain_doubts [OF Cons.prems(1) f(1)] by (simp add: doubts_steps_def)
  with Cons.IH [OF _ f(2)] mark_step_uncertain_same [OF Cons.prems(1) f(1)]
  show ?case by (simp add: same_goal_def)
qed simp

lemma recovered_goal_same:
  "goal_ok g \<Longrightarrow> recovered_goal g = Inr h \<Longrightarrow>
   same_goal g h \<and> g_cancel h = g_cancel g \<and> g_completed h = g_completed g"
  using mark_all_uncertain_same [of g _ h]
  by (auto simp: recovered_goal_def Let_def make_goal_fields same_goal_def goal_ok_id split: if_splits)

lemma block_step_same:
  "goal_ok g \<Longrightarrow> block_step i reason g = Inr h \<Longrightarrow>
   same_goal g h \<and> g_cancel h = g_cancel g \<and> g_completed h = g_completed g"
  by (auto simp: block_step_def Let_def result_simps make_goal_fields same_goal_def goal_ok_id)

lemma exec_goal_same:
  assumes "goal_ok g" and "exec_goal c g = Inr h" and "\<nexists>r now. c = Revise r now"
  shows "same_goal g h"
proof (cases c)
  case (MarkUncertain i reason)
  with assms show ?thesis using mark_step_uncertain_same by auto
next
  case LoseLease
  with assms show ?thesis using recovered_goal_same by (auto simp: result_simps)
next
  case (RecordEvidence e)
  with assms show ?thesis
    by (auto simp: record_evidence_def result_simps make_goal_fields same_goal_def goal_ok_id
        split: if_splits option.splits)
qed (use assms in \<open>auto simp: approve_goal_def start_goal_def pause_goal_def resume_goal_def steer_goal_def
    request_goal_cancellation_def fulfill_steering_def cancel_goal_def fail_goal_def complete_goal_def
    start_goal_step_def complete_goal_step_def block_step_def retry_step_def skip_step_def approve_step_def
    update_goal_budget_def link_resource_def Let_def result_simps make_goal_fields same_goal_def goal_ok_id
    split: if_splits\<close>)

section \<open>Histories of one goal\<close>

definition goal_reaches :: "goal \<Rightarrow> goal \<Rightarrow> bool" where
  "goal_reaches g h \<longleftrightarrow> (\<exists>cs. h = goal_history cs g)"

lemma goal_reaches_refl [simp]: "goal_reaches g g"
  unfolding goal_reaches_def by (rule exI [of _ "[]"]) simp

lemma goal_reaches_trans: "goal_reaches f g \<Longrightarrow> goal_reaches g h \<Longrightarrow> goal_reaches f h"
  unfolding goal_reaches_def goal_history_def by (metis fold_append comp_apply)

lemma goal_reaches_call: "exec_goal c g = Inr h \<Longrightarrow> goal_reaches g h"
  unfolding goal_reaches_def by (rule exI [of _ "[c]"]) (simp add: goal_after_def)

lemma goal_reaches_ok: "goal_reaches g h \<Longrightarrow> goal_ok g \<Longrightarrow> goal_ok h"
proof -
  have "goal_ok g \<Longrightarrow> goal_ok (goal_history cs g)" for cs
    by (induction cs arbitrary: g) (auto simp: goal_after_ok)
  then show "goal_reaches g h \<Longrightarrow> goal_ok g \<Longrightarrow> goal_ok h" by (auto simp: goal_reaches_def)
qed

text \<open>The revision and the time of an update, which the store assigns.\<close>

lemma with_revision_reaches: "with_revision g r now = Inr h \<Longrightarrow> goal_reaches g h"
  by (rule goal_reaches_call [of "Revise r now"]) simp

lemma with_revision_fields:
  assumes "goal_ok g" and "with_revision g r now = Inr h"
  shows "g_id h = g_id g" "g_profile h = g_profile g" "g_revision h = r" "g_updated h = now"
    "g_status h = g_status g" "g_cancel h = g_cancel g" "g_completed h = g_completed g" "goal_ok h"
  using assms goal_reaches_ok [OF with_revision_reaches [OF assms(2)] assms(1)]
  by (auto simp: with_revision_def make_goal_fields goal_ok_id)

lemma touched_reaches: "goal_ok g \<Longrightarrow> goal_reaches g (g\<lparr>g_updated := t\<rparr>)"
proof -
  assume ok: "goal_ok g"
  then have "make_goal (g\<lparr>g_updated := t\<rparr>) = Inr (g\<lparr>g_updated := t\<rparr>)" by (metis goal_okD(7) goal_ok_updated)
  then have "with_revision g (g_revision g) t = Inr (g\<lparr>g_updated := t\<rparr>)" by (simp add: with_revision_def)
  then show ?thesis by (rule with_revision_reaches)
qed

section \<open>The soundness of the store and what it tracks\<close>

definition revisions_of :: "goal_row \<Rightarrow> goal_db \<Rightarrow> int list" where
  "revisions_of r s = map gv_revision (filter (\<lambda>e. gv_goal e = gr_id r) (d_events s))"

definition store_sound :: "goal_db \<Rightarrow> bool" where
  "store_sound s \<longleftrightarrow>
     distinct (map gr_id (d_goals s)) \<and> (\<forall>r\<in>set (d_goals s). row_synced r) \<and>
     (\<forall>r\<in>set (d_goals s). revisions_of r s = [0..gr_revision r]) \<and>
     (\<forall>e\<in>set (d_events s). gv_goal e \<in> gr_id ` set (d_goals s))"

definition row_follows :: "goal_row \<Rightarrow> goal_row \<Rightarrow> bool" where
  "row_follows r q \<longleftrightarrow> gr_id q = gr_id r \<and> gr_profile q = gr_profile r \<and> gr_created q = gr_created r \<and>
     gr_revision r \<le> gr_revision q \<and> goal_reaches (goal_of r) (goal_of q)"

text \<open>\<open>C\<close> is a property of the goals that calls create.\<close>

definition comes_from :: "(goal \<Rightarrow> bool) \<Rightarrow> goal_row \<Rightarrow> bool" where
  "comes_from C q \<longleftrightarrow> (\<exists>g. C g \<and> goal_ok g \<and> g_revision g = 0 \<and> g_id g = gr_id q \<and> goal_reaches g (goal_of q))"

definition tracks :: "(goal \<Rightarrow> bool) \<Rightarrow> goal_db \<Rightarrow> goal_db \<Rightarrow> bool" where
  "tracks C s t \<longleftrightarrow> (store_sound s \<longrightarrow> store_sound t \<and>
     (\<forall>q\<in>set (d_goals t). (\<exists>r\<in>set (d_goals s). row_follows r q) \<or> comes_from C q))"

lemma row_follows_refl [simp]: "row_follows r r"
  by (simp add: row_follows_def)

lemma row_follows_trans: "row_follows p q \<Longrightarrow> row_follows q r \<Longrightarrow> row_follows p r"
  by (auto simp: row_follows_def intro: goal_reaches_trans)

lemma comes_from_follows: "comes_from C q \<Longrightarrow> row_follows q r \<Longrightarrow> comes_from C r"
  by (auto simp: comes_from_def row_follows_def intro: goal_reaches_trans)

interpretation tracking: evolution "tracks C" for C
proof
  show "tracks C s s" for s unfolding tracks_def using row_follows_refl by blast
  fix s t u assume st: "tracks C s t" and tu: "tracks C t u"
  show "tracks C s u"
    unfolding tracks_def
  proof (intro impI)
    assume s: "store_sound s"
    then have t: "store_sound t" using st by (simp add: tracks_def)
    then have u: "store_sound u" using tu by (simp add: tracks_def)
    have "(\<exists>r\<in>set (d_goals s). row_follows r q) \<or> comes_from C q" if q: "q \<in> set (d_goals u)" for q
    proof -
      from tu t q consider r where "r \<in> set (d_goals t)" "row_follows r q" | "comes_from C q"
        by (auto simp: tracks_def)
      then show ?thesis
      proof cases
        case (1 r)
        from st s 1(1) have "(\<exists>p\<in>set (d_goals s). row_follows p r) \<or> comes_from C r"
          by (simp add: tracks_def)
        then show ?thesis using 1(2) row_follows_trans comes_from_follows by blast
      qed simp
    qed
    with u show "store_sound u \<and> (\<forall>q\<in>set (d_goals u). (\<exists>r\<in>set (d_goals s). row_follows r q) \<or> comes_from C q)"
      by blast
  qed
qed

lemma same_goal_row: "store_sound s \<Longrightarrow> r \<in> set (d_goals s) \<Longrightarrow> q \<in> set (d_goals s) \<Longrightarrow> gr_id r = gr_id q \<Longrightarrow> r = q"
  unfolding store_sound_def by (metis distinct_map inj_onD)

section \<open>The writes of the store\<close>

text \<open>A write that leaves goals and events alone.\<close>

lemma other_tables_tracks: "d_goals t = d_goals s \<Longrightarrow> d_events t = d_events s \<Longrightarrow> tracks C s t"
  unfolding tracks_def store_sound_def revisions_of_def by (metis row_follows_refl)

text \<open>A write that touches a row without a new revision: claims and their release.\<close>

definition row_touched :: "goal_row \<Rightarrow> goal_row \<Rightarrow> bool" where
  "row_touched r q \<longleftrightarrow> gr_id q = gr_id r \<and> gr_profile q = gr_profile r \<and> gr_created q = gr_created r \<and>
     gr_revision q = gr_revision r \<and> gr_snapshot q = gr_snapshot r \<and> row_synced q"

lemma row_touched_follows: "row_synced r \<Longrightarrow> row_touched r q \<Longrightarrow> row_follows r q"
proof -
  assume r: "row_synced r" and t: "row_touched r q"
  have "goal_of q = (goal_of r)\<lparr>g_updated := gr_updated q\<rparr>" using t by (simp add: row_touched_def goal_of_def)
  then have "goal_reaches (goal_of r) (goal_of q)" using touched_reaches [OF goal_of_ok [OF r]] by simp
  then show ?thesis using t by (simp add: row_follows_def row_touched_def)
qed

lemma touch_tracks:
  assumes "d_goals t = upd_where P f (d_goals s)" and "d_events t = d_events s"
    and "\<And>r. P r \<Longrightarrow> row_synced r \<Longrightarrow> row_touched r (f r)"
  shows "tracks C s t"
  unfolding tracks_def
proof (intro impI)
  assume s: "store_sound s"
  have touched: "row_touched r (if P r then f r else r)" if "r \<in> set (d_goals s)" for r
    using s that assms(3) by (auto simp: store_sound_def row_touched_def)
  then have ids: "map gr_id (d_goals t) = map gr_id (d_goals s)"
    unfolding assms(1) upd_where_def by (simp add: row_touched_def)
  have rows: "\<exists>r\<in>set (d_goals s). q = (if P r then f r else r)" if "q \<in> set (d_goals t)" for q
    using that unfolding assms(1) set_upd_where by auto
  have "\<exists>r\<in>set (d_goals s). row_follows r q \<and> row_touched r q" if "q \<in> set (d_goals t)" for q
    using rows [OF that] touched s row_touched_follows by (fastforce simp: store_sound_def)
  moreover have "gr_id ` set (d_goals t) = gr_id ` set (d_goals s)"
    using arg_cong [OF ids, of set] by simp
  ultimately show "store_sound t \<and> (\<forall>q\<in>set (d_goals t). (\<exists>r\<in>set (d_goals s). row_follows r q) \<or> comes_from C q)"
    using s ids assms(2) by (fastforce simp: store_sound_def revisions_of_def row_touched_def)
qed

text \<open>A new revision of one row, with its event.\<close>

lemma revise_tracks:
  assumes "d_goals t = upd_where P f (d_goals s)" and "d_events t = d_events s @ [e]"
    and "r \<in> set (d_goals s)" and "P r" and "\<And>q. P q \<Longrightarrow> gr_id q = gr_id r"
    and "gv_goal e = gr_id r" and "gv_revision e = gr_revision r + 1"
    and "row_synced r \<Longrightarrow> row_synced (f r) \<and> row_follows r (f r) \<and> gr_revision (f r) = gr_revision r + 1"
  shows "tracks C s t"
  unfolding tracks_def
proof (intro impI)
  assume s: "store_sound s"
  have only: "P q \<longleftrightarrow> q = r" if "q \<in> set (d_goals s)" for q
    using assms(4,5) same_goal_row [OF s that assms(3)] by blast
  have new: "row_synced (f r)" "row_follows r (f r)" "gr_revision (f r) = gr_revision r + 1"
    using assms(8) s assms(3) by (auto simp: store_sound_def)
  have rows: "\<exists>q\<in>set (d_goals s). x = (if q = r then f r else q)" if "x \<in> set (d_goals t)" for x
    using that only unfolding assms(1) set_upd_where by auto
  have ids: "map gr_id (d_goals t) = map gr_id (d_goals s)"
    using only new(2) unfolding assms(1) upd_where_def by (auto simp: row_follows_def)
  have "0 \<le> gr_revision r"
    using s assms(3) goal_okD(6) by (fastforce simp: store_sound_def row_synced_def)
  then have next_rev: "[0..gr_revision r] @ [gr_revision r + 1] = [0..gr_revision r + 1]"
    by (simp add: upto_rec2 [of 0 "gr_revision r + 1"])
  have follow: "\<exists>q\<in>set (d_goals s). row_follows q x" and syn: "row_synced x"
    and revs: "revisions_of x t = [0..gr_revision x]" if "x \<in> set (d_goals t)" for x
  proof -
    from rows [OF that] obtain q where q: "q \<in> set (d_goals s)" "x = (if q = r then f r else q)" by blast
    show "\<exists>q\<in>set (d_goals s). row_follows q x" using q new(2) row_follows_refl [of q] by metis
    show "row_synced x" using q new(1) s by (auto simp: store_sound_def)
    show "revisions_of x t = [0..gr_revision x]"
    proof (cases "q = r")
      case True
      have "revisions_of r s = [0..gr_revision r]" using s assms(3) by (simp add: store_sound_def)
      then show ?thesis
        using True q(2) new assms(2,6,7) next_rev by (simp add: revisions_of_def row_follows_def)
    next
      case False
      then have "gr_id q \<noteq> gr_id r" using same_goal_row [OF s q(1) assms(3)] by blast
      then show ?thesis using False q s assms(2,6) by (simp add: revisions_of_def store_sound_def)
    qed
  qed
  have "gr_id ` set (d_goals t) = gr_id ` set (d_goals s)" using arg_cong [OF ids, of set] by simp
  then show "store_sound t \<and> (\<forall>q\<in>set (d_goals t). (\<exists>r\<in>set (d_goals s). row_follows r q) \<or> comes_from C q)"
    using s follow syn revs ids assms(2,3,6) by (auto simp: store_sound_def)
qed

end
