(* ===== verification/GoalStoreMachine.thy ===== *)
theory GoalStoreMachine
  imports GoalStoreFacts
begin

text \<open>
  The goal store as a machine: the calls of its interface with the clock they read, each a
  transaction, and what every history of them keeps.  The goals of a reachable store are
  reachable goals of \<open>GoalMachine\<close>, one event per revision.
\<close>

section \<open>Calls\<close>

datatype goal_store_call =
    CreateGoal goal string string pydict
  | ChangeGoal string int string string goal_call pydict "goal_claim option"
  | ReadGoal string
  | ClaimGoal string string int int
  | HeartbeatGoal goal_claim int
  | ReleaseGoal goal_claim
  | BeginAction goal_claim string string string "string option" bool
  | LinkActionEffect goal_claim string string
  | FinishAction goal_claim string "pydict option" "string option"
  | BeginModelRequest goal_claim string string string int string int "string list"
  | AcknowledgeResponse goal_claim string string
  | RecordVerification goal_claim string string int string string bool string
  | ApplyVerifiedStep goal_claim string int "pydict option"
  | AdmitSlice string string int string int
  | MarkSliceStarted goal_claim string
  | FinishSlice goal_claim string string pydict "pydict option"
  | RecoverExpired string
  | PurgeGoals "(string \<times> int) list"

fun exec_goal_store :: "world \<Rightarrow> string \<Rightarrow> int \<Rightarrow> goal_store_call \<Rightarrow> unit goal_op" where
  "exec_goal_store w p now (CreateGoal g actor kind d) = done_after (create_goal w p g actor kind d)"
| "exec_goal_store w p now (ChangeGoal i n kind actor c d claim) =
     done_after (mutate_goal w p now i n kind actor (exec_goal c) d claim)"
| "exec_goal_store w p now (ReadGoal i) = done_after (get_goal p i)"
| "exec_goal_store w p now (ClaimGoal i runner n secs) = done_after (claim_goal w p now i runner n secs)"
| "exec_goal_store w p now (HeartbeatGoal c secs) = done_after (heartbeat_goal p now c secs)"
| "exec_goal_store w p now (ReleaseGoal c) = done_after (release_goal_claim p now c)"
| "exec_goal_store w p now (BeginAction c st key kind ref b) =
     done_after (begin_action w p now c st key kind ref b)"
| "exec_goal_store w p now (LinkActionEffect c a e) = done_after (link_action_effect p now c a e)"
| "exec_goal_store w p now (FinishAction c a d e) = done_after (finish_action p now c a d e)"
| "exec_goal_store w p now (BeginModelRequest c st cv turn n purpose rv ids) =
     done_after (begin_model_request w p now c st cv turn n purpose rv ids)"
| "exec_goal_store w p now (AcknowledgeResponse c q ref) =
     done_after (acknowledge_model_response p now c q ref)"
| "exec_goal_store w p now (RecordVerification c st op n cx ev b fb) =
     done_after (record_verification w p now c st op n cx ev b fb)"
| "exec_goal_store w p now (ApplyVerifiedStep c op n d) = done_after (apply_verified_step w p now c op n d)"
| "exec_goal_store w p now (AdmitSlice i runner n turn secs) =
     done_after (admit_slice w p now i runner n turn secs)"
| "exec_goal_store w p now (MarkSliceStarted c turn) = done_after (mark_slice_started p now c turn)"
| "exec_goal_store w p now (FinishSlice c turn reason d e) = done_after (finish_slice p now c turn reason d e)"
| "exec_goal_store w p now (RecoverExpired actor) = done_after (recover_expired_goals w p now actor)"
| "exec_goal_store w p now (PurgeGoals ns) = done_after (purge_terminal p ns)"

definition goal_store_after :: "world \<Rightarrow> string \<times> int \<times> goal_store_call \<Rightarrow> goal_db \<Rightarrow> goal_db" where
  "goal_store_after w pc = (case pc of (p, now, c) \<Rightarrow> commit (exec_goal_store w p now c))"

definition goal_store_history :: "world \<Rightarrow> (string \<times> int \<times> goal_store_call) list \<Rightarrow> goal_db \<Rightarrow> goal_db" where
  "goal_store_history w = fold (goal_store_after w)"

section \<open>Reads\<close>

lemma goal_row_ofD:
  "goal_row_of p i s = Inr (r, t) \<Longrightarrow> t = s \<and> r \<in> set (d_goals s) \<and> gr_id r = i \<and> gr_profile r = p"
  by (auto simp: goal_row_of_def result_simps find_Some_iff)

text \<open>A goal read from the store belongs to one of its rows.\<close>

definition holds :: "goal_db \<Rightarrow> goal \<Rightarrow> goal_row \<Rightarrow> bool" where
  "holds s g r \<longleftrightarrow> r \<in> set (d_goals s) \<and> goal_from_row r = Inr g"

lemma assert_claim_ownerD:
  "assert_claim_owner p c now s = Inr (g, t) \<Longrightarrow>
   t = s \<and> (\<exists>r. holds s g r \<and> gr_id r = gk_goal c \<and> gr_profile r = p \<and> gr_token r = Some (gk_token c))"
  by (auto simp: assert_claim_owner_def holds_def result_simps dest!: goal_row_ofD)

lemma assert_action_boundaryD:
  "assert_action_boundary p c i now s = Inr (g, t) \<Longrightarrow> t = s \<and> assert_claim_owner p c now s = Inr (g, s)"
  by (auto simp: assert_action_boundary_def result_simps dest: assert_claim_ownerD)

lemma reads_only_owner [keeps_intros]: "keeps (tracks C) (assert_claim_owner p c now)"
  by (rule keepsI) (auto dest: assert_claim_ownerD intro: tracking.same)

lemma reads_only_boundary [keeps_intros]: "keeps (tracks C) (assert_action_boundary p c i now)"
  by (rule keepsI) (auto dest: assert_action_boundaryD intro: tracking.same)

lemma reads_only_row [keeps_intros]: "keeps (tracks C) (goal_row_of p i)"
  by (rule keepsI) (auto dest: goal_row_ofD intro: tracking.same)

lemmas tracks_keeps = tracking.keeps_bind tracking.keeps_ret tracking.keeps_raise tracking.keeps_lift
  tracking.keeps_guard tracking.keeps_gets tracking.keeps_select_row tracking.keeps_map_op
  tracking.keeps_done_after keeps_if keeps_case_option keeps_case_prod
  reads_only_owner reads_only_boundary reads_only_row

section \<open>Writes\<close>

text \<open>A write of tables that hold no goals and no events.\<close>

definition same_goals :: "goal_db \<Rightarrow> goal_db \<Rightarrow> bool" where
  "same_goals s t \<longleftrightarrow> d_goals t = d_goals s \<and> d_events t = d_events s"

interpretation aside: evolution same_goals
  by unfold_locales (auto simp: same_goals_def)

lemma same_goals_tracks: "same_goals s t \<Longrightarrow> tracks C s t"
  by (rule other_tables_tracks) (simp_all add: same_goals_def)

lemma aside_tracks: "keeps same_goals m \<Longrightarrow> keeps (tracks C) m"
  by (rule keepsI) (auto dest: keepsD intro: same_goals_tracks)

lemma aside_reads [keeps_intros]:
  "keeps same_goals (assert_claim_owner p c now)" "keeps same_goals (assert_action_boundary p c i now)"
  "keeps same_goals (goal_row_of p i)"
  by (rule keepsI, auto dest!: assert_claim_ownerD assert_action_boundaryD goal_row_ofD simp: same_goals_def)+

lemma aside_writes:
  "start_execution x s = Inr t \<Longrightarrow> same_goals s t" "put_slice y s = Inr t \<Longrightarrow> same_goals s t"
  "put_action a s = Inr t \<Longrightarrow> same_goals s t" "put_request q s = Inr t \<Longrightarrow> same_goals s t"
  "put_verification v s = Inr t \<Longrightarrow> same_goals s t"
  by (auto simp: same_goals_def start_execution_def put_slice_def put_action_def put_request_def
      put_verification_def result_simps split: if_splits)

lemma aside_ops [keeps_intros]:
  "keeps same_goals (draw_uuid w)" "keeps same_goals (update_actions P f)" "keeps same_goals (update_executions i h)"
  "keeps same_goals (action_of P e)"
  by (rule keepsI, auto simp: same_goals_def draw_uuid_def update_actions_def update_executions_def action_of_def
      result_simps)+

lemmas aside_keeps = aside.keeps_bind aside.keeps_ret aside.keeps_raise aside.keeps_lift aside.keeps_guard
  aside.keeps_gets aside.keeps_select_row aside.keeps_modify_result aside.keeps_modify aside_reads aside_ops
  keeps_if keeps_case_option keeps_case_prod keeps_let

text \<open>Operations that write checkpoints, requests and slices only.\<close>

lemma aside_operations:
  "keeps same_goals (begin_action w p now c st key kind ref b)"
  "keeps same_goals (link_action_effect p now c a e)"
  "keeps same_goals (finish_action p now c a d err)"
  "keeps same_goals (begin_model_request w p now c st cv turn n purpose rv ids)"
  "keeps same_goals (acknowledge_model_response p now c q r)"
  "keeps same_goals (mark_slice_started p now c turn)"
  "keeps same_goals (finish_slice p now c turn reason usage x)"
  "keeps same_goals (get_goal p i)"
  unfolding begin_action_def link_action_effect_def finish_action_def begin_model_request_def
    acknowledge_model_response_def mark_slice_started_def finish_slice_def get_goal_def
  by (intro aside_keeps; (erule aside_writes)?; simp add: same_goals_def)+

section \<open>Claims\<close>

lemma touch_keeps:
  assumes "\<And>r. P r \<Longrightarrow> row_synced r \<Longrightarrow> row_touched r (f r)"
  shows "keeps (tracks C) (update_goal_rows P f)"
  by (rule keepsI) (auto simp: update_goal_rows_def intro: touch_tracks [OF _ _ assms])

lemma claim_operations:
  "keeps (tracks C) (claim_goal w p now i runner n secs)"
  "keeps (tracks C) (heartbeat_goal p now c secs)"
  "keeps (tracks C) (release_goal_claim p now c)"
  unfolding claim_goal_def heartbeat_goal_def release_goal_claim_def
  by (intro tracks_keeps keeps_let aside_tracks [OF aside_ops(1)] touch_keeps;
      simp add: row_touched_def row_synced_def lease_live_def split: option.splits)+

section \<open>New revisions\<close>

lemma insert_goal_eventD:
  "insert_goal_event w g kind actor d now s = Inr (u, t) \<Longrightarrow>
   d_goals t = d_goals s \<and> (\<exists>e. d_events t = d_events s @ [e] \<and> gv_goal e = g_id g \<and> gv_revision e = g_revision g)"
  by (auto simp: insert_goal_event_def draw_uuid_def insert_row_def result_simps split: if_splits)

text \<open>The row as every revising statement leaves it.\<close>

definition revised_row :: "goal \<Rightarrow> goal_row \<Rightarrow> goal_row \<Rightarrow> bool" where
  "revised_row h r q \<longleftrightarrow> gr_id q = gr_id r \<and> gr_profile q = gr_profile r \<and> gr_created q = gr_created r \<and>
     gr_snapshot q = h \<and> gr_status q = g_status h \<and> gr_revision q = g_revision h \<and>
     gr_cancel q = g_cancel h \<and> gr_completed q = g_completed h \<and> gr_updated q = g_updated h \<and>
     (gr_token q = None \<longleftrightarrow> gr_runner q = None) \<and> (gr_token q = None \<longleftrightarrow> gr_lease q = None)"

lemma revised_row_follows:
  assumes syn: "row_synced r" and g: "goal_from_row r = Inr g" and reach: "goal_reaches g changed"
    and same: "same_goal g changed" and h: "with_revision changed (g_revision g + 1) now = Inr h"
    and q: "revised_row h r q"
  shows "row_synced q \<and> row_follows r q \<and> gr_revision q = gr_revision r + 1"
proof -
  have gr: "g = goal_of r" using goal_from_row_synced [OF syn] g by simp
  have ok: "goal_ok changed" using goal_reaches_ok [OF reach] goal_of_ok [OF syn] gr by simp
  note fields = with_revision_fields [OF ok h]
  have q': "goal_of q = h" using q by (simp add: revised_row_def goal_of_def)
  have "goal_reaches g h" using goal_reaches_trans [OF reach with_revision_reaches [OF h]] .
  then show ?thesis
    using q q' fields same gr goal_of_fields [OF syn]
    by (auto simp: revised_row_def row_synced_def row_follows_def same_goal_def)
qed

lemma revise_commits:
  assumes "holds s g r" and "goal_reaches g changed" and "same_goal g changed"
    and h: "with_revision changed (g_revision g + 1) now = Inr h"
    and upd: "update_goal_rows P f s = Inr (n, s1)" and mid: "same_goals s1 s2"
    and ev: "insert_goal_event w h kind actor d now s2 = Inr (u, t)"
    and P: "row_synced r \<Longrightarrow> P r" "\<And>q. row_synced r \<Longrightarrow> P q \<Longrightarrow> gr_id q = g_id h"
    and f: "row_synced r \<Longrightarrow> revised_row h r (f r)"
  shows "tracks C s t"
proof (cases "store_sound s")
  case False
  then show ?thesis by (simp add: tracks_def)
next
  case True
  have r: "r \<in> set (d_goals s)" "goal_from_row r = Inr g" using assms(1) by (auto simp: holds_def)
  with True have syn: "row_synced r" by (simp add: store_sound_def)
  then have gr: "g = goal_of r" using goal_from_row_synced r(2) by simp
  have ok: "goal_ok changed" using goal_reaches_ok [OF assms(2)] goal_of_ok [OF syn] gr by simp
  note fields = with_revision_fields [OF ok h]
  have hid: "g_id h = gr_id r" "g_revision h = gr_revision r + 1"
    using fields assms(3) gr goal_of_fields [OF syn] by (simp_all add: same_goal_def)
  obtain e where e: "d_goals t = d_goals s1" "d_events t = d_events s1 @ [e]" "gv_goal e = g_id h"
      "gv_revision e = g_revision h"
    using insert_goal_eventD [OF ev] mid by (auto simp: same_goals_def)
  have s1: "d_goals s1 = upd_where P f (d_goals s)" "d_events s1 = d_events s"
    using upd by (auto simp: update_goal_rows_def)
  show ?thesis
  proof (rule revise_tracks [where P = P and f = f and e = e and r = r])
    show "d_goals t = upd_where P f (d_goals s)" "d_events t = d_events s @ [e]" using e s1 by simp_all
    show "r \<in> set (d_goals s)" "P r" using r P(1) [OF syn] by simp_all
    show "\<And>q. P q \<Longrightarrow> gr_id q = gr_id r" using P(2) [OF syn] hid by simp
    show "gv_goal e = gr_id r" "gv_revision e = gr_revision r + 1" using e hid by simp_all
    show "row_synced (f r) \<and> row_follows r (f r) \<and> gr_revision (f r) = gr_revision r + 1"
      using revised_row_follows [OF syn r(2) assms(2,3) h f [OF syn]] .
  qed
qed

lemma holds_fields:
  assumes "row_synced r" and "goal_from_row r = Inr g"
  shows "g_id g = gr_id r" "g_profile g = gr_profile r" "g_revision g = gr_revision r" "g_status g = gr_status r"
    "g_cancel g = gr_cancel r" "g_completed g = gr_completed r" "goal_ok g"
  using goal_of_fields [OF assms(1)] goal_of_ok [OF assms(1)] goal_from_row_synced [OF assms(1)] assms(2) by simp_all

lemma post_goal_row:
  "(\<And>r. r \<in> set (d_goals s) \<Longrightarrow> gr_id r = i \<Longrightarrow> gr_profile r = p \<Longrightarrow> Q r s) \<Longrightarrow> post (goal_row_of p i) Q s"
  by (rule postI) (auto dest: goal_row_ofD)

text \<open>The statements of \<^verbatim>\<open>mutate\<close> and \<^verbatim>\<open>_commit_execution_goal\<close> that write.\<close>

definition selects :: "(goal \<Rightarrow> goal_row \<Rightarrow> bool) \<Rightarrow> goal \<Rightarrow> bool" where
  "selects P g \<longleftrightarrow> (\<forall>h. g_id h = g_id g \<longrightarrow> g_profile h = g_profile g \<longrightarrow>
     (\<forall>q. P h q \<longleftrightarrow> gr_id q = g_id g \<and> gr_profile q = g_profile g \<and> gr_revision q = g_revision g))"

lemma post_revise:
  assumes "holds s g r" and "goal_reaches g changed" and same: "same_goal g changed"
    and P: "selects P g" and f: "\<And>h. row_synced r \<Longrightarrow> revised_row h r (f h r)"
  shows "post (bind (lift (with_revision changed (g_revision g + 1) now)) (\<lambda>h.
     bind (update_goal_rows (P h) (f h)) (\<lambda>n.
     bind (guard (n = 1) e) (\<lambda>_.
     bind (insert_goal_event w h kind actor d now) (\<lambda>_. ret h))))) (\<lambda>_ t. tracks C s t) s"
proof (rule postI)
  fix x t
  assume "bind (lift (with_revision changed (g_revision g + 1) now)) (\<lambda>h.
     bind (update_goal_rows (P h) (f h)) (\<lambda>n.
     bind (guard (n = 1) e) (\<lambda>_.
     bind (insert_goal_event w h kind actor d now) (\<lambda>_. ret h)))) s = Inr (x, t)"
  then obtain h s1 u k where h: "with_revision changed (g_revision g + 1) now = Inr h"
      and upd: "update_goal_rows (P h) (f h) s = Inr (k, s1)"
      and ev: "insert_goal_event w h kind actor d now s1 = Inr (u, t)"
    by (auto simp: result_simps)
  have g: "goal_from_row r = Inr g" using assms(1) by (simp add: holds_def)
  have hg: "g_id h = g_id g \<and> g_profile h = g_profile g" if "row_synced r"
  proof -
    have "goal_ok changed" using goal_reaches_ok [OF assms(2)] holds_fields(7) [OF that g] by blast
    then show ?thesis using with_revision_fields [OF _ h] same by (simp add: same_goal_def)
  qed
  show "tracks C s t"
  proof (rule revise_commits [OF assms(1-3) h upd aside.same ev])
    assume syn: "row_synced r"
    show "P h r" using P hg [OF syn] holds_fields [OF syn g] by (simp add: selects_def)
    show "revised_row h r (f h r)" using f [OF syn] .
    show "gr_id q = g_id h" if "P h q" for q using that P hg [OF syn] by (simp add: selects_def)
  qed
qed

lemma revised_rows:
  "row_synced r \<Longrightarrow> revised_row h r (mutated_row h owned r)" "row_synced r \<Longrightarrow> revised_row h r (committed_row h r)"
  by (auto simp: revised_row_def mutated_row_def committed_row_def Let_def row_synced_def)

text \<open>\<^verbatim>\<open>mutate\<close> commits one call of the goal.\<close>

lemma mutate_goal_tracks: "keeps (tracks C) (mutate_goal w p now i n kind actor (exec_goal c) d claim)"
proof (rule keeps_post)
  fix s
  have pre: "keeps (tracks C) (case claim of None \<Rightarrow> ret ()
       | Some k \<Rightarrow> bind (guard (gk_goal k = i) GoalLeaseConflictError) (\<lambda>_.
                  bind (assert_claim_owner p k now) (\<lambda>_. ret ())))"
    by (intro tracks_keeps)
  show "post (mutate_goal w p now i n kind actor (exec_goal c) d claim) (\<lambda>_ t. tracks C s t) s"
    unfolding mutate_goal_def
    apply (rule post_bind, rule post_keeps [OF pre])
    apply (rule post_bind, rule post_goal_row)
    apply (rule post_bind, rule post_lift)
    apply (rule post_bind, rule post_guard)
    apply (rule post_bind, rule post_gets)
    apply (rule post_bind, rule post_guard)
    apply (rule post_bind, rule post_lift)
    apply (rule post_bind, rule post_guard)
    apply (rule post_bind, rule post_guard)
    apply (rule post_if, rule post_ret, assumption)
    apply (rule post_bind, rule post_guard)
    apply (rule post_weaken, rule post_revise)
    apply (auto simp: holds_def same_goal_def selects_def intro: goal_reaches_call revised_rows tracking.later)
    done
qed

lemma post_commit_execution:
  "holds s g r \<Longrightarrow> goal_reaches g changed \<Longrightarrow> same_goal g changed \<Longrightarrow>
   post (commit_execution_goal w now g changed kind actor) (\<lambda>_ t. tracks C s t) s"
  unfolding commit_execution_goal_def by (rule post_revise) (auto simp: selects_def intro: revised_rows)

text \<open>\<^verbatim>\<open>admit_slice\<close> starts a ready step or completes the goal.\<close>

lemma holds_same: "holds s g r \<Longrightarrow> same_goals s t \<Longrightarrow> holds t g r"
  by (simp add: holds_def same_goals_def)

lemma holds_ok: "holds s g r \<Longrightarrow> store_sound s \<Longrightarrow> goal_ok g"
  by (auto simp: holds_def store_sound_def dest: holds_fields(7))

lemma tracksI: "(store_sound s \<Longrightarrow> tracks C s t) \<Longrightarrow> tracks C s t"
  by (auto simp: tracks_def)

lemma post_commit_call:
  assumes "holds s g r" and "exec_goal c g = Inr changed" and "\<nexists>k n. c = Revise k n"
  shows "post (commit_execution_goal w now g changed kind actor) (\<lambda>_ t. tracks C s t) s"
proof (cases "store_sound s")
  case True
  show ?thesis
    using post_commit_execution [OF assms(1) goal_reaches_call [OF assms(2)]]
      exec_goal_same [OF holds_ok [OF assms(1) True] assms(2,3)] by blast
next
  case False
  then show ?thesis by (auto simp: post_def tracks_def)
qed

lemma step_or_complete_tracks:
  "same_goals s t \<Longrightarrow> holds s g r \<Longrightarrow> complete_goal now g = Inr h \<Longrightarrow>
   post (commit_execution_goal w now g h kind actor) (\<lambda>_ u. tracks C s u) t"
  "same_goals s t \<Longrightarrow> holds s g r \<Longrightarrow> start_goal_step i now g = Inr h \<Longrightarrow>
   post (commit_execution_goal w now g h kind actor) (\<lambda>_ u. tracks C s u) t"
  by (rule post_weaken [OF post_commit_call [where c = "CompleteGoal now"]];
      auto intro: holds_same tracking.later same_goals_tracks)
    (rule post_weaken [OF post_commit_call [where c = "StartGoalStep i now"]];
      auto intro: holds_same tracking.later same_goals_tracks)

lemma claimed_touch: "row_synced r \<Longrightarrow> row_touched r (claimed_goal_row c runner r)"
  by (simp add: row_touched_def claimed_goal_row_def row_synced_def)

lemma admit_slice_tracks: "keeps (tracks C) (admit_slice w p now i runner n turn secs)"
proof (rule keeps_post)
  fix s
  show "post (admit_slice w p now i runner n turn secs) (\<lambda>_ t. tracks C s t) s"
    unfolding admit_slice_def
    apply (rule post_bind, rule post_guard)
    apply (rule post_bind, rule post_goal_row)
    apply (rule post_bind, rule post_lift)
    apply (rule post_bind, rule post_guard, rule post_bind, rule post_guard, rule post_bind, rule post_guard)
    apply (rule post_bind, rule post_keeps [OF aside_ops(1)])
    apply (rule post_bind, rule post_keeps [OF aside.keeps_modify_result], erule aside_writes)
    apply (rule post_bind, rule post_select_row, rule post_let, rule post_bind, rule post_gets)
    apply (rule post_case_prod)+
    apply (rule post_case_option)
     apply (rule post_if)
      apply (rule post_bind, rule post_lift, rule post_bind)
      apply (rule post_weaken, rule step_or_complete_tracks(1))
         apply (rule aside.later, assumption, assumption)
        apply (simp add: holds_def)
       apply assumption
      apply (rule post_ret, assumption)
     apply (rule post_ret, rule same_goals_tracks, erule (1) aside.later)
    apply (rule post_if)
     apply (rule post_bind, rule post_keeps [OF aside_ops(3)], rule post_ret, rule same_goals_tracks)
     apply (blast intro: aside.later)
    apply (rule post_bind, rule post_gets, rule post_if)
     apply (rule post_ret, rule same_goals_tracks, erule (1) aside.later)
    apply (rule post_bind, rule post_weaken [where Q = "\<lambda>_ u. tracks C s u"])
     apply (rule post_if)
      apply (rule post_bind, rule post_lift, rule post_bind)
      apply (rule post_weaken, rule step_or_complete_tracks(2))
         apply (rule aside.later, assumption, assumption)
        apply (simp add: holds_def)
       apply assumption
      apply (rule post_ret, assumption)
     apply (rule post_ret, rule same_goals_tracks, erule (1) aside.later)
    apply (rule post_case_prod)
    apply (rule post_keeps [where R = "tracks C"])
     apply (intro tracks_keeps aside_tracks [OF aside_ops(1)] aside_tracks [OF aside_ops(3)] touch_keeps
        aside_tracks [OF aside.keeps_modify_result] aside_writes; (rule claimed_touch; assumption | assumption))
    apply (erule (1) tracking.later)
    done
qed

text \<open>Verified steps and blocked ones.\<close>

lemma post_claim_owner:
  "(\<And>g r. holds s g r \<Longrightarrow> gr_id r = gk_goal c \<Longrightarrow> gr_profile r = p \<Longrightarrow> gr_token r = Some (gk_token c) \<Longrightarrow> Q g s) \<Longrightarrow>
   post (assert_claim_owner p c now) Q s"
  by (rule postI) (auto dest!: assert_claim_ownerD)

lemma post_boundary: "(\<And>g. Q g s) \<Longrightarrow> post (assert_action_boundary p c i now) Q s"
  by (rule postI) (auto dest!: assert_action_boundaryD)

lemma call_reaches_same:
  assumes "goal_ok g" and "exec_goal c g = Inr h" and "\<nexists>k n. c = Revise k n"
  shows "goal_reaches g h" and "same_goal g h" and "goal_ok h"
  using goal_reaches_call [OF assms(2)] exec_goal_same [OF assms] goal_reaches_ok assms(1) by blast+

lemma same_goal_trans: "same_goal f g \<Longrightarrow> same_goal g h \<Longrightarrow> same_goal f h"
  by (simp add: same_goal_def)

lemma verified_changes:
  assumes ok: "goal_ok g" and run: "and_then (record_evidence e g) (complete_goal_step i now) = Inr h"
    and fin: "(if all_finished h then complete_goal now h else Inr h) = Inr k"
  shows "goal_reaches g k \<and> same_goal g k"
proof -
  obtain f where f: "record_evidence e g = Inr f" "complete_goal_step i now f = Inr h"
    using run by (auto simp: result_simps)
  have a: "goal_reaches g f" "same_goal g f" "goal_ok f"
    using call_reaches_same [OF ok, of "RecordEvidence e" f] f(1) by simp_all
  have b: "goal_reaches f h" "same_goal f h" "goal_ok h"
    using call_reaches_same [OF a(3), of "CompleteGoalStep i now" h] f(2) by simp_all
  have c: "goal_reaches h k \<and> same_goal h k"
    using call_reaches_same [OF b(3), of "CompleteGoal now" k] fin by (cases "all_finished h") simp_all
  show ?thesis using a b c goal_reaches_trans same_goal_trans by blast
qed

lemma post_commit_verified:
  assumes "holds s g r" and "and_then (record_evidence e g) (complete_goal_step i now) = Inr h"
    and "(if all_finished h then complete_goal now h else Inr h) = Inr k"
  shows "post (commit_execution_goal w now g k kind actor) (\<lambda>_ t. tracks C s t) s"
proof (cases "store_sound s")
  case True
  show ?thesis using verified_changes [OF holds_ok [OF assms(1) True] assms(2,3)] post_commit_execution [OF assms(1)] by blast
next
  case False
  then show ?thesis by (auto simp: post_def tracks_def)
qed

lemma apply_verified_step_tracks: "keeps (tracks C) (apply_verified_step w p now c op n d)"
proof (rule keeps_post)
  fix s
  show "post (apply_verified_step w p now c op n d) (\<lambda>_ t. tracks C s t) s"
    unfolding apply_verified_step_def
    apply (rule post_bind, rule post_claim_owner, rule post_bind, rule post_select_row, rule post_bind, rule post_guard)
    apply (rule post_if, rule post_ret, rule tracking.same)
    apply (rule post_bind, rule post_boundary, rule post_bind, rule post_guard)
    apply (rule post_bind, rule post_lift, rule post_bind, rule post_lift)
    apply (rule post_bind, rule post_lift, rule post_bind, rule post_lift)
    apply (rule post_bind, rule post_weaken, erule (2) post_commit_verified)
    apply (rule post_bind, rule post_modify, rule post_ret)
    apply (erule tracking.later, rule other_tables_tracks; simp)
    done
qed

lemma block_verified_tracks:
  assumes "holds s g r" and "gr_token r = Some (gk_token c)" and "gr_profile r = p" and n: "g_revision g = n"
    and run: "and_then (block_step i reason g) (\<lambda>f. with_revision f (n + 1) now) = Inr h"
    and upd: "update_goal_rows (\<lambda>q. gr_id q = g_id g \<and> gr_profile q = p \<and> gr_revision q = n
                   \<and> gr_token q = Some (gk_token c)) (blocked_row h now) s = Inr (k, s1)"
    and ev: "insert_goal_event w h kind actor d now s1 = Inr (u, t)"
  shows "tracks C s t"
proof (rule tracksI)
  assume "store_sound s"
  then have syn: "row_synced r" using assms(1) by (simp add: store_sound_def holds_def)
  have g: "goal_from_row r = Inr g" using assms(1) by (simp add: holds_def)
  note gf = holds_fields [OF syn g]
  obtain f where f: "block_step i reason g = Inr f" and h: "with_revision f (g_revision g + 1) now = Inr h"
    using run n by (auto simp: result_simps)
  note same = block_step_same [OF gf(7) f]
  note reach = goal_reaches_call [of "BlockStep i reason" g f]
  have ok: "goal_ok f" using goal_reaches_ok [OF reach] f gf(7) by simp
  note hf = with_revision_fields [OF ok h]
  show "tracks C s t"
  proof (rule revise_commits [OF assms(1) _ _ h upd aside.same ev])
    show "goal_reaches g f" "same_goal g f" using reach f same by simp_all
    show "gr_id r = g_id g \<and> gr_profile r = p \<and> gr_revision r = n \<and> gr_token r = Some (gk_token c)"
      using gf assms(2,3) n by simp
    show "gr_id q = g_id h"
      if "gr_id q = g_id g \<and> gr_profile q = p \<and> gr_revision q = n \<and> gr_token q = Some (gk_token c)" for q
      using that hf same by (simp add: same_goal_def)
    show "revised_row h r (blocked_row h now r)"
      using syn hf same gf by (auto simp: revised_row_def blocked_row_def row_synced_def)
  qed
qed

lemma record_verification_tracks: "keeps (tracks C) (record_verification w p now c i op n cx ev b fb)"
proof (rule keeps_post)
  fix s
  show "post (record_verification w p now c i op n cx ev b fb) (\<lambda>_ t. tracks C s t) s"
    unfolding record_verification_def
    apply (rule post_bind, rule post_claim_owner, rule post_bind, rule post_gets, rule post_case_option)
     apply (rule post_bind, rule post_boundary, rule post_bind, rule post_guard, rule post_bind, rule post_gets)
     apply (rule post_let, rule post_bind, rule post_keeps [OF aside.keeps_modify_result], erule aside_writes)
     apply (rule post_if, rule post_ret, erule same_goals_tracks)
     apply (rule post_bind, rule post_lift)
     apply (rule postI)
     apply (simp only: bind_eq_Inr ret_eq_Inr, elim exE conjE)
     apply (rule tracking.later, erule same_goals_tracks)
     apply (rule block_verified_tracks, erule (1) holds_same, assumption, assumption, assumption, assumption, assumption)
     apply simp
    apply (rule post_bind, rule post_guard, rule post_ret, rule tracking.same)
    done
qed

text \<open>Creation, with a goal that \<open>C\<close> admits.\<close>

lemma create_goal_tracks:
  assumes ok: "goal_ok g" and C: "C g" and run: "create_goal w p g actor kind d s = Inr (x, t)"
  shows "tracks C s t"
  unfolding tracks_def
proof (intro impI)
  assume s: "store_sound s"
  obtain s1 u where rev: "g_revision g = 0" and ins: "insert_goal_row g s = Inr s1"
      and ev: "insert_goal_event w g kind actor d (g_created_at g) s1 = Inr (u, t)"
    using run by (auto simp: create_goal_def result_simps split: sum.splits)
  obtain e where e: "d_goals t = d_goals s1" "d_events t = d_events s1 @ [e]" "gv_goal e = g_id g" "gv_revision e = 0"
    using insert_goal_eventD [OF ev] rev by auto
  have s1: "d_goals s1 = d_goals s @ [new_goal_row g]" "d_events s1 = d_events s"
      and new: "g_id g \<notin> gr_id ` set (d_goals s)"
    using ins by (auto simp: insert_goal_row_def insert_row_def result_simps split: if_splits)
  have syn: "row_synced (new_goal_row g)" using ok by (simp add: row_synced_def new_goal_row_def)
  have made: "goal_of (new_goal_row g) = g" by (simp add: goal_of_def new_goal_row_def)
  have "gv_goal e \<noteq> g_id g" if "e \<in> set (d_events s)" for e
    using s new that unfolding store_sound_def by metis
  then have none: "filter (\<lambda>e. gv_goal e = g_id g) (d_events s) = []" by (simp add: filter_empty_conv)
  have revs_new: "revisions_of (new_goal_row g) t = [0..gr_revision (new_goal_row g)]"
    using none e s1 rev by (simp add: revisions_of_def new_goal_row_def)
  have revs_old: "revisions_of r t = [0..gr_revision r]" if "r \<in> set (d_goals s)" for r
  proof -
    have "gr_id r \<noteq> g_id g" using that new by force
    then show ?thesis using that s e s1 by (simp add: revisions_of_def store_sound_def)
  qed
  have "store_sound t"
    using s new syn revs_new revs_old e s1
    by (auto simp: store_sound_def new_goal_row_def)
  moreover have "comes_from C (new_goal_row g)"
    unfolding comes_from_def using C ok rev made by (intro exI [of _ g]) (simp add: new_goal_row_def)
  moreover have "set (d_goals t) = insert (new_goal_row g) (set (d_goals s))" using e s1 by simp
  ultimately show "store_sound t \<and> (\<forall>q\<in>set (d_goals t). (\<exists>r\<in>set (d_goals s). row_follows r q) \<or> comes_from C q)"
    by (metis insertE row_follows_refl)
qed

text \<open>A purge removes goals with everything that belongs to them.\<close>

lemma delete_goal_tracks: "tracks C s (delete_goal i s)"
  unfolding tracks_def
proof (intro impI conjI)
  assume s: "store_sound s"
  have "revisions_of r (delete_goal i s) = revisions_of r s" if "gr_id r \<noteq> i" for r
  proof -
    have "filter (\<lambda>e. gv_goal e = gr_id r \<and> gv_goal e \<noteq> i) (d_events s) = filter (\<lambda>e. gv_goal e = gr_id r) (d_events s)"
      using that by (intro filter_cong) auto
    then show ?thesis by (simp add: revisions_of_def delete_goal_def conj_commute)
  qed
  then show "store_sound (delete_goal i s)"
    using s by (auto simp: store_sound_def delete_goal_def distinct_map inj_on_def)
  show "\<forall>q\<in>set (d_goals (delete_goal i s)). (\<exists>r\<in>set (d_goals s). row_follows r q) \<or> comes_from C q"
    unfolding delete_goal_def using row_follows_refl by (simp, blast)
qed

lemma purge_tracks: "keeps (tracks C) (purge_terminal p ns)"
  unfolding purge_terminal_def purge_one_def
  by (intro tracks_keeps tracking.keeps_modify delete_goal_tracks)

section \<open>Recovery\<close>

text \<open>Each row whose lease ended is revised once; the others stay.\<close>

lemma recover_row_tracks:
  assumes r: "r \<in> set (d_goals s)" "lease_expired p now r" and run: "recover_row w p now actor r s = Inr (x, t)"
    and s: "store_sound s"
  shows "tracks C s t \<and> (\<forall>q\<in>set (d_goals s). gr_id q \<noteq> gr_id r \<longrightarrow> q \<in> set (d_goals t))"
proof -
  obtain g f h s1 s2 u k where g: "goal_from_row r = Inr g" and f: "recovered_goal g = Inr f"
      and h: "with_revision f (g_revision g + 1) now = Inr h"
      and upd: "update_goal_rows (\<lambda>q. gr_id q = g_id h \<and> gr_profile q = p \<and> gr_revision q = g_revision g)
                  (recovered_row h now) s = Inr (k, s1)"
      and act: "same_goals s1 s2"
      and ev: "insert_goal_event w h ''goal.lease_expired'' actor
             [(''uncertain_step_ids'', PList (map PStr (map gs_id (filter (\<lambda>s. gs_status s = GRunning) (g_steps g)))))]
             now s2 = Inr (u, t)"
    using run unfolding recover_row_def
    by (auto simp: bind_eq_Inr lift_eq_Inr ret_eq_Inr and_then_eq_Inr dest: keepsD [OF aside_ops(2)])
  have syn: "row_synced r" using s r by (simp add: store_sound_def)
  note gf = holds_fields [OF syn g]
  have call: "exec_goal LoseLease g = Inr f"
    using f r(2) gf(4) by (auto simp: lease_expired_def require_status_def result_simps)
  note same = recovered_goal_same [OF gf(7) f]
  have ok: "goal_ok f" using goal_reaches_ok [OF goal_reaches_call [OF call] gf(7)] .
  note hf = with_revision_fields [OF ok h]
  have hid: "g_id h = gr_id r" using hf same gf by (simp add: same_goal_def)
  show ?thesis
  proof
    show "tracks C s t"
    proof (rule revise_commits [OF _ goal_reaches_call [OF call] _ h upd act ev])
      show "holds s g r" using r g by (simp add: holds_def)
      show "same_goal g f" using same by simp
      show "gr_id r = g_id h \<and> gr_profile r = p \<and> gr_revision r = g_revision g"
        using hid gf r(2) by (simp add: lease_expired_def)
      show "revised_row h r (recovered_row h now r)"
        using syn hf same gf by (auto simp: revised_row_def recovered_row_def row_synced_def)
    qed simp
    show "\<forall>q\<in>set (d_goals s). gr_id q \<noteq> gr_id r \<longrightarrow> q \<in> set (d_goals t)"
      using insert_goal_eventD [OF ev] act upd hid
      by (auto simp: same_goals_def update_goal_rows_def set_upd_where)
  qed
qed

lemma recover_rows_tracks:
  "store_sound s \<Longrightarrow> distinct (map gr_id rows) \<Longrightarrow> (\<forall>r\<in>set rows. r \<in> set (d_goals s) \<and> lease_expired p now r) \<Longrightarrow>
   map_op (recover_row w p now actor) rows s = Inr (x, t) \<Longrightarrow> tracks C s t"
proof (induction rows arbitrary: s x)
  case Nil
  then show ?case by (simp add: ret_eq_Inr tracking.same)
next
  case (Cons r rows)
  obtain g s1 y where first: "recover_row w p now actor r s = Inr (g, s1)"
      and rest: "map_op (recover_row w p now actor) rows s1 = Inr (y, t)"
    using Cons.prems(4) by (auto simp: result_simps)
  have step: "tracks C s s1 \<and> (\<forall>q\<in>set (d_goals s). gr_id q \<noteq> gr_id r \<longrightarrow> q \<in> set (d_goals s1))"
    using recover_row_tracks [OF _ _ first Cons.prems(1)] Cons.prems(3) by simp
  have "gr_id r \<notin> gr_id ` set rows" using Cons.prems(2) by simp
  then have "gr_id q \<noteq> gr_id r" if "q \<in> set rows" for q using that by (metis imageI)
  then have "\<forall>q\<in>set rows. q \<in> set (d_goals s1) \<and> lease_expired p now q" using step Cons.prems(3) by simp
  moreover have "store_sound s1" using step Cons.prems(1) by (simp add: tracks_def)
  ultimately have "tracks C s1 t" using Cons.IH [OF _ _ _ rest] Cons.prems(2) by simp
  then show ?case using step tracking.later by blast
qed

lemma recover_tracks: "keeps (tracks C) (recover_expired_goals w p now actor)"
proof (rule keepsI, rule tracksI)
  fix s x t
  assume run: "recover_expired_goals w p now actor s = Inr (x, t)" and s: "store_sound s"
  have "distinct (map gr_id (sort_key (\<lambda>r. (gr_updated r, gr_id r)) (filter (lease_expired p now) (d_goals s))))"
    using s by (auto simp: store_sound_def distinct_map intro: inj_on_subset)
  moreover have "map_op (recover_row w p now actor)
      (sort_key (\<lambda>r. (gr_updated r, gr_id r)) (filter (lease_expired p now) (d_goals s))) s = Inr (x, t)"
    using run unfolding recover_expired_goals_def by (simp add: result_simps)
  ultimately show "tracks C s t" by (intro recover_rows_tracks [OF s]; simp)
qed

section \<open>Every call\<close>

definition admits :: "(goal \<Rightarrow> bool) \<Rightarrow> goal_store_call \<Rightarrow> bool" where
  "admits C c = (case c of CreateGoal g a k d \<Rightarrow> goal_ok g \<and> C g | _ \<Rightarrow> True)"

lemma exec_goal_store_tracks: "admits C c \<Longrightarrow> keeps (tracks C) (exec_goal_store w p now c)"
proof (cases c)
  case (CreateGoal g a k d)
  assume "admits C c"
  then have ok: "goal_ok g" "C g" by (simp_all add: admits_def CreateGoal)
  have "keeps (tracks C) (create_goal w p g a k d)" by (rule keepsI) (rule create_goal_tracks [where C = C, OF ok])
  then show ?thesis unfolding CreateGoal exec_goal_store.simps by (rule tracking.keeps_done_after)
qed (simp_all add: tracking.keeps_done_after mutate_goal_tracks claim_operations aside_tracks [OF aside_operations(1)]
    aside_tracks [OF aside_operations(2)] aside_tracks [OF aside_operations(3)] aside_tracks [OF aside_operations(4)]
    aside_tracks [OF aside_operations(5)] aside_tracks [OF aside_operations(6)] aside_tracks [OF aside_operations(7)]
    aside_tracks [OF aside_operations(8)] record_verification_tracks apply_verified_step_tracks admit_slice_tracks
    recover_tracks purge_tracks)

lemma goal_store_after_tracks: "admits C (snd (snd pc)) \<Longrightarrow> tracks C s (goal_store_after w pc s)"
  using tracking.commit_keeps [OF exec_goal_store_tracks] by (cases pc) (simp add: goal_store_after_def)

lemma goal_store_history_tracks:
  "\<forall>pc\<in>set h. admits C (snd (snd pc)) \<Longrightarrow> tracks C s (goal_store_history w h s)"
proof (induction h arbitrary: s)
  case (Cons pc h)
  then have "tracks C s (goal_store_after w pc s)" using goal_store_after_tracks by simp
  moreover have "tracks C (goal_store_after w pc s) (goal_store_history w (pc # h) s)"
    using Cons by (simp add: goal_store_history_def)
  ultimately show ?case by (rule tracking.later)
qed (simp add: goal_store_history_def tracking.same)

text \<open>The goals of a store that began empty: each is reached from a goal that a call created.\<close>

lemma store_sound_empty [simp]: "store_sound empty_goal_db"
  by (simp add: store_sound_def empty_goal_db_def)

lemma goal_store_refines:
  assumes "\<forall>pc\<in>set h. admits C (snd (snd pc))" and s: "s = goal_store_history w h empty_goal_db"
    and r: "r \<in> set (d_goals s)"
  shows "store_sound s" and "goal_from_row r = Inr (goal_of r)" and "\<exists>g. C g \<and> goal_ok g \<and> g_revision g = 0 \<and> g_id g = gr_id r \<and> goal_reaches g (goal_of r)"
proof -
  have tr: "tracks C empty_goal_db s" using goal_store_history_tracks [OF assms(1)] s by simp
  then show sound: "store_sound s" by (simp add: tracks_def)
  then show "goal_from_row r = Inr (goal_of r)" using r goal_from_row_synced by (simp add: store_sound_def)
  show "\<exists>g. C g \<and> goal_ok g \<and> g_revision g = 0 \<and> g_id g = gr_id r \<and> goal_reaches g (goal_of r)"
    using tr r by (simp add: tracks_def comes_from_def) (simp add: empty_goal_db_def)
qed

end
