(* ===== verification/GoalService.thy ===== *)
theory GoalService
  imports GoalStoreMachine
begin

text \<open>
  The goal service (\<^verbatim>\<open>goals/service.py\<close>): every method names the event it records and issues one
  audited change of the store.  \<open>t\<close> is what the clock of the service reads, \<open>now\<close> what the clock of
  the store reads.  Callbacks (events, propagation of a cancellation) are left to the host.
\<close>

section \<open>Creation\<close>

definition criterion_name :: "nat \<Rightarrow> string" where
  "criterion_name k = ''criterion-'' @ digits_of k"

text \<open>\<^verbatim>\<open>acceptance_criteria\<close> holds descriptions or criteria.\<close>

definition service_criteria :: "(string + goal_criterion) list \<Rightarrow> goal_criterion list result" where
  "service_criteria xs =
     map_result (\<lambda>(k, x). case x of Inl d \<Rightarrow> make_criterion \<lparr>gc_id = criterion_name k, gc_description = d\<rparr>
                              | Inr c \<Rightarrow> Inr c) (enumerate 1 xs)"

record goal_request =
  gq_id :: "string option"
  gq_title :: string
  gq_criteria :: "(string + goal_criterion) list"
  gq_steps :: "goal_step list"
  gq_budget :: run_budget
  gq_description :: "string option"
  gq_constraints :: "string list"
  gq_conversation :: "string option"
  gq_turn :: "string option"
  gq_plan :: "pydict option"

definition requested_goal :: "string \<Rightarrow> string \<Rightarrow> int \<Rightarrow> goal_criterion list \<Rightarrow> run_budget \<Rightarrow> goal_request \<Rightarrow> goal" where
  "requested_goal i p t criteria budget q =
     \<lparr>g_id = i, g_profile = p, g_title = gq_title q, g_criteria = criteria, g_steps = gq_steps q,
      g_budget = budget, g_status = GoalDraft, g_revision = 0, g_evidence = [], g_approvals = [], g_steering = [],
      g_conversation = gq_conversation q, g_turn = gq_turn q, g_plan = gq_plan q, g_children = [],
      g_schedules = [], g_processes = [], g_traces = [], g_artifacts = [], g_cancel = False,
      g_created_at = t, g_updated = t, g_approved = None, g_started = None, g_completed = None,
      g_error = None, g_description = gq_description q, g_constraints = gq_constraints q, g_fulfilled = []\<rparr>"

definition new_goal_id :: "world \<Rightarrow> string option \<Rightarrow> string goal_op" where
  "new_goal_id w i = (case i of None \<Rightarrow> draw_uuid w | Some t \<Rightarrow> if t = [] then draw_uuid w else ret t)"

definition service_create :: "world \<Rightarrow> string \<Rightarrow> int \<Rightarrow> string \<Rightarrow> goal_request \<Rightarrow> goal goal_op" where
  "service_create w p t actor q =
     bind (lift (service_criteria (gq_criteria q))) (\<lambda>criteria.
     bind (new_goal_id w (gq_id q)) (\<lambda>i.
     bind (lift (make_budget ((gq_budget q)\<lparr>b_scope := ScGoal\<rparr>))) (\<lambda>budget.
     bind (lift (make_goal (requested_goal i p t criteria budget q))) (\<lambda>g.
       create_goal w p g actor ''goal.created'' []))))"

section \<open>Promotion of a plan\<close>

text \<open>\<^verbatim>\<open>str(d.get(k) or default)\<close>\<close>

definition text_or :: "pydict \<Rightarrow> string \<Rightarrow> string \<Rightarrow> string" where
  "text_or d k v = (case map_of d k of None \<Rightarrow> v | Some u \<Rightarrow> if py_truth u then py_str u else v)"

text \<open>What a \<^verbatim>\<open>for\<close> loop sees of a value.\<close>

definition py_iter :: "pyval \<Rightarrow> pyval list result" where
  "py_iter v =
     (case v of PList xs \<Rightarrow> Inr xs | PTuple xs \<Rightarrow> Inr xs | PStr s \<Rightarrow> Inr (map (\<lambda>c. PStr [c]) s)
      | PDict d \<Rightarrow> Inr (map (\<lambda>(k, x). PStr k) d) | _ \<Rightarrow> Inl TypeError)"

definition strings_of :: "pydict \<Rightarrow> string \<Rightarrow> string list result" where
  "strings_of d k = and_then (py_iter (get_or d k (PTuple []))) (\<lambda>xs. Inr (map py_str xs))"

definition plan_descriptions :: "pydict \<Rightarrow> string \<Rightarrow> string list" where
  "plan_descriptions d description =
     (case map_of d ''acceptance_criteria'' of
        Some (PList xs) \<Rightarrow> map (\<lambda>x. strip (py_str x)) xs
      | Some (PTuple xs) \<Rightarrow> map (\<lambda>x. strip (py_str x)) xs
      | _ \<Rightarrow> [description])"

definition plan_criterion_id :: "string \<Rightarrow> nat \<Rightarrow> string" where
  "plan_criterion_id step k = step @ ''-criterion-'' @ digits_of k"

text \<open>The criteria not seen before, with the ids now seen.\<close>

fun add_criteria ::
  "(string \<times> string) list \<Rightarrow> string list \<Rightarrow> goal_criterion list \<Rightarrow> (string list \<times> goal_criterion list) result" where
  "add_criteria [] seen criteria = Inr (seen, criteria)"
| "add_criteria ((i, d) # ids) seen criteria =
     (if i \<in> set seen then add_criteria ids seen criteria
      else and_then (make_criterion \<lparr>gc_id = i, gc_description = d\<rparr>) (\<lambda>c.
             add_criteria ids (i # seen) (criteria @ [c])))"

definition plan_step :: "pydict \<Rightarrow> string \<Rightarrow> string \<Rightarrow> string list \<Rightarrow> goal_step result" where
  "plan_step d i description ids =
     and_then (strings_of d ''depends_on'') (\<lambda>depends.
     and_then (goal_risk_of (py_str (get_or d ''risk'' (PStr ''low'')))) (\<lambda>risk.
     and_then (strings_of d ''expected_tools'') (\<lambda>tools.
     and_then (py_int (get_or d ''retry_limit'' (PInt 0))) (\<lambda>retries.
       make_step \<lparr>gs_id = i, gs_title = text_or d ''title'' description, gs_description = description,
         gs_criteria = ids, gs_depends = depends, gs_risk = risk, gs_tools = tools, gs_status = GPending,
         gs_attempt = 0, gs_max = max 1 (retries + 1), gs_evidence = [], gs_blocked = None, gs_skip = None,
         gs_started = None, gs_completed = None\<rparr>))))"

fun plan_steps ::
  "(nat \<times> pyval) list \<Rightarrow> string list \<Rightarrow> goal_criterion list \<Rightarrow> goal_step list
   \<Rightarrow> (goal_criterion list \<times> goal_step list) result" where
  "plan_steps [] seen criteria steps = Inr (criteria, steps)"
| "plan_steps ((k, v) # raws) seen criteria steps =
     and_then (as_mapping v) (\<lambda>d.
     (let i = strip (text_or d ''id'' (''step-'' @ digits_of k));
          description = strip (text_or d ''description'' (text_or d ''title'' []));
          descriptions = map (\<lambda>c. if c = [] then description else c) (plan_descriptions d description);
          named = map (\<lambda>(n, c). (plan_criterion_id i n, c)) (enumerate 1 descriptions) in
     and_then (add_criteria named seen criteria) (\<lambda>(seen', criteria').
     and_then (plan_step d i description (map fst named)) (\<lambda>s.
       plan_steps raws seen' criteria' (steps @ [s])))))"

definition promote_plan ::
  "world \<Rightarrow> string \<Rightarrow> int \<Rightarrow> string \<Rightarrow> pydict \<Rightarrow> string \<Rightarrow> string \<Rightarrow> string \<Rightarrow> run_budget \<Rightarrow> string option
   \<Rightarrow> goal goal_op" where
  "promote_plan w p t actor raw profile conversation turn budget i =
     bind (guard (profile = p) ValueError) (\<lambda>_.
     (let summary = strip (text_or raw ''summary'' []) in
     bind (guard (summary \<noteq> []) ValueError) (\<lambda>_.
     bind (lift (as_items (get_or raw ''steps'' PNone))) (\<lambda>raws.
     bind (guard (raws \<noteq> []) ValueError) (\<lambda>_.
     bind (lift (plan_steps (enumerate 1 raws) [] [] [])) (\<lambda>(criteria, steps).
       service_create w p t actor
         \<lparr>gq_id = i, gq_title = summary, gq_criteria = map Inr criteria, gq_steps = steps, gq_budget = budget,
          gq_description = None, gq_constraints = [], gq_conversation = Some conversation, gq_turn = Some turn,
          gq_plan = Some raw\<rparr>))))))"

section \<open>Changes\<close>

text \<open>\<^verbatim>\<open>_mutate\<close>\<close>

definition service_change ::
  "world \<Rightarrow> string \<Rightarrow> int \<Rightarrow> string \<Rightarrow> int \<Rightarrow> string \<Rightarrow> string \<Rightarrow> goal_call \<Rightarrow> pydict \<Rightarrow> goal goal_op" where
  "service_change w p now i expected kind actor c payload =
     mutate_goal w p now i expected kind actor (exec_goal c) payload None"

definition new_approval ::
  "world \<Rightarrow> int \<Rightarrow> string \<Rightarrow> string \<Rightarrow> string option \<Rightarrow> string option \<Rightarrow> goal_approval goal_op" where
  "new_approval w t by scope step reason =
     bind (draw_uuid w) (\<lambda>i. lift (make_approval
       \<lparr>ga_id = i, ga_by = by, ga_scope = scope, ga_step = step, ga_reason = reason, ga_at = t\<rparr>))"

definition service_approve ::
  "world \<Rightarrow> string \<Rightarrow> int \<Rightarrow> int \<Rightarrow> string \<Rightarrow> int \<Rightarrow> string \<Rightarrow> string option \<Rightarrow> goal goal_op" where
  "service_approve w p t now i n by reason =
     bind (new_approval w t by ''goal'' None reason) (\<lambda>a.
       service_change w p now i n ''goal.approved'' by (ApproveGoal a t) [(''approval_id'', PStr (ga_id a))])"

definition service_approve_step ::
  "world \<Rightarrow> string \<Rightarrow> int \<Rightarrow> int \<Rightarrow> string \<Rightarrow> int \<Rightarrow> string \<Rightarrow> string \<Rightarrow> string option \<Rightarrow> goal goal_op" where
  "service_approve_step w p t now i n step by reason =
     bind (new_approval w t by ''step'' (Some step) reason) (\<lambda>a.
       service_change w p now i n ''goal.step_approved'' by (ApproveStep a)
         [(''step_id'', PStr step), (''approval_id'', PStr (ga_id a))])"

definition service_skip_step ::
  "world \<Rightarrow> string \<Rightarrow> int \<Rightarrow> int \<Rightarrow> string \<Rightarrow> int \<Rightarrow> string \<Rightarrow> string \<Rightarrow> string \<Rightarrow> goal goal_op" where
  "service_skip_step w p t now i n step reason by =
     bind (new_approval w t by ''skip'' (Some step) (Some reason)) (\<lambda>a.
       service_change w p now i n ''goal.step_skipped'' by (SkipStep step reason a t)
         [(''step_id'', PStr step), (''reason'', PStr reason), (''approval_id'', PStr (ga_id a))])"

definition service_steer ::
  "world \<Rightarrow> string \<Rightarrow> int \<Rightarrow> int \<Rightarrow> string \<Rightarrow> int \<Rightarrow> string \<Rightarrow> string \<Rightarrow> string list \<Rightarrow> goal goal_op" where
  "service_steer w p t now i n instruction by supersedes =
     bind (draw_uuid w) (\<lambda>j.
     bind (lift (make_steering \<lparr>gt_id = j, gt_instruction = instruction, gt_by = by, gt_at = t,
                   gt_supersedes = supersedes\<rparr>)) (\<lambda>x.
       service_change w p now i n ''goal.steered'' by (SteerGoal x)
         [(''steering_id'', PStr (gt_id x)), (''instruction'', PStr (gt_instruction x)),
          (''supersedes'', PList (map PStr (gt_supersedes x)))]))"

definition service_add_evidence ::
  "world \<Rightarrow> string \<Rightarrow> int \<Rightarrow> int \<Rightarrow> string \<Rightarrow> int \<Rightarrow> goal_evidence \<Rightarrow> goal goal_op" where
  "service_add_evidence w p t now i n e =
     bind (draw_uuid w) (\<lambda>j.
     bind (lift (make_evidence (e\<lparr>ge_id := j, ge_at := t\<rparr>))) (\<lambda>x.
       service_change w p now i n ''goal.evidence_recorded'' (ge_by e) (RecordEvidence x)
         [(''evidence_id'', PStr (ge_id x)),
          (''step_id'', case ge_step e of None \<Rightarrow> PNone | Some st \<Rightarrow> PStr st),
          (''criterion_ids'', PList (map PStr (ge_criteria e)))]))"

text \<open>The methods that pass their arguments on.\<close>

definition service_run :: "world \<Rightarrow> string \<Rightarrow> int \<Rightarrow> string \<Rightarrow> int \<Rightarrow> string \<Rightarrow> int
   \<Rightarrow> goal goal_op" where
  "service_run w p now i n actor t =
     service_change w p now i n ''goal.running'' actor (StartGoal t)
       []"

definition service_pause :: "world \<Rightarrow> string \<Rightarrow> int \<Rightarrow> string \<Rightarrow> int \<Rightarrow> string
   \<Rightarrow> goal goal_op" where
  "service_pause w p now i n actor =
     service_change w p now i n ''goal.paused'' actor PauseGoal
       []"

definition service_resume :: "world \<Rightarrow> string \<Rightarrow> int \<Rightarrow> string \<Rightarrow> int \<Rightarrow> string \<Rightarrow> int
   \<Rightarrow> goal goal_op" where
  "service_resume w p now i n actor t =
     service_change w p now i n ''goal.resumed'' actor (ResumeGoal t)
       []"

definition service_fulfill_steering :: "world \<Rightarrow> string \<Rightarrow> int \<Rightarrow> string \<Rightarrow> int \<Rightarrow> string \<Rightarrow> string \<Rightarrow> string list
   \<Rightarrow> goal goal_op" where
  "service_fulfill_steering w p now i n actor steering es =
     service_change w p now i n ''goal.steering_fulfilled'' actor (FulfillSteering steering es)
       [(''steering_id'', PStr steering), (''evidence_ids'', PList (map PStr es))]"

definition service_start_step :: "world \<Rightarrow> string \<Rightarrow> int \<Rightarrow> string \<Rightarrow> int \<Rightarrow> string \<Rightarrow> string \<Rightarrow> int
   \<Rightarrow> goal goal_op" where
  "service_start_step w p now i n actor step t =
     service_change w p now i n ''goal.step_started'' actor (StartGoalStep step t)
       [(''step_id'', PStr step)]"

definition service_complete_step :: "world \<Rightarrow> string \<Rightarrow> int \<Rightarrow> string \<Rightarrow> int \<Rightarrow> string \<Rightarrow> string \<Rightarrow> int
   \<Rightarrow> goal goal_op" where
  "service_complete_step w p now i n actor step t =
     service_change w p now i n ''goal.step_completed'' actor (CompleteGoalStep step t)
       [(''step_id'', PStr step)]"

definition service_block_step :: "world \<Rightarrow> string \<Rightarrow> int \<Rightarrow> string \<Rightarrow> int \<Rightarrow> string \<Rightarrow> string \<Rightarrow> string
   \<Rightarrow> goal goal_op" where
  "service_block_step w p now i n actor step reason =
     service_change w p now i n ''goal.step_blocked'' actor (BlockStep step reason)
       [(''step_id'', PStr step), (''reason'', PStr reason)]"

definition service_retry_step :: "world \<Rightarrow> string \<Rightarrow> int \<Rightarrow> string \<Rightarrow> int \<Rightarrow> string \<Rightarrow> string
   \<Rightarrow> goal goal_op" where
  "service_retry_step w p now i n actor step =
     service_change w p now i n ''goal.step_retried'' actor (RetryStep step)
       [(''step_id'', PStr step)]"

definition service_cancel :: "world \<Rightarrow> string \<Rightarrow> int \<Rightarrow> string \<Rightarrow> int \<Rightarrow> string \<Rightarrow> int
   \<Rightarrow> goal goal_op" where
  "service_cancel w p now i n actor t =
     service_change w p now i n ''goal.cancelled'' actor (CancelGoal t)
       []"

definition service_complete :: "world \<Rightarrow> string \<Rightarrow> int \<Rightarrow> string \<Rightarrow> int \<Rightarrow> string \<Rightarrow> int
   \<Rightarrow> goal goal_op" where
  "service_complete w p now i n actor t =
     service_change w p now i n ''goal.completed'' actor (CompleteGoal t)
       []"

definition service_fail :: "world \<Rightarrow> string \<Rightarrow> int \<Rightarrow> string \<Rightarrow> int \<Rightarrow> string \<Rightarrow> string \<Rightarrow> int
   \<Rightarrow> goal goal_op" where
  "service_fail w p now i n actor reason t =
     service_change w p now i n ''goal.failed'' actor (FailGoal reason t)
       [(''reason'', PStr reason)]"

text \<open>The kinds of resources a goal can be linked with.\<close>

definition resource_kind_of :: "string \<Rightarrow> resource_kind result" where
  "resource_kind_of kind =
     row_or ValueError (map_of [(''child_task'', LinkChild), (''schedule'', LinkSchedule), (''process'', LinkProcess),
       (''trace'', LinkTrace), (''artifact'', LinkArtifact)] kind)"

definition service_link ::
  "world \<Rightarrow> string \<Rightarrow> int \<Rightarrow> string \<Rightarrow> int \<Rightarrow> string \<Rightarrow> string \<Rightarrow> string \<Rightarrow> goal goal_op" where
  "service_link w p now i n kind resource actor =
     bind (lift (resource_kind_of kind)) (\<lambda>k.
     bind (guard (strip resource \<noteq> []) ValueError) (\<lambda>_.
       service_change w p now i n ''goal.resource_linked'' actor (LinkResource k resource)
         [(''kind'', PStr kind), (''resource_id'', PStr (strip resource))]))"

text \<open>\<^verbatim>\<open>update_budget\<close> reads the execution first, in a transaction of its own.\<close>

definition execution_state :: "string \<Rightarrow> string \<Rightarrow> execution_row option goal_op" where
  "execution_state p i =
     bind (get_goal p i) (\<lambda>_. gets (\<lambda>s. find (\<lambda>x. xr_goal x = i \<and> xr_profile x = p) (d_executions s)))"

definition budget_change :: "execution_row option \<Rightarrow> run_budget \<Rightarrow> goal_call" where
  "budget_change x budget =
     (case x of None \<Rightarrow> UpdateBudget False None budget
      | Some e \<Rightarrow> UpdateBudget (xr_exhausted e \<noteq> None) (xr_step e) budget)"

definition service_update_budget ::
  "world \<Rightarrow> string \<Rightarrow> int \<Rightarrow> string \<Rightarrow> int \<Rightarrow> run_budget \<Rightarrow> string \<Rightarrow> goal goal_op" where
  "service_update_budget w p now i n budget actor =
     bind (execution_state p i) (\<lambda>x.
       service_change w p now i n ''goal.budget_changed'' actor (budget_change x budget)
         [(''budget'', PDict (budget_to_dict budget))])"

text \<open>A cancellation is requested, and carried out at once when no runner holds the goal.\<close>

definition service_request_cancel ::
  "world \<Rightarrow> string \<Rightarrow> int \<Rightarrow> int \<Rightarrow> string \<Rightarrow> int \<Rightarrow> string \<Rightarrow> goal_db \<Rightarrow> goal result \<times> goal_db" where
  "service_request_cancel w p t now i n actor s =
     (case service_change w p now i n ''goal.cancellation_requested'' actor RequestCancel [] s of
        Inl e \<Rightarrow> (Inl e, s)
      | Inr (g, s1) \<Rightarrow>
          (case has_active_goal_claim p now (g_id g) s1 of
             Inl e \<Rightarrow> (Inl e, s1)
           | Inr (held, s2) \<Rightarrow>
               if held then (Inr g, s2)
               else (case service_cancel w p now (g_id g) (g_revision g) actor t s2 of
                       Inl e \<Rightarrow> (Inl e, s2)
                     | Inr (h, s3) \<Rightarrow> (Inr h, s3))))"

definition claim_execution ::
  "world \<Rightarrow> string \<Rightarrow> int \<Rightarrow> string \<Rightarrow> string \<Rightarrow> int \<Rightarrow> string \<Rightarrow> int \<Rightarrow> goal_claim goal_op" where
  "claim_execution w p now i step n runner seconds =
     bind (get_goal p i) (\<lambda>g.
     bind (lift (find_step (g_steps g) step)) (\<lambda>s.
     bind (guard (gs_status s = GRunning) ValueError) (\<lambda>_.
       claim_goal w p now i runner n seconds)))"

section \<open>What the service keeps\<close>

definition fresh_step :: "goal_step \<Rightarrow> bool" where
  "fresh_step s \<longleftrightarrow> step_ok s \<and> gs_status s = GPending \<and> gs_attempt s = 0"

lemma plan_step_fresh: "plan_step d i description ids = Inr s \<Longrightarrow> fresh_step s"
  by (auto simp: plan_step_def fresh_step_def result_simps make_step_fields dest: make_step_ok)

lemma plan_steps_fresh:
  "plan_steps raws seen criteria steps = Inr (cs, ss) \<Longrightarrow> list_all fresh_step steps \<Longrightarrow> list_all fresh_step ss"
  by (induction raws seen criteria steps rule: plan_steps.induct)
    (auto simp: Let_def result_simps split: prod.splits dest: plan_step_fresh)

lemma requested_goal_fresh:
  assumes "make_goal (requested_goal i p t criteria budget q) = Inr g" and "list_all fresh_step (gq_steps q)"
  shows "fresh_goal g"
proof -
  have "goal_ok g"
    using make_goal_ok [OF assms(1)] assms(2) by (simp add: requested_goal_def fresh_step_def list_all_iff)
  then show ?thesis
    using assms(2) by (simp add: fresh_goal_def make_goal_fields [OF assms(1)])
      (simp add: requested_goal_def fresh_step_def list_all_iff)
qed

lemma service_create_fresh:
  assumes "service_create w p t actor q s = Inr (g, u)" and "list_all fresh_step (gq_steps q)"
  shows "fresh_goal g \<and> tracks fresh_goal s u"
proof -
  obtain criteria i s1 budget where s1: "new_goal_id w (gq_id q) s = Inr (i, s1)"
      and g: "make_goal (requested_goal i p t criteria budget q) = Inr g"
      and run: "create_goal w p g actor ''goal.created'' [] s1 = Inr (g, u)"
    using assms(1) unfolding service_create_def
    by (auto simp: result_simps create_goal_def)
  have fresh: "fresh_goal g" using requested_goal_fresh [OF g assms(2)] .
  then have "goal_ok g" by (simp add: fresh_goal_def)
  then have "tracks fresh_goal s1 u" using create_goal_tracks [where C = fresh_goal] fresh run by blast
  moreover have "same_goals s s1"
    using s1 by (auto simp: new_goal_id_def draw_uuid_def ret_eq_Inr same_goals_def split: option.splits if_splits)
  ultimately show ?thesis using fresh tracking.later same_goals_tracks by blast
qed

lemma promote_plan_fresh:
  assumes "promote_plan w p t actor raw profile cv turn budget i s = Inr (g, u)"
  shows "fresh_goal g \<and> tracks fresh_goal s u"
proof -
  obtain q raws criteria where run: "service_create w p t actor q s = Inr (g, u)"
      and steps: "plan_steps raws [] [] [] = Inr (criteria, gq_steps q)"
    using assms unfolding promote_plan_def Let_def
    by (auto simp: bind_eq_Inr guard_eq_Inr lift_eq_Inr split: prod.splits)
  show ?thesis using service_create_fresh [OF run] plan_steps_fresh [OF steps] by simp
qed

lemma service_changes_track:
  "keeps (tracks C) (service_change w p now i n kind actor c d)"
  "keeps (tracks C) (service_cancel w p now i n actor t)"
  "keeps (tracks C) (service_run w p now i n actor t)"
  "keeps (tracks C) (service_pause w p now i n actor)"
  "keeps (tracks C) (service_resume w p now i n actor t)"
  "keeps (tracks C) (service_fulfill_steering w p now i n actor steering es)"
  "keeps (tracks C) (service_start_step w p now i n actor st t)"
  "keeps (tracks C) (service_complete_step w p now i n actor st t)"
  "keeps (tracks C) (service_block_step w p now i n actor st why)"
  "keeps (tracks C) (service_retry_step w p now i n actor st)"
  "keeps (tracks C) (service_complete w p now i n actor t)"
  "keeps (tracks C) (service_fail w p now i n actor why t)"
  "keeps (tracks C) (service_approve w p t now i n by reason)"
  "keeps (tracks C) (service_approve_step w p t now i n step by reason)"
  "keeps (tracks C) (service_skip_step w p t now i n step why by)"
  "keeps (tracks C) (service_steer w p t now i n instruction by supersedes)"
  "keeps (tracks C) (service_add_evidence w p t now i n e)"
  "keeps (tracks C) (service_link w p now i n resource_kind resource actor)"
  "keeps (tracks C) (service_update_budget w p now i n budget actor)"
  "keeps (tracks C) (claim_execution w p now i step n runner seconds)"
  unfolding service_change_def service_run_def service_pause_def service_resume_def service_fulfill_steering_def
    service_start_step_def service_complete_step_def service_block_step_def service_retry_step_def
    service_cancel_def service_complete_def service_fail_def service_approve_def service_approve_step_def service_skip_step_def
    service_steer_def service_add_evidence_def service_link_def service_update_budget_def claim_execution_def
    new_approval_def execution_state_def
  by (intro tracks_keeps mutate_goal_tracks aside_tracks [OF aside_ops(1)] aside_tracks [OF aside_operations(8)]
      claim_operations)+

lemma service_request_cancel_tracks:
  "tracks C s (snd (service_request_cancel w p t now i n actor s))"
proof -
  have held: "keeps (tracks C) (has_active_goal_claim p now j)" for j
    unfolding has_active_goal_claim_def by (intro tracks_keeps)
  show ?thesis
    unfolding service_request_cancel_def
    by (auto split: sum.splits prod.splits intro: tracking.same tracking.later
        dest!: keepsD [OF service_changes_track(1)] keepsD [OF service_changes_track(2)] keepsD [OF held])
qed

end
