(* ===== verification/GoalScenario.thy ===== *)
theory GoalScenario
  imports GoalService
begin

text \<open>
  A goal of two steps, the second of high risk and after the first, taken from its plan to its
  completion, with the states its history passes; evaluated by the simplifier.
\<close>

definition gworld :: world where
  "gworld = \<lparr>redact_text = id, uuid4 = (\<lambda>n. ''g'' @ digits_of n), sha256 = (\<lambda>s. ''h'' @ digits_of (length s))\<rparr>"

definition plan0 :: pydict where
  "plan0 = [(''summary'', PStr ''Ship it''),
     (''steps'', PList [PDict [(''id'', PStr ''build''), (''description'', PStr ''Build'')],
        PDict [(''id'', PStr ''ship''), (''title'', PStr ''Ship''), (''depends_on'', PList [PStr ''build'']),
               (''risk'', PStr ''high''), (''retry_limit'', PInt 1)]])]"

definition goal_budget0 :: run_budget where
  "goal_budget0 = \<lparr>b_scope = ScGoal, b_model_calls = Some 5, b_tool_calls = None, b_tokens = None, b_cost = None,
     b_deadline = None, b_unknown = FailClosed\<rparr>"

definition evidence0 :: "string \<Rightarrow> goal_evidence" where
  "evidence0 i = \<lparr>ge_id = ''e-'' @ i, ge_summary = ''done'', ge_criteria = [i @ ''-criterion-1''], ge_step = Some i,
     ge_kind = ''observation'', ge_reference = None, ge_by = ''runner'', ge_at = 4, ge_metadata = []\<rparr>"

definition approval0 :: "string \<Rightarrow> string option \<Rightarrow> goal_approval" where
  "approval0 scope step = \<lparr>ga_id = ''a-'' @ scope, ga_by = ''host'', ga_scope = scope, ga_step = step,
     ga_reason = None, ga_at = 2\<rparr>"

definition calls0 :: "goal_call list" where
  "calls0 = [ApproveGoal (approval0 ''goal'' None) 2, StartGoal 3, StartGoalStep ''build'' 3,
     RecordEvidence (evidence0 ''build''), CompleteGoalStep ''build'' 5, StartGoalStep ''ship'' 5,
     ApproveStep (approval0 ''step'' (Some ''ship'')), StartGoalStep ''ship'' 6,
     RecordEvidence (evidence0 ''ship''), CompleteGoalStep ''ship'' 7, CompleteGoal 8]"

definition goal0 :: goal where
  "goal0 = \<lparr>g_id = ''goal'', g_profile = ''p'', g_title = ''Ship it'',
     g_criteria = [\<lparr>gc_id = ''build-criterion-1'', gc_description = ''Build''\<rparr>,
       \<lparr>gc_id = ''ship-criterion-1'', gc_description = ''Ship''\<rparr>],
     g_steps =
       [\<lparr>gs_id = ''build'', gs_title = ''Build'', gs_description = ''Build'',
         gs_criteria = [''build-criterion-1''], gs_depends = [], gs_risk = RiskLow, gs_tools = [],
         gs_status = GPending, gs_attempt = 0, gs_max = 1, gs_evidence = [], gs_blocked = None,
         gs_skip = None, gs_started = None, gs_completed = None\<rparr>,
        \<lparr>gs_id = ''ship'', gs_title = ''Ship'', gs_description = ''Ship'',
         gs_criteria = [''ship-criterion-1''], gs_depends = [''build''], gs_risk = RiskHigh, gs_tools = [],
         gs_status = GPending, gs_attempt = 0, gs_max = 2, gs_evidence = [], gs_blocked = None,
         gs_skip = None, gs_started = None, gs_completed = None\<rparr>],
     g_budget = goal_budget0, g_status = GoalDraft, g_revision = 0, g_evidence = [], g_approvals = [], g_steering = [],
     g_conversation = Some ''c'', g_turn = Some ''t'', g_plan = Some (freeze_mapping plan0),
     g_children = [], g_schedules = [], g_processes = [], g_traces = [], g_artifacts = [], g_cancel = False,
     g_created_at = 1, g_updated = 1, g_approved = None, g_started = None, g_completed = None, g_error = None,
     g_description = Some ''Ship it'', g_constraints = [], g_fulfilled = []\<rparr>"

definition created0 :: goal_db where
  "created0 = snd (projr (create_goal gworld ''p'' goal0 ''host'' ''goal.created'' [] empty_goal_db))"

lemma promoted0:
  "promote_plan gworld ''p'' 1 ''host'' plan0 ''p'' ''c'' ''t'' goal_budget0 (Some ''goal'') empty_goal_db = Inr (goal0, created0)"
  by code_simp

lemma fresh0: "fresh_goal goal0"
  using promote_plan_fresh [OF promoted0] by simp

lemma run0:
  "map (\<lambda>h. (g_status h, map gc_id (g_criteria h), map (\<lambda>s. (gs_id s, gs_risk s, gs_attempt s)) (g_steps h)))
     [goal_history calls0 goal0]
   = [(GoalCompleted, [''build-criterion-1'', ''ship-criterion-1''],
       [(''build'', RiskLow, 1), (''ship'', RiskHigh, 1)])]"
  by code_simp

lemma completed0: "g_status (goal_history calls0 goal0) = GoalCompleted"
  "map gc_id (g_criteria (goal_history calls0 goal0)) = [''build-criterion-1'', ''ship-criterion-1'']"
  "map (\<lambda>s. (gs_id s, gs_risk s, gs_attempt s)) (g_steps (goal_history calls0 goal0))
     = [(''build'', RiskLow, 1), (''ship'', RiskHigh, 1)]"
  using run0 by simp_all

lemma attempts0: "count_starts calls0 goal0 = 2" "total_limit goal0 = 3"
  by code_simp+

text \<open>Two steps that do not wait for each other.\<close>

definition goal1 :: goal where
  "goal1 = goal0\<lparr>g_steps := map (\<lambda>s. s\<lparr>gs_depends := []\<rparr>) (g_steps goal0)\<rparr>"

definition calls1 :: "goal_call list" where
  "calls1 = [ApproveGoal (approval0 ''goal'' None) 2, StartGoal 3, StartGoalStep ''build'' 3,
     BlockStep ''build'' ''no budget'', ResumeGoal 4, ApproveStep (approval0 ''step'' (Some ''ship'')),
     StartGoalStep ''ship'' 5]"

lemma fresh1: "fresh_goal goal1"
  by code_simp

lemma reopening_runs_two_steps:
  "map gs_id (running_steps (goal_history (calls1 @ [UpdateBudget True (Some ''build'') (goal_budget0\<lparr>b_model_calls := Some 9\<rparr>)]) goal1))
     = [''build'', ''ship'']"
  by code_simp

text \<open>A running goal whose second step is approved, and the store after a few calls.\<close>

definition ready0 :: goal where
  "ready0 = goal_history [ApproveGoal (approval0 ''goal'' None) 2, StartGoal 3,
     ApproveStep (approval0 ''step'' (Some ''ship''))] goal0"

definition store_calls0 :: "(string \<times> int \<times> goal_store_call) list" where
  "store_calls0 = [(''p'', 1, CreateGoal goal0 ''host'' ''goal.created'' []),
     (''p'', 2, ChangeGoal ''goal'' 0 ''goal.approved'' ''host'' (ApproveGoal (approval0 ''goal'' None) 2) [] None),
     (''p'', 2, ChangeGoal ''goal'' 0 ''goal.started'' ''host'' (StartGoal 2) [] None),
     (''p'', 3, ChangeGoal ''goal'' 1 ''goal.started'' ''host'' (StartGoal 3) [] None)]"

definition stored0 :: goal_db where
  "stored0 = goal_store_history gworld store_calls0 empty_goal_db"

lemma store0:
  "map (\<lambda>s. map (\<lambda>r. (gr_id r, gr_revision r)) (d_goals s)) [stored0] = [[(''goal'', 2)]]"
  by code_simp

lemma stored0: "gr_id (hd (d_goals stored0)) = ''goal''" "gr_revision (hd (d_goals stored0)) = 2"
  "hd (d_goals stored0) \<in> set (d_goals stored0)"
  using store0 by (auto simp: map_eq_Cons_conv)

lemma admitted0: "\<forall>pc\<in>set store_calls0. admits fresh_goal (snd (snd pc))"
  using fresh0 fresh_goalD(1) [OF fresh0] by (simp add: store_calls0_def admits_def)

lemma built0: "goal_built goal0"
proof -
  have "budget_ok (g_budget goal0)"
  proof -
    have "make_budget goal_budget0 = Inr goal_budget0" by code_simp
    then show ?thesis by (simp add: goal0_def goal_budget0_def budget_ok_def)
  qed
  moreover have "list_all (\<lambda>c. make_criterion c = Inr c) (g_criteria goal0)" by code_simp
  moreover have "g_evidence goal0 = []" "g_approvals goal0 = []" "g_steering goal0 = []"
    by (simp_all add: goal0_def)
  ultimately show ?thesis
    using fresh_goalD(1) [OF fresh0] by (simp add: goal_built_def list_all_iff)
qed

end
