(* ===== verification/Transactions.thy ===== *)
theory Transactions
  imports Json StoreOps
begin

text \<open>
  Services that issue several transactions: each commits on its own, so an exception leaves what the
  transactions before it wrote.  A program returns its result or exception together with the database.
\<close>

type_synonym ('s, 'a) prog = "'s \<Rightarrow> 'a result \<times> 's"

text \<open>One transaction.\<close>

definition tx :: "('s, 'a) op \<Rightarrow> ('s, 'a) prog" where
  "tx m = (\<lambda>s. case m s of Inl e \<Rightarrow> (Inl e, s) | Inr (x, t) \<Rightarrow> (Inr x, t))"

definition give :: "'a \<Rightarrow> ('s, 'a) prog" where
  "give x = (\<lambda>s. (Inr x, s))"

definition fails :: "py_error \<Rightarrow> ('s, 'a) prog" where
  "fails e = (\<lambda>s. (Inl e, s))"

definition sequel :: "('s, 'a) prog \<Rightarrow> ('a \<Rightarrow> ('s, 'b) prog) \<Rightarrow> ('s, 'b) prog" where
  "sequel p f = (\<lambda>s. case p s of (Inl e, t) \<Rightarrow> (Inl e, t) | (Inr x, t) \<Rightarrow> f x t)"

text \<open>\<^verbatim>\<open>try: p except BaseException: q; raise\<close>; an exception of \<open>q\<close> replaces that of \<open>p\<close>.\<close>

definition on_error :: "('s, 'a) prog \<Rightarrow> ('s, 'b) prog \<Rightarrow> ('s, 'a) prog" where
  "on_error p q = (\<lambda>s. case p s of
     (Inr x, t) \<Rightarrow> (Inr x, t)
   | (Inl e, t) \<Rightarrow> (case q t of (Inl e', u) \<Rightarrow> (Inl e', u) | (Inr y, u) \<Rightarrow> (Inl e, u)))"

text \<open>What holds of each transaction holds of the program, whether it returns or raises.\<close>

definition leads :: "('s \<Rightarrow> 's \<Rightarrow> bool) \<Rightarrow> ('s, 'a) prog \<Rightarrow> bool" where
  "leads R p \<longleftrightarrow> (\<forall>s. R s (snd (p s)))"

lemma leadsD: "leads R p \<Longrightarrow> p s = (r, t) \<Longrightarrow> R s t"
  by (metis leads_def snd_conv)

context evolution
begin

lemma leads_tx: "keeps R m \<Longrightarrow> leads R (tx m)"
  by (auto simp: leads_def tx_def same split: sum.splits dest: keepsD)

lemma leads_give: "leads R (give x)"
  by (simp add: leads_def give_def same)

lemma leads_fails: "leads R (fails e)"
  by (simp add: leads_def fails_def same)

lemma leads_sequel: "leads R p \<Longrightarrow> (\<And>x. leads R (f x)) \<Longrightarrow> leads R (sequel p f)"
  unfolding leads_def sequel_def by (auto split: prod.splits sum.splits) (metis later snd_conv)+

lemma leads_on_error: "leads R p \<Longrightarrow> leads R q \<Longrightarrow> leads R (on_error p q)"
  unfolding leads_def on_error_def by (auto split: prod.splits sum.splits) (metis later snd_conv)+

end

lemma leads_if: "leads R p \<Longrightarrow> leads R q \<Longrightarrow> leads R (if c then p else q)"
  by simp

lemma leads_case_option:
  "leads R p \<Longrightarrow> (\<And>x. leads R (f x)) \<Longrightarrow> leads R (case v of None \<Rightarrow> p | Some x \<Rightarrow> f x)"
  by (simp split: option.splits)

text \<open>A result carries what the last transactions established.\<close>

lemma tx_eq_Inr: "tx m s = (Inr x, t) \<longleftrightarrow> m s = Inr (x, t)"
  by (auto simp: tx_def split: sum.splits)

lemma give_eq_Inr: "give x s = (Inr y, t) \<longleftrightarrow> y = x \<and> t = s"
  by (auto simp: give_def)

lemma fails_eq_Inr: "fails e s = (Inr y, t) \<longleftrightarrow> False"
  by (simp add: fails_def)

lemma sequel_eq_Inr: "sequel p f s = (Inr y, u) \<longleftrightarrow> (\<exists>x t. p s = (Inr x, t) \<and> f x t = (Inr y, u))"
  by (auto simp: sequel_def split: prod.splits sum.splits)

lemma on_error_eq_Inr: "on_error p q s = (Inr x, t) \<longleftrightarrow> p s = (Inr x, t)"
  by (auto simp: on_error_def split: prod.splits sum.splits)

lemmas prog_simps = tx_eq_Inr give_eq_Inr fails_eq_Inr sequel_eq_Inr on_error_eq_Inr

end
