(* ===== verification/Approvals.thy ===== *)
theory Approvals
  imports Transactions Machine
begin

text \<open>
  Restart-safe approvals (\<^verbatim>\<open>approvals/models.py\<close>, \<^verbatim>\<open>approvals/store.py\<close>): the contracts, the two tables
  beside those of the run store, and the operations of the store, each one transaction over the
  shared database.  Operations take the time \<^verbatim>\<open>_utc_now\<close> returns.
\<close>

section \<open>Contracts\<close>

datatype approval_status =
  ApPending | ApApproved | ApDenied | ApExpired | ApConsumed | ApInvalidated | ApCancelled

datatype approval_decision = ApproveIt | DenyIt

fun approval_decision_value :: "approval_decision \<Rightarrow> string" where
  "approval_decision_value ApproveIt = ''approve''"
| "approval_decision_value DenyIt = ''deny''"

definition approval_open :: "approval_status \<Rightarrow> bool" where
  "approval_open st = (st \<in> {ApPending, ApApproved})"

text \<open>\<^verbatim>\<open>_required\<close> and \<^verbatim>\<open>_optional\<close>\<close>

definition ap_text :: "string \<Rightarrow> string result" where
  "ap_text s = (if strip s = [] then Inl ValueError else Inr (strip s))"

definition ap_opt :: "string option \<Rightarrow> string option result" where
  "ap_opt v = opt_result ap_text v"

lemma ap_text_eq_Inr [result_simps]: "ap_text s = Inr t \<longleftrightarrow> t = strip s \<and> strip s \<noteq> []"
  by (auto simp: ap_text_def)

record approval_submission =
  as_step :: string
  as_tool :: string
  as_tool_version :: string
  as_schema :: string
  as_args :: string
  as_policy :: string
  as_preview :: pydict
  as_expires :: int
  as_effect :: "string option"

definition make_approval_submission :: "world \<Rightarrow> approval_submission \<Rightarrow> approval_submission result" where
  "make_approval_submission w q =
     and_then (ap_text (as_step q)) (\<lambda>st. and_then (ap_text (as_tool q)) (\<lambda>tool.
     and_then (ap_text (as_tool_version q)) (\<lambda>tv. and_then (ap_text (as_schema q)) (\<lambda>sch.
     and_then (ap_text (as_args q)) (\<lambda>args. and_then (ap_text (as_policy q)) (\<lambda>pol.
     and_then (ap_opt (as_effect q)) (\<lambda>eff.
       Inr \<lparr>as_step = st, as_tool = tool, as_tool_version = tv, as_schema = sch, as_args = args,
            as_policy = pol, as_preview = safe_mapping w (as_preview q), as_expires = as_expires q,
            as_effect = eff\<rparr>)))))))"

record approval_request =
  aq_id :: string
  aq_scope :: exec_scope
  aq_run :: string
  aq_step :: string
  aq_tool :: string
  aq_tool_version :: string
  aq_schema :: string
  aq_args :: string
  aq_policy :: string
  aq_preview :: pydict
  aq_status :: approval_status
  aq_revision :: int
  aq_created :: int
  aq_expires :: int
  aq_effect :: "string option"
  aq_decision :: "approval_decision option"
  aq_by :: "string option"
  aq_reason :: "string option"
  aq_decided :: "int option"
  aq_consumed :: "int option"
  aq_updated :: int

definition make_approval_request :: "world \<Rightarrow> approval_request \<Rightarrow> approval_request result" where
  "make_approval_request w q =
     and_then (ap_text (aq_id q)) (\<lambda>i. and_then (ap_text (aq_run q)) (\<lambda>rid.
     and_then (ap_text (aq_step q)) (\<lambda>st. and_then (ap_text (aq_tool q)) (\<lambda>tool.
     and_then (ap_text (aq_tool_version q)) (\<lambda>tv. and_then (ap_text (aq_schema q)) (\<lambda>sch.
     and_then (ap_text (aq_args q)) (\<lambda>args. and_then (ap_text (aq_policy q)) (\<lambda>pol.
     and_then (require (rid = sc_run (aq_scope q)) ValueError) (\<lambda>_.
     and_then (ap_opt (aq_effect q)) (\<lambda>eff.
     and_then (require (0 \<le> aq_revision q) ValueError) (\<lambda>_.
     and_then (ap_opt (aq_by q)) (\<lambda>who. and_then (ap_opt (aq_reason q)) (\<lambda>why.
       Inr (q\<lparr>aq_id := i, aq_run := rid, aq_step := st, aq_tool := tool, aq_tool_version := tv,
              aq_schema := sch, aq_args := args, aq_policy := pol, aq_preview := safe_mapping w (aq_preview q),
              aq_effect := eff, aq_by := who, aq_reason := why\<rparr>))))))))))))))"

record approval_validation =
  av_scope :: exec_scope
  av_tool :: string
  av_tool_version :: string
  av_schema :: string
  av_args :: string
  av_policy :: string
  av_authority :: bool
  av_credentials :: bool

definition make_approval_validation :: "approval_validation \<Rightarrow> approval_validation result" where
  "make_approval_validation v =
     and_then (ap_text (av_tool v)) (\<lambda>tool. and_then (ap_text (av_tool_version v)) (\<lambda>tv.
     and_then (ap_text (av_schema v)) (\<lambda>sch. and_then (ap_text (av_args v)) (\<lambda>args.
     and_then (ap_text (av_policy v)) (\<lambda>pol.
       Inr (v\<lparr>av_tool := tool, av_tool_version := tv, av_schema := sch, av_args := args, av_policy := pol\<rparr>))))))"

section \<open>Tables\<close>

record approval_row =
  ap_id :: string
  ap_tenant :: string
  ap_workspace :: string
  ap_run :: string
  ap_step :: string
  ap_effect :: "string option"
  ap_scope :: pydict
  ap_tool :: string
  ap_tool_version :: string
  ap_schema :: string
  ap_args :: string
  ap_policy :: string
  ap_preview :: pydict
  ap_status :: approval_status
  ap_revision :: int
  ap_decision :: "approval_decision option"
  ap_by :: "string option"
  ap_reason :: "string option"
  ap_key :: "string option"
  ap_created :: int
  ap_expires :: int
  ap_decided :: "int option"
  ap_consumed :: "int option"
  ap_updated :: int

record audit_row =
  au_id :: string
  au_tenant :: string
  au_workspace :: string
  au_run :: string
  au_step :: "pyval option"
  au_type :: string
  au_payload :: pydict
  au_key :: string
  au_created :: int

text \<open>The database that runs and approvals share.\<close>

record host_db =
  h_runs :: db
  h_approvals :: "approval_row list"
  h_audit :: "audit_row list"

type_synonym 'a host_op = "(host_db, 'a) op"

definition empty_host :: host_db where
  "empty_host = \<lparr>h_runs = empty_db, h_approvals = [], h_audit = []\<rparr>"

text \<open>An operation of the run store, in the shared database.\<close>

definition on_runs :: "(db, 'a) op \<Rightarrow> 'a host_op" where
  "on_runs m = (\<lambda>s. case m (h_runs s) of Inl e \<Rightarrow> Inl e | Inr (x, d) \<Rightarrow> Inr (x, s\<lparr>h_runs := d\<rparr>))"

definition approval_row_of :: "string \<Rightarrow> approval_row host_op" where
  "approval_row_of i = select_row ApprovalNotFoundError (\<lambda>s. find (\<lambda>a. ap_id a = i) (h_approvals s))"

definition approval_of_row :: "world \<Rightarrow> approval_row \<Rightarrow> approval_request result" where
  "approval_of_row w a =
     and_then (scope_from_dict (ap_scope a)) (\<lambda>sc.
       make_approval_request w
         \<lparr>aq_id = ap_id a, aq_scope = sc, aq_run = ap_run a, aq_step = ap_step a, aq_tool = ap_tool a,
          aq_tool_version = ap_tool_version a, aq_schema = ap_schema a, aq_args = ap_args a, aq_policy = ap_policy a,
          aq_preview = ap_preview a, aq_status = ap_status a, aq_revision = ap_revision a,
          aq_created = ap_created a, aq_expires = ap_expires a, aq_effect = ap_effect a,
          aq_decision = ap_decision a, aq_by = ap_by a, aq_reason = ap_reason a, aq_decided = ap_decided a,
          aq_consumed = ap_consumed a, aq_updated = ap_updated a\<rparr>)"

definition read_approval :: "world \<Rightarrow> string \<Rightarrow> approval_request host_op" where
  "read_approval w i = bind (approval_row_of i) (\<lambda>a. lift (approval_of_row w a))"

definition assert_approval_scope :: "exec_scope \<Rightarrow> exec_scope \<Rightarrow> unit result" where
  "assert_approval_scope requested persisted =
     (case assert_resumable requested persisted of
        Inl e \<Rightarrow> Inl (if e = ExecutionScopeError then ApprovalNotFoundError else e)
      | Inr u \<Rightarrow> Inr u)"

definition assert_run_scope :: "exec_scope \<Rightarrow> unit host_op" where
  "assert_run_scope scope =
     bind (select_row ApprovalNotFoundError (\<lambda>s. find (\<lambda>r. r_id r = sc_run scope) (t_runs (h_runs s)))) (\<lambda>r.
     bind (lift (scope_from_dict (r_scope r))) (\<lambda>persisted.
       lift (assert_approval_scope scope persisted)))"

text \<open>\<^verbatim>\<open>UPDATE durable_approval_requests\<close>: the unique constraint on decision keys holds afterwards.\<close>

definition decision_keys_unique :: "approval_row list \<Rightarrow> bool" where
  "decision_keys_unique rows \<longleftrightarrow>
     distinct (map (\<lambda>a. (ap_tenant a, ap_workspace a, ap_key a)) (filter (\<lambda>a. ap_key a \<noteq> None) rows))"

definition update_approvals :: "(approval_row \<Rightarrow> bool) \<Rightarrow> (approval_row \<Rightarrow> approval_row) \<Rightarrow> nat host_op" where
  "update_approvals P f =
     (\<lambda>s. let rows = upd_where P f (h_approvals s) in
          if decision_keys_unique rows then Inr (rowcount P (h_approvals s), s\<lparr>h_approvals := rows\<rparr>)
          else Inl IntegrityError)"

definition insert_approval :: "approval_row \<Rightarrow> unit host_op" where
  "insert_approval a =
     modify_result (\<lambda>s.
       and_then (insert_row (ap_id a \<notin> ap_id ` set (h_approvals s) \<and> decision_keys_unique (h_approvals s @ [a])
                   \<and> ap_run a \<in> r_id ` set (t_runs (h_runs s))) a (h_approvals s))
         (\<lambda>rows. Inr (s\<lparr>h_approvals := rows\<rparr>)))"

section \<open>Audit\<close>

definition forbidden_audit_keys :: "string list" where
  "forbidden_audit_keys = [''api_key'', ''authorization'', ''credential'', ''credentials'', ''password'',
     ''prompt'', ''raw_arguments'', ''secret'', ''token'']"

definition casefold :: "string \<Rightarrow> string" where
  "casefold k = concat (map casefold_char k)"

fun audit_safe :: "pyval \<Rightarrow> bool" where
  "audit_safe (PDict kvs) = list_all (\<lambda>(k, ok). casefold k \<notin> set forbidden_audit_keys \<and> ok) (map (\<lambda>(k, v). (k, audit_safe v)) kvs)"
| "audit_safe (PList xs) = list_all id (map audit_safe xs)"
| "audit_safe (PTuple xs) = list_all id (map audit_safe xs)"
| "audit_safe v = True"

definition safe_audit_payload :: "world \<Rightarrow> pydict \<Rightarrow> pydict result" where
  "safe_audit_payload w d =
     and_then (require (audit_safe (PDict d)) ValueError) (\<lambda>_. Inr (redact_dict (redact_text w) d))"

text \<open>\<^verbatim>\<open>INSERT OR IGNORE\<close>: a row whose identifier or key exists is not written.\<close>

definition put_audit :: "audit_row \<Rightarrow> audit_row list \<Rightarrow> audit_row list" where
  "put_audit a rows =
     (if au_id a \<in> au_id ` set rows
         \<or> (au_tenant a, au_workspace a, au_key a) \<in> (\<lambda>b. (au_tenant b, au_workspace b, au_key b)) ` set rows
      then rows else rows @ [a])"

definition audit :: "world \<Rightarrow> exec_scope \<Rightarrow> string \<Rightarrow> pydict \<Rightarrow> string \<Rightarrow> int \<Rightarrow> unit host_op" where
  "audit w scope kind payload key now =
     bind (lift (safe_audit_payload w payload)) (\<lambda>safe.
     bind (on_runs (new_uuid w)) (\<lambda>i.
       modify (\<lambda>s. s\<lparr>h_audit := put_audit
         \<lparr>au_id = i, au_tenant = sc_tenant scope, au_workspace = sc_workspace scope, au_run = sc_run scope,
          au_step = map_of safe ''step_id'', au_type = kind, au_payload = stored_json w safe,
          au_key = key, au_created = now\<rparr> (h_audit s)\<rparr>)))"

section \<open>Operations\<close>

definition opt_text :: "string option \<Rightarrow> pyval" where
  "opt_text v = (case v of None \<Rightarrow> PNone | Some t \<Rightarrow> PStr t)"

definition same_request :: "exec_scope \<Rightarrow> approval_submission \<Rightarrow> approval_row \<Rightarrow> bool" where
  "same_request scope q a \<longleftrightarrow>
     ap_tenant a = sc_tenant scope \<and> ap_workspace a = sc_workspace scope \<and> ap_run a = sc_run scope
     \<and> ap_step a = as_step q \<and> ap_tool a = as_tool q \<and> ap_tool_version a = as_tool_version q
     \<and> ap_schema a = as_schema q \<and> ap_args a = as_args q \<and> ap_policy a = as_policy q"

definition new_approval_row :: "world \<Rightarrow> string \<Rightarrow> int \<Rightarrow> exec_scope \<Rightarrow> approval_submission \<Rightarrow> approval_row" where
  "new_approval_row w i now scope q =
     \<lparr>ap_id = i, ap_tenant = sc_tenant scope, ap_workspace = sc_workspace scope, ap_run = sc_run scope,
      ap_step = as_step q, ap_effect = as_effect q, ap_scope = stored_json w (scope_to_dict scope),
      ap_tool = as_tool q, ap_tool_version = as_tool_version q, ap_schema = as_schema q, ap_args = as_args q,
      ap_policy = as_policy q, ap_preview = stored_json w (as_preview q), ap_status = ApPending, ap_revision = 0,
      ap_decision = None, ap_by = None, ap_reason = None, ap_key = None, ap_created = now,
      ap_expires = as_expires q, ap_decided = None, ap_consumed = None, ap_updated = now\<rparr>"

definition create_approval :: "world \<Rightarrow> int \<Rightarrow> exec_scope \<Rightarrow> approval_submission \<Rightarrow> approval_request host_op" where
  "create_approval w now scope q =
     bind (guard (now < as_expires q) ValueError) (\<lambda>_.
     bind (assert_run_scope scope) (\<lambda>_.
     bind (gets (\<lambda>s. case rev (sort_key (\<lambda>a. (ap_created a, ap_id a))
             (filter (\<lambda>a. same_request scope q a \<and> approval_open (ap_status a)) (h_approvals s))) of
               [] \<Rightarrow> None | a # _ \<Rightarrow> Some a)) (\<lambda>existing.
     case existing of
       Some a \<Rightarrow> lift (approval_of_row w a)
     | None \<Rightarrow>
         bind (on_runs (new_uuid w)) (\<lambda>i.
         bind (insert_approval (new_approval_row w i now scope q)) (\<lambda>_.
         bind (audit w scope ''approval.requested''
                 [(''approval_id'', PStr i), (''step_id'', PStr (as_step q)), (''effect_id'', opt_text (as_effect q)),
                  (''tool_name'', PStr (as_tool q)), (''tool_version'', PStr (as_tool_version q)),
                  (''schema_version'', PStr (as_schema q)), (''arguments_digest'', PStr (as_args q)),
                  (''policy_version'', PStr (as_policy q)), (''expires_at'', PTime (as_expires q))]
                 (''approval:create:'' @ i) now) (\<lambda>_.
           read_approval w i))))))"

definition get_approval :: "world \<Rightarrow> exec_scope \<Rightarrow> string \<Rightarrow> approval_request host_op" where
  "get_approval w scope i =
     bind (read_approval w i) (\<lambda>q. bind (lift (assert_approval_scope scope (aq_scope q))) (\<lambda>_. ret q))"

definition list_approvals ::
  "world \<Rightarrow> exec_scope \<Rightarrow> string option \<Rightarrow> approval_status option \<Rightarrow> int \<Rightarrow> approval_request list host_op" where
  "list_approvals w scope rid status limit =
     bind (guard (1 \<le> limit \<and> limit \<le> 1000) ValueError) (\<lambda>_.
     bind (gets (\<lambda>s. take (nat limit) (sort_key (\<lambda>a. (ap_created a, ap_id a)) (filter
             (\<lambda>a. ap_tenant a = sc_tenant scope \<and> ap_workspace a = sc_workspace scope
                \<and> (case rid of None \<Rightarrow> True | Some r \<Rightarrow> ap_run a = r)
                \<and> (case status of None \<Rightarrow> True | Some st \<Rightarrow> ap_status a = st)) (h_approvals s))))) (\<lambda>rows.
     bind (lift (map_result (approval_of_row w) rows)) (\<lambda>qs.
     bind (lift (map_result (\<lambda>q. assert_approval_scope scope (aq_scope q)) qs)) (\<lambda>_.
       ret qs))))"

definition expired_row :: "string \<Rightarrow> int \<Rightarrow> approval_row \<Rightarrow> approval_row" where
  "expired_row why now a =
     a\<lparr>ap_status := ApExpired, ap_revision := ap_revision a + 1, ap_reason := Some why, ap_updated := now\<rparr>"

definition decided_row ::
  "approval_decision \<Rightarrow> string \<Rightarrow> string \<Rightarrow> string \<Rightarrow> int \<Rightarrow> approval_row \<Rightarrow> approval_row" where
  "decided_row d who why key now a =
     a\<lparr>ap_status := if d = ApproveIt then ApApproved else ApDenied, ap_revision := ap_revision a + 1,
       ap_decision := Some d, ap_by := Some who, ap_reason := Some why, ap_key := Some key,
       ap_decided := Some now, ap_updated := now\<rparr>"

definition conflict_if_duplicate :: "'a host_op \<Rightarrow> 'a host_op" where
  "conflict_if_duplicate m = (\<lambda>s. case m s of
     Inl e \<Rightarrow> Inl (if e = IntegrityError then ApprovalConflictError else e) | Inr r \<Rightarrow> Inr r)"

definition decide_approval ::
  "world \<Rightarrow> int \<Rightarrow> exec_scope \<Rightarrow> string \<Rightarrow> approval_decision \<Rightarrow> string \<Rightarrow> string \<Rightarrow> string \<Rightarrow> approval_request host_op" where
  "decide_approval w now scope i d who why key =
     bind (lift (ap_text who)) (\<lambda>who. bind (lift (ap_text why)) (\<lambda>why. bind (lift (ap_text key)) (\<lambda>key.
     bind (read_approval w i) (\<lambda>q.
     bind (lift (assert_approval_scope scope (aq_scope q))) (\<lambda>_.
     if aq_status q \<noteq> ApPending
     then bind (approval_row_of i) (\<lambda>a.
          bind (guard (ap_key a = Some key \<and> ap_decision a = Some d) ApprovalConflictError) (\<lambda>_. ret q))
     else if aq_expires q \<le> now
     then bind (update_approvals (\<lambda>a. ap_id a = i \<and> ap_status a = ApPending)
                  (expired_row ''approval request expired'' now)) (\<lambda>_.
          raise ApprovalConflictError)
     else
       bind (conflict_if_duplicate (update_approvals
               (\<lambda>a. ap_id a = i \<and> ap_status a = ApPending \<and> ap_revision a = aq_revision q)
               (decided_row d who why key now))) (\<lambda>n.
       bind (guard (n = 1) ApprovalConflictError) (\<lambda>_.
       bind (audit w (aq_scope q) ''approval.decided''
               [(''approval_id'', PStr i), (''decision'', PStr (approval_decision_value d)), (''decided_by'', PStr who),
                (''reason'', PStr why), (''effect_id'', opt_text (aq_effect q)), (''arguments_digest'', PStr (aq_args q))]
               (''approval:decision:'' @ key) now) (\<lambda>_.
         read_approval w i))))))))"

definition consumed_row :: "int \<Rightarrow> approval_row \<Rightarrow> approval_row" where
  "consumed_row now a =
     a\<lparr>ap_status := ApConsumed, ap_revision := ap_revision a + 1, ap_consumed := Some now, ap_updated := now\<rparr>"

definition consume_approval :: "world \<Rightarrow> int \<Rightarrow> exec_scope \<Rightarrow> string \<Rightarrow> int \<Rightarrow> approval_request host_op" where
  "consume_approval w now scope i expected =
     bind (read_approval w i) (\<lambda>q.
     bind (lift (assert_approval_scope scope (aq_scope q))) (\<lambda>_.
     bind (guard (aq_status q \<noteq> ApConsumed) ApprovalConflictError) (\<lambda>_.
     bind (guard (aq_status q = ApApproved) ApprovalConflictError) (\<lambda>_.
     if aq_expires q \<le> now
     then bind (update_approvals (\<lambda>a. ap_id a = i \<and> ap_status a = ApApproved)
                  (expired_row ''approval expired before consumption'' now)) (\<lambda>_.
          raise ApprovalConflictError)
     else
       bind (update_approvals (\<lambda>a. ap_id a = i \<and> ap_status a = ApApproved \<and> ap_revision a = expected)
               (consumed_row now)) (\<lambda>n.
       bind (guard (n = 1) ApprovalConflictError) (\<lambda>_.
       bind (audit w (aq_scope q) ''approval.consumed''
               [(''approval_id'', PStr i), (''decided_by'', opt_text (aq_by q)), (''effect_id'', opt_text (aq_effect q)),
                (''tool_name'', PStr (aq_tool q)), (''tool_version'', PStr (aq_tool_version q)),
                (''schema_version'', PStr (aq_schema q)), (''arguments_digest'', PStr (aq_args q)),
                (''policy_version'', PStr (aq_policy q))]
               (''approval:consume:'' @ i) now) (\<lambda>_.
         read_approval w i)))))))"

text \<open>\<^verbatim>\<open>invalidate\<close> and \<^verbatim>\<open>cancel\<close> close an open request.\<close>

definition closed_row :: "approval_status \<Rightarrow> string \<Rightarrow> int \<Rightarrow> approval_row \<Rightarrow> approval_row" where
  "closed_row st why now a =
     a\<lparr>ap_status := st, ap_revision := ap_revision a + 1, ap_reason := Some why, ap_updated := now\<rparr>"

definition close_approval ::
  "approval_status \<Rightarrow> string \<Rightarrow> (string \<Rightarrow> string \<Rightarrow> string \<Rightarrow> pydict) \<Rightarrow> string
   \<Rightarrow> world \<Rightarrow> int \<Rightarrow> exec_scope \<Rightarrow> string \<Rightarrow> string \<Rightarrow> approval_request host_op" where
  "close_approval st kind payload prefix w now scope i why =
     bind (lift (ap_text why)) (\<lambda>why.
     bind (read_approval w i) (\<lambda>q.
     bind (lift (assert_approval_scope scope (aq_scope q))) (\<lambda>_.
     if aq_status q = st then ret q
     else
     bind (guard (approval_open (aq_status q)) ApprovalConflictError) (\<lambda>_.
     bind (update_approvals (\<lambda>a. ap_id a = i \<and> ap_revision a = aq_revision q) (closed_row st why now)) (\<lambda>_.
     bind (audit w (aq_scope q) kind (payload i why (aq_args q))
             (prefix @ i @ '':'' @ int_text (aq_revision q)) now) (\<lambda>_.
       read_approval w i))))))"

definition invalidate_approval :: "world \<Rightarrow> int \<Rightarrow> exec_scope \<Rightarrow> string \<Rightarrow> string \<Rightarrow> approval_request host_op" where
  "invalidate_approval = close_approval ApInvalidated ''approval.invalidated''
     (\<lambda>i why args. [(''approval_id'', PStr i), (''reason'', PStr why), (''arguments_digest'', PStr args)])
     ''approval:invalidate:''"

definition cancel_approval :: "world \<Rightarrow> int \<Rightarrow> exec_scope \<Rightarrow> string \<Rightarrow> string \<Rightarrow> approval_request host_op" where
  "cancel_approval = close_approval ApCancelled ''approval.cancelled''
     (\<lambda>i why args. [(''approval_id'', PStr i), (''reason'', PStr why)]) ''approval:cancel:''"

definition expire_one :: "world \<Rightarrow> int \<Rightarrow> approval_row \<Rightarrow> approval_request option host_op" where
  "expire_one w now row =
     bind (read_approval w (ap_id row)) (\<lambda>q.
     if \<not> approval_open (aq_status q) \<or> now < aq_expires q then ret None
     else
     bind (update_approvals (\<lambda>a. ap_id a = aq_id q \<and> ap_revision a = aq_revision q)
             (expired_row ''approval request expired'' now)) (\<lambda>n.
     if n \<noteq> 1 then ret None
     else
     bind (audit w (aq_scope q) ''approval.expired'' [(''approval_id'', PStr (aq_id q))]
             (''approval:expire:'' @ aq_id q @ '':'' @ int_text (aq_revision q)) now) (\<lambda>_.
     bind (read_approval w (aq_id q)) (\<lambda>x. ret (Some x)))))"

definition expire_approvals :: "world \<Rightarrow> int \<Rightarrow> approval_request list host_op" where
  "expire_approvals w now =
     bind (gets (\<lambda>s. sort_key (\<lambda>a. (ap_expires a, ap_id a))
             (filter (\<lambda>a. approval_open (ap_status a) \<and> ap_expires a \<le> now) (h_approvals s)))) (\<lambda>rows.
     bind (map_op (expire_one w now) rows) (\<lambda>qs. ret (map the (filter (\<lambda>q. q \<noteq> None) qs))))"

end
