(* ===== verification/ApprovalService.thy ===== *)
theory ApprovalService
  imports Approvals
begin

text \<open>
  Coordination of approvals and runs (\<^verbatim>\<open>approvals/service.py\<close>): pausing a run, deciding, and resuming after a
  fresh validation.  Each store call is a transaction of its own; \<open>t\<close> is what the clocks read.
  The release of the budget and the asynchronous mirror are left to the host.
\<close>

datatype approval_outcome =
    OutPaused | OutResumed | OutDenied | OutExpired | OutInvalidated | OutCancelled
  | OutRevokedAuthority | OutUnavailableIntegration

fun approval_outcome_value :: "approval_outcome \<Rightarrow> string" where
  "approval_outcome_value OutPaused = ''paused''"
| "approval_outcome_value OutResumed = ''resumed''"
| "approval_outcome_value OutDenied = ''denied''"
| "approval_outcome_value OutExpired = ''expired''"
| "approval_outcome_value OutInvalidated = ''invalidated''"
| "approval_outcome_value OutCancelled = ''cancelled''"
| "approval_outcome_value OutRevokedAuthority = ''revoked_authority''"
| "approval_outcome_value OutUnavailableIntegration = ''unavailable_integration''"

record resume_outcome =
  ro_kind :: approval_outcome
  ro_approval :: approval_request
  ro_run :: run_record

fun terminal_kind :: "approval_status \<Rightarrow> approval_outcome option" where
  "terminal_kind ApDenied = Some OutDenied"
| "terminal_kind ApExpired = Some OutExpired"
| "terminal_kind ApInvalidated = Some OutInvalidated"
| "terminal_kind ApCancelled = Some OutCancelled"
| "terminal_kind ApConsumed = Some OutResumed"
| "terminal_kind st = None"

text \<open>\<^verbatim>\<open>_validation_mismatch\<close>: what changed since the request, if anything did.\<close>

definition validation_mismatch ::
  "approval_request \<Rightarrow> approval_validation \<Rightarrow> (approval_outcome \<times> string) option" where
  "validation_mismatch q v =
     (if assert_resumable (av_scope v) (aq_scope q) \<noteq> Inr ()
      then Some (OutRevokedAuthority, ''execution scope or authority changed'')
      else case find (\<lambda>(label, seen, expected). seen \<noteq> expected)
             [(''tool name'', av_tool v, aq_tool q), (''tool version'', av_tool_version v, aq_tool_version q),
              (''schema version'', av_schema v, aq_schema q), (''arguments digest'', av_args v, aq_args q),
              (''policy version'', av_policy v, aq_policy q)] of
        Some (label, seen, expected) \<Rightarrow>
          Some (OutInvalidated, label @ '' changed after approval was requested'')
      | None \<Rightarrow>
          if \<not> av_authority v then Some (OutRevokedAuthority, ''execution authority was revoked'')
          else if \<not> av_credentials v
               then Some (OutUnavailableIntegration, ''required credentials are no longer available'')
          else None)"

definition keyed_step_event :: "string \<Rightarrow> string \<Rightarrow> event_args" where
  "keyed_step_event step key = plain_event\<lparr>g_step := Some step, g_key := Some key\<rparr>"

text \<open>\<^verbatim>\<open>_record\<close>\<close>

definition record_approval ::
  "world \<Rightarrow> int \<Rightarrow> exec_scope \<Rightarrow> approval_request \<Rightarrow> string \<Rightarrow> string \<Rightarrow> pydict \<Rightarrow> string
   \<Rightarrow> (host_db, run_event) prog" where
  "record_approval w t scope q name actor payload key =
     tx (on_runs (record_event w t scope (aq_run q) name actor payload (keyed_step_event (aq_step q) key)))"

definition request_approval ::
  "world \<Rightarrow> int \<Rightarrow> exec_scope \<Rightarrow> run_claim \<Rightarrow> approval_submission \<Rightarrow> (host_db, run_record \<times> approval_request) prog" where
  "request_approval w t scope c q =
     sequel (tx (create_approval w t scope q)) (\<lambda>a.
     sequel (record_approval w t scope a ''approval.requested'' ''runtime''
        [(''approval_id'', PStr (aq_id a)), (''effect_id'', opt_text (aq_effect a)), (''tool_name'', PStr (aq_tool a)),
         (''tool_version'', PStr (aq_tool_version a)), (''schema_version'', PStr (aq_schema a)),
         (''arguments_digest'', PStr (aq_args a)), (''policy_version'', PStr (aq_policy a)),
         (''expires_at'', PTime (aq_expires a))]
        (''approval-requested:'' @ aq_id a)) (\<lambda>_.
     sequel (on_error
        (tx (on_runs (pause_for_approval w t scope c (as_step q) (aq_id a)
           [(''tool_name'', PStr (aq_tool a)), (''tool_version'', PStr (aq_tool_version a)),
            (''arguments_digest'', PStr (aq_args a)), (''policy_version'', PStr (aq_policy a))])))
        (tx (invalidate_approval w t scope (aq_id a) ''run could not be paused for approval''))) (\<lambda>run.
       give (run, a))))"

definition service_decide ::
  "world \<Rightarrow> int \<Rightarrow> exec_scope \<Rightarrow> string \<Rightarrow> approval_decision \<Rightarrow> string \<Rightarrow> string \<Rightarrow> string
   \<Rightarrow> (host_db, approval_request) prog" where
  "service_decide w t scope i d who why key =
     sequel (tx (decide_approval w t scope i d who why key)) (\<lambda>a.
     sequel (record_approval w t scope a ''approval.decided'' who
        [(''approval_id'', PStr (aq_id a)), (''decision'', PStr (approval_decision_value d)), (''reason'', PStr why),
         (''arguments_digest'', PStr (aq_args a))]
        (''approval-decided:'' @ key)) (\<lambda>_. give a))"

text \<open>\<^verbatim>\<open>_recover_consumed\<close>: taking up again after a crash between the consumption and the release.\<close>

definition recover_consumed ::
  "world \<Rightarrow> int \<Rightarrow> exec_scope \<Rightarrow> approval_request \<Rightarrow> string \<Rightarrow> (host_db, resume_outcome) prog" where
  "recover_consumed w t scope a actor =
     sequel (tx (on_runs (get_run w scope (aq_run a)))) (\<lambda>run.
     sequel (if rr_status run = RunWaitingForApproval
             then tx (on_runs (resume w t scope (rr_id run) actor (''approval '' @ aq_id a @ '' consumed'')))
             else give run) (\<lambda>run.
       give \<lparr>ro_kind = (if rr_status run \<in> {RunQueued, RunRunning, RunCompleted} then OutResumed else OutInvalidated),
             ro_approval = a, ro_run = run\<rparr>))"

definition terminal_outcome ::
  "world \<Rightarrow> int \<Rightarrow> exec_scope \<Rightarrow> approval_request \<Rightarrow> approval_outcome \<Rightarrow> string \<Rightarrow> (host_db, resume_outcome) prog" where
  "terminal_outcome w t scope a kind actor =
     sequel (tx (on_runs (get_run w scope (aq_run a)))) (\<lambda>run.
     sequel (if rr_status run = RunWaitingForApproval
             then tx (on_runs (cancel_run w t scope (rr_id run) actor
                    (''approval '' @ aq_id a @ '' is '' @ approval_outcome_value kind) None))
             else give run) (\<lambda>run.
       give \<lparr>ro_kind = kind, ro_approval = a, ro_run = run\<rparr>))"

definition consume_and_resume ::
  "world \<Rightarrow> int \<Rightarrow> exec_scope \<Rightarrow> approval_request \<Rightarrow> string \<Rightarrow> (host_db, resume_outcome) prog" where
  "consume_and_resume w t scope a actor =
     sequel (tx (consume_approval w t scope (aq_id a) (aq_revision a))) (\<lambda>x.
     sequel (record_approval w t scope x ''approval.consumed'' actor
        [(''approval_id'', PStr (aq_id x)), (''arguments_digest'', PStr (aq_args x))]
        (''approval-consumed:'' @ aq_id x)) (\<lambda>_.
       recover_consumed w t scope x actor))"

definition resume_approval ::
  "world \<Rightarrow> int \<Rightarrow> exec_scope \<Rightarrow> string \<Rightarrow> approval_validation \<Rightarrow> string \<Rightarrow> (host_db, resume_outcome) prog" where
  "resume_approval w t scope i v actor =
     sequel (tx (get_approval w scope i)) (\<lambda>a0.
     sequel (if aq_expires a0 \<le> t \<and> approval_open (aq_status a0)
             then sequel (tx (expire_approvals w t)) (\<lambda>_. tx (get_approval w scope i))
             else give a0) (\<lambda>a.
     case (terminal_kind (aq_status a), validation_mismatch a v) of
       (Some kind, mismatch) \<Rightarrow>
         if aq_status a \<noteq> ApConsumed then terminal_outcome w t scope a kind actor
         else (case mismatch of
             Some (mk, why) \<Rightarrow>
               sequel (tx (on_runs (get_run w scope (aq_run a)))) (\<lambda>run.
                 give \<lparr>ro_kind = mk, ro_approval = a, ro_run = run\<rparr>)
           | None \<Rightarrow> recover_consumed w t scope a actor)
     | (None, Some (mk, why)) \<Rightarrow>
         sequel (tx (invalidate_approval w t scope (aq_id a) why)) (\<lambda>x.
         sequel (record_approval w t scope x ''approval.invalidated'' actor
            [(''approval_id'', PStr (aq_id x)), (''reason'', PStr why)]
            (''approval-invalidated:'' @ aq_id x @ '':'' @ int_text (aq_revision x))) (\<lambda>_.
           terminal_outcome w t scope x mk actor))
     | (None, None) \<Rightarrow>
         if aq_status a = ApPending
         then sequel (tx (on_runs (get_run w scope (aq_run a)))) (\<lambda>run.
                give \<lparr>ro_kind = OutPaused, ro_approval = a, ro_run = run\<rparr>)
         else consume_and_resume w t scope a actor))"

text \<open>
  \<^verbatim>\<open>resolve\<close> of the coordinator, once the effect of the tool call is prepared: the call is allowed
  when its approval resumed, and otherwise the run is left paused.
\<close>

definition approval_for_effect :: "approval_request list \<Rightarrow> string \<Rightarrow> approval_request option" where
  "approval_for_effect qs e =
     (case rev (filter (\<lambda>q. aq_effect q = Some e) qs) of [] \<Rightarrow> None | q # _ \<Rightarrow> Some q)"

datatype resolution = ToolAllowed | ResumeRefused resume_outcome | RunPaused run_record approval_request

definition resolve_approval ::
  "world \<Rightarrow> int \<Rightarrow> exec_scope \<Rightarrow> run_claim \<Rightarrow> string \<Rightarrow> approval_validation \<Rightarrow> approval_submission
   \<Rightarrow> (host_db, resolution) prog" where
  "resolve_approval w t scope c effect v q =
     sequel (tx (list_approvals w scope (Some (sc_run scope)) None 100)) (\<lambda>qs.
     case approval_for_effect qs effect of
       Some a \<Rightarrow>
         sequel (resume_approval w t scope (aq_id a) v (c_worker c)) (\<lambda>out.
           give (if ro_kind out = OutResumed then ToolAllowed else ResumeRefused out))
     | None \<Rightarrow>
         sequel (request_approval w t scope c q) (\<lambda>(run, a). give (RunPaused run a)))"

text \<open>\<^verbatim>\<open>ImmediateApprovalAdapter\<close>: the decision of a local callback, through the same ledger.\<close>

definition immediate_approval ::
  "world \<Rightarrow> int \<Rightarrow> exec_scope \<Rightarrow> string \<Rightarrow> (approval_request \<Rightarrow> bool) \<Rightarrow> string \<Rightarrow> approval_submission
   \<Rightarrow> (host_db, bool) prog" where
  "immediate_approval w t scope step allow actor q =
     sequel (tx (create_approval w t scope q)) (\<lambda>a.
     sequel (tx (on_runs (record_event w t scope (sc_run scope) ''approval.requested'' ''runtime''
        [(''approval_id'', PStr (aq_id a)), (''tool_name'', PStr (aq_tool a)), (''arguments_digest'', PStr (aq_args a))]
        (keyed_step_event step (''immediate-approval-requested:'' @ aq_id a))))) (\<lambda>_.
     (let d = (if allow a then ApproveIt else DenyIt) in
     sequel (tx (decide_approval w t scope (aq_id a) d actor ''immediate local approval decision''
               (''immediate:'' @ aq_id a))) (\<lambda>x.
     sequel (tx (on_runs (record_event w t scope (sc_run scope) ''approval.decided'' actor
        [(''approval_id'', PStr (aq_id x)), (''decision'', PStr (approval_decision_value d))]
        (keyed_step_event step (''immediate-approval-decided:'' @ aq_id a))))) (\<lambda>_.
     if \<not> allow a then give False
     else
     sequel (tx (consume_approval w t scope (aq_id x) (aq_revision x))) (\<lambda>y.
     sequel (tx (on_runs (record_event w t scope (sc_run scope) ''approval.consumed'' actor
        [(''approval_id'', PStr (aq_id y))]
        (keyed_step_event step (''immediate-approval-consumed:'' @ aq_id a))))) (\<lambda>_. give True)))))))"

end
