(* ===== verification/ApprovalFacts.thy ===== *)
theory ApprovalFacts
  imports ApprovalService
begin

text \<open>
  What every transaction of the approval store keeps, and with it every program of the service and
  every history of programs and run calls: requests keep what they approve, open ones alone change,
  and a consumption rests on a decision that had not expired.
\<close>

section \<open>Rows\<close>

text \<open>A request whose columns agree with its status.\<close>

definition approval_row_ok :: "approval_row \<Rightarrow> bool" where
  "approval_row_ok a \<longleftrightarrow>
     strip (ap_id a) = ap_id a \<and> 0 \<le> ap_revision a \<and>
     (ap_status a \<in> {ApApproved, ApConsumed} \<longrightarrow>
        ap_decision a = Some ApproveIt \<and> ap_by a \<noteq> None \<and> ap_key a \<noteq> None) \<and>
     (ap_status a = ApDenied \<longrightarrow> ap_decision a = Some DenyIt \<and> ap_by a \<noteq> None \<and> ap_key a \<noteq> None) \<and>
     (ap_status a = ApPending \<longrightarrow> ap_decision a = None \<and> ap_key a = None) \<and>
     (ap_status a = ApConsumed \<longleftrightarrow> ap_consumed a \<noteq> None) \<and>
     (ap_decision a = None \<longleftrightarrow> ap_decided a = None) \<and>
     list_all (\<lambda>v. case v of None \<Rightarrow> True | Some t \<Rightarrow> t < ap_expires a) [ap_decided a, ap_consumed a]"

text \<open>What a request is for.\<close>

definition same_subject :: "approval_row \<Rightarrow> approval_row \<Rightarrow> bool" where
  "same_subject a b \<longleftrightarrow>
     ap_id b = ap_id a \<and> ap_tenant b = ap_tenant a \<and> ap_workspace b = ap_workspace a \<and> ap_run b = ap_run a
     \<and> ap_step b = ap_step a \<and> ap_effect b = ap_effect a \<and> ap_scope b = ap_scope a \<and> ap_tool b = ap_tool a
     \<and> ap_tool_version b = ap_tool_version a \<and> ap_schema b = ap_schema a \<and> ap_args b = ap_args a
     \<and> ap_policy b = ap_policy a \<and> ap_preview b = ap_preview a \<and> ap_created b = ap_created a
     \<and> ap_expires b = ap_expires a"

text \<open>Pending requests are decided or closed, approved ones consumed or closed; nothing else moves.\<close>

definition approval_moves :: "approval_status \<Rightarrow> approval_status \<Rightarrow> bool" where
  "approval_moves st tt \<longleftrightarrow> st = tt \<or> st = ApPending \<or> (st = ApApproved \<and> tt \<notin> {ApPending, ApDenied})"

definition approval_follows :: "approval_row \<Rightarrow> approval_row \<Rightarrow> bool" where
  "approval_follows a b \<longleftrightarrow>
     same_subject a b \<and> ap_revision a \<le> ap_revision b \<and> approval_moves (ap_status a) (ap_status b)
     \<and> (ap_decision a \<noteq> None \<longrightarrow> ap_decision b = ap_decision a \<and> ap_by b = ap_by a \<and> ap_key b = ap_key a)
     \<and> (ap_revision b = ap_revision a \<or> \<not> approval_open (ap_status a) \<longrightarrow> b = a)"

lemma approval_follows_refl [simp]: "approval_follows a a"
  by (simp add: approval_follows_def same_subject_def approval_moves_def)

lemma approval_follows_trans:
  assumes "approval_follows a b" and "approval_follows b c" shows "approval_follows a c"
proof -
  have moves: "approval_moves (ap_status a) (ap_status c)"
    using assms by (auto simp: approval_follows_def approval_moves_def)
  have same: "same_subject a c" using assms by (simp add: approval_follows_def same_subject_def)
  have still: "c = a" if "ap_revision c = ap_revision a \<or> \<not> approval_open (ap_status a)"
  proof -
    have "b = a" using assms that unfolding approval_follows_def by (metis order_antisym)
    then show ?thesis using assms(2) that by (simp add: approval_follows_def)
  qed
  show ?thesis
    using assms moves same still unfolding approval_follows_def by auto
qed

section \<open>Databases\<close>

text \<open>The call a request stands for.\<close>

definition call_of where
  "call_of a = (ap_tenant a, ap_workspace a, ap_run a, ap_step a, ap_tool a, ap_tool_version a, ap_schema a,
     ap_args a, ap_policy a)"

definition one_open :: "approval_row list \<Rightarrow> bool" where
  "one_open rows \<longleftrightarrow>
     (\<forall>a\<in>set rows. \<forall>b\<in>set rows. approval_open (ap_status a) \<longrightarrow> approval_open (ap_status b) \<longrightarrow>
        call_of a = call_of b \<longrightarrow> ap_id a = ap_id b)"

definition approvals_ok :: "host_db \<Rightarrow> bool" where
  "approvals_ok s \<longleftrightarrow>
     distinct (map ap_id (h_approvals s)) \<and> (\<forall>a\<in>set (h_approvals s). approval_row_ok a)
     \<and> decision_keys_unique (h_approvals s) \<and> one_open (h_approvals s)"

definition approvals_step :: "host_db \<Rightarrow> host_db \<Rightarrow> bool" where
  "approvals_step s t \<longleftrightarrow> (approvals_ok s \<longrightarrow>
     approvals_ok t \<and> (\<forall>a\<in>set (h_approvals s). \<exists>b\<in>set (h_approvals t). approval_follows a b))"

interpretation ledger_of_approvals: evolution approvals_step
proof
  show "approvals_step s s" for s unfolding approvals_step_def using approval_follows_refl by blast
  fix s t u assume "approvals_step s t" "approvals_step t u"
  then show "approvals_step s u" unfolding approvals_step_def by (meson approval_follows_trans)
qed

lemma approval_same_id:
  "approvals_ok s \<Longrightarrow> a \<in> set (h_approvals s) \<Longrightarrow> b \<in> set (h_approvals s) \<Longrightarrow> ap_id a = ap_id b \<Longrightarrow> a = b"
  unfolding approvals_ok_def by (metis distinct_map inj_onD)

lemma other_rows_step: "h_approvals t = h_approvals s \<Longrightarrow> approvals_step s t"
  unfolding approvals_step_def approvals_ok_def by (metis approval_follows_refl)

text \<open>An update of requests that may change.\<close>

definition may_change :: "(approval_row \<Rightarrow> approval_row) \<Rightarrow> approval_row \<Rightarrow> bool" where
  "may_change f a \<longleftrightarrow>
     approval_row_ok (f a) \<and> approval_follows a (f a) \<and> (approval_open (ap_status (f a)) \<longrightarrow> approval_open (ap_status a))"

lemma update_approvals_step:
  assumes run: "update_approvals P f s = Inr (n, t)"
    and ok: "\<And>a. approvals_ok s \<Longrightarrow> a \<in> set (h_approvals s) \<Longrightarrow> P a \<Longrightarrow> may_change f a"
  shows "approvals_step s t"
  unfolding approvals_step_def
proof (intro impI)
  assume s: "approvals_ok s"
  define new where "new a = (if P a then f a else a)" for a
  have rows: "h_approvals t = map new (h_approvals s)" and keys: "decision_keys_unique (h_approvals t)"
    using run by (auto simp: update_approvals_def Let_def upd_where_def new_def fun_eq_iff split: if_splits)
  have each: "approval_row_ok (new a) \<and> approval_follows a (new a)
      \<and> (approval_open (ap_status (new a)) \<longrightarrow> approval_open (ap_status a))" if "a \<in> set (h_approvals s)" for a
    using ok [OF s that] s that by (auto simp: new_def may_change_def approvals_ok_def)
  have subj: "same_subject a (new a)" if "a \<in> set (h_approvals s)" for a
    using each [OF that] by (simp add: approval_follows_def)
  have ids: "map ap_id (h_approvals t) = map ap_id (h_approvals s)"
    unfolding rows using subj by (simp add: same_subject_def)
  have "one_open (h_approvals t)"
    unfolding one_open_def
  proof (intro ballI impI)
    fix x y
    assume "x \<in> set (h_approvals t)" "y \<in> set (h_approvals t)" and open_xy: "approval_open (ap_status x)" "approval_open (ap_status y)"
      and same: "call_of x = call_of y"
    then obtain a b where a: "a \<in> set (h_approvals s)" "x = new a" and b: "b \<in> set (h_approvals s)" "y = new b"
      unfolding rows by auto
    note sa = subj [OF a(1)] and sb = subj [OF b(1)]
    have "call_of a = call_of b"
      using same sa sb unfolding a b by (simp add: call_of_def same_subject_def)
    moreover have "approval_open (ap_status a)" "approval_open (ap_status b)" using each a b open_xy by blast+
    ultimately have "ap_id a = ap_id b" using s a(1) b(1) unfolding approvals_ok_def one_open_def by blast
    then show "ap_id x = ap_id y" using a b sa sb by (simp add: same_subject_def)
  qed
  moreover have "distinct (map ap_id (h_approvals t))" using s ids by (simp add: approvals_ok_def)
  moreover have "\<forall>a\<in>set (h_approvals t). approval_row_ok a" unfolding rows using each by simp
  ultimately have "approvals_ok t" using keys by (simp add: approvals_ok_def)
  then show "approvals_ok t \<and> (\<forall>a\<in>set (h_approvals s). \<exists>b\<in>set (h_approvals t). approval_follows a b)"
    unfolding rows using each by auto
qed

section \<open>Reads\<close>

lemma approval_row_ofD:
  "approval_row_of i s = Inr (a, t) \<Longrightarrow> t = s \<and> a \<in> set (h_approvals s) \<and> ap_id a = i"
  by (auto simp: approval_row_of_def result_simps find_Some_iff)

lemma approval_of_rowD:
  assumes "approval_of_row w a = Inr q"
  shows "aq_id q = strip (ap_id a) \<and> aq_status q = ap_status a \<and> aq_revision q = ap_revision a
    \<and> aq_expires q = ap_expires a \<and> aq_decision q = ap_decision a"
  using assms by (auto simp: approval_of_row_def make_approval_request_def result_simps)

lemma read_approvalD:
  assumes "read_approval w i s = Inr (q, t)"
  shows "t = s \<and> (\<exists>a. a \<in> set (h_approvals s) \<and> ap_id a = i \<and> approval_of_row w a = Inr q)"
  using assms by (auto simp: read_approval_def result_simps dest!: approval_row_ofD)

definition shows_row :: "world \<Rightarrow> host_db \<Rightarrow> approval_request \<Rightarrow> approval_row \<Rightarrow> bool" where
  "shows_row w s q a \<longleftrightarrow> a \<in> set (h_approvals s) \<and> approval_of_row w a = Inr q"

lemma post_read_approval:
  "(\<And>q a. shows_row w s q a \<Longrightarrow> ap_id a = i \<Longrightarrow> Q q s) \<Longrightarrow> post (read_approval w i) Q s"
  by (rule postI) (auto dest!: read_approvalD simp: shows_row_def)

lemma reads_approval_row: "keeps approvals_step (approval_row_of i)"
  by (rule keepsI) (auto dest!: approval_row_ofD intro: ledger_of_approvals.same)

lemma reads_approval: "keeps approvals_step (read_approval w i)"
  by (rule keepsI) (auto dest!: read_approvalD intro: ledger_of_approvals.same)

lemma on_runs_step: "keeps approvals_step (on_runs m)"
  by (rule keepsI) (auto simp: on_runs_def intro: other_rows_step split: sum.splits)

lemma audit_step: "keeps approvals_step (audit w sc kind d key now)"
  unfolding audit_def
  by (intro ledger_of_approvals.keeps_bind ledger_of_approvals.keeps_lift on_runs_step ledger_of_approvals.keeps_modify
      other_rows_step) simp

lemmas approval_keeps = ledger_of_approvals.keeps_bind ledger_of_approvals.keeps_ret ledger_of_approvals.keeps_raise
  ledger_of_approvals.keeps_lift ledger_of_approvals.keeps_guard ledger_of_approvals.keeps_gets
  ledger_of_approvals.keeps_select_row ledger_of_approvals.keeps_map_op keeps_if keeps_case_option keeps_case_prod
  reads_approval_row reads_approval on_runs_step audit_step

section \<open>Writes\<close>

lemma expired_may_change:
  "approval_row_ok a \<Longrightarrow> approval_open (ap_status a) \<Longrightarrow> may_change (expired_row why now) a"
  by (auto simp: may_change_def approval_row_ok_def approval_follows_def same_subject_def approval_moves_def
      expired_row_def approval_open_def)

lemma closed_may_change:
  "approval_row_ok a \<Longrightarrow> approval_open (ap_status a) \<Longrightarrow> st \<in> {ApInvalidated, ApCancelled} \<Longrightarrow> may_change (closed_row st why now) a"
  by (auto simp: may_change_def approval_row_ok_def approval_follows_def same_subject_def approval_moves_def
      closed_row_def approval_open_def)

lemma decided_may_change:
  "approval_row_ok a \<Longrightarrow> ap_status a = ApPending \<Longrightarrow> now < ap_expires a \<Longrightarrow> may_change (decided_row d who why key now) a"
  by (cases d) (auto simp: may_change_def approval_row_ok_def approval_follows_def same_subject_def approval_moves_def
      decided_row_def approval_open_def)

lemma consumed_may_change:
  "approval_row_ok a \<Longrightarrow> ap_status a = ApApproved \<Longrightarrow> now < ap_expires a \<Longrightarrow> may_change (consumed_row now) a"
  by (auto simp: may_change_def approval_row_ok_def approval_follows_def same_subject_def approval_moves_def
      consumed_row_def approval_open_def)

text \<open>The update of the row a request was read from.\<close>

lemma row_ok_in: "approvals_ok s \<Longrightarrow> a \<in> set (h_approvals s) \<Longrightarrow> approval_row_ok a"
  by (simp add: approvals_ok_def)

lemma post_update_own:
  assumes "shows_row w s q r" and only: "\<And>a. approvals_ok s \<Longrightarrow> P a \<Longrightarrow> ap_id a = ap_id r"
    and "\<And>a. approval_row_ok a \<Longrightarrow> P a \<Longrightarrow> ap_status a = aq_status q \<Longrightarrow> ap_expires a = aq_expires q \<Longrightarrow> may_change f a"
  shows "post (update_approvals P f) (\<lambda>_ t. approvals_step s t) s"
proof (rule postI)
  fix n t assume "update_approvals P f s = Inr (n, t)"
  then show "approvals_step s t"
  proof (rule update_approvals_step)
    fix a assume s: "approvals_ok s" and a: "a \<in> set (h_approvals s)" "P a"
    have "a = r" using approval_same_id [OF s a(1)] assms(1) only [OF s a(2)] by (simp add: shows_row_def)
    then show "may_change f a"
      using assms(1,3) a row_ok_in [OF s a(1)] approval_of_rowD by (auto simp: shows_row_def)
  qed
qed

lemma shown_id: "approvals_ok s \<Longrightarrow> shows_row w s q a \<Longrightarrow> aq_id q = ap_id a"
  using approval_of_rowD row_ok_in by (auto simp: shows_row_def approval_row_ok_def)

lemma post_step_tail:
  "approvals_step r s \<Longrightarrow> keeps approvals_step m \<Longrightarrow> post m (\<lambda>_ t. approvals_step r t) s"
  by (rule postI) (auto dest: keepsD intro: ledger_of_approvals.later)

section \<open>Operations\<close>

lemma close_approval_step:
  assumes "st \<in> {ApInvalidated, ApCancelled}"
  shows "keeps approvals_step (close_approval st kind payload prefix w now scope i why)"
proof (rule keeps_post)
  fix s
  show "post (close_approval st kind payload prefix w now scope i why) (\<lambda>_ t. approvals_step s t) s"
    unfolding close_approval_def
    apply (rule post_bind, rule post_lift, rule post_bind, rule post_read_approval, rule post_bind, rule post_lift)
    apply (rule post_if, rule post_ret, rule ledger_of_approvals.same)
    apply (rule post_bind, rule post_guard, rule post_bind, rule post_weaken, erule post_update_own)
      apply simp
     apply (rule closed_may_change [OF _ _ assms]; simp)
    apply (erule post_step_tail, intro approval_keeps)
    done
qed

lemma decide_approval_step: "keeps approvals_step (decide_approval w now scope i d who why key)"
proof (rule keeps_post)
  fix s
  show "post (decide_approval w now scope i d who why key) (\<lambda>_ t. approvals_step s t) s"
    unfolding decide_approval_def
    apply (rule post_bind, rule post_lift, rule post_bind, rule post_lift, rule post_bind, rule post_lift)
    apply (rule post_bind, rule post_read_approval, rule post_bind, rule post_lift)
    apply (rule post_if)
     apply (rule post_step_tail [OF ledger_of_approvals.same], intro approval_keeps)
    apply (rule post_if)
     apply (rule postI, simp add: result_simps)
    apply (rule post_bind, rule post_weaken [where Q = "\<lambda>_ t. approvals_step s t"])
     apply (rule postI)
     apply (clarsimp simp: conflict_if_duplicate_def split: sum.splits)
     apply (erule post_update_own [THEN postD, rotated -1])
       apply assumption
      apply simp
     apply (rule decided_may_change; simp)
    apply (erule post_step_tail, intro approval_keeps)
    done
qed

lemma consume_approval_step: "keeps approvals_step (consume_approval w now scope i n)"
proof (rule keeps_post)
  fix s
  show "post (consume_approval w now scope i n) (\<lambda>_ t. approvals_step s t) s"
    unfolding consume_approval_def
    apply (rule post_bind, rule post_read_approval, rule post_bind, rule post_lift)
    apply (rule post_bind, rule post_guard, rule post_bind, rule post_guard)
    apply (rule post_if)
     apply (rule postI, simp add: result_simps)
    apply (rule post_bind, rule post_weaken, erule post_update_own)
      apply simp
     apply (rule consumed_may_change; simp)
    apply (erule post_step_tail, intro approval_keeps)
    done
qed

lemma expire_one_step: "keeps approvals_step (expire_one w now row)"
proof (rule keeps_post)
  fix s
  show "post (expire_one w now row) (\<lambda>_ t. approvals_step s t) s"
    unfolding expire_one_def
    apply (rule post_bind, rule post_read_approval)
    apply (rule post_if, rule post_ret, rule ledger_of_approvals.same)
    apply (rule post_bind, rule post_weaken, rule post_update_own, assumption)
      apply (simp add: shown_id)
     apply (rule expired_may_change; simp)
    apply (erule post_step_tail, intro approval_keeps)
    done
qed

lemma expire_approvals_step: "keeps approvals_step (expire_approvals w now)"
  unfolding expire_approvals_def by (intro approval_keeps expire_one_step)

lemma reads_of_approvals:
  "keeps approvals_step (get_approval w scope i)" "keeps approvals_step (list_approvals w scope rid st n)"
  "keeps approvals_step (assert_run_scope scope)"
  unfolding get_approval_def list_approvals_def assert_run_scope_def by (intro approval_keeps)+

text \<open>A new request is the only open one for its call.\<close>

lemma call_of_new: "call_of (new_approval_row w i now scope q) = call_of a \<longleftrightarrow> same_request scope q a"
  by (auto simp: call_of_def new_approval_row_def same_request_def)

lemma one_open_snoc:
  assumes "one_open rows" and "\<And>b. b \<in> set rows \<Longrightarrow> approval_open (ap_status b) \<Longrightarrow> call_of a \<noteq> call_of b"
  shows "one_open (rows @ [a])"
  unfolding one_open_def
proof (intro ballI impI)
  fix x y
  assume x: "x \<in> set (rows @ [a])" and y: "y \<in> set (rows @ [a])" and live: "approval_open (ap_status x)" "approval_open (ap_status y)"
    and same: "call_of x = call_of y"
  have not_a: "z \<noteq> a \<Longrightarrow> z \<in> set (rows @ [a]) \<Longrightarrow> z \<in> set rows" for z by simp
  show "ap_id x = ap_id y"
  proof (cases "x = a \<or> y = a")
    case True
    then have "x = y" using assms(2) not_a [OF _ x] not_a [OF _ y] live same by metis
    then show ?thesis by simp
  next
    case False
    then show ?thesis using assms(1) not_a x y live same unfolding one_open_def by blast
  qed
qed

lemma insert_approval_step:
  assumes "clean_world w"
    and none: "filter (\<lambda>a. same_request scope q a \<and> approval_open (ap_status a)) (h_approvals s) = []"
    and run: "insert_approval (new_approval_row w (uuid4 w k) now scope q) s = Inr (u, t)"
  shows "approvals_step s t"
  unfolding approvals_step_def
proof (intro impI)
  assume s: "approvals_ok s"
  let ?a = "new_approval_row w (uuid4 w k) now scope q"
  have rows: "h_approvals t = h_approvals s @ [?a]" and fresh: "ap_id ?a \<notin> ap_id ` set (h_approvals s)"
      and keys: "decision_keys_unique (h_approvals t)"
    using run by (auto simp: insert_approval_def result_simps)
  have ok: "approval_row_ok ?a"
    using assms(1) by (auto simp: approval_row_ok_def new_approval_row_def clean_world_def)
  have other: "call_of ?a \<noteq> call_of b" if "b \<in> set (h_approvals s)" "approval_open (ap_status b)" for b
    using none that unfolding call_of_new by (auto simp: filter_empty_conv)
  have "one_open (h_approvals t)"
    unfolding rows by (rule one_open_snoc) (use s other in \<open>simp_all add: approvals_ok_def\<close>)
  then have "approvals_ok t" using s ok fresh keys unfolding approvals_ok_def rows by simp
  then show "approvals_ok t \<and> (\<forall>a\<in>set (h_approvals s). \<exists>b\<in>set (h_approvals t). approval_follows a b)"
    unfolding rows using approval_follows_refl by (metis UnI1 set_append)
qed

lemma sort_key_Nil: "sort_key k xs = [] \<longleftrightarrow> xs = []"
  by (metis length_0_conv length_sort)

lemma create_approval_step:
  assumes "clean_world w"
  shows "keeps approvals_step (create_approval w now scope q)"
proof (rule keeps_post)
  fix s
  have read: "keeps (\<lambda>s t. t = s) (assert_run_scope scope)"
    unfolding assert_run_scope_def
    by (intro unchanged.keeps_bind unchanged.keeps_select_row unchanged.keeps_lift)
  show "post (create_approval w now scope q) (\<lambda>_ t. approvals_step s t) s"
    unfolding create_approval_def
    apply (rule post_bind, rule post_guard, rule post_bind, rule post_keeps [OF read], hypsubst)
    apply (rule post_bind, rule post_gets, rule post_case_option)
     apply (rule post_bind, rule postI)
     apply (clarsimp simp: on_runs_def new_uuid_def)
     apply (rule post_bind, rule post_weaken [where Q = "\<lambda>_ t. approvals_step s t"], rule postI)
      apply (rule ledger_of_approvals.later [rotated], rule insert_approval_step, rule assms)
        prefer 2
        apply assumption
       apply (auto simp: sort_key_Nil intro: other_rows_step split: list.splits) [2]
     apply (erule post_step_tail, intro approval_keeps)
    apply (rule post_lift, rule ledger_of_approvals.same)
    done
qed

end
