(* ===== verification/ApprovalMachine.thy ===== *)
theory ApprovalMachine
  imports ApprovalFacts
begin

text \<open>
  The host as a machine: run calls, the operations of the approval store and the programs of the
  approval service in any order, over the database they share.  What every history keeps, and what a
  resumption rests on.
\<close>

section \<open>Calls of the host\<close>

datatype host_call =
    RunsCall run_call
  | CreateApproval exec_scope approval_submission
  | DecideApproval exec_scope string approval_decision string string string
  | ConsumeApproval exec_scope string int
  | InvalidateApproval exec_scope string string
  | CancelApproval exec_scope string string
  | ExpireApprovals
  | RequestService exec_scope run_claim approval_submission
  | DecideService exec_scope string approval_decision string string string
  | ResumeService exec_scope string approval_validation string
  | ResolveService exec_scope run_claim string approval_validation approval_submission
  | ImmediateService exec_scope string "approval_request \<Rightarrow> bool" string approval_submission

definition done_with :: "('s, 'a) prog \<Rightarrow> ('s, unit) prog" where
  "done_with p = sequel p (\<lambda>_. give ())"

fun exec_host :: "world \<Rightarrow> int \<Rightarrow> host_call \<Rightarrow> (host_db, unit) prog" where
  "exec_host w t (RunsCall c) = tx (on_runs (exec_call w t c))"
| "exec_host w t (CreateApproval sc q) = done_with (tx (create_approval w t sc q))"
| "exec_host w t (DecideApproval sc i d who why key) = done_with (tx (decide_approval w t sc i d who why key))"
| "exec_host w t (ConsumeApproval sc i n) = done_with (tx (consume_approval w t sc i n))"
| "exec_host w t (InvalidateApproval sc i why) = done_with (tx (invalidate_approval w t sc i why))"
| "exec_host w t (CancelApproval sc i why) = done_with (tx (cancel_approval w t sc i why))"
| "exec_host w t ExpireApprovals = done_with (tx (expire_approvals w t))"
| "exec_host w t (RequestService sc c q) = done_with (request_approval w t sc c q)"
| "exec_host w t (DecideService sc i d who why key) = done_with (service_decide w t sc i d who why key)"
| "exec_host w t (ResumeService sc i v actor) = done_with (resume_approval w t sc i v actor)"
| "exec_host w t (ResolveService sc c e v q) = done_with (resolve_approval w t sc c e v q)"
| "exec_host w t (ImmediateService sc st allow actor q) = done_with (immediate_approval w t sc st allow actor q)"

definition host_after :: "world \<Rightarrow> int \<times> host_call \<Rightarrow> host_db \<Rightarrow> host_db" where
  "host_after w tc s = snd (exec_host w (fst tc) (snd tc) s)"

definition host_history :: "world \<Rightarrow> (int \<times> host_call) list \<Rightarrow> host_db \<Rightarrow> host_db" where
  "host_history w = fold (host_after w)"

section \<open>What every history keeps\<close>

lemmas approval_leads = ledger_of_approvals.leads_tx ledger_of_approvals.leads_give ledger_of_approvals.leads_fails
  ledger_of_approvals.leads_sequel ledger_of_approvals.leads_on_error leads_if

lemma done_with_leads: "leads approvals_step p \<Longrightarrow> leads approvals_step (done_with p)"
  unfolding done_with_def by (intro approval_leads)

lemma closing_step:
  "keeps approvals_step (invalidate_approval w now sc i why)" "keeps approvals_step (cancel_approval w now sc i why)"
  unfolding invalidate_approval_def cancel_approval_def by (intro close_approval_step; simp)+

lemmas store_steps = on_runs_step decide_approval_step consume_approval_step expire_approvals_step
  reads_of_approvals closing_step

lemma record_approval_leads: "leads approvals_step (record_approval w t sc q name actor d key)"
  unfolding record_approval_def by (intro approval_leads store_steps)

lemma terminal_outcome_leads: "leads approvals_step (terminal_outcome w t sc a kind actor)"
  unfolding terminal_outcome_def by (intro approval_leads store_steps)

lemma recover_consumed_leads: "leads approvals_step (recover_consumed w t sc a actor)"
  unfolding recover_consumed_def by (intro approval_leads store_steps)

lemma consume_and_resume_leads: "leads approvals_step (consume_and_resume w t sc a actor)"
  unfolding consume_and_resume_def
  by (intro approval_leads store_steps record_approval_leads recover_consumed_leads)

lemma resume_approval_leads: "leads approvals_step (resume_approval w t sc i v actor)"
  unfolding resume_approval_def
  by (auto intro!: approval_leads store_steps record_approval_leads terminal_outcome_leads recover_consumed_leads
      consume_and_resume_leads split: option.split prod.split)

lemma service_leads:
  assumes "clean_world w"
  shows "leads approvals_step (request_approval w t sc c q)"
    and "leads approvals_step (service_decide w t sc i d who why key)"
    and "leads approvals_step (resolve_approval w t sc c e v q)"
    and "leads approvals_step (immediate_approval w t sc st allow actor q)"
proof -
  note create = create_approval_step [OF assms]
  show request: "leads approvals_step (request_approval w t sc c q)"
    unfolding request_approval_def by (intro approval_leads store_steps create record_approval_leads)
  show "leads approvals_step (service_decide w t sc i d who why key)"
    unfolding service_decide_def by (intro approval_leads store_steps record_approval_leads)
  show "leads approvals_step (resolve_approval w t sc c e v q)"
    unfolding resolve_approval_def
    by (auto intro!: approval_leads store_steps resume_approval_leads request split: option.split prod.split)
  show "leads approvals_step (immediate_approval w t sc st allow actor q)"
    unfolding immediate_approval_def Let_def by (intro approval_leads store_steps create)
qed

lemma exec_host_leads: "clean_world w \<Longrightarrow> leads approvals_step (exec_host w t c)"
  by (cases c)
    (auto intro!: approval_leads done_with_leads store_steps create_approval_step service_leads resume_approval_leads)

lemma host_history_step: "clean_world w \<Longrightarrow> approvals_step s (host_history w h s)"
  unfolding host_history_def
proof (induction h arbitrary: s)
  case (Cons tc h)
  have "approvals_step s (host_after w tc s)"
    using exec_host_leads [OF Cons.prems] by (simp add: leads_def host_after_def)
  then show ?case using Cons ledger_of_approvals.later by simp
qed (simp add: ledger_of_approvals.same)

lemma approvals_ok_empty [simp]: "approvals_ok empty_host"
  by (simp add: approvals_ok_def empty_host_def one_open_def decision_keys_unique_def)

lemma host_history_ok: "clean_world w \<Longrightarrow> approvals_ok (host_history w h empty_host)"
  using host_history_step [of w empty_host h] by (simp add: approvals_step_def)

section \<open>What a resumption rests on\<close>

text \<open>The validation of a resumption agrees with the request it takes up.\<close>

definition validated :: "approval_validation \<Rightarrow> approval_row \<Rightarrow> bool" where
  "validated v a \<longleftrightarrow>
     av_tool v = strip (ap_tool a) \<and> av_tool_version v = strip (ap_tool_version a)
     \<and> av_schema v = strip (ap_schema a) \<and> av_args v = strip (ap_args a) \<and> av_policy v = strip (ap_policy a)
     \<and> av_authority v \<and> av_credentials v"

lemma no_mismatch:
  assumes "validation_mismatch q v = None"
  shows "av_tool v = aq_tool q" "av_tool_version v = aq_tool_version q" "av_schema v = aq_schema q"
    "av_args v = aq_args q" "av_policy v = aq_policy q" "av_authority v" "av_credentials v"
  using assms unfolding validation_mismatch_def by (simp_all split: if_splits)

lemma request_fields:
  assumes "approval_of_row w a = Inr q"
  shows "aq_tool q = strip (ap_tool a) \<and> aq_tool_version q = strip (ap_tool_version a)
    \<and> aq_schema q = strip (ap_schema a) \<and> aq_args q = strip (ap_args a) \<and> aq_policy q = strip (ap_policy a)"
  using assms by (auto simp: approval_of_row_def make_approval_request_def result_simps)

lemma validated_request:
  assumes "approval_of_row w a = Inr q" and "validation_mismatch q v = None"
  shows "validated v a"
  using no_mismatch [OF assms(2)] request_fields [OF assms(1)] by (simp add: validated_def)

definition consumed_for :: "approval_validation \<Rightarrow> string \<Rightarrow> host_db \<Rightarrow> bool" where
  "consumed_for v i s \<longleftrightarrow> (\<exists>a\<in>set (h_approvals s). ap_id a = i \<and> ap_status a = ApConsumed \<and> validated v a)"

lemma consumed_for_step:
  "approvals_ok s \<Longrightarrow> consumed_for v i s \<Longrightarrow> approvals_step s t \<Longrightarrow> consumed_for v i t"
  unfolding consumed_for_def approvals_step_def approval_follows_def approval_moves_def same_subject_def validated_def
  by fastforce

lemma consumed_row_there:
  assumes "update_approvals P (consumed_row now) s = Inr (1, t)" and "\<And>a. P a \<Longrightarrow> ap_id a = i"
  shows "\<exists>b\<in>set (h_approvals t). ap_id b = i \<and> ap_status b = ApConsumed"
proof -
  have "rowcount P (h_approvals s) = 1" and rows: "h_approvals t = upd_where P (consumed_row now) (h_approvals s)"
    using assms(1) by (auto simp: update_approvals_def Let_def split: if_splits)
  then obtain a where a: "a \<in> set (h_approvals s)" "P a"
    using rowcount_pos [of P "h_approvals s"] by auto
  then have "consumed_row now a \<in> set (h_approvals t)" unfolding rows upd_where_def by force
  moreover have "ap_id (consumed_row now a) = i" "ap_status (consumed_row now a) = ApConsumed"
    using assms(2) [OF a(2)] by (simp_all add: consumed_row_def)
  ultimately show ?thesis by blast
qed

lemma consumed_row_stays:
  assumes "approvals_ok s" and "approvals_step s t" and "\<exists>b\<in>set (h_approvals s). ap_id b = i \<and> ap_status b = ApConsumed"
  shows "\<exists>b\<in>set (h_approvals t). ap_id b = i \<and> ap_status b = ApConsumed"
  using assms unfolding approvals_step_def approval_follows_def approval_moves_def same_subject_def by fastforce

lemma post_consume_update:
  assumes "shows_row w s q r" and "ap_id r = i" and "aq_status q = ApApproved" and "now < aq_expires q"
  shows "post (update_approvals (\<lambda>a. ap_id a = i \<and> ap_status a = ApApproved \<and> ap_revision a = n) (consumed_row now))
    (\<lambda>k t. approvals_step s t \<and> (k = 1 \<longrightarrow> (\<exists>b\<in>set (h_approvals t). ap_id b = i \<and> ap_status b = ApConsumed))) s"
proof (rule postI)
  fix k t
  assume run: "update_approvals (\<lambda>a. ap_id a = i \<and> ap_status a = ApApproved \<and> ap_revision a = n) (consumed_row now) s
    = Inr (k, t)"
  have "approvals_step s t"
    using run by (rule postD [OF post_update_own, rotated -1])
      (use assms in \<open>auto intro: consumed_may_change\<close>)
  moreover have "k = 1 \<longrightarrow> (\<exists>b\<in>set (h_approvals t). ap_id b = i \<and> ap_status b = ApConsumed)"
    using consumed_row_there run by blast
  ultimately show "approvals_step s t \<and> (k = 1 \<longrightarrow> (\<exists>b\<in>set (h_approvals t). ap_id b = i \<and> ap_status b = ApConsumed))" ..
qed

lemma consume_approval_marks:
  assumes ok: "approvals_ok s" and run: "consume_approval w now scope i n s = Inr (x, t)"
  shows "\<exists>b\<in>set (h_approvals t). ap_id b = i \<and> ap_status b = ApConsumed"
  using run
proof (rule postD [rotated])
  have later: "approvals_step s u \<and> (k = 1 \<longrightarrow> (\<exists>b\<in>set (h_approvals u). ap_id b = i \<and> ap_status b = ApConsumed)) \<Longrightarrow>
      k = 1 \<Longrightarrow> approvals_step u v \<Longrightarrow> \<exists>b\<in>set (h_approvals v). ap_id b = i \<and> ap_status b = ApConsumed" for u v and k :: nat
    using consumed_row_stays [of u v i] ok unfolding approvals_step_def by blast
  show "post (consume_approval w now scope i n) (\<lambda>_ t. \<exists>b\<in>set (h_approvals t). ap_id b = i \<and> ap_status b = ApConsumed) s"
    unfolding consume_approval_def
    apply (rule post_bind, rule post_read_approval, rule post_bind, rule post_lift)
    apply (rule post_bind, rule post_guard, rule post_bind, rule post_guard)
    apply (rule post_if)
     apply (rule postI, simp add: result_simps)
    apply (rule post_bind, rule post_weaken, rule post_consume_update, assumption+, simp)
    apply (rule post_bind, rule post_guard)
    apply (rule post_keeps [where R = approvals_step])
     apply (intro approval_keeps)
    apply (erule (2) later)
    done
qed

lemma read_approval_shows:
  "get_approval w scope i s = Inr (q, t) \<Longrightarrow> t = s \<and> (\<exists>a\<in>set (h_approvals s). ap_id a = i \<and> approval_of_row w a = Inr q)"
  by (auto simp: get_approval_def result_simps dest!: read_approvalD)

text \<open>The first reads of \<^verbatim>\<open>resume\<close> end with the request as it is stored.\<close>

lemma resume_reads:
  assumes "tx (get_approval w scope i) s = (Inr a0, s0)"
    and "(if aq_expires a0 \<le> t \<and> approval_open (aq_status a0)
          then sequel (tx (expire_approvals w t)) (\<lambda>_. tx (get_approval w scope i)) else give a0) s0 = (Inr a, s1)"
  shows "approvals_step s s1 \<and> (\<exists>r\<in>set (h_approvals s1). ap_id r = i \<and> approval_of_row w r = Inr a)"
proof -
  have s0: "s0 = s" and a0: "\<exists>r\<in>set (h_approvals s). ap_id r = i \<and> approval_of_row w r = Inr a0"
    using read_approval_shows assms(1) by (auto simp only: tx_eq_Inr)
  show ?thesis
  proof (cases "aq_expires a0 \<le> t \<and> approval_open (aq_status a0)")
    case True
    then have "sequel (tx (expire_approvals w t)) (\<lambda>_. tx (get_approval w scope i)) s = (Inr a, s1)"
      using assms(2) by (simp only: s0 if_P)
    then obtain xs u where u: "expire_approvals w t s = Inr (xs, u)" "get_approval w scope i u = Inr (a, s1)"
      by (auto simp only: sequel_eq_Inr tx_eq_Inr)
    from read_approval_shows [OF u(2)] keepsD [OF expire_approvals_step u(1)] show ?thesis by blast
  next
    case False
    then have "give a0 s = (Inr a, s1)" using assms(2) by (simp only: s0 if_False)
    then have "a = a0" "s1 = s0" using s0 by (simp_all only: give_eq_Inr)
    then show ?thesis using s0 a0 ledger_of_approvals.same by blast
  qed
qed

lemma recover_consumed_steps: "recover_consumed w t scope a actor s = (Inr out, u) \<Longrightarrow> approvals_step s u"
  using leadsD [OF recover_consumed_leads] .

text \<open>Outcomes other than a resumption.\<close>

lemma terminal_kind_not_resumed: "terminal_kind st = Some k \<Longrightarrow> st \<noteq> ApConsumed \<Longrightarrow> k \<noteq> OutResumed"
  by (cases st) auto

lemma mismatch_not_resumed: "validation_mismatch q v = Some (k, why) \<Longrightarrow> k \<noteq> OutResumed"
  unfolding validation_mismatch_def by (auto split: if_splits option.splits)

lemma terminal_outcome_kind: "terminal_outcome w t scope a kind actor s = (Inr out, u) \<Longrightarrow> ro_kind out = kind"
  by (auto simp: terminal_outcome_def sequel_eq_Inr give_eq_Inr)

lemma resume_approval_rests:
  assumes ok: "approvals_ok s" and run: "resume_approval w t scope i v actor s = (Inr out, u)" and "ro_kind out = OutResumed"
  shows "consumed_for v i u"
proof -
  obtain a0 s0 a s1 where reads: "tx (get_approval w scope i) s = (Inr a0, s0)"
      "(if aq_expires a0 \<le> t \<and> approval_open (aq_status a0)
        then sequel (tx (expire_approvals w t)) (\<lambda>_. tx (get_approval w scope i)) else give a0) s0 = (Inr a, s1)"
    and rest: "(case (terminal_kind (aq_status a), validation_mismatch a v) of
       (Some kind, mismatch) \<Rightarrow>
         if aq_status a \<noteq> ApConsumed then terminal_outcome w t scope a kind actor
         else (case mismatch of
             Some (mk, why) \<Rightarrow>
               sequel (tx (on_runs (get_run w scope (aq_run a)))) (\<lambda>run.
                 give \<lparr>ro_kind = mk, ro_approval = a, ro_run = run\<rparr>)
           | None \<Rightarrow> recover_consumed w t scope a actor)
     | (None, Some (mk, why)) \<Rightarrow>
         sequel (tx (invalidate_approval w t scope (aq_id a) why)) (\<lambda>x.
         sequel (record_approval w t scope x ''approval.invalidated'' actor
            [(''approval_id'', PStr (aq_id x)), (''reason'', PStr why)]
            (''approval-invalidated:'' @ aq_id x @ '':'' @ int_text (aq_revision x))) (\<lambda>_.
           terminal_outcome w t scope x mk actor))
     | (None, None) \<Rightarrow>
         if aq_status a = ApPending
         then sequel (tx (on_runs (get_run w scope (aq_run a)))) (\<lambda>run.
                give \<lparr>ro_kind = OutPaused, ro_approval = a, ro_run = run\<rparr>)
         else consume_and_resume w t scope a actor) s1 = (Inr out, u)"
    using run unfolding resume_approval_def sequel_eq_Inr by (elim exE conjE) (rule that)
  have s1: "approvals_step s s1" and there: "\<exists>r\<in>set (h_approvals s1). ap_id r = i \<and> approval_of_row w r = Inr a"
    using resume_reads [OF reads] by blast+
  then obtain r where r: "r \<in> set (h_approvals s1)" "ap_id r = i" "approval_of_row w r = Inr a" by blast
  have ok1: "approvals_ok s1" using ok s1 by (simp add: approvals_step_def)
  have a: "aq_id a = i" "aq_status a = ap_status r"
    using approval_of_rowD [OF r(3)] row_ok_in [OF ok1 r(1)] r(2) by (simp_all add: approval_row_ok_def)
  show ?thesis
  proof (cases "validation_mismatch a v")
    case (Some m)
    obtain k why where m: "m = (k, why)" by (cases m)
    have k: "k \<noteq> OutResumed" using mismatch_not_resumed Some m by blast
    have "ro_kind out \<noteq> OutResumed"
    proof (cases "terminal_kind (aq_status a)")
      case None
      then show ?thesis using rest Some m k by (auto simp: sequel_eq_Inr dest!: terminal_outcome_kind)
    next
      case (Some kind)
      then show ?thesis
        using rest \<open>validation_mismatch a v = Some m\<close> m k terminal_kind_not_resumed [OF Some]
        by (auto simp: sequel_eq_Inr give_eq_Inr dest!: terminal_outcome_kind split: if_splits)
    qed
    then show ?thesis using assms(3) by simp
  next
    case None
    have v: "validated v r" by (rule validated_request [OF r(3) None])
    show ?thesis
    proof (cases "aq_status a = ApConsumed")
      case True
      then have "recover_consumed w t scope a actor s1 = (Inr out, u)" using rest None by simp
      moreover have "consumed_for v i s1" using True a(2) r v unfolding consumed_for_def by auto
      ultimately show ?thesis using consumed_for_step [OF ok1] recover_consumed_steps by blast
    next
      case False
      then have "consume_and_resume w t scope a actor s1 = (Inr out, u)"
        using rest None assms(3) terminal_kind_not_resumed
        by (auto simp: sequel_eq_Inr give_eq_Inr dest!: terminal_outcome_kind split: option.splits if_splits)
      then obtain x s2 where x: "consume_approval w t scope i (aq_revision a) s1 = Inr (x, s2)"
          and tail: "sequel (record_approval w t scope x ''approval.consumed'' actor
              [(''approval_id'', PStr (aq_id x)), (''arguments_digest'', PStr (aq_args x))]
              (''approval-consumed:'' @ aq_id x)) (\<lambda>_. recover_consumed w t scope x actor) s2 = (Inr out, u)"
        unfolding consume_and_resume_def sequel_eq_Inr tx_eq_Inr a(1) by blast
      have s2: "approvals_step s1 s2" by (rule keepsD [OF consume_approval_step x])
      then have ok2: "approvals_ok s2" using ok1 by (simp add: approvals_step_def)
      obtain b where b: "b \<in> set (h_approvals s2)" "ap_id b = i" "ap_status b = ApConsumed"
        using consume_approval_marks [OF ok1 x] by blast
      obtain c where c: "c \<in> set (h_approvals s2)" "approval_follows r c"
        using s2 ok1 r(1) unfolding approvals_step_def by blast
      have "b = c"
        using approval_same_id [OF ok2 b(1) c(1)] b(2) c(2) r(2) by (simp add: approval_follows_def same_subject_def)
      then have "consumed_for v i s2"
        using b c v unfolding consumed_for_def approval_follows_def same_subject_def validated_def by auto
      moreover have "approvals_step s2 u"
        using leadsD [OF ledger_of_approvals.leads_sequel [OF record_approval_leads recover_consumed_leads] tail] .
      ultimately show ?thesis by (rule consumed_for_step [OF ok2])
    qed
  qed
qed

section \<open>What becomes of a request\<close>

lemma request_granted_once:
  assumes "approvals_ok s" and step: "approvals_step s t" and a: "a \<in> set (h_approvals s)"
  shows "\<exists>b. b \<in> set (h_approvals t) \<and> ap_id b = ap_id a \<and> call_of b = call_of a \<and> ap_effect b = ap_effect a
    \<and> ap_expires b = ap_expires a \<and> (\<not> approval_open (ap_status a) \<longrightarrow> b = a)
    \<and> (ap_status b = ApConsumed \<longrightarrow> ap_decision b = Some ApproveIt
         \<and> (\<exists>d c. ap_decided b = Some d \<and> ap_consumed b = Some c \<and> d < ap_expires b \<and> c < ap_expires b))
    \<and> (\<forall>c. c \<in> set (h_approvals t) \<and> approval_open (ap_status c) \<and> approval_open (ap_status b)
         \<and> call_of c = call_of b \<longrightarrow> c = b)"
proof -
  have t: "approvals_ok t" using assms by (simp add: approvals_step_def)
  obtain b where b: "b \<in> set (h_approvals t)" "approval_follows a b"
    using assms unfolding approvals_step_def by blast
  have kept: "ap_id b = ap_id a" "call_of b = call_of a" "ap_effect b = ap_effect a" "ap_expires b = ap_expires a"
      "\<not> approval_open (ap_status a) \<longrightarrow> b = a"
    using b(2) by (simp_all add: approval_follows_def same_subject_def call_of_def)
  have spent: "ap_decision b = Some ApproveIt
      \<and> (\<exists>d c. ap_decided b = Some d \<and> ap_consumed b = Some c \<and> d < ap_expires b \<and> c < ap_expires b)"
    if "ap_status b = ApConsumed"
    using row_ok_in [OF t b(1)] that by (auto simp: approval_row_ok_def split: option.splits)
  have alone: "c = b" if "c \<in> set (h_approvals t)" "approval_open (ap_status c)" "approval_open (ap_status b)"
      "call_of c = call_of b" for c
    using approval_same_id [OF t that(1) b(1)] t that b(1) unfolding approvals_ok_def one_open_def by blast
  show ?thesis using b(1) kept spent alone by blast
qed

text \<open>A consumed request, in terms of its columns.\<close>

lemma consumed_request:
  assumes "approvals_ok s" and "consumed_for v i s"
  shows "\<exists>a. a \<in> set (h_approvals s) \<and> ap_id a = i \<and> ap_status a = ApConsumed \<and> ap_decision a = Some ApproveIt
    \<and> (\<exists>c. ap_consumed a = Some c \<and> c < ap_expires a)
    \<and> av_tool v = strip (ap_tool a) \<and> av_tool_version v = strip (ap_tool_version a)
    \<and> av_schema v = strip (ap_schema a) \<and> av_args v = strip (ap_args a) \<and> av_policy v = strip (ap_policy a)
    \<and> av_authority v \<and> av_credentials v"
proof -
  obtain a where a: "a \<in> set (h_approvals s)" "ap_id a = i" "ap_status a = ApConsumed" "validated v a"
    using assms(2) by (auto simp: consumed_for_def)
  moreover have "ap_decision a = Some ApproveIt \<and> (\<exists>c. ap_consumed a = Some c \<and> c < ap_expires a)"
    using row_ok_in [OF assms(1) a(1)] a(3) by (auto simp: approval_row_ok_def split: option.splits)
  ultimately show ?thesis unfolding validated_def by blast
qed

lemma resumption_rests_on_consumption:
  assumes "clean_world w" and "resume_approval w t scope i v actor (host_history w h empty_host) = (Inr out, u)"
    and "ro_kind out = OutResumed"
  shows "\<exists>a. a \<in> set (h_approvals u) \<and> ap_id a = i \<and> ap_status a = ApConsumed \<and> ap_decision a = Some ApproveIt
    \<and> (\<exists>c. ap_consumed a = Some c \<and> c < ap_expires a)
    \<and> av_tool v = strip (ap_tool a) \<and> av_tool_version v = strip (ap_tool_version a)
    \<and> av_schema v = strip (ap_schema a) \<and> av_args v = strip (ap_args a) \<and> av_policy v = strip (ap_policy a)
    \<and> av_authority v \<and> av_credentials v"
proof (rule consumed_request)
  note ok = host_history_ok [OF assms(1), of h]
  show "approvals_ok u" using leadsD [OF resume_approval_leads assms(2)] ok by (simp add: approvals_step_def)
  show "consumed_for v i u" by (rule resume_approval_rests [OF ok assms(2,3)])
qed

end
