(* ===== verification/ApprovalScenario.thy ===== *)
theory ApprovalScenario
  imports ApprovalMachine Scenario
begin

text \<open>
  A run that asks for an approval in its first step, is approved, and resumes: the run of
  \<open>Scenario\<close> up to its started step, then the calls of the approval service.
\<close>

definition asking0 :: approval_submission where
  "asking0 = \<lparr>as_step = ''s1'', as_tool = ''pay'', as_tool_version = ''1'', as_schema = ''1'', as_args = ''args'',
     as_policy = ''1'', as_preview = [], as_expires = 1000, as_effect = None\<rparr>"

definition validation0 :: approval_validation where
  "validation0 = \<lparr>av_scope = sc0, av_tool = ''pay'', av_tool_version = ''1'', av_schema = ''1'', av_args = ''args'',
     av_policy = ''1'', av_authority = True, av_credentials = True\<rparr>"

definition begun0 :: "(int \<times> host_call) list" where
  "begun0 = [(1, RunsCall (Submit sc0 su0 ''host'')), (2, RunsCall (Claim sc0 ''wk'' 60 (Some ''r1''))),
     (3, RunsCall (StartStep sc0 cl0 ''s1''))]"

definition begun_host :: host_db where
  "begun_host = \<lparr>h_runs = started_db, h_approvals = [], h_audit = []\<rparr>"

definition asked0 :: "(int \<times> host_call) list" where
  "asked0 = [(4, RequestService sc0 cl0 asking0)]"

definition granted0 :: "(int \<times> host_call) list" where
  "granted0 = [(5, DecideService sc0 ''u5'' ApproveIt ''boss'' ''fine'' ''key'')]"

lemma host_run_step:
  "exec_call w t c d = Inr ((), e) \<Longrightarrow>
   host_after w (t, RunsCall c) \<lparr>h_runs = d, h_approvals = A, h_audit = B\<rparr> = \<lparr>h_runs = e, h_approvals = A, h_audit = B\<rparr>"
  by (simp add: host_after_def tx_def on_runs_def)

lemma begun0_state: "host_history w0 begun0 empty_host = begun_host"
  by (simp add: host_history_def begun0_def begun_host_def empty_host_def host_run_step [OF queued_step]
      host_run_step [OF claimed_step] host_run_step [OF started_step])

lemma history_append: "host_history w (h @ h') s = host_history w h' (host_history w h s)"
  by (simp add: host_history_def)

definition asked_row :: approval_row where
  "asked_row = \<lparr>ap_id = ''u5'', ap_tenant = ''t'', ap_workspace = ''w'', ap_run = ''r1'', ap_step = ''s1'', ap_effect = None,
     ap_scope = r_scope run_r1, ap_tool = ''pay'', ap_tool_version = ''1'', ap_schema = ''1'', ap_args = ''args'',
     ap_policy = ''1'', ap_preview = [], ap_status = ApPending, ap_revision = 0, ap_decision = None, ap_by = None,
     ap_reason = None, ap_key = None, ap_created = 4, ap_expires = 1000, ap_decided = None, ap_consumed = None,
     ap_updated = 4\<rparr>"

definition asked_payload :: pydict where
  "asked_payload = [(''approval_id'', PStr ''u5''), (''arguments_digest'', PStr ''args''), (''effect_id'', PNone),
     (''expires_at'', PTime 1000), (''policy_version'', PStr ''1''), (''schema_version'', PStr ''1''),
     (''step_id'', PStr ''s1''), (''tool_name'', PStr ''pay''), (''tool_version'', PStr ''1'')]"

definition asked_event :: run_event where
  "asked_event = \<lparr>v_id = ''u7'', v_run = ''r1'', v_seq = 4, v_name = ''approval.requested'', v_actor = ''runtime'',
     v_payload = filter (\<lambda>(k, v). k \<noteq> ''step_id'') asked_payload, v_step = Some ''s1'', v_causation = None,
     v_correlation = None, v_idem = Some ''approval-requested:u5'', v_created = 4\<rparr>"

definition paused_event :: run_event where
  "paused_event = \<lparr>v_id = ''u9'', v_run = ''r1'', v_seq = 5, v_name = ''run.paused'', v_actor = ''wk'',
     v_payload = [(''approval_id'', PStr ''u5''), (''checkpoint_id'', PStr ''u8''), (''reason'', PStr ''waiting_for_approval'')],
     v_step = Some ''s1'', v_causation = None, v_correlation = None, v_idem = None, v_created = 4\<rparr>"

definition asked_checkpoint :: checkpoint_record where
  "asked_checkpoint = \<lparr>k_id = ''u8'', k_run = ''r1'', k_step = ''s1'', k_attempt = ''u3'', k_seq = 1, k_kind = ''approval'',
     k_payload = [(''approval_id'', PStr ''u5''), (''arguments_digest'', PStr ''args''), (''policy_version'', PStr ''1''),
       (''tool_name'', PStr ''pay''), (''tool_version'', PStr ''1'')], k_created = 4\<rparr>"

definition asked_db :: db where
  "asked_db = empty_db\<lparr>
     t_runs := [run_r1\<lparr>r_status := RunWaitingForApproval, r_rev := 3, r_waiting := Some ''approval:u5'', r_updated := 4\<rparr>],
     t_steps := [step_s1\<lparr>s_status := StepWaitingForApproval, s_rev := 2, s_attempts := 1, s_checkpoint := Some ''u8'',
       s_updated := 4, s_started := Some 3\<rparr>],
     t_attempts := [attempt_u3\<lparr>a_status := AttemptPaused, a_completed := Some 4, a_error := Some ''waiting for approval''\<rparr>],
     t_checkpoints := [asked_checkpoint], t_events := [event_u0, event_u2, event_u4, asked_event, paused_event], draws := 10\<rparr>"

definition asked_audit :: audit_row where
  "asked_audit = \<lparr>au_id = ''u6'', au_tenant = ''t'', au_workspace = ''w'', au_run = ''r1'', au_step = Some (PStr ''s1''),
     au_type = ''approval.requested'', au_payload = asked_payload, au_key = ''approval:create:u5'', au_created = 4\<rparr>"

definition asked_host :: host_db where
  "asked_host = \<lparr>h_runs = asked_db, h_approvals = [asked_row], h_audit = [asked_audit]\<rparr>"

section \<open>Evaluation\<close>

text \<open>The keys of the payloads of approvals name no secret either.\<close>

definition approval_keys :: "string list" where
  "approval_keys = [''approval_id'', ''arguments_digest'', ''effect_id'', ''tool_name'', ''tool_version'', ''schema_version'',
     ''policy_version'', ''expires_at'', ''step_id'', ''decision'', ''reason'', ''decided_by'', ''checkpoint_id'', ''run_id'',
     ''tenant_id'', ''workspace_id'', ''actor_id'', ''agent_id'', ''agent_version'', ''channel_id'', ''conversation_id'',
     ''grants'', ''parent_run_id'', ''trigger_id'']"

lemma approval_keys_ok: "list_all (\<lambda>k. \<not> is_secret_key k \<and> casefold k = k) approval_keys"
  by code_simp

lemma is_secret_key_approval [code]:
  "is_secret_key k = (if k \<in> set approval_keys then False else secret_name (normalized_key k))"
  using approval_keys_ok by (auto simp: list_all_iff is_secret_key_def)

lemma casefold_approval [code]:
  "casefold k = (if k \<in> set approval_keys then k else concat (map casefold_char k))"
  using approval_keys_ok by (auto simp: list_all_iff casefold_def)


lemma asked0_state: "host_history w0 asked0 begun_host = asked_host"
  by code_simp

lemma resumed0_summary:
  "map (\<lambda>s. case fst (resume_approval w0 6 sc0 ''u5'' validation0 ''boss'' s) of
       Inl e \<Rightarrow> None | Inr out \<Rightarrow> Some (ro_kind out, rr_status (ro_run out)))
     [host_history w0 granted0 asked_host] = [Some (OutResumed, RunQueued)]"
  by code_simp


lemma asked0_there: "asked_row \<in> set (h_approvals (host_history w0 (begun0 @ asked0) empty_host))"
  by (simp add: history_append begun0_state asked0_state asked_host_def)

lemma resumed0_there:
  "\<exists>out u. resume_approval w0 6 sc0 ''u5'' validation0 ''boss''
     (host_history w0 (begun0 @ asked0 @ granted0) empty_host) = (Inr out, u) \<and> ro_kind out = OutResumed"
proof -
  let ?s = "host_history w0 (begun0 @ asked0 @ granted0) empty_host"
  obtain r u where run: "resume_approval w0 6 sc0 ''u5'' validation0 ''boss'' ?s = (r, u)"
    by (metis prod.exhaust)
  then show ?thesis
    using resumed0_summary by (auto simp: history_append begun0_state asked0_state split: sum.splits)
qed

end
