(* ===== verification/UsageModels.thy ===== *)
theory UsageModels
  imports Transactions Budget
begin

text \<open>
  Metered usage (\<^verbatim>\<open>usage/models.py\<close>): ownership dimensions, ledger entries, reservations and queries,
  with the checks of their constructors.  Costs and budgets are those of \<open>Budget\<close>; a \<^verbatim>\<open>Decimal\<close> is exact.
\<close>

section \<open>Enumerations\<close>

datatype metered_kind = RkModel | RkTool | RkMedia | RkExternal

fun metered_kind_value :: "metered_kind \<Rightarrow> string" where
  "metered_kind_value RkModel = ''model''"
| "metered_kind_value RkTool = ''tool''"
| "metered_kind_value RkMedia = ''media''"
| "metered_kind_value RkExternal = ''external_service''"

datatype reservation_state = RsActive | RsCommitted | RsReleased

datatype usage_group_by =
    ByResourceKind | ByModel | ByToolService | ByProfile | ByChannel | ByConversation | ByGoal | ByJob | ByChildTask

section \<open>Dimensions\<close>

record usage_dimensions =
  ud_profile :: string
  ud_channel :: "string option"
  ud_conversation :: "string option"
  ud_turn :: "string option"
  ud_goal :: "string option"
  ud_job :: "string option"
  ud_child :: "string option"

definition clean_dimension :: "string option \<Rightarrow> string option" where
  "clean_dimension v = (case v of None \<Rightarrow> None | Some s \<Rightarrow> if strip s = [] then None else Some (strip s))"

definition make_dimensions :: "usage_dimensions \<Rightarrow> usage_dimensions result" where
  "make_dimensions u =
     and_then (require (strip (ud_profile u) \<noteq> []) ValueError) (\<lambda>_.
       Inr \<lparr>ud_profile = strip (ud_profile u), ud_channel = clean_dimension (ud_channel u),
            ud_conversation = clean_dimension (ud_conversation u), ud_turn = clean_dimension (ud_turn u),
            ud_goal = clean_dimension (ud_goal u), ud_job = clean_dimension (ud_job u),
            ud_child = clean_dimension (ud_child u)\<rparr>)"

text \<open>A column of a table with dimensions.\<close>

datatype dim_column = ColProfile | ColConversation | ColTurn | ColGoal | ColJob | ColChild

fun dim_value :: "dim_column \<Rightarrow> usage_dimensions \<Rightarrow> string option" where
  "dim_value ColProfile u = Some (ud_profile u)"
| "dim_value ColConversation u = ud_conversation u"
| "dim_value ColTurn u = ud_turn u"
| "dim_value ColGoal u = ud_goal u"
| "dim_value ColJob u = ud_job u"
| "dim_value ColChild u = ud_child u"

fun scope_columns :: "budget_scope \<Rightarrow> dim_column list" where
  "scope_columns ScProfile = []"
| "scope_columns ScConversation = [ColConversation]"
| "scope_columns ScTurn = [ColConversation, ColTurn]"
| "scope_columns ScGoal = [ColGoal]"
| "scope_columns ScJob = [ColJob]"
| "scope_columns ScChildTask = [ColChild]"

definition scope_values :: "usage_dimensions \<Rightarrow> budget_scope \<Rightarrow> (dim_column \<times> string) list result" where
  "scope_values u sc =
     map_result (\<lambda>c. and_then (row_or ValueError (dim_value c u)) (\<lambda>v. Inr (c, v))) (ColProfile # scope_columns sc)"

section \<open>Ledger entries\<close>

record usage_entry =
  ue_id :: string
  ue_kind :: metered_kind
  ue_source :: string
  ue_dims :: usage_dimensions
  ue_occurred :: int
  ue_period :: string
  ue_purpose :: string
  ue_units :: "(string \<times> decimal) list"
  ue_cost :: exact_cost
  ue_provider :: "string option"
  ue_model :: "string option"
  ue_service :: "string option"
  ue_credential :: "string option"
  ue_profile :: "string option"
  ue_estimated :: bool
  ue_trace :: "string option"
  ue_meta :: pydict

fun clean_units :: "(string \<times> decimal) list \<Rightarrow> (string \<times> decimal) list \<Rightarrow> (string \<times> decimal) list result" where
  "clean_units cleaned [] = Inr cleaned"
| "clean_units cleaned ((name, q) # rest) =
     and_then (require (strip name \<noteq> []) ValueError) (\<lambda>_.
     and_then (require (0 \<le> dec_value q) ValueError) (\<lambda>_.
       clean_units (assoc_set (strip name) q cleaned) rest))"

definition make_entry :: "usage_entry \<Rightarrow> usage_entry result" where
  "make_entry e =
     and_then (require (strip (ue_id e) \<noteq> [] \<and> strip (ue_source e) \<noteq> []) ValueError) (\<lambda>_.
     and_then (require (strip (ue_period e) \<noteq> []) ValueError) (\<lambda>_.
     and_then (require (strip (ue_purpose e) \<noteq> []) ValueError) (\<lambda>_.
     and_then (clean_units [] (ue_units e)) (\<lambda>units.
       Inr (e\<lparr>ue_units := units\<rparr>)))))"

text \<open>\<^verbatim>\<open>int(entry.units.get(name, Decimal(0)))\<close>: truncation toward zero.\<close>

definition truncated :: "decimal \<Rightarrow> int" where
  "truncated q = (if 0 \<le> dec_value q then \<lfloor>dec_value q\<rfloor> else \<lceil>dec_value q\<rceil>)"

definition units_of :: "string \<Rightarrow> usage_entry \<Rightarrow> int" where
  "units_of name e = (case map_of (ue_units e) name of None \<Rightarrow> 0 | Some q \<Rightarrow> truncated q)"

section \<open>Reservations\<close>

record budget_reservation =
  br_id :: string
  br_key :: string
  br_source :: string
  br_kind :: metered_kind
  br_dims :: usage_dimensions
  br_budget :: run_budget
  br_state :: reservation_state
  br_model_calls :: int
  br_tool_calls :: int
  br_tokens :: int
  br_cost :: exact_cost
  br_created :: int
  br_updated :: int
  br_expires :: int

definition make_reservation :: "budget_reservation \<Rightarrow> budget_reservation result" where
  "make_reservation b =
     and_then (require (strip (br_id b) \<noteq> [] \<and> strip (br_key b) \<noteq> []) ValueError) (\<lambda>_.
     and_then (require (0 \<le> br_model_calls b) ValueError) (\<lambda>_.
     and_then (require (0 \<le> br_tool_calls b) ValueError) (\<lambda>_.
     and_then (require (0 \<le> br_tokens b) ValueError) (\<lambda>_. Inr b))))"

section \<open>Queries\<close>

text \<open>
  A cursor is the time and identifier of the last entry of a page; the base64 text that carries them
  to the caller and back is not modelled.
\<close>

record usage_query =
  uq_profile :: string
  uq_start :: "int option"
  uq_end :: "int option"
  uq_kind :: "metered_kind option"
  uq_channel :: "string option"
  uq_conversation :: "string option"
  uq_goal :: "string option"
  uq_job :: "string option"
  uq_child :: "string option"
  uq_limit :: int
  uq_cursor :: "(int \<times> string) option"

definition make_usage_query :: "usage_query \<Rightarrow> usage_query result" where
  "make_usage_query q =
     and_then (require (strip (uq_profile q) \<noteq> []) ValueError) (\<lambda>_.
     and_then (require (case (uq_start q, uq_end q) of (Some a, Some b) \<Rightarrow> a < b | _ \<Rightarrow> True) ValueError) (\<lambda>_.
     and_then (require (1 \<le> uq_limit q \<and> uq_limit q \<le> 10000) ValueError) (\<lambda>_.
       Inr (q\<lparr>uq_profile := strip (uq_profile q)\<rparr>))))"

record usage_page =
  up_entries :: "usage_entry list"
  up_next :: "(int \<times> string) option"

record usage_aggregate =
  ag_key :: string
  ag_count :: nat
  ag_model_calls :: int
  ag_tool_calls :: int
  ag_tokens :: int
  ag_cost :: exact_cost
  ag_unknown :: nat

section \<open>Persisted provider results\<close>

record persisted_usage =
  pu_reservation :: budget_reservation
  pu_index :: int
  pu_purpose :: string
  pu_occurred :: int
  pu_usage :: "pydict option"
  pu_cost :: "pydict option"
  pu_attempts :: "pydict list"
  pu_provider :: "string option"
  pu_model :: "string option"
  pu_profile :: "string option"
  pu_credential :: "string option"
  pu_trace :: "string option"

definition make_persisted :: "persisted_usage \<Rightarrow> persisted_usage result" where
  "make_persisted p =
     and_then (require (1 \<le> pu_index p) ValueError) (\<lambda>_.
     and_then (require (strip (pu_purpose p) \<noteq> []) ValueError) (\<lambda>_. Inr p))"

section \<open>Laws\<close>

lemma scope_values_columns:
  "scope_values u sc = Inr vs \<Longrightarrow> list_all (\<lambda>(c, v). dim_value c u = Some v) vs"
proof -
  have "map_result (\<lambda>c. and_then (row_or ValueError (dim_value c u)) (\<lambda>v. Inr (c, v))) cs = Inr ws \<Longrightarrow>
      list_all (\<lambda>(c, v). dim_value c u = Some v) ws" for cs ws
    by (induction cs arbitrary: ws) (auto simp: result_simps)
  then show "scope_values u sc = Inr vs \<Longrightarrow> ?thesis" by (simp only: scope_values_def)
qed

end
