(* ===== verification/UsageStore.thy ===== *)
theory UsageStore
  imports UsageModels
begin

text \<open>
  The usage ledger (\<^verbatim>\<open>usage/store.py\<close>): immutable entries and reservations checked against a budget, one
  definition per store method, each one transaction.  \<open>now\<close> is what the store's clock returns.
\<close>

section \<open>Tables\<close>

record ledger_row =
  lr_id :: string
  lr_kind :: metered_kind
  lr_source :: string
  lr_provider :: "string option"
  lr_model :: "string option"
  lr_service :: "string option"
  lr_credential :: "string option"
  lr_profile :: "string option"
  lr_dims :: usage_dimensions
  lr_purpose :: string
  lr_occurred :: int
  lr_period :: string
  lr_units :: "(string \<times> decimal) list"
  lr_model_calls :: int
  lr_tool_calls :: int
  lr_tokens :: int
  lr_amount :: "decimal option"
  lr_currency :: string
  lr_known :: bool
  lr_cost_estimated :: bool
  lr_cost_reported :: bool
  lr_estimated :: bool
  lr_trace :: "string option"
  lr_meta :: pydict

record reservation_row =
  rv_id :: string
  rv_key :: string
  rv_source :: string
  rv_kind :: metered_kind
  rv_dims :: usage_dimensions
  rv_scope :: budget_scope
  rv_budget :: pydict
  rv_state :: reservation_state
  rv_model_calls :: int
  rv_tool_calls :: int
  rv_tokens :: int
  rv_amount :: "decimal option"
  rv_currency :: string
  rv_known :: bool
  rv_unknown :: bool
  rv_created :: int
  rv_updated :: int
  rv_expires :: int
  rv_entries :: "string list"
  rv_dispatched :: bool

text \<open>The rows of \<^verbatim>\<open>conversation_model_requests\<close>; a column of JSON text is \<open>None\<close> unless it holds an object.\<close>

record usage_request_row =
  mq_conversation :: string
  mq_turn :: "string option"
  mq_index :: int
  mq_request :: "pydict option"
  mq_usage :: "pydict option"
  mq_cost :: "pydict option"
  mq_accounting :: "pydict option"
  mq_created :: "int option"

record usage_db =
  u_ledger :: "ledger_row list"
  u_reservations :: "reservation_row list"
  u_requests :: "usage_request_row list"
  u_draws :: nat

type_synonym 'a usage_op = "(usage_db, 'a) op"

definition empty_usage :: usage_db where
  "empty_usage = \<lparr>u_ledger = [], u_reservations = [], u_requests = [], u_draws = 0\<rparr>"

definition draw_usage_id :: "world \<Rightarrow> string usage_op" where
  "draw_usage_id w = (\<lambda>s. Inr (uuid4 w (u_draws s), s\<lparr>u_draws := Suc (u_draws s)\<rparr>))"

text \<open>\<^verbatim>\<open>json.loads(json.dumps(d, sort_keys=True))\<close>\<close>

definition json_plain :: "pydict \<Rightarrow> pydict" where
  "json_plain d = sort_key fst (map (\<lambda>(k, v). (k, sort_keys v)) d)"

text \<open>An SQLite integer has 64 bits.\<close>

definition sqlite_int :: "int \<Rightarrow> unit result" where
  "sqlite_int i = require (- (2 ^ 63) \<le> i \<and> i < 2 ^ 63) OverflowError"

text \<open>SQLite's \<^verbatim>\<open>LIKE\<close>: \<^verbatim>\<open>%\<close> stands for any text, \<^verbatim>\<open>_\<close> for any character, ASCII letters in either case.\<close>

definition ascii_lower :: "char \<Rightarrow> char" where
  "ascii_lower c = (if is_upper c then char_of (of_char c + (32::nat)) else c)"

fun sql_like :: "string \<Rightarrow> string \<Rightarrow> bool" where
  "sql_like [] s = (s = [])"
| "sql_like (p # ps) s =
     (if p = CHR ''%'' then list_ex (\<lambda>n. sql_like ps (drop n s)) [0..<Suc (length s)]
      else (case s of [] \<Rightarrow> False | c # cs \<Rightarrow> (p = CHR ''_'' \<or> ascii_lower p = ascii_lower c) \<and> sql_like ps cs))"

section \<open>Rows and values\<close>

definition entry_of_row :: "ledger_row \<Rightarrow> usage_entry result" where
  "entry_of_row r =
     and_then (make_dimensions (lr_dims r)) (\<lambda>dims.
     and_then (make_cost \<lparr>xc_amount = lr_amount r, xc_currency = lr_currency r, xc_known = lr_known r,
                 xc_estimated = lr_cost_estimated r, xc_reported = lr_cost_reported r\<rparr>) (\<lambda>cost.
       make_entry \<lparr>ue_id = lr_id r, ue_kind = lr_kind r, ue_source = lr_source r, ue_dims = dims,
         ue_occurred = lr_occurred r, ue_period = lr_period r, ue_purpose = lr_purpose r, ue_units = lr_units r,
         ue_cost = cost, ue_provider = lr_provider r, ue_model = lr_model r, ue_service = lr_service r,
         ue_credential = lr_credential r, ue_profile = lr_profile r, ue_estimated = lr_estimated r,
         ue_trace = lr_trace r, ue_meta = lr_meta r\<rparr>))"

definition row_of_entry :: "usage_entry \<Rightarrow> ledger_row" where
  "row_of_entry e =
     \<lparr>lr_id = ue_id e, lr_kind = ue_kind e, lr_source = ue_source e, lr_provider = ue_provider e,
      lr_model = ue_model e, lr_service = ue_service e, lr_credential = ue_credential e, lr_profile = ue_profile e,
      lr_dims = ue_dims e, lr_purpose = ue_purpose e, lr_occurred = ue_occurred e, lr_period = ue_period e,
      lr_units = sort_key fst (ue_units e), lr_model_calls = units_of ''model_calls'' e,
      lr_tool_calls = units_of ''tool_calls'' e, lr_tokens = units_of ''total_tokens'' e,
      lr_amount = xc_amount (ue_cost e), lr_currency = xc_currency (ue_cost e), lr_known = xc_known (ue_cost e),
      lr_cost_estimated = xc_estimated (ue_cost e), lr_cost_reported = xc_reported (ue_cost e),
      lr_estimated = ue_estimated e, lr_trace = ue_trace e, lr_meta = json_plain (ue_meta e)\<rparr>"

text \<open>The budget of a stored reservation: its cost ceiling keeps amount and currency only.\<close>

definition stored_ceiling :: "pyval \<Rightarrow> exact_cost option result" where
  "stored_ceiling v =
     (case v of
        PDict d \<Rightarrow>
          (if get_field d ''amount'' = PNone then Inr None
           else and_then (as_decimal (get_field d ''amount'')) (\<lambda>amount.
                and_then (text_or_empty (get_field d ''currency'')) (\<lambda>cur.
                and_then (make_cost \<lparr>xc_amount = amount, xc_currency = (if cur = [] then ''USD'' else cur),
                            xc_known = True, xc_estimated = False, xc_reported = False\<rparr>) (\<lambda>c. Inr (Some c)))))
      | _ \<Rightarrow> Inr None)"

definition stored_budget :: "pydict \<Rightarrow> run_budget result" where
  "stored_budget d =
     and_then (and_then (text_or_empty (get_field d ''scope'')) budget_scope_of) (\<lambda>scope.
     and_then (as_optional_integer (get_field d ''max_model_calls'')) (\<lambda>model_calls.
     and_then (as_optional_integer (get_field d ''max_tool_calls'')) (\<lambda>tool_calls.
     and_then (as_optional_integer (get_field d ''max_tokens'')) (\<lambda>tokens.
     and_then (stored_ceiling (get_field d ''max_cost'')) (\<lambda>cost.
     and_then (as_instant (get_field d ''deadline'')) (\<lambda>deadline.
     and_then (and_then (text_or_empty (get_field d ''unknown_cost_policy'')) unknown_cost_of) (\<lambda>unknown.
       make_budget \<lparr>b_scope = scope, b_model_calls = model_calls, b_tool_calls = tool_calls, b_tokens = tokens,
                    b_cost = cost, b_deadline = deadline, b_unknown = unknown\<rparr>)))))))"

definition reservation_of_row :: "reservation_row \<Rightarrow> budget_reservation result" where
  "reservation_of_row r =
     and_then (stored_budget (rv_budget r)) (\<lambda>budget.
     and_then (make_dimensions (rv_dims r)) (\<lambda>dims.
     and_then (make_cost \<lparr>xc_amount = rv_amount r, xc_currency = rv_currency r, xc_known = rv_known r,
                 xc_estimated = False, xc_reported = False\<rparr>) (\<lambda>cost.
       make_reservation \<lparr>br_id = rv_id r, br_key = rv_key r, br_source = rv_source r, br_kind = rv_kind r,
         br_dims = dims, br_budget = budget, br_state = rv_state r, br_model_calls = rv_model_calls r,
         br_tool_calls = rv_tool_calls r, br_tokens = rv_tokens r, br_cost = cost, br_created = rv_created r,
         br_updated = rv_updated r, br_expires = rv_expires r\<rparr>)))"

definition row_of_reservation :: "budget_reservation \<Rightarrow> reservation_row" where
  "row_of_reservation b =
     \<lparr>rv_id = br_id b, rv_key = br_key b, rv_source = br_source b, rv_kind = br_kind b, rv_dims = br_dims b,
      rv_scope = b_scope (br_budget b), rv_budget = json_plain (budget_to_dict (br_budget b)), rv_state = br_state b,
      rv_model_calls = br_model_calls b, rv_tool_calls = br_tool_calls b, rv_tokens = br_tokens b,
      rv_amount = xc_amount (br_cost b), rv_currency = xc_currency (br_cost b), rv_known = xc_known (br_cost b),
      rv_unknown = (\<not> xc_known (br_cost b)), rv_created = br_created b, rv_updated = br_updated b,
      rv_expires = br_expires b, rv_entries = [], rv_dispatched = False\<rparr>"

definition reservation_row_of :: "string \<Rightarrow> reservation_row usage_op" where
  "reservation_row_of i = select_row KeyError (\<lambda>s. find (\<lambda>r. rv_id r = i) (u_reservations s))"

definition update_reservations :: "(reservation_row \<Rightarrow> bool) \<Rightarrow> (reservation_row \<Rightarrow> reservation_row) \<Rightarrow> nat usage_op" where
  "update_reservations P f =
     (\<lambda>s. Inr (rowcount P (u_reservations s), s\<lparr>u_reservations := upd_where P f (u_reservations s)\<rparr>))"

text \<open>\<^verbatim>\<open>INSERT ... ON CONFLICT(metered_kind, source_event_id) DO NOTHING\<close>\<close>

definition insert_entry :: "usage_entry \<Rightarrow> unit usage_op" where
  "insert_entry e =
     bind (lift (map_result sqlite_int [units_of ''model_calls'' e, units_of ''tool_calls'' e, units_of ''total_tokens'' e])) (\<lambda>_.
     modify_result (\<lambda>s.
       if (ue_kind e, ue_source e) \<in> (\<lambda>r. (lr_kind r, lr_source r)) ` set (u_ledger s) then Inr s
       else and_then (insert_row (ue_id e \<notin> lr_id ` set (u_ledger s)) (row_of_entry e) (u_ledger s))
              (\<lambda>rows. Inr (s\<lparr>u_ledger := rows\<rparr>))))"

definition stored_entry :: "metered_kind \<Rightarrow> string \<Rightarrow> usage_entry usage_op" where
  "stored_entry k src =
     bind (select_row RuntimeError (\<lambda>s. find (\<lambda>r. lr_kind r = k \<and> lr_source r = src) (u_ledger s)))
       (\<lambda>r. lift (entry_of_row r))"

definition insert_reservation :: "budget_reservation \<Rightarrow> unit usage_op" where
  "insert_reservation b =
     bind (lift (map_result sqlite_int [br_model_calls b, br_tool_calls b, br_tokens b])) (\<lambda>_.
     modify_result (\<lambda>s.
       and_then (insert_row (br_id b \<notin> rv_id ` set (u_reservations s) \<and> br_key b \<notin> rv_key ` set (u_reservations s))
                   (row_of_reservation b) (u_reservations s))
         (\<lambda>rows. Inr (s\<lparr>u_reservations := rows\<rparr>))))"

section \<open>Budget checks\<close>

record totals =
  tot_model_calls :: int
  tot_tool_calls :: int
  tot_tokens :: int
  tot_cost :: rat
  tot_unknown :: int

definition amount_value :: "decimal option \<Rightarrow> rat" where
  "amount_value a = (case a of None \<Rightarrow> 0 | Some d \<Rightarrow> dec_value d)"

definition sum_totals :: "totals list \<Rightarrow> totals" where
  "sum_totals = foldl (\<lambda>t r.
     \<lparr>tot_model_calls = tot_model_calls t + tot_model_calls r, tot_tool_calls = tot_tool_calls t + tot_tool_calls r,
      tot_tokens = tot_tokens t + tot_tokens r, tot_cost = tot_cost t + tot_cost r,
      tot_unknown = tot_unknown t + tot_unknown r\<rparr>)
     \<lparr>tot_model_calls = 0, tot_tool_calls = 0, tot_tokens = 0, tot_cost = 0, tot_unknown = 0\<rparr>"

definition entry_totals :: "ledger_row \<Rightarrow> totals" where
  "entry_totals r =
     \<lparr>tot_model_calls = lr_model_calls r, tot_tool_calls = lr_tool_calls r, tot_tokens = lr_tokens r,
      tot_cost = amount_value (lr_amount r), tot_unknown = of_bool (\<not> lr_known r)\<rparr>"

definition held_totals :: "reservation_row \<Rightarrow> totals" where
  "held_totals r =
     \<lparr>tot_model_calls = rv_model_calls r, tot_tool_calls = rv_tool_calls r, tot_tokens = rv_tokens r,
      tot_cost = amount_value (rv_amount r), tot_unknown = of_bool (\<not> rv_known r)\<rparr>"

text \<open>\<^verbatim>\<open>_scope_where\<close>: the row has the values of the scope.\<close>

definition in_scope :: "(dim_column \<times> string) list \<Rightarrow> usage_dimensions \<Rightarrow> bool" where
  "in_scope vs u = list_all (\<lambda>(c, v). dim_value c u = Some v) vs"

definition committed_totals :: "(dim_column \<times> string) list \<Rightarrow> usage_db \<Rightarrow> totals" where
  "committed_totals vs s = sum_totals (map entry_totals (filter (\<lambda>r. in_scope vs (lr_dims r)) (u_ledger s)))"

definition held_in :: "budget_scope \<Rightarrow> (dim_column \<times> string) list \<Rightarrow> reservation_row \<Rightarrow> bool" where
  "held_in sc vs r \<longleftrightarrow> rv_state r = RsActive \<and> rv_scope r = sc \<and> in_scope vs (rv_dims r)"

definition reserved_totals :: "budget_scope \<Rightarrow> (dim_column \<times> string) list \<Rightarrow> usage_db \<Rightarrow> totals" where
  "reserved_totals sc vs s = sum_totals (map held_totals (filter (held_in sc vs) (u_reservations s)))"

definition within_limit :: "'a::linordered_idom option \<Rightarrow> 'a \<Rightarrow> 'a \<Rightarrow> 'a \<Rightarrow> bool" where
  "within_limit limit committed reserved requested =
     (case limit of None \<Rightarrow> True | Some l \<Rightarrow> committed + reserved + requested \<le> l)"

definition cost_limit :: "run_budget \<Rightarrow> rat option" where
  "cost_limit b = map_option (\<lambda>c. amount_value (xc_amount c)) (b_cost b)"

definition enforce_budget :: "run_budget \<Rightarrow> totals \<Rightarrow> totals \<Rightarrow> totals \<Rightarrow> int \<Rightarrow> unit result" where
  "enforce_budget b com res req now =
     and_then (require (case b_deadline b of None \<Rightarrow> True | Some d \<Rightarrow> now < d) BudgetExceededError) (\<lambda>_.
     and_then (require (\<not> (b_cost b \<noteq> None \<and> b_unknown b = FailClosed
                          \<and> 0 < tot_unknown com + tot_unknown res + tot_unknown req)) BudgetExceededError) (\<lambda>_.
     and_then (require (within_limit (b_model_calls b) (tot_model_calls com) (tot_model_calls res) (tot_model_calls req))
                 BudgetExceededError) (\<lambda>_.
     and_then (require (within_limit (b_tool_calls b) (tot_tool_calls com) (tot_tool_calls res) (tot_tool_calls req))
                 BudgetExceededError) (\<lambda>_.
     and_then (require (within_limit (b_tokens b) (tot_tokens com) (tot_tokens res) (tot_tokens req))
                 BudgetExceededError) (\<lambda>_.
       require (within_limit (cost_limit b) (tot_cost com) (tot_cost res) (tot_cost req)) BudgetExceededError)))))"

end
