(* ===== verification/UsageOps.thy ===== *)
theory UsageOps
  imports UsageStore
begin

text \<open>The methods of \<^verbatim>\<open>SQLiteUsageStore\<close> (\<^verbatim>\<open>usage/store.py\<close>).\<close>

section \<open>Reservations\<close>

definition released_row :: "int \<Rightarrow> reservation_row \<Rightarrow> reservation_row" where
  "released_row now r = r\<lparr>rv_state := RsReleased, rv_updated := now\<rparr>"

definition release_expired_reservations :: "int \<Rightarrow> nat usage_op" where
  "release_expired_reservations now =
     update_reservations (\<lambda>r. rv_state r = RsActive \<and> rv_expires r \<le> now \<and> \<not> rv_dispatched r) (released_row now)"

text \<open>\<^verbatim>\<open>==\<close> of two costs: amounts compare as numbers.\<close>

definition cost_eq :: "exact_cost \<Rightarrow> exact_cost \<Rightarrow> bool" where
  "cost_eq c d \<longleftrightarrow>
     map_option dec_value (xc_amount c) = map_option dec_value (xc_amount d) \<and> xc_currency c = xc_currency d
     \<and> xc_known c = xc_known d \<and> xc_estimated c = xc_estimated d \<and> xc_reported c = xc_reported d"

record usage_request =
  ur_key :: string
  ur_source :: string
  ur_kind :: metered_kind
  ur_dims :: usage_dimensions
  ur_budget :: run_budget
  ur_model_calls :: int
  ur_tool_calls :: int
  ur_tokens :: int
  ur_cost :: exact_cost
  ur_reopen :: bool

definition requested_totals :: "usage_request \<Rightarrow> totals" where
  "requested_totals q =
     \<lparr>tot_model_calls = ur_model_calls q, tot_tool_calls = ur_tool_calls q, tot_tokens = ur_tokens q,
      tot_cost = amount_value (xc_amount (ur_cost q)), tot_unknown = of_bool (\<not> xc_known (ur_cost q))\<rparr>"

text \<open>A released reservation that was never dispatched may be taken up again for the same work.\<close>

definition reopenable :: "usage_request \<Rightarrow> reservation_row \<Rightarrow> bool" where
  "reopenable q r \<longleftrightarrow> ur_reopen q \<and> rv_state r = RsReleased \<and> \<not> rv_dispatched r"

definition same_work :: "usage_request \<Rightarrow> budget_reservation \<Rightarrow> bool" where
  "same_work q b \<longleftrightarrow>
     br_source b = strip (ur_source q) \<and> br_kind b = ur_kind q \<and> br_dims b = ur_dims q
     \<and> br_model_calls b = ur_model_calls q \<and> br_tool_calls b = ur_tool_calls q \<and> br_tokens b = ur_tokens q
     \<and> cost_eq (br_cost b) (ur_cost q)"

definition reopened_row :: "run_budget \<Rightarrow> int \<Rightarrow> int \<Rightarrow> reservation_row \<Rightarrow> reservation_row" where
  "reopened_row b now expires r =
     r\<lparr>rv_state := RsActive, rv_budget := json_plain (budget_to_dict b), rv_updated := now, rv_expires := expires\<rparr>"

definition reservation_for :: "usage_request \<Rightarrow> int \<Rightarrow> int \<Rightarrow> string \<Rightarrow> budget_reservation" where
  "reservation_for q now expires i =
     \<lparr>br_id = i, br_key = strip (ur_key q), br_source = strip (ur_source q), br_kind = ur_kind q, br_dims = ur_dims q,
      br_budget = ur_budget q, br_state = RsActive, br_model_calls = ur_model_calls q,
      br_tool_calls = ur_tool_calls q, br_tokens = ur_tokens q, br_cost = ur_cost q, br_created = now,
      br_updated = now, br_expires = expires\<rparr>"

definition reserve :: "world \<Rightarrow> int \<Rightarrow> int \<Rightarrow> usage_request \<Rightarrow> budget_reservation usage_op" where
  "reserve w ttl now q =
     bind (guard (strip (ur_key q) \<noteq> [] \<and> strip (ur_source q) \<noteq> []) ValueError) (\<lambda>_.
     bind (guard (0 \<le> ur_model_calls q \<and> 0 \<le> ur_tool_calls q \<and> 0 \<le> ur_tokens q) ValueError) (\<lambda>_.
     bind (lift (scope_values (ur_dims q) (b_scope (ur_budget q)))) (\<lambda>vs.
     bind (gets (\<lambda>s. find (\<lambda>r. rv_key r = strip (ur_key q)) (u_reservations s))) (\<lambda>existing.
     if \<exists>r\<in>set_option existing. \<not> reopenable q r
     then lift (reservation_of_row (the existing))
     else
     bind (release_expired_reservations now) (\<lambda>_.
     bind (gets (committed_totals vs)) (\<lambda>com.
     bind (gets (reserved_totals (b_scope (ur_budget q)) vs)) (\<lambda>held.
     bind (lift (enforce_budget (ur_budget q) com held (requested_totals q) now)) (\<lambda>_.
     case existing of
       Some r \<Rightarrow>
         bind (lift (reservation_of_row r)) (\<lambda>b.
         bind (guard (same_work q b) ValueError) (\<lambda>_.
         bind (update_reservations (\<lambda>x. rv_id x = br_id b) (reopened_row (ur_budget q) now (now + ttl))) (\<lambda>_.
         bind (reservation_row_of (br_id b)) (\<lambda>x. lift (reservation_of_row x)))))
     | None \<Rightarrow>
         bind (draw_usage_id w) (\<lambda>i.
         bind (lift (make_reservation (reservation_for q now (now + ttl) i))) (\<lambda>b.
         bind (insert_reservation b) (\<lambda>_. ret b)))))))))))"

definition release_expired :: "int \<Rightarrow> nat usage_op" where
  "release_expired now = release_expired_reservations now"

definition release_unsent :: "string \<Rightarrow> bool usage_op" where
  "release_unsent src =
     bind (gets (\<lambda>s. filter (\<lambda>r. rv_source r = src) (u_reservations s))) (\<lambda>rows.
     if rows = [] \<or> list_ex (\<lambda>r. rv_dispatched r \<or> rv_state r = RsCommitted) rows then ret False
     else bind (update_reservations (\<lambda>r. rv_source r = src \<and> rv_state r = RsActive) (\<lambda>r. r\<lparr>rv_state := RsReleased\<rparr>))
            (\<lambda>_. ret True))"

definition mark_dispatched :: "string \<Rightarrow> unit usage_op" where
  "mark_dispatched i =
     bind (reservation_row_of i) (\<lambda>r.
     bind (update_reservations (\<lambda>x. rv_source x = rv_source r \<and> rv_state x = RsActive) (\<lambda>x. x\<lparr>rv_dispatched := True\<rparr>))
       (\<lambda>_. ret ()))"

definition release :: "int \<Rightarrow> string \<Rightarrow> bool \<Rightarrow> budget_reservation usage_op" where
  "release now i unsent =
     bind (update_reservations (\<lambda>r. rv_id r = i \<and> rv_state r = RsActive \<and> (\<not> rv_dispatched r \<or> unsent)) (released_row now)) (\<lambda>_.
     bind (reservation_row_of i) (\<lambda>r. lift (reservation_of_row r)))"

definition get_reservation :: "string \<Rightarrow> budget_reservation usage_op" where
  "get_reservation i = bind (reservation_row_of i) (\<lambda>r. lift (reservation_of_row r))"

section \<open>Entries\<close>

definition settled_row :: "int \<Rightarrow> string list \<Rightarrow> reservation_row \<Rightarrow> reservation_row" where
  "settled_row now ids r = r\<lparr>rv_state := RsCommitted, rv_updated := now, rv_entries := ids\<rparr>"

definition commit_reservation :: "int \<Rightarrow> string \<Rightarrow> usage_entry list \<Rightarrow> usage_entry list usage_op" where
  "commit_reservation now i es =
     bind (guard (es \<noteq> []) ValueError) (\<lambda>_.
     bind (reservation_row_of i) (\<lambda>r.
     bind (lift (reservation_of_row r)) (\<lambda>b.
     bind (guard (br_state b \<noteq> RsReleased) ValueError) (\<lambda>_.
     bind (map_op (\<lambda>e. bind (guard (ue_kind e = br_kind b) ValueError) (\<lambda>_. insert_entry e)) es) (\<lambda>_.
     bind (map_op (\<lambda>e. stored_entry (ue_kind e) (ue_source e)) es) (\<lambda>stored.
     bind (update_reservations (\<lambda>x. rv_id x = i) (settled_row now (map ue_id stored))) (\<lambda>_.
       ret stored)))))))"

definition ingest :: "usage_entry \<Rightarrow> usage_entry usage_op" where
  "ingest e = bind (insert_entry e) (\<lambda>_. stored_entry (ue_kind e) (ue_source e))"

section \<open>Holds under further budgets\<close>

definition active_constraint_reservations :: "string \<Rightarrow> budget_reservation list usage_op" where
  "active_constraint_reservations src =
     bind (guard (strip src \<noteq> []) ValueError) (\<lambda>_.
     bind (gets (\<lambda>s. sort_key (\<lambda>r. (budget_scope_value (rv_scope r), rv_id r))
             (filter (\<lambda>r. rv_source r = strip src \<and> rv_state r = RsActive
                \<and> sql_like (strip src @ '':constraint:%'') (rv_key r)) (u_reservations s)))) (\<lambda>rows.
       lift (map_result reservation_of_row rows)))"

definition reconcile_committed_constraints :: "int \<Rightarrow> nat usage_op" where
  "reconcile_committed_constraints now =
     bind (gets u_ledger) (\<lambda>ledger.
       update_reservations
         (\<lambda>r. rv_state r = RsActive \<and> sql_like ''%:constraint:%'' (rv_key r)
            \<and> list_ex (\<lambda>e. lr_kind e = rv_kind r \<and> sql_like (rv_source r @ '':%'') (lr_source e)) ledger)
         (\<lambda>r. r\<lparr>rv_state := RsCommitted, rv_updated := now\<rparr>))"

section \<open>Provider results that survive a crash\<close>

definition checkpoint_facts :: "persisted_usage \<Rightarrow> pydict" where
  "checkpoint_facts p =
     (let obj = (\<lambda>v. case v of None \<Rightarrow> PNone | Some d \<Rightarrow> PDict d) in
     [(''purpose'', PStr (pu_purpose p)), (''usage'', obj (pu_usage p)), (''cost'', obj (pu_cost p)),
      (''fallback_attempts'', PList (map PDict (pu_attempts p))), (''provider'', opt_str (pu_provider p)),
      (''model'', opt_str (pu_model p)), (''model_profile_id'', opt_str (pu_profile p)),
      (''credential_ref'', opt_str (pu_credential p)), (''trace_path'', opt_str (pu_trace p))])"

text \<open>The facts of a response are those of \<open>p\<close>, whose reservation and time are not used.\<close>

definition checkpoint_model_response :: "int \<Rightarrow> string \<Rightarrow> persisted_usage \<Rightarrow> int option usage_op" where
  "checkpoint_model_response now i p =
     bind (guard (1 \<le> pu_index p) ValueError) (\<lambda>_.
     bind (guard (strip (pu_purpose p) \<noteq> []) ValueError) (\<lambda>_.
     bind (reservation_row_of i) (\<lambda>r.
     bind (lift (reservation_of_row r)) (\<lambda>b.
     case (ud_conversation (br_dims b), ud_turn (br_dims b)) of
       (Some conv, Some turn) \<Rightarrow>
         (let hit = (\<lambda>m. mq_conversation m = conv \<and> mq_turn m = Some turn \<and> mq_index m = pu_index p) in
         bind (gets (\<lambda>s. rowcount hit (u_requests s))) (\<lambda>n.
         bind (modify (\<lambda>s. s\<lparr>u_requests := upd_where hit (\<lambda>m.
                 m\<lparr>mq_usage := map_option json_plain (pu_usage p), mq_cost := map_option json_plain (pu_cost p),
                   mq_accounting := Some (json_plain (checkpoint_facts (p\<lparr>pu_purpose := strip (pu_purpose p)\<rparr>))),
                   mq_created := (case mq_created m of None \<Rightarrow> Some now | Some t \<Rightarrow> Some t)\<rparr>) (u_requests s)\<rparr>)) (\<lambda>_.
           ret (if n = 1 then Some now else None))))
     | _ \<Rightarrow> ret None))))"

definition object_of :: "pydict option \<Rightarrow> pydict" where
  "object_of v = (case v of None \<Rightarrow> [] | Some d \<Rightarrow> d)"

definition nonempty_text :: "pyval \<Rightarrow> string option" where
  "nonempty_text v = (case v of PStr s \<Rightarrow> if s = [] then None else Some s | _ \<Rightarrow> None)"

definition clean_text_of :: "pyval \<Rightarrow> string option" where
  "clean_text_of v = (case v of PStr s \<Rightarrow> if strip s = [] then None else Some (strip s) | _ \<Rightarrow> None)"

definition dict_of :: "pyval \<Rightarrow> pydict" where
  "dict_of v = (case v of PDict d \<Rightarrow> d | _ \<Rightarrow> [])"

definition first_object :: "pydict \<Rightarrow> pydict \<Rightarrow> pydict option" where
  "first_object a b = (if a \<noteq> [] then Some a else if b \<noteq> [] then Some b else None)"

definition response_purpose :: "pydict \<Rightarrow> pydict \<Rightarrow> string" where
  "response_purpose accounting request =
     (case get_field accounting ''purpose'' of
        PStr s \<Rightarrow> if strip s \<noteq> [] then s else
          (case clean_text_of (get_field request ''purpose'') of Some t \<Rightarrow> t | None \<Rightarrow>
           (case clean_text_of (get_field (dict_of (get_field request ''context_report'')) ''purpose'') of
              Some t \<Rightarrow> t | None \<Rightarrow> ''agent_action''))
      | _ \<Rightarrow>
          (case clean_text_of (get_field request ''purpose'') of Some t \<Rightarrow> t | None \<Rightarrow>
           (case clean_text_of (get_field (dict_of (get_field request ''context_report'')) ''purpose'') of
              Some t \<Rightarrow> t | None \<Rightarrow> ''agent_action'')))"

definition persisted_of_rows :: "reservation_row \<Rightarrow> usage_request_row \<Rightarrow> persisted_usage result" where
  "persisted_of_rows r m =
     (let acc = object_of (mq_accounting m); req = object_of (mq_request m) in
     and_then (reservation_of_row r) (\<lambda>b.
       make_persisted
         \<lparr>pu_reservation = b, pu_index = mq_index m, pu_purpose = response_purpose acc req,
          pu_occurred = (case mq_created m of None \<Rightarrow> 0 | Some t \<Rightarrow> t),
          pu_usage = first_object (dict_of (get_field acc ''usage'')) (object_of (mq_usage m)),
          pu_cost = first_object (dict_of (get_field acc ''cost'')) (object_of (mq_cost m)),
          pu_attempts = (case get_field acc ''fallback_attempts'' of
             PList vs \<Rightarrow> concat (map (\<lambda>v. case v of PDict d \<Rightarrow> [d] | _ \<Rightarrow> []) vs) | _ \<Rightarrow> []),
          pu_provider = nonempty_text (get_field acc ''provider''), pu_model = nonempty_text (get_field acc ''model''),
          pu_profile = nonempty_text (get_field acc ''model_profile_id''),
          pu_credential = nonempty_text (get_field acc ''credential_ref''),
          pu_trace = nonempty_text (get_field acc ''trace_path'')\<rparr>))"

definition request_event_id :: "string \<Rightarrow> string \<Rightarrow> int \<Rightarrow> string" where
  "request_event_id conv turn n = ''model:'' @ conv @ '':'' @ turn @ '':'' @ int_text n"

definition answers :: "reservation_row \<Rightarrow> usage_request_row \<Rightarrow> bool" where
  "answers r m \<longleftrightarrow>
     Some (mq_conversation m) = ud_conversation (rv_dims r) \<and> mq_turn m \<noteq> None \<and> mq_turn m = ud_turn (rv_dims r)
     \<and> rv_source r = request_event_id (mq_conversation m) (the (mq_turn m)) (mq_index m) \<and> mq_created m \<noteq> None"

definition recoverable_model_usage :: "string \<Rightarrow> int \<Rightarrow> persisted_usage list usage_op" where
  "recoverable_model_usage profile limit =
     bind (guard (strip profile \<noteq> []) ValueError) (\<lambda>_.
     bind (gets (\<lambda>s. take (nat (max 1 (min limit 10000)))
             (sort_key (\<lambda>(r, m). (rv_created r, rv_id r))
               (filter (\<lambda>(r, m). rv_state r = RsActive \<and> rv_kind r = RkModel \<and> ud_profile (rv_dims r) = strip profile
                  \<and> answers r m) (List.product (u_reservations s) (u_requests s)))))) (\<lambda>rows.
       lift (map_result (\<lambda>(r, m). persisted_of_rows r m) rows)))"

end
