(* ===== verification/UsageQueries.thy ===== *)
theory UsageQueries
  imports UsageOps
begin

text \<open>
  Reading the ledger (\<^verbatim>\<open>usage/store.py\<close>, \<^verbatim>\<open>usage/query.py\<close>): pages in the order of time, aggregates of one
  bounded page, lists.
\<close>

section \<open>Pages\<close>

definition row_time :: "ledger_row \<Rightarrow> int \<times> string" where
  "row_time r = (lr_occurred r, lr_id r)"

text \<open>The rows a query selects, but for its cursor.\<close>

definition selected :: "usage_query \<Rightarrow> ledger_row \<Rightarrow> bool" where
  "selected q r \<longleftrightarrow>
     ud_profile (lr_dims r) = uq_profile q
     \<and> (case uq_start q of None \<Rightarrow> True | Some t \<Rightarrow> t \<le> lr_occurred r)
     \<and> (case uq_end q of None \<Rightarrow> True | Some t \<Rightarrow> lr_occurred r < t)
     \<and> (case uq_kind q of None \<Rightarrow> True | Some k \<Rightarrow> lr_kind r = k)
     \<and> list_all (\<lambda>(wanted, v). wanted = None \<or> wanted = v)
         [(uq_channel q, ud_channel (lr_dims r)), (uq_conversation q, ud_conversation (lr_dims r)),
          (uq_goal q, ud_goal (lr_dims r)), (uq_job q, ud_job (lr_dims r)), (uq_child q, ud_child (lr_dims r))]"

definition after_cursor :: "(int \<times> string) option \<Rightarrow> ledger_row \<Rightarrow> bool" where
  "after_cursor c r = (case c of None \<Rightarrow> True | Some k \<Rightarrow> k < row_time r)"

definition query :: "usage_query \<Rightarrow> usage_page usage_op" where
  "query q =
     bind (guard (case uq_cursor q of None \<Rightarrow> True | Some (t, i) \<Rightarrow> i \<noteq> []) ValueError) (\<lambda>_.
     bind (gets (\<lambda>s. take (Suc (nat (uq_limit q)))
             (sort_key row_time (filter (\<lambda>r. selected q r \<and> after_cursor (uq_cursor q) r) (u_ledger s))))) (\<lambda>rows.
     bind (lift (map_result entry_of_row (take (nat (uq_limit q)) rows))) (\<lambda>es.
       ret \<lparr>up_entries = es,
            up_next = (if nat (uq_limit q) < length rows \<and> es \<noteq> []
                       then Some (ue_occurred (last es), ue_id (last es)) else None)\<rparr>)))"

definition list_entries :: "int \<Rightarrow> usage_entry list usage_op" where
  "list_entries limit =
     bind (gets (\<lambda>s. take (nat (max 1 (min limit 10000))) (sort_key row_time (u_ledger s))))
       (\<lambda>rows. lift (map_result entry_of_row rows))"

definition list_reservations :: "reservation_state option \<Rightarrow> int \<Rightarrow> budget_reservation list usage_op" where
  "list_reservations st limit =
     bind (gets (\<lambda>s. take (nat (max 1 (min limit 10000))) (sort_key (\<lambda>r. (rv_created r, rv_id r))
             (filter (\<lambda>r. case st of None \<Rightarrow> True | Some x \<Rightarrow> rv_state r = x) (u_reservations s)))))
       (\<lambda>rows. lift (map_result reservation_of_row rows))"

section \<open>Aggregates\<close>

definition text_or_default :: "string \<Rightarrow> string option \<Rightarrow> string" where
  "text_or_default d v = (case v of None \<Rightarrow> d | Some s \<Rightarrow> if s = [] then d else s)"

fun group_key :: "usage_group_by \<Rightarrow> usage_entry \<Rightarrow> string" where
  "group_key ByResourceKind e = metered_kind_value (ue_kind e)"
| "group_key ByModel e = text_or_default ''unknown'' (ue_provider e) @ '':'' @ text_or_default ''unknown'' (ue_model e)"
| "group_key ByToolService e = text_or_default ''unknown'' (ue_service e)"
| "group_key ByProfile e = ud_profile (ue_dims e)"
| "group_key ByChannel e = text_or_default ''unknown'' (ud_channel (ue_dims e))"
| "group_key ByConversation e = text_or_default ''none'' (ud_conversation (ue_dims e))"
| "group_key ByGoal e = text_or_default ''none'' (ud_goal (ue_dims e))"
| "group_key ByJob e = text_or_default ''none'' (ud_job (ue_dims e))"
| "group_key ByChildTask e = text_or_default ''none'' (ud_child (ue_dims e))"

text \<open>The exact sum of two Decimals.\<close>

definition dec_add :: "decimal \<Rightarrow> decimal \<Rightarrow> decimal" where
  "dec_add a b =
     (let k = max (dec_scale a) (dec_scale b)
      in Dec (dec_coeff a * 10 ^ (k - dec_scale a) + dec_coeff b * 10 ^ (k - dec_scale b)) k)"

definition known_amount :: "usage_entry list \<Rightarrow> decimal" where
  "known_amount es =
     foldl dec_add (Dec 0 0) (concat (map (\<lambda>e. case xc_amount (ue_cost e) of None \<Rightarrow> [] | Some a \<Rightarrow> [a]) es))"

definition aggregate_entries :: "string \<Rightarrow> usage_entry list \<Rightarrow> usage_aggregate result" where
  "aggregate_entries k es =
     (let currencies = remdups (map (\<lambda>e. xc_currency (ue_cost e)) es);
          unknown = length (filter (\<lambda>e. \<not> xc_known (ue_cost e) \<or> xc_amount (ue_cost e) = None) es) in
     and_then (make_cost
         \<lparr>xc_amount = (if length currencies = 1 then Some (known_amount es) else None),
          xc_currency = (if length currencies = 1 then hd currencies else ''MIXED''),
          xc_known = (unknown = 0 \<and> length currencies = 1),
          xc_estimated = list_ex (\<lambda>e. xc_estimated (ue_cost e)) es,
          xc_reported = list_all (\<lambda>e. xc_reported (ue_cost e)) es\<rparr>) (\<lambda>cost.
       Inr \<lparr>ag_key = k, ag_count = length es, ag_model_calls = sum_list (map (units_of ''model_calls'') es),
            ag_tool_calls = sum_list (map (units_of ''tool_calls'') es),
            ag_tokens = sum_list (map (units_of ''total_tokens'') es), ag_cost = cost, ag_unknown = unknown\<rparr>))"

definition groups :: "('a \<Rightarrow> string) \<Rightarrow> 'a list \<Rightarrow> (string \<times> 'a list) list" where
  "groups k xs = map (\<lambda>g. (g, filter (\<lambda>x. k x = g) xs)) (sort (remdups (map k xs)))"

definition aggregate :: "usage_query \<Rightarrow> usage_group_by \<Rightarrow> usage_aggregate list usage_op" where
  "aggregate q by =
     bind (query q) (\<lambda>p.
     bind (guard (up_next p = None) ValueError) (\<lambda>_.
       lift (map_result (\<lambda>(k, es). aggregate_entries k es) (groups (group_key by) (up_entries p)))))"

section \<open>The ledger of a profile\<close>

definition ledger_query :: "string \<Rightarrow> usage_query \<Rightarrow> usage_page usage_op" where
  "ledger_query profile q = bind (lift (make_usage_query (q\<lparr>uq_profile := profile\<rparr>))) query"

definition ledger_group :: "string \<Rightarrow> usage_group_by \<Rightarrow> usage_query \<Rightarrow> usage_aggregate list usage_op" where
  "ledger_group profile by q =
     bind (lift (make_usage_query (q\<lparr>uq_profile := profile, uq_cursor := None\<rparr>))) (\<lambda>q. aggregate q by)"

definition bounded_entries :: "string \<Rightarrow> usage_query \<Rightarrow> usage_entry list usage_op" where
  "bounded_entries profile q =
     bind (ledger_query profile q) (\<lambda>p. bind (guard (up_next p = None) ValueError) (\<lambda>_. ret (up_entries p)))"

end
