(* ===== verification/UsageMachine.thy ===== *)
theory UsageMachine
  imports UsageQueries
begin

text \<open>
  The calls of the usage store in any order, and what every history keeps: reservations stay consistent
  with what they hold, and a budget that every reservation of a scope respects is never overspent.
\<close>

section \<open>Calls\<close>

datatype usage_call =
    Reserve usage_request
  | CommitUsage string "usage_entry list"
  | Ingest usage_entry
  | ReleaseUnsent string
  | MarkDispatched string
  | ReleaseHold string bool
  | ReleaseExpired
  | ReconcileConstraints
  | CheckpointResponse string persisted_usage

fun exec_usage :: "world \<Rightarrow> int \<Rightarrow> int \<Rightarrow> usage_call \<Rightarrow> unit usage_op" where
  "exec_usage w ttl now (Reserve q) = done_after (reserve w ttl now q)"
| "exec_usage w ttl now (CommitUsage i es) = done_after (commit_reservation now i es)"
| "exec_usage w ttl now (Ingest e) = done_after (ingest e)"
| "exec_usage w ttl now (ReleaseUnsent src) = done_after (release_unsent src)"
| "exec_usage w ttl now (MarkDispatched i) = mark_dispatched i"
| "exec_usage w ttl now (ReleaseHold i unsent) = done_after (release now i unsent)"
| "exec_usage w ttl now ReleaseExpired = done_after (release_expired now)"
| "exec_usage w ttl now ReconcileConstraints = done_after (reconcile_committed_constraints now)"
| "exec_usage w ttl now (CheckpointResponse i p) = done_after (checkpoint_model_response now i p)"

definition usage_after :: "world \<Rightarrow> int \<Rightarrow> int \<times> usage_call \<Rightarrow> usage_db \<Rightarrow> usage_db" where
  "usage_after w ttl tc s = commit (exec_usage w ttl (fst tc) (snd tc)) s"

definition usage_history :: "world \<Rightarrow> int \<Rightarrow> (int \<times> usage_call) list \<Rightarrow> usage_db \<Rightarrow> usage_db" where
  "usage_history w ttl = fold (usage_after w ttl)"

text \<open>Arguments that have been constructed.\<close>

definition dims_built :: "usage_dimensions \<Rightarrow> bool" where
  "dims_built u \<longleftrightarrow> make_dimensions u = Inr u"

definition entry_built :: "usage_entry \<Rightarrow> bool" where
  "entry_built e \<longleftrightarrow> make_entry e = Inr e \<and> dims_built (ue_dims e) \<and> cost_ok (ue_cost e)"

definition request_built :: "usage_request \<Rightarrow> bool" where
  "request_built q \<longleftrightarrow> dims_built (ur_dims q) \<and> cost_ok (ur_cost q) \<and> budget_ok (ur_budget q)"

fun call_built :: "usage_call \<Rightarrow> bool" where
  "call_built (Reserve q) = request_built q"
| "call_built (CommitUsage i es) = list_all entry_built es"
| "call_built (Ingest e) = entry_built e"
| "call_built _ = True"

section \<open>Fair use of a budget\<close>

text \<open>
  The budget \<open>B\<close> governs the scope \<open>sc\<close> with the values \<open>vs\<close>: reservations in the scope are made under limits that
  are no looser, a commit records in the scope no more than its reservation holds there, and nothing
  in the scope is recorded without a reservation.
\<close>

definition totals_le :: "totals \<Rightarrow> totals \<Rightarrow> bool" where
  "totals_le t u \<longleftrightarrow>
     tot_model_calls t \<le> tot_model_calls u \<and> tot_tool_calls t \<le> tot_tool_calls u
     \<and> tot_tokens t \<le> tot_tokens u \<and> tot_cost t \<le> tot_cost u"

definition no_looser :: "'a::linorder option \<Rightarrow> 'a option \<Rightarrow> bool" where
  "no_looser l m = (case m of None \<Rightarrow> True | Some y \<Rightarrow> (case l of None \<Rightarrow> False | Some x \<Rightarrow> x \<le> y))"

definition tighter :: "run_budget \<Rightarrow> run_budget \<Rightarrow> bool" where
  "tighter b B \<longleftrightarrow>
     no_looser (b_model_calls b) (b_model_calls B) \<and> no_looser (b_tool_calls b) (b_tool_calls B)
     \<and> no_looser (b_tokens b) (b_tokens B) \<and> no_looser (cost_limit b) (cost_limit B)"

definition recorded :: "(dim_column \<times> string) list \<Rightarrow> usage_entry list \<Rightarrow> totals" where
  "recorded vs es =
     sum_totals (map entry_totals (filter (\<lambda>r. in_scope vs (lr_dims r)) (map row_of_entry es)))"

definition held_by :: "budget_scope \<Rightarrow> (dim_column \<times> string) list \<Rightarrow> string \<Rightarrow> usage_db \<Rightarrow> totals" where
  "held_by sc vs i s =
     sum_totals (map held_totals (filter (\<lambda>r. rv_id r = i \<and> held_in sc vs r) (u_reservations s)))"

fun fair_call :: "run_budget \<Rightarrow> budget_scope \<Rightarrow> (dim_column \<times> string) list \<Rightarrow> usage_db \<Rightarrow> usage_call \<Rightarrow> bool" where
  "fair_call B sc vs s (Reserve q) =
     ((b_scope (ur_budget q) = sc \<and> in_scope vs (ur_dims q) \<longrightarrow> tighter (ur_budget q) B)
      \<and> list_all (\<lambda>r. rv_key r = strip (ur_key q) \<longrightarrow> rv_scope r = b_scope (ur_budget q)) (u_reservations s))"
| "fair_call B sc vs s (CommitUsage i es) = totals_le (recorded vs es) (held_by sc vs i s)"
| "fair_call B sc vs s (Ingest e) = totals_le (recorded vs [e]) (sum_totals [])"
| "fair_call B sc vs s _ = True"

fun fair_use ::
  "run_budget \<Rightarrow> budget_scope \<Rightarrow> (dim_column \<times> string) list \<Rightarrow> world \<Rightarrow> int \<Rightarrow> (int \<times> usage_call) list \<Rightarrow> usage_db \<Rightarrow> bool" where
  "fair_use B sc vs w ttl [] s = True"
| "fair_use B sc vs w ttl (tc # h) s =
     (fair_call B sc vs s (snd tc) \<and> fair_use B sc vs w ttl h (usage_after w ttl tc s))"

definition within_budget :: "run_budget \<Rightarrow> totals \<Rightarrow> totals \<Rightarrow> bool" where
  "within_budget B com res \<longleftrightarrow>
     within_limit (b_model_calls B) (tot_model_calls com) (tot_model_calls res) 0
     \<and> within_limit (b_tool_calls B) (tot_tool_calls com) (tot_tool_calls res) 0
     \<and> within_limit (b_tokens B) (tot_tokens com) (tot_tokens res) 0
     \<and> within_limit (cost_limit B) (tot_cost com) (tot_cost res) 0"

section \<open>Sums\<close>

lemma sum_totals_fields:
  "tot_model_calls (sum_totals ts) = sum_list (map tot_model_calls ts)"
  "tot_tool_calls (sum_totals ts) = sum_list (map tot_tool_calls ts)"
  "tot_tokens (sum_totals ts) = sum_list (map tot_tokens ts)"
  "tot_cost (sum_totals ts) = sum_list (map tot_cost ts)"
  "tot_unknown (sum_totals ts) = sum_list (map tot_unknown ts)"
  unfolding sum_totals_def by (induction ts rule: rev_induct) simp_all

lemma sum_filter_one:
  fixes g :: "'r \<Rightarrow> 'a::linordered_idom"
  assumes "distinct (map k rows)" and "r \<in> set rows"
  shows "sum_list (map g (filter H (upd_where (\<lambda>x. k x = k r) f rows))) + (if H r then g r else 0)
    = sum_list (map g (filter H rows)) + (if H (f r) then g (f r) else 0)"
  using assms
proof (induction rows)
  case (Cons x rows)
  show ?case
  proof (cases "x = r")
    case True
    then have "k y \<noteq> k r" if "y \<in> set rows" for y using Cons.prems(1) that by (metis distinct.simps(2) imageI list.simps(9) set_map)
    then have "upd_where (\<lambda>y. k y = k r) f rows = rows" by (rule upd_where_unmatched)
    then show ?thesis using True by (simp add: upd_where_def)
  next
    case False
    then have r: "r \<in> set rows" using Cons.prems(2) by simp
    then have "k x \<noteq> k r" using Cons.prems(1) by force
    then show ?thesis using Cons.IH [OF _ r] Cons.prems(1) by (auto simp: upd_where_def algebra_simps split: if_splits)
  qed
qed simp

lemma sum_filter_fewer:
  fixes g :: "'r \<Rightarrow> 'a::linordered_idom"
  assumes "\<And>r. r \<in> set rows \<Longrightarrow> 0 \<le> g r \<and> g (f r) = g r \<and> (P r \<and> H (f r) \<longrightarrow> H r)"
  shows "sum_list (map g (filter H (upd_where P f rows))) \<le> sum_list (map g (filter H rows))"
  using assms by (induction rows) (auto simp: upd_where_def add_increasing)

end
