(* ===== verification/UsageFacts.thy ===== *)
theory UsageFacts
  imports UsageMachine "HOL-Library.Sublist"
begin

text \<open>
  What the operations do to reservations and to the ledger, and the invariant of fairly used budgets.
\<close>

section \<open>Reservations stay consistent\<close>

definition reservation_ok :: "reservation_row \<Rightarrow> bool" where
  "reservation_ok r \<longleftrightarrow>
     dims_built (rv_dims r) \<and> 0 \<le> rv_model_calls r \<and> 0 \<le> rv_tool_calls r \<and> 0 \<le> rv_tokens r
     \<and> 0 \<le> amount_value (rv_amount r)"

definition usage_ok :: "usage_db \<Rightarrow> bool" where
  "usage_ok s \<longleftrightarrow>
     distinct (map rv_id (u_reservations s)) \<and> distinct (map rv_key (u_reservations s))
     \<and> (\<forall>r\<in>set (u_reservations s). reservation_ok r)"

text \<open>An update that keeps the identity of a reservation and what it holds.\<close>

definition same_hold :: "reservation_row \<Rightarrow> reservation_row \<Rightarrow> bool" where
  "same_hold r t \<longleftrightarrow>
     rv_id t = rv_id r \<and> rv_key t = rv_key r \<and> rv_scope t = rv_scope r \<and> rv_dims t = rv_dims r
     \<and> rv_model_calls t = rv_model_calls r \<and> rv_tool_calls t = rv_tool_calls r \<and> rv_tokens t = rv_tokens r
     \<and> rv_amount t = rv_amount r \<and> rv_known t = rv_known r"

lemma same_hold_totals: "same_hold r t \<Longrightarrow> held_totals t = held_totals r"
  by (simp add: same_hold_def held_totals_def)

lemma same_hold_ok: "same_hold r t \<Longrightarrow> reservation_ok r \<Longrightarrow> reservation_ok t"
  by (simp add: same_hold_def reservation_ok_def)

lemma same_hold_rows:
  "same_hold r (released_row now r)" "same_hold r (reopened_row b now e r)" "same_hold r (settled_row now ids r)"
  "same_hold r (r\<lparr>rv_state := st\<rparr>)" "same_hold r (r\<lparr>rv_dispatched := d\<rparr>)" "same_hold r (r\<lparr>rv_state := st, rv_updated := now\<rparr>)"
  by (simp_all add: same_hold_def released_row_def reopened_row_def settled_row_def)

lemma update_reservations_ok:
  assumes "usage_ok s" and "update_reservations P f s = Inr (n, t)" and "\<And>r. same_hold r (f r)"
  shows "usage_ok t"
proof -
  have rows: "u_reservations t = upd_where P f (u_reservations s)"
    using assms(2) by (auto simp: update_reservations_def)
  have "map rv_id (u_reservations t) = map rv_id (u_reservations s)" "map rv_key (u_reservations t) = map rv_key (u_reservations s)"
    unfolding rows using assms(3) by (auto intro!: map_upd_where simp: same_hold_def)
  moreover have "\<forall>r\<in>set (u_reservations t). reservation_ok r"
    unfolding rows ball_upd_where using assms(1) by (auto simp: usage_ok_def intro: same_hold_ok [OF assms(3)])
  ultimately show ?thesis using assms(1) by (simp add: usage_ok_def)
qed

section \<open>Calls that only give allowance back\<close>

definition eases :: "usage_db \<Rightarrow> usage_db \<Rightarrow> bool" where
  "eases s t \<longleftrightarrow> (usage_ok s \<longrightarrow>
     usage_ok t \<and> u_ledger t = u_ledger s \<and> (\<forall>sc vs. totals_le (reserved_totals sc vs t) (reserved_totals sc vs s)))"

lemma totals_le_refl [simp]: "totals_le t t"
  by (simp add: totals_le_def)

lemma totals_le_trans: "totals_le t u \<Longrightarrow> totals_le u v \<Longrightarrow> totals_le t v"
  by (simp add: totals_le_def)

interpretation easing: evolution eases
proof
  show "eases s s" for s by (simp add: eases_def)
  fix s t u assume "eases s t" "eases t u"
  then show "eases s u" unfolding eases_def by (metis totals_le_trans)
qed

lemma held_nonneg:
  "reservation_ok r \<Longrightarrow> 0 \<le> tot_model_calls (held_totals r) \<and> 0 \<le> tot_tool_calls (held_totals r)
     \<and> 0 \<le> tot_tokens (held_totals r) \<and> 0 \<le> tot_cost (held_totals r)"
  by (simp add: reservation_ok_def held_totals_def)

lemma update_eases:
  assumes same: "\<And>r. same_hold r (f r)" and less: "\<And>r. P r \<Longrightarrow> rv_state (f r) = RsActive \<Longrightarrow> rv_state r = RsActive"
  shows "keeps eases (update_reservations P f)"
proof (rule keepsI)
  fix s n t assume run: "update_reservations P f s = Inr (n, t)"
  have rows: "u_reservations t = upd_where P f (u_reservations s)" and ledger: "u_ledger t = u_ledger s"
    using run by (auto simp: update_reservations_def)
  show "eases s t"
    unfolding eases_def
  proof (intro impI)
    assume s: "usage_ok s"
    have le: "totals_le (reserved_totals sc vs t) (reserved_totals sc vs s)" for sc vs
    proof -
      have each: "0 \<le> q (held_totals r) \<and> q (held_totals (f r)) = q (held_totals r) \<and> (P r \<and> held_in sc vs (f r) \<longrightarrow> held_in sc vs r)"
        if "r \<in> set (u_reservations s)" "0 \<le> q (held_totals r)" for r and q :: "totals \<Rightarrow> 'a::linordered_idom"
        using that same [of r] less [of r] same_hold_totals [OF same [of r]] by (auto simp: held_in_def same_hold_def)
      have ok: "reservation_ok r" if "r \<in> set (u_reservations s)" for r using s that by (simp add: usage_ok_def)
      show ?thesis
        unfolding totals_le_def reserved_totals_def sum_totals_fields rows map_map comp_def
        using held_nonneg [OF ok] by (intro conjI sum_filter_fewer each; simp)
    qed
    then show "usage_ok t \<and> u_ledger t = u_ledger s \<and> (\<forall>sc vs. totals_le (reserved_totals sc vs t) (reserved_totals sc vs s))"
      using update_reservations_ok [OF s run same] ledger by blast
  qed
qed

lemma released_eases:
  "keeps eases (update_reservations P (released_row now))"
  "keeps eases (update_reservations P (\<lambda>r. r\<lparr>rv_state := RsReleased\<rparr>))"
  "keeps eases (update_reservations P (\<lambda>r. r\<lparr>rv_dispatched := d\<rparr>))"
  "keeps eases (update_reservations P (\<lambda>r. r\<lparr>rv_state := RsCommitted, rv_updated := now\<rparr>))"
  by (rule update_eases; simp add: same_hold_rows released_row_def)+

lemmas easing_intros = easing.keeps_bind easing.keeps_ret easing.keeps_lift easing.keeps_guard easing.keeps_gets
  easing.keeps_select_row easing.keeps_raise keeps_if released_eases

lemma requests_ease: "keeps eases (modify (\<lambda>s. s\<lparr>u_requests := f s\<rparr>))"
  by (rule easing.keeps_modify) (simp add: eases_def usage_ok_def reserved_totals_def)

lemma easing_calls:
  "keeps eases (release_expired_reservations now)" "keeps eases (release_unsent src)" "keeps eases (mark_dispatched i)"
  "keeps eases (release now i unsent)" "keeps eases (release_expired now)"
  "keeps eases (reconcile_committed_constraints now)"
  unfolding release_expired_reservations_def release_unsent_def mark_dispatched_def release_def release_expired_def
    reconcile_committed_constraints_def reservation_row_of_def
  by (intro easing_intros)+

lemma checkpoint_eases: "keeps eases (checkpoint_model_response now i p)"
  unfolding checkpoint_model_response_def Let_def reservation_row_of_def
  by (intro easing_intros) (auto split: option.split intro!: easing_intros requests_ease)

section \<open>The ledger\<close>

definition added_rows :: "usage_db \<Rightarrow> usage_db \<Rightarrow> ledger_row list \<Rightarrow> bool" where
  "added_rows s t rows \<longleftrightarrow> u_ledger t = u_ledger s @ rows \<and> u_reservations t = u_reservations s \<and> u_requests t = u_requests s"

lemma insert_entry_adds:
  assumes "insert_entry e s = Inr (u, t)"
  shows "\<exists>rows. added_rows s t rows \<and> (rows = [] \<or> rows = [row_of_entry e])"
  using assms by (auto simp: insert_entry_def added_rows_def result_simps split: if_splits)

lemma insert_entries_add:
  assumes "map_op (\<lambda>e. bind (guard (ue_kind e = k) ValueError) (\<lambda>_. insert_entry e)) es s = Inr (us, t)"
  shows "\<exists>rows. added_rows s t rows \<and> subseq rows (map row_of_entry es)"
  using assms
proof (induction es arbitrary: s us)
  case Nil
  then show ?case by (auto simp: added_rows_def result_simps)
next
  case (Cons e es)
  then obtain s1 vs where s1: "insert_entry e s = Inr ((), s1)"
      and rest: "map_op (\<lambda>e. bind (guard (ue_kind e = k) ValueError) (\<lambda>_. insert_entry e)) es s1 = Inr (vs, t)"
    by (auto simp: result_simps)
  obtain as where as: "added_rows s s1 as" "as = [] \<or> as = [row_of_entry e]" using insert_entry_adds [OF s1] by blast
  obtain bs where bs: "added_rows s1 t bs" "subseq bs (map row_of_entry es)" using Cons.IH [OF rest] by blast
  have "added_rows s t (as @ bs)" using as(1) bs(1) by (simp add: added_rows_def)
  moreover have "subseq (as @ bs) (map row_of_entry (e # es))" using as(2) bs(2) by auto
  ultimately show ?case by blast
qed

lemma stored_entry_reads: "keeps (\<lambda>s t. t = s) (stored_entry k src)"
  unfolding stored_entry_def by (intro unchanged.keeps_bind unchanged.keeps_select_row unchanged.keeps_lift)

lemma sum_subseq_le:
  fixes g :: "'r \<Rightarrow> 'a::linordered_idom"
  assumes "subseq xs ys" and "\<And>y. y \<in> set ys \<Longrightarrow> 0 \<le> g y"
  shows "sum_list (map g (filter H xs)) \<le> sum_list (map g (filter H ys))"
  using assms by (induction rule: list_emb.induct) (auto simp: add_increasing intro!: sum_list_nonneg)

text \<open>The amounts of a constructed entry.\<close>

lemma clean_units_nonneg:
  assumes "clean_units us vs = Inr ws" and "\<And>n q. (n, q) \<in> set us \<Longrightarrow> 0 \<le> dec_value q" and "(n, q) \<in> set ws"
  shows "0 \<le> dec_value q"
  using assms
proof (induction us vs arbitrary: rule: clean_units.induct)
  case (2 us name p rest)
  have set_set: "(m, x) \<in> set (assoc_set a b d) \<Longrightarrow> (m, x) = (a, b) \<or> (m, x) \<in> set d" for m x a b and d :: "(string \<times> decimal) list"
    by (induction a b d rule: assoc_set.induct) (auto split: if_splits)
  have p: "0 \<le> dec_value p" "strip name \<noteq> []" "clean_units (assoc_set (strip name) p us) rest = Inr ws"
    using 2(2) by (auto simp: result_simps)
  show ?case
  proof (rule 2(1) [OF p(3) _ 2(4)])
    fix m x assume "(m, x) \<in> set (assoc_set (strip name) p us)"
    then show "0 \<le> dec_value x" using set_set p(1) 2(3) by blast
  qed
qed auto

lemma units_nonneg: "entry_built e \<Longrightarrow> 0 \<le> units_of name e"
proof -
  assume "entry_built e"
  then have "clean_units [] (ue_units e) = Inr (ue_units e)"
    by (auto simp: entry_built_def make_entry_def result_simps) (metis usage_entry.select_convs(8) usage_entry.surjective usage_entry.update_convs(8))
  then have "0 \<le> dec_value q" if "(n, q) \<in> set (ue_units e)" for n q
    using clean_units_nonneg that by (metis empty_iff list.set(1))
  then show ?thesis by (auto simp: units_of_def truncated_def split: option.splits dest!: map_of_SomeD)
qed

lemma entry_totals_nonneg:
  assumes "entry_built e"
  shows "0 \<le> tot_model_calls (entry_totals (row_of_entry e)) \<and> 0 \<le> tot_tool_calls (entry_totals (row_of_entry e))
    \<and> 0 \<le> tot_tokens (entry_totals (row_of_entry e)) \<and> 0 \<le> tot_cost (entry_totals (row_of_entry e))"
  using assms units_nonneg [OF assms]
  by (auto simp: entry_totals_def row_of_entry_def amount_value_def entry_built_def cost_ok_def make_cost_def Let_def
      result_simps split: option.splits)

end
