(* ===== verification/UsageBudgets.thy ===== *)
theory UsageBudgets
  imports UsageFacts
begin

text \<open>
  Budgets under fair use: one argument for the four limited quantities (model calls, tool calls, tokens,
  cost), as a locale with four interpretations.
\<close>

section \<open>Scopes\<close>

lemma scope_values_in_scope:
  assumes "scope_values u sc = Inr vs" and "in_scope vs u'"
  shows "scope_values u' sc = Inr vs"
proof -
  have "map_result (\<lambda>c. and_then (row_or ValueError (dim_value c u)) (\<lambda>v. Inr (c, v))) cs = Inr ws \<Longrightarrow>
      list_all (\<lambda>(c, v). dim_value c u' = Some v) ws \<Longrightarrow>
      map_result (\<lambda>c. and_then (row_or ValueError (dim_value c u')) (\<lambda>v. Inr (c, v))) cs = Inr ws" for cs ws
    by (induction cs arbitrary: ws) (auto simp: result_simps row_or_def)
  then show ?thesis using assms unfolding scope_values_def in_scope_def by blast
qed

lemma filter_one:
  assumes "distinct (map k rows)" and "r \<in> set rows"
  shows "filter (\<lambda>x. k x = k r \<and> H x) rows = (if H r then [r] else [])"
  using assms
proof (induction rows)
  case (Cons x rows)
  then have "k x = k r \<longleftrightarrow> x = r" by auto
  moreover have "x = r \<Longrightarrow> filter (\<lambda>x. k x = k r \<and> H x) rows = []"
    using Cons.prems(1) by (auto simp: filter_empty_conv) (metis image_eqI)
  ultimately show ?case using Cons by auto
qed simp

section \<open>One quantity\<close>

locale quantity =
  fixes tot :: "totals \<Rightarrow> 'a::linordered_idom" and limit :: "run_budget \<Rightarrow> 'a option"
  assumes tot_sum: "tot (sum_totals ts) = sum_list (map tot ts)"
    and tot_le: "totals_le t u \<Longrightarrow> tot t \<le> tot u"
    and tot_nonneg: "0 \<le> tot_model_calls t \<and> 0 \<le> tot_tool_calls t \<and> 0 \<le> tot_tokens t \<and> 0 \<le> tot_cost t \<Longrightarrow> 0 \<le> tot t"
    and enforced: "enforce_budget b c r q now = Inr () \<Longrightarrow> within_limit (limit b) (tot c) (tot r) (tot q)"
    and limit_tighter: "tighter b B \<Longrightarrow> no_looser (limit b) (limit B)"
begin

lemma eases_le:
  assumes "eases s t" and "usage_ok s"
  shows "usage_ok t \<and> committed_totals vs t = committed_totals vs s \<and> tot (reserved_totals sc vs t) \<le> tot (reserved_totals sc vs s)"
  using assms tot_le by (auto simp: eases_def committed_totals_def)

lemma added_le:
  assumes "added_rows s t rows" and "subseq rows (map row_of_entry es)" and "list_all entry_built es"
  shows "tot (committed_totals vs t) \<le> tot (committed_totals vs s) + tot (recorded vs es)"
proof -
  let ?g = "\<lambda>r. tot (entry_totals r)" and ?H = "\<lambda>r. in_scope vs (lr_dims r)"
  have "sum_list (map ?g (filter ?H rows)) \<le> sum_list (map ?g (filter ?H (map row_of_entry es)))"
    using assms(2) by (rule sum_subseq_le) (use assms(3) tot_nonneg [OF entry_totals_nonneg] in \<open>auto simp: list_all_iff\<close>)
  then show ?thesis
    using assms(1) by (simp add: committed_totals_def recorded_def added_rows_def tot_sum comp_def)
qed

lemma ingest_kept:
  assumes "usage_ok s" and "fair_call B sc vs s (Ingest e)" and "entry_built e" and run: "ingest e s = Inr (x, t)"
  shows "usage_ok t \<and> tot (committed_totals vs t) + tot (reserved_totals sc vs t)
    \<le> tot (committed_totals vs s) + tot (reserved_totals sc vs s)"
proof -
  obtain u where u: "insert_entry e s = Inr ((), u)" "stored_entry (ue_kind e) (ue_source e) u = Inr (x, t)"
    using run by (auto simp: ingest_def result_simps)
  have t: "t = u" using keepsD [OF stored_entry_reads u(2)] .
  obtain rows where rows: "added_rows s t rows" "rows = [] \<or> rows = [row_of_entry e]"
    using insert_entry_adds [OF u(1)] t by blast
  have "tot (committed_totals vs t) \<le> tot (committed_totals vs s) + tot (recorded vs [e])"
    using added_le [OF rows(1), of "[e]"] rows(2) assms(3) by auto
  moreover have "tot (recorded vs [e]) \<le> 0" using assms(2) tot_le [of "recorded vs [e]" "sum_totals []"] by (simp add: tot_sum)
  ultimately show ?thesis using rows(1) assms(1) by (simp add: added_rows_def reserved_totals_def usage_ok_def)
qed

lemma commit_kept:
  assumes ok: "usage_ok s" and fair: "fair_call B sc vs s (CommitUsage i es)" and built: "list_all entry_built es"
    and run: "commit_reservation now i es s = Inr (x, t)"
  shows "usage_ok t \<and> tot (committed_totals vs t) + tot (reserved_totals sc vs t)
    \<le> tot (committed_totals vs s) + tot (reserved_totals sc vs s)"
proof -
  let ?put = "map_op (\<lambda>e. stored_entry (ue_kind e) (ue_source e)) es"
  obtain r k u us v ids n where r: "find (\<lambda>r. rv_id r = i) (u_reservations s) = Some r"
      and u: "map_op (\<lambda>e. bind (guard (ue_kind e = k) ValueError) (\<lambda>_. insert_entry e)) es s = Inr (us, u)"
      and v: "?put u = Inr (x, v)"
      and t': "update_reservations (\<lambda>x. rv_id x = i) (settled_row now ids) v = Inr (n, t)"
    using run unfolding commit_reservation_def reservation_row_of_def result_simps
    apply (elim exE conjE)
    apply hypsubst
    apply (rule that)
       apply assumption
      apply assumption
     apply assumption
    apply assumption
    done
  have "keeps (\<lambda>s t. t = s) ?put" by (rule unchanged.keeps_map_op) (rule stored_entry_reads)
  then have "v = u" using v by (rule keepsD)
  obtain rows where rows: "added_rows s u rows" "subseq rows (map row_of_entry es)"
    using insert_entries_add [OF u] by blast
  have okv: "usage_ok u" using ok rows(1) by (simp add: usage_ok_def added_rows_def)
  have t: "update_reservations (\<lambda>x. rv_id x = i) (settled_row now ids) u = Inr (n, t)"
    using t' \<open>v = u\<close> by simp
  have ri: "r \<in> set (u_reservations s)" "rv_id r = i" using find_SomeD [OF r] by auto
  let ?g = "\<lambda>r. tot (held_totals r)"
  have resv: "u_reservations t = upd_where (\<lambda>x. rv_id x = i) (settled_row now ids) (u_reservations s)"
    using t rows(1) by (auto simp: update_reservations_def added_rows_def)
  have spent: "\<not> held_in sc vs (settled_row now ids r)" by (simp add: held_in_def settled_row_def)
  have held: "tot (reserved_totals sc vs t) + (if held_in sc vs r then ?g r else 0) = tot (reserved_totals sc vs s)"
    using sum_filter_one [of rv_id "u_reservations s" r ?g "held_in sc vs" "settled_row now ids"] ok ri spent
    by (simp add: reserved_totals_def tot_sum comp_def usage_ok_def resv)
  have "tot (held_by sc vs i s) = (if held_in sc vs r then ?g r else 0)"
    using filter_one [of rv_id "u_reservations s" r "held_in sc vs"] ok ri by (simp add: held_by_def tot_sum usage_ok_def)
  then have "tot (recorded vs es) \<le> (if held_in sc vs r then ?g r else 0)" using fair tot_le by (metis fair_call.simps(2))
  moreover have "tot (committed_totals vs t) \<le> tot (committed_totals vs s) + tot (recorded vs es)"
    using added_le [OF rows built] t by (auto simp: update_reservations_def committed_totals_def)
  ultimately have "tot (committed_totals vs t) + tot (reserved_totals sc vs t)
      \<le> tot (committed_totals vs s) + tot (reserved_totals sc vs s)" using held by simp
  then show ?thesis using update_reservations_ok [OF okv t same_hold_rows(3)] by blast
qed

lemma new_hold:
  assumes ok: "usage_ok s" and q: "request_built q" "0 \<le> ur_model_calls q \<and> 0 \<le> ur_tool_calls q \<and> 0 \<le> ur_tokens q"
    and run: "insert_reservation (reservation_for q now e i) (s\<lparr>u_draws := d\<rparr>) = Inr (u, t)"
  shows "usage_ok t \<and> committed_totals vs t = committed_totals vs s
    \<and> tot (reserved_totals sc vs t) = tot (reserved_totals sc vs s)
        + (if b_scope (ur_budget q) = sc \<and> in_scope vs (ur_dims q) then tot (requested_totals q) else 0)"
proof -
  let ?row = "row_of_reservation (reservation_for q now e i)"
  have t: "t = s\<lparr>u_draws := d, u_reservations := u_reservations s @ [?row]\<rparr>"
      and fresh: "i \<notin> rv_id ` set (u_reservations s)" "strip (ur_key q) \<notin> rv_key ` set (u_reservations s)"
    using run by (auto simp: insert_reservation_def result_simps reservation_for_def)
  have row: "rv_id ?row = i" "rv_key ?row = strip (ur_key q)" "held_totals ?row = requested_totals q"
      "held_in sc vs ?row \<longleftrightarrow> b_scope (ur_budget q) = sc \<and> in_scope vs (ur_dims q)"
    by (simp_all add: row_of_reservation_def reservation_for_def held_totals_def requested_totals_def held_in_def)
  have "0 \<le> amount_value (xc_amount (ur_cost q))"
    using q(1) by (auto simp: request_built_def cost_ok_def make_cost_def amount_value_def result_simps Let_def split: option.splits)
  then have "reservation_ok ?row"
    using q by (simp add: reservation_ok_def row_of_reservation_def reservation_for_def request_built_def)
  then have "usage_ok t" using ok fresh row by (simp add: usage_ok_def t)
  then show ?thesis using row by (simp add: t committed_totals_def reserved_totals_def tot_sum)
qed

lemma reopened_hold:
  assumes ok: "usage_ok s" and r: "r \<in> set (u_reservations s)" "rv_state r = RsReleased"
    and work: "reservation_of_row r = Inr b" "same_work q b" and scope: "rv_scope r = b_scope (ur_budget q)"
    and run: "update_reservations (\<lambda>x. rv_id x = br_id b) (reopened_row bud now e) s = Inr (n, t)"
  shows "usage_ok t \<and> committed_totals vs t = committed_totals vs s
    \<and> tot (reserved_totals sc vs t) = tot (reserved_totals sc vs s)
        + (if b_scope (ur_budget q) = sc \<and> in_scope vs (ur_dims q) then tot (requested_totals q) else 0)"
proof -
  let ?g = "\<lambda>r. tot (held_totals r)" and ?f = "reopened_row bud now e"
  have ok_r: "dims_built (rv_dims r)" using ok r(1) by (simp add: usage_ok_def reservation_ok_def)
  have b: "br_id b = rv_id r" "rv_dims r = ur_dims q" "rv_model_calls r = ur_model_calls q"
      "rv_tool_calls r = ur_tool_calls q" "rv_tokens r = ur_tokens q"
      "amount_value (rv_amount r) = amount_value (xc_amount (ur_cost q))" "rv_known r = xc_known (ur_cost q)"
    using work ok_r by (auto simp: reservation_of_row_def make_reservation_def same_work_def cost_eq_def make_cost_def
        dims_built_def amount_value_def Let_def result_simps split: option.splits)
  have same: "held_totals r = requested_totals q" using b by (simp add: held_totals_def requested_totals_def)
  have t: "t = s\<lparr>u_reservations := upd_where (\<lambda>x. rv_id x = rv_id r) ?f (u_reservations s)\<rparr>"
    using run b(1) by (simp add: update_reservations_def)
  have "\<not> held_in sc vs r" using r(2) by (simp add: held_in_def)
  moreover have "held_in sc vs (?f r) \<longleftrightarrow> b_scope (ur_budget q) = sc \<and> in_scope vs (ur_dims q)"
    using scope b(2) by (simp add: held_in_def reopened_row_def)
  moreover have "held_totals (?f r) = requested_totals q"
    using same same_hold_totals [OF same_hold_rows(2) [of r]] by metis
  ultimately have "tot (reserved_totals sc vs t) = tot (reserved_totals sc vs s)
      + (if b_scope (ur_budget q) = sc \<and> in_scope vs (ur_dims q) then tot (requested_totals q) else 0)"
    using sum_filter_one [of rv_id "u_reservations s" r ?g "held_in sc vs" ?f] ok r(1)
    by (simp add: t reserved_totals_def tot_sum comp_def usage_ok_def)
  then show ?thesis
    using update_reservations_ok [OF ok run same_hold_rows(2)] by (simp add: t committed_totals_def)
qed

text \<open>What \<open>B\<close> allows still holds.\<close>

lemma lower_within:
  "within_limit l a b 0 \<Longrightarrow> a' + b' \<le> a + b \<Longrightarrow> within_limit l a' b' (0::'a)"
  by (auto simp: within_limit_def split: option.splits)

lemma enforced_within:
  assumes "enforce_budget b c r q now = Inr ()" and "tighter b B" and "a = tot c" and "d = tot r + tot q"
  shows "within_limit (limit B) a d 0"
  using enforced [OF assms(1)] limit_tighter [OF assms(2)] assms(3,4)
  by (auto simp: within_limit_def no_looser_def add.assoc split: option.splits)

text \<open>The two ways a reservation is made, from the database in which expired ones were released.\<close>

lemma granted_within:
  assumes vs: "scope_values u sc = Inr vs" "scope_values (ur_dims q) (b_scope (ur_budget q)) = Inr vs'"
    and before: "usage_ok s" "within_limit (limit B) (tot (committed_totals vs s)) (tot (reserved_totals sc vs s)) 0"
    and fair: "b_scope (ur_budget q) = sc \<and> in_scope vs (ur_dims q) \<longrightarrow> tighter (ur_budget q) B"
    and allowed: "enforce_budget (ur_budget q) (committed_totals vs' s)
      (reserved_totals (b_scope (ur_budget q)) vs' s) (requested_totals q) now = Inr ()"
    and after: "usage_ok t \<and> committed_totals vs t = committed_totals vs s
      \<and> tot (reserved_totals sc vs t) = tot (reserved_totals sc vs s)
          + (if b_scope (ur_budget q) = sc \<and> in_scope vs (ur_dims q) then tot (requested_totals q) else 0)"
  shows "usage_ok t \<and> within_limit (limit B) (tot (committed_totals vs t)) (tot (reserved_totals sc vs t)) 0"
proof (cases "b_scope (ur_budget q) = sc \<and> in_scope vs (ur_dims q)")
  case True
  then have "vs' = vs" using scope_values_in_scope [OF vs(1)] vs(2) by auto
  then show ?thesis using enforced_within [OF allowed] True fair after by auto
next
  case False
  then show ?thesis using before(2) after by (simp only: if_False add_0_right)
qed

lemma reserve_within:
  assumes vs: "scope_values u sc = Inr vs" and built: "request_built q" and fair: "fair_call B sc vs s (Reserve q)"
    and ok: "usage_ok s" and within: "within_limit (limit B) (tot (committed_totals vs s)) (tot (reserved_totals sc vs s)) 0"
  shows "post (reserve w ttl now q)
    (\<lambda>_ t. usage_ok t \<and> within_limit (limit B) (tot (committed_totals vs t)) (tot (reserved_totals sc vs t)) 0) s"
    (is "post _ (\<lambda>_. ?good) s")
proof -
  have good: "?good s" using ok within ..
  have tight: "b_scope (ur_budget q) = sc \<and> in_scope vs (ur_dims q) \<longrightarrow> tighter (ur_budget q) B" using fair by simp
  have eased: "?good t" "\<forall>r\<in>set (u_reservations s). rv_state r = RsReleased \<longrightarrow> r \<in> set (u_reservations t)"
    if "release_expired_reservations now s = Inr (n, t)" for n t
  proof -
    have "eases s t" using keepsD [OF easing_calls(1) that] .
    from eases_le [OF this ok] show "?good t" using lower_within [OF within] by (metis add_left_mono)
    show "\<forall>r\<in>set (u_reservations s). rv_state r = RsReleased \<longrightarrow> r \<in> set (u_reservations t)"
      using that by (force simp: release_expired_reservations_def update_reservations_def table_simps)
  qed
  have fresh: "?good t"
    if "scope_values (ur_dims q) (b_scope (ur_budget q)) = Inr x" "release_expired_reservations now s = Inr (n, s1)"
      "enforce_budget (ur_budget q) (committed_totals x s1) (reserved_totals (b_scope (ur_budget q)) x s1)
        (requested_totals q) now = Inr ()"
      "0 \<le> ur_model_calls q \<and> 0 \<le> ur_tool_calls q \<and> 0 \<le> ur_tokens q"
      "insert_reservation (reservation_for q now e i) (s1\<lparr>u_draws := d\<rparr>) = Inr (y, t)" for x n s1 e i d y t
    using eased(1) [OF that(2)] granted_within [OF vs that(1) _ _ tight that(3) new_hold [OF _ built that(4,5)]] by blast
  have again: "?good t"
    if "scope_values (ur_dims q) (b_scope (ur_budget q)) = Inr x" "release_expired_reservations now s = Inr (n, s1)"
      "enforce_budget (ur_budget q) (committed_totals x s1) (reserved_totals (b_scope (ur_budget q)) x s1)
        (requested_totals q) now = Inr ()"
      "find (\<lambda>r. rv_key r = strip (ur_key q)) (u_reservations s) = Some r" "rv_state r = RsReleased"
      "reservation_of_row r = Inr b" "same_work q b"
      "update_reservations (\<lambda>x. rv_id x = br_id b) (reopened_row bud now e) s1 = Inr (m, t)" for x n s1 r b bud e m t
  proof -
    have r: "r \<in> set (u_reservations s1)" "rv_scope r = b_scope (ur_budget q)"
      using find_SomeD [OF that(4)] eased(2) [OF that(2)] that(5) fair by (auto simp: list_all_iff)
    from eased(1) [OF that(2)] granted_within [OF vs that(1) _ _ tight that(3)
        reopened_hold [OF _ r(1) that(5,6,7) r(2) that(8)]] show ?thesis by blast
  qed
  show ?thesis
    unfolding reserve_def
    apply (rule post_bind, rule post_guard, rule post_bind, rule post_guard, rule post_bind, rule post_lift)
    apply (rule post_bind, rule post_gets, rule post_if, rule post_lift, rule good)
    apply (rule post_bind, rule postI)
    apply (rule post_bind, rule post_gets, rule post_bind, rule post_gets, rule post_bind, rule post_lift)
    apply (rule post_case_option)
     apply (rule post_bind, rule postI)
     apply (clarsimp simp: draw_usage_id_def)
     apply (rule post_bind, rule post_lift, rule post_bind, rule postI, rule post_ret)
     apply (rule fresh; (simp add: make_reservation_def result_simps)?)
    apply (rule post_bind, rule post_lift, rule post_bind, rule post_guard, rule post_bind, rule postI)
    apply (rule post_bind, unfold reservation_row_of_def, rule post_select_row, rule post_lift)
    apply (rule again; (assumption | simp add: reopenable_def))
    done
qed

text \<open>Every call, and every history.\<close>

lemma call_within:
  assumes vs: "scope_values u sc = Inr vs" and built: "call_built c" and fair: "fair_call B sc vs s c" and ok: "usage_ok s"
    and within: "within_limit (limit B) (tot (committed_totals vs s)) (tot (reserved_totals sc vs s)) 0"
    and run: "exec_usage w ttl now c s = Inr (x, t)"
  shows "usage_ok t \<and> within_limit (limit B) (tot (committed_totals vs t)) (tot (reserved_totals sc vs t)) 0"
proof -
  note less = lower_within [OF within]
  have easy: ?thesis if "eases s t"
    using eases_le [OF that ok] less by (metis add_left_mono)
  show ?thesis
  proof (cases c)
    case (Reserve q)
    then show ?thesis using postD [OF reserve_within [OF vs _ _ ok within]] built fair run by (auto simp: done_after_eq)
  next
    case (CommitUsage i es)
    then show ?thesis using commit_kept [OF ok] built fair run less by (fastforce simp: done_after_eq)
  next
    case (Ingest e)
    then show ?thesis using ingest_kept [OF ok] built fair run less by (fastforce simp: done_after_eq)
  qed (use run easy in \<open>auto simp: done_after_eq dest: keepsD [OF easing_calls(2)] keepsD [OF easing_calls(3)]
      keepsD [OF easing_calls(4)] keepsD [OF easing_calls(5)] keepsD [OF easing_calls(6)] keepsD [OF checkpoint_eases]\<close>)
qed

lemma history_within:
  assumes vs: "scope_values u sc = Inr vs"
  shows "list_all (\<lambda>tc. call_built (snd tc)) h \<Longrightarrow> fair_use B sc vs w ttl h s \<Longrightarrow> usage_ok s \<Longrightarrow>
    within_limit (limit B) (tot (committed_totals vs s)) (tot (reserved_totals sc vs s)) 0 \<Longrightarrow>
    (let t = usage_history w ttl h s in
      usage_ok t \<and> within_limit (limit B) (tot (committed_totals vs t)) (tot (reserved_totals sc vs t)) 0)"
proof (induction h arbitrary: s)
  case (Cons tc h)
  let ?t = "usage_after w ttl tc s"
  have built: "call_built (snd tc)" and fair: "fair_call B sc vs s (snd tc)" using Cons.prems(1,2) by auto
  have "usage_ok ?t \<and> within_limit (limit B) (tot (committed_totals vs ?t)) (tot (reserved_totals sc vs ?t)) 0"
    using call_within [OF vs built fair Cons.prems(3,4)] Cons.prems(3,4)
    unfolding usage_after_def commit_def by (auto split: sum.splits)
  then show ?case using Cons.IH [of ?t] Cons.prems(1,2) by (simp add: usage_history_def Let_def)
qed (simp add: usage_history_def)

end

section \<open>The four quantities\<close>

lemma enforced_all:
  "enforce_budget b c r q now = Inr () \<Longrightarrow>
     within_limit (b_model_calls b) (tot_model_calls c) (tot_model_calls r) (tot_model_calls q)
     \<and> within_limit (b_tool_calls b) (tot_tool_calls c) (tot_tool_calls r) (tot_tool_calls q)
     \<and> within_limit (b_tokens b) (tot_tokens c) (tot_tokens r) (tot_tokens q)
     \<and> within_limit (cost_limit b) (tot_cost c) (tot_cost r) (tot_cost q)"
  by (auto simp: enforce_budget_def result_simps)

interpretation model_call_use: quantity tot_model_calls b_model_calls
  by unfold_locales (auto simp: sum_totals_fields totals_le_def tighter_def dest: enforced_all)

interpretation tool_call_use: quantity tot_tool_calls b_tool_calls
  by unfold_locales (auto simp: sum_totals_fields totals_le_def tighter_def dest: enforced_all)

interpretation token_use: quantity tot_tokens b_tokens
  by unfold_locales (auto simp: sum_totals_fields totals_le_def tighter_def dest: enforced_all)

interpretation cost_use: quantity tot_cost cost_limit
  by unfold_locales (auto simp: sum_totals_fields totals_le_def tighter_def dest: enforced_all)

lemma usage_ok_empty [simp]: "usage_ok empty_usage"
  by (simp add: usage_ok_def empty_usage_def)

text \<open>A constructed budget allows nothing to be recorded yet.\<close>

lemma empty_within:
  assumes "budget_ok B"
  shows "within_budget B (committed_totals vs empty_usage) (reserved_totals sc vs empty_usage)"
proof -
  have "0 \<le> amount_value (xc_amount c)" if "b_cost B = Some c" for c
    using assms that by (auto simp: budget_ok_def cost_ok_def make_cost_def amount_value_def result_simps Let_def
        split: option.splits)
  moreover have "positive_or_none (b_model_calls B) \<and> positive_or_none (b_tool_calls B) \<and> positive_or_none (b_tokens B)"
    using assms by (auto simp: budget_ok_def make_budget_def result_simps)
  ultimately show ?thesis
    by (auto simp: within_budget_def within_limit_def committed_totals_def reserved_totals_def empty_usage_def
        sum_totals_fields positive_or_none_def cost_limit_def split: option.splits)
qed

lemma fair_history_within:
  assumes "scope_values u sc = Inr vs" and "list_all (\<lambda>tc. call_built (snd tc)) h"
    and "fair_use B sc vs w ttl h s" and "usage_ok s"
    and "within_budget B (committed_totals vs s) (reserved_totals sc vs s)"
  shows "within_budget B (committed_totals vs (usage_history w ttl h s)) (reserved_totals sc vs (usage_history w ttl h s))"
  using model_call_use.history_within [OF assms(1-4)] tool_call_use.history_within [OF assms(1-4)]
    token_use.history_within [OF assms(1-4)] cost_use.history_within [OF assms(1-4)] assms(5)
  by (simp add: within_budget_def Let_def)

end
