(* ===== verification/UsagePages.thy ===== *)
theory UsagePages
  imports UsageFacts
begin

text \<open>
  The ledger only grows, records every event once, and its pages enumerate what a query selects.
\<close>

section \<open>What is recorded stays\<close>

definition ledger_ok :: "usage_db \<Rightarrow> bool" where
  "ledger_ok s \<longleftrightarrow>
     distinct (map lr_id (u_ledger s)) \<and> distinct (map (\<lambda>r. (lr_kind r, lr_source r)) (u_ledger s))
     \<and> (\<forall>r\<in>set (u_ledger s). \<exists>e. entry_built e \<and> r = row_of_entry e)"

definition ledger_grows :: "usage_db \<Rightarrow> usage_db \<Rightarrow> bool" where
  "ledger_grows s t \<longleftrightarrow> (\<exists>rows. u_ledger t = u_ledger s @ rows) \<and> (ledger_ok s \<longrightarrow> ledger_ok t)"

interpretation entry_log: evolution ledger_grows
proof
  show "ledger_grows s s" for s by (simp add: ledger_grows_def)
  fix s t u assume "ledger_grows s t" "ledger_grows t u"
  then show "ledger_grows s u" by (auto simp: ledger_grows_def)
qed

lemma same_entries: "u_ledger t = u_ledger s \<Longrightarrow> ledger_grows s t"
  by (simp add: ledger_grows_def ledger_ok_def)

lemma update_reservations_ledger: "keeps ledger_grows (update_reservations P f)"
  by (rule keepsI, rule same_entries) (auto simp: update_reservations_def)

lemma insert_entry_ledger: "entry_built e \<Longrightarrow> keeps ledger_grows (insert_entry e)"
  by (rule keepsI)
    (auto simp: insert_entry_def ledger_grows_def ledger_ok_def result_simps row_of_entry_def split: if_splits)

lemma other_writes_ledger:
  "keeps ledger_grows (draw_usage_id w)" "keeps ledger_grows (insert_reservation b)"
  "keeps ledger_grows (modify (\<lambda>s. s\<lparr>u_requests := g s\<rparr>))"
  by (rule keepsI, rule same_entries, auto simp: draw_usage_id_def insert_reservation_def result_simps)+

lemmas ledger_intros = entry_log.keeps_bind entry_log.keeps_ret entry_log.keeps_lift entry_log.keeps_guard entry_log.keeps_gets
  entry_log.keeps_select_row entry_log.keeps_raise keeps_if keeps_case_option
  update_reservations_ledger other_writes_ledger

lemma stored_entry_ledger: "keeps ledger_grows (stored_entry k src)"
  unfolding stored_entry_def by (intro ledger_intros)

lemma map_op_ledger:
  "(\<And>x. x \<in> set xs \<Longrightarrow> keeps ledger_grows (f x)) \<Longrightarrow> keeps ledger_grows (map_op f xs)"
  by (induction xs) (auto intro!: ledger_intros)

lemma exec_usage_ledger:
  assumes "call_built c"
  shows "keeps ledger_grows (exec_usage w ttl now c)"
proof (cases c)
  case (CommitUsage i es)
  have "keeps ledger_grows (map_op (\<lambda>e. bind (guard (ue_kind e = k) ValueError) (\<lambda>_. insert_entry e)) es)" for k
    by (rule map_op_ledger) (use assms CommitUsage in \<open>auto simp: list_all_iff intro!: ledger_intros insert_entry_ledger\<close>)
  moreover have "keeps ledger_grows (map_op (\<lambda>e. stored_entry (ue_kind e) (ue_source e)) es)"
    by (rule entry_log.keeps_map_op) (rule stored_entry_ledger)
  ultimately show ?thesis
    unfolding CommitUsage exec_usage.simps commit_reservation_def done_after_def reservation_row_of_def
    by (intro ledger_intros)
next
  case (Ingest e)
  then show ?thesis
    using assms unfolding Ingest exec_usage.simps ingest_def done_after_def
    by (auto intro!: ledger_intros insert_entry_ledger stored_entry_ledger)
next
  case (CheckpointResponse i p)
  then show ?thesis
    unfolding CheckpointResponse exec_usage.simps checkpoint_model_response_def done_after_def Let_def reservation_row_of_def
    by (auto intro!: ledger_intros split: option.split)
qed (auto simp: reserve_def release_unsent_def mark_dispatched_def release_def release_expired_def
    release_expired_reservations_def reconcile_committed_constraints_def done_after_def reservation_row_of_def
    intro!: ledger_intros)

lemma usage_history_ledger:
  assumes "list_all (\<lambda>tc. call_built (snd tc)) h"
  shows "ledger_grows s (usage_history w ttl h s)"
  using assms
proof (induction h arbitrary: s)
  case (Cons tc h)
  have "ledger_grows s (usage_after w ttl tc s)"
    unfolding usage_after_def using Cons.prems by (intro entry_log.commit_keeps exec_usage_ledger) simp
  moreover have "ledger_grows (usage_after w ttl tc s) (usage_history w ttl h (usage_after w ttl tc s))"
    using Cons by simp
  ultimately show ?case by (simp add: usage_history_def entry_log.later)
qed (simp add: usage_history_def entry_log.same)

lemma ledger_ok_empty [simp]: "ledger_ok empty_usage"
  by (simp add: ledger_ok_def empty_usage_def)

section \<open>Reading entries back\<close>

definition stored_form :: "usage_entry \<Rightarrow> usage_entry" where
  "stored_form e = e\<lparr>ue_units := sort_key fst (ue_units e), ue_meta := json_plain (ue_meta e)\<rparr>"

definition units_ok :: "(string \<times> decimal) list \<Rightarrow> bool" where
  "units_ok us \<longleftrightarrow> distinct (map fst us) \<and> (\<forall>(n, q)\<in>set us. strip n = n \<and> n \<noteq> [] \<and> 0 \<le> dec_value q)"

lemma assoc_set_keys: "fst ` set (assoc_set k v d) = insert k (fst ` set d)"
  by (induction k v d rule: assoc_set.induct) auto

lemma assoc_set_distinct: "distinct (map fst d) \<Longrightarrow> distinct (map fst (assoc_set k v d))"
  by (induction k v d rule: assoc_set.induct) (auto simp: assoc_set_keys)

lemma assoc_set_entries: "(m, x) \<in> set (assoc_set k v d) \<Longrightarrow> (m, x) = (k, v) \<or> (m, x) \<in> set d"
  by (induction k v d rule: assoc_set.induct) (auto split: if_splits)

lemma assoc_set_fresh: "k \<notin> fst ` set d \<Longrightarrow> assoc_set k v d = d @ [(k, v)]"
  by (induction k v d rule: assoc_set.induct) auto

lemma clean_units_ok: "clean_units us vs = Inr ws \<Longrightarrow> units_ok us \<Longrightarrow> units_ok ws"
proof (induction us vs rule: clean_units.induct)
  case (2 us name q rest)
  have run: "strip name \<noteq> []" "0 \<le> dec_value q" "clean_units (assoc_set (strip name) q us) rest = Inr ws"
    using 2(2) by (auto simp: result_simps)
  have "units_ok (assoc_set (strip name) q us)"
    using 2(3) run(1,2) assoc_set_distinct unfolding units_ok_def by (auto dest!: assoc_set_entries)
  then show ?case by (rule 2(1) [OF run(3)])
qed simp

lemma clean_units_id: "units_ok (us @ vs) \<Longrightarrow> clean_units us vs = Inr (us @ vs)"
  by (induction us vs rule: clean_units.induct) (auto simp: units_ok_def assoc_set_fresh)

lemma built_units: "entry_built e \<Longrightarrow> units_ok (ue_units e)"
proof -
  assume "entry_built e"
  then have "clean_units [] (ue_units e) = Inr (ue_units e)"
    by (auto simp: entry_built_def make_entry_def result_simps) (metis usage_entry.select_convs(8) usage_entry.surjective usage_entry.update_convs(8))
  then show ?thesis using clean_units_ok by (force simp: units_ok_def)
qed

lemma sorted_units: "units_ok us \<Longrightarrow> clean_units [] (sort_key fst us) = Inr (sort_key fst us)"
  using clean_units_id [of "[]" "sort_key fst us"] by (simp add: units_ok_def distinct_map)

lemma entry_of_row_of_entry:
  assumes "entry_built e"
  shows "entry_of_row (row_of_entry e) = Inr (stored_form e)"
proof -
  have cost: "make_cost \<lparr>xc_amount = xc_amount (ue_cost e), xc_currency = xc_currency (ue_cost e), xc_known = xc_known (ue_cost e),
      xc_estimated = xc_estimated (ue_cost e), xc_reported = xc_reported (ue_cost e)\<rparr> = Inr (ue_cost e)"
    using assms by (cases "ue_cost e") (simp add: entry_built_def cost_ok_def)
  have checks: "strip (ue_id e) \<noteq> []" "strip (ue_source e) \<noteq> []" "strip (ue_period e) \<noteq> []" "strip (ue_purpose e) \<noteq> []"
    using assms by (auto simp: entry_built_def make_entry_def result_simps)
  have "make_dimensions (ue_dims e) = Inr (ue_dims e)" using assms by (simp add: entry_built_def dims_built_def)
  then have "entry_of_row (row_of_entry e) = Inr \<lparr>ue_id = ue_id e, ue_kind = ue_kind e, ue_source = ue_source e,
      ue_dims = ue_dims e, ue_occurred = ue_occurred e, ue_period = ue_period e, ue_purpose = ue_purpose e,
      ue_units = sort_key fst (ue_units e), ue_cost = ue_cost e, ue_provider = ue_provider e, ue_model = ue_model e,
      ue_service = ue_service e, ue_credential = ue_credential e, ue_profile = ue_profile e,
      ue_estimated = ue_estimated e, ue_trace = ue_trace e, ue_meta = json_plain (ue_meta e)\<rparr>"
    using checks cost sorted_units [OF built_units [OF assms]]
    by (simp add: entry_of_row_def row_of_entry_def make_entry_def)
  then show ?thesis by (cases e) (simp add: stored_form_def)
qed

section \<open>Pages\<close>

definition matching :: "usage_query \<Rightarrow> usage_db \<Rightarrow> ledger_row list" where
  "matching q s = sort_key row_time (filter (\<lambda>r. selected q r \<and> after_cursor (uq_cursor q) r) (u_ledger s))"

text \<open>Following the cursors from page to page.\<close>

fun read_pages :: "nat \<Rightarrow> usage_query \<Rightarrow> usage_db \<Rightarrow> usage_entry list option" where
  "read_pages 0 q s = None"
| "read_pages (Suc n) q s =
     (case query q s of
        Inl e \<Rightarrow> None
      | Inr (p, t) \<Rightarrow>
          (case up_next p of
             None \<Rightarrow> Some (up_entries p)
           | Some c \<Rightarrow> map_option (\<lambda>es. up_entries p @ es) (read_pages n (q\<lparr>uq_cursor := Some c\<rparr>) s)))"

lemma filter_after:
  fixes k :: "'a \<Rightarrow> 'b::linorder"
  assumes "sorted (map k xs)" and "distinct (map k xs)" and "0 < n" and "n \<le> length xs"
  shows "filter (\<lambda>x. k (last (take n xs)) < k x) xs = drop n xs"
proof -
  have less: "sorted_wrt (\<lambda>x y. k x < k y) xs"
    using assms(1,2) by (simp add: strict_sorted_iff sorted_wrt_map [symmetric])
  have split: "xs = take n xs @ drop n xs" by simp
  have ne: "take n xs \<noteq> []" using assms(3,4) by auto
  have later: "k x < k y" if "x \<in> set (take n xs)" "y \<in> set (drop n xs)" for x y
    using less that by (metis split sorted_wrt_append)
  have "sorted_wrt (\<lambda>x y. k x < k y) (butlast (take n xs) @ [last (take n xs)])"
    using less ne by (metis append_butlast_last_id split sorted_wrt_append)
  then have "\<not> k (last (take n xs)) < k x" if "x \<in> set (take n xs)" for x
    using that ne by (metis append_butlast_last_id less_asym order_less_irrefl set_ConsD set_append Un_iff sorted_wrt_append list.set_intros(1) empty_iff list.set(1))
  then have "filter (\<lambda>x. k (last (take n xs)) < k x) (take n xs) = []" by (simp add: filter_empty_conv)
  moreover have "filter (\<lambda>x. k (last (take n xs)) < k x) (drop n xs) = drop n xs"
    using later [OF last_in_set [OF ne]] by (simp add: filter_id_conv)
  ultimately show ?thesis by (metis append_Nil filter_append split)
qed

text \<open>Stored rows read back as entries.\<close>

definition read_back :: "ledger_row \<Rightarrow> usage_entry" where
  "read_back r = projr (entry_of_row r)"

lemma read_back:
  assumes "ledger_ok s" and "r \<in> set (u_ledger s)"
  shows "entry_of_row r = Inr (read_back r)" and "ue_occurred (read_back r) = lr_occurred r"
    and "ue_id (read_back r) = lr_id r" and "lr_id r \<noteq> []"
proof -
  obtain e where e: "entry_built e" "r = row_of_entry e" using assms by (auto simp: ledger_ok_def)
  note read = entry_of_row_of_entry [OF e(1), folded e(2)]
  show "entry_of_row r = Inr (read_back r)" using read by (simp add: read_back_def)
  show "ue_occurred (read_back r) = lr_occurred r" "ue_id (read_back r) = lr_id r"
    using read e(2) by (simp_all add: read_back_def stored_form_def row_of_entry_def)
  show "lr_id r \<noteq> []" using e by (auto simp: entry_built_def make_entry_def row_of_entry_def result_simps)
qed

lemma matching_rows: "set (matching q s) \<subseteq> set (u_ledger s)"
  by (auto simp: matching_def)

lemma matching_strict:
  assumes "ledger_ok s"
  shows "sorted (map row_time (matching q s)) \<and> distinct (map row_time (matching q s))"
proof -
  have "distinct (map row_time (u_ledger s))"
    using assms by (auto simp: ledger_ok_def distinct_map row_time_def inj_on_def)
  then have "distinct (map row_time (filter (\<lambda>r. selected q r \<and> after_cursor (uq_cursor q) r) (u_ledger s)))"
    by (rule distinct_map_filter)
  then have "distinct (map row_time (matching q s))"
    by (auto simp: matching_def distinct_map inj_on_def)
  then show ?thesis by (simp add: matching_def)
qed

lemma next_matching:
  assumes "ledger_ok s" and "0 < n" and "n < length (matching q s)"
  shows "matching (q\<lparr>uq_cursor := Some (row_time (last (take n (matching q s))))\<rparr>) s = drop n (matching q s)"
proof -
  let ?k = "row_time (last (take n (matching q s)))"
  have "take n (matching q s) \<noteq> []" using assms(2,3) by auto
  then have "last (take n (matching q s)) \<in> set (matching q s)" by (meson in_set_takeD last_in_set)
  then have "after_cursor (uq_cursor q) (last (take n (matching q s)))" by (auto simp: matching_def)
  then have cursor: "?k < row_time r \<Longrightarrow> after_cursor (uq_cursor q) r" for r
    by (auto simp: after_cursor_def split: option.splits)
  have "selected (q\<lparr>uq_cursor := c\<rparr>) r = selected q r" for c r by (simp add: selected_def)
  then have "filter (\<lambda>r. selected (q\<lparr>uq_cursor := Some ?k\<rparr>) r \<and> after_cursor (Some ?k) r) (u_ledger s)
      = filter (\<lambda>r. ?k < row_time r) (filter (\<lambda>r. selected q r \<and> after_cursor (uq_cursor q) r) (u_ledger s))"
    using cursor by (auto simp: after_cursor_def intro!: filter_cong)
  then have "matching (q\<lparr>uq_cursor := Some ?k\<rparr>) s = filter (\<lambda>r. ?k < row_time r) (matching q s)"
    by (simp add: matching_def filter_sort)
  also have "\<dots> = drop n (matching q s)"
    using filter_after [of row_time "matching q s" n] matching_strict [OF assms(1)] assms(2,3) by simp
  finally show ?thesis .
qed

lemma query_matching:
  assumes s: "ledger_ok s" and n: "1 \<le> uq_limit q" and c: "\<forall>k. uq_cursor q = Some k \<longrightarrow> snd k \<noteq> []"
  shows "query q s = Inr (\<lparr>up_entries = map read_back (take (nat (uq_limit q)) (matching q s)),
    up_next = (if nat (uq_limit q) < length (matching q s)
               then Some (row_time (last (take (nat (uq_limit q)) (matching q s)))) else None)\<rparr>, s)"
proof -
  let ?n = "nat (uq_limit q)" and ?m = "matching q s"
  have guard: "case uq_cursor q of None \<Rightarrow> True | Some (t, i) \<Rightarrow> i \<noteq> []"
    using c by (auto split: option.splits)
  have read: "map_result entry_of_row (take ?n ?m) = Inr (map read_back (take ?n ?m))"
    by (rule map_result_Inr) (meson in_set_takeD matching_rows read_back(1) s subsetD)
  have ne: "take ?n ?m \<noteq> []" "last (take ?n ?m) \<in> set (u_ledger s)" if "?n < length ?m"
  proof -
    show "take ?n ?m \<noteq> []" using that n by auto
    then show "last (take ?n ?m) \<in> set (u_ledger s)" by (meson in_set_takeD last_in_set matching_rows subsetD)
  qed
  have cursor: "(ue_occurred (last (map read_back (take ?n ?m))), ue_id (last (map read_back (take ?n ?m)))) = row_time (last (take ?n ?m))"
    if "?n < length ?m"
    using ne [OF that] read_back(2,3) [OF s] by (simp add: last_map row_time_def)
  have rows: "take ?n (take (Suc ?n) ?m) = take ?n ?m" "?n < length (take (Suc ?n) ?m) \<longleftrightarrow> ?n < length ?m"
    by (auto simp: min_def)
  have "query q s = Inr (\<lparr>up_entries = map read_back (take ?n ?m),
      up_next = (if ?n < length ?m \<and> map read_back (take ?n ?m) \<noteq> []
                 then Some (ue_occurred (last (map read_back (take ?n ?m))), ue_id (last (map read_back (take ?n ?m)))) else None)\<rparr>, s)"
    unfolding query_def matching_def [symmetric] bind_def guard_def gets_def lift_def ret_def
    by (simp only: guard if_True sum.case prod.case rows read)
  then show ?thesis using cursor ne by (cases "?n < length ?m") auto
qed

lemma read_pages_all:
  assumes "ledger_ok s" and "1 \<le> uq_limit q" and "\<forall>k. uq_cursor q = Some k \<longrightarrow> snd k \<noteq> []"
    and "length (matching q s) \<le> n"
  shows "read_pages (Suc n) q s = Some (map read_back (matching q s))"
  using assms
proof (induction n arbitrary: q)
  case 0
  then show ?case using query_matching [OF 0(1-3)] by simp
next
  case (Suc n)
  let ?l = "nat (uq_limit q)" and ?m = "matching q s"
  show ?case
  proof (cases "?l < length ?m")
    case True
    let ?c = "row_time (last (take ?l ?m))"
    have l: "0 < ?l" using Suc.prems(2) by simp
    have rest: "matching (q\<lparr>uq_cursor := Some ?c\<rparr>) s = drop ?l ?m" by (rule next_matching [OF Suc.prems(1) l True])
    have "take ?l ?m \<noteq> []" using True l by auto
    then have "last (take ?l ?m) \<in> set (u_ledger s)" by (meson in_set_takeD last_in_set matching_rows subsetD)
    then have "snd ?c \<noteq> []" using read_back(4) [OF Suc.prems(1)] by (simp add: row_time_def)
    then have "read_pages (Suc n) (q\<lparr>uq_cursor := Some ?c\<rparr>) s = Some (map read_back (drop ?l ?m))"
      using Suc.IH [of "q\<lparr>uq_cursor := Some ?c\<rparr>"] Suc.prems l rest by simp
    then show ?thesis
      using query_matching [OF Suc.prems(1-3)] True
      by (simp del: read_pages.simps add: read_pages.simps(2) [of "Suc n"] flip: map_append)
  next
    case False
    then show ?thesis using query_matching [OF Suc.prems(1-3)] by simp
  qed
qed

lemma pages_of_query:
  assumes "ledger_ok s" and "make_usage_query q = Inr q" and "uq_cursor q = None"
  shows "\<exists>es. read_pages (Suc (length (u_ledger s))) q s = Some es
    \<and> map_result entry_of_row (sort_key row_time (filter (selected q) (u_ledger s))) = Inr es"
proof -
  have "length (matching q s) \<le> length (u_ledger s)" by (simp add: matching_def)
  moreover have "1 \<le> uq_limit q" using assms(2) by (auto simp: make_usage_query_def result_simps)
  ultimately have "read_pages (Suc (length (u_ledger s))) q s = Some (map read_back (matching q s))"
    using read_pages_all [OF assms(1)] assms(3) by simp
  moreover have "map_result entry_of_row (matching q s) = Inr (map read_back (matching q s))"
    by (rule map_result_Inr) (meson assms(1) matching_rows read_back(1) subsetD)
  ultimately show ?thesis using assms(3) by (simp add: matching_def after_cursor_def)
qed

text \<open>The ledger of two successive histories.\<close>

lemma ledger_of_histories:
  assumes "list_all (\<lambda>tc. call_built (snd tc)) (h @ h')"
    and "s = usage_history w ttl h empty_usage" and "t = usage_history w ttl h' s"
  shows "(\<exists>rows. u_ledger t = u_ledger s @ rows) \<and> distinct (map (\<lambda>r. (lr_kind r, lr_source r)) (u_ledger t))
    \<and> (\<forall>r. r \<in> set (u_ledger t) \<longrightarrow> (\<exists>e. entry_of_row r = Inr e \<and> ue_cost e = \<lparr>xc_amount = lr_amount r,
          xc_currency = lr_currency r, xc_known = lr_known r, xc_estimated = lr_cost_estimated r,
          xc_reported = lr_cost_reported r\<rparr> \<and> ue_dims e = lr_dims r))"
proof -
  have "ledger_grows empty_usage s" and grows: "ledger_grows s t"
    using usage_history_ledger assms by auto
  then have ok: "ledger_ok t" by (simp add: ledger_grows_def)
  have "\<exists>e. entry_of_row r = Inr e \<and> ue_cost e = \<lparr>xc_amount = lr_amount r,
          xc_currency = lr_currency r, xc_known = lr_known r, xc_estimated = lr_cost_estimated r,
          xc_reported = lr_cost_reported r\<rparr> \<and> ue_dims e = lr_dims r" if "r \<in> set (u_ledger t)" for r
  proof -
    obtain e where e: "entry_built e" "r = row_of_entry e" using ok \<open>r \<in> _\<close> by (auto simp: ledger_ok_def)
    show ?thesis
      using entry_of_row_of_entry [OF e(1)] e(2) by (auto simp: stored_form_def row_of_entry_def)
  qed
  then show ?thesis using grows ok by (auto simp: ledger_grows_def ledger_ok_def)
qed

end
