(* ===== verification/UsageScenario.thy ===== *)
theory UsageScenario
  imports UsageBudgets UsagePages
begin

text \<open>A conversation with a shared budget: a model request is held, recorded and a second one held.\<close>

definition usage_world :: world where
  "usage_world = \<lparr>redact_text = id, uuid4 = (\<lambda>n. ''v'' @ digits_of n), sha256 = (\<lambda>s. ''h'')\<rparr>"

definition usage_dims0 :: usage_dimensions where
  "usage_dims0 = \<lparr>ud_profile = ''p'', ud_channel = None, ud_conversation = Some ''c'', ud_turn = Some ''t'', ud_goal = None,
     ud_job = None, ud_child = None\<rparr>"

definition cents :: "int \<Rightarrow> exact_cost" where
  "cents n = \<lparr>xc_amount = Some (Dec n 2), xc_currency = ''USD'', xc_known = True, xc_estimated = False, xc_reported = False\<rparr>"

definition usage_budget0 :: run_budget where
  "usage_budget0 = \<lparr>b_scope = ScConversation, b_model_calls = Some 3, b_tool_calls = None, b_tokens = Some 100,
     b_cost = Some (cents 50), b_deadline = None, b_unknown = FailClosed\<rparr>"

definition usage_request0 :: "string \<Rightarrow> int \<Rightarrow> usage_request" where
  "usage_request0 k n = \<lparr>ur_key = k, ur_source = k, ur_kind = RkModel, ur_dims = usage_dims0, ur_budget = usage_budget0,
     ur_model_calls = 1, ur_tool_calls = 0, ur_tokens = n, ur_cost = cents 20, ur_reopen = False\<rparr>"

definition usage_entry0 :: usage_entry where
  "usage_entry0 = \<lparr>ue_id = ''e1'', ue_kind = RkModel, ue_source = ''m1:result'', ue_dims = usage_dims0, ue_occurred = 2,
     ue_period = ''2026-01'', ue_purpose = ''agent_action'', ue_units = [(''model_calls'', Dec 1 0), (''total_tokens'', Dec 45 0)],
     ue_cost = cents 12, ue_provider = None, ue_model = None, ue_service = None, ue_credential = None, ue_profile = None,
     ue_estimated = False, ue_trace = None, ue_meta = []\<rparr>"

definition metered0 :: "(int \<times> usage_call) list" where
  "metered0 = [(1, Reserve (usage_request0 ''m1'' 60)), (2, CommitUsage ''v0'' [usage_entry0]),
     (3, Reserve (usage_request0 ''m2'' 50))]"

definition usage_query0 :: usage_query where
  "usage_query0 = \<lparr>uq_profile = ''p'', uq_start = None, uq_end = None, uq_kind = None, uq_channel = None,
     uq_conversation = Some ''c'', uq_goal = None, uq_job = None, uq_child = None, uq_limit = 1, uq_cursor = None\<rparr>"

definition conversation_scope0 :: "(dim_column \<times> string) list" where
  "conversation_scope0 = [(ColProfile, ''p''), (ColConversation, ''c'')]"

lemma budget_ok_cases [code]:
  "budget_ok b \<longleftrightarrow> make_budget b = Inr b \<and> (case b_cost b of None \<Rightarrow> True | Some c \<Rightarrow> cost_ok c)"
  by (simp add: budget_ok_def split: option.split)

lemma scope0: "scope_values usage_dims0 ScConversation = Inr conversation_scope0"
  by code_simp

lemma budget0_ok: "budget_ok usage_budget0"
  by code_simp

lemma metered0_built: "list_all (\<lambda>tc. call_built (snd tc)) metered0"
  by code_simp

lemma metered0_fair: "fair_use usage_budget0 ScConversation conversation_scope0 usage_world 900 metered0 empty_usage"
  by code_simp

text \<open>What the history leaves: one entry, one committed and one active reservation.\<close>

lemma metered0_state:
  "map (\<lambda>s. (map lr_id (u_ledger s), map (\<lambda>r. (rv_id r, rv_state r)) (u_reservations s)))
     [usage_history usage_world 900 metered0 empty_usage]
   = [([''e1''], [(''v0'', RsCommitted), (''v1'', RsActive)])]"
  by code_simp

lemma query0_ok: "make_usage_query usage_query0 = Inr usage_query0"
  by code_simp

end
