(* ===== verification/Spec2Isabelle.thy ===== *)
theory Spec2Isabelle
  imports ScenarioCalls Recovery EffectMachine Secrecy GoalScenario ApprovalScenario UsageScenario
begin

text \<open>
  Durable hosted execution of ChulkHarness: runs (\<^verbatim>\<open>src/src/chulk/runs\<close>), goals
  (\<^verbatim>\<open>src/src/chulk/goals\<close>), approvals (\<^verbatim>\<open>src/src/chulk/approvals\<close>) and metered usage
  (\<^verbatim>\<open>src/src/chulk/usage\<close>), with what they rest on.

  A host submits runs to a SQLite store.  Workers claim them under a lease, start steps, record the
  intent, dispatch and result of external effects in a ledger, and complete, fail, pause or yield.
  Recovery settles the runs of workers that disappeared.  A parent run fans out into child runs inside
  a shared budget; when all children have ended the parent is aggregated and its completion is
  delivered through an outbox.  Above the runs stand goals: plans of dependent steps under a budget,
  approved, executed slice by slice and completed on evidence.  Beside the runs stand approvals of tool
  calls: asked for, decided, consumed at most once, and taken up by resuming the paused run.  A ledger
  records what calls cost; before a call its allowance is held against a shared budget.  Every call
  of a store is one transaction; the approval service issues several.

  \<^bold>\<open>Parts and theories.\<close>
  \<^item> \<open>Prelude\<close>: results that may raise (\<^verbatim>\<open>Inl\<close> the exception), tables as lists of rows, SQL updates and
    selections, Python's text operations.  \<open>StoreOps\<close>: operations as functions from a database to an
    exception or a value with the new database, commit and rollback, postconditions (\<open>post\<close>) and
    relations an operation keeps (\<open>keeps\<close>, locale \<open>evolution\<close>).
  \<^item> \<open>Json\<close> (\<^verbatim>\<open>redaction.py\<close>, \<^verbatim>\<open>results.py\<close>): plain data, freezing, redaction, canonical JSON, Python
    equality.  \<open>Scope\<close> (\<^verbatim>\<open>hosting/scope.py\<close>): execution scopes.  \<open>Budget\<close> (\<^verbatim>\<open>usage/models.py\<close>,
    \<^verbatim>\<open>runs/parent_child.py\<close>): exact cost, run budgets, the policy of a parent, allocation of child budgets.
  \<^item> \<open>RunModels\<close> (\<^verbatim>\<open>runs/models.py\<close>): statuses, records and the checks of their constructors.
    \<open>RunTables\<close> and \<open>RunSupport\<close> (\<^verbatim>\<open>runs/_store_support.py\<close>, the tables of \<^verbatim>\<open>storage/migrations.py\<close>): the
    database \<open>db\<close>, one list per table, inserts with their keys and references, and the helpers of the store.
  \<^item> \<open>RunLifecycle\<close> and \<open>RunSettle\<close> (\<^verbatim>\<open>runs/_store_transitions.py\<close>), \<open>RunEffects\<close>
    (\<^verbatim>\<open>runs/_store_effects.py\<close>), \<open>ParentChild\<close> and \<open>CompletionOutbox\<close>
    (\<^verbatim>\<open>runs/_store_parent_child.py\<close>): one definition per store method.
  \<^item> \<open>Machine\<close> (\<^verbatim>\<open>runs/protocols.py\<close>): the calls of the store as a datatype, \<open>execute\<close> (commit on success,
    rollback on an exception), histories of calls and reachable databases.
  \<^item> \<open>GoalModels\<close> and \<open>GoalCodec\<close> (\<^verbatim>\<open>goals/models.py\<close>): goals, steps, evidence, approvals, steering, the
    checks of their constructors, their dictionary forms.  \<open>GoalTransitions\<close> (\<^verbatim>\<open>goals/transitions.py\<close>): one
    definition per transition, and the calls of a goal as a datatype.  \<open>GoalStore\<close>, \<open>GoalRuns\<close> and \<open>GoalSlices\<close>
    (\<^verbatim>\<open>goals/store.py\<close>): the tables of goals and one definition per store method.  \<open>GoalStoreMachine\<close>: the
    calls of that store and their histories.  \<open>GoalService\<close> (\<^verbatim>\<open>goals/service.py\<close>): the audited operations.
  \<^item> \<open>Transactions\<close>: programs of several transactions, which keep what the earlier ones wrote when a later one
    raises.  \<open>Approvals\<close> (\<^verbatim>\<open>approvals/models.py\<close>, \<^verbatim>\<open>approvals/store.py\<close>): requests, the database \<open>host_db\<close> they
    share with the runs, one definition per store method.  \<open>ApprovalService\<close> (\<^verbatim>\<open>approvals/service.py\<close>): pausing,
    deciding and resuming.  \<open>ApprovalMachine\<close>: the calls of the host and their histories.
  \<^item> \<open>UsageModels\<close> (\<^verbatim>\<open>usage/models.py\<close>), \<open>UsageStore\<close> and \<open>UsageOps\<close> (\<^verbatim>\<open>usage/store.py\<close>): ledger entries, reservations,
    the check of a budget, one definition per store method.  \<open>UsageQueries\<close> (\<^verbatim>\<open>usage/query.py\<close> too): pages and
    aggregates.  \<open>UsageMachine\<close>: the calls of the ledger, their histories, and fair use of a budget.

  \<^bold>\<open>What the lemmas show.\<close>
  \<^item> \<open>StoreFacts\<close> and \<open>RunMoves\<close>: inversion and symbolic execution of every operation; what each does to the
    run table.  \<open>StoreLaw\<close>: locales \<open>run_law\<close>, \<open>effect_law\<close>, \<open>parent_law\<close>, \<open>child_law\<close>, \<open>store_law\<close>: a
    relation kept by the statements an operation may issue is kept by every operation, call and history.
    \<open>StoreHistory\<close> interprets them for the rows that never disappear, keys, references and the event log;
    \<open>Secrecy\<close> for redaction; \<open>ChildEnvelope\<close> for the budgets of children.
  \<^item> \<open>StatusMachine\<close>, \<open>StatusEffects\<close>, \<open>StatusTable\<close>: the invariant \<open>sound\<close> and the table of status changes of
    runs; the abstract lifecycle the store refines.  \<open>EffectMachine\<close>: the same for external effects.
    \<open>RunRows\<close>: locale \<open>row_law\<close>, with leases, fencing tokens, revisions and cancellation as interpretations.
    \<open>Recovery\<close>: one recovery pass settles every expired run, and fails closed.
  \<^item> \<open>CallSpecs\<close>: what single calls promise (claim, submission, receipt, retry delay).
  \<^item> \<open>GoalGraph\<close>: the search for cycles decides acyclicity.  \<open>GoalFacts\<close> and \<open>GoalMoves\<close>: well-formed goals and
    the table \<open>step_moved\<close> of what a transition does to a step.  \<open>GoalMachine\<close>: locale \<open>goal_law\<close>, with the
    discipline of steps, ended goals and the single running step as interpretations; the bound on attempts;
    progress.  \<open>GoalStoreFacts\<close> and \<open>GoalStoreMachine\<close>: the store refines histories of goals.
    \<open>GoalScenario\<close>: a concrete goal.
  \<^item> \<open>ApprovalFacts\<close>: what every transaction does to the requests (\<open>approvals_step\<close>); \<open>ApprovalMachine\<close>: what every
    history keeps and what a resumption rests on.  \<open>ApprovalScenario\<close>: a run that asks, is approved and resumes.
  \<^item> \<open>UsageFacts\<close> and \<open>UsageBudgets\<close>: what each call does to reservations and entries; locale \<open>quantity\<close>, interpreted for
    model calls, tool calls, tokens and cost.  \<open>UsagePages\<close>: the ledger only grows, and pages enumerate it.
    \<open>UsageScenario\<close>: a metered conversation.
  \<^item> \<open>Scenario\<close> and \<open>ScenarioCalls\<close>: a concrete history, evaluated call by call; the witnesses use its states.

  \<^bold>\<open>Parameters.\<close>  A \<open>world\<close> holds what is not modelled: \<^verbatim>\<open>redact_text\<close> (a composition of regular
  expressions), \<^verbatim>\<open>uuid4\<close> (the n-th identifier drawn; \<open>clean_world\<close> says identifiers carry no blanks) and
  SHA-256.  The clock is an argument of each call, in microseconds.  Texts are lists of 8-bit characters.
  There is no fuel: every loop of the modelled code runs over a list, and the depth-first search of the
  steps of a goal terminates because the path it follows never repeats an id (\<open>visit\<close>).

  \<^bold>\<open>Not modelled.\<close>  Connections, schema migration and file handling; the asynchronous mirrors of the stores and
  the worker loop around tools; callbacks of the host (progress, events, the release of a usage budget); the agent, model transports, tools, gateways, command line and the other
  stores of the repository (see the component list of the manifest).
\<close>

section \<open>Histories of the store\<close>

text \<open>
  A history of calls never deletes a row and never changes what identifies it: the rows of every
  table stay at their place, runs keep their identity, scope, input, definition and budget,
  effects keep their logical key and tool input, parents keep their policy, checkpoints, events,
  receipts and progress never change at all; revisions never decrease, a cancellation request is
  never withdrawn, and a closed parent and a delivered completion stay as they are.
\<close>
theorem history_keeps_rows: "store_grows s (run_history w h s)"
  by (rule rows.run_history_law)


text \<open>
  C2: The event log only grows: a history appends events to those of any earlier state; and the
  events of each run are numbered 1, 2, 3, ... without a gap in the order they were written.
\<close>
theorem event_log_append_only_and_dense:
  "(\<exists>vs. t_events (run_history w h s) = t_events s @ vs)
   \<and> map v_seq (events_of rid (run_history w h empty_db))
       = map int [1..<Suc (length (events_of rid (run_history w h empty_db)))]"
proof
  show "\<exists>vs. t_events (run_history w h s) = t_events s @ vs"
    using rows.run_history_law [of s w h] by (simp add: store_grows_def grows_equal)
  show "map v_seq (events_of rid (run_history w h empty_db))
       = map int [1..<Suc (length (events_of rid (run_history w h empty_db)))]"
    using reachable_well_kept [OF reachable_history [OF reachable_empty], of w h]
    by (simp only: well_kept_def log_numbered_def)
qed

section \<open>The lifecycle of runs\<close>

text \<open>
  C3: In every state a history reaches, a call changes the status of a run only as the table
  call_moves says for that call: runs start from queued or waiting for retry, complete only from
  running or by the aggregation of their children, leave unknown and the other doubtful states
  only by reconciliation, cancellation or dead-lettering, and a run waiting for children moves
  only when its parent row is settled. No run disappears.
\<close>
theorem status_changes_follow_the_table:
  assumes "clean_world w" and "reachable w s" and "r \<in> set (t_runs s)"
  shows "\<exists>q\<in>set (t_runs (execute w (now, c) s)).
    r_id q = r_id r \<and> (r_status q = r_status r \<or> call_moves c (r_status r) (r_status q))"
  using execute_advances [OF assms(1) reachable_sound [OF assms(1,2)], of now c] assms(3)
  by (auto simp: evolves_def)

theorem status_changes_follow_the_table_witness:
  "\<exists>q\<in>set (t_runs completed_db). r_id q = ''r1''
     \<and> (r_status q = RunRunning \<or> call_moves (Complete sc0 cl0 [(''ok'', PBool True)]) RunRunning (r_status q))"
  using status_changes_follow_the_table [OF clean_w0 reachable_stepped, of "hd (t_runs stepped_db)" 9
      "Complete sc0 cl0 [(''ok'', PBool True)]"]
  by (simp add: execute_step [OF completed_step]) (simp add: stepped_db_def run_r1_def)

text \<open>
  C4: A completed run is final: whatever calls follow (cancellation, dead-lettering,
  reconciliation of one of its effects, a stale worker), it is still completed.
\<close>
theorem completed_runs_stay_completed:
  assumes "clean_world w" and "reachable w s" and "statuses s i = Some RunCompleted"
  shows "statuses (run_history w h s) i = Some RunCompleted"
  by (rule history_completed [OF assms(1) reachable_sound [OF assms(1,2)] assms(3)])

theorem completed_runs_stay_completed_witness:
  "\<forall>h. statuses (run_history w0 h completed_db) ''r1'' = Some RunCompleted"
  by (intro allI completed_runs_stay_completed [OF clean_w0 reachable_completed])
    (simp add: statuses_def completed_db_def run_r1_def)



text \<open>
  C6: In every reachable state a run waits for its children exactly while its parent row is open:
  the two tables never disagree, whatever was cancelled, claimed or aggregated.
\<close>
theorem waiting_runs_have_open_parents:
  assumes "clean_world w" and "reachable w s"
  shows "(\<exists>r\<in>set (t_runs s). r_id r = i \<and> r_status r = RunWaitingForChildren)
    \<longleftrightarrow> (\<exists>p\<in>set (t_parents s). p_run p = i \<and> p_status p = AggOpen)"
  using reachable_sound [OF assms] unfolding sound_def parents_wait_def by metis

theorem waiting_runs_have_open_parents_witness:
  "\<exists>r\<in>set (t_runs child_db). r_id r = ''r1'' \<and> r_status r = RunWaitingForChildren"
  using waiting_runs_have_open_parents [OF clean_w0 reachable_child, of "''r1''"]
  by (simp add: child_db_def parent_r1_def)

text \<open>
  C7: While an external effect has an unknown outcome, its run is unknown, failed, cancelled or
  dead-lettered: it is neither completed nor running nor claimable until the effect is reconciled.
\<close>
theorem unknown_effects_keep_runs_in_doubt:
  assumes "clean_world w" and "reachable w s" and "e \<in> set (t_effects s)" and "e_status e = EffectUnknown"
    and "r \<in> set (t_runs s)" and "r_id r = e_run e"
  shows "r_status r \<in> {RunUnknown, RunFailed, RunCancelled, RunDeadLetter}"
  using reachable_sound [OF assms(1,2)] assms(3-) unfolding sound_def doubts_kept_def unknown_at_def by metis

theorem unknown_effects_keep_runs_in_doubt_witness:
  "r_status (hd (t_runs unknown_db)) \<in> {RunUnknown, RunFailed, RunCancelled, RunDeadLetter}"
  by (rule unknown_effects_keep_runs_in_doubt [OF clean_w0 reachable_unknown, of "hd (t_effects unknown_db)"])
    (simp_all add: unknown_db_def run_r1_def effect_u5_def)

section \<open>Leases and fencing\<close>

text \<open>
  C8: In every reachable state a run has a lease token, a worker and a lease end exactly while it
  is running: every way out of running gives the lease up, and only a claim sets it.
\<close>
theorem lease_columns_agree_with_status:
  assumes "clean_world w" and "reachable w s" and "r \<in> set (t_runs s)"
  shows "(r_status r = RunRunning \<longleftrightarrow> r_token r \<noteq> None) \<and> (r_worker r = None \<longleftrightarrow> r_token r = None)
    \<and> (r_lease r = None \<longleftrightarrow> r_token r = None)"
  using leases.reached [OF assms(1,2)] assms(3)
  by (simp add: preserves_def lease_rows_def lease_row_def empty_db_def)

theorem lease_columns_agree_with_status_witness:
  "r_token (hd (t_runs executing_db)) \<noteq> None \<and> r_lease (hd (t_runs executing_db)) \<noteq> None"
  using lease_columns_agree_with_status [OF clean_w0 reachable_executing, of "hd (t_runs executing_db)"]
  by (simp add: executing_db_def run_r1_def)

text \<open>
  C9: Fencing: once a run no longer holds the token of a claim (the run finished, was requeued,
  expired or was claimed again), no later history makes that claim valid again, provided uuid4
  never repeats.
\<close>
theorem lost_lease_never_regained:
  assumes "clean_world w" and "inj (uuid4 w)" and "reachable w s"
    and "k < draws s" and "c_token c = uuid4 w k"
    and "\<forall>r\<in>set (t_runs s). r_id r = c_run c \<longrightarrow> r_token r \<noteq> Some (c_token c)"
  shows "\<not> leased c now (run_history w h s)"
proof -
  have "lost w (c_run c) k s" using assms(4-) by (simp add: lost_def)
  then have "lost w (c_run c) k (run_history w h s)"
    using fencing.history [OF assms(1) reachable_sound [OF assms(1,3)], of "c_run c" k h] assms(2)
    by (simp add: preserves_def)
  then show ?thesis
    using assms(5) by (auto simp: lost_def leased_def holds_lease_def dest: run_of_in)
qed

theorem lost_lease_never_regained_witness: "\<forall>now h. \<not> leased cl0 now (run_history w0 h completed_db)"
proof (intro allI, rule lost_lease_never_regained [OF clean_w0 inj_w0 reachable_completed, of 1])
  show "c_token cl0 = uuid4 w0 1" by code_simp
qed (simp_all add: completed_db_def run_r1_def cl0_def)



text \<open>
  C11: Optimistic concurrency: revisions never decrease, and as long as the revision of a run is
  the same its status, its lease token and its worker are the same.
\<close>
theorem revision_fixes_status_and_holder:
  assumes "clean_world w" and "reachable w s" and "r \<in> set (t_runs s)"
  shows "\<exists>q\<in>set (t_runs (run_history w h s)). r_id q = r_id r \<and> r_rev r \<le> r_rev q
    \<and> (r_rev q = r_rev r \<longrightarrow> r_status q = r_status r \<and> r_token q = r_token r \<and> r_worker q = r_worker r)"
  using revisions.history [OF assms(1) reachable_sound [OF assms(1,2)], of h] assms(3)
  unfolding rows_later_def row_later_def by blast

theorem revision_fixes_status_and_holder_witness:
  "\<forall>h. \<exists>q\<in>set (t_runs (run_history w0 h executing_db)).
     r_id q = ''r1'' \<and> (if r_rev q = 4 then r_status q = RunRunning else 4 < r_rev q)"
proof
  fix h
  let ?r = "hd (t_runs executing_db)"
  have r: "?r \<in> set (t_runs executing_db)" "r_id ?r = ''r1''" "r_rev ?r = 4" "r_status ?r = RunRunning"
    by (simp_all add: executing_db_def run_r1_def)
  obtain q where q: "q \<in> set (t_runs (run_history w0 h executing_db))" "r_id q = r_id ?r"
      "r_rev ?r \<le> r_rev q" "r_rev q = r_rev ?r \<longrightarrow> r_status q = r_status ?r"
    using revision_fixes_status_and_holder [OF clean_w0 reachable_executing r(1), of h] by blast
  have "r_id q = ''r1''" and "if r_rev q = 4 then r_status q = RunRunning else 4 < r_rev q"
    using q(2-4) unfolding r(2-4) by simp_all
  with q(1) show "\<exists>q\<in>set (t_runs (run_history w0 h executing_db)).
     r_id q = ''r1'' \<and> (if r_rev q = 4 then r_status q = RunRunning else 4 < r_rev q)" by blast
qed

text \<open>
  C12: Once cancellation of a run that is not completed has been requested, the request stays, the
  run never completes, and if no worker holds it then no worker ever gets it.
\<close>
theorem cancellation_requests_stop_runs:
  assumes "clean_world w" and "reachable w s" and "r \<in> set (t_runs s)" and "r_cancel r"
    and "r_status r \<noteq> RunCompleted" and "q \<in> set (t_runs (run_history w h s))" and "r_id q = r_id r"
  shows "r_cancel q \<and> r_status q \<noteq> RunCompleted \<and> (r_status r \<noteq> RunRunning \<longrightarrow> r_status q \<noteq> RunRunning)"
proof -
  note sound = reachable_sound [OF assms(1,2)]
  have "x = r" if "x \<in> set (t_runs s)" "r_id x = r_id r" for x
    using same_row [of s r x] sound assms(3) that by (simp add: sound_def)
  then have "stopping (r_id r) (r_status r \<noteq> RunRunning) s"
    using assms(3-5) by (auto simp: stopping_def)
  then show ?thesis
    using cancellation.history [OF assms(1) sound, of "r_id r" "r_status r \<noteq> RunRunning" h] assms(6,7)
    by (auto simp: preserves_def stopping_def)
qed

theorem cancellation_requests_stop_runs_witness:
  "\<forall>h. filter (\<lambda>q. r_id q = ''r1'' \<and> r_status q = RunCompleted) (t_runs (run_history w0 h stopping_db)) = []"
  using cancellation_requests_stop_runs [OF clean_w0 reachable_stopping, of "hd (t_runs stopping_db)"]
  by (auto simp: stopping_db_def run_r1_def filter_empty_conv)

section \<open>Scopes, budgets, redaction\<close>

text \<open>
  C13: Two scopes with finitely many grants have the same canonical JSON text, whose hash is the
  scope key, only if they are equal: no two authorities share a canonical text.
\<close>
theorem canonical_json_determines_scope:
  assumes "finite (sc_grants s)" and "finite (sc_grants t)"
  shows "canonical_json s = canonical_json t \<longleftrightarrow> s = t"
  using assms by (rule canonical_json_inj)

definition plain_scope :: exec_scope where
  "plain_scope = \<lparr>sc_tenant = ''t'', sc_workspace = ''w'', sc_actor = None, sc_agent = ''a'',
     sc_version = ''1'', sc_run = ''r1'', sc_conversation = None, sc_trigger = None, sc_channel = None,
     sc_parent = None, sc_grants = {''read''}\<rparr>"

theorem canonical_json_determines_scope_witness:
  "canonical_json plain_scope \<noteq> canonical_json (plain_scope\<lparr>sc_run := ''r2''\<rparr>)"
  using canonical_json_determines_scope [of plain_scope "plain_scope\<lparr>sc_run := ''r2''\<rparr>"]
  by (simp add: plain_scope_def)

text \<open>
  After redaction every value stored under a key that names a secret is the marker, at any depth of
  nested mappings and sequences, whatever the redaction of free text does.
\<close>
theorem redaction_covers_every_depth: "secrets_redacted (redact_data rt v)"
  by (rule redact_data_secrets)

text \<open>
  C14: In every state a history reaches, the payload of every logged event is redacted: at any
  depth, what is stored under a key that names a secret is the marker, whatever callers passed to
  the store.
\<close>
theorem event_payloads_hold_no_secret:
  "list_all (\<lambda>v. secrets_redacted (PDict (v_payload v))) (t_events (run_history w h empty_db))"
  using reachable_redacted [OF reachable_history [OF reachable_empty], of w h] by (simp add: log_redacted_def list_all_iff)

text \<open>
  A scope that was constructed is read back from its dictionary form exactly as it was.
\<close>
theorem scope_dict_round_trip:
  assumes "scope_ok s" and "finite (sc_grants s)"
  shows "scope_from_dict (scope_to_dict s) = Inr s"
  using assms by (rule scope_from_to_dict)

theorem scope_dict_round_trip_witness: "scope_from_dict (scope_to_dict sc0) = Inr sc0"
proof (rule scope_dict_round_trip)
  show "scope_ok sc0" by (rule make_scope_ok [of sc0]) code_simp
  show "finite (sc_grants sc0)" by (simp add: sc0_def)
qed

text \<open>
  The policy of a parent run, with its budget and exact cost, is read back from the dictionary it is
  stored as exactly as it was constructed.
\<close>
theorem policy_dict_round_trip:
  assumes "policy_ok p"
  shows "policy_from_dict (policy_to_dict p) = Inr p \<and> run_budget_from_dict (budget_to_dict (pp_budget p)) = Inr (pp_budget p)"
  using assms policy_from_to_dict run_budget_from_to_dict by (simp add: policy_ok_def)

theorem policy_dict_round_trip_witness: "policy_from_dict (policy_to_dict policy0) = Inr policy0"
  using policy_dict_round_trip [of policy0]
  by (simp add: policy_ok_def budget_ok_def) (simp add: policy0_def budget0_def make_policy_def make_budget_def
      budget_limited_def positive_or_none_def result_simps)

text \<open>
  C15: However scopes are derived from a root scope, child by child and conversation by
  conversation, they stay in its tenant, workspace and actor, hold no grant the root does not
  hold, and are well formed.
\<close>
theorem derived_scopes_narrow:
  assumes "derived_scope origin s" and "scope_ok origin"
  shows "sc_tenant s = sc_tenant origin \<and> sc_workspace s = sc_workspace origin \<and> sc_actor s = sc_actor origin
    \<and> sc_grants s \<subseteq> sc_grants origin \<and> scope_ok s"
  using assms by (rule derived_scope_narrows)

theorem derived_scopes_narrow_witness:
  "case scope_child plain_scope ''r2'' (Some ''b'') None None None None (Some {''read''}) of
     Inl e \<Rightarrow> False | Inr s \<Rightarrow> sc_tenant s = ''t'' \<and> sc_grants s \<subseteq> {''read''}"
proof -
  have "case scope_child plain_scope ''r2'' (Some ''b'') None None None None (Some {''read''}) of
      Inl e \<Rightarrow> False | Inr s \<Rightarrow> True"
    by code_simp
  then obtain s where s: "scope_child plain_scope ''r2'' (Some ''b'') None None None None (Some {''read''}) = Inr s"
    by (auto split: sum.splits)
  have "scope_ok plain_scope" by (rule make_scope_ok [of plain_scope]) code_simp
  with derived_scopes_narrow [OF derived_child [OF derived_self s]] show ?thesis
    by (simp add: s) (simp add: plain_scope_def)
qed

section \<open>Parents and children\<close>



text \<open>
  C17: The completion of a parent is delivered at most once: a delivered outbox row stays exactly
  as it is under every further history, so no worker claims it again and no reconciliation reopens
  it.
\<close>
theorem delivered_completions_are_final:
  assumes "b \<in> set (t_outbox s)" and "o_status b = CompDelivered"
  shows "b \<in> set (t_outbox (run_history w h s))"
proof -
  obtain us vs where "t_outbox (run_history w h s) = us @ vs" and "list_all2 outbox_frame\<^sup>*\<^sup>* (t_outbox s) us"
    using rows.run_history_law [of s w h] unfolding store_grows_def grows_def by blast
  then obtain q where "q \<in> set (t_outbox (run_history w h s))" and "outbox_frame\<^sup>*\<^sup>* b q"
    using list_all2_rows(1) [OF _ assms(1)] by fastforce
  then show ?thesis
    using assms(2) by (auto elim: converse_rtranclpE simp: outbox_frame_def outbox_edge_def)
qed

theorem delivered_completions_are_final_witness:
  "\<forall>h. hd (t_outbox delivered_db) \<in> set (t_outbox (run_history w0 h delivered_db))"
  by (intro allI delivered_completions_are_final) (simp_all add: delivered_db_def)

section \<open>External effects and recovery\<close>



text \<open>
  C19: Once an effect is completed or cancelled it keeps that status under every further history:
  a retried step, a recovered run or a late reconciliation never dispatches the same logical
  effect again.
\<close>
theorem completed_effects_are_never_redone:
  assumes "clean_world w" and "reachable w s" and "e \<in> set (t_effects s)"
    and "e_status e \<in> {EffectCompleted, EffectCancelled}"
  shows "\<exists>q\<in>set (t_effects (run_history w h s)). e_id q = e_id e \<and> e_status q = e_status e"
  by (rule history_settled [OF assms(1) reachable_sound [OF assms(1,2)] assms(3,4)])

theorem completed_effects_are_never_redone_witness:
  "\<forall>h. \<exists>q\<in>set (t_effects (run_history w0 h effected_db)). e_id q = ''u5'' \<and> e_status q = EffectCompleted"
proof
  fix h
  show "\<exists>q\<in>set (t_effects (run_history w0 h effected_db)). e_id q = ''u5'' \<and> e_status q = EffectCompleted"
    using completed_effects_are_never_redone [OF clean_w0 reachable_effected, of "hd (t_effects effected_db)" h]
    by (simp add: effected_db_def effect_u5_def)
qed

text \<open>
  C20: One unscoped recovery pass is enough: when it returns, no run is left running under a lease
  that ended before the pass.
\<close>
theorem recovery_settles_expired_runs:
  assumes "reachable w s" and "reconcile_expired w now None s = Inr (xs, s')" and "r \<in> set (t_runs s')"
    and "r_status r = RunRunning" and "r_lease r = Some t"
  shows "now \<le> t"
  using reconcile_expired_settles [OF reachable_well_kept [OF assms(1)] assms(2)] assms(3-)
  by (auto simp: expired_def not_less)

theorem recovery_settles_expired_runs_witness:
  "\<exists>xs s'. reconcile_expired w0 60000003 None executing_db = Inr (xs, s')
     \<and> filter (\<lambda>r. r_status r = RunRunning \<and> r_lease r = Some 60000002) (t_runs s') = []"
proof -
  obtain xs s' where "reconcile_expired w0 60000003 None executing_db = Inr (xs, s')"
    using crashed_call by (cases "reconcile_expired w0 60000003 None executing_db") auto
  then show ?thesis using recovery_settles_expired_runs [OF reachable_executing] by (fastforce simp: filter_empty_conv)
qed

text \<open>
  C21: Recovery fails closed: when the lease of a run has ended after an effect was dispatched
  whose receipt was not recorded, recovery makes the run unknown; it is never put back in the
  queue, not even for a goal or when cancellation was requested.
\<close>
theorem recovery_fails_closed:
  assumes "reconcile_one w now sc row s = Inr (x, s')" and "run_of (r_id row) s = Some r"
    and "still_expired r row now" and "e \<in> set (t_effects s)" and "e_run e = r_id row"
    and "e_status e \<in> {EffectExecuting, EffectUnknown, EffectCompleted}"
    and "e_status e = EffectUnknown \<or> (\<forall>x\<in>set (t_results s). x_effect x \<noteq> e_id e)"
    and "q \<in> set (t_runs s')" and "r_id q = r_id row"
  shows "r_status q = RunUnknown \<and> r_token q = None"
proof -
  have "in_doubt (r_id row) s" using assms(4-7) by (auto simp: in_doubt_def)
  from postD [OF reconcile_one_in_doubt [OF this] assms(1)]
  have "moves_runs (r_id row) RunUnknown (t_runs s) (t_runs s')" using assms(2,3) by auto
  then show ?thesis
    using list_all2_rows(2) [OF _ assms(8)] assms(9)
    unfolding moves_runs_def by (fastforce simp: settles_def same_identity_def split: if_splits)
qed

theorem recovery_fails_closed_witness:
  "\<exists>x s'. reconcile_one w0 60000003 None (hd (t_runs executing_db)) executing_db = Inr (x, s')
     \<and> filter (\<lambda>q. r_id q = ''r1'' \<and> r_status q \<noteq> RunUnknown) (t_runs s') = []"
proof -
  let ?row = "hd (t_runs executing_db)"
  have "case reconcile_one w0 60000003 None ?row executing_db of Inl e \<Rightarrow> False | Inr xs \<Rightarrow> True"
    by code_simp
  then obtain x s' where one: "reconcile_one w0 60000003 None ?row executing_db = Inr (x, s')"
    by (auto split: sum.splits)
  have "r_status q = RunUnknown \<and> r_token q = None" if "q \<in> set (t_runs s')" "r_id q = r_id ?row" for q
    by (rule recovery_fails_closed [OF one, of ?row "hd (t_effects executing_db)"])
      (use that in \<open>simp_all add: executing_db_def empty_db_def run_r1_def effect_u5_def still_expired_def\<close>)
  then have "r_status q = RunUnknown" if "q \<in> set (t_runs s')" "r_id q = ''r1''" for q
    using that by (simp add: executing_db_def run_r1_def)
  then show ?thesis using one by (auto simp: filter_empty_conv)
qed

text \<open>
  The first receipt recorded for an effect is what the store returns for it afterwards, with its keys in
  canonical order, and it passes the digest check.
\<close>
theorem receipts_are_read_back:
  assumes "record_effect_result w now scope c i result s = Inr (d, s')" and "result_of i s = None"
  shows "effect_result w scope i s' = Inr (Some (sorted_dict result), s')"
  using assms by (rule effect_result_recorded)

theorem receipts_are_read_back_witness:
  "effect_result w0 sc0 ''u5'' receipt_db = Inr (Some (sorted_dict [(''ok'', PBool True)]), receipt_db)"
  by (rule receipts_are_read_back [OF receipt_call]) (simp add: result_of_def executing_db_def empty_db_def)

section \<open>Single calls\<close>

text \<open>
  C22: A successful claim takes the oldest claimable run of the scope, ordered by creation time
  and identifier: that row alone changes, becoming running under the worker with a token never
  drawn before and a lease that ends the requested seconds later; every other run stays as it is.
\<close>
theorem claims_take_the_oldest_run:
  assumes "claim_run w now scope worker n rid s = Inr (Some c, s')"
  shows "\<exists>target row. claim_target scope rid = Inr target \<and> row \<in> set (t_runs s)
    \<and> claimable scope target now s row
    \<and> (\<forall>q\<in>set (t_runs s). claimable scope target now s q \<longrightarrow> (r_created row, r_id row) \<le> (r_created q, r_id q))
    \<and> c_run c = strip (r_id row) \<and> c_token c = strip (uuid4 w (draws s)) \<and> c_lease c = now + n * 1000000
    \<and> t_runs s' = map (\<lambda>q. if q = row then
         claimed_row (uuid4 w (draws s)) (strip worker) (now + n * 1000000) (r_rev row + 1) now row else q) (t_runs s)"
  using assms by (rule claim_run_spec)

theorem claims_take_the_oldest_run_witness:
  "\<exists>row\<in>set (t_runs queued_db). c_run cl0 = strip (r_id row)"
  using claims_take_the_oldest_run [OF claimed_call] by blast



text \<open>
  Submitting again under a key the workspace knows writes nothing: the call returns the known run, and only
  when input, definition and budget are those of the first submission.
\<close>
theorem resubmission_returns_the_known_run:
  assumes "submit w now scope sub actor s = Inr (v, s')"
    and "find (\<lambda>r. r_tenant r = sc_tenant scope \<and> r_workspace r = sc_workspace scope
                 \<and> r_idem r = su_key sub) (t_runs s) = Some row"
  shows "s' = s \<and> rr_id v = strip (r_id row) \<and> rr_input v = su_input sub \<and> rr_def v = su_def sub
    \<and> py_eq (PDict (rr_budget v)) (PDict (su_budget sub))"
  using assms by (rule submit_known)

theorem resubmission_returns_the_known_run_witness:
  "\<exists>v. submit w0 9 sc0 su0 ''host'' queued_db = Inr (v, queued_db) \<and> rr_id v = strip ''r1''"
proof -
  obtain v s' where v: "submit w0 9 sc0 su0 ''host'' queued_db = Inr (v, s')"
    using resubmit_call by (cases "submit w0 9 sc0 su0 ''host'' queued_db") auto
  from resubmission_returns_the_known_run [OF this, of "hd (t_runs queued_db)"] v show ?thesis
    by (simp add: queued_db_def run_r1_def sc0_def su0_def)
qed

section \<open>Goals and their steps\<close>

text \<open>
  C24: The depth-first search that rejects cycles terminates and decides exactly what it should:
  over known dependencies it accepts the steps of a goal when and only when the dependency
  relation is acyclic, and raises ValueError otherwise.
\<close>
theorem goal_graphs_are_acyclic:
  assumes "distinct (map gs_id steps)" and "\<forall>s\<in>set steps. set (gs_depends s) \<subseteq> gs_id ` set steps"
  shows "reject_cycles steps = (if acyclic (depends_on steps) then Inr () else Inl ValueError)"
  by (rule reject_cycles_acyclic [OF assms])

theorem goal_graphs_are_acyclic_witness: "acyclic (depends_on (g_steps goal0))"
proof -
  have "reject_cycles (g_steps goal0) = Inr ()" by code_simp
  then show ?thesis
    using goal_graphs_are_acyclic [of "g_steps goal0"] by (simp add: goal0_def split: if_splits)
qed



text \<open>
  C26: In every history of a goal a step is ready, running, blocked, uncertain or completed only
  when all its dependencies are completed or skipped; a completed step has evidence for each of
  its criteria; a step of high risk has been tried only after an approval of that step; an open
  step has attempts left.
\<close>
theorem steps_follow_their_discipline:
  assumes "fresh_goal g" and "h = goal_history cs g" and "s \<in> set (g_steps h)"
  shows "(gs_status s \<in> {GReady, GRunning, GBlocked, GCompleted, GUncertain} \<longrightarrow>
           (\<forall>d\<in>set (gs_depends s). \<exists>t\<in>set (g_steps h). gs_id t = d \<and> gs_status t \<in> {GCompleted, GSkipped}))
    \<and> (gs_status s = GCompleted \<longrightarrow> set (gs_criteria s) \<subseteq> evidenced_ids h)
    \<and> (gs_risk s = RiskHigh \<and> 0 < gs_attempt s \<longrightarrow> step_is_approved h (gs_id s))
    \<and> (gs_status s \<in> {GPending, GReady} \<longrightarrow> gs_attempt s < gs_max s)"
proof -
  have "disciplined h s"
    using discipline.history [of g cs] fresh_goalD(1,2) [OF assms(1)] assms(2,3)
    by (simp add: goal_disciplined_def list_all_iff)
  then show ?thesis unfolding disciplined_def satisfied_ids_def by blast
qed

theorem steps_follow_their_discipline_witness:
  "step_is_approved (goal_history calls0 goal0) ''ship''"
proof -
  obtain s where "s \<in> set (g_steps (goal_history calls0 goal0))" "gs_risk s = RiskHigh" "gs_attempt s = 1"
      "gs_id s = ''ship''"
    using arg_cong [OF completed0(3), of "\<lambda>xs. (''ship'', RiskHigh, 1) \<in> set xs"] by auto
  then show ?thesis using steps_follow_their_discipline [OF fresh0 refl, of s calls0] by simp
qed

text \<open>
  C27: A goal is completed only when every step is completed or skipped and every success
  criterion is named by recorded evidence, and this stays so after any further call.
\<close>
theorem completed_goals_are_backed_by_evidence:
  assumes "fresh_goal g" and "h = goal_history cs g" and "g_status h = GoalCompleted"
  shows "(\<forall>s\<in>set (g_steps h). gs_status s \<in> {GCompleted, GSkipped})
    \<and> (\<forall>c\<in>set (g_criteria h). \<exists>e\<in>set (g_evidence h). gc_id c \<in> set (ge_criteria e))"
proof -
  have "ended_goal h"
    using ended.history [of g cs] fresh_goalD(1,3) [OF assms(1)] assms(2) by (simp add: list_all_iff)
  then show ?thesis
    using assms(3) by (auto simp: ended_goal_def missing_ids_def evidenced_ids_def filter_empty_conv)
qed

theorem completed_goals_are_backed_by_evidence_witness:
  "\<exists>e\<in>set (g_evidence (goal_history calls0 goal0)). ''ship-criterion-1'' \<in> set (ge_criteria e)"
proof -
  obtain c where "c \<in> set (g_criteria (goal_history calls0 goal0))" "gc_id c = ''ship-criterion-1''"
    using arg_cong [OF completed0(2), of "\<lambda>xs. ''ship-criterion-1'' \<in> set xs"] by auto
  then show ?thesis
    using completed_goals_are_backed_by_evidence [OF fresh0 refl completed0(1)] by metis
qed

text \<open>
  C28: A completed or cancelled goal keeps that status under every later transition: late workers,
  recovery of a lost lease, a budget change or a cancellation cannot reopen it.
\<close>
theorem ended_goals_are_final:
  assumes "fresh_goal g" and "g_status (goal_history cs g) = st" and "st \<in> {GoalCompleted, GoalCancelled}"
  shows "g_status (goal_history (cs @ ds) g) = st"
proof -
  let ?h = "goal_history cs g"
  have "ended_goal ?h \<and> goal_ok ?h"
    using ended.history [of g cs] fresh_goalD(1,3) [OF assms(1)] by (simp add: list_all_iff)
  then have "settled_as st (goal_history ds ?h)"
    using settled.history [of ?h st ds] assms(2,3) by (simp add: settled_as_def list_all_iff)
  then show ?thesis by (simp add: settled_as_def goal_history_def)
qed

theorem ended_goals_are_final_witness:
  "\<forall>ds. g_status (goal_history (calls0 @ ds) goal0) = GoalCompleted"
  by (intro allI ended_goals_are_final [OF fresh0 completed0(1)]) simp

text \<open>
  C29: As long as no change of the budget reopens a blocked step, at most one step of a goal is
  running at any time.
\<close>
theorem one_step_at_a_time:
  assumes "fresh_goal g" and "list_all (\<lambda>c. \<not> reopens c) cs"
  shows "length (filter (\<lambda>s. gs_status s = GRunning) (g_steps (goal_history cs g))) \<le> 1"
  using single.history [of g cs] fresh_goalD(1,4) [OF assms(1)] assms(2)
    one_running_length [of "goal_history cs g"] by (simp add: running_steps_def)

theorem one_step_at_a_time_witness:
  "length (filter (\<lambda>s. gs_status s = GRunning) (g_steps (goal_history calls1 goal1))) \<le> 1"
  by (rule one_step_at_a_time [OF fresh1]) (simp add: calls1_def)





section \<open>The store of goals\<close>



text \<open>
  C33: The event log of a stored goal holds exactly one event for each of its revisions 0, 1, ...,
  up to its current one, in order, whatever calls were refused or repeated.
\<close>
theorem goal_events_number_revisions:
  assumes "\<forall>pc\<in>set h. admits (\<lambda>g. True) (snd (snd pc))" and "s = goal_store_history w h empty_goal_db"
    and "r \<in> set (d_goals s)"
  shows "map gv_revision (filter (\<lambda>e. gv_goal e = gr_id r) (d_events s)) = [0..gr_revision r]"
  using goal_store_refines(1) [where C = "\<lambda>g. True", OF assms] assms(3)
  by (simp add: store_sound_def revisions_of_def)

theorem goal_events_number_revisions_witness:
  "map gv_revision (filter (\<lambda>e. gv_goal e = ''goal'') (d_events stored0)) = [0..2]"
proof -
  have "\<forall>pc\<in>set store_calls0. admits (\<lambda>g. True) (snd (snd pc))"
    using fresh_goalD(1) [OF fresh0] by (simp add: store_calls0_def admits_def)
  from goal_events_number_revisions [OF this stored0_def stored0(3)] show ?thesis by (simp add: stored0)
qed



text \<open>
  C35: The JSON form of a goal reads back as the same goal: criteria, steps, budget, evidence,
  approvals, steering, linked resources, times, plan and fulfilled instructions are all kept.
\<close>
theorem goal_dict_round_trip:
  assumes "goal_built g"
  shows "goal_from_dict (goal_to_dict g) = Inr g"
  by (rule goal_from_to_dict [OF assms])

theorem goal_dict_round_trip_witness: "goal_from_dict (goal_to_dict goal0) = Inr goal0"
  by (rule goal_dict_round_trip [OF built0])

section \<open>Approvals\<close>

text \<open>
  C36: Whatever the host does, an approval request keeps its subject; once it is no longer open it
  never changes again, so it is consumed at most once; a consumed request was approved and both
  decided and consumed before it expired; and a tool call never has two open requests.
\<close>
theorem approvals_are_granted_once:
  assumes "clean_world w" and "a \<in> set (h_approvals (host_history w h empty_host))"
    and "t = host_history w h' (host_history w h empty_host)"
  shows "\<exists>b. b \<in> set (h_approvals t) \<and> ap_id b = ap_id a \<and> call_of b = call_of a \<and> ap_effect b = ap_effect a
    \<and> ap_expires b = ap_expires a \<and> (\<not> approval_open (ap_status a) \<longrightarrow> b = a)
    \<and> (ap_status b = ApConsumed \<longrightarrow> ap_decision b = Some ApproveIt
         \<and> (\<exists>d c. ap_decided b = Some d \<and> ap_consumed b = Some c \<and> d < ap_expires b \<and> c < ap_expires b))
    \<and> (\<forall>c. c \<in> set (h_approvals t) \<and> approval_open (ap_status c) \<and> approval_open (ap_status b)
         \<and> call_of c = call_of b \<longrightarrow> c = b)"
  unfolding assms(3)
  by (rule request_granted_once [OF host_history_ok [OF assms(1)] host_history_step [OF assms(1)] assms(2)])

theorem approvals_are_granted_once_witness:
  "\<exists>b. b \<in> set (h_approvals (host_history w0 granted0 (host_history w0 (begun0 @ asked0) empty_host)))
    \<and> ap_id b = ''u5'' \<and> call_of b = call_of asked_row"
  using approvals_are_granted_once [OF clean_w0 asked0_there refl, of granted0] by (auto simp: asked_row_def)

text \<open>
  C37: When the service reports that a run resumes, the approval it resumes on is consumed: a
  person approved it, it had not expired when it was spent, and the tool, its version, its schema,
  its arguments and the policy that were validated are the approved ones, with authority and
  credentials still in place.
\<close>
theorem resumptions_rest_on_consumed_approvals:
  assumes "clean_world w" and "resume_approval w t scope i v actor (host_history w h empty_host) = (Inr out, u)"
    and "ro_kind out = OutResumed"
  shows "\<exists>a. a \<in> set (h_approvals u) \<and> ap_id a = i \<and> ap_status a = ApConsumed \<and> ap_decision a = Some ApproveIt
    \<and> (\<exists>c. ap_consumed a = Some c \<and> c < ap_expires a)
    \<and> av_tool v = strip (ap_tool a) \<and> av_tool_version v = strip (ap_tool_version a)
    \<and> av_schema v = strip (ap_schema a) \<and> av_args v = strip (ap_args a) \<and> av_policy v = strip (ap_policy a)
    \<and> av_authority v \<and> av_credentials v"
  by (rule resumption_rests_on_consumption [OF assms])

theorem resumptions_rest_on_consumed_approvals_witness:
  "\<exists>a. ap_id a = ''u5'' \<and> ap_status a = ApConsumed \<and> strip (ap_tool a) = ''pay''
    \<and> a \<in> set (h_approvals (snd (resume_approval w0 6 sc0 ''u5'' validation0 ''boss''
           (host_history w0 (begun0 @ asked0 @ granted0) empty_host))))"
proof -
  obtain out u where run: "resume_approval w0 6 sc0 ''u5'' validation0 ''boss''
      (host_history w0 (begun0 @ asked0 @ granted0) empty_host) = (Inr out, u)" "ro_kind out = OutResumed"
    using resumed0_there by blast
  from resumptions_rest_on_consumed_approvals [OF clean_w0 run] run show ?thesis
    by (auto simp: validation0_def)
qed

section \<open>Usage and budgets\<close>





text \<open>
  C40: Following the cursors of a query from page to page ends, and yields every entry the query
  selects exactly once, in the order of time and identifier, whatever the size of the pages.
\<close>
theorem pages_enumerate_the_ledger:
  assumes "list_all (\<lambda>tc. call_built (snd tc)) h" and "s = usage_history w ttl h empty_usage"
    and "make_usage_query q = Inr q" and "uq_cursor q = None"
  shows "\<exists>es. read_pages (Suc (length (u_ledger s))) q s = Some es
    \<and> map_result entry_of_row (sort_key row_time (filter (selected q) (u_ledger s))) = Inr es"
  using pages_of_query [OF _ assms(3,4)] usage_history_ledger [OF assms(1)] assms(2) by (simp add: ledger_grows_def)

theorem pages_enumerate_the_ledger_witness:
  "\<exists>es. read_pages (Suc (length (u_ledger (usage_history usage_world 900 metered0 empty_usage)))) usage_query0
     (usage_history usage_world 900 metered0 empty_usage) = Some es"
proof -
  have "uq_cursor usage_query0 = None" by (simp add: usage_query0_def)
  from pages_enumerate_the_ledger [OF metered0_built refl query0_ok this] show ?thesis by blast
qed

end
